(* ===== verification/Prelude.thy ===== *)
theory Prelude
  imports Complex_Main "HOL-Library.AList" "HOL-Library.Multiset" "HOL-Library.Sublist"
begin

text \<open>
  Shared vocabulary of the development: strings as the programs handle them, the string
  functions of the two standard libraries that the sources use, and generic facts about
  lists and association lists.

  A string is the list of the bytes of its UTF-8 encoding, in the browser code as on the
  wire and in the Go code. Comparing, concatenating, splitting at an ASCII character,
  searching a substring and trimming give the same result on this representation as on the
  UTF-16 code units of the browser.
\<close>

named_theorems js_simps \<open>evaluation of JavaScript values\<close>
named_theorems wire_simps \<open>encoding and decoding of request and response bodies\<close>
named_theorems store_simps \<open>operations of the controller's store\<close>

section \<open>Splitting and joining\<close>

fun split_on :: "char \<Rightarrow> string \<Rightarrow> string list" where
  "split_on c [] = [[]]"
| "split_on c (x # xs) =
     (if x = c then [] # split_on c xs
      else (case split_on c xs of [] \<Rightarrow> [[x]] | y # ys \<Rightarrow> (x # y) # ys))"

fun join :: "string \<Rightarrow> string list \<Rightarrow> string" where
  "join sep [] = []"
| "join sep [x] = x"
| "join sep (x # y # ys) = x @ sep @ join sep (y # ys)"

lemma split_on_not_Nil [simp]: "split_on c s \<noteq> []"
  by (induction s) (auto split: list.splits)

lemma split_on_append:
  "c \<notin> set x \<Longrightarrow> split_on c (x @ c # s) = x # split_on c s"
  by (induction x) auto

lemma split_on_single: "c \<notin> set x \<Longrightarrow> split_on c x = [x]"
  by (induction x) auto

lemma split_on_join:
  "xs \<noteq> [] \<Longrightarrow> \<forall>x\<in>set xs. c \<notin> set x \<Longrightarrow> split_on c (join [c] xs) = xs"
  by (induction "[c]" xs rule: join.induct) (simp_all add: split_on_single split_on_append)

lemma join_split_on: "join [c] (split_on c s) = s"
proof (induction s)
  case (Cons x s)
  obtain y ys where y: "split_on c s = y # ys"
    by (cases "split_on c s") auto
  then show ?case using Cons by (cases ys) auto
qed simp

lemma split_on_chars: "x \<in> set (split_on c s) \<Longrightarrow> set x \<subseteq> set s"
proof (induction s arbitrary: x)
  case (Cons a s)
  then show ?case by (fastforce split: if_splits list.splits)
qed auto

lemma split_on_no_sep: "x \<in> set (split_on c s) \<Longrightarrow> c \<notin> set x"
  by (induction s arbitrary: x) (auto split: if_splits list.splits)

section \<open>Trimming white space\<close>

text \<open>
  The encodings of the characters that count as white space: the WhiteSpace and
  LineTerminator productions of ECMAScript for \<open>String.prototype.trim\<close>, and the
  White\_Space property (as \<open>unicode.IsSpace\<close> reads it) for Go's
  \<open>strings.TrimSpace\<close>.
\<close>

definition ascii_space :: "string list" where
  "ascii_space = [[CHR 0x09], [CHR 0x0A], [CHR 0x0B], [CHR 0x0C], [CHR 0x0D], [CHR 0x20]]"

definition unicode_space :: "string list" where
  "unicode_space =
     [[CHR 0xC2, CHR 0xA0], [CHR 0xE1, CHR 0x9A, CHR 0x80],
      [CHR 0xE2, CHR 0x80, CHR 0x80], [CHR 0xE2, CHR 0x80, CHR 0x81],
      [CHR 0xE2, CHR 0x80, CHR 0x82], [CHR 0xE2, CHR 0x80, CHR 0x83],
      [CHR 0xE2, CHR 0x80, CHR 0x84], [CHR 0xE2, CHR 0x80, CHR 0x85],
      [CHR 0xE2, CHR 0x80, CHR 0x86], [CHR 0xE2, CHR 0x80, CHR 0x87],
      [CHR 0xE2, CHR 0x80, CHR 0x88], [CHR 0xE2, CHR 0x80, CHR 0x89],
      [CHR 0xE2, CHR 0x80, CHR 0x8A], [CHR 0xE2, CHR 0x80, CHR 0xA8],
      [CHR 0xE2, CHR 0x80, CHR 0xA9], [CHR 0xE2, CHR 0x80, CHR 0xAF],
      [CHR 0xE2, CHR 0x81, CHR 0x9F], [CHR 0xE3, CHR 0x80, CHR 0x80]]"

definition js_space :: "string list" where
  "js_space = ascii_space @ unicode_space @ [[CHR 0xEF, CHR 0xBB, CHR 0xBF]]"

definition go_space :: "string list" where
  "go_space = ascii_space @ unicode_space @ [[CHR 0xC2, CHR 0x85]]"

function ltrim :: "string list \<Rightarrow> string \<Rightarrow> string" where
  "ltrim ws s =
     (case find (\<lambda>w. w \<noteq> [] \<and> prefix w s) ws of
        None \<Rightarrow> s
      | Some w \<Rightarrow> ltrim ws (drop (length w) s))"
  by pat_completeness auto
termination
  by (relation "measure (\<lambda>(ws, s). length s)") (auto simp: find_Some_iff prefix_def)

declare ltrim.simps [simp del]

definition rtrim :: "string list \<Rightarrow> string \<Rightarrow> string" where
  "rtrim ws s = rev (ltrim (map rev ws) (rev s))"

definition js_trim :: "string \<Rightarrow> string" where
  "js_trim s = rtrim js_space (ltrim js_space s)"

definition go_trim_space :: "string \<Rightarrow> string" where
  "go_trim_space s = rtrim go_space (ltrim go_space s)"

definition no_lead :: "string list \<Rightarrow> string \<Rightarrow> bool" where
  "no_lead ws s \<longleftrightarrow> (\<forall>w\<in>set ws. w \<noteq> [] \<longrightarrow> \<not> prefix w s)"

lemma ltrim_None: "find (\<lambda>w. w \<noteq> [] \<and> prefix w s) ws = None \<Longrightarrow> ltrim ws s = s"
  by (simp add: ltrim.simps)

lemma ltrim_Some:
  "find (\<lambda>w. w \<noteq> [] \<and> prefix w s) ws = Some w \<Longrightarrow> ltrim ws s = ltrim ws (drop (length w) s)"
  by (simp add: ltrim.simps)

lemma no_lead_find: "no_lead ws s \<longleftrightarrow> find (\<lambda>w. w \<noteq> [] \<and> prefix w s) ws = None"
  by (auto simp: no_lead_def find_None_iff)

lemma ltrim_id: "no_lead ws s \<Longrightarrow> ltrim ws s = s"
  by (simp add: no_lead_find ltrim_None)

lemma ltrim_no_lead: "no_lead ws (ltrim ws s)"
proof (induction ws s rule: ltrim.induct)
  case (1 ws s)
  show ?case
  proof (cases "find (\<lambda>w. w \<noteq> [] \<and> prefix w s) ws")
    case None
    then show ?thesis by (simp add: ltrim_None no_lead_find)
  next
    case (Some w)
    then show ?thesis using 1 [OF Some] by (simp add: ltrim_Some)
  qed
qed

lemma ltrim_suffix: "suffix (ltrim ws s) s"
proof (induction ws s rule: ltrim.induct)
  case (1 ws s)
  show ?case
  proof (cases "find (\<lambda>w. w \<noteq> [] \<and> prefix w s) ws")
    case (Some w)
    then show ?thesis
      using 1 [OF Some] suffix_drop suffix_order.order_trans by (subst ltrim.simps) fastforce
  qed (subst ltrim.simps, simp)
qed

lemma rtrim_prefix: "prefix (rtrim ws s) s"
  using ltrim_suffix [of "map rev ws" "rev s"] by (simp add: rtrim_def suffix_to_prefix)

lemma rtrim_idem: "rtrim ws (rtrim ws s) = rtrim ws s"
  by (simp add: rtrim_def ltrim_id [OF ltrim_no_lead])

text \<open>Cutting the end of a string with no leading white space leaves none at its start.\<close>

lemma no_lead_prefix: "no_lead ws s \<Longrightarrow> prefix t s \<Longrightarrow> no_lead ws t"
  unfolding no_lead_def using prefix_order.order_trans by blast

lemma trim_idem: "rtrim ws (ltrim ws (rtrim ws (ltrim ws s))) = rtrim ws (ltrim ws s)"
  using ltrim_id [OF no_lead_prefix [OF ltrim_no_lead rtrim_prefix], of ws ws "ltrim ws s"]
    no_lead_prefix [OF ltrim_no_lead rtrim_prefix]
  by (metis ltrim_id rtrim_idem)

lemma js_trim_idem [simp]: "js_trim (js_trim s) = js_trim s"
  unfolding js_trim_def by (rule trim_idem)

lemma go_trim_space_idem [simp]: "go_trim_space (go_trim_space s) = go_trim_space s"
  unfolding go_trim_space_def by (rule trim_idem)

lemma js_trim_chars: "set (js_trim s) \<subseteq> set s"
  using set_mono_prefix [OF rtrim_prefix [of js_space "ltrim js_space s"]]
    set_mono_suffix [OF ltrim_suffix [of js_space s]]
  by (auto simp: js_trim_def)

lemma js_trim_Nil [simp]: "js_trim [] = []"
  by (simp add: js_trim_def rtrim_def ltrim_id no_lead_def)

text \<open>\<open>strings.ToLower\<close> and \<open>strings.ToUpper\<close>, for the letters of ASCII\<close>

definition ToLower :: "string \<Rightarrow> string" where
  "ToLower s = map (\<lambda>c. let k = (of_char c :: nat) in if 65 \<le> k \<and> k \<le> 90 then char_of (k + 32) else c) s"

definition ToUpper :: "string \<Rightarrow> string" where
  "ToUpper s = map (\<lambda>c. let k = (of_char c :: nat) in if 97 \<le> k \<and> k \<le> 122 then char_of (k - 32) else c) s"

section \<open>Decimal numbers\<close>

text \<open>
  The decimal digits of a number, as both \<open>String(n)\<close> of the browser (for the small
  integers that occur) and Go's \<open>strconv.Itoa\<close> and \<open>%d\<close> write it, and the number
  a digit string stands for.
\<close>

definition digit :: "nat \<Rightarrow> char" where
  "digit n = char_of (48 + n)"

fun show_nat :: "nat \<Rightarrow> string" where
  "show_nat n = (if n < 10 then [digit n] else show_nat (n div 10) @ [digit (n mod 10)])"

declare show_nat.simps [simp del]

definition digit_val :: "char \<Rightarrow> nat option" where
  "digit_val c = (let n = of_char c in if 48 \<le> n \<and> n \<le> 57 then Some (n - 48) else None)"

definition digits_val :: "string \<Rightarrow> nat" where
  "digits_val s = foldl (\<lambda>a c. 10 * a + (of_char c - 48)) 0 s"

definition all_digits :: "string \<Rightarrow> bool" where
  "all_digits s \<longleftrightarrow> s \<noteq> [] \<and> list_all (\<lambda>c. digit_val c \<noteq> None) s"

definition show_int :: "int \<Rightarrow> string" where
  "show_int i = (if i < 0 then CHR ''-'' # show_nat (nat (- i)) else show_nat (nat i))"

lemma of_char_digit: "n < 10 \<Longrightarrow> of_char (digit n) = (48 + n :: nat)"
  by (simp add: digit_def)

lemma digit_val_digit: "n < 10 \<Longrightarrow> digit_val (digit n) = Some n"
  by (simp add: digit_val_def of_char_digit)

lemma all_digits_show_nat: "all_digits (show_nat n)"
proof (induction n rule: show_nat.induct)
  case (1 n)
  then show ?case
    by (subst show_nat.simps) (auto simp: all_digits_def digit_val_digit)
qed

lemma digits_val_show_nat: "digits_val (show_nat n) = n"
proof (induction n rule: show_nat.induct)
  case (1 n)
  show ?case
  proof (cases "n < 10")
    case True
    then show ?thesis
      by (subst show_nat.simps) (simp add: digits_val_def of_char_digit)
  next
    case False
    then have "digits_val (show_nat (n div 10)) = n div 10" by (rule 1)
    with False show ?thesis
      by (subst show_nat.simps) (simp add: digits_val_def of_char_digit)
  qed
qed

lemma show_nat_inject [simp]: "show_nat m = show_nat n \<longleftrightarrow> m = n"
  by (metis digits_val_show_nat)

lemma show_nat_not_Nil [simp]: "show_nat n \<noteq> []"
  using all_digits_show_nat [of n] by (simp add: all_digits_def)

section \<open>Integers of 64 bits\<close>

text \<open>A signed result that does not fit wraps around.\<close>

definition wrap64 :: "int \<Rightarrow> int" where
  "wrap64 n = signed_take_bit 63 n"

lemma wrap64_id: "- (2 ^ 63) \<le> n \<Longrightarrow> n < 2 ^ 63 \<Longrightarrow> wrap64 n = n"
  by (simp add: wrap64_def signed_take_bit_int_eq_self)

section \<open>Floating point\<close>

text \<open>
  A \<open>float64\<close> is the rational it stands for.  Rounding goes to the nearest value, and to the even
  one of two; the unit in the last place is the least power of two, from \<open>2 powi (-1074)\<close> on, in
  which the value has at most 53 bits.
\<close>

definition round_even :: "rat \<Rightarrow> int" where
  "round_even r =
     (let f = \<lfloor>r\<rfloor>; d = r - of_int f in if d < 1 / 2 \<or> (d = 1 / 2 \<and> even f) then f else f + 1)"

definition float_units :: "int list" where
  "float_units = [-1074..970]"

definition float_unit :: "rat \<Rightarrow> int" where
  "float_unit v = (case find (\<lambda>e. v < 2 powi (e + 53)) float_units of Some e \<Rightarrow> e | None \<Rightarrow> 971)"

definition round_float :: "rat \<Rightarrow> rat" where
  "round_float v = of_int (round_even (v / 2 powi float_unit v)) * 2 powi float_unit v"

text \<open>A conversion cuts off the fraction; of a value that does not fit, amd64 makes the least integer.\<close>

definition float_to_int :: "rat \<Rightarrow> int" where
  "float_to_int v =
     (let n = (if v < 0 then \<lceil>v\<rceil> else \<lfloor>v\<rfloor>) in if - (2 ^ 63) \<le> n \<and> n < 2 ^ 63 then n else - (2 ^ 63))"

lemma float_to_int_range: "- (2 ^ 63) \<le> float_to_int v" "float_to_int v < 2 ^ 63"
  by (simp_all add: float_to_int_def Let_def)

lemma float_to_int_floor:
  assumes "0 \<le> v" and "\<lfloor>v\<rfloor> < 2 ^ 63"
  shows "float_to_int v = \<lfloor>v\<rfloor>"
proof -
  have "(0::int) \<le> \<lfloor>v\<rfloor>" using assms(1) by simp
  moreover have "- (2 ^ 63) \<le> (0::int)" by simp
  ultimately have "- (2 ^ 63) \<le> \<lfloor>v\<rfloor>" by (rule order_trans [rotated])
  moreover have "\<not> v < 0" using assms(1) by simp
  ultimately show ?thesis using assms(2) by (simp only: float_to_int_def Let_def if_True if_False simp_thms)
qed

lemma round_even_of_int [simp]: "round_even (of_int n) = n"
  by (simp add: round_even_def)

lemma round_even_near: "\<bar>of_int (round_even r) - r\<bar> \<le> 1 / 2"
proof -
  have "of_int \<lfloor>r\<rfloor> \<le> r" "r < of_int \<lfloor>r\<rfloor> + 1" by linarith+
  then show ?thesis by (auto simp: round_even_def Let_def abs_le_iff)
qed

text \<open>A rounded value differs from the exact one by at most half a unit.\<close>

lemma round_float_near: "\<bar>round_float v - v\<bar> \<le> 2 powi float_unit v / 2"
proof -
  let ?u = "2 powi float_unit v :: rat"
  have u: "0 < ?u" by (simp add: zero_less_power_int)
  have "round_float v - v = (of_int (round_even (v / ?u)) - v / ?u) * ?u"
    using u by (simp add: round_float_def algebra_simps)
  then have "\<bar>round_float v - v\<bar> = \<bar>of_int (round_even (v / ?u)) - v / ?u\<bar> * ?u"
    using u by (simp add: abs_mult)
  also have "\<dots> \<le> 1 / 2 * ?u" using round_even_near u by (intro mult_right_mono) auto
  finally show ?thesis by simp
qed

lemma float_units_nth: "-1074 \<le> k \<Longrightarrow> k \<le> 970 \<Longrightarrow> float_units ! nat (k + 1074) = k \<and> nat (k + 1074) < length float_units"
  unfolding float_units_def by (subst nth_upto) auto

lemma sorted_float_units: "i < j \<Longrightarrow> j < length float_units \<Longrightarrow> float_units ! i < float_units ! j"
  unfolding float_units_def length_upto by (subst nth_upto, simp)+ simp

lemma float_unit_le:
  assumes "v < 2 powi (k + 53)" and "-1074 \<le> k" "k \<le> 970"
  shows "float_unit v \<le> k"
proof (cases "find (\<lambda>e. v < 2 powi (e + 53)) float_units")
  case None
  have "k \<in> set float_units" using float_units_nth [OF assms(2,3)] nth_mem by metis
  then show ?thesis using None assms(1) unfolding find_None_iff by blast
next
  case (Some e)
  then obtain i where i: "i < length float_units" "e = float_units ! i"
    "\<forall>j<i. \<not> v < 2 powi (float_units ! j + 53)"
    unfolding find_Some_iff by blast
  let ?j = "nat (k + 1074)"
  have j: "float_units ! ?j = k" "?j < length float_units" using float_units_nth [OF assms(2,3)] by auto
  then have "i \<le> ?j" using i(3) assms(1) by (metis not_le)
  then have "e \<le> k" using sorted_float_units [of i ?j] i(2) j by (cases "i = ?j") auto
  then show ?thesis using Some by (simp add: float_unit_def)
qed

text \<open>A value with at most 53 bits above the least unit is not changed.\<close>

lemma round_float_exact:
  assumes "v = of_int m * 2 powi k" and "m < 2 ^ 53" and "-1074 \<le> k" "k \<le> 970"
  shows "round_float v = v"
proof -
  let ?u = "float_unit v"
  have "v < 2 ^ 53 * 2 powi k"
    using assms(2) unfolding assms(1) by (intro mult_strict_right_mono) (simp_all add: zero_less_power_int)
  also have "\<dots> = 2 powi (k + 53)" by (simp add: power_int_add)
  finally have le: "?u \<le> k" using assms(3,4) by (rule float_unit_le)
  have "(2::rat) powi k = 2 powi (k - ?u) * 2 powi ?u" by (simp flip: power_int_add)
  moreover have "(2::rat) powi (k - ?u) = of_int (2 ^ nat (k - ?u))" using le by (simp add: power_int_def)
  ultimately have v: "v = of_int (m * 2 ^ nat (k - ?u)) * 2 powi ?u" by (simp add: assms(1))
  then have "v / 2 powi ?u = of_int (m * 2 ^ nat (k - ?u))" by (simp add: field_simps)
  then show ?thesis by (simp only: round_float_def round_even_of_int flip: v)
qed

lemma round_float_int [simp]: "m < 2 ^ 53 \<Longrightarrow> round_float (of_int m) = of_int m"
  by (rule round_float_exact [where k = 0]) simp_all

section \<open>Association lists and list tails\<close>

text \<open>The last \<open>n\<close> elements of a list: the slices with which the stores cap a history.\<close>

definition take_last :: "nat \<Rightarrow> 'a list \<Rightarrow> 'a list" where
  "take_last n xs = drop (length xs - n) xs"

lemma length_take_last [simp]: "length (take_last n xs) = min n (length xs)"
  by (auto simp: take_last_def)

lemma take_last_all [simp]: "length xs \<le> n \<Longrightarrow> take_last n xs = xs"
  by (simp add: take_last_def)

lemma suffix_take_last: "suffix (take_last n xs) xs"
  by (simp add: take_last_def suffix_drop)

lemma last_take_last [simp]: "0 < n \<Longrightarrow> xs \<noteq> [] \<Longrightarrow> last (take_last n xs) = last xs"
  by (simp add: take_last_def)

lemma take_last_snoc: "0 < n \<Longrightarrow> take_last n (xs @ [x]) = take_last (n - 1) xs @ [x]"
  by (cases "length xs < n") (auto simp: take_last_def)

lemma take_last_Nil_iff [simp]: "take_last n xs = [] \<longleftrightarrow> n = 0 \<or> xs = []"
  by (cases xs) (auto simp: take_last_def)

lemma take_last_take_last [simp]: "take_last a (take_last b xs) = take_last (min a b) xs"
  by (cases "length xs \<le> b") (auto simp: take_last_def min_def)

lemma take_last_snoc_take_last: "take_last n (take_last n xs @ [x]) = take_last n (xs @ [x])"
proof (cases "n \<le> length xs")
  case True
  then show ?thesis by (simp add: take_last_def Suc_diff_le)
qed simp

lemma map_of_update [simp, store_simps]:
  "map_of (AList.update k v al) k' = (if k' = k then Some v else map_of al k')"
  by (simp add: update_conv')

section \<open>Consecutive pairs\<close>

text \<open>\<open>pairs p\<close>: the consecutive pairs of a list.\<close>

fun pairs :: "'a list \<Rightarrow> ('a \<times> 'a) list" where
  "pairs (a # b # xs) = (a, b) # pairs (b # xs)"
| "pairs _ = []"

lemma length_pairs [simp]: "length (pairs xs) = length xs - 1"
  by (induction xs rule: pairs.induct) auto

lemma pairs_set: "(a, b) \<in> set (pairs xs) \<Longrightarrow> a \<in> set xs \<and> b \<in> set xs"
  by (induction xs rule: pairs.induct) auto

lemma pairs_split: "(a, b) \<in> set (pairs xs) \<longleftrightarrow> (\<exists>us vs. xs = us @ a # b # vs)"
proof (induction xs rule: pairs.induct)
  case (1 x y xs)
  show ?case
  proof
    assume "(a, b) \<in> set (pairs (x # y # xs))"
    then consider "a = x" "b = y" | "(a, b) \<in> set (pairs (y # xs))" by auto
    then show "\<exists>us vs. x # y # xs = us @ a # b # vs"
    proof cases
      case 2
      then obtain us vs where "y # xs = us @ a # b # vs" using 1 by blast
      then have "x # y # xs = (x # us) @ a # b # vs" by simp
      then show ?thesis by blast
    qed (metis append_Nil)
  next
    assume "\<exists>us vs. x # y # xs = us @ a # b # vs"
    then obtain us vs where us: "x # y # xs = us @ a # b # vs" by blast
    show "(a, b) \<in> set (pairs (x # y # xs))"
    proof (cases us)
      case (Cons u us')
      then have "y # xs = us' @ a # b # vs" using us by simp
      then have "(a, b) \<in> set (pairs (y # xs))" using 1 by blast
      then show ?thesis by simp
    qed (use us in auto)
  qed
qed (auto simp: Cons_eq_append_conv)

text \<open>Appending a new key, and sorting with the largest element at the end.\<close>

lemma update_fresh: "k \<notin> fst ` set al \<Longrightarrow> AList.update k v al = al @ [(k, v)]"
  by (induction al) auto

lemma sort_key_snoc:
  fixes f :: "'a \<Rightarrow> 'b::linorder"
  assumes "\<forall>y\<in>set xs. f y \<le> f x"
  shows "sort_key f (xs @ [x]) = sort_key f xs @ [x]"
proof (rule properties_for_sort_key)
  show "filter (\<lambda>y. f k = f y) (sort_key f xs @ [x]) = filter (\<lambda>y. f k = f y) (xs @ [x])" for k
    using sort_key_stable [of f "f k" xs] by (simp add: eq_commute)
  show "sorted (map f (sort_key f xs @ [x]))" using assms by (simp add: sorted_append)
qed simp

end
