(* ===== verification/Js_Value.thy ===== *)
theory Js_Value
  imports Prelude
begin

text \<open>
  JavaScript values as the front end (\<open>frontend/src\<close>) handles them, the operators
  it applies to them, exceptions as values of a sum type, and the JSON image of a value
  (\<open>JSON.stringify\<close> up to the concrete syntax).  Object properties keep their
  insertion order; a property that is absent reads as \<open>Undef\<close>.
\<close>

datatype jsval =
    Undef
  | Null
  | Boolean bool
  | Number rat
  | NaN
  | Str string
  | Arr "jsval list"
  | Obj "(string \<times> jsval) list"

text \<open>
  A thrown value is an \<open>Error\<close> with its name and message, or any other value.
\<close>

datatype js_exn = Exn string string | Thrown jsval

type_synonym 'a res = "js_exn + 'a"

definition sbind :: "'e + 'a \<Rightarrow> ('a \<Rightarrow> 'e + 'b) \<Rightarrow> 'e + 'b" where
  "sbind m f = (case m of Inl e \<Rightarrow> Inl e | Inr x \<Rightarrow> f x)"

lemma sbind_simps [simp, js_simps]:
  "sbind (Inl e) f = Inl e"
  "sbind (Inr x) f = f x"
  by (simp_all add: sbind_def)

lemma sbind_Inr_iff: "sbind m f = Inr y \<longleftrightarrow> (\<exists>x. m = Inr x \<and> f x = Inr y)"
  by (cases m) auto

text \<open>The engine chooses the text of a \<open>TypeError\<close>; the model keeps only its name.\<close>

definition type_error :: js_exn where
  "type_error = Exn ''TypeError'' []"

fun truthy :: "jsval \<Rightarrow> bool" where
  "truthy Undef = False"
| "truthy Null = False"
| "truthy NaN = False"
| "truthy (Boolean b) = b"
| "truthy (Number n) = (n \<noteq> 0)"
| "truthy (Str s) = (s \<noteq> [])"
| "truthy (Arr xs) = True"
| "truthy (Obj ps) = True"

text \<open>\<open>a || b\<close>, \<open>!!a\<close>\<close>

definition js_or :: "jsval \<Rightarrow> jsval \<Rightarrow> jsval" where
  "js_or a b = (if truthy a then a else b)"

definition js_bool :: "jsval \<Rightarrow> jsval" where
  "js_bool a = Boolean (truthy a)"

lemma js_or_simps [simp, js_simps]:
  "js_or Undef b = b" "js_or Null b = b" "js_or NaN b = b"
  "js_or (Arr xs) b = Arr xs" "js_or (Obj ps) b = Obj ps"
  "js_or (Boolean c) b = (if c then Boolean c else b)"
  "js_or (Str s) b = (if s = [] then b else Str s)"
  by (simp_all add: js_or_def)

definition js_lookup :: "string \<Rightarrow> (string \<times> jsval) list \<Rightarrow> jsval" where
  "js_lookup k ps = (case map_of ps k of None \<Rightarrow> Undef | Some v \<Rightarrow> v)"

lemma js_lookup_simps [simp, js_simps]:
  "js_lookup k [] = Undef"
  "js_lookup k ((k', v) # ps) = (if k = k' then v else js_lookup k ps)"
  by (simp_all add: js_lookup_def)

text \<open>
  \<open>v.k\<close> throws on \<open>undefined\<close> and \<open>null\<close>; \<open>v?.k\<close> gives
  \<open>undefined\<close> there.
\<close>

fun js_get :: "string \<Rightarrow> jsval \<Rightarrow> jsval res" where
  "js_get k Undef = Inl type_error"
| "js_get k Null = Inl type_error"
| "js_get k (Obj ps) = Inr (js_lookup k ps)"
| "js_get k _ = Inr Undef"

fun js_oget :: "string \<Rightarrow> jsval \<Rightarrow> jsval" where
  "js_oget k (Obj ps) = js_lookup k ps"
| "js_oget k _ = Undef"

lemma js_get_oget: "js_get k v = (if v = Undef \<or> v = Null then Inl type_error else Inr (js_oget k v))"
  by (cases v) auto

text \<open>
  Assigning a property keeps the position of an existing key and appends a new one, which
  is what \<open>AList.update\<close> does; \<open>{...a, k: v}\<close> copies \<open>a\<close> first.
\<close>

definition set_prop :: "string \<Rightarrow> jsval \<Rightarrow> (string \<times> jsval) list \<Rightarrow> (string \<times> jsval) list" where
  "set_prop k v ps = AList.update k v ps"

lemma js_lookup_set_prop [simp, js_simps]:
  "js_lookup k (set_prop k' v ps) = (if k = k' then v else js_lookup k ps)"
  by (auto simp: js_lookup_def set_prop_def update_conv')

fun spread :: "jsval \<Rightarrow> (string \<times> jsval) list" where
  "spread (Obj ps) = ps"
| "spread _ = []"

text \<open>Array operations throw on a value that has no such method.\<close>

fun as_array :: "jsval \<Rightarrow> jsval list res" where
  "as_array (Arr xs) = Inr xs"
| "as_array _ = Inl type_error"

fun as_string :: "jsval \<Rightarrow> string res" where
  "as_string (Str s) = Inr s"
| "as_string _ = Inl type_error"

fun is_array :: "jsval \<Rightarrow> bool" where
  "is_array (Arr _) = True"
| "is_array _ = False"

text \<open>
  The string an element contributes to \<open>join\<close>: nothing for \<open>undefined\<close> and
  \<open>null\<close>, and otherwise the string the value converts to. The arrays the front end
  joins hold strings; numbers are converted when they are integers, and no modelled call
  converts a fraction.
\<close>

fun elem_string :: "jsval \<Rightarrow> string" where
  "elem_string (Str s) = s"
| "elem_string (Boolean b) = (if b then ''true'' else ''false'')"
| "elem_string (Number n) = (if of_int \<lfloor>n\<rfloor> = n then show_int \<lfloor>n\<rfloor> else [])"
| "elem_string NaN = ''NaN''"
| "elem_string (Obj _) = ''[object Object]''"
| "elem_string _ = []"

definition js_join :: "string \<Rightarrow> jsval list \<Rightarrow> string" where
  "js_join sep xs = join sep (map elem_string xs)"

lemma elem_string_Str [simp]: "map (elem_string \<circ> Str) xs = xs"
  by (induction xs) auto

lemma js_join_Str [simp, js_simps]: "js_join sep (map Str xs) = join sep xs"
  by (simp add: js_join_def)

text \<open>\<open>'' + e\<close> for a caught value \<open>e\<close>, and \<open>e.message\<close>\<close>

fun exn_string :: "js_exn \<Rightarrow> string" where
  "exn_string (Exn n m) = (if m = [] then n else n @ '': '' @ m)"
| "exn_string (Thrown (Obj _)) = ''[object Object]''"
| "exn_string (Thrown v) = elem_string v"

fun exn_message :: "js_exn \<Rightarrow> jsval" where
  "exn_message (Exn n m) = Str m"
| "exn_message (Thrown v) = js_oget ''message'' v"

section \<open>The JSON image of a value\<close>

text \<open>
  \<open>JSON.stringify\<close> drops the properties that are \<open>undefined\<close> and writes
  \<open>null\<close> for an array element that is \<open>undefined\<close> and for \<open>NaN\<close>. The text
  itself is not modelled: parsing what was printed gives this value back.
\<close>

primrec stringify :: "jsval \<Rightarrow> jsval" where
  "stringify Undef = Null"
| "stringify Null = Null"
| "stringify NaN = Null"
| "stringify (Boolean b) = Boolean b"
| "stringify (Number n) = Number n"
| "stringify (Str s) = Str s"
| "stringify (Arr xs) = Arr (map stringify xs)"
| "stringify (Obj ps) =
     Obj (map (\<lambda>(k, v). (k, snd v))
       (filter (\<lambda>(k, v). fst v \<noteq> Undef)
         (map (map_prod id (\<lambda>v. (v, stringify v))) ps)))"

lemma stringify_Obj [simp]:
  "stringify (Obj ps) = Obj (map (\<lambda>(k, v). (k, stringify v)) (filter (\<lambda>(k, v). v \<noteq> Undef) ps))"
  by (induction ps) auto

declare stringify.simps(8) [simp del]

text \<open>Values that JSON can carry unchanged.\<close>

primrec wire :: "jsval \<Rightarrow> bool" where
  "wire Undef = False"
| "wire Null = True"
| "wire NaN = False"
| "wire (Boolean b) = True"
| "wire (Number n) = True"
| "wire (Str s) = True"
| "wire (Arr xs) = list_all id (map wire xs)"
| "wire (Obj ps) = list_all snd (map (map_prod id wire) ps)"

lemma stringify_wire: "wire (stringify v)"
proof (induction v)
  case (Arr xs)
  then show ?case by (auto simp: list_all_iff)
next
  case (Obj ps)
  then show ?case by (fastforce simp: list_all_iff)
qed auto

lemma wire_stringify: "wire v \<Longrightarrow> stringify v = v"
proof (induction v)
  case (Arr xs)
  then show ?case by (auto simp: list_all_iff intro: map_idI)
next
  case (Obj ps)
  have *: "stringify v = v" "v \<noteq> Undef" if "(k, v) \<in> set ps" for k v
  proof -
    from Obj.prems that have "wire v" by (auto simp: list_all_iff)
    then show "stringify v = v" "v \<noteq> Undef"
      using Obj.IH [of "(k, v)" v] that by auto
  qed
  then have "filter (\<lambda>(k, v). v \<noteq> Undef) ps = ps"
    by (auto simp: filter_id_conv)
  then show ?case using * by (auto intro!: map_idI)
qed auto

text \<open>Reading a property of the JSON image of an object.\<close>

lemma js_lookup_stringify:
  assumes "distinct (map fst ps)"
  shows "js_lookup k (map (\<lambda>(k, v). (k, stringify v)) (filter (\<lambda>(k, v). v \<noteq> Undef) ps)) =
    (if js_lookup k ps = Undef then Undef else stringify (js_lookup k ps))"
  using assms
proof (induction ps)
  case (Cons p ps)
  have "k \<notin> fst ` set ps \<Longrightarrow> js_lookup k ps = Undef" for k
    by (simp add: js_lookup_def map_of_eq_None_iff [THEN iffD2])
  with Cons show ?case by (cases p) auto
qed simp

lemma distinct_set_prop [simp]: "distinct (map fst ps) \<Longrightarrow> distinct (map fst (set_prop k v ps))"
  by (simp add: set_prop_def distinct_update)

lemma stringify_idem [simp]: "stringify (stringify v) = stringify v"
  by (rule wire_stringify [OF stringify_wire])

end
