(* ===== verification/Ui_Text.thy ===== *)
theory Ui_Text
  imports Prelude
begin

text \<open>
  The texts the front end shows and the summaries the agent reports, byte by byte in UTF-8
  (the theories are plain ASCII). Each comment gives the meaning in English and the place in
  the sources.
\<close>

\<comment> \<open>PolicyDrawer.jsx load: loading the policy failed\<close>
definition msg_policy_load_failed :: string where
  "msg_policy_load_failed =
     [CHR 0xE5, CHR 0x8A, CHR 0xA0, CHR 0xE8, CHR 0xBD, CHR 0xBD,
      CHR 0xE7, CHR 0xAD, CHR 0x96, CHR 0xE7, CHR 0x95, CHR 0xA5,
      CHR 0xE5, CHR 0xA4, CHR 0xB1, CHR 0xE8, CHR 0xB4, CHR 0xA5]"

\<comment> \<open>PolicyDrawer.jsx loadDiag: sending the diagnose command failed\<close>
definition msg_diag_command_failed :: string where
  "msg_diag_command_failed =
     [CHR 0xE4, CHR 0xB8, CHR 0x8B, CHR 0xE5, CHR 0x8F, CHR 0x91,
      CHR 0xE8, CHR 0xAF, CHR 0x8A, CHR 0xE6, CHR 0x96, CHR 0xAD,
      CHR 0xE6, CHR 0x8C, CHR 0x87, CHR 0xE4, CHR 0xBB, CHR 0xA4,
      CHR 0xE5, CHR 0xA4, CHR 0xB1, CHR 0xE8, CHR 0xB4, CHR 0xA5] @ '': ''"

\<comment> \<open>PolicyDrawer.jsx loadDiag: fetching the diagnosis failed\<close>
definition msg_diag_fetch_failed :: string where
  "msg_diag_fetch_failed =
     [CHR 0xE8, CHR 0x8E, CHR 0xB7, CHR 0xE5, CHR 0x8F, CHR 0x96,
      CHR 0xE8, CHR 0xAF, CHR 0x8A, CHR 0xE6, CHR 0x96, CHR 0xAD,
      CHR 0xE5, CHR 0xA4, CHR 0xB1, CHR 0xE8, CHR 0xB4, CHR 0xA5] @ '': ''"

\<comment> \<open>PolicyDrawer.jsx runVerify: verification triggered\<close>
definition msg_verify_triggered :: string where
  "msg_verify_triggered =
     [CHR 0xE5, CHR 0xB7, CHR 0xB2, CHR 0xE8, CHR 0xA7, CHR 0xA6,
      CHR 0xE5, CHR 0x8F, CHR 0x91, CHR 0xE9, CHR 0xAA, CHR 0x8C,
      CHR 0xE8, CHR 0xAF, CHR 0x81]"

\<comment> \<open>PolicyDrawer.jsx runVerify: triggering the verification failed\<close>
definition msg_verify_failed :: string where
  "msg_verify_failed =
     [CHR 0xE8, CHR 0xA7, CHR 0xA6, CHR 0xE5, CHR 0x8F, CHR 0x91,
      CHR 0xE9, CHR 0xAA, CHR 0x8C, CHR 0xE8, CHR 0xAF, CHR 0x81,
      CHR 0xE5, CHR 0xA4, CHR 0xB1, CHR 0xE8, CHR 0xB4, CHR 0xA5] @ '': ''"

\<comment> \<open>PolicyDrawer.jsx viewPolicy: viewing the policy failed\<close>
definition msg_policy_view_failed :: string where
  "msg_policy_view_failed =
     [CHR 0xE6, CHR 0x9F, CHR 0xA5, CHR 0xE7, CHR 0x9C, CHR 0x8B,
      CHR 0xE7, CHR 0xAD, CHR 0x96, CHR 0xE7, CHR 0x95, CHR 0xA5,
      CHR 0xE5, CHR 0xA4, CHR 0xB1, CHR 0xE8, CHR 0xB4, CHR 0xA5] @ '': ''"

\<comment> \<open>PolicyDrawer.jsx submit: policy submitted\<close>
definition msg_policy_submitted :: string where
  "msg_policy_submitted =
     [CHR 0xE7, CHR 0xAD, CHR 0x96, CHR 0xE7, CHR 0x95, CHR 0xA5,
      CHR 0xE5, CHR 0xB7, CHR 0xB2, CHR 0xE6, CHR 0x8F, CHR 0x90,
      CHR 0xE4, CHR 0xBA, CHR 0xA4]"

\<comment> \<open>PolicyDrawer.jsx submit: submitting failed\<close>
definition msg_submit_failed :: string where
  "msg_submit_failed =
     [CHR 0xE6, CHR 0x8F, CHR 0x90, CHR 0xE4, CHR 0xBA, CHR 0xA4,
      CHR 0xE5, CHR 0xA4, CHR 0xB1, CHR 0xE8, CHR 0xB4, CHR 0xA5] @ '': ''"

\<comment> \<open>PolicyDrawer.jsx RuleList: (domains), shown for a rule without prefix\<close>
definition txt_domain_rule :: string where
  "txt_domain_rule =
     ''('' @ [CHR 0xE5, CHR 0x9F, CHR 0x9F, CHR 0xE5, CHR 0x90, CHR 0x8D] @ '')''"

\<comment> \<open>PolicyDrawer.jsx RuleList: arrow between hops\<close>
definition txt_arrow :: string where
  "txt_arrow =
     '' '' @ [CHR 0xE2, CHR 0x86, CHR 0x92] @ '' ''"

\<comment> \<open>PolicyDrawer.jsx RuleList: path label\<close>
definition txt_path :: string where
  "txt_path =
     '' '' @ [CHR 0xE8, CHR 0xB7, CHR 0xAF, CHR 0xE5, CHR 0xBE, CHR 0x84] @ '': ''"

\<comment> \<open>PolicyDrawer.jsx summary test: error\<close>
definition txt_error :: string where
  "txt_error =
     [CHR 0xE9, CHR 0x94, CHR 0x99, CHR 0xE8, CHR 0xAF, CHR 0xAF]"

\<comment> \<open>PolicyDrawer.jsx summary test: warning\<close>
definition txt_warning :: string where
  "txt_warning =
     [CHR 0xE8, CHR 0xAD, CHR 0xA6, CHR 0xE5, CHR 0x91, CHR 0x8A]"

\<comment> \<open>MeshStatus.jsx: not connected, shown for a link without reason\<close>
definition txt_down :: string where
  "txt_down =
     [CHR 0xE4, CHR 0xB8, CHR 0x8D, CHR 0xE9, CHR 0x80, CHR 0x9A]"

\<comment> \<open>PolicyDrawer.jsx PathSelectorModal: nothing selected\<close>
definition txt_not_selected :: string where
  "txt_not_selected =
     [CHR 0xE6, CHR 0x9C, CHR 0xAA, CHR 0xE9, CHR 0x80, CHR 0x89,
      CHR 0xE6, CHR 0x8B, CHR 0xA9]"

\<comment> \<open>Login.jsx submit: authentication failed, with the status\<close>
definition msg_auth_failed :: string where
  "msg_auth_failed =
     [CHR 0xE8, CHR 0xAE, CHR 0xA4, CHR 0xE8, CHR 0xAF, CHR 0x81,
      CHR 0xE5, CHR 0xA4, CHR 0xB1, CHR 0xE8, CHR 0xB4, CHR 0xA5] @ '' ''"

\<comment> \<open>Register.jsx submit: registration failed, with the status\<close>
definition msg_register_failed :: string where
  "msg_register_failed =
     [CHR 0xE6, CHR 0xB3, CHR 0xA8, CHR 0xE5, CHR 0x86, CHR 0x8C,
      CHR 0xE5, CHR 0xA4, CHR 0xB1, CHR 0xE8, CHR 0xB4, CHR 0xA5] @ '' ''"

\<comment> \<open>Login.jsx, Register.jsx submit: the answer holds no token\<close>
definition msg_no_token :: string where
  "msg_no_token =
     [CHR 0xE6, CHR 0x9C, CHR 0xAA, CHR 0xE8, CHR 0xBF, CHR 0x94,
      CHR 0xE5, CHR 0x9B, CHR 0x9E] @ '' token''"

\<comment> \<open>Login.jsx submit: login failed\<close>
definition msg_login_fallback :: string where
  "msg_login_fallback =
     [CHR 0xE7, CHR 0x99, CHR 0xBB, CHR 0xE5, CHR 0xBD, CHR 0x95,
      CHR 0xE5, CHR 0xA4, CHR 0xB1, CHR 0xE8, CHR 0xB4, CHR 0xA5]"

\<comment> \<open>Register.jsx submit: registration failed\<close>
definition msg_register_fallback :: string where
  "msg_register_fallback =
     [CHR 0xE6, CHR 0xB3, CHR 0xA8, CHR 0xE5, CHR 0x86, CHR 0x8C,
      CHR 0xE5, CHR 0xA4, CHR 0xB1, CHR 0xE8, CHR 0xB4, CHR 0xA5]"

\<comment> \<open>Admin.jsx showInstall: making the install command failed\<close>
definition msg_install_failed :: string where
  "msg_install_failed =
     [CHR 0xE7, CHR 0x94, CHR 0x9F, CHR 0xE6, CHR 0x88, CHR 0x90,
      CHR 0xE5, CHR 0xAE, CHR 0x89, CHR 0xE8, CHR 0xA3, CHR 0x85,
      CHR 0xE5, CHR 0x91, CHR 0xBD, CHR 0xE4, CHR 0xBB, CHR 0xA4,
      CHR 0xE5, CHR 0xA4, CHR 0xB1, CHR 0xE8, CHR 0xB4, CHR 0xA5] @ '': ''"

\<comment> \<open>NodeFormModal.jsx submit: node created\<close>
definition msg_node_created :: string where
  "msg_node_created =
     [CHR 0xE8, CHR 0x8A, CHR 0x82, CHR 0xE7, CHR 0x82, CHR 0xB9,
      CHR 0xE5, CHR 0xB7, CHR 0xB2, CHR 0xE5, CHR 0x88, CHR 0x9B,
      CHR 0xE5, CHR 0xBB, CHR 0xBA]"

\<comment> \<open>NodeFormModal.jsx submit: creating failed\<close>
definition msg_node_create_failed :: string where
  "msg_node_create_failed =
     [CHR 0xE5, CHR 0x88, CHR 0x9B, CHR 0xE5, CHR 0xBB, CHR 0xBA,
      CHR 0xE5, CHR 0xA4, CHR 0xB1, CHR 0xE8, CHR 0xB4, CHR 0xA5] @ '': ''"

\<comment> \<open>EndpointDrawer.jsx load: loading the nodes failed\<close>
definition msg_nodes_load_failed :: string where
  "msg_nodes_load_failed =
     [CHR 0xE5, CHR 0x8A, CHR 0xA0, CHR 0xE8, CHR 0xBD, CHR 0xBD,
      CHR 0xE8, CHR 0x8A, CHR 0x82, CHR 0xE7, CHR 0x82, CHR 0xB9,
      CHR 0xE5, CHR 0xA4, CHR 0xB1, CHR 0xE8, CHR 0xB4, CHR 0xA5]"

\<comment> \<open>EndpointDrawer.jsx submit: endpoints updated\<close>
definition msg_endpoint_saved :: string where
  "msg_endpoint_saved =
     ''Endpoint '' @ [CHR 0xE5, CHR 0xB7, CHR 0xB2, CHR 0xE6, CHR 0x9B, CHR 0xB4,
      CHR 0xE6, CHR 0x96, CHR 0xB0]"

\<comment> \<open>EndpointDrawer.jsx, DiagCard.jsx, GeoIPCard.jsx: saving failed\<close>
definition msg_save_failed :: string where
  "msg_save_failed =
     [CHR 0xE4, CHR 0xBF, CHR 0x9D, CHR 0xE5, CHR 0xAD, CHR 0x98,
      CHR 0xE5, CHR 0xA4, CHR 0xB1, CHR 0xE8, CHR 0xB4, CHR 0xA5] @ '': ''"

\<comment> \<open>HealthHistoryModal.jsx load: loading the history failed\<close>
definition msg_history_failed :: string where
  "msg_history_failed =
     [CHR 0xE5, CHR 0x8A, CHR 0xA0, CHR 0xE8, CHR 0xBD, CHR 0xBD,
      CHR 0xE5, CHR 0x8E, CHR 0x86, CHR 0xE5, CHR 0x8F, CHR 0xB2,
      CHR 0xE5, CHR 0xA4, CHR 0xB1, CHR 0xE8, CHR 0xB4, CHR 0xA5] @ '': ''"

\<comment> \<open>DiagnoseModal.jsx load: diagnosing failed\<close>
definition msg_diagnose_failed :: string where
  "msg_diagnose_failed =
     [CHR 0xE8, CHR 0xAF, CHR 0x8A, CHR 0xE6, CHR 0x96, CHR 0xAD,
      CHR 0xE5, CHR 0xA4, CHR 0xB1, CHR 0xE8, CHR 0xB4, CHR 0xA5] @ '': ''"

\<comment> \<open>DiagnoseModal.jsx: diagnosis\<close>
definition txt_diagnose_result :: string where
  "txt_diagnose_result =
     [CHR 0xE8, CHR 0xAF, CHR 0x8A, CHR 0xE6, CHR 0x96, CHR 0xAD,
      CHR 0xE7, CHR 0xBB, CHR 0x93, CHR 0xE6, CHR 0x9E, CHR 0x9C]"

\<comment> \<open>DiagCard.jsx load: loading the diagnosis settings failed\<close>
definition msg_diag_cfg_load_failed :: string where
  "msg_diag_cfg_load_failed =
     [CHR 0xE5, CHR 0x8A, CHR 0xA0, CHR 0xE8, CHR 0xBD, CHR 0xBD,
      CHR 0xE8, CHR 0xAF, CHR 0x8A, CHR 0xE6, CHR 0x96, CHR 0xAD,
      CHR 0xE9, CHR 0x85, CHR 0x8D, CHR 0xE7, CHR 0xBD, CHR 0xAE,
      CHR 0xE5, CHR 0xA4, CHR 0xB1, CHR 0xE8, CHR 0xB4, CHR 0xA5]"

\<comment> \<open>DiagCard.jsx save: diagnosis settings saved\<close>
definition msg_diag_cfg_saved :: string where
  "msg_diag_cfg_saved =
     [CHR 0xE8, CHR 0xAF, CHR 0x8A, CHR 0xE6, CHR 0x96, CHR 0xAD,
      CHR 0xE9, CHR 0x85, CHR 0x8D, CHR 0xE7, CHR 0xBD, CHR 0xAE,
      CHR 0xE5, CHR 0xB7, CHR 0xB2, CHR 0xE4, CHR 0xBF, CHR 0x9D,
      CHR 0xE5, CHR 0xAD, CHR 0x98]"

\<comment> \<open>GeoIPCard.jsx load: loading the GeoIP settings failed\<close>
definition msg_geoip_load_failed :: string where
  "msg_geoip_load_failed =
     [CHR 0xE5, CHR 0x8A, CHR 0xA0, CHR 0xE8, CHR 0xBD, CHR 0xBD] @ '' GeoIP '' @ [CHR 0xE8, CHR 0xAE, CHR 0xBE, CHR 0xE7, CHR 0xBD, CHR 0xAE,
      CHR 0xE5, CHR 0xA4, CHR 0xB1, CHR 0xE8, CHR 0xB4, CHR 0xA5]"

\<comment> \<open>GeoIPCard.jsx save: GeoIP settings saved\<close>
definition msg_geoip_saved :: string where
  "msg_geoip_saved =
     [CHR 0xE5, CHR 0xB7, CHR 0xB2, CHR 0xE4, CHR 0xBF, CHR 0x9D,
      CHR 0xE5, CHR 0xAD, CHR 0x98] @ '' GeoIP '' @ [CHR 0xE8, CHR 0xAE, CHR 0xBE, CHR 0xE7, CHR 0xBD, CHR 0xAE]"

\<comment> \<open>pkg/agent/plan.go runPolicyDiag: errors found\<close>
definition sum_error :: string where
  "sum_error =
     [CHR 0xE6, CHR 0xA3, CHR 0x80, CHR 0xE6, CHR 0xB5, CHR 0x8B,
      CHR 0xE5, CHR 0x88, CHR 0xB0, CHR 0xE9, CHR 0x94, CHR 0x99,
      CHR 0xE8, CHR 0xAF, CHR 0xAF]"

\<comment> \<open>pkg/agent/plan.go runPolicyDiag: there are warnings\<close>
definition sum_warning :: string where
  "sum_warning =
     [CHR 0xE5, CHR 0xAD, CHR 0x98, CHR 0xE5, CHR 0x9C, CHR 0xA8,
      CHR 0xE8, CHR 0xAD, CHR 0xA6, CHR 0xE5, CHR 0x91, CHR 0x8A]"

\<comment> \<open>pkg/agent/plan.go runPolicyDiag: policy check passed\<close>
definition sum_ok :: string where
  "sum_ok =
     [CHR 0xE7, CHR 0xAD, CHR 0x96, CHR 0xE7, CHR 0x95, CHR 0xA5,
      CHR 0xE6, CHR 0xA3, CHR 0x80, CHR 0xE6, CHR 0x9F, CHR 0xA5,
      CHR 0xE9, CHR 0x80, CHR 0x9A, CHR 0xE8, CHR 0xBF, CHR 0x87]"

end
