(* ===== verification/Url.thy ===== *)
theory Url
  imports Prelude
begin

text \<open>
  URL components as both sides of the wire read them: \<open>encodeURIComponent\<close> of the
  browser, and \<open>url.QueryUnescape\<close>, \<open>url.ParseQuery\<close> and \<open>Values.Get\<close> of
  Go's \<open>net/url\<close>, with the fact that what the first writes the second reads back.
\<close>

definition hex_digits :: string where
  "hex_digits = ''0123456789ABCDEF''"

definition unreserved :: "char \<Rightarrow> bool" where
  "unreserved c \<longleftrightarrow> c \<in> set (''ABCDEFGHIJKLMNOPQRSTUVWXYZabcdefghijklmnopqrstuvwxyz0123456789''
     @ ''-_.!~*()'' @ [CHR 0x27])"

definition percent :: "char \<Rightarrow> string" where
  "percent c = [CHR ''%'', hex_digits ! (of_char c div 16), hex_digits ! (of_char c mod 16)]"

fun encodeURIComponent :: "string \<Rightarrow> string" where
  "encodeURIComponent [] = []"
| "encodeURIComponent (c # s) =
     (if unreserved c then [c] else percent c) @ encodeURIComponent s"

text \<open>Go accepts both cases of a hexadecimal digit.\<close>

definition unhex :: "char \<Rightarrow> nat option" where
  "unhex c =
     (let n = of_char c in
      if 48 \<le> n \<and> n \<le> 57 then Some (n - 48)
      else if 97 \<le> n \<and> n \<le> 102 then Some (n - 87)
      else if 65 \<le> n \<and> n \<le> 70 then Some (n - 55)
      else None)"

fun query_unescape :: "string \<Rightarrow> string option" where
  "query_unescape [] = Some []"
| "query_unescape (c # s) =
     (if c = CHR ''%'' then
        (case s of
           a # b # t \<Rightarrow>
             (case (unhex a, unhex b) of
                (Some x, Some y) \<Rightarrow> map_option ((#) (char_of (16 * x + y))) (query_unescape t)
              | _ \<Rightarrow> None)
         | _ \<Rightarrow> None)
      else if c = CHR ''+'' then map_option ((#) (CHR 0x20)) (query_unescape s)
      else map_option ((#) c) (query_unescape s))"

text \<open>\<open>strings.Cut\<close>: what is before and after the first occurrence of a character.\<close>

fun cut :: "char \<Rightarrow> string \<Rightarrow> string \<times> string" where
  "cut c [] = ([], [])"
| "cut c (x # s) = (if x = c then ([], s) else (let (a, b) = cut c s in (x # a, b)))"

text \<open>
  \<open>ParseQuery\<close> skips empty settings, and drops one with a semicolon or a bad escape
  (\<open>Query\<close> ignores the error it returns).
\<close>

definition parse_setting :: "string \<Rightarrow> (string \<times> string) option" where
  "parse_setting p =
     (if p = [] \<or> CHR '';'' \<in> set p then None
      else (let (k, v) = cut (CHR ''='') p in
            (case (query_unescape k, query_unescape v) of
               (Some k', Some v') \<Rightarrow> Some (k', v')
             | _ \<Rightarrow> None)))"

definition parse_query :: "string \<Rightarrow> (string \<times> string) list" where
  "parse_query q = List.map_filter parse_setting (split_on (CHR ''&'') q)"

definition query_get :: "string \<Rightarrow> string \<Rightarrow> string" where
  "query_get q k = (case map_of (parse_query q) k of None \<Rightarrow> [] | Some v \<Rightarrow> v)"

section \<open>The round trip\<close>

lemma unhex_hex_digit: "n < 16 \<Longrightarrow> unhex (hex_digits ! n) = Some n"
proof -
  assume "n < 16"
  then have "n \<in> set [0..<16]" by simp
  moreover have "\<forall>n\<in>set [0..<16]. unhex (hex_digits ! n) = Some n"
    by code_simp
  ultimately show ?thesis by blast
qed

lemma hex_digit_unreserved: "n < 16 \<Longrightarrow> unreserved (hex_digits ! n)"
proof -
  assume "n < 16"
  then have "n \<in> set [0..<16]" by simp
  moreover have "\<forall>n\<in>set [0..<16]. unreserved (hex_digits ! n)"
    by code_simp
  ultimately show ?thesis by blast
qed

lemma of_char_div_16: "(of_char c :: nat) div 16 < 16"
  using nat_of_char_less_256 [of c] by (simp add: less_mult_imp_div_less)

lemma reserved_chars:
  "\<not> unreserved (CHR ''%'')" "\<not> unreserved (CHR ''+'')" "\<not> unreserved (CHR ''&'')"
  "\<not> unreserved (CHR ''='')" "\<not> unreserved (CHR '';'')" "\<not> unreserved (CHR ''?'')"
  "\<not> unreserved (CHR ''/'')" "\<not> unreserved (CHR ''#'')"
  by code_simp+

theorem query_unescape_encode:
  "query_unescape (encodeURIComponent s) = Some s"
proof (induction s)
  case (Cons c s)
  show ?case
  proof (cases "unreserved c")
    case True
    with reserved_chars have "c \<noteq> CHR ''%''" "c \<noteq> CHR ''+''" by metis+
    with True Cons show ?thesis by simp
  next
    case False
    have "16 * (of_char c div 16) + of_char c mod 16 = (of_char c :: nat)" by simp
    with False Cons show ?thesis
      by (simp add: percent_def unhex_hex_digit of_char_div_16)
  qed
qed simp

lemma encode_chars:
  "x \<in> set (encodeURIComponent s) \<Longrightarrow> unreserved x \<or> x = CHR ''%''"
  by (induction s) (auto simp: percent_def hex_digit_unreserved of_char_div_16 split: if_splits)

lemma encode_no_sep:
  "CHR ''&'' \<notin> set (encodeURIComponent s)"
  "CHR ''='' \<notin> set (encodeURIComponent s)"
  "CHR '';'' \<notin> set (encodeURIComponent s)"
  "CHR ''?'' \<notin> set (encodeURIComponent s)"
  using encode_chars reserved_chars by blast+

lemma cut_append: "c \<notin> set x \<Longrightarrow> cut c (x @ c # s) = (x, s)"
  by (induction x) auto

text \<open>A key that needs no escape, as the keys in the sources.\<close>

definition plain_key :: "string \<Rightarrow> bool" where
  "plain_key k \<longleftrightarrow> (\<forall>c\<in>set k. unreserved c)"

lemma query_unescape_plain: "plain_key k \<Longrightarrow> query_unescape k = Some k"
proof (induction k)
  case (Cons c k)
  with reserved_chars have "c \<noteq> CHR ''%''" "c \<noteq> CHR ''+''"
    by (auto simp: plain_key_def)
  with Cons show ?case by (auto simp: plain_key_def)
qed simp

definition setting :: "string \<Rightarrow> string \<Rightarrow> string" where
  "setting k v = k @ CHR ''='' # encodeURIComponent v"

lemma plain_key_no_sep:
  assumes "plain_key k"
  shows "CHR ''&'' \<notin> set k" "CHR ''='' \<notin> set k" "CHR '';'' \<notin> set k" "CHR ''?'' \<notin> set k"
  using assms reserved_chars by (auto simp: plain_key_def)

lemma parse_setting_encode:
  assumes "plain_key k"
  shows "parse_setting (setting k v) = Some (k, v)"
  using plain_key_no_sep [OF assms] encode_no_sep [of v]
  by (simp add: parse_setting_def setting_def cut_append query_unescape_encode
      query_unescape_plain [OF assms])

lemma parse_query_settings:
  assumes "kvs \<noteq> []" and "\<forall>(k, v)\<in>set kvs. plain_key k"
  shows "parse_query (join ''&'' (map (\<lambda>(k, v). setting k v) kvs)) = kvs"
proof -
  have "\<forall>x\<in>set (map (\<lambda>(k, v). setting k v) kvs). CHR ''&'' \<notin> set x"
    using assms(2) encode_no_sep plain_key_no_sep by (fastforce simp: setting_def)
  then have "split_on (CHR ''&'') (join ''&'' (map (\<lambda>(k, v). setting k v) kvs))
      = map (\<lambda>(k, v). setting k v) kvs"
    using assms(1) by (intro split_on_join) auto
  moreover have "List.map_filter parse_setting (map (\<lambda>(k, v). setting k v) kvs) = kvs"
    using assms(2) by (induction kvs) (auto simp: parse_setting_encode)
  ultimately show ?thesis by (simp add: parse_query_def)
qed

lemma query_get_settings:
  assumes "\<forall>(k, v)\<in>set kvs. plain_key k" and "map_of kvs k = Some v"
  shows "query_get (join ''&'' (map (\<lambda>(k, v). setting k v) kvs)) k = v"
proof -
  from assms(2) have "kvs \<noteq> []" by auto
  from parse_query_settings [OF this assms(1)] assms(2) show ?thesis
    by (simp add: query_get_def)
qed

end
