(* ===== verification/Js_Api.thy ===== *)
theory Js_Api
  imports Js_Value Ui_Text Url
begin

text \<open>
  The front end's only module for persistence and HTTP, \<open>frontend/src/api.js\<close>: the
  \<open>storage\<close> accessors over \<open>localStorage\<close>, the \<open>api\<close> wrapper around
  \<open>fetch\<close>, and the \<open>useAsync\<close> hook as a state machine.
\<close>

section \<open>storage\<close>

record browser =
  local_storage :: "(string \<times> string) list"
  win_origin :: string

definition get_item :: "string \<Rightarrow> browser \<Rightarrow> string option" where
  "get_item k b = map_of (local_storage b) k"

definition set_item :: "string \<Rightarrow> string \<Rightarrow> browser \<Rightarrow> browser" where
  "set_item k v b = b\<lparr>local_storage := AList.update k v (local_storage b)\<rparr>"

definition str_or :: "string option \<Rightarrow> string \<Rightarrow> string" where
  "str_or a d = (case a of Some s \<Rightarrow> if s = [] then d else s | None \<Rightarrow> d)"

definition storage_base :: "browser \<Rightarrow> string" where
  "storage_base b =
     str_or (get_item ''peerwan_base'' b) (str_or (Some (win_origin b)) ''http://127.0.0.1:8080'')"

definition set_storage_base :: "string \<Rightarrow> browser \<Rightarrow> browser" where
  "set_storage_base v = set_item ''peerwan_base'' v"

definition storage_token :: "browser \<Rightarrow> string" where
  "storage_token b = str_or (get_item ''peerwan_token'' b) []"

definition set_storage_token :: "string \<Rightarrow> browser \<Rightarrow> browser" where
  "set_storage_token v = set_item ''peerwan_token'' v"

definition storage_adminSet :: "browser \<Rightarrow> bool" where
  "storage_adminSet b \<longleftrightarrow> get_item ''peerwan_admin_set'' b = Some ''true''"

definition set_storage_adminSet :: "bool \<Rightarrow> browser \<Rightarrow> browser" where
  "set_storage_adminSet v = set_item ''peerwan_admin_set'' (if v then ''true'' else ''false'')"

lemmas storage_defs = storage_base_def set_storage_base_def storage_token_def
  set_storage_token_def storage_adminSet_def set_storage_adminSet_def get_item_def set_item_def

lemma storage_simps [simp, js_simps]:
  "storage_token (set_storage_token v b) = v"
  "storage_token (set_storage_base v b) = storage_token b"
  "storage_token (set_storage_adminSet a b) = storage_token b"
  "storage_base (set_storage_token v b) = storage_base b"
  "storage_base (set_storage_adminSet a b) = storage_base b"
  "storage_adminSet (set_storage_adminSet a b) = a"
  "storage_adminSet (set_storage_base v b) = storage_adminSet b"
  "storage_adminSet (set_storage_token v b) = storage_adminSet b"
  by (simp_all add: storage_defs str_or_def)

lemma storage_base_set [simp]: "v \<noteq> [] \<Longrightarrow> storage_base (set_storage_base v b) = v"
  by (simp add: storage_defs str_or_def)

section \<open>HTTP\<close>

record request =
  rq_url :: string
  rq_method :: string
  rq_headers :: "(string \<times> string) list"
  rq_body :: "jsval option"

text \<open>
  \<open>rs_json\<close> is what \<open>res.json()\<close> settles with: the parsed body, or a
  \<open>SyntaxError\<close>. An absent content type is the empty string.
\<close>

record response =
  rs_status :: nat
  rs_ctype :: string
  rs_text :: string
  rs_json :: "jsval res"

definition response_ok :: "response \<Rightarrow> bool" where
  "response_ok r \<longleftrightarrow> 200 \<le> rs_status r \<and> rs_status r \<le> 299"

text \<open>
  A backend answers a request in some world, or the request fails in the network; either
  way the world may change.
\<close>

type_synonym 'w fetch = "request \<Rightarrow> 'w \<Rightarrow> response res \<times> 'w"

record api_options =
  opt_base :: string
  opt_method :: string
  opt_headers :: "(string \<times> string) list"
  opt_body :: "jsval option"

definition get_options :: api_options where
  "get_options = \<lparr>opt_base = [], opt_method = ''GET'', opt_headers = [], opt_body = None\<rparr>"

text \<open>The option object of every POST of the front end.\<close>

definition post_json :: "jsval \<Rightarrow> api_options" where
  "post_json v = \<lparr>opt_base = [], opt_method = ''POST'',
     opt_headers = [(''Content-Type'', ''application/json'')], opt_body = Some (stringify v)\<rparr>"

text \<open>\<open>.replace(/\/+$/, '')\<close>\<close>

definition strip_slashes :: "string \<Rightarrow> string" where
  "strip_slashes s = rev (dropWhile (\<lambda>c. c = CHR ''/'') (rev s))"

definition unauthorized :: js_exn where
  "unauthorized = Thrown (Obj [(''unauthorized'', Boolean True)])"

definition api_request :: "browser \<Rightarrow> string \<Rightarrow> api_options \<Rightarrow> request" where
  "api_request b path opts =
     (let base = strip_slashes (if opt_base opts \<noteq> [] then opt_base opts else storage_base b);
          token = storage_token b
      in \<lparr>rq_url = base @ path,
          rq_method = opt_method opts,
          rq_headers =
            (if token \<noteq> [] then AList.update ''Authorization'' (''Bearer '' @ token) (opt_headers opts)
             else opt_headers opts),
          rq_body = opt_body opts\<rparr>)"

definition api_result :: "string \<Rightarrow> response \<Rightarrow> jsval res" where
  "api_result path res =
     (if rs_status res = 401 then Inl unauthorized
      else if \<not> response_ok res then
        Inl (Exn ''Error'' (path @ '' '' @ show_nat (rs_status res) @ '' '' @ rs_text res))
      else if sublist ''application/json'' (rs_ctype res) then rs_json res
      else Inr (Str (rs_text res)))"

definition api :: "browser \<Rightarrow> 'w fetch \<Rightarrow> string \<Rightarrow> api_options \<Rightarrow> 'w \<Rightarrow> jsval res \<times> 'w" where
  "api b fetch path opts w =
     (let (r, w') = fetch (api_request b path opts) w in (sbind r (api_result path), w'))"

lemma strip_slashes_no_end: "strip_slashes s \<noteq> [] \<Longrightarrow> last (strip_slashes s) \<noteq> CHR ''/''"
  using hd_dropWhile [of "\<lambda>c. c = CHR ''/''" "rev s"]
  by (auto simp: strip_slashes_def last_rev)

lemma strip_slashes_id: "s = [] \<or> last s \<noteq> CHR ''/'' \<Longrightarrow> strip_slashes s = s"
  by (cases s rule: rev_cases) (auto simp: strip_slashes_def)

lemma strip_slashes_idem [simp]: "strip_slashes (strip_slashes s) = strip_slashes s"
  using strip_slashes_no_end [of s] by (intro strip_slashes_id) auto

lemma strip_slashes_append:
  "strip_slashes (s @ replicate n (CHR ''/'')) = strip_slashes s"
  by (induction n) (simp_all add: strip_slashes_def replicate_app_Cons_same)

lemma api_url:
  "opt_base opts = [] \<Longrightarrow> rq_url (api_request b path opts) = strip_slashes (storage_base b) @ path"
  by (simp add: api_request_def Let_def)

lemma api_request_simps [simp]:
  "rq_method (api_request b path opts) = opt_method opts"
  "rq_body (api_request b path opts) = opt_body opts"
  by (simp_all add: api_request_def Let_def)

lemma api_authorization:
  "storage_token b \<noteq> [] \<Longrightarrow>
     map_of (rq_headers (api_request b path opts)) ''Authorization'' = Some (''Bearer '' @ storage_token b)"
  by (simp add: api_request_def Let_def)

section \<open>useAsync\<close>

text \<open>
  The hook keeps \<open>loading\<close>, \<open>error\<close> and \<open>data\<close>. Calling \<open>run\<close> starts an
  asynchronous call that settles later; several calls can be in flight at once
  (\<open>as_pending\<close> lists them, oldest first), because nothing in the hook prevents it.
  Rendering with changed dependencies calls \<open>run\<close> once.
\<close>

record async =
  as_loading :: bool
  as_error :: "js_exn option"
  as_data :: jsval
  as_deps :: "string option"
  as_pending :: "nat list"
  as_next :: nat

definition async_init :: async where
  "async_init = \<lparr>as_loading = False, as_error = None, as_data = Null, as_deps = None,
     as_pending = [], as_next = 0\<rparr>"

definition async_run :: "async \<Rightarrow> async" where
  "async_run s = s\<lparr>as_loading := True, as_error := None,
     as_pending := as_pending s @ [as_next s], as_next := Suc (as_next s)\<rparr>"

definition async_settle :: "nat \<Rightarrow> jsval res \<Rightarrow> async \<Rightarrow> async" where
  "async_settle k r s =
     (let s1 = (case r of Inr d \<Rightarrow> s\<lparr>as_data := d\<rparr> | Inl e \<Rightarrow> s\<lparr>as_error := Some e\<rparr>)
      in s1\<lparr>as_loading := False, as_pending := remove1 k (as_pending s1)\<rparr>)"

definition async_render :: "string \<Rightarrow> async \<Rightarrow> async" where
  "async_render d s = (if as_deps s = Some d then s else async_run (s\<lparr>as_deps := Some d\<rparr>))"

inductive async_step :: "async \<Rightarrow> async \<Rightarrow> bool" where
  as_run: "async_step s (async_run s)"
| as_render: "async_step s (async_render d s)"
| as_settle: "k \<in> set (as_pending s) \<Longrightarrow> async_step s (async_settle k r s)"

inductive async_reachable :: "async \<Rightarrow> bool" where
  as_init: "async_reachable async_init"
| as_step: "async_reachable s \<Longrightarrow> async_step s t \<Longrightarrow> async_reachable t"

inductive_cases async_stepE: "async_step s t"

definition async_inv :: "async \<Rightarrow> bool" where
  "async_inv s \<longleftrightarrow> (as_pending s = [] \<longrightarrow> \<not> as_loading s) \<and> distinct (as_pending s)
     \<and> (\<forall>k\<in>set (as_pending s). k < as_next s)"

lemma async_run_inv: "async_inv s \<Longrightarrow> async_inv (async_run s)"
  by (auto simp: async_inv_def async_run_def less_Suc_eq)

lemma async_render_inv: "async_inv s \<Longrightarrow> async_inv (async_render d s)"
  using async_run_inv [of "s\<lparr>as_deps := Some d\<rparr>"] by (auto simp: async_render_def async_inv_def)

lemma async_settle_inv: "async_inv s \<Longrightarrow> async_inv (async_settle k r s)"
  by (cases r) (auto simp: async_inv_def async_settle_def dest: notin_set_remove1 [THEN contrapos_nn])

lemma async_step_inv: "async_step s t \<Longrightarrow> async_inv s \<Longrightarrow> async_inv t"
  by (auto elim!: async_stepE intro: async_run_inv async_render_inv async_settle_inv)

lemma async_reachable_inv: "async_reachable s \<Longrightarrow> async_inv s"
  by (induction rule: async_reachable.induct)
    (auto simp: async_inv_def async_init_def intro: async_step_inv dest: async_step_inv)

section \<open>Properties\<close>

text \<open>A request goes to the stored base with its trailing slashes removed, followed by the
  path, so exactly one slash joins them; a stored token and only that decides the
  \<open>Authorization\<close> header, and every other header is the caller's.\<close>

theorem api_request_spec:
  assumes "opt_base opts = []"
  shows "rq_url (api_request b path opts) = strip_slashes (storage_base b) @ path
    \<and> (strip_slashes (storage_base b) = [] \<or> last (strip_slashes (storage_base b)) \<noteq> CHR ''/'')
    \<and> map_of (rq_headers (api_request b path opts)) ''Authorization'' =
        (if storage_token b = [] then map_of (opt_headers opts) ''Authorization''
         else Some (''Bearer '' @ storage_token b))
    \<and> (\<forall>k. k \<noteq> ''Authorization'' \<longrightarrow>
        map_of (rq_headers (api_request b path opts)) k = map_of (opt_headers opts) k)"
  using assms strip_slashes_no_end [of "storage_base b"] by (auto simp: api_request_def Let_def)

theorem api_request_spec_witness:
  "rq_url (api_request \<lparr>local_storage = [(''peerwan_base'', ''http://c//'')], win_origin = []\<rparr>
     ''/api/v1/info'' get_options) = ''http://c/api/v1/info''"
proof -
  have "strip_slashes ''http://c//'' = ''http://c''" by code_simp
  then show ?thesis
    using api_request_spec [of get_options "\<lparr>local_storage = [(''peerwan_base'', ''http://c//'')], win_origin = []\<rparr>"
        "''/api/v1/info''"]
    by (simp add: get_options_def storage_base_def get_item_def str_or_def)
qed

text \<open>In every state \<open>useAsync\<close> can reach, the spinner shows only while a call is in
  flight, and calls in flight are pairwise different.\<close>

theorem async_loading_has_call:
  assumes "async_reachable s"
  shows "(as_loading s \<longrightarrow> as_pending s \<noteq> []) \<and> distinct (as_pending s)"
  using async_reachable_inv [OF assms] by (auto simp: async_inv_def)

theorem async_loading_has_call_witness:
  "as_pending (async_run (async_run async_init)) \<noteq> [] \<and> distinct (as_pending (async_run (async_run async_init)))"
proof -
  have "async_reachable (async_run (async_run async_init))"
    by (meson async_reachable.intros async_step.intros)
  then show ?thesis
    using async_loading_has_call by (simp add: async_run_def async_init_def)
qed

text \<open>Answers may arrive out of order, and the hook keeps the one that arrives last: of two
  calls in flight, when the newer one is answered first, the spinner stops although a call is
  still open, and the answer of the older call then replaces the newer data.\<close>

theorem async_stale_answer_wins:
  assumes "async_reachable s"
  shows "let s2 = async_run (async_run s);
             s3 = async_settle (Suc (as_next s)) (Inr new) s2;
             s4 = async_settle (as_next s) (Inr old) s3
         in as_data s3 = new \<and> \<not> as_loading s3 \<and> as_next s \<in> set (as_pending s3)
            \<and> async_reachable s4 \<and> as_data s4 = old"
proof -
  have "as_next s \<notin> set (as_pending s)" "Suc (as_next s) \<notin> set (as_pending s)"
    using async_reachable_inv [OF assms] by (fastforce simp: async_inv_def)+
  then have pend: "as_pending (async_settle (Suc (as_next s)) (Inr new) (async_run (async_run s)))
      = as_pending s @ [as_next s]"
    by (simp add: async_run_def async_settle_def remove1_append)
  have "async_reachable (async_run (async_run s))"
    using assms by (meson as_run as_step)
  moreover have "Suc (as_next s) \<in> set (as_pending (async_run (async_run s)))"
    by (simp add: async_run_def)
  ultimately have r3: "async_reachable (async_settle (Suc (as_next s)) (Inr new) (async_run (async_run s)))"
    by (blast intro: as_step as_settle)
  then have "async_reachable (async_settle (as_next s) (Inr old)
      (async_settle (Suc (as_next s)) (Inr new) (async_run (async_run s))))"
    by (rule as_step) (simp add: as_settle pend)
  then show ?thesis using pend by (simp add: Let_def async_settle_def async_run_def)
qed

theorem async_stale_answer_wins_witness:
  "as_data (async_settle 0 (Inr (Str ''old'')) (async_settle 1 (Inr (Str ''new''))
     (async_run (async_run async_init)))) = Str ''old''"
  using async_stale_answer_wins [OF as_init, of "Str ''new''" "Str ''old''"]
  by (simp add: Let_def async_init_def)

end
