(* ===== verification/Js_Session.thy ===== *)
theory Js_Session
  imports Js_Api
begin

text \<open>
  Who is signed in: the view switch of \<open>App.jsx\<close>, the submit handlers of
  \<open>Login.jsx\<close> and \<open>Register.jsx\<close>, and the inputs and the sign-out button of
  \<open>Admin.jsx\<close> that write \<open>storage\<close>, as one state machine over the browser.
\<close>

datatype toast = Success string | Failure string | Warning string

datatype view = AppView | LoginView | RegisterView

text \<open>
  A submit handler captures the base URL of the form when it starts
  (\<open>ss_pending\<close> holds one entry for each call that waits for its answer), and the
  answer is applied to whatever the state is by then.
\<close>

record session =
  ss_browser :: browser
  ss_view :: view
  ss_loading :: bool
  ss_toasts :: "toast list"
  ss_pending :: "string list"

definition initialView :: "browser \<Rightarrow> view" where
  "initialView b =
     (if storage_token b \<noteq> [] then AppView
      else if storage_adminSet b then LoginView else RegisterView)"

definition app_mount :: "browser \<Rightarrow> session" where
  "app_mount b = \<lparr>ss_browser = b, ss_view = initialView b, ss_loading = False,
     ss_toasts = [], ss_pending = []\<rparr>"

section \<open>Signing in\<close>

record credentials =
  cr_base :: string
  cr_user :: string
  cr_pass :: string

definition auth_request :: "string \<Rightarrow> credentials \<Rightarrow> request" where
  "auth_request endpoint values =
     \<lparr>rq_url = strip_slashes (cr_base values) @ endpoint, rq_method = ''POST'',
      rq_headers = [(''Content-Type'', ''application/json'')],
      rq_body = Some (stringify (Obj [(''username'', Str (cr_user values)),
        (''password'', Str (cr_pass values))]))\<rparr>"

text \<open>The handler up to \<open>fetch\<close>, for a form that validates.\<close>

definition auth_start :: "credentials \<Rightarrow> session \<Rightarrow> session" where
  "auth_start values s =
     s\<lparr>ss_loading := True, ss_pending := ss_pending s @ [strip_slashes (cr_base values)]\<rparr>"

definition auth_token :: "string \<Rightarrow> response res \<Rightarrow> string res" where
  "auth_token failed r =
     sbind r (\<lambda>res.
       if \<not> response_ok res then Inl (Exn ''Error'' (failed @ show_nat (rs_status res)))
       else sbind (rs_json res) (\<lambda>data.
         sbind (js_get ''token'' data) (\<lambda>token.
           if truthy token then Inr (elem_string token) else Inl (Exn ''Error'' msg_no_token))))"

text \<open>
  The rest of the handler: on success \<open>storage\<close> is written and \<open>onAuthed\<close> switches
  to the application; every exception ends in one error message; \<open>finally\<close> clears
  \<open>loading\<close>.
\<close>

definition auth_finish :: "string \<Rightarrow> string \<Rightarrow> string \<Rightarrow> response res \<Rightarrow> session \<Rightarrow> session" where
  "auth_finish failed fallback base r s =
     (let s1 =
        (case auth_token failed r of
           Inr token \<Rightarrow>
             s\<lparr>ss_browser := set_storage_adminSet True
                 (set_storage_token token (set_storage_base base (ss_browser s))),
               ss_view := AppView\<rparr>
         | Inl e \<Rightarrow>
             s\<lparr>ss_toasts := ss_toasts s @
                 [Failure (elem_string (js_or (exn_message e) (Str fallback)))]\<rparr>)
      in s1\<lparr>ss_loading := False, ss_pending := remove1 base (ss_pending s1)\<rparr>)"

definition login_request :: "credentials \<Rightarrow> request" where
  "login_request = auth_request ''/api/v1/auth/login''"

definition login_finish :: "string \<Rightarrow> response res \<Rightarrow> session \<Rightarrow> session" where
  "login_finish = auth_finish msg_auth_failed msg_login_fallback"

definition register_request :: "credentials \<Rightarrow> request" where
  "register_request = auth_request ''/api/v1/auth/register''"

definition register_finish :: "string \<Rightarrow> response res \<Rightarrow> session \<Rightarrow> session" where
  "register_finish = auth_finish msg_register_failed msg_register_fallback"

section \<open>Steps of the page\<close>

definition switch_view :: "session \<Rightarrow> session" where
  "switch_view s = s\<lparr>ss_view :=
     (case ss_view s of LoginView \<Rightarrow> RegisterView | RegisterView \<Rightarrow> LoginView | AppView \<Rightarrow> AppView)\<rparr>"

definition reload :: "session \<Rightarrow> session" where
  "reload s = app_mount (ss_browser s)"

definition admin_base_blur :: "string \<Rightarrow> session \<Rightarrow> session" where
  "admin_base_blur v s = s\<lparr>ss_browser := set_storage_base v (ss_browser s)\<rparr>"

definition admin_token_blur :: "string \<Rightarrow> session \<Rightarrow> session" where
  "admin_token_blur v s = s\<lparr>ss_browser := set_storage_token v (ss_browser s)\<rparr>"

definition admin_logout :: "session \<Rightarrow> session" where
  "admin_logout s = reload (s\<lparr>ss_browser := set_storage_token [] (ss_browser s)\<rparr>)"

inductive session_step :: "session \<Rightarrow> session \<Rightarrow> bool" where
  st_submit: "ss_view s \<noteq> AppView \<Longrightarrow> session_step s (auth_start v s)"
| st_login: "base \<in> set (ss_pending s) \<Longrightarrow> session_step s (login_finish base r s)"
| st_register: "base \<in> set (ss_pending s) \<Longrightarrow> session_step s (register_finish base r s)"
| st_switch: "session_step s (switch_view s)"
| st_reload: "session_step s (reload s)"
| st_base: "ss_view s = AppView \<Longrightarrow> session_step s (admin_base_blur v s)"
| st_token: "ss_view s = AppView \<Longrightarrow> session_step s (admin_token_blur v s)"
| st_logout: "ss_view s = AppView \<Longrightarrow> session_step s (admin_logout s)"

inductive session_reachable :: "session \<Rightarrow> bool" where
  sr_fresh: "session_reachable (app_mount \<lparr>local_storage = [], win_origin = origin\<rparr>)"
| sr_step: "session_reachable s \<Longrightarrow> session_step s t \<Longrightarrow> session_reachable t"

inductive_cases session_stepE: "session_step s t"

text \<open>
  Whoever has a token, or sees the application, has once been through a successful
  registration or login, which the browser remembers.
\<close>

definition session_inv :: "session \<Rightarrow> bool" where
  "session_inv s \<longleftrightarrow>
     (ss_view s = AppView \<or> storage_token (ss_browser s) \<noteq> [] \<longrightarrow> storage_adminSet (ss_browser s))"

lemma initialView_AppView: "initialView b = AppView \<longleftrightarrow> storage_token b \<noteq> []"
  by (simp add: initialView_def)

lemma reload_inv: "session_inv s \<Longrightarrow> session_inv (reload s)"
  by (auto simp: session_inv_def reload_def app_mount_def initialView_AppView)

lemma auth_finish_inv: "session_inv s \<Longrightarrow> session_inv (auth_finish m f b r s)"
  by (cases "auth_token m r") (auto simp: session_inv_def auth_finish_def)

lemma session_step_inv: "session_step s t \<Longrightarrow> session_inv s \<Longrightarrow> session_inv t"
proof (erule session_stepE)
  assume "t = admin_logout s" "session_inv s"
  then show "session_inv t"
    by (auto simp: admin_logout_def session_inv_def reload_def app_mount_def initialView_def)
qed (auto simp: login_finish_def register_finish_def auth_start_def switch_view_def
    admin_base_blur_def admin_token_blur_def session_inv_def split: view.splits
    intro: reload_inv [unfolded session_inv_def, rule_format]
      auth_finish_inv [unfolded session_inv_def, rule_format])

lemma session_reachable_inv: "session_reachable s \<Longrightarrow> session_inv s"
proof (induction rule: session_reachable.induct)
  case (sr_fresh origin)
  show ?case
    by (simp add: session_inv_def app_mount_def initialView_def storage_defs str_or_def)
next
  case (sr_step s t)
  then show ?case by (blast intro: session_step_inv)
qed

section \<open>Properties\<close>

text \<open>From a browser that never saw the page, whoever sees the application or holds a
  token has come through a registration or login that succeeded and marked the browser, so
  signing out leads to the login page and not to the registration page.\<close>

theorem session_marks_browser:
  assumes "session_reachable s"
  shows "(ss_view s = AppView \<or> storage_token (ss_browser s) \<noteq> [] \<longrightarrow> storage_adminSet (ss_browser s))
    \<and> (ss_view s = AppView \<longrightarrow> ss_view (admin_logout s) = LoginView
         \<and> storage_token (ss_browser (admin_logout s)) = [])"
  using session_reachable_inv [OF assms]
  by (auto simp: session_inv_def admin_logout_def reload_def app_mount_def initialView_def)

theorem session_marks_browser_witness:
  "let s = login_finish ''http://c'' (Inr \<lparr>rs_status = 200, rs_ctype = ''application/json'', rs_text = [],
         rs_json = Inr (Obj [(''token'', Str ''jwt'')])\<rparr>)
       (auth_start \<lparr>cr_base = ''http://c'', cr_user = ''u'', cr_pass = ''p''\<rparr>
         (app_mount \<lparr>local_storage = [], win_origin = ''http://c''\<rparr>))
   in ss_view s = AppView \<and> ss_view (admin_logout s) = LoginView"
proof -
  let ?s0 = "app_mount \<lparr>local_storage = [], win_origin = ''http://c''\<rparr>"
  let ?s1 = "auth_start \<lparr>cr_base = ''http://c'', cr_user = ''u'', cr_pass = ''p''\<rparr> ?s0"
  let ?r = "Inr \<lparr>rs_status = 200, rs_ctype = ''application/json'', rs_text = [],
         rs_json = Inr (Obj [(''token'', Str ''jwt'')])\<rparr>"
  let ?s2 = "login_finish ''http://c'' ?r ?s1"
  have "strip_slashes ''http://c'' = ''http://c''" by code_simp
  moreover have v0: "ss_view ?s0 = RegisterView"
    by (simp add: app_mount_def initialView_def storage_defs str_or_def)
  ultimately have "session_reachable ?s2"
    by (intro sr_step [OF sr_step [OF sr_fresh st_submit] st_login]) (simp_all add: auth_start_def)
  moreover have "ss_view ?s2 = AppView"
    by (simp add: login_finish_def auth_finish_def auth_token_def response_ok_def)
  ultimately show ?thesis using session_marks_browser by (simp add: Let_def)
qed

text \<open>A login or registration answer decides everything at once: with a token the three
  storage entries are written and the application shown without a message; every failure
  (network, status, body, missing token) leaves storage and view as they were and shows
  exactly one error; either way the form stops loading.\<close>

theorem auth_outcome:
  "(case auth_token failed r of
      Inr token \<Rightarrow> ss_view (auth_finish failed fallback base r s) = AppView
        \<and> storage_token (ss_browser (auth_finish failed fallback base r s)) = token
        \<and> get_item ''peerwan_base'' (ss_browser (auth_finish failed fallback base r s)) = Some base
        \<and> storage_adminSet (ss_browser (auth_finish failed fallback base r s))
        \<and> ss_toasts (auth_finish failed fallback base r s) = ss_toasts s
    | Inl e \<Rightarrow> ss_view (auth_finish failed fallback base r s) = ss_view s
        \<and> ss_browser (auth_finish failed fallback base r s) = ss_browser s
        \<and> (\<exists>msg. ss_toasts (auth_finish failed fallback base r s) = ss_toasts s @ [Failure msg]))
   \<and> \<not> ss_loading (auth_finish failed fallback base r s)"
  by (cases "auth_token failed r")
    (simp_all add: auth_finish_def storage_token_def storage_adminSet_def set_storage_token_def
      set_storage_adminSet_def set_storage_base_def get_item_def set_item_def str_or_def)

end
