(* ===== verification/Js_WS.thy ===== *)
theory Js_WS
  imports Js_Api
begin

text \<open>
  The hook of \<open>frontend/src/hooks/useWS.js\<close>: an effect that opens a WebSocket and
  whose cleanup closes it, run again whenever \<open>[path, onMessage]\<close> changes.  Callbacks
  are compared by identity, so a callback is the number of the closure it is.
\<close>

section \<open>The URL\<close>

text \<open>\<open>.replace(/^http/, 'ws')\<close>\<close>

definition http_to_ws :: "string \<Rightarrow> string" where
  "http_to_ws s = (if prefix ''http'' s then ''ws'' @ drop 4 s else s)"

definition ws_base :: "browser \<Rightarrow> string" where
  "ws_base b = strip_slashes (http_to_ws (storage_base b))"

lemma http_to_ws_schemes:
  "http_to_ws (''http://'' @ rest) = ''ws://'' @ rest"
  "http_to_ws (''https://'' @ rest) = ''wss://'' @ rest"
  by (simp_all add: http_to_ws_def)

section \<open>The effect\<close>

text \<open>
  \<open>ws_cleanup\<close> is the socket the cleanup function of the last effect will close (none
  when the effect returned \<open>undefined\<close>), \<open>ws_ref\<close> is \<open>wsRef.current\<close>, and
  \<open>ws_open\<close> the sockets opened and not yet closed, with their URLs.
\<close>

record ws_hook =
  ws_deps :: "(string option \<times> nat) option"
  ws_cleanup :: "nat option"
  ws_ref :: "nat option"
  ws_open :: "(nat \<times> string) list"
  ws_next :: nat

definition ws_init :: ws_hook where
  "ws_init = \<lparr>ws_deps = None, ws_cleanup = None, ws_ref = None, ws_open = [], ws_next = 0\<rparr>"

definition ws_run_cleanup :: "ws_hook \<Rightarrow> ws_hook" where
  "ws_run_cleanup s =
     (case ws_cleanup s of
        None \<Rightarrow> s
      | Some k \<Rightarrow> s\<lparr>ws_cleanup := None, ws_open := AList.delete k (ws_open s)\<rparr>)"

text \<open>
  \<open>accepts\<close> says for which URLs the \<open>WebSocket\<close> constructor does not throw.
\<close>

definition ws_effect :: "(string \<Rightarrow> bool) \<Rightarrow> browser \<Rightarrow> string option \<Rightarrow> ws_hook \<Rightarrow> ws_hook" where
  "ws_effect accepts b path s =
     (case path of
        None \<Rightarrow> s\<lparr>ws_cleanup := None\<rparr>
      | Some p \<Rightarrow>
          (if p = [] then s\<lparr>ws_cleanup := None\<rparr>
           else (let url = ws_base b @ p in
             if accepts url then
               s\<lparr>ws_ref := Some (ws_next s), ws_cleanup := Some (ws_next s),
                 ws_open := ws_open s @ [(ws_next s, url)], ws_next := Suc (ws_next s)\<rparr>
             else s\<lparr>ws_cleanup := None\<rparr>)))"

definition ws_render ::
  "(string \<Rightarrow> bool) \<Rightarrow> browser \<Rightarrow> string option \<Rightarrow> nat \<Rightarrow> ws_hook \<Rightarrow> ws_hook" where
  "ws_render accepts b path onMessage s =
     (if ws_deps s = Some (path, onMessage) then s
      else ws_effect accepts b path (ws_run_cleanup (s\<lparr>ws_deps := Some (path, onMessage)\<rparr>)))"

definition ws_unmount :: "ws_hook \<Rightarrow> ws_hook" where
  "ws_unmount s = ws_run_cleanup (s\<lparr>ws_deps := None\<rparr>)"

text \<open>
  What a received frame does: nothing without a callback; otherwise the callback on the
  parsed data, and an exception of either is dropped.  \<open>evt\<close> is \<open>JSON.parse\<close>'s
  answer, \<open>None\<close> when it throws.
\<close>

definition ws_onmessage :: "(jsval \<Rightarrow> 's \<Rightarrow> 's res) option \<Rightarrow> jsval option \<Rightarrow> 's \<Rightarrow> 's" where
  "ws_onmessage onMessage evt s =
     (case onMessage of
        None \<Rightarrow> s
      | Some f \<Rightarrow>
          (case evt of
             None \<Rightarrow> s
           | Some data \<Rightarrow> (case f data s of Inl e \<Rightarrow> s | Inr s' \<Rightarrow> s')))"

section \<open>Sockets do not leak\<close>

inductive ws_reachable :: "(string \<Rightarrow> bool) \<Rightarrow> browser \<Rightarrow> ws_hook \<Rightarrow> bool" for accepts b where
  wr_init: "ws_reachable accepts b ws_init"
| wr_render: "ws_reachable accepts b s \<Longrightarrow> ws_reachable accepts b (ws_render accepts b path cb s)"
| wr_unmount: "ws_reachable accepts b s \<Longrightarrow> ws_reachable accepts b (ws_unmount s)"

text \<open>
  The sockets that are open are exactly the one the pending cleanup will close, and it is
  the newest.
\<close>

definition ws_inv :: "ws_hook \<Rightarrow> bool" where
  "ws_inv s \<longleftrightarrow>
     (case ws_cleanup s of
        None \<Rightarrow> ws_open s = []
      | Some k \<Rightarrow> (\<exists>url. ws_open s = [(k, url)]) \<and> Suc k = ws_next s \<and> ws_ref s = Some k)"

lemma ws_run_cleanup_open: "ws_inv s \<Longrightarrow> ws_open (ws_run_cleanup s) = []"
  by (auto simp: ws_inv_def ws_run_cleanup_def split: option.splits)

lemma ws_run_cleanup_simps [simp]:
  "ws_cleanup (ws_run_cleanup s) = None"
  "ws_next (ws_run_cleanup s) = ws_next s"
  "ws_deps (ws_run_cleanup s) = ws_deps s"
  "ws_run_cleanup (s\<lparr>ws_deps := d\<rparr>) = (ws_run_cleanup s)\<lparr>ws_deps := d\<rparr>"
  by (simp_all add: ws_run_cleanup_def split: option.splits)

lemma ws_effect_inv:
  "ws_open s = [] \<Longrightarrow> ws_inv (ws_effect accepts b path s)"
  by (auto simp: ws_inv_def ws_effect_def Let_def split: option.splits)

lemma ws_render_inv: "ws_inv s \<Longrightarrow> ws_inv (ws_render accepts b path cb s)"
  by (auto simp: ws_render_def ws_run_cleanup_open intro!: ws_effect_inv)

lemma ws_unmount_inv: "ws_inv s \<Longrightarrow> ws_inv (ws_unmount s)"
  using ws_run_cleanup_open [of s] by (simp add: ws_unmount_def ws_inv_def)

lemma ws_reachable_inv: "ws_reachable accepts b s \<Longrightarrow> ws_inv s"
  by (induction rule: ws_reachable.induct)
    (auto intro: ws_render_inv ws_unmount_inv, simp add: ws_inv_def ws_init_def)

section \<open>A new closure reconnects\<close>

text \<open>
  \<open>PolicyDrawer\<close> passes an arrow function written in its body, a new closure for
  every render; \<open>n\<close> renders with the same path are the renders with closures
  \<open>c, c+1, \<dots>\<close>.
\<close>

fun inline_renders ::
  "(string \<Rightarrow> bool) \<Rightarrow> browser \<Rightarrow> string option \<Rightarrow> nat \<Rightarrow> nat \<Rightarrow> ws_hook \<Rightarrow> ws_hook" where
  "inline_renders accepts b path c 0 s = s"
| "inline_renders accepts b path c (Suc n) s =
     inline_renders accepts b path (Suc c) n (ws_render accepts b path c s)"

lemma ws_render_new:
  assumes "ws_inv s" "ws_deps s \<noteq> Some (Some p, c)" "p \<noteq> []" "accepts (ws_base b @ p)"
  shows "ws_open (ws_render accepts b (Some p) c s) = [(ws_next s, ws_base b @ p)]"
    and "ws_next (ws_render accepts b (Some p) c s) = Suc (ws_next s)"
    and "ws_deps (ws_render accepts b (Some p) c s) = Some (Some p, c)"
  using assms ws_run_cleanup_open [OF assms(1)]
  by (simp_all add: ws_render_def ws_effect_def Let_def)

lemma inline_renders_next:
  assumes "ws_inv s" "\<forall>m\<ge>c. ws_deps s \<noteq> Some (Some p, m)" "p \<noteq> []" "accepts (ws_base b @ p)"
  shows "ws_next (inline_renders accepts b (Some p) c n s) = ws_next s + n"
  using assms(1,2)
proof (induction n arbitrary: c s)
  case (Suc n)
  let ?t = "ws_render accepts b (Some p) c s"
  have d: "ws_deps s \<noteq> Some (Some p, c)" using Suc.prems(2) by simp
  note new = ws_render_new [where accepts = accepts and b = b, OF Suc.prems(1) d assms(3,4)]
  have "\<forall>m\<ge>Suc c. ws_deps ?t \<noteq> Some (Some p, m)" using new(3) by simp
  then have "ws_next (inline_renders accepts b (Some p) (Suc c) n ?t) = ws_next ?t + n"
    by (intro Suc.IH ws_render_inv [OF Suc.prems(1)])
  then show ?case using new(2) by simp
qed simp

section \<open>Properties\<close>

text \<open>C25. The hook never holds more than one socket open, and none after it is unmounted,
  however the path and the callback change between renders.\<close>

theorem ws_no_leak:
  assumes "ws_reachable accepts b s"
  shows "length (ws_open s) \<le> 1 \<and> ws_open (ws_unmount s) = []"
proof -
  have inv: "ws_inv s" by (rule ws_reachable_inv [OF assms])
  then have "length (ws_open s) \<le> 1" by (auto simp: ws_inv_def split: option.splits)
  then show ?thesis by (simp add: ws_unmount_def ws_run_cleanup_open [OF inv])
qed

theorem ws_no_leak_witness:
  "let b = \<lparr>local_storage = [], win_origin = ''http://c''\<rparr>
   in length (ws_open (ws_render (\<lambda>_. True) b (Some ''/p'') 1
        (ws_render (\<lambda>_. True) b (Some ''/p'') 0 ws_init))) \<le> 1"
  using ws_no_leak [OF wr_render [OF wr_render [OF wr_init]]] by (simp add: Let_def)

text \<open>A callback written inline in a component makes the hook reconnect at every render: n
  renders with the same path open n sockets one after the other, each closing the one before,
  and only the newest is open in the end.\<close>

theorem ws_inline_callback_reconnects:
  assumes "p \<noteq> []" and "accepts (ws_base b @ p)"
  shows "ws_next (inline_renders accepts b (Some p) 0 (Suc n) ws_init) = Suc n
    \<and> ws_open (inline_renders accepts b (Some p) 0 (Suc n) ws_init) = [(n, ws_base b @ p)]"
proof -
  have inv0: "ws_inv ws_init" by (simp add: ws_inv_def ws_init_def)
  have opens: "ws_open (inline_renders accepts b (Some p) c (Suc m) s) = [(ws_next s + m, ws_base b @ p)]"
    if "ws_inv s" "\<forall>k\<ge>c. ws_deps s \<noteq> Some (Some p, k)" for s c m
    using that
  proof (induction m arbitrary: s c)
    case 0
    then show ?case using ws_render_new(1) [where accepts = accepts and b = b] assms by simp
  next
    case (Suc m)
    let ?t = "ws_render accepts b (Some p) c s"
    have d: "ws_deps s \<noteq> Some (Some p, c)" using Suc.prems(2) by simp
    note new = ws_render_new [where accepts = accepts and b = b, OF Suc.prems(1) d assms]
    have "\<forall>k\<ge>Suc c. ws_deps ?t \<noteq> Some (Some p, k)" using new(3) by simp
    from Suc.IH [OF ws_render_inv [OF Suc.prems(1)] this] show ?case using new(2) by simp
  qed
  have "\<forall>k\<ge>0. ws_deps ws_init \<noteq> Some (Some p, k)" by (simp add: ws_init_def)
  then have "ws_next (inline_renders accepts b (Some p) 0 (Suc n) ws_init) = ws_next ws_init + Suc n"
    and "ws_open (inline_renders accepts b (Some p) 0 (Suc n) ws_init) = [(ws_next ws_init + n, ws_base b @ p)]"
    using inline_renders_next [where accepts = accepts and b = b, OF inv0 _ assms] opens [OF inv0]
    by blast+
  moreover have "ws_next ws_init = 0" by (simp add: ws_init_def)
  ultimately show ?thesis by simp
qed

theorem ws_inline_callback_reconnects_witness:
  "ws_next (inline_renders (\<lambda>_. True) \<lparr>local_storage = [], win_origin = ''http://c''\<rparr> (Some ''/p'') 0 (Suc 4)
     ws_init) = 5"
  using ws_inline_callback_reconnects [where p = "''/p''" and accepts = "\<lambda>_. True" and n = 4
      and b = "\<lparr>local_storage = [], win_origin = ''http://c''\<rparr>"]
  by simp

end
