(* ===== verification/Js_Mesh.thy ===== *)
theory Js_Mesh
  imports Js_Api
begin

text \<open>
  The connectivity map: \<open>frontend/src/components/MeshStatus.jsx\<close> (where nodes and
  links are drawn, which links are listed as broken) and \<open>PathSelectorModal\<close> of
  \<open>PolicyDrawer.jsx\<close> (choosing a path by clicking nodes, and the broken segments of the
  chosen path).  Coordinates are reals; styles that do not depend on the data are left out.
\<close>

section \<open>Data\<close>

text \<open>
  A latitude or longitude is present when \<open>typeof\<close> it is \<open>'number'\<close>.
\<close>

record mesh_node =
  mn_id :: string
  mn_lat :: "real option"
  mn_lng :: "real option"
  mn_current :: bool

record mesh_link =
  ml_from :: string
  ml_to :: string
  ml_ok :: bool
  ml_reason :: string
  ml_latencyMs :: "rat option"
  ml_packetLoss :: "rat option"

fun as_number :: "jsval \<Rightarrow> rat option" where
  "as_number (Number n) = Some n"
| "as_number _ = None"

definition mesh_node_of :: "jsval \<Rightarrow> mesh_node" where
  "mesh_node_of n =
     (let loc = js_or (js_oget ''location'' n) (Obj [])
      in \<lparr>mn_id = elem_string (js_oget ''id'' n),
          mn_lat = map_option of_rat (as_number (js_oget ''lat'' loc)),
          mn_lng = map_option of_rat (as_number (js_oget ''lng'' loc)),
          mn_current = truthy (js_oget ''current'' n)\<rparr>)"

definition mesh_link_of :: "jsval \<Rightarrow> mesh_link" where
  "mesh_link_of l =
     \<lparr>ml_from = elem_string (js_oget ''from'' l), ml_to = elem_string (js_oget ''to'' l),
      ml_ok = truthy (js_oget ''ok'' l), ml_reason = elem_string (js_oget ''reason'' l),
      ml_latencyMs = as_number (js_oget ''latencyMs'' l),
      ml_packetLoss = as_number (js_oget ''packetLoss'' l)\<rparr>"

section \<open>MeshMap\<close>

definition WIDTH :: real where "WIDTH = 900"

definition HEIGHT :: real where "HEIGHT = 420"

definition located_point :: "real \<Rightarrow> real \<Rightarrow> real \<times> real" where
  "located_point lat lng = (((lng + 180) / 360) * WIDTH, ((90 - lat) / 180) * HEIGHT)"

definition circle_point :: "nat \<Rightarrow> nat \<Rightarrow> real \<times> real" where
  "circle_point unknownIndex n =
     (let angle = (real unknownIndex / real (max n 1)) * pi * 2
      in (WIDTH / 2 + cos angle * 180, HEIGHT / 2 + sin angle * 120))"

definition has_location :: "mesh_node \<Rightarrow> bool" where
  "has_location n \<longleftrightarrow> mn_lat n \<noteq> None \<and> mn_lng n \<noteq> None"

definition node_point :: "nat \<Rightarrow> nat \<Rightarrow> mesh_node \<Rightarrow> real \<times> real" where
  "node_point cnt unknownIndex n =
     (case (mn_lat n, mn_lng n) of
        (Some lat, Some lng) \<Rightarrow> located_point lat lng
      | _ \<Rightarrow> circle_point unknownIndex cnt)"

text \<open>The \<open>reduce\<close>; the accumulator is an object keyed by node id.\<close>

fun reduce_positions ::
  "nat \<Rightarrow> mesh_node list \<Rightarrow> nat \<Rightarrow> (string \<times> real \<times> real) list \<Rightarrow> (string \<times> real \<times> real) list" where
  "reduce_positions cnt [] unknownIndex acc = acc"
| "reduce_positions cnt (n # ns) unknownIndex acc =
     reduce_positions cnt ns (if has_location n then unknownIndex else Suc unknownIndex)
       (AList.update (mn_id n) (node_point cnt unknownIndex n) acc)"

definition positions :: "mesh_node list \<Rightarrow> (string \<times> real \<times> real) list" where
  "positions nodes = (if nodes = [] then [] else reduce_positions (length nodes) nodes 0 [])"

text \<open>The \<open>Set\<close> of highlighted segments, both directions of each hop.\<close>

definition arrow :: "string \<Rightarrow> string \<Rightarrow> string" where
  "arrow a b = a @ ''->'' @ b"

fun pathSet :: "string list \<Rightarrow> string list" where
  "pathSet (a # b # rest) = arrow a b # arrow b a # pathSet (b # rest)"
| "pathSet _ = []"

record mesh_line =
  ln_from :: "real \<times> real"
  ln_to :: "real \<times> real"
  ln_stroke :: string
  ln_width :: rat
  ln_dash :: string

definition link_line ::
  "(string \<times> real \<times> real) list \<Rightarrow> string list \<Rightarrow> mesh_link \<Rightarrow> mesh_line option" where
  "link_line pos highlight l =
     (case (map_of pos (ml_from l), map_of pos (ml_to l)) of
        (Some a, Some b) \<Rightarrow>
          Some \<lparr>ln_from = a, ln_to = b,
            ln_stroke = (if ml_ok l then ''#38f39d'' else ''#ff4d4f''),
            ln_width = (if arrow (ml_from l) (ml_to l) \<in> set highlight then 3 else 8 / 5),
            ln_dash = (if ml_ok l then ''4 0'' else ''6 4'')\<rparr>
      | _ \<Rightarrow> None)"

definition mesh_lines :: "mesh_node list \<Rightarrow> mesh_link list \<Rightarrow> string list \<Rightarrow> mesh_line list" where
  "mesh_lines nodes links highlightPath =
     List.map_filter (link_line (positions nodes) (pathSet highlightPath)) links"

definition critical :: "mesh_link list \<Rightarrow> mesh_node \<Rightarrow> bool" where
  "critical links n \<longleftrightarrow>
     list_ex (\<lambda>l. \<not> ml_ok l \<and> (ml_from l = mn_id n \<or> ml_to l = mn_id n)) links"

record mesh_dot =
  dt_id :: string
  dt_left :: real
  dt_top :: real
  dt_size :: nat
  dt_background :: string

definition node_dot ::
  "(string \<times> real \<times> real) list \<Rightarrow> mesh_link list \<Rightarrow> mesh_node \<Rightarrow> mesh_dot option" where
  "node_dot pos links n =
     (case map_of pos (mn_id n) of
        None \<Rightarrow> None
      | Some (x, y) \<Rightarrow>
          (let size = (if mn_current n then 16 else 12)
           in Some \<lparr>dt_id = mn_id n, dt_left = x - real size / 2, dt_top = y - real size / 2,
                dt_size = size,
                dt_background = (if critical links n then ''#ff4d4f'' else ''#9de1ff'')\<rparr>))"

definition mesh_dots :: "mesh_node list \<Rightarrow> mesh_link list \<Rightarrow> mesh_dot list" where
  "mesh_dots nodes links = List.map_filter (node_dot (positions nodes) links) nodes"

section \<open>MeshStatus\<close>

record down_item =
  di_from :: string
  di_to :: string
  di_reason :: string
  di_lat :: "rat option"
  di_loss :: "rat option"

definition down_links :: "mesh_link list \<Rightarrow> mesh_link list" where
  "down_links links = filter (\<lambda>l. \<not> ml_ok l) links"

definition down_items :: "mesh_link list \<Rightarrow> down_item list" where
  "down_items links =
     map (\<lambda>l. \<lparr>di_from = ml_from l, di_to = ml_to l,
         di_reason = (if ml_reason l = [] then txt_down else ml_reason l),
         di_lat = ml_latencyMs l, di_loss = ml_packetLoss l\<rparr>) (down_links links)"

section \<open>PathSelectorModal\<close>

text \<open>\<open>currentNode?.id\<close>; the empty string stands for \<open>undefined\<close>, equally falsy.\<close>

definition nodesWithCurrent :: "mesh_node list \<Rightarrow> string \<Rightarrow> mesh_node list" where
  "nodesWithCurrent nodes current = map (\<lambda>n. n\<lparr>mn_current := (mn_id n = current)\<rparr>) nodes"

definition onNodeClick :: "string \<Rightarrow> string \<Rightarrow> string list \<Rightarrow> string list" where
  "onNodeClick current n path = (if n = current then path else path @ [n])"

definition link_between :: "string \<Rightarrow> string \<Rightarrow> mesh_link \<Rightarrow> bool" where
  "link_between a b l \<longleftrightarrow> (ml_from l = a \<and> ml_to l = b) \<or> (ml_from l = b \<and> ml_to l = a)"

definition segment :: "mesh_link list \<Rightarrow> string \<Rightarrow> string \<Rightarrow> (string \<times> string \<times> string) list" where
  "segment links a b =
     (if a = [] \<or> b = [] then []
      else (case find (link_between a b) links of
              Some hit \<Rightarrow> if ml_ok hit then [] else [(a, b, ml_reason hit)]
            | None \<Rightarrow> []))"

fun downSegments :: "mesh_link list \<Rightarrow> string \<Rightarrow> string list \<Rightarrow> (string \<times> string \<times> string) list" where
  "downSegments links from [] = []"
| "downSegments links from (to # path) = segment links from to @ downSegments links to path"

definition highlightPath :: "string \<Rightarrow> string list \<Rightarrow> string list" where
  "highlightPath current path = filter (\<lambda>s. s \<noteq> []) (current # path)"

text \<open>Opening the dialog clears the path; \<open>finish\<close> hands it to \<open>onDone\<close> and closes.\<close>

record path_modal =
  pm_open :: bool
  pm_path :: "string list"

definition pm_opened :: "path_modal \<Rightarrow> path_modal" where
  "pm_opened m = m\<lparr>pm_open := True, pm_path := []\<rparr>"

definition pm_finish :: "path_modal \<Rightarrow> string list \<times> path_modal" where
  "pm_finish m = (pm_path m, m\<lparr>pm_open := False\<rparr>)"

definition select_path :: "string \<Rightarrow> string list \<Rightarrow> string list" where
  "select_path current clicks = fold (onNodeClick current) clicks []"

section \<open>Lemmas\<close>

lemma select_path_filter: "select_path current clicks = filter (\<lambda>n. n \<noteq> current) clicks"
proof -
  have "fold (onNodeClick current) clicks p = p @ filter (\<lambda>n. n \<noteq> current) clicks" for p
    by (induction clicks arbitrary: p) (simp_all add: onNodeClick_def)
  then show ?thesis by (simp add: select_path_def)
qed

definition unlocated :: "mesh_node list \<Rightarrow> nat" where
  "unlocated ns = length (filter (\<lambda>n. \<not> has_location n) ns)"

lemma reduce_positions_append:
  "reduce_positions t (xs @ ys) k acc =
     reduce_positions t ys (k + unlocated xs) (reduce_positions t xs k acc)"
  by (induction xs arbitrary: k acc) (simp_all add: unlocated_def)

lemma reduce_positions_other:
  "i \<notin> mn_id ` set ns \<Longrightarrow> map_of (reduce_positions t ns k acc) i = map_of acc i"
  by (induction ns arbitrary: k acc) auto

lemma positions_at:
  assumes "distinct (map mn_id (xs @ n # ys))"
  shows "map_of (positions (xs @ n # ys)) (mn_id n) =
    Some (node_point (length (xs @ n # ys)) (unlocated xs) n)"
proof -
  have "mn_id n \<notin> mn_id ` set ys" using assms by auto
  then show ?thesis
    by (simp add: positions_def reduce_positions_append reduce_positions_other)
qed

lemma circle_point_inj:
  assumes "circle_point i n = circle_point j n" "i < n" "j < n"
  shows "i = j"
proof -
  let ?a = "\<lambda>k. (real k / real n) * pi * 2"
  have n: "0 < real n" and m1: "max n 1 = n" using assms(2) by simp_all
  have "sin (?a i) = sin (?a j) \<and> cos (?a i) = cos (?a j)"
    using assms(1) m1 by (simp add: circle_point_def Let_def)
  then obtain m :: int where m: "?a i = ?a j + 2 * pi * m"
    using sin_cos_eq_iff by blast
  have "2 * pi * (real i / real n) = 2 * pi * (real j / real n + m)"
    using m by (simp add: algebra_simps)
  then have "real i / real n = real j / real n + m"
    using pi_gt_zero by (simp only: mult_cancel_left) simp
  then have "real i = real j + m * real n"
    using n by (simp add: field_simps)
  then have eq: "int i = int j + m * int n"
    by (metis (mono_tags, opaque_lifting) of_int_add of_int_eq_iff of_int_mult of_int_of_nat_eq)
  have "m < 1"
  proof (rule ccontr)
    assume "\<not> m < 1"
    then have "1 * int n \<le> m * int n" by (intro mult_right_mono) auto
    with eq assms(2) show False by simp
  qed
  moreover have "- 1 < m"
  proof (rule ccontr)
    assume "\<not> - 1 < m"
    then have "m * int n \<le> - 1 * int n" by (intro mult_right_mono) auto
    with eq assms(3) show False by simp
  qed
  ultimately have "m = 0" by simp
  with eq show ?thesis by simp
qed

lemma circle_point_bounds:
  "0 \<le> fst (circle_point k n)" "fst (circle_point k n) \<le> WIDTH"
  "0 \<le> snd (circle_point k n)" "snd (circle_point k n) \<le> HEIGHT"
proof -
  let ?a = "(real k / real (max n 1)) * pi * 2"
  have "- 1 \<le> cos ?a" "cos ?a \<le> 1" "- 1 \<le> sin ?a" "sin ?a \<le> 1" by simp_all
  then show "0 \<le> fst (circle_point k n)" "fst (circle_point k n) \<le> WIDTH"
    "0 \<le> snd (circle_point k n)" "snd (circle_point k n) \<le> HEIGHT"
    unfolding circle_point_def Let_def WIDTH_def HEIGHT_def fst_conv snd_conv by linarith+
qed

lemma located_point_bounds:
  assumes "- 180 \<le> lng" "lng \<le> 180" "- 90 \<le> lat" "lat \<le> 90"
  shows "0 \<le> fst (located_point lat lng)" "fst (located_point lat lng) \<le> WIDTH"
    "0 \<le> snd (located_point lat lng)" "snd (located_point lat lng) \<le> HEIGHT"
  using assms by (simp_all add: located_point_def WIDTH_def HEIGHT_def)

lemma arrow_inject:
  assumes "CHR ''>'' \<notin> set a" "CHR ''>'' \<notin> set c" "arrow a b = arrow c d"
  shows "a = c \<and> b = d"
proof -
  have cut: "cut (CHR ''>'') (arrow x y) = (x @ ''-'', y)" if "CHR ''>'' \<notin> set x" for x y
    using that cut_append [of "CHR ''>''" "x @ ''-''" y] by (simp add: arrow_def)
  from assms(3) have "cut (CHR ''>'') (arrow a b) = cut (CHR ''>'') (arrow c d)" by simp
  with cut [OF assms(1)] cut [OF assms(2)] show ?thesis by simp
qed

lemma set_pathSet: "set (pathSet p) = (\<Union>(a, b)\<in>set (pairs p). {arrow a b, arrow b a})"
  by (induction p rule: pathSet.induct) auto

lemma set_downSegments:
  "set (downSegments links from path) = (\<Union>(a, b)\<in>set (pairs (from # path)). set (segment links a b))"
  by (induction links "from" path rule: downSegments.induct) auto

section \<open>Properties\<close>

lemma mesh_point_in_canvas:
  assumes "distinct (map mn_id ns)" "n \<in> set ns"
    and "\<forall>n\<in>set ns. (case mn_lat n of None \<Rightarrow> True | Some x \<Rightarrow> - 90 \<le> x \<and> x \<le> 90)
      \<and> (case mn_lng n of None \<Rightarrow> True | Some x \<Rightarrow> - 180 \<le> x \<and> x \<le> 180)"
  shows "\<exists>x y. map_of (positions ns) (mn_id n) = Some (x, y) \<and> 0 \<le> x \<and> x \<le> WIDTH \<and> 0 \<le> y \<and> y \<le> HEIGHT"
proof -
  obtain xs ys where ns: "ns = xs @ n # ys" using assms(2) by (meson split_list)
  let ?p = "node_point (length ns) (unlocated xs) n"
  have "0 \<le> fst ?p \<and> fst ?p \<le> WIDTH \<and> 0 \<le> snd ?p \<and> snd ?p \<le> HEIGHT"
    using assms(2,3) circle_point_bounds located_point_bounds
    by (fastforce simp: node_point_def split: option.splits)
  then show ?thesis using positions_at [of xs n ys] assms(1) ns by (cases ?p) auto
qed

text \<open>C39. Every node of the map is drawn inside the canvas: with distinct ids and coordinates
  that are latitudes and longitudes, each node has a dot, and the dot's centre lies within
  900 by 420, whether the node is located or placed on the circle.\<close>

theorem mesh_dots_in_canvas:
  assumes "distinct (map mn_id ns)"
    and "\<forall>n\<in>set ns. (case mn_lat n of None \<Rightarrow> True | Some x \<Rightarrow> - 90 \<le> x \<and> x \<le> 90)
      \<and> (case mn_lng n of None \<Rightarrow> True | Some x \<Rightarrow> - 180 \<le> x \<and> x \<le> 180)"
  shows "map dt_id (mesh_dots ns links) = map mn_id ns
    \<and> (\<forall>d\<in>set (mesh_dots ns links).
         0 \<le> dt_left d + dt_size d / 2 \<and> dt_left d + dt_size d / 2 \<le> WIDTH \<and>
         0 \<le> dt_top d + dt_size d / 2 \<and> dt_top d + dt_size d / 2 \<le> HEIGHT)"
proof -
  have dot: "\<exists>d. node_dot (positions ns) links n = Some d \<and> dt_id d = mn_id n \<and>
      0 \<le> dt_left d + dt_size d / 2 \<and> dt_left d + dt_size d / 2 \<le> WIDTH \<and>
      0 \<le> dt_top d + dt_size d / 2 \<and> dt_top d + dt_size d / 2 \<le> HEIGHT" if "n \<in> set ns" for n
    using mesh_point_in_canvas [OF assms(1) that assms(2)] by (auto simp: node_dot_def Let_def)
  have "map dt_id (List.map_filter (node_dot (positions ns) links) ms) = map mn_id ms"
    if "set ms \<subseteq> set ns" for ms
    using that dot by (induction ms) (fastforce simp: List.map_filter_simps)+
  then show ?thesis
    using dot by (fastforce simp: mesh_dots_def List.map_filter_def)
qed

theorem mesh_dots_in_canvas_witness:
  "map dt_id (mesh_dots [\<lparr>mn_id = ''a'', mn_lat = Some 90, mn_lng = Some (- 180), mn_current = True\<rparr>,
     \<lparr>mn_id = ''b'', mn_lat = None, mn_lng = None, mn_current = False\<rparr>] []) = [''a'', ''b'']"
  using mesh_dots_in_canvas [of "[\<lparr>mn_id = ''a'', mn_lat = Some 90, mn_lng = Some (- 180), mn_current = True\<rparr>,
     \<lparr>mn_id = ''b'', mn_lat = None, mn_lng = None, mn_current = False\<rparr>]" "[]"]
  by simp

text \<open>Nodes without a location never lie on top of each other, however many there are.\<close>

theorem unlocated_nodes_apart:
  assumes "distinct (map mn_id (xs @ m # ys @ n # zs))" and "\<not> has_location m" "\<not> has_location n"
  shows "map_of (positions (xs @ m # ys @ n # zs)) (mn_id m)
    \<noteq> map_of (positions (xs @ m # ys @ n # zs)) (mn_id n)"
proof -
  let ?ns = "xs @ m # ys @ n # zs"
  have "map_of (positions ?ns) (mn_id m) = Some (node_point (length ?ns) (unlocated xs) m)"
    using positions_at [OF assms(1)] .
  moreover have "map_of (positions ?ns) (mn_id n)
      = Some (node_point (length ?ns) (unlocated (xs @ m # ys)) n)"
    using positions_at [of "xs @ m # ys" n zs] assms(1) by simp
  moreover have "node_point t k m = circle_point k t" "node_point t k n = circle_point k t" for t k
    using assms(2,3) by (auto simp: node_point_def has_location_def split: option.splits)
  moreover have "circle_point (unlocated xs) (length ?ns) \<noteq> circle_point (unlocated (xs @ m # ys)) (length ?ns)"
  proof
    assume eq: "circle_point (unlocated xs) (length ?ns) = circle_point (unlocated (xs @ m # ys)) (length ?ns)"
    have le: "unlocated vs \<le> length vs" for vs by (simp add: unlocated_def)
    have "unlocated xs < length ?ns" "unlocated (xs @ m # ys) < length ?ns"
      using le [of xs] le [of "xs @ m # ys"] by simp_all
    from circle_point_inj [OF eq this] assms(2) show False by (simp add: unlocated_def)
  qed
  ultimately show ?thesis by simp
qed

theorem unlocated_nodes_apart_witness:
  "let a = \<lparr>mn_id = ''a'', mn_lat = None, mn_lng = None, mn_current = False\<rparr>;
       b = \<lparr>mn_id = ''b'', mn_lat = Some 1, mn_lng = None, mn_current = False\<rparr>
   in map_of (positions [a, b]) ''a'' \<noteq> map_of (positions [a, b]) ''b''"
  using unlocated_nodes_apart [of "[]" "\<lparr>mn_id = ''a'', mn_lat = None, mn_lng = None, mn_current = False\<rparr>"
      "[]" "\<lparr>mn_id = ''b'', mn_lat = Some 1, mn_lng = None, mn_current = False\<rparr>" "[]"]
  by (simp add: has_location_def Let_def)

text \<open>The map and the list below it agree about outages: a node is drawn red exactly when
  one of the listed broken segments starts or ends at it.\<close>

theorem red_dots_match_list:
  assumes "d \<in> set (mesh_dots ns links)"
  shows "dt_background d = ''#ff4d4f'' \<longleftrightarrow>
    (\<exists>i\<in>set (down_items links). di_from i = dt_id d \<or> di_to i = dt_id d)"
proof -
  obtain n where "node_dot (positions ns) links n = Some d"
    using assms by (auto simp: mesh_dots_def List.map_filter_def)
  then have "dt_id d = mn_id n" "dt_background d = ''#ff4d4f'' \<longleftrightarrow> critical links n"
    by (auto simp: node_dot_def Let_def split: option.splits if_splits)
  then show ?thesis
    by (auto simp: critical_def down_items_def down_links_def list_ex_iff)
qed

theorem red_dots_match_list_witness:
  "let a = \<lparr>mn_id = ''a'', mn_lat = None, mn_lng = None, mn_current = False\<rparr>;
       l = \<lparr>ml_from = ''b'', ml_to = ''a'', ml_ok = False, ml_reason = [], ml_latencyMs = None, ml_packetLoss = None\<rparr>
   in map dt_background (mesh_dots [a] [l]) = [''#ff4d4f'']"
proof -
  let ?a = "\<lparr>mn_id = ''a'', mn_lat = None, mn_lng = None, mn_current = False\<rparr>"
  let ?l = "\<lparr>ml_from = ''b'', ml_to = ''a'', ml_ok = False, ml_reason = [], ml_latencyMs = None, ml_packetLoss = None\<rparr>"
  obtain x y where "node_point (Suc 0) 0 ?a = (x, y)" by fastforce
  then have "\<exists>d. mesh_dots [?a] [?l] = [d] \<and> dt_id d = ''a''"
    by (simp add: mesh_dots_def List.map_filter_simps node_dot_def positions_def)
  then obtain d where d: "mesh_dots [?a] [?l] = [d]" "dt_id d = ''a''" by blast
  then show ?thesis
    using red_dots_match_list [of d "[?a]" "[?l]"] by (simp add: Let_def down_items_def down_links_def)
qed

text \<open>Of ids without a \<open>>\<close>, exactly the links between consecutive nodes of the
  highlighted path, in either direction, are drawn thick.\<close>

theorem highlighted_links:
  assumes "map_of (positions ns) (ml_from l) = Some p" "map_of (positions ns) (ml_to l) = Some q"
    and "\<forall>i\<in>set path. CHR ''>'' \<notin> set i" "CHR ''>'' \<notin> set (ml_from l)"
  shows "map_option ln_width (link_line (positions ns) (pathSet path) l) =
    Some (if (\<exists>us vs. path = us @ ml_from l # ml_to l # vs \<or> path = us @ ml_to l # ml_from l # vs)
          then 3 else 8 / 5)"
proof -
  have "arrow (ml_from l) (ml_to l) \<in> set (pathSet path) \<longleftrightarrow>
      (ml_from l, ml_to l) \<in> set (pairs path) \<or> (ml_to l, ml_from l) \<in> set (pairs path)"
  proof
    assume "arrow (ml_from l) (ml_to l) \<in> set (pathSet path)"
    then obtain x y where xy: "(x, y) \<in> set (pairs path)"
      "arrow (ml_from l) (ml_to l) = arrow x y \<or> arrow (ml_from l) (ml_to l) = arrow y x"
      by (auto simp: set_pathSet)
    then have "CHR ''>'' \<notin> set x" "CHR ''>'' \<notin> set y" using assms(3) pairs_set by fastforce+
    with xy assms(4) arrow_inject
    show "(ml_from l, ml_to l) \<in> set (pairs path) \<or> (ml_to l, ml_from l) \<in> set (pairs path)" by blast
  qed (auto simp: set_pathSet)
  then show ?thesis using assms(1,2) by (auto simp: link_line_def pairs_split)
qed

theorem highlighted_links_witness:
  "let a = \<lparr>mn_id = ''a'', mn_lat = Some 0, mn_lng = Some 0, mn_current = False\<rparr>;
       b = \<lparr>mn_id = ''b'', mn_lat = Some 1, mn_lng = Some 1, mn_current = False\<rparr>;
       l = \<lparr>ml_from = ''b'', ml_to = ''a'', ml_ok = True, ml_reason = [], ml_latencyMs = None, ml_packetLoss = None\<rparr>
   in map_option ln_width (link_line (positions [a, b]) (pathSet [''c'', ''a'', ''b'']) l) = Some 3"
proof -
  let ?a = "\<lparr>mn_id = ''a'', mn_lat = Some 0, mn_lng = Some 0, mn_current = False\<rparr>"
  let ?b = "\<lparr>mn_id = ''b'', mn_lat = Some 1, mn_lng = Some 1, mn_current = False\<rparr>"
  let ?l = "\<lparr>ml_from = ''b'', ml_to = ''a'', ml_ok = True, ml_reason = [], ml_latencyMs = None, ml_packetLoss = None\<rparr>"
  have "map_of (positions [?a, ?b]) (ml_from ?l) = Some (node_point 2 0 ?b)"
    "map_of (positions [?a, ?b]) (ml_to ?l) = Some (node_point 2 0 ?a)"
    by (simp_all add: positions_def has_location_def numeral_2_eq_2)
  then have "map_option ln_width (link_line (positions [?a, ?b]) (pathSet [''c'', ''a'', ''b'']) ?l) =
      Some (if (\<exists>us vs. [''c'', ''a'', ''b''] = us @ ml_from ?l # ml_to ?l # vs
        \<or> [''c'', ''a'', ''b''] = us @ ml_to ?l # ml_from ?l # vs) then 3 else 8 / 5)"
    by (rule highlighted_links) simp_all
  moreover have "\<exists>us vs. [''c'', ''a'', ''b''] = us @ ml_from ?l # ml_to ?l # vs
      \<or> [''c'', ''a'', ''b''] = us @ ml_to ?l # ml_from ?l # vs"
    by (rule exI [of _ "[''c'']"], rule exI [of _ "[]"]) simp
  ultimately show ?thesis by (simp only: Let_def if_True simp_thms)
qed

lemma set_segment:
  "(x, y, r) \<in> set (segment links a b) \<longleftrightarrow> x = a \<and> y = b \<and> a \<noteq> [] \<and> b \<noteq> [] \<and>
     (\<exists>l. find (link_between a b) links = Some l \<and> \<not> ml_ok l \<and> ml_reason l = r)"
  by (cases "find (link_between a b) links") (auto simp: segment_def)

text \<open>The broken segments shown for a chosen path are exactly its hops, from the current node
  on, whose first known link in either direction is down, with that link's reason.\<close>

theorem down_segments_spec:
  "(a, b, r) \<in> set (downSegments links current path) \<longleftrightarrow>
     (\<exists>us vs. current # path = us @ a # b # vs) \<and> a \<noteq> [] \<and> b \<noteq> [] \<and>
     (\<exists>l. find (link_between a b) links = Some l \<and> \<not> ml_ok l \<and> ml_reason l = r)"
  unfolding set_downSegments pairs_split [symmetric] by (force simp: set_segment)

end
