(* ===== verification/Js_Policy.thy ===== *)
theory Js_Policy
  imports Js_Session Js_WS Js_Mesh
begin

text \<open>
  \<open>frontend/src/components/PolicyDrawer.jsx\<close>: editing the rules of a node, loading
  and submitting its policy, the install log, the task list, the diagnosis and the live
  log.  Each asynchronous handler is given as the call it makes and the continuation that
  is applied to the state when the answer arrives; the functions that take a backend run
  the two in sequence.
\<close>

section \<open>State\<close>

text \<open>
  \<open>pd_form\<close> is the value store of the antd form: \<open>setFieldsValue\<close> writes it, and
  \<open>validateFields\<close>, on a form without rules, returns it.
\<close>

record drawer =
  pd_rules :: jsval
  pd_rawPolicy :: jsval
  pd_viewModal :: bool
  pd_form :: "(string \<times> jsval) list"
  pd_installLogs :: jsval
  pd_logsLoading :: bool
  pd_diag :: jsval
  pd_diagLoading :: bool
  pd_verifyLoading :: bool
  pd_logLines :: "string list"
  pd_tasks :: jsval
  pd_currentPath :: "string list"
  pd_toasts :: "toast list"
  pd_crashed :: bool

definition drawer_init :: drawer where
  "drawer_init = \<lparr>pd_rules = Arr [], pd_rawPolicy = Null, pd_viewModal = False, pd_form = [],
     pd_installLogs = Arr [], pd_logsLoading = False, pd_diag = Null, pd_diagLoading = False,
     pd_verifyLoading = False, pd_logLines = [], pd_tasks = Arr [], pd_currentPath = [],
     pd_toasts = [], pd_crashed = False\<rparr>"

definition pd_toast :: "toast \<Rightarrow> drawer \<Rightarrow> drawer" where
  "pd_toast t s = s\<lparr>pd_toasts := pd_toasts s @ [t]\<rparr>"

lemma pd_toast_simps [simp]:
  "pd_rules (pd_toast t s) = pd_rules s" "pd_form (pd_toast t s) = pd_form s"
  "pd_currentPath (pd_toast t s) = pd_currentPath s" "pd_logLines (pd_toast t s) = pd_logLines s"
  "pd_diag (pd_toast t s) = pd_diag s" "pd_installLogs (pd_toast t s) = pd_installLogs s"
  "pd_toasts (pd_toast t s) = pd_toasts s @ [t]"
  by (simp_all add: pd_toast_def)

text \<open>\<open>.split(',').map(s => s.trim()).filter(Boolean)\<close>\<close>

definition split_trim :: "string \<Rightarrow> string list" where
  "split_trim s = filter (\<lambda>p. p \<noteq> []) (map js_trim (split_on (CHR '','') s))"

definition js_split_trim :: "jsval \<Rightarrow> string list res" where
  "js_split_trim v = sbind (as_string (js_or v (Str []))) (\<lambda>s. Inr (split_trim s))"

section \<open>Rules\<close>

definition rule_domains :: "jsval \<Rightarrow> jsval res" where
  "rule_domains domains =
     (if is_array domains then Inr domains
      else sbind (js_split_trim domains) (\<lambda>ds. Inr (Arr (map Str ds))))"

text \<open>\<open>values\<close> is what the rule form validated to.\<close>

definition addRule :: "(string \<times> jsval) list \<Rightarrow> drawer \<Rightarrow> drawer res" where
  "addRule values s =
     (let path0 = pd_currentPath s;
          viaNode = (if path0 \<noteq> [] then Str (last path0) else js_lookup ''viaNode'' values);
          path = (if path0 \<noteq> [] then Arr (map Str path0) else Undef)
      in sbind (rule_domains (js_lookup ''domains'' values)) (\<lambda>domains.
         sbind (as_array (pd_rules s)) (\<lambda>prev.
           Inr (s\<lparr>pd_rules := Arr (prev @
                  [Obj (set_prop ''path'' path
                     (set_prop ''viaNode'' viaNode (set_prop ''domains'' domains values)))]),
                  pd_currentPath := []\<rparr>))))"

definition removeRule :: "nat \<Rightarrow> drawer \<Rightarrow> drawer res" where
  "removeRule idx s =
     sbind (as_array (pd_rules s)) (\<lambda>rules.
       Inr (s\<lparr>pd_rules :=
         Arr (map fst (filter (\<lambda>(_, i). i \<noteq> idx) (zip rules [0..<length rules])))\<rparr>))"

text \<open>The line \<open>RuleList\<close> shows for a rule.\<close>

definition rule_text :: "jsval \<Rightarrow> string" where
  "rule_text r =
     elem_string (js_or (js_oget ''prefix'' r) (Str txt_domain_rule)) @ '' '' @
     (case js_oget ''domains'' r of
        Arr ds \<Rightarrow> if ds = [] then [] else ''['' @ js_join '','' ds @ '']''
      | _ \<Rightarrow> []) @
     txt_arrow @ elem_string (js_oget ''viaNode'' r) @
     (case js_oget ''path'' r of
        Arr hs \<Rightarrow> if hs = [] then [] else txt_path @ js_join txt_arrow hs
      | _ \<Rightarrow> [])"

section \<open>Loading, viewing and submitting the policy\<close>

definition policy_path :: "string \<Rightarrow> string" where
  "policy_path nid = ''/api/v1/policy?'' @ setting ''nodeId'' nid"

definition setFieldsValue :: "(string \<times> jsval) list \<Rightarrow> drawer \<Rightarrow> drawer" where
  "setFieldsValue vs s = s\<lparr>pd_form := fold (\<lambda>(k, v). set_prop k v) vs (pd_form s)\<rparr>"

definition load_values :: "jsval \<Rightarrow> ((string \<times> jsval) list \<times> jsval) res" where
  "load_values res =
     sbind (js_get ''egressPeerId'' res) (\<lambda>egress.
     sbind (as_array (js_or (js_oget ''bypassCidrs'' res) (Arr []))) (\<lambda>bypass.
       Inr ([(''egressPeerId'', egress),
             (''defaultRoute'', js_bool (js_oget ''defaultRoute'' res)),
             (''bypassCidrs'', Str (js_join '','' bypass)),
             (''defaultRouteNextHop'', js_or (js_oget ''defaultRouteNextHop'' res) Undef)],
            js_or (js_oget ''policyRules'' res) (Arr []))))"

definition load_done :: "jsval res \<Rightarrow> drawer \<Rightarrow> drawer" where
  "load_done r s =
     (case sbind r load_values of
        Inr (values, rules) \<Rightarrow> (setFieldsValue values s)\<lparr>pd_rules := rules\<rparr>
      | Inl e \<Rightarrow> pd_toast (Failure msg_policy_load_failed) s)"

definition drawer_load :: "browser \<Rightarrow> 'w fetch \<Rightarrow> string \<Rightarrow> drawer \<Rightarrow> 'w \<Rightarrow> drawer \<times> 'w" where
  "drawer_load b fetch nid s w =
     (let (r, w') = api b fetch (policy_path nid) get_options w in (load_done r s, w'))"

definition viewPolicy_done :: "jsval res \<Rightarrow> drawer \<Rightarrow> drawer" where
  "viewPolicy_done r s =
     (case r of
        Inr res \<Rightarrow> s\<lparr>pd_rawPolicy := res, pd_viewModal := True\<rparr>
      | Inl e \<Rightarrow> pd_toast (Failure (msg_policy_view_failed @ exn_string e)) s)"

definition submit_payload :: "string \<Rightarrow> drawer \<Rightarrow> jsval res" where
  "submit_payload nid s =
     (let v = pd_form s in
      sbind (js_split_trim (js_lookup ''bypassCidrs'' v)) (\<lambda>bypass.
        Inr (Obj [(''nodeId'', Str nid),
          (''egressPeerId'', js_or (js_lookup ''egressPeerId'' v) (Str [])),
          (''defaultRoute'', js_bool (js_lookup ''defaultRoute'' v)),
          (''bypassCidrs'', Arr (map Str bypass)),
          (''defaultRouteNextHop'', js_or (js_lookup ''defaultRouteNextHop'' v) (Str [])),
          (''policyRules'', pd_rules s)])))"

definition submit_done :: "jsval res \<Rightarrow> drawer \<Rightarrow> drawer" where
  "submit_done r s =
     (case r of
        Inr _ \<Rightarrow> pd_toast (Success msg_policy_submitted) s
      | Inl e \<Rightarrow> pd_toast (Failure (msg_submit_failed @ exn_string e)) s)"

text \<open>
  Building the payload happens outside the \<open>try\<close>: an exception there ends the handler
  before the request.
\<close>

definition drawer_submit :: "browser \<Rightarrow> 'w fetch \<Rightarrow> string \<Rightarrow> drawer \<Rightarrow> 'w \<Rightarrow> drawer \<times> 'w" where
  "drawer_submit b fetch nid s w =
     (case submit_payload nid s of
        Inl e \<Rightarrow> (s, w)
      | Inr payload \<Rightarrow>
          (let (r, w') = api b fetch ''/api/v1/policy'' (post_json payload) w
           in (submit_done r s, w')))"

section \<open>Install log, tasks, diagnosis\<close>

definition logs_path :: "string \<Rightarrow> string" where
  "logs_path nid = ''/api/v1/policy/status?'' @ setting ''nodeId'' nid @ ''&limit=40''"

definition loadLogs_start :: "drawer \<Rightarrow> drawer" where
  "loadLogs_start s = s\<lparr>pd_logsLoading := True\<rparr>"

definition loadLogs_done :: "jsval res \<Rightarrow> drawer \<Rightarrow> drawer" where
  "loadLogs_done r s =
     (let s1 = (case sbind r (js_get ''items'') of
                  Inr items \<Rightarrow> s\<lparr>pd_installLogs := js_or items (Arr [])\<rparr>
                | Inl e \<Rightarrow> s)
      in s1\<lparr>pd_logsLoading := False\<rparr>)"

definition tasks_path :: "string \<Rightarrow> string" where
  "tasks_path nid = ''/api/v1/tasks?'' @ setting ''nodeId'' nid"

definition loadTasks_done :: "jsval res \<Rightarrow> drawer \<Rightarrow> drawer" where
  "loadTasks_done r s =
     (case sbind r (js_get ''items'') of
        Inr items \<Rightarrow> s\<lparr>pd_tasks := js_or items (Arr [])\<rparr>
      | Inl e \<Rightarrow> s)"

definition diag_path :: "string \<Rightarrow> string" where
  "diag_path nid = ''/api/v1/policy/diag?'' @ setting ''nodeId'' nid @ ''&limit=1''"

definition diag_command :: "string \<Rightarrow> jsval" where
  "diag_command nid = Obj [(''nodeId'', Str nid), (''action'', Str ''diag'')]"

text \<open>
  \<open>res.items?.length ? res.items[res.items.length - 1] : null\<close>, where \<open>items\<close>
  is an array or absent.
\<close>

fun last_item :: "jsval \<Rightarrow> jsval" where
  "last_item (Arr xs) = (if xs = [] then Null else last xs)"
| "last_item _ = Null"

definition loadDiag_sent :: "jsval res \<Rightarrow> drawer \<Rightarrow> drawer" where
  "loadDiag_sent r s =
     (case r of Inr _ \<Rightarrow> s | Inl e \<Rightarrow> pd_toast (Failure (msg_diag_command_failed @ exn_string e)) s)
       \<lparr>pd_diagLoading := True\<rparr>"

definition loadDiag_done :: "jsval res \<Rightarrow> drawer \<Rightarrow> drawer" where
  "loadDiag_done r s =
     (let s1 = (case sbind r (js_get ''items'') of
                  Inr items \<Rightarrow> s\<lparr>pd_diag := last_item items\<rparr>
                | Inl e \<Rightarrow> pd_toast (Failure (msg_diag_fetch_failed @ exn_string e)) s)
      in s1\<lparr>pd_diagLoading := False\<rparr>)"

definition loadDiag :: "browser \<Rightarrow> 'w fetch \<Rightarrow> string \<Rightarrow> drawer \<Rightarrow> 'w \<Rightarrow> drawer \<times> 'w" where
  "loadDiag b fetch nid s w =
     (let (r1, w1) = api b fetch ''/api/v1/policy/command'' (post_json (diag_command nid)) w;
          s1 = loadDiag_sent r1 s;
          (r2, w2) = api b fetch (diag_path nid) get_options w1
      in (loadDiag_done r2 s1, w2))"

definition verify_task :: "string \<Rightarrow> jsval" where
  "verify_task nid = Obj [(''nodeId'', Str nid), (''type'', Str ''verify'')]"

definition runVerify_start :: "drawer \<Rightarrow> drawer" where
  "runVerify_start s = s\<lparr>pd_verifyLoading := True\<rparr>"

text \<open>The flag says whether \<open>loadTasks\<close> is called next.\<close>

definition runVerify_done :: "jsval res \<Rightarrow> drawer \<Rightarrow> drawer \<times> bool" where
  "runVerify_done r s =
     (case r of
        Inr _ \<Rightarrow> ((pd_toast (Success msg_verify_triggered) s)\<lparr>pd_verifyLoading := False\<rparr>, True)
      | Inl e \<Rightarrow> ((pd_toast (Failure (msg_verify_failed @ exn_string e)) s)\<lparr>pd_verifyLoading := False\<rparr>,
                  False))"

definition runVerify :: "browser \<Rightarrow> 'w fetch \<Rightarrow> string \<Rightarrow> drawer \<Rightarrow> 'w \<Rightarrow> drawer \<times> 'w" where
  "runVerify b fetch nid s w =
     (let (r, w1) = api b fetch ''/api/v1/tasks'' (post_json (verify_task nid)) w;
          (s1, again) = runVerify_done r (runVerify_start s)
      in if again then
           (let (r2, w2) = api b fetch (tasks_path nid) get_options w1 in (loadTasks_done r2 s1, w2))
         else (s1, w1))"

section \<open>The live log\<close>

fun template_string :: "jsval \<Rightarrow> string" where
  "template_string Undef = ''undefined''"
| "template_string Null = ''null''"
| "template_string v = elem_string v"

text \<open>
  \<open>stamp\<close> is the formatted time of the call.  The lines are read by the function given to
  \<open>setLogLines\<close>, which React runs for the next render and not inside the
  \<open>try\<close> of the socket: when it throws, the page is gone (\<open>pd_crashed\<close>).
\<close>

definition log_callback :: "string \<Rightarrow> jsval \<Rightarrow> drawer \<Rightarrow> drawer res" where
  "log_callback stamp data s =
     (let lines = js_oget ''lines'' data in
      if \<not> truthy lines then Inr s
      else (case as_array lines of
          Inl e \<Rightarrow> Inr (s\<lparr>pd_crashed := True\<rparr>)
        | Inr ls \<Rightarrow> Inr (s\<lparr>pd_logLines :=
            take 200 (map (\<lambda>l. ''['' @ stamp @ ''] '' @ template_string l) ls @ pd_logLines s)\<rparr>)))"

definition logs_ws_path :: "string option \<Rightarrow> string option" where
  "logs_ws_path node = map_option (\<lambda>nid. ''/api/v1/ws/logs?'' @ setting ''nodeId'' nid) node"

fun log_frames :: "(string \<times> jsval option) list \<Rightarrow> drawer \<Rightarrow> drawer" where
  "log_frames [] s = s"
| "log_frames ((stamp, evt) # evs) s =
     log_frames evs (ws_onmessage (Some (log_callback stamp)) evt s)"

section \<open>What is shown\<close>

definition statusColor :: "string \<Rightarrow> string" where
  "statusColor s =
     (if s = ''success'' then ''green''
      else if s = ''failed'' then ''red''
      else if s = ''applying'' then ''blue''
      else if s = ''checking'' then ''orange''
      else ''default'')"

definition summaryColor :: "string \<Rightarrow> string" where
  "summaryColor summary =
     statusColor (if sublist txt_error summary then ''failed''
                  else if sublist txt_warning summary then ''warn'' else ''success'')"

text \<open>\<open>installLogs.length ? installLogs[installLogs.length - 1] : null\<close>\<close>

definition latest :: "drawer \<Rightarrow> jsval" where
  "latest s = last_item (pd_installLogs s)"

definition shown_logs :: "drawer \<Rightarrow> jsval list" where
  "shown_logs s = (case pd_installLogs s of Arr xs \<Rightarrow> rev xs | _ \<Rightarrow> [])"

section \<open>Lemmas\<close>

lemma split_trim_items:
  "p \<in> set (split_trim s) \<Longrightarrow> p \<noteq> [] \<and> js_trim p = p \<and> CHR '','' \<notin> set p"
  using split_on_no_sep js_trim_chars by (fastforce simp: split_trim_def)

text \<open>
  Items as \<open>split_trim\<close> makes them are what the comma-separated field holds again
  after it is split.
\<close>

definition clean_items :: "string list \<Rightarrow> bool" where
  "clean_items xs \<longleftrightarrow> (\<forall>p\<in>set xs. p \<noteq> [] \<and> js_trim p = p \<and> CHR '','' \<notin> set p)"

lemma clean_split_trim [simp]: "clean_items (split_trim s)"
  using split_trim_items by (auto simp: clean_items_def)

lemma split_trim_join:
  assumes "clean_items xs"
  shows "split_trim (join '','' xs) = xs"
proof (cases "xs = []")
  case True
  then show ?thesis by (simp add: split_trim_def)
next
  case False
  with assms have "split_on (CHR '','') (join '','' xs) = xs"
    by (intro split_on_join) (auto simp: clean_items_def)
  moreover have "map js_trim xs = xs" "filter (\<lambda>p. p \<noteq> []) xs = xs"
    using assms by (auto simp: clean_items_def filter_id_conv intro: map_idI)
  ultimately show ?thesis by (simp add: split_trim_def)
qed

lemma js_split_trim_Str [simp]: "js_split_trim (Str s) = Inr (split_trim s)"
  by (cases "s = []") (simp_all add: js_split_trim_def)

lemma log_callback_length:
  "log_callback stamp data s = Inr s' \<Longrightarrow> length (pd_logLines s) \<le> 200 \<Longrightarrow> length (pd_logLines s') \<le> 200"
  by (auto simp: log_callback_def Let_def split: if_splits sum.splits)

lemma log_frames_length:
  "length (pd_logLines s) \<le> 200 \<Longrightarrow> length (pd_logLines (log_frames evs s)) \<le> 200"
proof (induction evs arbitrary: s)
  case (Cons ev evs)
  obtain stamp evt where ev: "ev = (stamp, evt)" by (cases ev)
  have "length (pd_logLines (ws_onmessage (Some (log_callback stamp)) evt s)) \<le> 200"
    using Cons.prems
    by (auto simp: ws_onmessage_def split: option.splits sum.splits dest: log_callback_length)
  then show ?case using Cons.IH by (simp add: ev)
qed simp

section \<open>Properties\<close>

text \<open>Adding a rule on a chosen path makes the last node of the path its egress and clears
  the path for the next rule; removing that rule again leaves the other rules as they were.\<close>

theorem add_then_remove_rule:
  assumes "pd_rules s = Arr rs" and "js_lookup ''domains'' values = Str ds" and "pd_currentPath s \<noteq> []"
  shows "\<exists>s' ps. addRule values s = Inr s' \<and> pd_rules s' = Arr (rs @ [Obj ps]) \<and> pd_currentPath s' = []
    \<and> js_lookup ''viaNode'' ps = Str (last (pd_currentPath s))
    \<and> js_lookup ''path'' ps = Arr (map Str (pd_currentPath s))
    \<and> js_lookup ''domains'' ps = Arr (map Str (split_trim ds))
    \<and> js_lookup ''prefix'' ps = js_lookup ''prefix'' values
    \<and> (\<exists>s''. removeRule (length rs) s' = Inr s'' \<and> pd_rules s'' = Arr rs)"
proof -
  have "map fst (filter (\<lambda>(_, i). i \<noteq> length rs) (zip (rs @ [x]) [0..<Suc (length rs)])) = rs" for x
  proof -
    have "filter (\<lambda>(_, i). i \<noteq> length rs) (zip rs [0..<length rs]) = zip rs [0..<length rs]"
      by (auto simp: filter_id_conv set_zip)
    then show ?thesis by simp
  qed
  then show ?thesis
    using assms by (simp add: addRule_def rule_domains_def removeRule_def Let_def del: upt_Suc)
qed

theorem add_then_remove_rule_witness:
  "\<exists>s'. addRule [(''prefix'', Str ''10.9.0.0/16''), (''domains'', Str ''a.example, b.example'')]
      (drawer_init\<lparr>pd_currentPath := [''b'', ''c'']\<rparr>) = Inr s' \<and> pd_currentPath s' = []"
  using add_then_remove_rule [of "drawer_init\<lparr>pd_currentPath := [''b'', ''c'']\<rparr>" "[]"
      "[(''prefix'', Str ''10.9.0.0/16''), (''domains'', Str ''a.example, b.example'')]" "''a.example, b.example''"]
  by (auto simp: drawer_init_def)

text \<open>The comma-separated field for bypass networks is stable: splitting gives trimmed,
  non-empty items without a comma, and what is shown for them splits into the same items.\<close>

theorem bypass_field_roundtrip:
  "(\<forall>p\<in>set (split_trim s). p \<noteq> [] \<and> js_trim p = p \<and> CHR '','' \<notin> set p)
   \<and> split_trim (join '','' (split_trim s)) = split_trim s"
  using split_trim_items [of _ s] split_trim_join [OF clean_split_trim, of s] by blast

theorem bypass_field_roundtrip_witness:
  "split_trim (join '','' (split_trim '' 10.0.0.0/8,, 192.168.0.0/16 '')) = [''10.0.0.0/8'', ''192.168.0.0/16'']"
proof -
  have "split_trim '' 10.0.0.0/8,, 192.168.0.0/16 '' = [''10.0.0.0/8'', ''192.168.0.0/16'']" by code_simp
  then show ?thesis using bypass_field_roundtrip [of "'' 10.0.0.0/8,, 192.168.0.0/16 ''"] by simp
qed

text \<open>The live log shows at most 200 lines whatever arrives, and after a frame of lines the
  newest frame comes first, its lines in the order they were sent, followed by what was shown
  before, cut at 200.\<close>

theorem live_log_window:
  "length (pd_logLines (log_frames evs drawer_init)) \<le> 200
   \<and> pd_logLines (log_frames (evs @ [(stamp, Some (Obj [(''lines'', Arr (map Str ls))]))]) drawer_init) =
       take 200 (map (\<lambda>l. ''['' @ stamp @ ''] '' @ l) ls @ pd_logLines (log_frames evs drawer_init))"
proof -
  have snoc: "log_frames (evs @ [(t, e)]) s = ws_onmessage (Some (log_callback t)) e (log_frames evs s)" for t e s
    by (induction evs arbitrary: s) auto
  have "map (\<lambda>l. ''['' @ stamp @ ''] '' @ template_string l) (map Str ls) = map (\<lambda>l. ''['' @ stamp @ ''] '' @ l) ls"
    by simp
  then show ?thesis
    using log_frames_length [of drawer_init evs]
    by (simp add: snoc ws_onmessage_def log_callback_def drawer_init_def comp_def)
qed

text \<open>The tag colours know the states of an installation, but not those of a diagnosis: every
  status a check can have (\<open>ok\<close>, \<open>warn\<close>, \<open>fail\<close>, \<open>info\<close>), and a summary with a warning,
  get the colour of an unknown value, while the same statuses have colours of their own in
  the diagnosis dialog.\<close>

theorem diagnosis_statuses_uncoloured:
  "map statusColor [''success'', ''failed'', ''applying'', ''checking''] = [''green'', ''red'', ''blue'', ''orange'']
   \<and> map statusColor [''ok'', ''warn'', ''fail'', ''info''] = replicate 4 ''default''
   \<and> summaryColor sum_warning = ''default'' \<and> summaryColor sum_error = ''red''"
proof -
  have "sublist txt_error sum_error" "\<not> sublist txt_error sum_warning" "sublist txt_warning sum_warning"
    by code_simp+
  then show ?thesis by (simp add: statusColor_def summaryColor_def eval_nat_numeral)
qed

end
