(* ===== verification/Go_Model.thy ===== *)
theory Go_Model
  imports Prelude
begin

text \<open>
  The data of the controller, \<open>pkg/model\<close>.  A Go \<open>int\<close> or \<open>int64\<close> is an
  \<open>int\<close> (the counters below stay far from overflow), a \<open>float64\<close> that is only
  compared is a \<open>rat\<close>, a \<open>time.Time\<close> is the \<open>int\<close> number of nanoseconds since
  the zero time, and a map is an association list.  A nil slice or map and an empty one are
  the same value: both sides of the wire treat them alike.
\<close>

record policy_rule =
  pr_prefix :: string
  pr_viaNode :: string
  pr_path :: "string list"
  pr_domains :: "string list"

text \<open>\<open>PolicyRule.Validate\<close>\<close>

definition Validate :: "policy_rule \<Rightarrow> bool" where
  "Validate p \<longleftrightarrow>
     (let hasTarget = pr_viaNode p \<noteq> [] \<or> pr_path p \<noteq> []
      in (pr_prefix p \<noteq> [] \<or> pr_domains p \<noteq> []) \<and> hasTarget)"

record node =
  n_ID :: string
  n_PublicKey :: string
  n_Endpoints :: "string list"
  n_CIDRs :: "string list"
  n_ConfigVersion :: string
  n_Version :: string
  n_ListenPort :: int
  n_OverlayIP :: string
  n_ASN :: int
  n_RouterID :: string
  n_EgressPeerID :: string
  n_PolicyRules :: "policy_rule list"
  n_DefaultRoute :: bool
  n_BypassCIDRs :: "string list"
  n_DefaultRouteNextHop :: string
  n_PrivateKey :: string
  n_ProvisionToken :: string
  n_PeerEndpoints :: "(string \<times> string) list"

text \<open>\<open>model.Node{}\<close>\<close>

definition node_zero :: node where
  "node_zero = \<lparr>n_ID = [], n_PublicKey = [], n_Endpoints = [], n_CIDRs = [],
     n_ConfigVersion = [], n_Version = [], n_ListenPort = 0, n_OverlayIP = [], n_ASN = 0,
     n_RouterID = [], n_EgressPeerID = [], n_PolicyRules = [], n_DefaultRoute = False,
     n_BypassCIDRs = [], n_DefaultRouteNextHop = [], n_PrivateKey = [], n_ProvisionToken = [],
     n_PeerEndpoints = []\<rparr>"

record peer =
  p_ID :: string
  p_PublicKey :: string
  p_Endpoint :: string
  p_AllowedIPs :: "string list"
  p_Keepalive :: int

record plan =
  pl_NodeID :: string
  pl_Version :: int
  pl_ConfigVersion :: string
  pl_Peers :: "peer list"
  pl_Routes :: "string list"
  pl_CreatedAt :: int
  pl_Signature :: string
  pl_EgressPeerID :: string
  pl_PolicyRules :: "policy_rule list"
  pl_PeerEndpoints :: "(string \<times> string) list"
  pl_DefaultRoute :: bool
  pl_BypassCIDRs :: "string list"
  pl_DefaultRouteNextHop :: string

record health_report =
  h_NodeID :: string
  h_Status :: string
  h_LatencyMs :: "(string \<times> int) list"
  h_PacketLoss :: "(string \<times> rat) list"
  h_FRRState :: "(string \<times> string) list"
  h_Timestamp :: int

record audit_entry =
  a_Actor :: string
  a_Action :: string
  a_Target :: string
  a_Detail :: string
  a_Timestamp :: int

record policy_log =
  l_NodeID :: string
  l_Version :: string
  l_Status :: string
  l_Message :: string
  l_Logs :: "string list"
  l_Timestamp :: int

record diag_check =
  c_Name :: string
  c_Status :: string
  c_Detail :: string

record diag_report =
  d_NodeID :: string
  d_Summary :: string
  d_Checks :: "diag_check list"
  d_Timestamp :: int

record task_step =
  ts_Name :: string
  ts_Status :: string
  ts_Message :: string
  ts_NodeID :: string
  ts_Timestamp :: int

record task =
  t_ID :: string
  t_NodeID :: string
  t_Targets :: "string list"
  t_Type :: string
  t_Status :: string
  t_OverallStatus :: string
  t_Steps :: "task_step list"
  t_CreatedAt :: int
  t_UpdatedAt :: int

record geoip_config =
  g_SourceV4 :: string
  g_SourceV6 :: string
  g_CacheDir :: string
  g_CacheTTL :: string

record user =
  u_ID :: nat
  u_Username :: string
  u_PasswordHash :: string
  u_IsAdmin :: bool

record settings =
  s_GeoIP :: geoip_config
  s_PingInterval :: string

end
