(* ===== verification/Go_Store.thy ===== *)
theory Go_Store
  imports Go_Model
begin

text \<open>
  The store of the controller: \<open>MemoryStore\<close> of \<open>pkg/store/memory.go\<close>.  Every
  method holds the mutex for its whole body, so each is one atomic function of the state.
  The current time is an argument.  Go iterates over a map in no particular order;
  \<open>nodes\<close>, \<open>health\<close> and \<open>tasks\<close> are association lists, and what the results
  below say of a listing is independent of that order.
\<close>

record mem_store =
  nodes :: "(string \<times> node) list"
  version :: "(string \<times> int) list"
  health :: "(string \<times> health_report) list"
  healthHistory :: "(string \<times> health_report list) list"
  policyStatus :: "(string \<times> policy_log list) list"
  policyDiag :: "(string \<times> diag_report list) list"
  tasks :: "(string \<times> task) list"
  audit :: "audit_entry list"
  plans :: "(string \<times> plan) list"
  history :: "(string \<times> plan list) list"
  globalPlanVersion :: int
  settings :: settings

text \<open>Reading a map of slices: a missing key gives the empty slice.\<close>

definition slice_of :: "(string \<times> 'a list) list \<Rightarrow> string \<Rightarrow> 'a list" where
  "slice_of m k = (case map_of m k of None \<Rightarrow> [] | Some xs \<Rightarrow> xs)"

lemma slice_of_update [simp, store_simps]:
  "slice_of (AList.update k xs m) k' = (if k' = k then xs else slice_of m k')"
  by (simp add: slice_of_def)

lemma slice_of_Nil [simp, store_simps]: "slice_of [] k = []"
  by (simp add: slice_of_def)

definition default_settings :: settings where
  "default_settings =
     \<lparr>s_GeoIP = \<lparr>
        g_SourceV4 = ''https://raw.githubusercontent.com/ipverse/rir-ip/master/country/ipv4/%s.cidr'',
        g_SourceV6 = ''https://raw.githubusercontent.com/ipverse/rir-ip/master/country/ipv6/%s.cidr'',
        g_CacheDir = ''/tmp/peer-wan-geoip'', g_CacheTTL = ''24h''\<rparr>,
      s_PingInterval = ''3s''\<rparr>"

definition NewMemoryStore :: mem_store where
  "NewMemoryStore = \<lparr>nodes = [], version = [], health = [], healthHistory = [],
     policyStatus = [], policyDiag = [], tasks = [], audit = [], plans = [], history = [],
     globalPlanVersion = 0, settings = default_settings\<rparr>"

definition versionString :: "int \<Rightarrow> string" where
  "versionString v = ''v0.0.'' @ show_int v"

section \<open>Nodes\<close>

definition UpsertNode :: "node \<Rightarrow> mem_store \<Rightarrow> node \<times> mem_store" where
  "UpsertNode n m =
     (let current = (case map_of (version m) (n_ID n) of None \<Rightarrow> 0 | Some v \<Rightarrow> v);
          nxt = current + 1;
          n' = n\<lparr>n_Version := versionString nxt, n_ConfigVersion := versionString nxt\<rparr>
      in (n', m\<lparr>nodes := AList.update (n_ID n) n' (nodes m),
                version := AList.update (n_ID n) nxt (version m)\<rparr>))"

definition ListNodes :: "mem_store \<Rightarrow> node list" where
  "ListNodes m = map snd (nodes m)"

definition GetNode :: "string \<Rightarrow> mem_store \<Rightarrow> node option" where
  "GetNode k m = map_of (nodes m) k"

definition UpdatePolicy ::
  "string \<Rightarrow> string \<Rightarrow> policy_rule list \<Rightarrow> bool \<Rightarrow> string list \<Rightarrow> string \<Rightarrow> mem_store \<Rightarrow> mem_store option" where
  "UpdatePolicy nodeID egressPeer rules defaultRoute bypass nextHop m =
     (case map_of (nodes m) nodeID of
        None \<Rightarrow> None
      | Some n \<Rightarrow>
          Some (m\<lparr>nodes := AList.update nodeID
            (n\<lparr>n_EgressPeerID := egressPeer, n_PolicyRules := rules,
               n_DefaultRoute := defaultRoute, n_BypassCIDRs := bypass,
               n_DefaultRouteNextHop := nextHop\<rparr>) (nodes m)\<rparr>))"

section \<open>Health\<close>

definition day :: int where "day = 24 * 3600 * 1000000000"

definition SaveHealth :: "int \<Rightarrow> health_report \<Rightarrow> mem_store \<Rightarrow> mem_store" where
  "SaveHealth now h m =
     (let cutoff = now - day;
          hist = slice_of (healthHistory m) (h_NodeID h) @ [h];
          keep = filter (\<lambda>item. cutoff < h_Timestamp item) hist
      in m\<lparr>health := AList.update (h_NodeID h) h (health m),
           healthHistory := AList.update (h_NodeID h) keep (healthHistory m)\<rparr>)"

definition ListHealth :: "mem_store \<Rightarrow> health_report list" where
  "ListHealth m = map snd (health m)"

definition ListHealthHistory :: "string \<Rightarrow> int \<Rightarrow> mem_store \<Rightarrow> health_report list" where
  "ListHealthHistory nodeID since m =
     filter (\<lambda>h. since < h_Timestamp h \<or> h_Timestamp h = since) (slice_of (healthHistory m) nodeID)"

definition PruneHealthBefore :: "int \<Rightarrow> mem_store \<Rightarrow> mem_store" where
  "PruneHealthBefore cutoff m =
     m\<lparr>healthHistory :=
       map (\<lambda>(k, hist). (k, filter (\<lambda>h. cutoff < h_Timestamp h \<or> h_Timestamp h = cutoff) hist))
         (healthHistory m)\<rparr>"

section \<open>Audit, install log, diagnosis\<close>

definition AppendAudit :: "audit_entry \<Rightarrow> mem_store \<Rightarrow> mem_store" where
  "AppendAudit e m = m\<lparr>audit := audit m @ [e]\<rparr>"

text \<open>The listing methods return the last \<open>limit\<close> entries, all of them for a limit of 0 or less.\<close>

definition limited :: "int \<Rightarrow> 'a list \<Rightarrow> 'a list" where
  "limited limit xs =
     (let l = (if limit \<le> 0 \<or> int (length xs) < limit then int (length xs) else limit)
      in drop (nat (int (length xs) - l)) xs)"

definition ListAudit :: "int \<Rightarrow> mem_store \<Rightarrow> audit_entry list" where
  "ListAudit limit m = limited limit (audit m)"

definition SavePolicyStatus :: "int \<Rightarrow> policy_log \<Rightarrow> mem_store \<Rightarrow> mem_store" where
  "SavePolicyStatus now l m =
     (let l' = (if l_Timestamp l = 0 then l\<lparr>l_Timestamp := now\<rparr> else l);
          lst = slice_of (policyStatus m) (l_NodeID l) @ [l'];
          lst' = (if 50 < length lst then drop (length lst - 50) lst else lst)
      in m\<lparr>policyStatus := AList.update (l_NodeID l) lst' (policyStatus m)\<rparr>)"

definition ListPolicyStatus :: "string \<Rightarrow> int \<Rightarrow> mem_store \<Rightarrow> policy_log list" where
  "ListPolicyStatus nodeID limit m = limited limit (slice_of (policyStatus m) nodeID)"

definition SavePolicyDiag :: "int \<Rightarrow> diag_report \<Rightarrow> mem_store \<Rightarrow> mem_store" where
  "SavePolicyDiag now d m =
     (let d' = (if d_Timestamp d = 0 then d\<lparr>d_Timestamp := now\<rparr> else d);
          lst = slice_of (policyDiag m) (d_NodeID d) @ [d'];
          lst' = (if 20 < length lst then drop (length lst - 20) lst else lst)
      in m\<lparr>policyDiag := AList.update (d_NodeID d) lst' (policyDiag m)\<rparr>)"

definition ListPolicyDiag :: "string \<Rightarrow> int \<Rightarrow> mem_store \<Rightarrow> diag_report list" where
  "ListPolicyDiag nodeID limit m = limited limit (slice_of (policyDiag m) nodeID)"

section \<open>Tasks\<close>

definition SaveTask :: "int \<Rightarrow> task \<Rightarrow> mem_store \<Rightarrow> mem_store" where
  "SaveTask now t m =
     (let t1 = (if t_CreatedAt t = 0 then t\<lparr>t_CreatedAt := now\<rparr> else t);
          t2 = t1\<lparr>t_UpdatedAt := now\<rparr>
      in m\<lparr>tasks := AList.update (t_ID t) t2 (tasks m)\<rparr>)"

definition GetTask :: "string \<Rightarrow> mem_store \<Rightarrow> task option" where
  "GetTask k m = map_of (tasks m) k"

text \<open>\<open>sort.Slice\<close> by creation time; tasks created at the same time may come in any order.\<close>

definition ListTasks :: "string \<Rightarrow> int \<Rightarrow> mem_store \<Rightarrow> task list" where
  "ListTasks nodeID limit m =
     (let out = sort_key t_CreatedAt
            (filter (\<lambda>t. nodeID = [] \<or> t_NodeID t = nodeID) (map snd (tasks m)))
      in if 0 < limit \<and> limit < int (length out) then drop (length out - nat limit) out else out)"

section \<open>Plans\<close>

definition SavePlan :: "plan \<Rightarrow> mem_store \<Rightarrow> mem_store" where
  "SavePlan p m =
     (let h = slice_of (history m) (pl_NodeID p) @ [p];
          h' = (if 20 < length h then drop (length h - 20) h else h)
      in m\<lparr>plans := AList.update (pl_NodeID p) p (plans m),
           history := AList.update (pl_NodeID p) h' (history m)\<rparr>)"

definition GetPlan :: "string \<Rightarrow> mem_store \<Rightarrow> plan option" where
  "GetPlan nodeID m = map_of (plans m) nodeID"

definition ListPlanHistory :: "string \<Rightarrow> int \<Rightarrow> mem_store \<Rightarrow> plan list" where
  "ListPlanHistory nodeID limit m = limited limit (slice_of (history m) nodeID)"

definition RollbackPlan :: "string \<Rightarrow> int \<Rightarrow> mem_store \<Rightarrow> (plan \<times> mem_store) option" where
  "RollbackPlan nodeID ver m =
     (case find (\<lambda>p. pl_Version p = ver) (slice_of (history m) nodeID) of
        None \<Rightarrow> None
      | Some p \<Rightarrow> Some (p, m\<lparr>plans := AList.update nodeID p (plans m), globalPlanVersion := ver\<rparr>))"

definition SetGlobalPlanVersion :: "int \<Rightarrow> mem_store \<Rightarrow> mem_store" where
  "SetGlobalPlanVersion v m = m\<lparr>globalPlanVersion := v\<rparr>"

definition GetSettings :: "mem_store \<Rightarrow> settings" where
  "GetSettings m = settings m"

definition UpdateSettings :: "settings \<Rightarrow> mem_store \<Rightarrow> mem_store" where
  "UpdateSettings s m = m\<lparr>settings := s\<rparr>"

section \<open>Operations and runs\<close>

text \<open>Every method that writes, as one step of the store.\<close>

datatype store_op =
    Op_UpsertNode node
  | Op_UpdatePolicy string string "policy_rule list" bool "string list" string
  | Op_SaveHealth int health_report
  | Op_PruneHealth int
  | Op_AppendAudit audit_entry
  | Op_SavePolicyStatus int policy_log
  | Op_SavePolicyDiag int diag_report
  | Op_SaveTask int task
  | Op_SavePlan plan
  | Op_RollbackPlan string int
  | Op_SetGlobalPlanVersion int
  | Op_UpdateSettings settings

fun store_apply :: "store_op \<Rightarrow> mem_store \<Rightarrow> mem_store" where
  "store_apply (Op_UpsertNode n) m = snd (UpsertNode n m)"
| "store_apply (Op_UpdatePolicy i e r d b x) m =
     (case UpdatePolicy i e r d b x m of None \<Rightarrow> m | Some m' \<Rightarrow> m')"
| "store_apply (Op_SaveHealth now h) m = SaveHealth now h m"
| "store_apply (Op_PruneHealth cutoff) m = PruneHealthBefore cutoff m"
| "store_apply (Op_AppendAudit e) m = AppendAudit e m"
| "store_apply (Op_SavePolicyStatus now l) m = SavePolicyStatus now l m"
| "store_apply (Op_SavePolicyDiag now d) m = SavePolicyDiag now d m"
| "store_apply (Op_SaveTask now t) m = SaveTask now t m"
| "store_apply (Op_SavePlan p) m = SavePlan p m"
| "store_apply (Op_RollbackPlan i v) m = (case RollbackPlan i v m of None \<Rightarrow> m | Some (_, m') \<Rightarrow> m')"
| "store_apply (Op_SetGlobalPlanVersion v) m = SetGlobalPlanVersion v m"
| "store_apply (Op_UpdateSettings s) m = UpdateSettings s m"

section \<open>Capped histories\<close>

text \<open>
  The install log, the diagnoses and the plan history keep the newest entries of each node.
  The contract they share: saving appends under the entry's key and drops the oldest.
\<close>

locale capped_log =
  fixes save :: "'e \<Rightarrow> 's \<Rightarrow> 's"
    and key :: "'e \<Rightarrow> string"
    and stamp :: "'e \<Rightarrow> 'e"
    and entries :: "'s \<Rightarrow> string \<Rightarrow> 'e list"
    and cap :: nat
  assumes cap_pos: "0 < cap"
    and entries_save:
      "entries (save e s) k =
         (if k = key e then take_last cap (entries s k @ [stamp e]) else entries s k)"
begin

lemma entries_last: "last (entries (save e s) (key e)) = stamp e"
  using cap_pos by (simp add: entries_save)

lemma entries_not_Nil: "entries (save e s) (key e) \<noteq> []"
  using cap_pos by (simp add: entries_save)

lemma entries_bounded: "\<forall>k. length (entries s k) \<le> cap \<Longrightarrow> length (entries (fold save es s) k) \<le> cap"
proof (induction es arbitrary: s)
  case (Cons e es)
  have "\<forall>k. length (entries (save e s) k) \<le> cap"
    using Cons.prems by (simp add: entries_save)
  then show ?case using Cons.IH by simp
qed simp

lemma entries_fold:
  assumes "length (entries s k) \<le> cap"
  shows "entries (fold save es s) k =
    take_last cap (entries s k @ map stamp (filter (\<lambda>e. key e = k) es))"
proof (induction es rule: rev_induct)
  case Nil
  then show ?case using assms by simp
next
  case (snoc e es)
  show ?case
  proof (cases "key e = k")
    case True
    then have "entries (fold save (es @ [e]) s) k =
        take_last cap (take_last cap (entries s k @ map stamp (filter (\<lambda>e. key e = k) es)) @ [stamp e])"
      by (simp add: entries_save snoc.IH)
    also have "\<dots> = take_last cap ((entries s k @ map stamp (filter (\<lambda>e. key e = k) es)) @ [stamp e])"
      by (rule take_last_snoc_take_last)
    finally show ?thesis using True by simp
  next
    case False
    then show ?thesis by (simp add: entries_save snoc.IH)
  qed
qed

end

lemma capped_slice:
  "(if c < length xs then drop (length xs - c) xs else xs) = take_last c xs"
  by (simp add: take_last_def)

definition stamp_log :: "int \<Rightarrow> policy_log \<Rightarrow> policy_log" where
  "stamp_log now l = (if l_Timestamp l = 0 then l\<lparr>l_Timestamp := now\<rparr> else l)"

definition stamp_diag :: "int \<Rightarrow> diag_report \<Rightarrow> diag_report" where
  "stamp_diag now d = (if d_Timestamp d = 0 then d\<lparr>d_Timestamp := now\<rparr> else d)"

interpretation status_log: capped_log "SavePolicyStatus now" l_NodeID "stamp_log now"
    "\<lambda>m. slice_of (policyStatus m)" 50 for now
  by unfold_locales (simp_all add: SavePolicyStatus_def Let_def capped_slice stamp_log_def)

interpretation diag_log: capped_log "SavePolicyDiag now" d_NodeID "stamp_diag now"
    "\<lambda>m. slice_of (policyDiag m)" 20 for now
  by unfold_locales (simp_all add: SavePolicyDiag_def Let_def capped_slice stamp_diag_def)

interpretation plan_log: capped_log SavePlan pl_NodeID "\<lambda>p. p" "\<lambda>m. slice_of (history m)" 20
  by unfold_locales (simp_all add: SavePlan_def Let_def capped_slice)

lemma limited_take_last:
  "limited limit xs = (if limit \<le> 0 then xs else take_last (nat limit) xs)"
  by (auto simp: limited_def take_last_def Let_def nat_diff_distrib)

text \<open>A task saved with a new id and the latest creation time is listed last.\<close>

lemma last_ListTasks:
  assumes "map_of (tasks m) (t_ID t) = None" and "\<forall>x\<in>snd ` set (tasks m). t_CreatedAt x \<le> now"
    and "t_CreatedAt t = now" "t_NodeID t = nid" "0 < limit"
  shows "ListTasks nid limit (SaveTask now t m) \<noteq> []
    \<and> last (ListTasks nid limit (SaveTask now t m)) = t\<lparr>t_UpdatedAt := now\<rparr>"
proof -
  let ?mine = "filter (\<lambda>t. nid = [] \<or> t_NodeID t = nid) (map snd (tasks m))"
  let ?t = "t\<lparr>t_UpdatedAt := now\<rparr>"
  have t1: "(if t_CreatedAt t = 0 then t\<lparr>t_CreatedAt := now\<rparr> else t) = t" using assms(3) by simp
  have "t_ID t \<notin> fst ` set (tasks m)" using assms(1) by (simp add: map_of_eq_None_iff)
  then have "tasks (SaveTask now t m) = tasks m @ [(t_ID t, ?t)]"
    unfolding SaveTask_def Let_def t1 by (simp add: update_fresh)
  then have "filter (\<lambda>t. nid = [] \<or> t_NodeID t = nid) (map snd (tasks (SaveTask now t m))) = ?mine @ [?t]"
    using assms(4) by simp
  moreover have "\<forall>x\<in>set ?mine. t_CreatedAt x \<le> t_CreatedAt ?t" using assms(2,3) by auto
  ultimately have "sort_key t_CreatedAt (filter (\<lambda>t. nid = [] \<or> t_NodeID t = nid) (map snd (tasks (SaveTask now t m))))
      = sort_key t_CreatedAt ?mine @ [?t]"
    using sort_key_snoc [of ?mine t_CreatedAt ?t] by simp
  then show ?thesis using assms(5) by (simp add: ListTasks_def Let_def)
qed

section \<open>The invariant of the store\<close>

definition versioned :: "mem_store \<Rightarrow> string \<Rightarrow> node \<Rightarrow> bool" where
  "versioned m k n \<longleftrightarrow> n_ID n = k \<and>
     (\<exists>v. map_of (version m) k = Some v \<and> n_Version n = versionString v
        \<and> n_ConfigVersion n = versionString v)"

definition nodes_inv :: "mem_store \<Rightarrow> bool" where
  "nodes_inv m \<longleftrightarrow>
     (\<forall>k n. map_of (nodes m) k = Some n \<longrightarrow> versioned m k n) \<and>
     (\<forall>k v. map_of (version m) k = Some v \<longrightarrow> 1 \<le> v)"

definition logs_inv :: "mem_store \<Rightarrow> bool" where
  "logs_inv m \<longleftrightarrow>
     (\<forall>k. length (slice_of (policyStatus m) k) \<le> 50) \<and>
     (\<forall>k. length (slice_of (policyDiag m) k) \<le> 20) \<and>
     (\<forall>k. length (slice_of (history m) k) \<le> 20)"

definition plans_inv :: "mem_store \<Rightarrow> bool" where
  "plans_inv m \<longleftrightarrow> (\<forall>k p. map_of (plans m) k = Some p \<longrightarrow> p \<in> set (slice_of (history m) k))"

definition keys_inv :: "mem_store \<Rightarrow> bool" where
  "keys_inv m \<longleftrightarrow>
     distinct (map fst (nodes m)) \<and> distinct (map fst (health m)) \<and> distinct (map fst (tasks m))
     \<and> list_all (\<lambda>(nid, h). h_NodeID h = nid) (health m)"

definition store_inv :: "mem_store \<Rightarrow> bool" where
  "store_inv m \<longleftrightarrow> nodes_inv m \<and> logs_inv m \<and> plans_inv m \<and> keys_inv m"

text \<open>What the operations leave alone.\<close>

lemma store_frame [simp, store_simps]:
  "nodes (SaveHealth now h m) = nodes m" "version (SaveHealth now h m) = version m"
  "nodes (PruneHealthBefore c m) = nodes m" "version (PruneHealthBefore c m) = version m"
  "nodes (AppendAudit e m) = nodes m" "version (AppendAudit e m) = version m"
  "nodes (SavePolicyStatus now l m) = nodes m" "version (SavePolicyStatus now l m) = version m"
  "nodes (SavePolicyDiag now d m) = nodes m" "version (SavePolicyDiag now d m) = version m"
  "nodes (SaveTask now t m) = nodes m" "version (SaveTask now t m) = version m"
  "nodes (SavePlan p m) = nodes m" "version (SavePlan p m) = version m"
  "nodes (SetGlobalPlanVersion v m) = nodes m" "version (SetGlobalPlanVersion v m) = version m"
  "nodes (UpdateSettings st m) = nodes m" "version (UpdateSettings st m) = version m"
  by (simp_all add: SaveHealth_def PruneHealthBefore_def AppendAudit_def SavePolicyStatus_def
      SavePolicyDiag_def SaveTask_def SavePlan_def SetGlobalPlanVersion_def UpdateSettings_def Let_def)

lemma plans_frame [simp, store_simps]:
  "plans (snd (UpsertNode n m)) = plans m" "history (snd (UpsertNode n m)) = history m"
  "plans (SaveHealth now h m) = plans m" "history (SaveHealth now h m) = history m"
  "plans (PruneHealthBefore c m) = plans m" "history (PruneHealthBefore c m) = history m"
  "plans (AppendAudit e m) = plans m" "history (AppendAudit e m) = history m"
  "plans (SavePolicyStatus now l m) = plans m" "history (SavePolicyStatus now l m) = history m"
  "plans (SavePolicyDiag now d m) = plans m" "history (SavePolicyDiag now d m) = history m"
  "plans (SaveTask now t m) = plans m" "history (SaveTask now t m) = history m"
  "plans (SetGlobalPlanVersion v m) = plans m" "history (SetGlobalPlanVersion v m) = history m"
  "plans (UpdateSettings st m) = plans m" "history (UpdateSettings st m) = history m"
  by (simp_all add: UpsertNode_def SaveHealth_def PruneHealthBefore_def AppendAudit_def
      SavePolicyStatus_def SavePolicyDiag_def SaveTask_def SetGlobalPlanVersion_def
      UpdateSettings_def Let_def)

lemma logs_frame [simp, store_simps]:
  "policyStatus (snd (UpsertNode n m)) = policyStatus m"
  "policyDiag (snd (UpsertNode n m)) = policyDiag m"
  "policyStatus (SaveHealth now h m) = policyStatus m" "policyDiag (SaveHealth now h m) = policyDiag m"
  "policyStatus (PruneHealthBefore c m) = policyStatus m"
  "policyDiag (PruneHealthBefore c m) = policyDiag m"
  "policyStatus (AppendAudit e m) = policyStatus m" "policyDiag (AppendAudit e m) = policyDiag m"
  "policyDiag (SavePolicyStatus now l m) = policyDiag m"
  "policyStatus (SavePolicyDiag now d m) = policyStatus m"
  "policyStatus (SaveTask now t m) = policyStatus m" "policyDiag (SaveTask now t m) = policyDiag m"
  "policyStatus (SavePlan p m) = policyStatus m" "policyDiag (SavePlan p m) = policyDiag m"
  "policyStatus (SetGlobalPlanVersion v m) = policyStatus m"
  "policyDiag (SetGlobalPlanVersion v m) = policyDiag m"
  "policyStatus (UpdateSettings st m) = policyStatus m"
  "policyDiag (UpdateSettings st m) = policyDiag m"
  by (simp_all add: UpsertNode_def SaveHealth_def PruneHealthBefore_def AppendAudit_def
      SavePolicyStatus_def SavePolicyDiag_def SaveTask_def SavePlan_def SetGlobalPlanVersion_def
      UpdateSettings_def Let_def)

lemma UpdatePolicy_frame:
  assumes "UpdatePolicy i e r d b x m = Some m'"
  shows "version m' = version m" "plans m' = plans m" "history m' = history m"
    "policyStatus m' = policyStatus m" "policyDiag m' = policyDiag m"
  using assms by (auto simp: UpdatePolicy_def split: option.splits)

lemma RollbackPlan_frame:
  assumes "RollbackPlan i v m = Some (p, m')"
  shows "nodes m' = nodes m" "version m' = version m" "history m' = history m"
    "policyStatus m' = policyStatus m" "policyDiag m' = policyDiag m"
  using assms by (auto simp: RollbackPlan_def split: option.splits)

lemma nodes_inv_cong: "nodes_inv m \<Longrightarrow> nodes m' = nodes m \<Longrightarrow> version m' = version m \<Longrightarrow> nodes_inv m'"
  by (simp add: nodes_inv_def versioned_def)

lemma UpsertNode_nodes_inv: "nodes_inv m \<Longrightarrow> nodes_inv (snd (UpsertNode n m))"
  unfolding nodes_inv_def UpsertNode_def Let_def
  by (cases "map_of (version m) (n_ID n)")
    (auto simp: versioned_def intro: order_trans [OF zero_le_one])

lemma UpdatePolicy_nodes_inv:
  assumes "nodes_inv m" "UpdatePolicy i e r d b x m = Some m'"
  shows "nodes_inv m'"
proof -
  obtain n where n: "map_of (nodes m) i = Some n"
    using assms(2) by (auto simp: UpdatePolicy_def split: option.splits)
  then have "versioned m i n" using assms(1) by (simp add: nodes_inv_def)
  then show ?thesis using assms n
    by (auto simp: UpdatePolicy_def nodes_inv_def versioned_def split: if_splits)
qed

lemma store_apply_nodes_inv: "nodes_inv m \<Longrightarrow> nodes_inv (store_apply op m)"
  by (cases op)
    (auto intro: UpsertNode_nodes_inv UpdatePolicy_nodes_inv nodes_inv_cong
      dest: RollbackPlan_frame split: option.splits)

lemma store_apply_logs_inv: "logs_inv m \<Longrightarrow> logs_inv (store_apply op m)"
  by (cases op)
    (auto simp: logs_inv_def status_log.entries_save diag_log.entries_save plan_log.entries_save
      UpdatePolicy_frame RollbackPlan_frame split: option.splits)

lemma SavePlan_plans_inv: "plans_inv m \<Longrightarrow> plans_inv (SavePlan p m)"
proof -
  assume inv: "plans_inv m"
  have "p \<in> set (slice_of (history (SavePlan p m)) (pl_NodeID p))"
    using plan_log.entries_last [of p m] plan_log.entries_not_Nil [of p m] last_in_set by metis
  then show ?thesis
    using inv by (auto simp: plans_inv_def SavePlan_def Let_def)
qed

lemma RollbackPlan_plans_inv:
  "plans_inv m \<Longrightarrow> RollbackPlan i v m = Some (p, m') \<Longrightarrow> plans_inv m'"
  by (auto simp: plans_inv_def RollbackPlan_def find_Some_iff split: option.splits if_splits)

lemma store_apply_plans_inv: "plans_inv m \<Longrightarrow> plans_inv (store_apply op m)"
proof (cases op)
  case (Op_SavePlan p)
  then show "plans_inv m \<Longrightarrow> ?thesis" by (simp add: SavePlan_plans_inv)
next
  case (Op_RollbackPlan i v)
  then show "plans_inv m \<Longrightarrow> ?thesis"
    by (auto intro: RollbackPlan_plans_inv split: option.splits)
qed (auto simp: plans_inv_def UpdatePolicy_frame split: option.splits)

lemma reports_keyed_update:
  "list_all (\<lambda>(nid, h). h_NodeID h = nid) hs \<Longrightarrow>
   list_all (\<lambda>(nid, h). h_NodeID h = nid) (AList.update (h_NodeID r) r hs)"
  by (induction hs) auto

lemma store_apply_keys_inv: "keys_inv m \<Longrightarrow> keys_inv (store_apply op m)"
  by (cases op)
    (auto simp: keys_inv_def UpsertNode_def UpdatePolicy_def SaveHealth_def PruneHealthBefore_def
      AppendAudit_def SavePolicyStatus_def SavePolicyDiag_def SaveTask_def SavePlan_def
      RollbackPlan_def SetGlobalPlanVersion_def UpdateSettings_def Let_def distinct_update reports_keyed_update
      split: option.splits)

lemma store_inv_init: "store_inv NewMemoryStore"
  by (simp add: store_inv_def nodes_inv_def logs_inv_def plans_inv_def keys_inv_def NewMemoryStore_def)

lemma store_apply_inv: "store_inv m \<Longrightarrow> store_inv (store_apply op m)"
  by (simp add: store_inv_def store_apply_nodes_inv store_apply_logs_inv store_apply_plans_inv
      store_apply_keys_inv)

lemma store_run_inv: "store_inv m \<Longrightarrow> store_inv (fold store_apply ops m)"
  by (induction ops arbitrary: m) (simp_all add: store_apply_inv)

section \<open>Properties\<close>

text \<open>C22. Whatever sequence of writes a fresh store goes through, its invariant holds: every
  node carries the version string of its version counter, the install log, diagnosis and plan
  histories stay within 50, 20 and 20 entries per node, the current plan of a node is one of
  its history, no map holds a key twice, and every report is kept under the id of its node.\<close>

theorem store_runs_keep_invariant: "store_inv (fold store_apply ops NewMemoryStore)"
  by (rule store_run_inv [OF store_inv_init])

lemma version_run:
  "map_of (version (fold store_apply ops NewMemoryStore)) k =
     (let n = length (filter (\<lambda>op. \<exists>x. op = Op_UpsertNode x \<and> n_ID x = k) ops)
      in if n = 0 then None else Some (int n))"
proof (induction ops rule: rev_induct)
  case Nil
  then show ?case by (simp add: NewMemoryStore_def)
next
  case (snoc op ops)
  show ?case
    by (cases op) (use snoc in \<open>auto simp: Let_def UpsertNode_def UpdatePolicy_frame RollbackPlan_frame
        split: option.splits if_splits\<close>)
qed

text \<open>The version of a node counts its upserts: after any run, a stored node carries
  \<open>v0.0.n\<close> where \<open>n\<close> is the number of upserts of its id, whatever happened to
  other nodes and whatever else was written.\<close>

theorem node_version_counts_upserts:
  assumes "GetNode k (fold store_apply ops NewMemoryStore) = Some n"
  shows "n_Version n = versionString (int (length (filter (\<lambda>op. \<exists>x. op = Op_UpsertNode x \<and> n_ID x = k) ops)))"
proof -
  have "versioned (fold store_apply ops NewMemoryStore) k n"
    using assms store_run_inv [OF store_inv_init, of ops]
    by (simp add: store_inv_def nodes_inv_def GetNode_def)
  then show ?thesis
    by (auto simp: versioned_def version_run Let_def split: if_splits)
qed

theorem node_version_counts_upserts_witness:
  "map_option n_Version (GetNode ''a'' (fold store_apply
     [Op_UpsertNode (node_zero\<lparr>n_ID := ''a''\<rparr>), Op_UpsertNode (node_zero\<lparr>n_ID := ''b''\<rparr>),
      Op_UpsertNode (node_zero\<lparr>n_ID := ''a''\<rparr>)] NewMemoryStore)) = Some ''v0.0.2''"
proof -
  let ?ops = "[Op_UpsertNode (node_zero\<lparr>n_ID := ''a''\<rparr>), Op_UpsertNode (node_zero\<lparr>n_ID := ''b''\<rparr>),
      Op_UpsertNode (node_zero\<lparr>n_ID := ''a''\<rparr>)]"
  obtain n where n: "GetNode ''a'' (fold store_apply ?ops NewMemoryStore) = Some n"
    by (simp add: GetNode_def UpsertNode_def Let_def node_zero_def)
  have "versionString 2 = ''v0.0.2''" by code_simp
  then show ?thesis using node_version_counts_upserts [OF n] n by (simp add: node_zero_def)
qed

text \<open>The install log a node shows is the newest part of what was reported for it: after
  reports \<open>ls\<close>, listing with a limit gives the last \<open>limit\<close> of that node's reports, in
  order and stamped, and never more than the 50 the store keeps.\<close>

theorem install_log_lists_newest:
  "ListPolicyStatus k limit (fold (SavePolicyStatus now) ls NewMemoryStore) =
     (let mine = map (stamp_log now) (filter (\<lambda>l. l_NodeID l = k) ls)
      in if limit \<le> 0 then take_last 50 mine else take_last (min (nat limit) 50) mine)"
proof -
  have "slice_of (policyStatus (fold (SavePolicyStatus now) ls NewMemoryStore)) k
      = take_last 50 (map (stamp_log now) (filter (\<lambda>l. l_NodeID l = k) ls))"
    using status_log.entries_fold [of NewMemoryStore k now ls] by (simp add: NewMemoryStore_def)
  then show ?thesis by (simp add: ListPolicyStatus_def limited_take_last Let_def)
qed

text \<open>Rolling back makes the plan of the requested version current: when the history of the
  node has that version, the first such plan becomes the current plan and the global version
  follows, while histories and the plans of other nodes stay; when it has not, nothing is
  done and an error is reported.\<close>

theorem rollback_plan_spec:
  "case RollbackPlan k v m of
     None \<Rightarrow> \<forall>p\<in>set (slice_of (history m) k). pl_Version p \<noteq> v
   | Some (p, m') \<Rightarrow> p \<in> set (slice_of (history m) k) \<and> pl_Version p = v
       \<and> GetPlan k m' = Some p \<and> globalPlanVersion m' = v \<and> history m' = history m
       \<and> nodes m' = nodes m \<and> (\<forall>k'. k' \<noteq> k \<longrightarrow> GetPlan k' m' = GetPlan k' m)"
  by (auto simp: RollbackPlan_def GetPlan_def find_None_iff find_Some_iff split: option.splits)

definition sample_plan :: "int \<Rightarrow> plan" where
  "sample_plan v = \<lparr>pl_NodeID = ''a'', pl_Version = v, pl_ConfigVersion = [], pl_Peers = [],
     pl_Routes = [], pl_CreatedAt = 0, pl_Signature = [], pl_EgressPeerID = [], pl_PolicyRules = [],
     pl_PeerEndpoints = [], pl_DefaultRoute = False, pl_BypassCIDRs = [], pl_DefaultRouteNextHop = []\<rparr>"

theorem rollback_plan_spec_witness:
  "\<exists>q m'. RollbackPlan ''a'' 2 (SavePlan (sample_plan 3) (SavePlan (sample_plan 2) NewMemoryStore)) = Some (q, m')
     \<and> GetPlan ''a'' m' = Some q \<and> pl_Version q = 2 \<and> globalPlanVersion m' = 2"
proof -
  let ?m = "SavePlan (sample_plan 3) (SavePlan (sample_plan 2) NewMemoryStore)"
  have "slice_of (history ?m) ''a'' = [sample_plan 2, sample_plan 3]"
    by (simp add: plan_log.entries_save) (simp add: sample_plan_def NewMemoryStore_def take_last_def)
  then obtain q m' where "RollbackPlan ''a'' 2 ?m = Some (q, m')"
    by (simp add: RollbackPlan_def sample_plan_def)
  then show ?thesis
    using rollback_plan_spec [where k = "''a''" and v = 2 and m = ?m] by auto
qed

end
