(* ===== verification/Go_Wire.thy ===== *)
theory Go_Wire
  imports Go_Store Js_Api "HOL-Library.Monad_Syntax"
begin

text \<open>
  Request and response bodies on the controller's side: decoding a JSON value into a Go
  struct (\<open>None\<close> is the error of \<open>Decode\<close>) and encoding a struct by its JSON
  tags.  A missing or \<open>null\<close> field decodes to the zero value.  Keys are matched
  exactly, as the front end writes them.  A nil slice is written as \<open>null\<close>, a slice that was
  made as an array (\<open>js_list\<close>, \<open>js_array\<close>).
\<close>

section \<open>Decoding\<close>

fun go_obj :: "jsval \<Rightarrow> (string \<times> jsval) list option" where
  "go_obj (Obj ps) = Some ps"
| "go_obj Null = Some []"
| "go_obj _ = None"

fun go_str :: "jsval \<Rightarrow> string option" where
  "go_str Undef = Some []"
| "go_str Null = Some []"
| "go_str (Str s) = Some s"
| "go_str _ = None"

fun go_bool :: "jsval \<Rightarrow> bool option" where
  "go_bool Undef = Some False"
| "go_bool Null = Some False"
| "go_bool (Boolean b) = Some b"
| "go_bool _ = None"

text \<open>A JSON number decodes into an \<open>int\<close> only when it is one of its values.\<close>

fun go_int :: "jsval \<Rightarrow> int option" where
  "go_int Undef = Some 0"
| "go_int Null = Some 0"
| "go_int (Number n) =
     (if of_int \<lfloor>n\<rfloor> = n \<and> - (2 ^ 63) \<le> \<lfloor>n\<rfloor> \<and> \<lfloor>n\<rfloor> < 2 ^ 63 then Some \<lfloor>n\<rfloor> else None)"
| "go_int _ = None"

fun go_list :: "(jsval \<Rightarrow> 'a option) \<Rightarrow> jsval \<Rightarrow> 'a list option" where
  "go_list f Undef = Some []"
| "go_list f Null = Some []"
| "go_list f (Arr xs) = those (map f xs)"
| "go_list f _ = None"

fun go_str_map :: "jsval \<Rightarrow> (string \<times> string) list option" where
  "go_str_map Undef = Some []"
| "go_str_map Null = Some []"
| "go_str_map (Obj ps) = those (map (\<lambda>(k, v). map_option (Pair k) (go_str v)) ps)"
| "go_str_map _ = None"

definition go_rule :: "jsval \<Rightarrow> policy_rule option" where
  "go_rule v = do {
     ps \<leftarrow> go_obj v;
     pfx \<leftarrow> go_str (js_lookup ''prefix'' ps);
     via \<leftarrow> go_str (js_lookup ''viaNode'' ps);
     path \<leftarrow> go_list go_str (js_lookup ''path'' ps);
     domains \<leftarrow> go_list go_str (js_lookup ''domains'' ps);
     Some \<lparr>pr_prefix = pfx, pr_viaNode = via, pr_path = path, pr_domains = domains\<rparr>
   }"

record policy_request =
  q_NodeID :: string
  q_EgressPeer :: string
  q_PolicyRules :: "policy_rule list"
  q_DefaultRoute :: bool
  q_BypassCIDRs :: "string list"
  q_DefaultRouteNextHop :: string

definition go_policy_request :: "jsval \<Rightarrow> policy_request option" where
  "go_policy_request v = do {
     ps \<leftarrow> go_obj v;
     nid \<leftarrow> go_str (js_lookup ''nodeId'' ps);
     egress \<leftarrow> go_str (js_lookup ''egressPeerId'' ps);
     rules \<leftarrow> go_list go_rule (js_lookup ''policyRules'' ps);
     dflt \<leftarrow> go_bool (js_lookup ''defaultRoute'' ps);
     bypass \<leftarrow> go_list go_str (js_lookup ''bypassCidrs'' ps);
     nh \<leftarrow> go_str (js_lookup ''defaultRouteNextHop'' ps);
     Some \<lparr>q_NodeID = nid, q_EgressPeer = egress, q_PolicyRules = rules,
           q_DefaultRoute = dflt, q_BypassCIDRs = bypass, q_DefaultRouteNextHop = nh\<rparr>
   }"

text \<open>\<open>NodeRegistrationRequest\<close>; \<open>configHint\<close> is decoded and never read.\<close>

record node_registration =
  r_ID :: string
  r_PublicKey :: string
  r_Endpoints :: "string list"
  r_CIDRs :: "string list"
  r_Force :: bool
  r_ListenPort :: int
  r_OverlayIP :: string
  r_ASN :: int
  r_RouterID :: string
  r_ProvisionToken :: string
  r_PeerEndpoints :: "(string \<times> string) list"

definition go_node_registration :: "jsval \<Rightarrow> node_registration option" where
  "go_node_registration v = do {
     ps \<leftarrow> go_obj v;
     nid \<leftarrow> go_str (js_lookup ''id'' ps);
     pub \<leftarrow> go_str (js_lookup ''publicKey'' ps);
     eps \<leftarrow> go_list go_str (js_lookup ''endpoints'' ps);
     cidrs \<leftarrow> go_list go_str (js_lookup ''cidrs'' ps);
     hint \<leftarrow> go_str (js_lookup ''configHint'' ps);
     force \<leftarrow> go_bool (js_lookup ''force'' ps);
     port \<leftarrow> go_int (js_lookup ''listenPort'' ps);
     overlay \<leftarrow> go_str (js_lookup ''overlayIp'' ps);
     asn \<leftarrow> go_int (js_lookup ''asn'' ps);
     rid \<leftarrow> go_str (js_lookup ''routerId'' ps);
     token \<leftarrow> go_str (js_lookup ''provisionToken'' ps);
     peers \<leftarrow> go_str_map (js_lookup ''peerEndpoints'' ps);
     Some \<lparr>r_ID = nid, r_PublicKey = pub, r_Endpoints = eps, r_CIDRs = cidrs, r_Force = force,
           r_ListenPort = port, r_OverlayIP = overlay, r_ASN = asn, r_RouterID = rid,
           r_ProvisionToken = token, r_PeerEndpoints = peers\<rparr>
   }"

section \<open>Encoding\<close>

text \<open>
  A slice made with \<open>make\<close> or written as a literal is an array also when it is empty.
\<close>

definition js_array :: "('a \<Rightarrow> jsval) \<Rightarrow> 'a list \<Rightarrow> jsval" where
  "js_array f xs = Arr (map f xs)"

text \<open>
  A slice that may be \<open>nil\<close> when it is empty: one collected by \<open>append\<close>, or a field read
  from JSON or left out of a literal.  Of the latter the model keeps the elements only, and writes an
  empty one as \<open>nil\<close>; both forms decode alike (\<open>go_list_empty\<close>), and the page puts an
  empty array in the place of either.
\<close>

definition js_list :: "('a \<Rightarrow> jsval) \<Rightarrow> 'a list \<Rightarrow> jsval" where
  "js_list f xs = (if xs = [] then Null else Arr (map f xs))"

text \<open>\<open>omitempty\<close>\<close>

definition omit_list :: "string \<Rightarrow> ('a \<Rightarrow> jsval) \<Rightarrow> 'a list \<Rightarrow> (string \<times> jsval) list" where
  "omit_list k f xs = (if xs = [] then [] else [(k, Arr (map f xs))])"

definition omit_str :: "string \<Rightarrow> string \<Rightarrow> (string \<times> jsval) list" where
  "omit_str k s = (if s = [] then [] else [(k, Str s)])"

definition omit_int :: "string \<Rightarrow> int \<Rightarrow> (string \<times> jsval) list" where
  "omit_int k n = (if n = 0 then [] else [(k, Number (of_int n))])"

definition omit_bool :: "string \<Rightarrow> bool \<Rightarrow> (string \<times> jsval) list" where
  "omit_bool k b = (if b then [(k, Boolean True)] else [])"

definition omit_map :: "string \<Rightarrow> (string \<times> string) list \<Rightarrow> (string \<times> jsval) list" where
  "omit_map k m = (if m = [] then [] else [(k, Obj (map (map_prod (\<lambda>x. x) Str) m))])"

lemmas omit_defs = omit_list_def omit_str_def omit_int_def omit_bool_def omit_map_def

definition json_rule :: "policy_rule \<Rightarrow> jsval" where
  "json_rule r = Obj ([(''prefix'', Str (pr_prefix r)), (''viaNode'', Str (pr_viaNode r))]
     @ omit_list ''path'' Str (pr_path r) @ omit_list ''domains'' Str (pr_domains r))"

text \<open>The JSON of a node leaves out its private key and its provision token.\<close>

definition json_node :: "node \<Rightarrow> jsval" where
  "json_node n = Obj ([(''id'', Str (n_ID n)), (''publicKey'', Str (n_PublicKey n)),
       (''endpoints'', js_list Str (n_Endpoints n)), (''cidrs'', js_list Str (n_CIDRs n)),
       (''configVersion'', Str (n_ConfigVersion n)), (''version'', Str (n_Version n))]
     @ omit_int ''listenPort'' (n_ListenPort n) @ omit_str ''overlayIp'' (n_OverlayIP n)
     @ omit_int ''asn'' (n_ASN n) @ omit_str ''routerId'' (n_RouterID n)
     @ omit_str ''egressPeerId'' (n_EgressPeerID n)
     @ omit_list ''policyRules'' json_rule (n_PolicyRules n)
     @ omit_bool ''defaultRoute'' (n_DefaultRoute n)
     @ omit_list ''bypassCidrs'' Str (n_BypassCIDRs n)
     @ omit_str ''defaultRouteNextHop'' (n_DefaultRouteNextHop n)
     @ omit_map ''peerEndpoints'' (n_PeerEndpoints n))"

text \<open>What \<open>/api/v1/policy\<close> answers; the POST adds \<open>status\<close> in front.\<close>

definition json_policy :: "node \<Rightarrow> (string \<times> jsval) list" where
  "json_policy n = [(''egressPeerId'', Str (n_EgressPeerID n)),
     (''policyRules'', js_list json_rule (n_PolicyRules n)),
     (''defaultRoute'', Boolean (n_DefaultRoute n)),
     (''bypassCidrs'', js_list Str (n_BypassCIDRs n)),
     (''defaultRouteNextHop'', Str (n_DefaultRouteNextHop n))]"

text \<open>A time is encoded by the standard library; \<open>rfc3339\<close> is its text.\<close>

definition json_log :: "(int \<Rightarrow> string) \<Rightarrow> policy_log \<Rightarrow> jsval" where
  "json_log rfc3339 l = Obj ([(''nodeId'', Str (l_NodeID l))] @ omit_str ''version'' (l_Version l)
     @ [(''status'', Str (l_Status l))] @ omit_str ''message'' (l_Message l)
     @ omit_list ''logs'' Str (l_Logs l) @ [(''timestamp'', Str (rfc3339 (l_Timestamp l)))])"

definition json_check :: "diag_check \<Rightarrow> jsval" where
  "json_check c = Obj ([(''name'', Str (c_Name c)), (''status'', Str (c_Status c))]
     @ omit_str ''detail'' (c_Detail c))"

definition json_diag :: "(int \<Rightarrow> string) \<Rightarrow> diag_report \<Rightarrow> jsval" where
  "json_diag rfc3339 d = Obj [(''nodeId'', Str (d_NodeID d)), (''summary'', Str (d_Summary d)),
     (''checks'', js_list json_check (d_Checks d)), (''timestamp'', Str (rfc3339 (d_Timestamp d)))]"

definition json_step :: "(int \<Rightarrow> string) \<Rightarrow> task_step \<Rightarrow> jsval" where
  "json_step rfc3339 s = Obj ([(''name'', Str (ts_Name s)), (''status'', Str (ts_Status s))]
     @ omit_str ''message'' (ts_Message s) @ omit_str ''nodeId'' (ts_NodeID s)
     @ [(''timestamp'', Str (rfc3339 (ts_Timestamp s)))])"

definition json_task :: "(int \<Rightarrow> string) \<Rightarrow> task \<Rightarrow> jsval" where
  "json_task rfc3339 t = Obj ([(''id'', Str (t_ID t))] @ omit_str ''nodeId'' (t_NodeID t)
     @ omit_list ''targets'' Str (t_Targets t) @ [(''type'', Str (t_Type t)), (''status'', Str (t_Status t))]
     @ omit_str ''overallStatus'' (t_OverallStatus t)
     @ [(''steps'', js_list (json_step rfc3339) (t_Steps t)),
        (''createdAt'', Str (rfc3339 (t_CreatedAt t))), (''updatedAt'', Str (rfc3339 (t_UpdatedAt t)))])"

section \<open>Round trips\<close>

lemma those_map_Some [simp]: "those (map (\<lambda>x. Some (f x)) xs) = Some (map f xs)"
  by (induction xs) auto

lemma those_eq_Some: "those ys = Some xs \<longleftrightarrow> ys = map Some xs"
proof (induction ys arbitrary: xs)
  case (Cons y ys)
  then show ?case by (cases y; cases xs) auto
qed auto

lemma those_str [simp]: "those (map (go_str \<circ> Str) xs) = Some xs"
  by (induction xs) auto

lemma go_strs [simp, wire_simps]: "go_list go_str (Arr (map Str xs)) = Some xs"
  by simp

lemma go_strs_js_array [simp, wire_simps]: "go_list go_str (js_array Str xs) = Some xs"
  by (simp add: js_array_def)

lemma go_list_empty: "go_list f Null = go_list f (Arr [])"
  by simp

lemma go_strs_js_list [simp, wire_simps]: "go_list go_str (js_list Str xs) = Some xs"
  by (simp add: js_list_def)

lemma go_rule_json_rule [simp, wire_simps]: "go_rule (json_rule r) = Some r"
  by (cases r) (simp add: go_rule_def json_rule_def omit_defs)

lemma those_rule [simp]: "those (map (go_rule \<circ> json_rule) rs) = Some rs"
  by (induction rs) auto

lemma go_rules_js_list [simp, wire_simps]: "go_list go_rule (js_list json_rule rs) = Some rs"
  by (simp add: js_list_def)

lemma wire_json_rule [simp, wire_simps]: "wire (json_rule r)"
  by (simp add: json_rule_def omit_defs list_all_iff)

lemma stringify_json_rule [simp, wire_simps]: "stringify (json_rule r) = json_rule r"
  by (rule wire_stringify) simp

end
