(* ===== verification/Go_Http.thy ===== *)
theory Go_Http
  imports Go_Wire
begin

text \<open>
  What the handlers of the controller share: the state they read and write, the external
  facts of one request, the WebSocket hub (\<open>pkg/api/ws.go\<close>), the JWT check
  (\<open>pkg/api/deps.go\<close>), the helpers at the end of \<open>pkg/api/controller.go\<close>, and
  the answers \<open>http.Error\<close> and \<open>writeJSON\<close> give.
\<close>

section \<open>The environment of a request\<close>

record geo =
  geo_IP :: string
  geo_Lat :: rat
  geo_Lng :: rat
  geo_City :: string
  geo_Country :: string
  geo_Source :: string

text \<open>
  What a handler takes from outside the repository: the clock (a handler runs at one
  instant), a drawn UUID, a generated WireGuard key pair (private, public) unless generation
  fails, whether a bearer token parses as a valid JWT, SHA-256 in hexadecimal, the text of a
  time and its parser, \<open>time.ParseDuration\<close> in nanoseconds, the build identifier, the address of the
  controller (flag, request host, TLS), whether \<open>net.ParseIP\<close> accepts a text, what the
  location service answers for an address (latitude, longitude, city, country, or no answer),
  what bcrypt gives for a password (or that it refuses it) and whether a password matches a
  hash, which names the user table takes for equal and whether it accepts a new user, the
  token signed for a user, and the names of the store and of the consul server with the
  state of the database.
\<close>

record env =
  e_now :: int
  e_uuid :: string
  e_keys :: "(string \<times> string) option"
  e_jwt_ok :: "string \<Rightarrow> bool"
  e_sha256 :: "string \<Rightarrow> string"
  e_rfc3339 :: "int \<Rightarrow> string"
  e_parse_time :: "string \<Rightarrow> int option"
  e_duration :: "string \<Rightarrow> int option"
  e_build :: string
  e_publicAddr :: string
  e_host :: string
  e_tls :: bool
  e_is_ip :: "string \<Rightarrow> bool"
  e_locate :: "string \<Rightarrow> (rat \<times> rat \<times> string \<times> string) option"
  e_hash :: "string \<Rightarrow> string option"
  e_matches :: "string \<Rightarrow> string \<Rightarrow> bool"
  e_same_name :: "string \<Rightarrow> string \<Rightarrow> bool"
  e_insertable :: "user list \<Rightarrow> user \<Rightarrow> bool"
  e_sign :: "nat \<Rightarrow> string \<Rightarrow> string"
  e_storeType :: string
  e_consulAddr :: string
  e_mysql :: string

section \<open>The state\<close>

text \<open>
  \<open>agents\<close> are the nodes with a WebSocket connection and \<open>sent\<close> the frames written
  to them, oldest first; \<open>taskUpd\<close> buffers task updates per task,
  \<open>geoCache\<close> holds looked-up locations with their expiry, and \<open>users\<close> is the user
  table, oldest first.  The hub always exists
  (\<open>cmd/controller/main.go\<close> creates it before the routes).
\<close>

record controller =
  store :: mem_store
  planVersion :: int
  agents :: "string list"
  sent :: "(string \<times> jsval) list"
  taskUpd :: "(string \<times> jsval list) list"
  geoCache :: "(string \<times> geo option \<times> int) list"
  users :: "user list"

definition ws_message :: "string \<Rightarrow> string \<Rightarrow> jsval \<Rightarrow> jsval" where
  "ws_message ty nid payload =
     Obj ([(''type'', Str ty)] @ omit_str ''nodeId'' nid @ [(''payload'', payload)])"

text \<open>\<open>WSHub.Send\<close>: a message for a node that is not connected is dropped.\<close>

definition hub_send :: "string \<Rightarrow> jsval \<Rightarrow> controller \<Rightarrow> controller" where
  "hub_send nid msg c = (if nid \<in> set (agents c) then c\<lparr>sent := sent c @ [(nid, msg)]\<rparr> else c)"

lemma hub_send_simps [simp, store_simps]:
  "store (hub_send nid msg c) = store c" "planVersion (hub_send nid msg c) = planVersion c"
  "agents (hub_send nid msg c) = agents c" "taskUpd (hub_send nid msg c) = taskUpd c"
  "geoCache (hub_send nid msg c) = geoCache c" "users (hub_send nid msg c) = users c"
  by (simp_all add: hub_send_def)

text \<open>\<open>HandleAgentWS\<close> registers the connection, and the end of \<open>readLoop\<close> removes it.\<close>

definition agent_connect :: "string \<Rightarrow> controller \<Rightarrow> controller" where
  "agent_connect nid c = (if nid = [] then c else c\<lparr>agents := List.insert nid (agents c)\<rparr>)"

definition agent_disconnect :: "string \<Rightarrow> controller \<Rightarrow> controller" where
  "agent_disconnect nid c = c\<lparr>agents := removeAll nid (agents c)\<rparr>"

definition set_store :: "mem_store \<Rightarrow> controller \<Rightarrow> controller" where
  "set_store m c = c\<lparr>store := m\<rparr>"

lemma set_store_simps [simp, store_simps]:
  "store (set_store m c) = m" "planVersion (set_store m c) = planVersion c"
  "agents (set_store m c) = agents c" "sent (set_store m c) = sent c"
  "taskUpd (set_store m c) = taskUpd c" "geoCache (set_store m c) = geoCache c" "users (set_store m c) = users c"
  by (simp_all add: set_store_def)

definition BumpPlanVersion :: "controller \<Rightarrow> controller" where
  "BumpPlanVersion c = c\<lparr>planVersion := planVersion c + 1\<rparr>"

lemma BumpPlanVersion_simps [simp, store_simps]:
  "store (BumpPlanVersion c) = store c" "planVersion (BumpPlanVersion c) = planVersion c + 1"
  "agents (BumpPlanVersion c) = agents c" "sent (BumpPlanVersion c) = sent c"
  "taskUpd (BumpPlanVersion c) = taskUpd c" "geoCache (BumpPlanVersion c) = geoCache c"
  "users (BumpPlanVersion c) = users c"
  by (simp_all add: BumpPlanVersion_def)

section \<open>Answers\<close>

text \<open>\<open>http.Error\<close> ends the text with a newline; its body is not JSON.\<close>

definition http_error :: "string \<Rightarrow> nat \<Rightarrow> response" where
  "http_error msg code =
     \<lparr>rs_status = code, rs_ctype = ''text/plain; charset=utf-8'', rs_text = msg @ [CHR 0x0A],
      rs_json = Inl (Exn ''SyntaxError'' [])\<rparr>"

text \<open>The JSON text itself is not modelled: every reader of such an answer parses it.\<close>

definition writeJSON :: "jsval \<Rightarrow> response" where
  "writeJSON v = \<lparr>rs_status = 200, rs_ctype = ''application/json'', rs_text = [], rs_json = Inr v\<rparr>"

lemma http_error_simps [simp]:
  "rs_status (http_error msg code) = code" "rs_text (http_error msg code) = msg @ [CHR 0x0A]"
  by (simp_all add: http_error_def)

lemma api_result_writeJSON [simp, wire_simps]: "api_result path (writeJSON v) = Inr v"
proof -
  have "sublist ''application/json'' ''application/json''" by simp
  then show ?thesis by (simp add: api_result_def writeJSON_def response_ok_def)
qed

lemma api_result_http_error:
  "code \<noteq> 401 \<Longrightarrow> \<not> (200 \<le> code \<and> code \<le> 299) \<Longrightarrow>
   api_result path (http_error msg code) =
     Inl (Exn ''Error'' (path @ '' '' @ show_nat code @ '' '' @ msg @ [CHR 0x0A]))"
  by (simp add: api_result_def http_error_def response_ok_def)

section \<open>Reading a request\<close>

definition header :: "string \<Rightarrow> request \<Rightarrow> string" where
  "header k rq = (case map_of (rq_headers rq) k of None \<Rightarrow> [] | Some v \<Rightarrow> v)"

definition body :: "(jsval \<Rightarrow> 'a option) \<Rightarrow> request \<Rightarrow> 'a option" where
  "body decode rq = Option.bind (rq_body rq) decode"

text \<open>\<open>authFuncJWT\<close>\<close>

definition authFuncJWT :: "env \<Rightarrow> request \<Rightarrow> bool" where
  "authFuncJWT e rq =
     (let h = header ''Authorization'' rq
      in prefix ''Bearer '' h \<and> e_jwt_ok e (drop 7 h))"

text \<open>\<open>strconv.Atoi\<close>: an optional sign and digits, within the range of \<open>int\<close>.\<close>

definition Atoi :: "string \<Rightarrow> int option" where
  "Atoi s =
     (let (neg, ds) = (case s of
            c # t \<Rightarrow> if c = CHR ''-'' then (True, t) else if c = CHR ''+'' then (False, t) else (False, s)
          | [] \<Rightarrow> (False, []));
          v = (if neg then - int (digits_val ds) else int (digits_val ds))
      in if all_digits ds \<and> - (2 ^ 63) \<le> v \<and> v < 2 ^ 63 then Some v else None)"

text \<open>A positive number in the query, or the default.\<close>

definition query_limit :: "string \<Rightarrow> string \<Rightarrow> int \<Rightarrow> int" where
  "query_limit q k d =
     (let l = query_get q k
      in if l = [] then d else (case Atoi l of Some n \<Rightarrow> if 0 < n then n else d | None \<Rightarrow> d))"

text \<open>\<open>itoa\<close> of \<open>controller.go\<close>: the digits are written from the last to the first.\<close>

fun itoa_digits :: "nat \<Rightarrow> string \<Rightarrow> string" where
  "itoa_digits v buf = (if v = 0 then buf else itoa_digits (v div 10) (digit (v mod 10) # buf))"

declare itoa_digits.simps [simp del]

definition itoa :: "int \<Rightarrow> string" where
  "itoa v = (if v = 0 then ''0'' else itoa_digits (nat v) [])"

lemma itoa_digits_show: "0 < v \<Longrightarrow> itoa_digits v buf = show_nat v @ buf"
proof (induction v buf rule: itoa_digits.induct)
  case (1 v buf)
  show ?case
  proof (cases "v < 10")
    case True
    then have "v div 10 = 0" by simp
    with True 1(2) show ?thesis
      by (simp add: itoa_digits.simps [of v] itoa_digits.simps [of 0] show_nat.simps [of v])
  next
    case False
    then have "0 < v div 10" by auto
    with 1 False show ?thesis by (simp add: itoa_digits.simps [of v] show_nat.simps [of v])
  qed
qed

lemma itoa_show_nat: "0 \<le> v \<Longrightarrow> itoa v = show_nat (nat v)"
proof (cases "v = 0")
  case True
  moreover have "digit 0 = CHR ''0''" by code_simp
  ultimately show ?thesis by (simp add: itoa_def show_nat.simps [of 0])
next
  case False
  moreover assume "0 \<le> v"
  ultimately show ?thesis by (simp add: itoa_def itoa_digits_show)
qed

end
