(* ===== verification/Go_Policy_Api.thy ===== *)
theory Go_Policy_Api
  imports Go_Http
begin

text \<open>
  The routes the policy drawer talks to: \<open>/api/v1/policy\<close> and its command, status and
  diag routes (\<open>pkg/api/policy.go\<close>), and \<open>/api/v1/tasks\<close> (\<open>pkg/api/tasks.go\<close>).
  A handler takes the environment, the raw query, the request and the state.  The memory
  store never fails, so the branches for a failing store are those of \<open>UpdatePolicy\<close> only.
\<close>

type_synonym handler = "env \<Rightarrow> string \<Rightarrow> request \<Rightarrow> controller \<Rightarrow> response \<times> controller"

definition guarded :: "env \<Rightarrow> request \<Rightarrow> controller \<Rightarrow> response \<times> controller \<Rightarrow> response \<times> controller" where
  "guarded e rq c r = (if authFuncJWT e rq then r else (http_error ''unauthorized'' 401, c))"

definition method_not_allowed :: response where
  "method_not_allowed = http_error ''method not allowed'' 405"

section \<open>The policy\<close>

text \<open>The loop over \<open>req.PolicyRules\<close>\<close>

definition prepare_rule :: "policy_rule \<Rightarrow> policy_rule" where
  "prepare_rule r =
     (let r1 = r\<lparr>pr_prefix := go_trim_space (pr_prefix r)\<rparr>
      in if pr_viaNode r1 = [] \<and> pr_path r1 \<noteq> [] then r1\<lparr>pr_viaNode := last (pr_path r1)\<rparr> else r1)"

definition dispatch_step :: "env \<Rightarrow> string \<Rightarrow> task_step" where
  "dispatch_step e msg = \<lparr>ts_Name = ''dispatch'', ts_Status = ''running'', ts_Message = msg,
     ts_NodeID = [], ts_Timestamp = e_now e\<rparr>"

definition policy_apply :: "env \<Rightarrow> string \<Rightarrow> controller \<Rightarrow> controller" where
  "policy_apply e nid c =
     (let t = \<lparr>t_ID = e_uuid e, t_NodeID = nid, t_Targets = [], t_Type = ''policy_apply'',
               t_Status = ''running'', t_OverallStatus = [],
               t_Steps = [dispatch_step e ''sending to agent''],
               t_CreatedAt = e_now e, t_UpdatedAt = e_now e\<rparr>
      in hub_send nid
           (ws_message ''task'' nid
             (Obj [(''taskId'', Str (e_uuid e)), (''type'', Str ''policy_apply'')]))
           (set_store (SaveTask (e_now e) t (store c)) c))"

definition policy_post :: "env \<Rightarrow> request \<Rightarrow> controller \<Rightarrow> response \<times> controller" where
  "policy_post e rq c =
     (case body go_policy_request rq of
        None \<Rightarrow> (http_error ''invalid payload'' 400, c)
      | Some q \<Rightarrow>
          if q_NodeID q = [] then (http_error ''invalid payload'' 400, c)
          else
            (let rules = map prepare_rule (q_PolicyRules q)
             in if rules \<noteq> [] \<and> \<not> list_ex Validate rules then
                  (http_error ''no valid policy rules'' 400, c)
                else
                  (case UpdatePolicy (q_NodeID q) (q_EgressPeer q) rules (q_DefaultRoute q)
                          (q_BypassCIDRs q) (q_DefaultRouteNextHop q) (store c) of
                     None \<Rightarrow> (http_error ''failed to update policy'' 500, c)
                   | Some m \<Rightarrow>
                       (let c' = policy_apply e (q_NodeID q) (BumpPlanVersion (set_store m c))
                        in (writeJSON (Obj ((''status'', Str ''ok'') #
                              (case GetNode (q_NodeID q) (store c') of
                                 Some n \<Rightarrow> json_policy n
                               | None \<Rightarrow> []))), c')))))"

definition policy_get :: "string \<Rightarrow> controller \<Rightarrow> response \<times> controller" where
  "policy_get q c =
     (let nodeID = query_get q ''nodeId''
      in if nodeID = [] then (http_error ''nodeId is required'' 400, c)
         else (case GetNode nodeID (store c) of
                 None \<Rightarrow> (http_error ''node not found'' 404, c)
               | Some n \<Rightarrow> (writeJSON (Obj (json_policy n)), c)))"

definition policy_route :: handler where
  "policy_route e q rq c =
     guarded e rq c
       (if rq_method rq = ''POST'' then policy_post e rq c
        else if rq_method rq = ''GET'' then policy_get q c
        else (method_not_allowed, c))"

section \<open>Commands\<close>

text \<open>\<open>data\<close> is passed on as it came, unless it has no entry.\<close>

fun go_data :: "jsval \<Rightarrow> (string \<times> jsval) list option" where
  "go_data Undef = Some []"
| "go_data Null = Some []"
| "go_data (Obj ps) = Some ps"
| "go_data _ = None"

definition omit_data :: "(string \<times> jsval) list \<Rightarrow> (string \<times> jsval) list" where
  "omit_data ps = (if ps = [] then [] else [(''data'', Obj ps)])"

record cmd_request =
  cmd_NodeID :: string
  cmd_Action :: string
  cmd_Data :: "(string \<times> jsval) list"

definition go_cmd_request :: "jsval \<Rightarrow> cmd_request option" where
  "go_cmd_request v = do {
     ps \<leftarrow> go_obj v;
     nid \<leftarrow> go_str (js_lookup ''nodeId'' ps);
     action \<leftarrow> go_str (js_lookup ''action'' ps);
     dat \<leftarrow> go_data (js_lookup ''data'' ps);
     Some \<lparr>cmd_NodeID = nid, cmd_Action = action, cmd_Data = dat\<rparr>
   }"

definition command_route :: handler where
  "command_route e q rq c =
     guarded e rq c
       (if rq_method rq \<noteq> ''POST'' then (method_not_allowed, c)
        else (case body go_cmd_request rq of
                None \<Rightarrow> (http_error ''invalid payload'' 400, c)
              | Some d \<Rightarrow>
                  if cmd_NodeID d = [] \<or> cmd_Action d = [] then (http_error ''invalid payload'' 400, c)
                  else (writeJSON (Obj [(''status'', Str ''sent'')]),
                        hub_send (cmd_NodeID d) (ws_message ''command'' (cmd_NodeID d)
                          (Obj ([(''nodeId'', Str (cmd_NodeID d)), (''action'', Str (cmd_Action d))]
                             @ omit_data (cmd_Data d)))) c)))"

section \<open>Install log and diagnosis\<close>

text \<open>A time decodes from its text; a missing one is the zero time, 0.\<close>

fun go_time :: "env \<Rightarrow> jsval \<Rightarrow> int option" where
  "go_time e Undef = Some 0"
| "go_time e Null = Some 0"
| "go_time e (Str s) = e_parse_time e s"
| "go_time e _ = None"

definition go_log :: "env \<Rightarrow> jsval \<Rightarrow> policy_log option" where
  "go_log e v = do {
     ps \<leftarrow> go_obj v;
     nid \<leftarrow> go_str (js_lookup ''nodeId'' ps);
     ver \<leftarrow> go_str (js_lookup ''version'' ps);
     status \<leftarrow> go_str (js_lookup ''status'' ps);
     message \<leftarrow> go_str (js_lookup ''message'' ps);
     logs \<leftarrow> go_list go_str (js_lookup ''logs'' ps);
     ts \<leftarrow> go_time e (js_lookup ''timestamp'' ps);
     Some \<lparr>l_NodeID = nid, l_Version = ver, l_Status = status, l_Message = message,
           l_Logs = logs, l_Timestamp = ts\<rparr>
   }"

definition go_check :: "jsval \<Rightarrow> diag_check option" where
  "go_check v = do {
     ps \<leftarrow> go_obj v;
     name \<leftarrow> go_str (js_lookup ''name'' ps);
     status \<leftarrow> go_str (js_lookup ''status'' ps);
     detail \<leftarrow> go_str (js_lookup ''detail'' ps);
     Some \<lparr>c_Name = name, c_Status = status, c_Detail = detail\<rparr>
   }"

definition go_diag :: "env \<Rightarrow> jsval \<Rightarrow> diag_report option" where
  "go_diag e v = do {
     ps \<leftarrow> go_obj v;
     nid \<leftarrow> go_str (js_lookup ''nodeId'' ps);
     summary \<leftarrow> go_str (js_lookup ''summary'' ps);
     checks \<leftarrow> go_list go_check (js_lookup ''checks'' ps);
     ts \<leftarrow> go_time e (js_lookup ''timestamp'' ps);
     Some \<lparr>d_NodeID = nid, d_Summary = summary, d_Checks = checks, d_Timestamp = ts\<rparr>
   }"

definition status_ok :: response where
  "status_ok = writeJSON (Obj [(''status'', Str ''ok'')])"

definition items :: "('a \<Rightarrow> jsval) \<Rightarrow> 'a list \<Rightarrow> response" where
  "items f xs = writeJSON (Obj [(''items'', js_array f xs)])"

definition status_route :: handler where
  "status_route e q rq c =
     guarded e rq c
       (if rq_method rq = ''POST'' then
          (case body (go_log e) rq of
             None \<Rightarrow> (http_error ''invalid payload'' 400, c)
           | Some l \<Rightarrow>
               if l_NodeID l = [] \<or> l_Status l = [] then (http_error ''invalid payload'' 400, c)
               else (status_ok, set_store (SavePolicyStatus (e_now e) (stamp_log (e_now e) l) (store c)) c))
        else if rq_method rq = ''GET'' then
          (let nodeID = query_get q ''nodeId''
           in if nodeID = [] then (http_error ''nodeId is required'' 400, c)
              else (items (json_log (e_rfc3339 e))
                      (ListPolicyStatus nodeID (query_limit q ''limit'' 20) (store c)), c))
        else (method_not_allowed, c))"

definition diag_route :: handler where
  "diag_route e q rq c =
     guarded e rq c
       (if rq_method rq = ''POST'' then
          (case body (go_diag e) rq of
             None \<Rightarrow> (http_error ''invalid payload'' 400, c)
           | Some d \<Rightarrow>
               if d_NodeID d = [] then (http_error ''invalid payload'' 400, c)
               else (status_ok, set_store (SavePolicyDiag (e_now e) (stamp_diag (e_now e) d) (store c)) c))
        else if rq_method rq = ''GET'' then
          (let nodeID = query_get q ''nodeId''
           in if nodeID = [] then (http_error ''nodeId is required'' 400, c)
              else (items (json_diag (e_rfc3339 e))
                      (ListPolicyDiag nodeID (query_limit q ''limit'' 10) (store c)), c))
        else (method_not_allowed, c))"

section \<open>Tasks\<close>

record task_request =
  tk_NodeID :: string
  tk_Targets :: "string list"
  tk_Type :: string
  tk_VerifyTargets :: "string list"
  tk_Data :: "(string \<times> jsval) list"

definition go_task_request :: "jsval \<Rightarrow> task_request option" where
  "go_task_request v = do {
     ps \<leftarrow> go_obj v;
     nid \<leftarrow> go_str (js_lookup ''nodeId'' ps);
     targets \<leftarrow> go_list go_str (js_lookup ''targets'' ps);
     ty \<leftarrow> go_str (js_lookup ''type'' ps);
     vts \<leftarrow> go_list go_str (js_lookup ''verifyTargets'' ps);
     dat \<leftarrow> go_data (js_lookup ''data'' ps);
     Some \<lparr>tk_NodeID = nid, tk_Targets = targets, tk_Type = ty, tk_VerifyTargets = vts, tk_Data = dat\<rparr>
   }"

text \<open>A map is encoded with its keys in order.\<close>

definition task_payload :: "env \<Rightarrow> task_request \<Rightarrow> jsval" where
  "task_payload e d = Obj (omit_data (tk_Data d) @ [(''taskId'', Str (e_uuid e)), (''type'', Str (tk_Type d))]
     @ omit_list ''verifyTargets'' Str (tk_VerifyTargets d))"

definition task_post :: "env \<Rightarrow> request \<Rightarrow> controller \<Rightarrow> response \<times> controller" where
  "task_post e rq c =
     (case body go_task_request rq of
        None \<Rightarrow> (http_error ''invalid payload'' 400, c)
      | Some d \<Rightarrow>
          if tk_Type d = [] then (http_error ''invalid payload'' 400, c)
          else
            (let targets = (if tk_Targets d = [] \<and> tk_NodeID d \<noteq> [] then [tk_NodeID d] else tk_Targets d)
             in if targets = [] then (http_error ''targets required'' 400, c)
                else
                  (let t = \<lparr>t_ID = e_uuid e, t_NodeID = tk_NodeID d, t_Targets = targets,
                            t_Type = tk_Type d, t_Status = ''running'', t_OverallStatus = ''running'',
                            t_Steps = [dispatch_step e ''sending to agents''],
                            t_CreatedAt = e_now e, t_UpdatedAt = e_now e\<rparr>;
                       c1 = set_store (SaveTask (e_now e) t (store c)) c;
                       c2 = fold (\<lambda>nid. hub_send nid (ws_message ''task'' nid (task_payload e d))) targets c1
                   in (writeJSON (json_task (e_rfc3339 e) t), c2))))"

definition tasks_route :: handler where
  "tasks_route e q rq c =
     guarded e rq c
       (if rq_method rq = ''POST'' then task_post e rq c
        else if rq_method rq = ''GET'' then
          (items (json_task (e_rfc3339 e)) (ListTasks (query_get q ''nodeId'') 50 (store c)), c)
        else (method_not_allowed, c))"

text \<open>
  \<open>handleTaskStep\<close>: a task update an agent sends over its WebSocket; \<open>ts\<close> counts
  seconds since the epoch, which lies \<open>unix_epoch\<close> nanoseconds after the zero time.
\<close>

definition unix_epoch :: int where "unix_epoch = 62135596800 * 1000000000"

fun asString :: "jsval \<Rightarrow> string" where
  "asString (Str s) = s"
| "asString _ = []"

fun step_time :: "env \<Rightarrow> jsval \<Rightarrow> int" where
  "step_time e (Number n) = (if 0 < n then unix_epoch + \<lfloor>n\<rfloor> * 1000000000 else e_now e)"
| "step_time e _ = e_now e"

definition handleTaskStep :: "env \<Rightarrow> jsval \<Rightarrow> string \<Rightarrow> controller \<Rightarrow> controller" where
  "handleTaskStep e msg nid c =
     (case js_oget ''payload'' msg of
        Obj payload \<Rightarrow>
          (let taskID = asString (js_lookup ''taskId'' payload)
           in if taskID = [] then c
              else
                (let c1 = c\<lparr>taskUpd := AList.update taskID (slice_of (taskUpd c) taskID @ [msg]) (taskUpd c)\<rparr>
                 in case GetTask taskID (store c1) of
                      None \<Rightarrow> c1
                    | Some t \<Rightarrow>
                        (let st = asString (js_lookup ''status'' payload);
                             step = \<lparr>ts_Name = asString (js_lookup ''name'' payload), ts_Status = st,
                                     ts_Message = asString (js_lookup ''message'' payload),
                                     ts_NodeID = nid,
                                     ts_Timestamp = step_time e (js_lookup ''ts'' payload)\<rparr>;
                             t' = t\<lparr>t_Steps := t_Steps t @ [step], t_Status := st,
                                    t_OverallStatus := st, t_UpdatedAt := e_now e\<rparr>
                         in set_store (SaveTask (e_now e) t' (store c1)) c1)))
      | _ \<Rightarrow> c)"

end
