(* ===== verification/Go_Topology.thy ===== *)
theory Go_Topology
  imports Go_Model
begin

text \<open>
  The peer plan of a node, \<open>BuildPeerPlan\<close> of \<open>pkg/topology/plan.go\<close>: which other
  nodes become WireGuard peers, in which order, and with which networks.
\<close>

text \<open>
  Both loops over a map: the smallest latency below the default, and 10000 for every FRR
  neighbour that is not established.
\<close>

definition health_score :: "health_report \<Rightarrow> int" where
  "health_score h =
     (let lat = fold (\<lambda>(_, ms) score. if ms < score then ms else score) (h_LatencyMs h) 100000
      in fold (\<lambda>(_, st) score. if st \<noteq> ''Established'' then score + 10000 else score) (h_FRRState h) lat)"

definition node_score :: "(string \<times> health_report) list \<Rightarrow> node \<Rightarrow> int" where
  "node_score health n =
     (case map_of health (n_ID n) of None \<Rightarrow> 100000 | Some h \<Rightarrow> health_score h)"

text \<open>\<open>seen\<close> holds exactly the entries of \<open>allowed\<close>.\<close>

fun add_cidrs :: "string list \<Rightarrow> string list \<Rightarrow> string list" where
  "add_cidrs [] allowed = allowed"
| "add_cidrs (cidr # cidrs) allowed =
     add_cidrs cidrs (if cidr \<in> set allowed then allowed else allowed @ [cidr])"

definition allowed_ips :: "node \<Rightarrow> string list" where
  "allowed_ips n = add_cidrs (n_CIDRs n) (if n_OverlayIP n \<noteq> [] then [n_OverlayIP n] else [])"

definition peer_of :: "node \<Rightarrow> peer" where
  "peer_of n =
     \<lparr>p_ID = n_ID n, p_PublicKey = n_PublicKey n,
      p_Endpoint = (case n_Endpoints n of [] \<Rightarrow> [] | e # _ \<Rightarrow> e),
      p_AllowedIPs = allowed_ips n, p_Keepalive = 25\<rparr>"

definition eligible :: "string \<Rightarrow> (string \<times> health_report) list \<Rightarrow> node \<Rightarrow> bool" where
  "eligible targetID health n \<longleftrightarrow>
     n_ID n \<noteq> targetID \<and> \<not> (n_CIDRs n = [] \<or> n_PublicKey n = []) \<and>
     (case map_of health (n_ID n) of None \<Rightarrow> True | Some h \<Rightarrow> h_Status h \<noteq> ''down'')"

definition BuildPeerPlan ::
  "string \<Rightarrow> node list \<Rightarrow> (string \<times> health_report) list \<Rightarrow> peer list" where
  "BuildPeerPlan targetID nodes health =
     map fst (sort_key snd
       (map (\<lambda>n. (peer_of n, node_score health n)) (filter (eligible targetID health) nodes)))"

section \<open>Lemmas\<close>

lemma set_add_cidrs: "set (add_cidrs cidrs allowed) = set allowed \<union> set cidrs"
  by (induction cidrs allowed rule: add_cidrs.induct) auto

lemma distinct_add_cidrs: "distinct allowed \<Longrightarrow> distinct (add_cidrs cidrs allowed)"
  by (induction cidrs allowed rule: add_cidrs.induct) auto

lemma prefix_add_cidrs: "prefix allowed (add_cidrs cidrs allowed)"
proof (induction cidrs allowed rule: add_cidrs.induct)
  case (2 cidr cidrs allowed)
  have "prefix allowed (if cidr \<in> set allowed then allowed else allowed @ [cidr])" by simp
  also have "prefix \<dots> (add_cidrs (cidr # cidrs) allowed)" using 2 by simp
  finally show ?case .
qed simp

lemma set_allowed_ips:
  "set (allowed_ips n) = set (n_CIDRs n) \<union> (if n_OverlayIP n = [] then {} else {n_OverlayIP n})"
  by (auto simp: allowed_ips_def set_add_cidrs)

lemma distinct_allowed_ips: "distinct (allowed_ips n)"
  by (simp add: allowed_ips_def distinct_add_cidrs)

lemma hd_allowed_ips: "n_OverlayIP n \<noteq> [] \<Longrightarrow> hd (allowed_ips n) = n_OverlayIP n"
  using prefix_add_cidrs [of "[n_OverlayIP n]" "n_CIDRs n"]
  by (auto simp: allowed_ips_def prefix_def)

text \<open>
  The order: the plan lists the peers of a rearrangement of the eligible nodes that is
  sorted by score and keeps the order of nodes with equal scores.
\<close>

lemma sort_key_map: "sort_key f (map g xs) = map g (sort_key (f \<circ> g) xs)"
proof -
  have "insort_key f (g x) (map g ys) = map g (insort_key (f \<circ> g) x ys)" for x ys
    by (induction ys) auto
  then show ?thesis by (induction xs) simp_all
qed

lemma BuildPeerPlan_sort:
  "BuildPeerPlan t nodes health =
     map peer_of (sort_key (node_score health) (filter (eligible t health) nodes))"
  by (simp add: BuildPeerPlan_def sort_key_map comp_def)

lemma mset_BuildPeerPlan:
  "mset (BuildPeerPlan t nodes health) = mset (map peer_of (filter (eligible t health) nodes))"
  by (simp add: BuildPeerPlan_sort)

lemma set_BuildPeerPlan:
  "set (BuildPeerPlan t nodes health) = peer_of ` {n \<in> set nodes. eligible t health n}"
  by (simp add: BuildPeerPlan_sort)

lemma health_score_ge: "(\<forall>(k, ms)\<in>set (h_LatencyMs h). lo \<le> ms) \<Longrightarrow> lo \<le> 100000 \<Longrightarrow> lo \<le> health_score h"
proof -
  have 1: "lo \<le> fold (\<lambda>(_, ms) s. if ms < s then ms else s) xs a"
    if "\<forall>(k, ms)\<in>set xs. lo \<le> ms" "lo \<le> a" for xs :: "(string \<times> int) list" and a
    using that by (induction xs arbitrary: a) auto
  have 2: "a \<le> fold (\<lambda>(_, st) s. if st \<noteq> ''Established'' then s + 10000 else s) ys a"
    for ys :: "(string \<times> string) list" and a :: int
  proof (induction ys arbitrary: a)
    case (Cons y ys)
    obtain k st where y: "y = (k, st)" by (cases y)
    show ?case using Cons [of a] Cons [of "a + 10000"] by (simp add: y)
  qed simp
  assume "\<forall>(k, ms)\<in>set (h_LatencyMs h). lo \<le> ms" "lo \<le> 100000"
  then show ?thesis unfolding health_score_def Let_def
    using 1 2 order_trans by blast
qed

text \<open>The two loops over the health report, and the one over the networks, as what they compute.\<close>

lemma health_score_spec:
  "health_score h = Min (insert 100000 (snd ` set (h_LatencyMs h)))
     + 10000 * int (length (filter (\<lambda>(_, st). st \<noteq> ''Established'') (h_FRRState h)))"
proof -
  have lat: "fold (\<lambda>(_, ms) score. if ms < score then ms else score) xs a = Min (insert a (snd ` set xs))"
    for xs :: "(string \<times> int) list" and a
  proof (induction xs arbitrary: a)
    case (Cons x xs)
    obtain k ms where x: "x = (k, ms)" by (cases x)
    have "Min (insert (if ms < a then ms else a) (snd ` set xs)) = Min (insert a (insert ms (snd ` set xs)))"
      by (cases "snd ` set xs = {}") (auto simp: min_def)
    then show ?case using Cons [of "if ms < a then ms else a"] by (simp add: x)
  qed simp
  have frr: "fold (\<lambda>(_, st) score. if st \<noteq> ''Established'' then score + 10000 else score) ys a
      = a + 10000 * int (length (filter (\<lambda>(_, st). st \<noteq> ''Established'') ys))"
    for ys :: "(string \<times> string) list" and a :: int
  proof (induction ys arbitrary: a)
    case (Cons y ys)
    obtain k st where y: "y = (k, st)" by (cases y)
    show ?case using Cons [of a] Cons [of "a + 10000"] by (simp add: y)
  qed simp
  show ?thesis unfolding health_score_def Let_def frr lat by (rule refl)
qed

lemma add_cidrs_spec: "distinct allowed \<Longrightarrow> add_cidrs cidrs allowed = rev (remdups (rev (allowed @ cidrs)))"
proof (induction cidrs allowed rule: add_cidrs.induct)
  case (2 cidr cidrs allowed)
  show ?case
  proof (cases "cidr \<in> set allowed")
    case True
    then have "remdups (cidr # rev allowed) = remdups (rev allowed)" by simp
    then have "remdups (rev cidrs @ cidr # rev allowed) = remdups (rev cidrs @ rev allowed)" by (metis remdups_append2)
    then show ?thesis using 2 True by simp
  next
    case False
    then show ?thesis using 2 by simp
  qed
qed (simp add: distinct_remdups_id)

section \<open>Properties\<close>

text \<open>C36. The peer plan of a node, as a specification that shares nothing with the code: the other
  nodes that have networks and a key and are not reported down, each as often as it is known, by
  ascending score, and nodes of equal score in their known order.  The score is the least latency
  reported, at most 100000, and 10000 for every neighbour that is not established; a node without a
  report has 100000.  A peer has the first endpoint of its node, and its overlay address and networks,
  each at its first place only.\<close>

theorem peer_plan_spec:
  "let wanted = (\<lambda>n. n_ID n \<noteq> t \<and> n_CIDRs n \<noteq> [] \<and> n_PublicKey n \<noteq> []
         \<and> map_option h_Status (map_of health (n_ID n)) \<noteq> Some ''down'');
       score = (\<lambda>n. case map_of health (n_ID n) of
           None \<Rightarrow> 100000
         | Some h \<Rightarrow> Min (insert 100000 (snd ` set (h_LatencyMs h)))
             + 10000 * int (length (filter (\<lambda>(_, st). st \<noteq> ''Established'') (h_FRRState h))));
       peer = (\<lambda>n. \<lparr>p_ID = n_ID n, p_PublicKey = n_PublicKey n,
           p_Endpoint = (if n_Endpoints n = [] then [] else hd (n_Endpoints n)),
           p_AllowedIPs = rev (remdups (rev ((if n_OverlayIP n = [] then [] else [n_OverlayIP n]) @ n_CIDRs n))),
           p_Keepalive = 25\<rparr>)
   in \<exists>ns. BuildPeerPlan t nodes health = map peer ns \<and> sorted (map score ns)
        \<and> (\<forall>v. filter (\<lambda>n. score n = v) ns = filter (\<lambda>n. wanted n \<and> score n = v) nodes)"
proof -
  have score: "node_score health = (\<lambda>n. case map_of health (n_ID n) of
      None \<Rightarrow> 100000
    | Some h \<Rightarrow> Min (insert 100000 (snd ` set (h_LatencyMs h)))
        + 10000 * int (length (filter (\<lambda>(_, st). st \<noteq> ''Established'') (h_FRRState h))))"
    unfolding node_score_def health_score_spec by (rule refl)
  have wanted: "eligible t health = (\<lambda>n. n_ID n \<noteq> t \<and> n_CIDRs n \<noteq> [] \<and> n_PublicKey n \<noteq> []
      \<and> map_option h_Status (map_of health (n_ID n)) \<noteq> Some ''down'')"
    by (rule ext) (auto simp: eligible_def split: option.split)
  have peer: "peer_of = (\<lambda>n. \<lparr>p_ID = n_ID n, p_PublicKey = n_PublicKey n,
      p_Endpoint = (if n_Endpoints n = [] then [] else hd (n_Endpoints n)),
      p_AllowedIPs = rev (remdups (rev ((if n_OverlayIP n = [] then [] else [n_OverlayIP n]) @ n_CIDRs n))),
      p_Keepalive = 25\<rparr>)"
    by (rule ext) (simp add: peer_of_def allowed_ips_def add_cidrs_spec del: rev_append split: list.split)
  let ?ns = "sort_key (node_score health) (filter (eligible t health) nodes)"
  have stable: "filter (\<lambda>n. node_score health n = v) ?ns = filter (\<lambda>n. eligible t health n \<and> node_score health n = v) nodes" for v
    using sort_key_stable [of "node_score health" v "filter (eligible t health) nodes"]
    by (simp add: conj_commute)
  show ?thesis
    unfolding Let_def score [symmetric] wanted [symmetric] peer [symmetric]
    by (rule exI [of _ ?ns]) (simp add: BuildPeerPlan_sort stable)
qed

text \<open>The networks routed to a peer are its own and nothing else: its overlay address first,
  then its networks, none twice.\<close>

theorem peer_networks:
  "p_AllowedIPs (peer_of n) = allowed_ips n \<and> distinct (allowed_ips n)
   \<and> set (allowed_ips n) = set (n_CIDRs n) \<union> (if n_OverlayIP n = [] then {} else {n_OverlayIP n})
   \<and> prefix (if n_OverlayIP n = [] then [] else [n_OverlayIP n]) (allowed_ips n)"
  using prefix_add_cidrs [of "[n_OverlayIP n]" "n_CIDRs n"]
  by (simp add: peer_of_def distinct_allowed_ips set_allowed_ips) (simp add: allowed_ips_def)

end
