(* ===== verification/Go_Rules.thy ===== *)
theory Go_Rules
  imports Go_Store
begin

text \<open>
  Hop-by-hop distribution of policy rules, \<open>expandPolicyRules\<close> of
  \<open>pkg/api/controller.go\<close>, and where the traffic of a rule goes when every node
  forwards by the rules it is given.
\<close>

type_synonym rule_map = "(string \<times> policy_rule list) list"

definition append_rule :: "string \<Rightarrow> policy_rule \<Rightarrow> rule_map \<Rightarrow> rule_map" where
  "append_rule k r out = AList.update k (slice_of out k @ [r]) out"

text \<open>The intermediate hops \<open>i = 1, \<dots>\<close>: \<open>hops[i-1]\<close> forwards to \<open>hops[i]\<close>.\<close>

fun append_hops :: "policy_rule \<Rightarrow> string list \<Rightarrow> rule_map \<Rightarrow> rule_map" where
  "append_hops pr (a # b # hops) out =
     append_hops pr (b # hops) (append_rule a (pr\<lparr>pr_viaNode := b, pr_path := []\<rparr>) out)"
| "append_hops pr _ out = out"

definition expand_rule :: "string \<Rightarrow> policy_rule \<Rightarrow> rule_map \<Rightarrow> rule_map" where
  "expand_rule nid pr out =
     (if pr_path pr = [] then append_rule nid pr out
      else (let pr' = (if pr_viaNode pr = [] then pr\<lparr>pr_viaNode := last (pr_path pr)\<rparr> else pr);
                hops = pr_path pr'
            in append_hops pr' hops
                 (append_rule nid (pr'\<lparr>pr_viaNode := hd hops, pr_path := []\<rparr>) out)))"

definition expandPolicyRules :: "node list \<Rightarrow> rule_map" where
  "expandPolicyRules ns =
     fold (\<lambda>n out. fold (expand_rule (n_ID n)) (n_PolicyRules n) out) ns []"

section \<open>What is emitted\<close>

definition rule_hops :: "string \<Rightarrow> policy_rule \<Rightarrow> (string \<times> policy_rule) list" where
  "rule_hops nid pr =
     (if pr_path pr = [] then [(nid, pr)]
      else map (\<lambda>(a, b). (a, pr\<lparr>pr_viaNode := b, pr_path := []\<rparr>)) (pairs (nid # pr_path pr)))"

definition emitted :: "node list \<Rightarrow> (string \<times> policy_rule) list" where
  "emitted ns = concat (map (\<lambda>n. concat (map (rule_hops (n_ID n)) (n_PolicyRules n))) ns)"

definition rules_at :: "string \<Rightarrow> (string \<times> policy_rule) list \<Rightarrow> policy_rule list" where
  "rules_at k es = map snd (filter (\<lambda>(a, _). a = k) es)"

lemma rules_at_simps [simp]:
  "rules_at k [] = []"
  "rules_at k ((a, r) # es) = (if a = k then r # rules_at k es else rules_at k es)"
  "rules_at k (es @ fs) = rules_at k es @ rules_at k fs"
  by (simp_all add: rules_at_def)

lemma slice_append_rule [simp]:
  "slice_of (append_rule k r out) k' = (if k' = k then slice_of out k @ [r] else slice_of out k')"
  by (simp add: append_rule_def)

lemma slice_append_hops:
  "slice_of (append_hops pr hs out) k =
     slice_of out k @ rules_at k (map (\<lambda>(a, b). (a, pr\<lparr>pr_viaNode := b, pr_path := []\<rparr>)) (pairs hs))"
  by (induction pr hs out rule: append_hops.induct) auto

lemma via_override: "r\<lparr>pr_viaNode := a\<rparr>\<lparr>pr_viaNode := b\<rparr> = r\<lparr>pr_viaNode := b\<rparr>"
  by simp

lemma slice_expand_rule:
  "slice_of (expand_rule nid pr out) k = slice_of out k @ rules_at k (rule_hops nid pr)"
proof (cases "pr_path pr")
  case Nil
  then show ?thesis by (simp add: expand_rule_def rule_hops_def)
next
  case (Cons a hs)
  then show ?thesis
    by (auto simp: expand_rule_def rule_hops_def slice_append_hops Let_def)
qed

lemma slice_expand_rules:
  "slice_of (fold (expand_rule nid) prs out) k = slice_of out k @ rules_at k (concat (map (rule_hops nid) prs))"
  by (induction prs arbitrary: out) (simp_all add: slice_expand_rule)

lemma slice_expandPolicyRules: "slice_of (expandPolicyRules ns) k = rules_at k (emitted ns)"
proof -
  have "slice_of (fold (\<lambda>n out. fold (expand_rule (n_ID n)) (n_PolicyRules n) out) ns out) k
      = slice_of out k @ rules_at k (emitted ns)" for out
    by (induction ns arbitrary: out) (simp_all add: slice_expand_rules emitted_def)
  then show ?thesis by (simp add: expandPolicyRules_def)
qed

section \<open>Following a rule\<close>

text \<open>
  The agent installs its rules in order with \<open>ip route replace\<close>, so of the rules for one
  prefix the last one decides the next hop.
\<close>

definition next_hop :: "rule_map \<Rightarrow> string \<Rightarrow> string \<Rightarrow> string option" where
  "next_hop out pfx k =
     (case filter (\<lambda>r. pr_prefix r = pfx) (slice_of out k) of
        [] \<Rightarrow> None
      | r # rs \<Rightarrow> Some (pr_viaNode (last (r # rs))))"

fun follow :: "rule_map \<Rightarrow> string \<Rightarrow> nat \<Rightarrow> string \<Rightarrow> string list" where
  "follow out pfx 0 k = [k]"
| "follow out pfx (Suc fuel) k =
     (case next_hop out pfx k of None \<Rightarrow> [k] | Some k' \<Rightarrow> k # follow out pfx fuel k')"

text \<open>
  \<open>sole_rule ns s pr\<close>: of all the rules of the nodes, \<open>pr\<close> at \<open>s\<close> is the only one
  for its prefix.
\<close>

definition sole_rule :: "node list \<Rightarrow> string \<Rightarrow> policy_rule \<Rightarrow> bool" where
  "sole_rule ns s pr \<longleftrightarrow>
     filter (\<lambda>(_, r). pr_prefix r = pr_prefix pr)
       (concat (map (\<lambda>n. map (Pair (n_ID n)) (n_PolicyRules n)) ns)) = [(s, pr)]"

lemma rule_hops_prefix: "(k, r) \<in> set (rule_hops nid pr) \<Longrightarrow> pr_prefix r = pr_prefix pr"
  by (auto simp: rule_hops_def split: if_splits)

lemma filter_rule_hops:
  "filter (\<lambda>(_, r). pr_prefix r = pfx) (rule_hops nid pr) =
     (if pr_prefix pr = pfx then rule_hops nid pr else [])"
  by (auto simp: filter_id_conv filter_empty_conv dest: rule_hops_prefix)

lemma filter_emitted:
  "filter (\<lambda>(_, r). pr_prefix r = pfx) (emitted ns) =
     concat (map (\<lambda>(k, r). rule_hops k r) (filter (\<lambda>(_, r). pr_prefix r = pfx)
       (concat (map (\<lambda>n. map (Pair (n_ID n)) (n_PolicyRules n)) ns))))"
proof (induction ns)
  case (Cons n ns)
  have "filter (\<lambda>(_, r). pr_prefix r = pfx) (concat (map (rule_hops nid) prs)) =
      concat (map (\<lambda>(k, r). rule_hops k r)
        (filter (\<lambda>(_, r). pr_prefix r = pfx) (map (Pair nid) prs)))" for nid prs
    by (induction prs) (simp_all add: filter_rule_hops)
  with Cons show ?case by (simp add: emitted_def)
qed (simp add: emitted_def)

lemma rules_at_filter:
  "filter (\<lambda>r. pr_prefix r = pfx) (rules_at k es) = rules_at k (filter (\<lambda>(_, r). pr_prefix r = pfx) es)"
  by (induction es) auto

lemma next_hop_sole:
  assumes "sole_rule ns s pr"
  shows "next_hop (expandPolicyRules ns) (pr_prefix pr) k =
    (case rules_at k (rule_hops s pr) of [] \<Rightarrow> None | r # rs \<Rightarrow> Some (pr_viaNode (last (r # rs))))"
  using assms
  by (simp add: next_hop_def slice_expandPolicyRules rules_at_filter filter_emitted sole_rule_def)

text \<open>On a path without repetition each hop has exactly one rule, to its successor.\<close>

lemma rules_at_pairs_distinct:
  assumes "distinct (xs @ a # b # ys)"
  shows "rules_at a (map (\<lambda>(a, b). (a, f b)) (pairs (xs @ a # b # ys))) = [f b]"
  using assms
proof (induction xs)
  case Nil
  have "rules_at a (map (\<lambda>(a, b). (a, f b)) (pairs zs)) = []" if "a \<notin> set zs" for zs
    using that by (induction zs rule: pairs.induct) auto
  then show ?case using Nil by simp
next
  case (Cons x xs)
  then show ?case by (cases xs) auto
qed

lemma rules_at_pairs_last:
  assumes "distinct (xs @ [a])"
  shows "rules_at a (map (\<lambda>(a, b). (a, f b)) (pairs (xs @ [a]))) = []"
  using assms
proof (induction xs)
  case (Cons x xs)
  then show ?case by (cases xs) auto
qed simp

lemma follow_path:
  assumes "sole_rule ns s pr" and "pr_path pr \<noteq> []" and "distinct (s # pr_path pr)"
    and "s # pr_path pr = xs @ k # ys"
  shows "follow (expandPolicyRules ns) (pr_prefix pr) (length ys) k = k # ys
    \<and> next_hop (expandPolicyRules ns) (pr_prefix pr) (last (k # ys)) = None"
  using assms(4)
proof (induction ys arbitrary: xs k)
  case Nil
  have "next_hop (expandPolicyRules ns) (pr_prefix pr) k = None"
    using rules_at_pairs_last [of xs k "\<lambda>b. pr\<lparr>pr_viaNode := b, pr_path := []\<rparr>"] assms(2,3) Nil
    by (simp add: next_hop_sole [OF assms(1)] rule_hops_def del: pairs.simps)
  then show ?case by simp
next
  case (Cons k' ys)
  have "next_hop (expandPolicyRules ns) (pr_prefix pr) k = Some k'"
    using rules_at_pairs_distinct [of xs k k' ys "\<lambda>b. pr\<lparr>pr_viaNode := b, pr_path := []\<rparr>"]
      assms(2,3) Cons.prems
    by (simp add: next_hop_sole [OF assms(1)] rule_hops_def del: pairs.simps)
  moreover have "s # pr_path pr = (xs @ [k]) @ k' # ys" using Cons.prems by simp
  then have "follow (expandPolicyRules ns) (pr_prefix pr) (length ys) k' = k' # ys
      \<and> next_hop (expandPolicyRules ns) (pr_prefix pr) (last (k' # ys)) = None"
    by (rule Cons.IH)
  ultimately show ?case by simp
qed

lemma length_rule_hops: "length (rule_hops nid pr) = max 1 (length (pr_path pr))"
proof -
  have "length (pairs xs) = length xs - 1" for xs :: "string list"
    by (induction xs rule: pairs.induct) auto
  then show ?thesis by (cases "pr_path pr") (simp_all add: rule_hops_def)
qed

text \<open>Rules of distinct nodes, one of which alone has a rule for the prefix.\<close>

lemma sole_ruleI:
  assumes "distinct (map n_ID ns)" and "n \<in> set ns"
    and "filter (\<lambda>r. pr_prefix r = pr_prefix pr) (n_PolicyRules n) = [pr]"
    and "\<forall>m\<in>set ns. n_ID m \<noteq> n_ID n \<longrightarrow> (\<forall>r\<in>set (n_PolicyRules m). pr_prefix r \<noteq> pr_prefix pr)"
  shows "sole_rule ns (n_ID n) pr"
proof -
  have own: "filter (\<lambda>(_, r). pr_prefix r = pfx) (map (Pair k) rs) = map (Pair k) (filter (\<lambda>r. pr_prefix r = pfx) rs)"
    for pfx and k :: string and rs
    by (induction rs) auto
  have none: "filter (\<lambda>(_, r). pr_prefix r = pr_prefix pr)
      (concat (map (\<lambda>n. map (Pair (n_ID n)) (n_PolicyRules n)) ms)) = []"
    if "set ms \<subseteq> set ns" "n_ID n \<notin> n_ID ` set ms" for ms
  proof -
    have "\<forall>m\<in>set ms. \<forall>r\<in>set (n_PolicyRules m). pr_prefix r \<noteq> pr_prefix pr"
      using that assms(4) by (metis image_eqI subsetD)
    then show ?thesis by (auto simp: filter_empty_conv)
  qed
  obtain xs ys where ns: "ns = xs @ n # ys" using assms(2) by (meson split_list)
  then have "n_ID n \<notin> n_ID ` set xs" "n_ID n \<notin> n_ID ` set ys" "set xs \<subseteq> set ns" "set ys \<subseteq> set ns"
    using assms(1) by auto
  then have "filter (\<lambda>(_, r). pr_prefix r = pr_prefix pr)
      (concat (map (\<lambda>n. map (Pair (n_ID n)) (n_PolicyRules n)) xs)) = []"
    and "filter (\<lambda>(_, r). pr_prefix r = pr_prefix pr)
      (concat (map (\<lambda>n. map (Pair (n_ID n)) (n_PolicyRules n)) ys)) = []"
    using none by blast+
  then show ?thesis using ns assms(3) by (simp add: sole_rule_def own)
qed

section \<open>Where forwarding ends\<close>

text \<open>
  Forwarding until a node has no rule for the prefix; \<open>None\<close> is traffic that never
  stops.
\<close>

partial_function (option) forward :: "rule_map \<Rightarrow> string \<Rightarrow> string \<Rightarrow> string list option" where
  "forward out pfx k =
     (case next_hop out pfx k of
        None \<Rightarrow> Some [k]
      | Some k' \<Rightarrow> Option.bind (forward out pfx k') (\<lambda>ks. Some (k # ks)))"

text \<open>What \<open>forward\<close> returns is a run of \<open>follow\<close> that stopped.\<close>

lemma forward_follow:
  assumes "forward out pfx k = Some ks"
  shows "length (follow out pfx n k) \<le> length ks"
proof -
  have "\<forall>n. length (follow out pfx n k) \<le> length ks"
  proof (rule forward.raw_induct [where P = "\<lambda>out pfx k ks. \<forall>n. length (follow out pfx n k) \<le> length ks", OF _ assms])
    fix fwd out pfx k ks
    assume IH: "\<And>out pfx k ks. fwd out pfx k = Some ks \<Longrightarrow> \<forall>n. length (follow out pfx n k) \<le> length ks"
      and eq: "(case next_hop out pfx k of None \<Rightarrow> Some [k]
        | Some k' \<Rightarrow> Option.bind (fwd out pfx k') (\<lambda>ks. Some (k # ks))) = Some ks"
    show "\<forall>n. length (follow out pfx n k) \<le> length ks"
    proof
      fix n
      show "length (follow out pfx n k) \<le> length ks"
        using eq IH by (cases n; cases "next_hop out pfx k") (auto simp: bind_eq_Some_conv)
    qed
  qed
  then show ?thesis by blast
qed

lemma rules_at_pairs_none:
  "rules_at k (map (\<lambda>(a, b). (a, f b)) (pairs zs)) = [] \<longleftrightarrow> k \<notin> set (butlast zs)"
  by (induction zs rule: pairs.induct) auto

lemma pairs_append: "pairs (xs @ a # ys) = pairs (xs @ [a]) @ pairs (a # ys)"
proof (induction xs)
  case (Cons x xs)
  then show ?case by (cases xs) simp_all
qed simp

text \<open>On any path the rule of a node is the one for its last step from there.\<close>

lemma next_hop_path:
  assumes "sole_rule ns s pr" and "pr_path pr \<noteq> []"
  shows "k \<notin> set (butlast (s # pr_path pr)) \<Longrightarrow> next_hop (expandPolicyRules ns) (pr_prefix pr) k = None"
    and "s # pr_path pr = xs @ k # k' # ys \<Longrightarrow> k \<notin> set (butlast (k' # ys)) \<Longrightarrow>
      next_hop (expandPolicyRules ns) (pr_prefix pr) k = Some k'"
proof -
  let ?f = "\<lambda>b. pr\<lparr>pr_viaNode := b, pr_path := []\<rparr>"
  have hop: "next_hop (expandPolicyRules ns) (pr_prefix pr) k =
      (case rules_at k (map (\<lambda>(a, b). (a, ?f b)) (pairs (s # pr_path pr))) of
         [] \<Rightarrow> None | r # rs \<Rightarrow> Some (pr_viaNode (last (r # rs))))"
    using assms(2) by (simp add: next_hop_sole [OF assms(1)] rule_hops_def)
  show "next_hop (expandPolicyRules ns) (pr_prefix pr) k = None" if "k \<notin> set (butlast (s # pr_path pr))"
    using that rules_at_pairs_none [of k ?f "s # pr_path pr"] hop by simp
  show "next_hop (expandPolicyRules ns) (pr_prefix pr) k = Some k'"
    if "s # pr_path pr = xs @ k # k' # ys" "k \<notin> set (butlast (k' # ys))"
  proof -
    have "pairs (s # pr_path pr) = pairs (xs @ [k]) @ (k, k') # pairs (k' # ys)"
      using pairs_append [of xs k "k' # ys"] that(1) by simp
    moreover have "rules_at k (map (\<lambda>(a, b). (a, ?f b)) (pairs (k' # ys))) = []"
      using rules_at_pairs_none [of k ?f "k' # ys"] that(2) by simp
    ultimately have "rules_at k (map (\<lambda>(a, b). (a, ?f b)) (pairs (s # pr_path pr)))
        = rules_at k (map (\<lambda>(a, b). (a, ?f b)) (pairs (xs @ [k]))) @ [?f k']"
      by simp
    then show ?thesis unfolding hop
      by (cases "rules_at k (map (\<lambda>(a, b). (a, ?f b)) (pairs (xs @ [k])))") simp_all
  qed
qed

lemma forward_ends:
  assumes "sole_rule ns s pr" and "pr_path pr \<noteq> []"
    and "k \<in> set (s # pr_path pr)" and "last (s # pr_path pr) \<notin> set (butlast (s # pr_path pr))"
  shows "\<exists>ks. forward (expandPolicyRules ns) (pr_prefix pr) k = Some ks \<and> last ks = last (s # pr_path pr)
    \<and> ks \<noteq> []"
proof -
  have "\<exists>ks. forward (expandPolicyRules ns) (pr_prefix pr) k = Some ks \<and> last ks = last (s # pr_path pr) \<and> ks \<noteq> []"
    if "s # pr_path pr = xs @ k # ys" "k \<notin> set ys" for xs k ys
    using that
  proof (induction "length ys" arbitrary: xs k ys rule: less_induct)
    case less
    show ?case
    proof (cases ys)
      case Nil
      then have "k = last (s # pr_path pr)" using less.prems(1) by simp
      then show ?thesis using next_hop_path(1) [OF assms(1,2), of k] assms(4) by (simp add: forward.simps)
    next
      case (Cons k' zs)
      have "k \<notin> set (butlast (k' # zs))" using less.prems(2) Cons in_set_butlastD by metis
      then have hop: "next_hop (expandPolicyRules ns) (pr_prefix pr) k = Some k'"
        using next_hop_path(2) [OF assms(1,2)] less.prems(1) Cons by blast
      obtain us vs where ys: "ys = us @ k' # vs" "k' \<notin> set vs"
        using split_list_last [of k' ys] Cons by auto
      have "s # pr_path pr = (xs @ k # us) @ k' # vs" using less.prems(1) ys(1) by simp
      from less.hyps [OF _ this ys(2)] ys(1) obtain ks where
        "forward (expandPolicyRules ns) (pr_prefix pr) k' = Some ks" "last ks = last (s # pr_path pr)" "ks \<noteq> []"
        by auto
      then show ?thesis using hop by (simp add: forward.simps [of _ _ k])
    qed
  qed
  moreover obtain xs ys where "s # pr_path pr = xs @ k # ys" "k \<notin> set ys"
    using split_list_last [OF assms(3)] by auto
  ultimately show ?thesis by blast
qed

lemma forward_runs_on:
  assumes "sole_rule ns s pr" and "pr_path pr \<noteq> []"
    and "k \<in> set (s # pr_path pr)" and "last (s # pr_path pr) \<in> set (butlast (s # pr_path pr))"
  shows "forward (expandPolicyRules ns) (pr_prefix pr) k = None"
proof -
  have step: "\<exists>k'\<in>set (s # pr_path pr). next_hop (expandPolicyRules ns) (pr_prefix pr) k = Some k'"
    if "k \<in> set (s # pr_path pr)" for k
  proof -
    let ?p = "s # pr_path pr"
    have p: "?p = butlast ?p @ [last ?p]" by simp
    then have "k \<in> set (butlast ?p)" using that assms(4)
      by (metis Un_iff empty_iff empty_set insert_iff list.set(2) set_append)
    then obtain xs ys where b: "butlast ?p = xs @ k # ys" "k \<notin> set ys" using split_list_last by metis
    obtain k' zs where ys: "ys @ [last ?p] = k' # zs" by (cases "ys @ [last ?p]") auto
    have "?p = xs @ k # k' # zs" using p b(1) ys by (metis append.assoc append_Cons)
    moreover have "butlast (k' # zs) = ys" using ys by (metis butlast_snoc)
    ultimately show ?thesis using next_hop_path(2) [OF assms(1,2), of xs k k' zs] b(2) by auto
  qed
  have "length (follow (expandPolicyRules ns) (pr_prefix pr) n k) = Suc n" for n
    using assms(3)
  proof (induction n arbitrary: k)
    case (Suc n)
    then obtain k' where "k' \<in> set (s # pr_path pr)" "next_hop (expandPolicyRules ns) (pr_prefix pr) k = Some k'"
      using step by blast
    then show ?case using Suc.IH [of k'] by simp
  qed simp
  then show ?thesis
    using forward_follow [of "expandPolicyRules ns" "pr_prefix pr" k]
    by (metis Suc_n_not_le_n not_None_eq)
qed

section \<open>Properties\<close>



end
