(* ===== verification/Go_Controller.thy ===== *)
theory Go_Controller
  imports Go_Policy_Api Go_Topology Go_Rules
begin

text \<open>
  The rest of the controller, \<open>pkg/api/controller.go\<close> and \<open>pkg/api/prepare.go\<close>:
  settings, preparing and registering nodes, health reports, plans and their rollback.
\<close>

section \<open>Settings\<close>

definition loadSettingsOrDefault :: "mem_store \<Rightarrow> settings" where
  "loadSettingsOrDefault m =
     (let s = GetSettings m; g = s_GeoIP s; d = s_GeoIP default_settings
      in \<lparr>s_GeoIP =
            \<lparr>g_SourceV4 = (if g_SourceV4 g = [] then g_SourceV4 d else g_SourceV4 g),
             g_SourceV6 = (if g_SourceV6 g = [] then g_SourceV6 d else g_SourceV6 g),
             g_CacheDir = (if g_CacheDir g = [] then g_CacheDir d else g_CacheDir g),
             g_CacheTTL = (if g_CacheTTL g = [] then ''24h'' else g_CacheTTL g)\<rparr>,
          s_PingInterval = (if s_PingInterval s = [] then ''3s'' else s_PingInterval s)\<rparr>)"

definition diagIntervalSeconds :: "env \<Rightarrow> mem_store \<Rightarrow> int" where
  "diagIntervalSeconds e m =
     (let p = s_PingInterval (loadSettingsOrDefault m)
      in if p \<noteq> [] then (case e_duration e p of Some d \<Rightarrow> sgn d * (\<bar>d\<bar> div 1000000000) | None \<Rightarrow> 0) else 0)"

definition json_geoip :: "geoip_config \<Rightarrow> jsval" where
  "json_geoip g = Obj [(''sourceV4'', Str (g_SourceV4 g)), (''sourceV6'', Str (g_SourceV6 g)),
     (''cacheDir'', Str (g_CacheDir g)), (''cacheTtl'', Str (g_CacheTTL g))]"

definition go_geoip :: "jsval \<Rightarrow> geoip_config option" where
  "go_geoip v = do {
     ps \<leftarrow> go_obj v;
     v4 \<leftarrow> go_str (js_lookup ''sourceV4'' ps);
     v6 \<leftarrow> go_str (js_lookup ''sourceV6'' ps);
     dir \<leftarrow> go_str (js_lookup ''cacheDir'' ps);
     ttl \<leftarrow> go_str (js_lookup ''cacheTtl'' ps);
     Some \<lparr>g_SourceV4 = v4, g_SourceV6 = v6, g_CacheDir = dir, g_CacheTTL = ttl\<rparr>
   }"

definition geoip_route :: handler where
  "geoip_route e q rq c =
     guarded e rq c
       (if rq_method rq = ''GET'' then
          (writeJSON (json_geoip (s_GeoIP (loadSettingsOrDefault (store c)))), c)
        else if rq_method rq = ''POST'' then
          (case body go_geoip rq of
             None \<Rightarrow> (http_error ''invalid payload'' 400, c)
           | Some cfg \<Rightarrow>
               (let s = loadSettingsOrDefault (store c); g = s_GeoIP s;
                    g' = \<lparr>g_SourceV4 = (if g_SourceV4 cfg \<noteq> [] then g_SourceV4 cfg else g_SourceV4 g),
                          g_SourceV6 = (if g_SourceV6 cfg \<noteq> [] then g_SourceV6 cfg else g_SourceV6 g),
                          g_CacheDir = (if g_CacheDir cfg \<noteq> [] then g_CacheDir cfg else g_CacheDir g),
                          g_CacheTTL = (if g_CacheTTL cfg \<noteq> [] then g_CacheTTL cfg else g_CacheTTL g)\<rparr>
                in (writeJSON (json_geoip g'), set_store (UpdateSettings (s\<lparr>s_GeoIP := g'\<rparr>) (store c)) c)))
        else (method_not_allowed, c))"

definition json_diag_config :: "settings \<Rightarrow> jsval" where
  "json_diag_config s = Obj [(''pingInterval'', Str (s_PingInterval s))]"

definition go_diag_config :: "jsval \<Rightarrow> string option" where
  "go_diag_config v = do { ps \<leftarrow> go_obj v; go_str (js_lookup ''pingInterval'' ps) }"

definition diag_config_route :: handler where
  "diag_config_route e q rq c =
     guarded e rq c
       (if rq_method rq = ''GET'' then
          (writeJSON (json_diag_config (loadSettingsOrDefault (store c))), c)
        else if rq_method rq = ''POST'' then
          (case body go_diag_config rq of
             None \<Rightarrow> (http_error ''invalid payload'' 400, c)
           | Some p \<Rightarrow>
               (let s = loadSettingsOrDefault (store c);
                    s' = (if p \<noteq> [] then s\<lparr>s_PingInterval := p\<rparr> else s)
                in (writeJSON (json_diag_config s'), set_store (UpdateSettings s' (store c)) c)))
        else (method_not_allowed, c))"

section \<open>Preparing a node\<close>

definition ipWithoutMask :: "string \<Rightarrow> string" where
  "ipWithoutMask cidr =
     (let ip = takeWhile (\<lambda>c. c \<noteq> CHR ''/'') cidr
      in if CHR ''/'' \<in> set cidr \<and> ip \<noteq> [] then ip else cidr)"

text \<open>
  \<open>fmt.Sscanf(ip, "10.10.%d.", &third)\<close>: blanks, an optional sign and digits between the
  literal parts; what follows is not read.
\<close>

definition scan_third :: "string \<Rightarrow> int option" where
  "scan_third ip =
     (if \<not> prefix ''10.10.'' ip then None
      else
        (let s = dropWhile (\<lambda>c. c = CHR 0x20 \<or> c = CHR 0x09) (drop 6 ip);
             (neg, t) = (case s of
                c # u \<Rightarrow> if c = CHR ''-'' then (True, u) else if c = CHR ''+'' then (False, u) else (False, s)
              | [] \<Rightarrow> (False, []));
             ds = takeWhile (\<lambda>c. digit_val c \<noteq> None) t;
             rest = dropWhile (\<lambda>c. digit_val c \<noteq> None) t;
             v = (if neg then - int (digits_val ds) else int (digits_val ds))
         in if ds \<noteq> [] \<and> - (2 ^ 63) \<le> v \<and> v < 2 ^ 63 \<and> prefix ''.'' rest then Some v else None))"

definition used_thirds :: "node list \<Rightarrow> int list" where
  "used_thirds ns = List.map_filter (\<lambda>n. scan_third (ipWithoutMask (n_OverlayIP n))) ns"

definition overlay_cidr :: "int \<Rightarrow> string" where
  "overlay_cidr i = ''10.10.'' @ show_int i @ ''.1/32''"

definition assignOverlay :: "node list \<Rightarrow> string" where
  "assignOverlay ns =
     (case find (\<lambda>i. i \<notin> set (used_thirds ns)) [1..253] of
        Some i \<Rightarrow> overlay_cidr i
      | None \<Rightarrow> ''10.10.250.1/32'')"

definition controller_addr :: "env \<Rightarrow> string" where
  "controller_addr e =
     (if e_publicAddr e = [] then (if e_tls e then ''https'' else ''http'') @ ''://'' @ e_host e
      else e_publicAddr e)"

definition install_command :: "env \<Rightarrow> string \<Rightarrow> string \<Rightarrow> string" where
  "install_command e nid token =
     ''curl -fsSL https://raw.githubusercontent.com/NiuStar/peer-wan/refs/heads/main/scripts/agent-install.sh -o /tmp/agent-install.sh && chmod +x /tmp/agent-install.sh && sudo /tmp/agent-install.sh --controller=''
     @ controller_addr e @ '' --node-id='' @ nid @ '' --provision-token='' @ token @ '' --auto-endpoint=true''"

definition prepared_node :: "env \<Rightarrow> mem_store \<Rightarrow> string \<Rightarrow> string \<times> string \<Rightarrow> node" where
  "prepared_node e m nid keys =
     (let overlay = assignOverlay (ListNodes m)
      in node_zero\<lparr>n_ID := nid, n_PublicKey := snd keys, n_PrivateKey := fst keys,
           n_OverlayIP := overlay, n_ListenPort := 8082, n_ASN := 65000,
           n_RouterID := ipWithoutMask overlay,
           n_ProvisionToken := ''pt-'' @ show_int (e_now e - unix_epoch)\<rparr>)"

definition json_prepared :: "env \<Rightarrow> node \<Rightarrow> string \<Rightarrow> jsval" where
  "json_prepared e n nid = Obj [(''id'', Str nid), (''publicKey'', Str (n_PublicKey n)),
     (''privateKey'', Str (n_PrivateKey n)), (''overlayIp'', Str (n_OverlayIP n)),
     (''listenPort'', Number (of_int (n_ListenPort n))),
     (''provisionToken'', Str (n_ProvisionToken n)),
     (''command'', Str (install_command e nid (n_ProvisionToken n)))]"

definition go_prepare_request :: "jsval \<Rightarrow> string option" where
  "go_prepare_request v = do { ps \<leftarrow> go_obj v; go_str (js_lookup ''id'' ps) }"

definition prepare_route :: handler where
  "prepare_route e q rq c =
     guarded e rq c
       (if rq_method rq \<noteq> ''POST'' then (method_not_allowed, c)
        else (case body go_prepare_request rq of
            None \<Rightarrow> (http_error ''invalid payload'' 400, c)
          | Some nid \<Rightarrow>
              if nid = [] then (http_error ''invalid payload'' 400, c)
              else
                (case (GetNode nid (store c), e_keys e) of
                   (Some x, k) \<Rightarrow>
                     if n_ProvisionToken x \<noteq> [] then
                       (writeJSON (json_prepared e x nid), BumpPlanVersion c)
                     else (case k of
                         None \<Rightarrow> (http_error ''failed to generate key'' 500, c)
                       | Some keys \<Rightarrow>
                           (let n = prepared_node e (store c) nid keys
                            in (writeJSON (json_prepared e n nid),
                                BumpPlanVersion (set_store (snd (UpsertNode n (store c))) c))))
                 | (None, None) \<Rightarrow> (http_error ''failed to generate key'' 500, c)
                 | (None, Some keys) \<Rightarrow>
                     (let n = prepared_node e (store c) nid keys
                      in (writeJSON (json_prepared e n nid),
                          BumpPlanVersion (set_store (snd (UpsertNode n (store c))) c))))))"

section \<open>Plans\<close>

definition signPlan :: "env \<Rightarrow> node \<Rightarrow> peer list \<Rightarrow> string \<Rightarrow> string" where
  "signPlan e n ps cfgVer =
     e_sha256 e (n_ID n @ cfgVer @ concat (map (\<lambda>p. p_ID p @ join '','' (p_AllowedIPs p)) ps))"

definition json_peer :: "peer \<Rightarrow> jsval" where
  "json_peer p = Obj ([(''id'', Str (p_ID p)), (''publicKey'', Str (p_PublicKey p))]
     @ omit_str ''endpoint'' (p_Endpoint p) @ [(''allowedIPs'', js_array Str (p_AllowedIPs p))]
     @ omit_int ''keepaliveSeconds'' (p_Keepalive p))"

text \<open>
  \<open>NodeConfigResponse\<close>, the configuration of a node; only a registration is answered with
  the keys.
\<close>

definition json_config ::
  "env \<Rightarrow> mem_store \<Rightarrow> node \<Rightarrow> string \<Rightarrow> peer list \<Rightarrow> policy_rule list \<Rightarrow> bool \<Rightarrow> string \<Rightarrow> jsval" where
  "json_config e m n cv ps rules keys msg = Obj ([(''id'', Str (n_ID n)), (''configVersion'', Str cv),
       (''wireGuardPeers'', js_array json_peer ps), (''routes'', js_list Str (n_CIDRs n))]
     @ omit_str ''overlayIp'' (n_OverlayIP n) @ omit_int ''listenPort'' (n_ListenPort n)
     @ omit_int ''asn'' (n_ASN n) @ omit_str ''routerId'' (n_RouterID n)
     @ omit_list ''endpoints'' Str (n_Endpoints n)
     @ (if keys then omit_str ''privateKey'' (n_PrivateKey n) @ omit_str ''publicKey'' (n_PublicKey n) else [])
     @ omit_str ''message'' msg @ omit_str ''egressPeerId'' (n_EgressPeerID n)
     @ omit_list ''policyRules'' json_rule rules @ omit_map ''peerEndpoints'' (n_PeerEndpoints n)
     @ [(''geoip'', json_geoip (s_GeoIP (loadSettingsOrDefault m)))]
     @ omit_bool ''defaultRoute'' (n_DefaultRoute n)
     @ omit_list ''bypassCidrs'' Str (n_BypassCIDRs n)
     @ omit_str ''defaultRouteNextHop'' (n_DefaultRouteNextHop n)
     @ omit_int ''healthIntervalSec'' (diagIntervalSeconds e m))"

definition plan_version_text :: "env \<Rightarrow> int \<Rightarrow> string" where
  "plan_version_text e v =
     (if 0 < v then ''dynamic-v'' @ itoa v else ''dynamic-'' @ e_rfc3339 e (e_now e))"

text \<open>The tunnel over WSS listens on 8082 by default.\<close>

definition listening :: "node \<Rightarrow> node" where
  "listening n = (if n_ListenPort n = 0 then n\<lparr>n_ListenPort := 8082\<rparr> else n)"

definition new_plan :: "env \<Rightarrow> node \<Rightarrow> peer list \<Rightarrow> policy_rule list \<Rightarrow> int \<Rightarrow> plan" where
  "new_plan e n ps rules ver =
     (let cv = plan_version_text e ver
      in \<lparr>pl_NodeID = n_ID n, pl_Version = ver, pl_ConfigVersion = cv, pl_Peers = ps,
          pl_Routes = n_CIDRs n, pl_CreatedAt = e_now e, pl_Signature = signPlan e n ps cv,
          pl_EgressPeerID = n_EgressPeerID n, pl_PolicyRules = rules,
          pl_PeerEndpoints = n_PeerEndpoints n, pl_DefaultRoute = n_DefaultRoute n,
          pl_BypassCIDRs = n_BypassCIDRs n,
          pl_DefaultRouteNextHop = n_DefaultRouteNextHop n\<rparr>)"

definition savePlanWithRules ::
  "env \<Rightarrow> node \<Rightarrow> peer list \<Rightarrow> policy_rule list \<Rightarrow> controller \<Rightarrow> controller" where
  "savePlanWithRules e node0 ps rules c =
     (let n = listening node0;
          ver = planVersion c + 1;
          p = new_plan e n ps rules ver;
          c1 = set_store (SetGlobalPlanVersion ver (SavePlan p (store c))) (c\<lparr>planVersion := ver\<rparr>)
      in hub_send (n_ID n)
           (ws_message ''plan'' (n_ID n)
             (json_config e (store c1) n (pl_ConfigVersion p) ps rules False ''ws plan push'')) c1)"

lemma new_plan_simps [simp]:
  "pl_NodeID (new_plan e n ps rs v) = n_ID n" "pl_Version (new_plan e n ps rs v) = v"
  "pl_Routes (new_plan e n ps rs v) = n_CIDRs n" "pl_EgressPeerID (new_plan e n ps rs v) = n_EgressPeerID n"
  "pl_DefaultRoute (new_plan e n ps rs v) = n_DefaultRoute n"
  "pl_BypassCIDRs (new_plan e n ps rs v) = n_BypassCIDRs n"
  "pl_PeerEndpoints (new_plan e n ps rs v) = n_PeerEndpoints n" "pl_Peers (new_plan e n ps rs v) = ps"
  "pl_PolicyRules (new_plan e n ps rs v) = rs"
  by (simp_all add: new_plan_def Let_def)

lemma listening_simps [simp]:
  "n_ID (listening n) = n_ID n" "n_CIDRs (listening n) = n_CIDRs n"
  "n_EgressPeerID (listening n) = n_EgressPeerID n" "n_DefaultRoute (listening n) = n_DefaultRoute n"
  "n_BypassCIDRs (listening n) = n_BypassCIDRs n" "n_PeerEndpoints (listening n) = n_PeerEndpoints n"
  by (simp_all add: listening_def)

definition health_map :: "health_report list \<Rightarrow> (string \<times> health_report) list" where
  "health_map hs = fold (\<lambda>h. AList.update (h_NodeID h) h) hs []"

definition RecomputeAllPlans :: "env \<Rightarrow> controller \<Rightarrow> controller" where
  "RecomputeAllPlans e c =
     (let ns = ListNodes (store c);
          policyMap = expandPolicyRules ns;
          hmap = health_map (ListHealth (store c))
      in fold (\<lambda>n. savePlanWithRules e n (BuildPeerPlan (n_ID n) ns hmap) (slice_of policyMap (n_ID n))) ns c)"

text \<open>\<open>savePlanWithRules\<close> stores a plan and sets the version; nothing else of the store.\<close>

lemma savePlanWithRules_frame [simp, store_simps]:
  "nodes (store (savePlanWithRules e n ps rs c)) = nodes (store c)"
  "Go_Store.version (store (savePlanWithRules e n ps rs c)) = Go_Store.version (store c)"
  "health (store (savePlanWithRules e n ps rs c)) = health (store c)"
  "agents (savePlanWithRules e n ps rs c) = agents c"
  "planVersion (savePlanWithRules e n ps rs c) = planVersion c + 1"
  by (simp_all add: savePlanWithRules_def Let_def SetGlobalPlanVersion_def SavePlan_def)

section \<open>Properties\<close>

text \<open>The address given out parses to the number it was made from.\<close>

lemma scan_digits:
  assumes "all_digits s" and "int (digits_val s) < 2 ^ 63"
  shows "scan_third (ipWithoutMask (''10.10.'' @ s @ ''.1/32'')) = Some (int (digits_val s))"
proof -
  obtain c t where s: "s = c # t" using assms(1) by (cases s) (auto simp: all_digits_def)
  have ds: "\<forall>x\<in>set s. digit_val x \<noteq> None" using assms(1) by (simp add: all_digits_def list_all_iff)
  have nondigit: "digit_val (CHR ''/'') = None" "digit_val (CHR ''.'') = None" "digit_val (CHR 0x20) = None"
    "digit_val (CHR 0x09) = None" "digit_val (CHR ''-'') = None" "digit_val (CHR ''+'') = None"
    by code_simp+
  then have "\<forall>x\<in>set s. x \<noteq> CHR ''/''" using ds by metis
  then have ip: "ipWithoutMask (''10.10.'' @ s @ ''.1/32'') = ''10.10.'' @ s @ ''.1''"
    by (simp add: ipWithoutMask_def takeWhile_append2)
  have c: "c \<noteq> CHR 0x20" "c \<noteq> CHR 0x09" "c \<noteq> CHR ''-''" "c \<noteq> CHR ''+''"
    using ds nondigit by (auto simp: s)
  have tw: "takeWhile (\<lambda>c. digit_val c \<noteq> None) (s @ ''.1'') = s"
    "dropWhile (\<lambda>c. digit_val c \<noteq> None) (s @ ''.1'') = ''.1''"
    using ds nondigit by (simp_all add: takeWhile_append2 dropWhile_append2)
  have drop: "dropWhile (\<lambda>c. c = CHR 0x20 \<or> c = CHR 0x09) (drop 6 (''10.10.'' @ s @ ''.1'')) = s @ ''.1''"
    using c by (simp add: s)
  have "- (2 ^ 63) \<le> int (digits_val s)" by (rule order_trans [of _ 0]) simp_all
  then show ?thesis
    unfolding ip scan_third_def drop using c tw assms(2) by (simp add: s Let_def)
qed

lemma scan_overlay: "0 \<le> i \<Longrightarrow> i < 2 ^ 63 \<Longrightarrow> scan_third (ipWithoutMask (overlay_cidr i)) = Some i"
  using scan_digits [of "show_nat (nat i)"] all_digits_show_nat [of "nat i"]
  by (simp add: overlay_cidr_def show_int_def digits_val_show_nat)

lemma set_used_thirds: "set (used_thirds ns) = {i. \<exists>n\<in>set ns. scan_third (ipWithoutMask (n_OverlayIP n)) = Some i}"
  by (force simp: used_thirds_def List.map_filter_def)

text \<open>C40. A prepared node gets an address of its own as long as one is left: while some number
  from 1 to 253 is not the third part of a known node's overlay address, the assigned address
  is that of no known node.  Otherwise it gets 10.10.250.1/32, and when the known nodes have all
  the addresses the controller can assign, that one belongs to one of them.\<close>

theorem assigned_overlay_is_fresh:
  "(if \<exists>i\<in>set [1..253]. i \<notin> set (used_thirds ns)
    then \<forall>n\<in>set ns. ipWithoutMask (n_OverlayIP n) \<noteq> ipWithoutMask (assignOverlay ns)
    else assignOverlay ns = ''10.10.250.1/32'')
   \<and> (overlay_cidr ` set [1..253] \<subseteq> n_OverlayIP ` set ns \<longrightarrow> (\<exists>n\<in>set ns. n_OverlayIP n = assignOverlay ns))"
proof
  show "if \<exists>i\<in>set [1..253]. i \<notin> set (used_thirds ns)
    then \<forall>n\<in>set ns. ipWithoutMask (n_OverlayIP n) \<noteq> ipWithoutMask (assignOverlay ns)
    else assignOverlay ns = ''10.10.250.1/32''"
  proof (cases "find (\<lambda>i. i \<notin> set (used_thirds ns)) [1..253]")
    case (Some i)
    then have i: "i \<in> set [1..253]" "i \<notin> set (used_thirds ns)"
      by (auto simp: find_Some_iff in_set_conv_nth)
    then have "assignOverlay ns = overlay_cidr i" using Some by (simp add: assignOverlay_def)
    then have "\<forall>n\<in>set ns. ipWithoutMask (n_OverlayIP n) \<noteq> ipWithoutMask (assignOverlay ns)"
      using i scan_overlay [of i] by (auto simp: set_used_thirds)
    then show ?thesis using i by auto
  next
    case None
    then have "assignOverlay ns = ''10.10.250.1/32''" by (simp add: assignOverlay_def)
    moreover have "\<not> (\<exists>i\<in>set [1..253]. i \<notin> set (used_thirds ns))" using None unfolding find_None_iff by blast
    ultimately show ?thesis by (simp only: if_False)
  qed
  have "overlay_cidr 250 = ''10.10.250.1/32''" by code_simp
  then have "assignOverlay ns \<in> overlay_cidr ` set [1..253]"
  proof (cases "find (\<lambda>i. i \<notin> set (used_thirds ns)) [1..253]")
    case (Some i)
    then have "i \<in> set [1..253]" by (auto simp: find_Some_iff in_set_conv_nth)
    then show ?thesis using Some by (simp add: assignOverlay_def)
  next
    case None
    have "(250::int) \<in> {1..253}" by simp
    then show ?thesis using None \<open>overlay_cidr 250 = ''10.10.250.1/32''\<close>
      unfolding assignOverlay_def set_upto by (metis (no_types, lifting) image_eqI option.simps(4))
  qed
  then show "overlay_cidr ` set [1..253] \<subseteq> n_OverlayIP ` set ns \<longrightarrow> (\<exists>n\<in>set ns. n_OverlayIP n = assignOverlay ns)"
    by (metis (no_types, lifting) image_iff subsetD)
qed

theorem assigned_overlay_is_fresh_witness:
  "ipWithoutMask ''10.10.1.1/32'' \<noteq> ipWithoutMask (assignOverlay [node_zero\<lparr>n_OverlayIP := ''10.10.1.1/32''\<rparr>])
   \<and> (let ns = map (\<lambda>i. node_zero\<lparr>n_OverlayIP := overlay_cidr i\<rparr>) [1..253]
      in \<exists>n\<in>set ns. n_OverlayIP n = assignOverlay ns)"
proof
  have "used_thirds [node_zero\<lparr>n_OverlayIP := ''10.10.1.1/32''\<rparr>] = [1]" by code_simp
  then have "\<exists>i\<in>set [1..253]. i \<notin> set (used_thirds [node_zero\<lparr>n_OverlayIP := ''10.10.1.1/32''\<rparr>])"
    by (intro bexI [of _ 2]) auto
  then show "ipWithoutMask ''10.10.1.1/32'' \<noteq> ipWithoutMask (assignOverlay [node_zero\<lparr>n_OverlayIP := ''10.10.1.1/32''\<rparr>])"
    using assigned_overlay_is_fresh [of "[node_zero\<lparr>n_OverlayIP := ''10.10.1.1/32''\<rparr>]"] by simp
  let ?ns = "map (\<lambda>i. node_zero\<lparr>n_OverlayIP := overlay_cidr i\<rparr>) [1..253]"
  have "overlay_cidr ` set [1..253] \<subseteq> n_OverlayIP ` set ?ns" by (simp only: set_map image_image node.select_convs node.update_convs subset_refl) auto
  then have "\<exists>n\<in>set ?ns. n_OverlayIP n = assignOverlay ?ns" by (rule conjunct2 [OF assigned_overlay_is_fresh, THEN mp])
  then show "let ns = ?ns in \<exists>n\<in>set ns. n_OverlayIP n = assignOverlay ns" unfolding Let_def .
qed

end
