(* ===== verification/Go_Node_Api.thy ===== *)
theory Go_Node_Api
  imports Go_Controller
begin

text \<open>
  The node, health and plan routes of \<open>pkg/api/controller.go\<close>.
\<close>

definition nodes_route :: handler where
  "nodes_route e q rq c =
     guarded e rq c
       (if rq_method rq \<noteq> ''GET'' then (method_not_allowed, c)
        else (writeJSON (js_array json_node
                (map (\<lambda>n. if n_Version n = [] \<and> n_ConfigVersion n \<noteq> []
                          then n\<lparr>n_Version := n_ConfigVersion n\<rparr> else n) (ListNodes (store c)))), c))"

section \<open>Registration\<close>

definition nodeEqual :: "node \<Rightarrow> node \<Rightarrow> bool" where
  "nodeEqual a b \<longleftrightarrow> n_ID a = n_ID b \<and> n_PublicKey a = n_PublicKey b
     \<and> n_ListenPort a = n_ListenPort b \<and> n_OverlayIP a = n_OverlayIP b
     \<and> n_ASN a = n_ASN b \<and> n_RouterID a = n_RouterID b
     \<and> n_Endpoints a = n_Endpoints b \<and> n_CIDRs a = n_CIDRs b"

definition isPlaceholderOverlay :: "string \<Rightarrow> bool" where
  "isPlaceholderOverlay s \<longleftrightarrow> s = [] \<or> s = ''10.10.1.1/32''"

definition agentAuthorized :: "mem_store \<Rightarrow> string \<Rightarrow> string \<Rightarrow> bool" where
  "agentAuthorized m nodeID token \<longleftrightarrow>
     (if nodeID = [] \<or> token = [] then False
      else (case GetNode nodeID m of
              None \<Rightarrow> False
            | Some n \<Rightarrow> n_ProvisionToken n \<noteq> [] \<and> n_ProvisionToken n = token))"

text \<open>The node a request describes; every field the literal leaves out is zero.\<close>

definition requested_node :: "node_registration \<Rightarrow> node" where
  "requested_node r = node_zero\<lparr>n_ID := r_ID r,
     n_PublicKey := (if r_PublicKey r = ''stub-public-key'' then [] else r_PublicKey r),
     n_Endpoints := r_Endpoints r, n_CIDRs := r_CIDRs r, n_ListenPort := r_ListenPort r,
     n_OverlayIP := r_OverlayIP r, n_ASN := r_ASN r, n_RouterID := r_RouterID r,
     n_PeerEndpoints := r_PeerEndpoints r, n_ProvisionToken := r_ProvisionToken r\<rparr>"

text \<open>Both branches that know an existing node merge it the same way.\<close>

definition merge_existing :: "node \<Rightarrow> node \<Rightarrow> node" where
  "merge_existing x n = n\<lparr>
     n_PublicKey := (if n_PublicKey n = [] then n_PublicKey x else n_PublicKey n),
     n_PrivateKey := (if n_PrivateKey n = [] then n_PrivateKey x else n_PrivateKey n),
     n_OverlayIP :=
       (if n_OverlayIP x \<noteq> [] then n_OverlayIP x
        else if n_OverlayIP n = [] \<or> (isPlaceholderOverlay (n_OverlayIP n) \<and> n_OverlayIP x \<noteq> [])
        then n_OverlayIP x else n_OverlayIP n),
     n_ProvisionToken := n_ProvisionToken x,
     n_ListenPort := (if n_ListenPort n = 0 then n_ListenPort x else n_ListenPort n),
     n_ASN := (if n_ASN n = 0 then n_ASN x else n_ASN n),
     n_RouterID := (if n_RouterID n = [] then n_RouterID x else n_RouterID n),
     n_Endpoints := (if n_Endpoints n = [] then n_Endpoints x else n_Endpoints n),
     n_CIDRs := (if n_CIDRs n = [] then n_CIDRs x else n_CIDRs n),
     n_PeerEndpoints := (if n_PeerEndpoints n = [] then n_PeerEndpoints x else n_PeerEndpoints n)\<rparr>"

definition default_router_id :: "node \<Rightarrow> node" where
  "default_router_id n =
     (let ip = takeWhile (\<lambda>c. c \<noteq> CHR ''/'') (n_OverlayIP n)
      in if n_RouterID n = [] \<and> CHR ''/'' \<in> set (n_OverlayIP n) \<and> ip \<noteq> []
         then n\<lparr>n_RouterID := ip\<rparr> else n)"

definition registered_node :: "node_registration \<Rightarrow> node option \<Rightarrow> node" where
  "registered_node r existing =
     default_router_id (case existing of
         None \<Rightarrow> requested_node r
       | Some x \<Rightarrow> merge_existing x (requested_node r))"

definition audit_register :: "env \<Rightarrow> string \<Rightarrow> audit_entry" where
  "audit_register e nid = \<lparr>a_Actor = ''controller'', a_Action = ''register'', a_Target = nid,
     a_Detail = ''node registered/updated'', a_Timestamp = e_now e\<rparr>"

text \<open>From the \<open>UpsertNode\<close> decision to the answer\<close>

definition register_save :: "env \<Rightarrow> node_registration \<Rightarrow> node option \<Rightarrow> controller \<Rightarrow> response \<times> controller" where
  "register_save e r existing c =
     (let n = registered_node r existing;
          (saved, m1) =
            (case existing of
               Some x \<Rightarrow> if \<not> r_Force r \<and> nodeEqual x n then (x, store c) else UpsertNode n (store c)
             | None \<Rightarrow> UpsertNode n (store c));
          m2 = AppendAudit (audit_register e (n_ID saved)) m1;
          ns = ListNodes m2;
          rules = slice_of (expandPolicyRules ns) (n_ID saved);
          localPlan = BuildPeerPlan (n_ID saved) ns (health_map (ListHealth m2));
          c3 = BumpPlanVersion (RecomputeAllPlans e (set_store m2 c));
          cv = (if n_ConfigVersion saved = [] then e_build e else n_ConfigVersion saved)
      in (writeJSON (json_config e (store c3) saved cv localPlan rules True
            ''registered; peer plan derived from currently known nodes''), c3))"

definition register_route :: handler where
  "register_route e q rq c =
     (if rq_method rq \<noteq> ''POST'' then (method_not_allowed, c)
      else (case body go_node_registration rq of
          None \<Rightarrow> (http_error ''invalid payload'' 400, c)
        | Some r0 \<Rightarrow>
            (let r = (if r_ProvisionToken r0 = []
                      then r0\<lparr>r_ProvisionToken := header ''X-Provision-Token'' rq\<rparr> else r0);
                 allowWithoutJWT = r_ProvisionToken r \<noteq> [];
                 existing = GetNode (r_ID r) (store c)
             in if r_ID r = [] then (http_error ''id is required'' 400, c)
                else if \<not> allowWithoutJWT \<and> \<not> authFuncJWT e rq then (http_error ''unauthorized'' 401, c)
                else if allowWithoutJWT \<and>
                  (case existing of
                     None \<Rightarrow> True
                   | Some x \<Rightarrow> n_ProvisionToken x = [] \<or> n_ProvisionToken x \<noteq> r_ProvisionToken r)
                then (http_error ''invalid provision token'' 401, c)
                else register_save e r existing c)))"

section \<open>Health\<close>

fun go_rat :: "jsval \<Rightarrow> rat option" where
  "go_rat Undef = Some 0"
| "go_rat Null = Some 0"
| "go_rat (Number n) = Some n"
| "go_rat _ = None"

fun go_map :: "(jsval \<Rightarrow> 'a option) \<Rightarrow> jsval \<Rightarrow> (string \<times> 'a) list option" where
  "go_map f Undef = Some []"
| "go_map f Null = Some []"
| "go_map f (Obj ps) = those (map (\<lambda>(k, v). map_option (Pair k) (f v)) ps)"
| "go_map f _ = None"

definition go_health :: "env \<Rightarrow> jsval \<Rightarrow> health_report option" where
  "go_health e v = do {
     ps \<leftarrow> go_obj v;
     nid \<leftarrow> go_str (js_lookup ''nodeId'' ps);
     status \<leftarrow> go_str (js_lookup ''status'' ps);
     lat \<leftarrow> go_map go_int (js_lookup ''latencyMs'' ps);
     loss \<leftarrow> go_map go_rat (js_lookup ''packetLoss'' ps);
     frr \<leftarrow> go_map go_str (js_lookup ''frrState'' ps);
     ts \<leftarrow> go_time e (js_lookup ''timestamp'' ps);
     Some \<lparr>h_NodeID = nid, h_Status = status, h_LatencyMs = lat, h_PacketLoss = loss,
           h_FRRState = frr, h_Timestamp = ts\<rparr>
   }"

definition omit_obj :: "string \<Rightarrow> ('a \<Rightarrow> jsval) \<Rightarrow> (string \<times> 'a) list \<Rightarrow> (string \<times> jsval) list" where
  "omit_obj k f m = (if m = [] then [] else [(k, Obj (map (map_prod (\<lambda>x. x) f) m))])"

definition json_health :: "env \<Rightarrow> health_report \<Rightarrow> jsval" where
  "json_health e h = Obj ([(''nodeId'', Str (h_NodeID h)), (''status'', Str (h_Status h))]
     @ omit_obj ''latencyMs'' (\<lambda>n. Number (of_int n)) (h_LatencyMs h)
     @ omit_obj ''packetLoss'' Number (h_PacketLoss h) @ omit_obj ''frrState'' Str (h_FRRState h)
     @ [(''timestamp'', Str (e_rfc3339 e (h_Timestamp h)))])"

definition health_post :: "env \<Rightarrow> request \<Rightarrow> controller \<Rightarrow> response \<times> controller" where
  "health_post e rq c =
     (case body (go_health e) rq of
        None \<Rightarrow> (http_error ''invalid payload'' 400, c)
      | Some h0 \<Rightarrow>
          (let h = h0\<lparr>h_Timestamp := e_now e\<rparr>; nid = h_NodeID h
           in if nid = [] then (http_error ''nodeId is required'' 400, c)
              else if \<not> authFuncJWT e rq \<and>
                \<not> agentAuthorized (store c) nid (header ''X-Provision-Token'' rq)
              then (http_error ''unauthorized'' 401, c)
              else
                (let c1 = set_store (SaveHealth (e_now e) h (store c)) c;
                     ns = ListNodes (store c1);
                     ps = BuildPeerPlan nid ns [(nid, h)];
                     c2 = BumpPlanVersion (savePlanWithRules e (node_zero\<lparr>n_ID := nid\<rparr>) ps
                            (slice_of (expandPolicyRules ns) nid) c1);
                     entry = \<lparr>a_Actor = nid, a_Action = ''health_report'', a_Target = ''self'',
                              a_Detail = [], a_Timestamp = e_now e\<rparr>
                 in (status_ok, set_store (AppendAudit entry (store c2)) c2))))"

text \<open>Listing the health of all nodes asks for no authorization.\<close>

definition health_route :: handler where
  "health_route e q rq c =
     (if rq_method rq = ''POST'' then health_post e rq c
      else if rq_method rq = ''GET'' then
        (writeJSON (js_array (json_health e) (ListHealth (store c))), c)
      else (method_not_allowed, c))"

text \<open>\<open>time.Duration\<close> has 64 bits, so a number of hours above about 2.5 million wraps around.\<close>

definition health_history_route :: handler where
  "health_history_route e q rq c =
     guarded e rq c
       (if rq_method rq \<noteq> ''GET'' then (method_not_allowed, c)
        else
          (let nodeID = query_get q ''nodeId''
           in if nodeID = [] then (http_error ''nodeId is required'' 400, c)
              else (writeJSON (js_array (json_health e)
                      (ListHealthHistory nodeID (e_now e - wrap64 (query_limit q ''hours'' 24 * (3600 * 1000000000)))
                        (store c))), c)))"

definition json_audit :: "env \<Rightarrow> audit_entry \<Rightarrow> jsval" where
  "json_audit e a = Obj ([(''actor'', Str (a_Actor a)), (''action'', Str (a_Action a)),
     (''target'', Str (a_Target a))] @ omit_str ''detail'' (a_Detail a)
     @ [(''timestamp'', Str (e_rfc3339 e (a_Timestamp a)))])"

definition audit_route :: handler where
  "audit_route e q rq c =
     guarded e rq c
       (if rq_method rq \<noteq> ''GET'' then (method_not_allowed, c)
        else (writeJSON (js_array (json_audit e) (ListAudit 50 (store c))), c))"

section \<open>Plans\<close>

definition json_plan :: "env \<Rightarrow> plan \<Rightarrow> jsval" where
  "json_plan e p = Obj ([(''nodeId'', Str (pl_NodeID p)), (''version'', Number (of_int (pl_Version p))),
       (''configVersion'', Str (pl_ConfigVersion p)), (''peers'', js_array json_peer (pl_Peers p)),
       (''routes'', js_list Str (pl_Routes p)), (''createdAt'', Str (e_rfc3339 e (pl_CreatedAt p)))]
     @ omit_str ''signature'' (pl_Signature p) @ omit_str ''egressPeerId'' (pl_EgressPeerID p)
     @ omit_list ''policyRules'' json_rule (pl_PolicyRules p)
     @ omit_map ''peerEndpoints'' (pl_PeerEndpoints p) @ omit_bool ''defaultRoute'' (pl_DefaultRoute p)
     @ omit_list ''bypassCidrs'' Str (pl_BypassCIDRs p)
     @ omit_str ''defaultRouteNextHop'' (pl_DefaultRouteNextHop p))"

text \<open>
  The handler without \<open>waitVersion\<close>; \<open>Go_Wait\<close> adds the wait, after which the answer
  is made in the state found then.
\<close>

definition plan_answer :: "env \<Rightarrow> string \<Rightarrow> controller \<Rightarrow> response \<times> controller" where
  "plan_answer e nodeID c =
     (let ns = ListNodes (store c);
          rules = slice_of (expandPolicyRules ns) nodeID;
          ps = BuildPeerPlan nodeID ns (health_map (ListHealth (store c)));
          target = (case find (\<lambda>n. n_ID n = nodeID) ns of Some n \<Rightarrow> n | None \<Rightarrow> node_zero);
          ver = plan_version_text e (planVersion c);
          c' = savePlanWithRules e target ps rules c
      in (writeJSON (json_config e (store c') (target\<lparr>n_ID := nodeID\<rparr>) ver ps rules False
            ''dynamic plan based on current health''), c'))"

definition plan_route :: handler where
  "plan_route e q rq c =
     (if rq_method rq \<noteq> ''GET'' then (method_not_allowed, c)
      else
        (let nodeID = query_get q ''nodeId''
         in if nodeID = [] then (http_error ''nodeId is required'' 400, c)
            else if \<not> authFuncJWT e rq \<and>
              \<not> agentAuthorized (store c) nodeID (header ''X-Provision-Token'' rq)
            then (http_error ''unauthorized'' 401, c)
            else plan_answer e nodeID c))"

definition plan_history_route :: handler where
  "plan_history_route e q rq c =
     guarded e rq c
       (if rq_method rq \<noteq> ''GET'' then (method_not_allowed, c)
        else
          (let nodeID = query_get q ''nodeId''
           in if nodeID = [] then (http_error ''nodeId is required'' 400, c)
              else (writeJSON (js_list (json_plan e) (ListPlanHistory nodeID 20 (store c))), c)))"

definition go_rollback_request :: "jsval \<Rightarrow> (string \<times> int) option" where
  "go_rollback_request v = do {
     ps \<leftarrow> go_obj v;
     nid \<leftarrow> go_str (js_lookup ''nodeId'' ps);
     ver \<leftarrow> go_int (js_lookup ''version'' ps);
     Some (nid, ver)
   }"

text \<open>\<open>RollbackPlan\<close> changes the store before the signature is checked.\<close>

definition rollback_route :: handler where
  "rollback_route e q rq c =
     guarded e rq c
       (if rq_method rq \<noteq> ''POST'' then (method_not_allowed, c)
        else (case body go_rollback_request rq of
            None \<Rightarrow> (http_error ''invalid payload'' 400, c)
          | Some (nid, ver) \<Rightarrow>
              if nid = [] then (http_error ''invalid payload'' 400, c)
              else
                (case RollbackPlan nid ver (store c) of
                   None \<Rightarrow> (http_error ''rollback failed'' 500, c)
                 | Some (p, m) \<Rightarrow>
                     if pl_Signature p \<noteq> [] \<and>
                       pl_Signature p \<noteq> signPlan e (node_zero\<lparr>n_ID := pl_NodeID p, n_CIDRs := pl_Routes p\<rparr>)
                         (pl_Peers p) (pl_ConfigVersion p)
                     then (http_error ''rollback signature mismatch'' 400, set_store m c)
                     else
                       (let entry = \<lparr>a_Actor = ''controller'', a_Action = ''rollback_plan'',
                              a_Target = pl_NodeID p,
                              a_Detail = ''rollback to version '' @ itoa (pl_Version p),
                              a_Timestamp = e_now e\<rparr>
                        in (writeJSON (json_plan e p),
                            set_store (AppendAudit entry (SetGlobalPlanVersion (pl_Version p) m))
                              (c\<lparr>planVersion := pl_Version p\<rparr>))))))"

section \<open>Properties\<close>

lemma nodes_RecomputeAllPlans [simp, store_simps]:
  "nodes (store (RecomputeAllPlans e c)) = nodes (store c)"
proof -
  have "nodes (store (fold (\<lambda>n. savePlanWithRules e n (f n) (g n)) ns c)) = nodes (store c)" for f g ns
    by (induction ns arbitrary: c) simp_all
  then show ?thesis by (simp add: RecomputeAllPlans_def Let_def)
qed

lemma default_router_id_simps [simp]:
  "n_ID (default_router_id n) = n_ID n" "n_PublicKey (default_router_id n) = n_PublicKey n"
  "n_PrivateKey (default_router_id n) = n_PrivateKey n"
  "n_ProvisionToken (default_router_id n) = n_ProvisionToken n"
  "n_OverlayIP (default_router_id n) = n_OverlayIP n" "n_ListenPort (default_router_id n) = n_ListenPort n"
  "n_ASN (default_router_id n) = n_ASN n" "n_Endpoints (default_router_id n) = n_Endpoints n"
  "n_CIDRs (default_router_id n) = n_CIDRs n" "n_PolicyRules (default_router_id n) = n_PolicyRules n"
  "n_EgressPeerID (default_router_id n) = n_EgressPeerID n"
  "n_DefaultRoute (default_router_id n) = n_DefaultRoute n"
  "n_BypassCIDRs (default_router_id n) = n_BypassCIDRs n"
  "n_DefaultRouteNextHop (default_router_id n) = n_DefaultRouteNextHop n"
  "n_PeerEndpoints (default_router_id n) = n_PeerEndpoints n"
  by (simp_all add: default_router_id_def Let_def)

lemma merge_existing_simps [simp]:
  "n_ID (merge_existing x n) = n_ID n" "n_ProvisionToken (merge_existing x n) = n_ProvisionToken x"
  "n_PublicKey (merge_existing x n) = (if n_PublicKey n = [] then n_PublicKey x else n_PublicKey n)"
  "n_PrivateKey (merge_existing x n) = (if n_PrivateKey n = [] then n_PrivateKey x else n_PrivateKey n)"
  "n_OverlayIP (merge_existing x n) = (if n_OverlayIP x \<noteq> [] then n_OverlayIP x else n_OverlayIP n)"
  "n_ListenPort (merge_existing x n) = (if n_ListenPort n = 0 then n_ListenPort x else n_ListenPort n)"
  "n_ASN (merge_existing x n) = (if n_ASN n = 0 then n_ASN x else n_ASN n)"
  "n_Endpoints (merge_existing x n) = (if n_Endpoints n = [] then n_Endpoints x else n_Endpoints n)"
  "n_CIDRs (merge_existing x n) = (if n_CIDRs n = [] then n_CIDRs x else n_CIDRs n)"
  "n_PeerEndpoints (merge_existing x n) = (if n_PeerEndpoints n = [] then n_PeerEndpoints x else n_PeerEndpoints n)"
  "n_PolicyRules (merge_existing x n) = n_PolicyRules n" "n_EgressPeerID (merge_existing x n) = n_EgressPeerID n"
  "n_DefaultRoute (merge_existing x n) = n_DefaultRoute n" "n_BypassCIDRs (merge_existing x n) = n_BypassCIDRs n"
  "n_DefaultRouteNextHop (merge_existing x n) = n_DefaultRouteNextHop n"
  by (simp_all add: merge_existing_def)

lemma requested_node_simps [simp]:
  "n_ID (requested_node r) = r_ID r" "n_PrivateKey (requested_node r) = []"
  "n_PublicKey (requested_node r) = (if r_PublicKey r = ''stub-public-key'' then [] else r_PublicKey r)"
  "n_ListenPort (requested_node r) = r_ListenPort r" "n_ASN (requested_node r) = r_ASN r"
  "n_Endpoints (requested_node r) = r_Endpoints r" "n_CIDRs (requested_node r) = r_CIDRs r"
  "n_PeerEndpoints (requested_node r) = r_PeerEndpoints r"
  "n_ProvisionToken (requested_node r) = r_ProvisionToken r"
  "n_PolicyRules (requested_node r) = []" "n_EgressPeerID (requested_node r) = []"
  "n_DefaultRoute (requested_node r) = False" "n_BypassCIDRs (requested_node r) = []"
  "n_DefaultRouteNextHop (requested_node r) = []"
  by (simp_all add: requested_node_def node_zero_def)

text \<open>Registering a known node again never gives it another identity: whatever the request
  says, the overlay address once assigned, the provision token and the private key stay, and
  a public key, port, AS number, endpoints or networks the request leaves empty keep their
  stored value.\<close>

theorem registration_keeps_identity:
  "n_ID (registered_node r (Some x)) = r_ID r
   \<and> n_ProvisionToken (registered_node r (Some x)) = n_ProvisionToken x
   \<and> n_PrivateKey (registered_node r (Some x)) = n_PrivateKey x
   \<and> (n_OverlayIP x \<noteq> [] \<longrightarrow> n_OverlayIP (registered_node r (Some x)) = n_OverlayIP x)
   \<and> (r_PublicKey r \<in> {[], ''stub-public-key''} \<longrightarrow> n_PublicKey (registered_node r (Some x)) = n_PublicKey x)
   \<and> (r_ListenPort r = 0 \<longrightarrow> n_ListenPort (registered_node r (Some x)) = n_ListenPort x)
   \<and> (r_ASN r = 0 \<longrightarrow> n_ASN (registered_node r (Some x)) = n_ASN x)
   \<and> (r_Endpoints r = [] \<longrightarrow> n_Endpoints (registered_node r (Some x)) = n_Endpoints x)
   \<and> (r_CIDRs r = [] \<longrightarrow> n_CIDRs (registered_node r (Some x)) = n_CIDRs x)"
  by (auto simp: registered_node_def)

theorem registration_keeps_identity_witness:
  "let x = node_zero\<lparr>n_ID := ''a'', n_OverlayIP := ''10.10.1.1/32'', n_PublicKey := ''k''\<rparr>;
       r = \<lparr>r_ID = ''a'', r_PublicKey = ''stub-public-key'', r_Endpoints = [], r_CIDRs = [], r_Force = False,
            r_ListenPort = 0, r_OverlayIP = ''10.9.9.9/32'', r_ASN = 0, r_RouterID = [],
            r_ProvisionToken = [], r_PeerEndpoints = []\<rparr>
   in n_OverlayIP (registered_node r (Some x)) = ''10.10.1.1/32'' \<and> n_PublicKey (registered_node r (Some x)) = ''k''"
  using registration_keeps_identity [of "\<lparr>r_ID = ''a'', r_PublicKey = ''stub-public-key'', r_Endpoints = [],
      r_CIDRs = [], r_Force = False, r_ListenPort = 0, r_OverlayIP = ''10.9.9.9/32'', r_ASN = 0,
      r_RouterID = [], r_ProvisionToken = [], r_PeerEndpoints = []\<rparr>"
      "node_zero\<lparr>n_ID := ''a'', n_OverlayIP := ''10.10.1.1/32'', n_PublicKey := ''k''\<rparr>"]
  by (simp add: Let_def)

lemma GetPlan_savePlan:
  "GetPlan (n_ID n) (store (savePlanWithRules e n ps rs c)) =
     Some (new_plan e (listening n) ps rs (planVersion c + 1))"
  by (simp add: savePlanWithRules_def Let_def SavePlan_def SetGlobalPlanVersion_def GetPlan_def)

lemma plans_AppendAudit [simp]: "GetPlan k (AppendAudit a m) = GetPlan k m"
  by (simp add: GetPlan_def AppendAudit_def)

end
