(* ===== verification/Go_Status.thy ===== *)
theory Go_Status
  imports Go_Node_Api
begin

text \<open>
  The state of the mesh and the diagnosis of a node: \<open>pkg/api/status.go\<close> and
  \<open>pkg/api/diagnose.go\<close>, and the route \<open>/api/v1/info\<close> of \<open>controller.go\<close>.
\<close>

section \<open>Locations\<close>

text \<open>The host \<open>net.SplitHostPort\<close> returns, and \<open>None\<close> for its error.\<close>

definition SplitHostPort :: "string \<Rightarrow> string option" where
  "SplitHostPort s =
     (if CHR '':'' \<notin> set s then None
      else
        (let port = rev (takeWhile (\<lambda>c. c \<noteq> CHR '':'') (rev s));
             before = take (length s - length port - 1) s
         in if hd s = CHR ''['' then
              (let host = takeWhile (\<lambda>c. c \<noteq> CHR '']'') (tl s)
               in if before = CHR ''['' # host @ [CHR '']''] \<and> CHR ''['' \<notin> set (host @ port) \<and> CHR '']'' \<notin> set port
                  then Some host else None)
            else if CHR '':'' \<in> set before \<or> CHR ''['' \<in> set s \<or> CHR '']'' \<in> set s then None
            else Some before))"

definition fetchGeo :: "env \<Rightarrow> string \<Rightarrow> geo option" where
  "fetchGeo e ip =
     (case e_locate e ip of
        None \<Rightarrow> None
      | Some (lat, lng, city, country) \<Rightarrow>
          Some \<lparr>geo_IP = ip, geo_Lat = lat, geo_Lng = lng, geo_City = city, geo_Country = country,
            geo_Source = ''ipapi''\<rparr>)"

text \<open>A location, also a missing one, is kept for thirty minutes.\<close>

definition resolveGeo :: "env \<Rightarrow> string \<Rightarrow> controller \<Rightarrow> geo option \<times> controller" where
  "resolveGeo e ip c =
     (case map_of (geoCache c) ip of
        Some (loc, expires) \<Rightarrow>
          (if e_now e < expires then (loc, c)
           else (fetchGeo e ip, c\<lparr>geoCache := AList.update ip (fetchGeo e ip, e_now e + 30 * 60 * 1000000000) (geoCache c)\<rparr>))
      | None \<Rightarrow>
          (fetchGeo e ip, c\<lparr>geoCache := AList.update ip (fetchGeo e ip, e_now e + 30 * 60 * 1000000000) (geoCache c)\<rparr>))"

definition geo_address :: "node \<Rightarrow> string" where
  "geo_address n =
     (let host = (case n_Endpoints n of [] \<Rightarrow> [] | ep # _ \<Rightarrow>
                    (case SplitHostPort ep of None \<Rightarrow> [] | Some h \<Rightarrow> h))
      in if host = [] then ipWithoutMask (n_OverlayIP n) else host)"

definition resolveGeoForNode :: "env \<Rightarrow> node \<Rightarrow> controller \<Rightarrow> geo option \<times> controller" where
  "resolveGeoForNode e n c =
     (let ip = geo_address n
      in if ip = [] \<or> \<not> e_is_ip e ip then (None, c) else resolveGeo e ip c)"

section \<open>The mesh\<close>

record node_status =
  ns_ID :: string
  ns_OverlayIP :: string
  ns_Location :: "geo option"

fun buildNodeStatuses :: "env \<Rightarrow> node list \<Rightarrow> controller \<Rightarrow> node_status list \<times> controller" where
  "buildNodeStatuses e [] c = ([], c)"
| "buildNodeStatuses e (n # ns) c =
     (let (loc, c1) = resolveGeoForNode e n c;
          (rest, c2) = buildNodeStatuses e ns c1
      in (\<lparr>ns_ID = n_ID n, ns_OverlayIP = ipWithoutMask (n_OverlayIP n), ns_Location = loc\<rparr> # rest, c2))"

record link_status =
  lk_From :: string
  lk_To :: string
  lk_OK :: bool
  lk_LatencyMs :: int
  lk_PacketLoss :: rat
  lk_ProbeIP :: string
  lk_Reason :: string

text \<open>What one report says about an address: latency and loss; a loss that is missing is 0.\<close>

definition probe :: "(string \<times> health_report) list \<Rightarrow> string \<Rightarrow> string \<Rightarrow> (int \<times> rat \<times> string) option" where
  "probe reports nid ip =
     (case map_of reports nid of
        None \<Rightarrow> None
      | Some h \<Rightarrow>
          (case map_of (h_LatencyMs h) ip of
             None \<Rightarrow> None
           | Some ms \<Rightarrow> Some (ms, (case map_of (h_PacketLoss h) ip of None \<Rightarrow> 0 | Some l \<Rightarrow> l), ip)))"

definition link_status_of :: "(string \<times> health_report) list \<Rightarrow> node \<Rightarrow> node \<Rightarrow> link_status" where
  "link_status_of reports a b =
     (let from = n_ID a; dest = n_ID b;
          aip = ipWithoutMask (n_OverlayIP a); bip = ipWithoutMask (n_OverlayIP b);
          none = \<lparr>lk_From = from, lk_To = dest, lk_OK = False, lk_LatencyMs = 0, lk_PacketLoss = 0,
                  lk_ProbeIP = [], lk_Reason = []\<rparr>
      in if n_Endpoints a = [] \<or> n_Endpoints b = [] then none\<lparr>lk_Reason := ''missing endpoint''\<rparr>
         else
           (case (case probe reports from bip of Some p \<Rightarrow> Some p | None \<Rightarrow> probe reports dest aip) of
              None \<Rightarrow> none\<lparr>lk_Reason := ''no telemetry''\<rparr>
            | Some (ms, loss, ip) \<Rightarrow>
                none\<lparr>lk_OK := loss < 100, lk_LatencyMs := ms, lk_PacketLoss := loss, lk_ProbeIP := ip,
                  lk_Reason := (if loss < 100 then [] else ''packet loss 100%'')\<rparr>))"

text \<open>\<open>i < j\<close>: every node with those after it\<close>

fun mesh_pairs :: "'a list \<Rightarrow> ('a \<times> 'a) list" where
  "mesh_pairs [] = []"
| "mesh_pairs (x # xs) = map (\<lambda>y. (x, y)) xs @ mesh_pairs xs"

text \<open>Of two reports of one node the map keeps the later one in the list.\<close>

definition health_by_node :: "health_report list \<Rightarrow> (string \<times> health_report) list" where
  "health_by_node reports = rev (map (\<lambda>h. (h_NodeID h, h)) reports)"

definition buildLinkStatuses :: "node list \<Rightarrow> health_report list \<Rightarrow> link_status list" where
  "buildLinkStatuses members reports =
     map (\<lambda>(a, b). link_status_of (health_by_node reports) a b) (mesh_pairs members)"

definition omit_rat :: "string \<Rightarrow> rat \<Rightarrow> (string \<times> jsval) list" where
  "omit_rat k r = (if r = 0 then [] else [(k, Number r)])"

definition json_geo :: "geo \<Rightarrow> jsval" where
  "json_geo g = Obj (omit_str ''ip'' (geo_IP g) @ omit_rat ''lat'' (geo_Lat g) @ omit_rat ''lng'' (geo_Lng g)
     @ omit_str ''city'' (geo_City g) @ omit_str ''country'' (geo_Country g) @ omit_str ''source'' (geo_Source g))"

definition json_node_status :: "node_status \<Rightarrow> jsval" where
  "json_node_status n = Obj ([(''id'', Str (ns_ID n))] @ omit_str ''overlayIp'' (ns_OverlayIP n)
     @ (case ns_Location n of None \<Rightarrow> [] | Some g \<Rightarrow> [(''location'', json_geo g)]))"

definition json_link_status :: "link_status \<Rightarrow> jsval" where
  "json_link_status l = Obj ([(''from'', Str (lk_From l)), (''to'', Str (lk_To l)), (''ok'', Boolean (lk_OK l))]
     @ omit_int ''latencyMs'' (lk_LatencyMs l) @ omit_rat ''packetLoss'' (lk_PacketLoss l)
     @ omit_str ''probeIp'' (lk_ProbeIP l) @ omit_str ''reason'' (lk_Reason l))"

text \<open>\<open>nodes\<close> is made with \<open>make\<close>, \<open>links\<close> is \<open>nil\<close> when there is no pair.\<close>

definition json_mesh :: "node_status list \<Rightarrow> link_status list \<Rightarrow> int \<Rightarrow> jsval" where
  "json_mesh ns ls interval =
     Obj ([(''nodes'', Arr (map json_node_status ns)), (''links'', js_list json_link_status ls)]
       @ omit_int ''pingIntervalSec'' interval)"

definition mesh_route :: handler where
  "mesh_route e q rq c =
     (if \<not> authFuncJWT e rq then (http_error ''unauthorized'' 401, c)
      else
        (let members = ListNodes (store c);
             (ns, c') = buildNodeStatuses e members c
         in (writeJSON (json_mesh ns (buildLinkStatuses members (ListHealth (store c)))
               (diagIntervalSeconds e (store c))), c')))"

section \<open>The state of the controller\<close>

text \<open>The keys of a Go map are written in their order; \<open>Ping\<close> of the memory store always succeeds.\<close>

definition info_route :: handler where
  "info_route e q rq c =
     (writeJSON (Obj [(''buildVersion'', Str (e_build e @ '' (UTC+8)'')), (''consulAddr'', Str (e_consulAddr e)),
        (''mysql'', Str (e_mysql e)), (''planVersion'', Number (of_int (planVersion c))),
        (''publicAddr'', Str (e_publicAddr e)), (''store'', Str (e_storeType e)),
        (''storeStatus'', Str ''ok'')]), c)"

definition healthz_route :: handler where
  "healthz_route e q rq c =
     (\<lparr>rs_status = 200, rs_ctype = ''text/plain; charset=utf-8'', rs_text = ''ok'',
        rs_json = Inl (Exn ''SyntaxError'' [])\<rparr>, c)"

end
