(* ===== verification/Go_Text.thy ===== *)
theory Go_Text
  imports Prelude
begin

text \<open>
  The texts of a diagnosis (\<open>pkg/api/diagnose.go\<close>), byte by byte in UTF-8, with their
  meaning in English.
\<close>

\<comment> \<open>the node does not exist\<close>
definition dg_no_node :: string where
  "dg_no_node =
     [CHR 0xE8, CHR 0x8A, CHR 0x82, CHR 0xE7, CHR 0x82, CHR 0xB9,
      CHR 0xE4, CHR 0xB8, CHR 0x8D, CHR 0xE5, CHR 0xAD, CHR 0x98,
      CHR 0xE5, CHR 0x9C, CHR 0xA8]"

\<comment> \<open>the node exists (name of the check)\<close>
definition dg_node_exists :: string where
  "dg_node_exists =
     [CHR 0xE8, CHR 0x8A, CHR 0x82, CHR 0xE7, CHR 0x82, CHR 0xB9,
      CHR 0xE5, CHR 0xAD, CHR 0x98, CHR 0xE5, CHR 0x9C, CHR 0xA8]"

\<comment> \<open>node not found\<close>
definition dg_not_found :: string where
  "dg_not_found =
     [CHR 0xE6, CHR 0x9C, CHR 0xAA, CHR 0xE6, CHR 0x89, CHR 0xBE,
      CHR 0xE5, CHR 0x88, CHR 0xB0, CHR 0xE8, CHR 0x8A, CHR 0x82,
      CHR 0xE7, CHR 0x82, CHR 0xB9]"

\<comment> \<open>heartbeat of the agent\<close>
definition dg_heartbeat :: string where
  "dg_heartbeat =
     ''Agent '' @ [CHR 0xE5, CHR 0xBF, CHR 0x83, CHR 0xE8, CHR 0xB7, CHR 0xB3]"

\<comment> \<open>no health report, the agent may not be installed or running\<close>
definition dg_no_report :: string where
  "dg_no_report =
     [CHR 0xE6, CHR 0x9C, CHR 0xAA, CHR 0xE6, CHR 0x94, CHR 0xB6,
      CHR 0xE5, CHR 0x88, CHR 0xB0, CHR 0xE5, CHR 0x81, CHR 0xA5,
      CHR 0xE5, CHR 0xBA, CHR 0xB7, CHR 0xE4, CHR 0xB8, CHR 0x8A,
      CHR 0xE6, CHR 0x8A, CHR 0xA5, CHR 0xEF, CHR 0xBC, CHR 0x8C,
      CHR 0xE5, CHR 0x8F, CHR 0xAF, CHR 0xE8, CHR 0x83, CHR 0xBD] @ '' agent '' @ [CHR 0xE6, CHR 0x9C, CHR 0xAA, CHR 0xE5, CHR 0xAE, CHR 0x89,
      CHR 0xE8, CHR 0xA3, CHR 0x85] @ ''/'' @ [CHR 0xE6, CHR 0x9C, CHR 0xAA, CHR 0xE8, CHR 0xBF, CHR 0x90,
      CHR 0xE8, CHR 0xA1, CHR 0x8C]"

\<comment> \<open>no health report\<close>
definition dg_no_report_summary :: string where
  "dg_no_report_summary =
     [CHR 0xE6, CHR 0x9C, CHR 0xAA, CHR 0xE6, CHR 0x94, CHR 0xB6,
      CHR 0xE5, CHR 0x88, CHR 0xB0, CHR 0xE5, CHR 0x81, CHR 0xA5,
      CHR 0xE5, CHR 0xBA, CHR 0xB7, CHR 0xE4, CHR 0xB8, CHR 0x8A,
      CHR 0xE6, CHR 0x8A, CHR 0xA5]"

\<comment> \<open>the last health report is late by\<close>
definition dg_stale :: string where
  "dg_stale =
     [CHR 0xE5, CHR 0x81, CHR 0xA5, CHR 0xE5, CHR 0xBA, CHR 0xB7,
      CHR 0xE4, CHR 0xB8, CHR 0x8A, CHR 0xE6, CHR 0x8A, CHR 0xA5,
      CHR 0xE5, CHR 0xB7, CHR 0xB2, CHR 0xE6, CHR 0xBB, CHR 0x9E,
      CHR 0xE5, CHR 0x90, CHR 0x8E] @ '' ''"

\<comment> \<open>seconds, the agent may be stopped or the network blocked\<close>
definition dg_stale_end :: string where
  "dg_stale_end =
     ''s'' @ [CHR 0xEF, CHR 0xBC, CHR 0x8C, CHR 0xE5, CHR 0x8F, CHR 0xAF,
      CHR 0xE8, CHR 0x83, CHR 0xBD] @ '' agent '' @ [CHR 0xE5, CHR 0x81, CHR 0x9C, CHR 0xE6, CHR 0xAD, CHR 0xA2,
      CHR 0xE6, CHR 0x88, CHR 0x96, CHR 0xE7, CHR 0xBD, CHR 0x91,
      CHR 0xE7, CHR 0xBB, CHR 0x9C, CHR 0xE9, CHR 0x98, CHR 0xBB,
      CHR 0xE6, CHR 0x96, CHR 0xAD]"

\<comment> \<open>reporting normally\<close>
definition dg_fresh :: string where
  "dg_fresh =
     [CHR 0xE4, CHR 0xB8, CHR 0x8A, CHR 0xE6, CHR 0x8A, CHR 0xA5,
      CHR 0xE6, CHR 0xAD, CHR 0xA3, CHR 0xE5, CHR 0xB8, CHR 0xB8]"

\<comment> \<open>endpoint settings\<close>
definition dg_endpoint :: string where
  "dg_endpoint =
     ''Endpoint '' @ [CHR 0xE9, CHR 0x85, CHR 0x8D, CHR 0xE7, CHR 0xBD, CHR 0xAE]"

\<comment> \<open>the node has no endpoint, others may be unable to connect\<close>
definition dg_no_endpoint :: string where
  "dg_no_endpoint =
     [CHR 0xE8, CHR 0x8A, CHR 0x82, CHR 0xE7, CHR 0x82, CHR 0xB9,
      CHR 0xE6, CHR 0x9C, CHR 0xAA, CHR 0xE9, CHR 0x85, CHR 0x8D,
      CHR 0xE7, CHR 0xBD, CHR 0xAE] @ '' endpoint'' @ [CHR 0xEF, CHR 0xBC, CHR 0x8C, CHR 0xE5, CHR 0x8F, CHR 0xAF,
      CHR 0xE8, CHR 0x83, CHR 0xBD, CHR 0xE6, CHR 0x97, CHR 0xA0,
      CHR 0xE6, CHR 0xB3, CHR 0x95, CHR 0xE8, CHR 0xA2, CHR 0xAB,
      CHR 0xE5, CHR 0x85, CHR 0xB6, CHR 0xE4, CHR 0xBB, CHR 0x96,
      CHR 0xE8, CHR 0x8A, CHR 0x82, CHR 0xE7, CHR 0x82, CHR 0xB9,
      CHR 0xE8, CHR 0xBF, CHR 0x9E, CHR 0xE6, CHR 0x8E, CHR 0xA5]"

\<comment> \<open>topology plan\<close>
definition dg_plan :: string where
  "dg_plan =
     [CHR 0xE6, CHR 0x8B, CHR 0x93, CHR 0xE6, CHR 0x89, CHR 0x91,
      CHR 0xE8, CHR 0xAE, CHR 0xA1, CHR 0xE5, CHR 0x88, CHR 0x92]"

\<comment> \<open>no plan or no peer\<close>
definition dg_no_plan :: string where
  "dg_no_plan =
     [CHR 0xE6, CHR 0x9C, CHR 0xAA, CHR 0xE6, CHR 0x89, CHR 0xBE,
      CHR 0xE5, CHR 0x88, CHR 0xB0, CHR 0xE8, CHR 0xAE, CHR 0xA1,
      CHR 0xE5, CHR 0x88, CHR 0x92, CHR 0xE6, CHR 0x88, CHR 0x96,
      CHR 0xE6, CHR 0x97, CHR 0xA0, CHR 0xE4, CHR 0xBB, CHR 0xBB,
      CHR 0xE4, CHR 0xBD, CHR 0x95] @ '' peer'' @ [CHR 0xEF, CHR 0xBC, CHR 0x8C, CHR 0xE6, CHR 0xA3, CHR 0x80,
      CHR 0xE6, CHR 0x9F, CHR 0xA5] @ '' controller '' @ [CHR 0xE6, CHR 0x8B, CHR 0x93, CHR 0xE6, CHR 0x89, CHR 0x91,
      CHR 0xE8, CHR 0xAE, CHR 0xA1, CHR 0xE7, CHR 0xAE, CHR 0x97]"

\<comment> \<open>WireGuard or firewall\<close>
definition dg_wg_firewall :: string where
  "dg_wg_firewall =
     ''WireGuard/'' @ [CHR 0xE9, CHR 0x98, CHR 0xB2, CHR 0xE7, CHR 0x81, CHR 0xAB,
      CHR 0xE5, CHR 0xA2, CHR 0x99]"

\<comment> \<open>peers with a loss of 100%\<close>
definition dg_blocked :: string where
  "dg_blocked =
     [CHR 0xE6, CHR 0x8E, CHR 0xA2, CHR 0xE6, CHR 0xB5, CHR 0x8B,
      CHR 0xE5, CHR 0x88, CHR 0xB0, CHR 0xE5, CHR 0xAF, CHR 0xB9,
      CHR 0xE7, CHR 0xAB, CHR 0xAF] @ '' 100% '' @ [CHR 0xE4, CHR 0xB8, CHR 0xA2, CHR 0xE5, CHR 0x8C, CHR 0x85] @ '': ''"

\<comment> \<open>WireGuard links\<close>
definition dg_wg_link :: string where
  "dg_wg_link =
     ''WireGuard '' @ [CHR 0xE9, CHR 0x93, CHR 0xBE, CHR 0xE8, CHR 0xB7, CHR 0xAF]"

\<comment> \<open>no latency of these nodes\<close>
definition dg_missing :: string where
  "dg_missing =
     [CHR 0xE6, CHR 0x9C, CHR 0xAA, CHR 0xE6, CHR 0x94, CHR 0xB6,
      CHR 0xE5, CHR 0x88, CHR 0xB0, CHR 0xE5, CHR 0xAF, CHR 0xB9,
      CHR 0xE8, CHR 0xBF, CHR 0x99, CHR 0xE4, CHR 0xBA, CHR 0x9B,
      CHR 0xE8, CHR 0x8A, CHR 0x82, CHR 0xE7, CHR 0x82, CHR 0xB9,
      CHR 0xE7, CHR 0x9A, CHR 0x84, CHR 0xE5, CHR 0xBB, CHR 0xB6,
      CHR 0xE8, CHR 0xBF, CHR 0x9F, CHR 0xE6, CHR 0x95, CHR 0xB0,
      CHR 0xE6, CHR 0x8D, CHR 0xAE, CHR 0xEF, CHR 0xBC, CHR 0x8C,
      CHR 0xE5, CHR 0x8F, CHR 0xAF, CHR 0xE8, CHR 0x83, CHR 0xBD] @ '' WG '' @ [CHR 0xE6, CHR 0x9C, CHR 0xAA, CHR 0xE6, CHR 0x8F, CHR 0xA1,
      CHR 0xE6, CHR 0x89, CHR 0x8B, CHR 0xE6, CHR 0x88, CHR 0x96,
      CHR 0xE9, CHR 0x98, CHR 0xB2, CHR 0xE7, CHR 0x81, CHR 0xAB,
      CHR 0xE5, CHR 0xA2, CHR 0x99, CHR 0xE9, CHR 0x98, CHR 0xBB,
      CHR 0xE6, CHR 0x96, CHR 0xAD] @ '': ''"

\<comment> \<open>latency and loss of the peers received\<close>
definition dg_wg_ok :: string where
  "dg_wg_ok =
     [CHR 0xE5, CHR 0xB7, CHR 0xB2, CHR 0xE6, CHR 0x94, CHR 0xB6,
      CHR 0xE5, CHR 0x88, CHR 0xB0, CHR 0xE5, CHR 0xAF, CHR 0xB9,
      CHR 0xE7, CHR 0xAB, CHR 0xAF, CHR 0xE5, CHR 0xBB, CHR 0xB6,
      CHR 0xE8, CHR 0xBF, CHR 0x9F] @ ''/'' @ [CHR 0xE4, CHR 0xB8, CHR 0xA2, CHR 0xE5, CHR 0x8C, CHR 0x85,
      CHR 0xE6, CHR 0x95, CHR 0xB0, CHR 0xE6, CHR 0x8D, CHR 0xAE]"

\<comment> \<open>FRR neighbours\<close>
definition dg_frr :: string where
  "dg_frr =
     ''FRR '' @ [CHR 0xE9, CHR 0x82, CHR 0xBB, CHR 0xE5, CHR 0xB1, CHR 0x85]"

\<comment> \<open>neighbours in a bad state\<close>
definition dg_frr_bad :: string where
  "dg_frr_bad =
     [CHR 0xE9, CHR 0x82, CHR 0xBB, CHR 0xE5, CHR 0xB1, CHR 0x85,
      CHR 0xE7, CHR 0x8A, CHR 0xB6, CHR 0xE6, CHR 0x80, CHR 0x81,
      CHR 0xE5, CHR 0xBC, CHR 0x82, CHR 0xE5, CHR 0xB8, CHR 0xB8] @ '': ''"

\<comment> \<open>all BGP neighbours established\<close>
definition dg_frr_ok :: string where
  "dg_frr_ok =
     ''BGP '' @ [CHR 0xE9, CHR 0x82, CHR 0xBB, CHR 0xE5, CHR 0xB1, CHR 0x85,
      CHR 0xE5, CHR 0x9D, CHR 0x87, CHR 0xE5, CHR 0xB7, CHR 0xB2] @ '' Established''"

\<comment> \<open>blocked or errors found\<close>
definition dg_sum_fail :: string where
  "dg_sum_fail =
     [CHR 0xE5, CHR 0x8F, CHR 0x91, CHR 0xE7, CHR 0x8E, CHR 0xB0,
      CHR 0xE9, CHR 0x98, CHR 0xBB, CHR 0xE6, CHR 0x96, CHR 0xAD] @ ''/'' @ [CHR 0xE9, CHR 0x94, CHR 0x99, CHR 0xE8, CHR 0xAF, CHR 0xAF]"

\<comment> \<open>there are warnings\<close>
definition dg_sum_warn :: string where
  "dg_sum_warn =
     [CHR 0xE5, CHR 0xAD, CHR 0x98, CHR 0xE5, CHR 0x9C, CHR 0xA8,
      CHR 0xE8, CHR 0xAD, CHR 0xA6, CHR 0xE5, CHR 0x91, CHR 0x8A,
      CHR 0xEF, CHR 0xBC, CHR 0x8C, CHR 0xE8, CHR 0xAF, CHR 0xB7,
      CHR 0xE6, CHR 0x8E, CHR 0x92, CHR 0xE6, CHR 0x9F, CHR 0xA5]"

\<comment> \<open>checks passed\<close>
definition dg_sum_ok :: string where
  "dg_sum_ok =
     [CHR 0xE6, CHR 0xA3, CHR 0x80, CHR 0xE6, CHR 0x9F, CHR 0xA5,
      CHR 0xE9, CHR 0x80, CHR 0x9A, CHR 0xE8, CHR 0xBF, CHR 0x87]"

end
