(* ===== verification/Go_Diagnose.thy ===== *)
theory Go_Diagnose
  imports Go_Status Go_Text
begin

text \<open>
  The diagnosis of a node on the controller, \<open>pkg/api/diagnose.go\<close>: it reads the node, its
  last health report and its plan, and collects one result for each check.
\<close>

record diagnose_result =
  dr_Check :: string
  dr_Status :: string
  dr_Severity :: string
  dr_Detail :: string

record diagnosis =
  dn_NodeID :: string
  dn_Summary :: string
  dn_Results :: "diagnose_result list"
  dn_Timestamp :: int

text \<open>Every result has its status as its severity.\<close>

definition result :: "string \<Rightarrow> string \<Rightarrow> string \<Rightarrow> diagnose_result" where
  "result check status detail =
     \<lparr>dr_Check = check, dr_Status = status, dr_Severity = status, dr_Detail = detail\<rparr>"

text \<open>\<open>%.0f\<close>: to the nearest integer, and to the even one of two.\<close>

definition show_round :: "rat \<Rightarrow> string" where
  "show_round r = show_int (round_even r)"

text \<open>\<open>Duration.Seconds\<close>: whole seconds and the rest are added as \<open>float64\<close>.\<close>

definition duration_seconds :: "int \<Rightarrow> rat" where
  "duration_seconds d =
     round_float (of_int (d div 1000000000) + round_float (of_int (d mod 1000000000) / 1000000000))"

text \<open>\<open>time.Duration\<close> has 64 bits; five times a long interval wraps around.\<close>

definition staleThreshold :: "env \<Rightarrow> mem_store \<Rightarrow> int" where
  "staleThreshold e m =
     (let p = s_PingInterval (loadSettingsOrDefault m);
          interval = (if p \<noteq> [] then (case e_duration e p of Some d \<Rightarrow> if 0 < d then d else 3 * 1000000000
                                        | None \<Rightarrow> 3 * 1000000000)
                      else 3 * 1000000000);
          threshold = wrap64 (interval * 5)
      in if threshold < 15 * 1000000000 then 15 * 1000000000 else threshold)"

definition check_heartbeat :: "env \<Rightarrow> mem_store \<Rightarrow> health_report \<Rightarrow> diagnose_result" where
  "check_heartbeat e m h =
     (let age = e_now e - h_Timestamp h
      in if staleThreshold e m < age
         then result dg_heartbeat ''warn'' (dg_stale @ show_round (duration_seconds age) @ dg_stale_end)
         else result dg_heartbeat ''ok'' dg_fresh)"

definition check_endpoints :: "node \<Rightarrow> diagnose_result" where
  "check_endpoints n =
     (if n_Endpoints n = [] then result dg_endpoint ''warn'' dg_no_endpoint
      else result dg_endpoint ''ok'' (join '', '' (n_Endpoints n)))"

text \<open>
  The loop over the peers: the ones without a latency and the ones that lose everything.
  \<open>None\<close> is the panic of \<open>p.AllowedIPs[0]\<close> on an empty slice.
\<close>

fun probe_peers :: "health_report \<Rightarrow> peer list \<Rightarrow> (string list \<times> string list) option" where
  "probe_peers h [] = Some ([], [])"
| "probe_peers h (p # ps) =
     (case p_AllowedIPs p of
        [] \<Rightarrow> None
      | ip # _ \<Rightarrow> (case probe_peers h ps of
            None \<Rightarrow> None
          | Some (missing, blocked) \<Rightarrow>
              (case probe [(h_NodeID h, h)] (h_NodeID h) (ipWithoutMask ip) of
                 None \<Rightarrow> Some (p_ID p # missing, blocked)
               | Some (ms, loss, _) \<Rightarrow>
                   Some (missing, (if 100 \<le> loss then (p_ID p @ ''(loss='' @ show_round loss @ ''%)'') # blocked
                                   else blocked)))))"

definition check_peers :: "health_report \<Rightarrow> peer list \<Rightarrow> diagnose_result list option" where
  "check_peers h ps =
     (if ps = [] then Some [result dg_plan ''warn'' dg_no_plan]
      else map_option (\<lambda>(missing, blocked).
          (if blocked \<noteq> [] then [result dg_wg_firewall ''fail'' (dg_blocked @ join '', '' blocked)] else [])
          @ [if missing \<noteq> [] then result dg_wg_link ''warn'' (dg_missing @ join '', '' missing)
             else result dg_wg_link ''ok'' dg_wg_ok])
        (probe_peers h ps))"

definition check_frr :: "health_report \<Rightarrow> diagnose_result list" where
  "check_frr h =
     (let bad = map (\<lambda>(nbr, st). nbr @ ''='' @ st) (filter (\<lambda>(nbr, st). ToLower st \<noteq> ''established'') (h_FRRState h))
      in if h_FRRState h = [] then []
         else if bad \<noteq> [] then [result dg_frr ''warn'' (dg_frr_bad @ join ''; '' bad)]
         else [result dg_frr ''ok'' dg_frr_ok])"

definition level :: "string \<Rightarrow> nat" where
  "level s = (if s = ''fail'' then 3 else if s = ''warn'' then 2 else if s = ''ok'' then 1 else 0)"

definition raise_level :: "diagnose_result \<Rightarrow> nat \<Rightarrow> nat" where
  "raise_level r m = (if m < level (dr_Severity r) then level (dr_Severity r) else m)"

text \<open>The levels are different, so the order in which the map is walked does not matter.\<close>

definition highestSeverity :: "diagnose_result list \<Rightarrow> string" where
  "highestSeverity results =
     (let maxL = fold raise_level results 0
      in if maxL = 3 then dg_sum_fail else if maxL = 2 then dg_sum_warn else dg_sum_ok)"

definition diagnoseNode :: "env \<Rightarrow> string \<Rightarrow> mem_store \<Rightarrow> diagnosis option" where
  "diagnoseNode e nid m =
     (let answer = (\<lambda>summary results. \<lparr>dn_NodeID = nid, dn_Summary = summary, dn_Results = results,
                      dn_Timestamp = e_now e\<rparr>) in
      case GetNode nid m of
        None \<Rightarrow> Some (answer dg_no_node [result dg_node_exists ''fail'' dg_not_found])
      | Some n \<Rightarrow>
          (case find (\<lambda>h. h_NodeID h = nid) (ListHealth m) of
             None \<Rightarrow> Some (answer dg_no_report_summary [result dg_heartbeat ''fail'' dg_no_report])
           | Some h \<Rightarrow>
               map_option (\<lambda>links.
                   let results = [check_heartbeat e m h, check_endpoints n] @ links @ check_frr h
                   in answer (highestSeverity results) results)
                 (check_peers h (case GetPlan nid m of None \<Rightarrow> [] | Some p \<Rightarrow> pl_Peers p))))"

definition json_result :: "diagnose_result \<Rightarrow> jsval" where
  "json_result r = Obj [(''check'', Str (dr_Check r)), (''status'', Str (dr_Status r)),
     (''severity'', Str (dr_Severity r)), (''detail'', Str (dr_Detail r))]"

definition json_diagnosis :: "env \<Rightarrow> diagnosis \<Rightarrow> jsval" where
  "json_diagnosis e d = Obj [(''nodeId'', Str (dn_NodeID d)), (''summary'', Str (dn_Summary d)),
     (''results'', Arr (map json_result (dn_Results d))), (''timestamp'', Str (e_rfc3339 e (dn_Timestamp d)))]"

text \<open>A handler that panics gives no answer at all; status 0 stands for it.\<close>

definition no_answer :: response where
  "no_answer = \<lparr>rs_status = 0, rs_ctype = [], rs_text = [], rs_json = Inl (Exn ''SyntaxError'' [])\<rparr>"

definition diagnose_route :: handler where
  "diagnose_route e q rq c =
     guarded e rq c
       (if rq_method rq \<noteq> ''GET'' then (method_not_allowed, c)
        else
          (let nodeID = query_get q ''nodeId''
           in if nodeID = [] then (http_error ''nodeId is required'' 400, c)
              else (case diagnoseNode e nodeID (store c) of
                      Some d \<Rightarrow> (writeJSON (json_diagnosis e d), c)
                    | None \<Rightarrow> (no_answer, c))))"

section \<open>The results of a diagnosis\<close>

lemma fold_raise_level:
  "k \<le> fold raise_level rs k \<and> (\<forall>r\<in>set rs. level (dr_Severity r) \<le> fold raise_level rs k)
   \<and> (fold raise_level rs k = k \<or> (\<exists>r\<in>set rs. fold raise_level rs k = level (dr_Severity r)))"
proof (induction rs arbitrary: k)
  case (Cons r rs)
  have "k \<le> raise_level r k" "level (dr_Severity r) \<le> raise_level r k"
    "raise_level r k = k \<or> raise_level r k = level (dr_Severity r)"
    by (simp_all add: raise_level_def)
  with Cons.IH [of "raise_level r k"] show ?case by (auto intro: le_trans)
qed simp

lemma level_cases: "level s = 3 \<longleftrightarrow> s = ''fail''" "level s = 2 \<longleftrightarrow> s = ''warn''" "level s \<le> 3"
  by (simp_all add: level_def)

text \<open>The summary is that of the worst result.\<close>

lemma highestSeverity_worst:
  "highestSeverity rs =
     (if \<exists>r\<in>set rs. dr_Severity r = ''fail'' then dg_sum_fail
      else if \<exists>r\<in>set rs. dr_Severity r = ''warn'' then dg_sum_warn else dg_sum_ok)"
proof -
  obtain m where m: "m = fold raise_level rs 0" "\<forall>r\<in>set rs. level (dr_Severity r) \<le> m"
    "m = 0 \<or> (\<exists>r\<in>set rs. m = level (dr_Severity r))"
    using fold_raise_level [where k = 0 and rs = rs] by blast
  have three: "m = 3 \<longleftrightarrow> (\<exists>r\<in>set rs. dr_Severity r = ''fail'')"
  proof
    assume "m = 3" with m(3) level_cases(1) show "\<exists>r\<in>set rs. dr_Severity r = ''fail''" by (metis zero_neq_numeral)
  next
    assume "\<exists>r\<in>set rs. dr_Severity r = ''fail''"
    then have "3 \<le> m" using m(2) level_cases(1) by metis
    moreover have "m \<le> 3" using m(3) level_cases(3) by auto
    ultimately show "m = 3" by simp
  qed
  have two: "m = 2 \<longleftrightarrow> (\<exists>r\<in>set rs. dr_Severity r = ''warn'')" if "m \<noteq> 3"
  proof
    assume "m = 2" with m(3) level_cases(2) show "\<exists>r\<in>set rs. dr_Severity r = ''warn''" by (metis zero_neq_numeral)
  next
    assume "\<exists>r\<in>set rs. dr_Severity r = ''warn''"
    then have "2 \<le> m" using m(2) level_cases(2) by metis
    moreover have "m \<le> 3" using m(3) level_cases(3) by auto
    ultimately show "m = 2" using that by simp
  qed
  show ?thesis using m(1) three two by (simp add: highestSeverity_def Let_def)
qed

end
