(* ===== verification/Go_Auth.thy ===== *)
theory Go_Auth
  imports Go_Policy_Api
begin

text \<open>
  Users and tokens: \<open>handleRegister\<close> and \<open>handleLogin\<close> of \<open>pkg/api/auth.go\<close> over
  the user table.  bcrypt, the signing of tokens and the database are third-party code: what
  they answer is in the environment.  Handlers run at the same time, and the table is read and
  written in two statements, so both halves of a registration are operations of their own.
\<close>

record auth_req =
  ar_Username :: string
  ar_Password :: string

definition go_auth_request :: "jsval \<Rightarrow> auth_req option" where
  "go_auth_request v = do {
     ps \<leftarrow> go_obj v;
     user \<leftarrow> go_str (js_lookup ''username'' ps);
     pass \<leftarrow> go_str (js_lookup ''password'' ps);
     if user = [] \<or> pass = [] then None else Some \<lparr>ar_Username = user, ar_Password = pass\<rparr>
   }"

definition count_users :: "controller \<Rightarrow> nat" where
  "count_users c = length (users c)"

text \<open>The error of \<open>GenerateFromPassword\<close> is ignored; it then gives no hash.\<close>

definition new_user :: "env \<Rightarrow> auth_req \<Rightarrow> controller \<Rightarrow> user" where
  "new_user e r c = \<lparr>u_ID = Suc (length (users c)), u_Username = ar_Username r,
     u_PasswordHash = (case e_hash e (ar_Password r) of Some h \<Rightarrow> h | None \<Rightarrow> []), u_IsAdmin = True\<rparr>"

definition json_token :: "string \<Rightarrow> jsval" where
  "json_token t = Obj [(''token'', Str t)]"

definition create_user :: "env \<Rightarrow> auth_req \<Rightarrow> controller \<Rightarrow> response \<times> controller" where
  "create_user e r c =
     (let u = new_user e r c in
      if \<not> e_insertable e (users c) u then (http_error ''failed to create user'' 500, c)
      else (writeJSON (json_token (e_sign e (u_ID u) (u_Username u))), c\<lparr>users := users c @ [u]\<rparr>))"

definition handleRegister :: handler where
  "handleRegister e q rq c =
     (if rq_method rq \<noteq> ''POST'' then (method_not_allowed, c)
      else (case body go_auth_request rq of
              None \<Rightarrow> (http_error ''invalid payload'' 400, c)
            | Some r \<Rightarrow>
                (if 0 < count_users c then (http_error ''registration closed'' 403, c)
                 else create_user e r c)))"

definition find_user :: "env \<Rightarrow> string \<Rightarrow> controller \<Rightarrow> user option" where
  "find_user e name c = find (\<lambda>u. e_same_name e (u_Username u) name) (users c)"

definition handleLogin :: handler where
  "handleLogin e q rq c =
     (if rq_method rq \<noteq> ''POST'' then (method_not_allowed, c)
      else (case body go_auth_request rq of
              None \<Rightarrow> (http_error ''invalid payload'' 400, c)
            | Some r \<Rightarrow>
                (case find_user e (ar_Username r) c of
                   None \<Rightarrow> (http_error ''invalid credentials'' 401, c)
                 | Some u \<Rightarrow>
                     (if \<not> e_matches e (u_PasswordHash u) (ar_Password r)
                      then (http_error ''invalid credentials'' 401, c)
                      else (writeJSON (json_token (e_sign e (u_ID u) (u_Username u))), c)))))"

definition version_route :: handler where
  "version_route e q rq c = (writeJSON (Obj [(''version'', Number 0)]), c)"

end
