(* ===== verification/Go_Server.thy ===== *)
theory Go_Server
  imports Go_Diagnose Go_Auth
begin

text \<open>
  The controller as the backend of the front end: the routes \<open>RegisterRoutes\<close> puts on
  the mux, and \<open>fetch\<close> against it.  What else a program puts on the mux (the files of
  the page, the WebSocket endpoints) is the argument \<open>others\<close>; a path with no route
  gives the banner of the controller.
\<close>

definition routes :: "(string \<times> handler) list" where
  "routes = [
     (''/api/v1/policy'', policy_route),
     (''/api/v1/policy/status'', status_route),
     (''/api/v1/policy/diag'', diag_route),
     (''/api/v1/policy/command'', command_route),
     (''/api/v1/tasks'', tasks_route),
     (''/api/v1/nodes/prepare'', prepare_route),
     (''/api/v1/settings/geoip'', geoip_route),
     (''/api/v1/settings/diag'', diag_config_route),
     (''/api/v1/nodes'', nodes_route),
     (''/api/v1/nodes/register'', register_route),
     (''/api/v1/health'', health_route),
     (''/api/v1/health/history'', health_history_route),
     (''/api/v1/audit'', audit_route),
     (''/api/v1/plan'', plan_route),
     (''/api/v1/plan/history'', plan_history_route),
     (''/api/v1/plan/rollback'', rollback_route),
     (''/api/v1/status/mesh'', mesh_route),
     (''/api/v1/diagnose'', diagnose_route),
     (''/api/v1/info'', info_route),
     (''/healthz'', healthz_route),
     (''/api/v1/auth/register'', handleRegister),
     (''/api/v1/auth/login'', handleLogin),
     (''/api/v1/version'', version_route)]"

definition banner :: response where
  "banner = \<lparr>rs_status = 200, rs_ctype = ''text/plain; charset=utf-8'',
     rs_text = ''peer-wan controller'', rs_json = Inl (Exn ''SyntaxError'' [])\<rparr>"

definition serve :: "(string \<Rightarrow> handler option) \<Rightarrow> env \<Rightarrow> string \<Rightarrow> request \<Rightarrow> controller \<Rightarrow> response \<times> controller" where
  "serve others e target rq c =
     (let (path, q) = cut (CHR ''?'') target
      in case map_of routes path of
           Some h \<Rightarrow> h e q rq c
         | None \<Rightarrow> (case others path of Some h \<Rightarrow> h e q rq c | None \<Rightarrow> (banner, c)))"

text \<open>
  A world is the controller and the number of requests it has served; \<open>envs\<close> gives the
  environment of each.  A URL of another origin is not answered.
\<close>

type_synonym world = "controller \<times> nat"

definition controller_fetch :: "(string \<Rightarrow> handler option) \<Rightarrow> (nat \<Rightarrow> env) \<Rightarrow> string \<Rightarrow> world fetch" where
  "controller_fetch others envs origin rq w =
     (if prefix origin (rq_url rq) then
        (let (r, c) = serve others (envs (snd w)) (drop (length origin) (rq_url rq)) rq (fst w)
         in (Inr r, (c, Suc (snd w))))
      else (Inl (Exn ''TypeError'' ''Failed to fetch''), w))"

section \<open>The front end's calls against the controller\<close>

text \<open>\<open>logged_in b envs origin\<close>: the browser talks to this controller with a token it accepts.\<close>

definition logged_in :: "browser \<Rightarrow> (nat \<Rightarrow> env) \<Rightarrow> string \<Rightarrow> bool" where
  "logged_in b envs origin \<longleftrightarrow> strip_slashes (storage_base b) = origin
     \<and> storage_token b \<noteq> [] \<and> (\<forall>k. e_jwt_ok (envs k) (storage_token b))"

lemma api_authFuncJWT:
  assumes "logged_in b envs origin" and "opt_base opts = []"
  shows "authFuncJWT (envs k) (api_request b path opts)"
  using assms api_authorization [of b path opts]
  by (simp add: logged_in_def authFuncJWT_def header_def)

lemma guarded_ok: "authFuncJWT e rq \<Longrightarrow> guarded e rq c r = r"
  by (simp add: guarded_def)

lemma cut_path: "CHR ''?'' \<notin> set path \<Longrightarrow> cut (CHR ''?'') (path @ CHR ''?'' # q) = (path, q)"
  by (rule cut_append)

lemma cut_none: "c \<notin> set path \<Longrightarrow> cut c path = (path, [])"
  by (induction path) auto

text \<open>What a call of \<open>api\<close> does when its path has a route.\<close>

lemma api_controller:
  assumes "logged_in b envs origin" and "opt_base opts = []"
    and "cut (CHR ''?'') path = (p, q)" and "map_of routes p = Some h"
    and "h (envs k) q (api_request b path opts) c = (r, c')"
  shows "api b (controller_fetch others envs origin) path opts (c, k) = (api_result path r, (c', Suc k))"
proof -
  have "rq_url (api_request b path opts) = origin @ path"
    using assms(1,2) by (simp add: api_url logged_in_def)
  then show ?thesis
    using assms(3-5) by (simp add: api_def controller_fetch_def serve_def)
qed

section \<open>What every request keeps\<close>

text \<open>
  A predicate on the store that every write keeps is kept by every request.  The plans a
  handler saves come from \<open>BuildPeerPlan\<close>, so a predicate may ask that their peers have
  networks.
\<close>

definition keeps :: "(mem_store \<Rightarrow> bool) \<Rightarrow> handler \<Rightarrow> bool" where
  "keeps J h \<longleftrightarrow> (\<forall>e q rq c. J (store c) \<longrightarrow> J (store (snd (h e q rq c))))"

lemma keepsI: "(\<And>e q rq c. J (store c) \<Longrightarrow> J (store (snd (h e q rq c)))) \<Longrightarrow> keeps J h"
  by (simp add: keeps_def)

definition routed :: "peer \<Rightarrow> bool" where
  "routed p \<longleftrightarrow> p_AllowedIPs p \<noteq> []"

lemma eligible_routed: "eligible nid hs n \<Longrightarrow> routed (peer_of n)"
proof -
  assume "eligible nid hs n"
  then have "set (allowed_ips n) \<noteq> {}" by (auto simp: eligible_def set_allowed_ips)
  then show ?thesis by (auto simp: routed_def peer_of_def)
qed

lemma BuildPeerPlan_routed: "p \<in> set (BuildPeerPlan nid ns hs) \<Longrightarrow> routed p"
  by (auto simp: set_BuildPeerPlan eligible_routed)

lemma fold_hub_send [simp]: "store (fold (\<lambda>k. hub_send k (f k)) ks c) = store c"
  by (induction ks arbitrary: c) simp_all

lemma buildNodeStatuses_store: "store (snd (buildNodeStatuses e ns c)) = store c"
proof (induction ns arbitrary: c)
  case (Cons n ns)
  have "store (snd (resolveGeoForNode e n c)) = store c"
    by (auto simp: resolveGeoForNode_def resolveGeo_def Let_def split: option.split)
  with Cons.IH [of "snd (resolveGeoForNode e n c)"] show ?case by (simp add: case_prod_unfold Let_def)
qed simp

locale store_keeper =
  fixes J :: "mem_store \<Rightarrow> bool"
  assumes upsert: "J m \<Longrightarrow> J (snd (UpsertNode n m))"
    and health: "J m \<Longrightarrow> J (SaveHealth now h m)"
    and audit: "J m \<Longrightarrow> J (AppendAudit a m)"
    and status: "J m \<Longrightarrow> J (SavePolicyStatus now l m)"
    and diag: "J m \<Longrightarrow> J (SavePolicyDiag now d m)"
    and task: "J m \<Longrightarrow> J (SaveTask now t m)"
    and global: "J m \<Longrightarrow> J (SetGlobalPlanVersion v m)"
    and settings: "J m \<Longrightarrow> J (UpdateSettings s m)"
    and policy: "J m \<Longrightarrow> UpdatePolicy nid egress rules dflt bypass fallback m = Some m' \<Longrightarrow> J m'"
    and plan: "J m \<Longrightarrow> \<forall>q\<in>set (pl_Peers p). routed q \<Longrightarrow> J (SavePlan p m)"
    and rollback: "J m \<Longrightarrow> RollbackPlan nid v m = Some (p, m') \<Longrightarrow> J m'"
begin

lemmas writes = upsert health audit status diag task global settings

lemma upserted: "J m \<Longrightarrow> UpsertNode n m = (n', m') \<Longrightarrow> J m'"
  using upsert [of m n] by simp

lemma guarded_keeps: "J (store c) \<Longrightarrow> J (store (snd r)) \<Longrightarrow> J (store (snd (guarded e rq c r)))"
  by (simp add: guarded_def)

lemma policy_apply_keeps: "J (store c) \<Longrightarrow> J (store (policy_apply e nid c))"
  by (auto simp: policy_apply_def Let_def intro: writes)

lemma policy_post_keeps: "J (store c) \<Longrightarrow> J (store (snd (policy_post e rq c)))"
  by (auto simp: policy_post_def Let_def intro!: policy_apply_keeps dest: policy split: option.split)

lemma policy_routes_keep: "keeps J policy_route" "keeps J command_route" "keeps J status_route"
    "keeps J diag_route" "keeps J tasks_route"
  by (auto simp: policy_route_def policy_get_def command_route_def status_route_def diag_route_def
      tasks_route_def task_post_def Let_def
      intro!: keepsI guarded_keeps policy_post_keeps writes split: option.splits)

lemma settings_routes_keep: "keeps J geoip_route" "keeps J diag_config_route"
  by (auto simp: geoip_route_def diag_config_route_def Let_def intro!: keepsI guarded_keeps writes
      split: option.splits)

lemma prepare_keeps: "keeps J prepare_route"
  by (rule keepsI) (auto simp: prepare_route_def Let_def intro!: guarded_keeps writes split: option.splits)

lemma savePlan_keeps:
  "J (store c) \<Longrightarrow> \<forall>q\<in>set ps. routed q \<Longrightarrow> J (store (savePlanWithRules e n ps rs c))"
  by (auto simp: savePlanWithRules_def Let_def intro!: writes plan)

lemma savePlan_built: "J (store c) \<Longrightarrow> J (store (savePlanWithRules e n (BuildPeerPlan nid ns hs) rs c))"
  using BuildPeerPlan_routed by (blast intro: savePlan_keeps)

lemma recompute_keeps: "J (store c) \<Longrightarrow> J (store (RecomputeAllPlans e c))"
proof -
  have "J (store c) \<Longrightarrow>
      J (store (fold (\<lambda>n. savePlanWithRules e n (BuildPeerPlan (n_ID n) ms hs) (g n)) ns c))" for ms hs g ns
    by (induction ns arbitrary: c) (simp_all add: savePlan_built)
  then show "J (store c) \<Longrightarrow> ?thesis" by (simp add: RecomputeAllPlans_def Let_def)
qed

lemma register_save_keeps: "J (store c) \<Longrightarrow> J (store (snd (register_save e r x c)))"
  by (auto simp: register_save_def Let_def intro!: recompute_keeps writes dest: upserted
      split: option.splits prod.splits if_splits)

lemma register_keeps: "keeps J register_route"
  by (rule keepsI) (auto simp: register_route_def Let_def intro!: register_save_keeps split: option.splits)

lemma reads_keep: "keeps J nodes_route" "keeps J health_history_route" "keeps J audit_route"
    "keeps J plan_history_route" "keeps J info_route" "keeps J healthz_route" "keeps J version_route"
    "keeps J diagnose_route"
  by (auto simp: nodes_route_def health_history_route_def audit_route_def plan_history_route_def
      info_route_def healthz_route_def version_route_def diagnose_route_def
      Let_def intro!: keepsI guarded_keeps split: option.split)

lemma mesh_keeps: "keeps J mesh_route"
  by (rule keepsI) (simp add: mesh_route_def case_prod_unfold Let_def buildNodeStatuses_store)

lemma auth_keeps: "keeps J handleRegister" "keeps J handleLogin"
  by (auto simp: handleRegister_def handleLogin_def create_user_def Let_def intro!: keepsI split: option.split)

lemma health_keeps: "keeps J health_route"
  by (rule keepsI) (auto simp: health_route_def health_post_def Let_def intro!: savePlan_built writes
      split: option.splits)

lemma plan_keeps: "keeps J plan_route"
  by (rule keepsI) (auto simp: plan_route_def plan_answer_def Let_def intro!: savePlan_built writes)

lemma rollback_keeps: "keeps J rollback_route"
  by (rule keepsI) (auto simp: rollback_route_def Let_def intro!: guarded_keeps writes dest: rollback
      split: option.splits)

lemma all_keep: "\<forall>h\<in>set (map snd routes). keeps J h"
  unfolding routes_def
  by (simp only: list.map snd_conv list.set ball_simps simp_thms policy_routes_keep settings_routes_keep
      prepare_keeps register_keeps reads_keep mesh_keeps auth_keeps health_keeps plan_keeps rollback_keeps)

lemma routes_keep: "map_of routes p = Some h \<Longrightarrow> keeps J h"
  using all_keep by (force dest: map_of_SomeD)

lemma serve_keeps:
  assumes "\<forall>p h. others p = Some h \<longrightarrow> keeps J h" and "J (store c)"
  shows "J (store (snd (serve others e target rq c)))"
proof -
  obtain path q where t: "cut (CHR ''?'') target = (path, q)" by (cases "cut (CHR ''?'') target")
  show ?thesis
  proof (cases "map_of routes path")
    case None
    then show ?thesis using assms t by (auto simp: serve_def keeps_def split: option.splits)
  next
    case (Some h)
    with routes_keep assms(2) t show ?thesis by (auto simp: serve_def keeps_def)
  qed
qed

lemma fetch_keeps:
  assumes "\<forall>p h. others p = Some h \<longrightarrow> keeps J h" and "J (store (fst w))"
  shows "J (store (fst (snd (controller_fetch others envs origin rq w))))"
  using serve_keeps [where c = "fst w" and e = "envs (snd w)" and rq = rq
      and target = "drop (length origin) (rq_url rq)", OF assms] assms(2)
  by (simp add: controller_fetch_def case_prod_unfold Let_def)

lemma api_keeps:
  assumes "\<forall>p h. others p = Some h \<longrightarrow> keeps J h" and "J (store (fst w))"
  shows "J (store (fst (snd (api b (controller_fetch others envs origin) path opts w))))"
  using fetch_keeps [where w = w and envs = envs and origin = origin, OF assms]
  by (simp add: api_def case_prod_unfold Let_def)

end

lemma store_op_inv [intro, store_simps]:
  assumes "store_inv m"
  shows "store_inv (snd (UpsertNode n m))" "store_inv (SaveHealth now h m)"
    "store_inv (AppendAudit a m)" "store_inv (SavePolicyStatus now l m)"
    "store_inv (SavePolicyDiag now d m)" "store_inv (SaveTask now t m)"
    "store_inv (SavePlan p m)" "store_inv (SetGlobalPlanVersion v m)"
    "store_inv (UpdateSettings s m)"
  using assms
    store_apply_inv [of m "Op_UpsertNode n"] store_apply_inv [of m "Op_SaveHealth now h"]
    store_apply_inv [of m "Op_AppendAudit a"] store_apply_inv [of m "Op_SavePolicyStatus now l"]
    store_apply_inv [of m "Op_SavePolicyDiag now d"] store_apply_inv [of m "Op_SaveTask now t"]
    store_apply_inv [of m "Op_SavePlan p"] store_apply_inv [of m "Op_SetGlobalPlanVersion v"]
    store_apply_inv [of m "Op_UpdateSettings s"]
  by simp_all

lemma UpdatePolicy_inv: "store_inv m \<Longrightarrow> UpdatePolicy i g r d b x m = Some m' \<Longrightarrow> store_inv m'"
  using store_apply_inv [of m "Op_UpdatePolicy i g r d b x"] by simp

lemma RollbackPlan_inv: "store_inv m \<Longrightarrow> RollbackPlan i v m = Some (p, m') \<Longrightarrow> store_inv m'"
  using store_apply_inv [of m "Op_RollbackPlan i v"] by simp

interpretation sound: store_keeper store_inv
  by unfold_locales (auto dest: UpdatePolicy_inv RollbackPlan_inv)

section \<open>Stored plans\<close>

text \<open>No plan the store holds has a peer without networks.\<close>

definition plan_routed :: "plan \<Rightarrow> bool" where
  "plan_routed p \<longleftrightarrow> (\<forall>q\<in>set (pl_Peers p). routed q)"

definition plans_routed :: "mem_store \<Rightarrow> bool" where
  "plans_routed m \<longleftrightarrow> (\<forall>k p. GetPlan k m = Some p \<longrightarrow> plan_routed p)
     \<and> (\<forall>k. \<forall>p\<in>set (slice_of (history m) k). plan_routed p)"

lemma plans_routed_frame:
  "plans m' = plans m \<Longrightarrow> history m' = history m \<Longrightarrow> plans_routed m' = plans_routed m"
  by (simp add: plans_routed_def GetPlan_def)

lemma SavePlan_routed:
  assumes "plans_routed m" and "plan_routed p"
  shows "plans_routed (SavePlan p m)"
proof -
  let ?h = "slice_of (history m) (pl_NodeID p) @ [p]"
  let ?h' = "if 20 < length ?h then drop (length ?h - 20) ?h else ?h"
  have "set ?h' \<subseteq> set ?h" using set_drop_subset [of _ ?h] by simp
  then have "\<forall>x\<in>set ?h'. plan_routed x" using assms by (auto simp: plans_routed_def)
  moreover have "GetPlan k (SavePlan p m) = (if k = pl_NodeID p then Some p else GetPlan k m)" for k
    by (simp add: SavePlan_def GetPlan_def Let_def)
  ultimately show ?thesis
    using assms by (auto simp: plans_routed_def SavePlan_def Let_def simp del: length_append set_append)
qed

lemma RollbackPlan_routed:
  assumes "plans_routed m" and "RollbackPlan nid v m = Some (p, m')"
  shows "plans_routed m'"
proof -
  have p: "find (\<lambda>p. pl_Version p = v) (slice_of (history m) nid) = Some p"
    and m': "m' = m\<lparr>plans := AList.update nid p (plans m), globalPlanVersion := v\<rparr>"
    using assms(2) by (auto simp: RollbackPlan_def split: option.splits)
  have "p \<in> set (slice_of (history m) nid)" using p by (auto simp: find_Some_iff)
  with assms(1) have "plan_routed p" by (auto simp: plans_routed_def)
  moreover have "GetPlan k m' = (if k = nid then Some p else GetPlan k m)" for k
    by (simp add: m' GetPlan_def)
  ultimately show ?thesis using assms(1) by (auto simp: plans_routed_def m')
qed

interpretation routing: store_keeper plans_routed
  by unfold_locales
    (simp_all add: plans_routed_frame [OF plans_frame(1,2)] plans_routed_frame [OF plans_frame(3,4)]
      plans_routed_frame [OF plans_frame(7,8)] plans_routed_frame [OF plans_frame(9,10)]
      plans_routed_frame [OF plans_frame(11,12)] plans_routed_frame [OF plans_frame(13,14)]
      plans_routed_frame [OF plans_frame(15,16)] plans_routed_frame [OF plans_frame(17,18)]
      SavePlan_routed plan_routed_def RollbackPlan_routed
      plans_routed_frame [OF UpdatePolicy_frame(2,3)])

lemma plans_routed_init: "plans_routed NewMemoryStore"
  by (simp add: plans_routed_def NewMemoryStore_def GetPlan_def)

end
