(* ===== verification/Example.thy ===== *)
theory Example
  imports Go_Server
begin

text \<open>
  One concrete installation: a browser signed in at a controller that knows the nodes
  \<open>n1\<close>, \<open>n2\<close> and \<open>n3\<close>.  The theorems about the whole system are applied to it.
\<close>

definition ex_env :: env where
  "ex_env = \<lparr>e_now = 1000000000000, e_uuid = ''task-1'', e_keys = Some (''priv'', ''pub''),
     e_jwt_ok = (\<lambda>t. t = ''jwt''), e_sha256 = (\<lambda>s. s), e_rfc3339 = (\<lambda>t. show_int t),
     e_parse_time = (\<lambda>s. if all_digits s then Some (int (digits_val s)) else None),
     e_duration = (\<lambda>s. if s = ''3s'' then Some (3 * 1000000000) else None), e_build = ''dev'',
     e_publicAddr = ''http://c'', e_host = ''c'', e_tls = False,
     e_is_ip = (\<lambda>_. True), e_locate = (\<lambda>_. None),
     e_hash = (\<lambda>p. if length p \<le> 72 then Some (''#'' @ p) else None), e_matches = (\<lambda>h p. h = ''#'' @ p),
     e_same_name = (=), e_insertable = (\<lambda>_ _. True), e_sign = (\<lambda>_ _. ''jwt''),
     e_storeType = ''memory'', e_consulAddr = ''127.0.0.1:8500'', e_mysql = ''ok''\<rparr>"

definition ex_browser :: browser where
  "ex_browser = \<lparr>local_storage = [(''peerwan_base'', ''http://c/''), (''peerwan_token'', ''jwt'')],
     win_origin = ''http://c''\<rparr>"

definition ex_node :: "string \<Rightarrow> node" where
  "ex_node nid = node_zero\<lparr>n_ID := nid, n_PublicKey := ''pub'', n_CIDRs := [''10.20.0.0/16''],
     n_Endpoints := [''198.51.100.1:8082'']\<rparr>"

definition ex_store :: mem_store where
  "ex_store = fold store_apply
     [Op_UpsertNode (ex_node ''n1''), Op_UpsertNode (ex_node ''n2''), Op_UpsertNode (ex_node ''n3'')]
     NewMemoryStore"

definition ex_world :: world where
  "ex_world = (\<lparr>store = ex_store, planVersion = 5, agents = [''n1''], sent = [], taskUpd = [],
     geoCache = [], users = []\<rparr>, 0)"

abbreviation ex_fetch :: "world fetch" where
  "ex_fetch \<equiv> controller_fetch (\<lambda>_. None) (\<lambda>_. ex_env) ''http://c''"

lemma ex_inv: "store_inv (store (fst ex_world))"
  by (simp add: ex_world_def ex_store_def store_run_inv store_inv_init del: fold.simps)

abbreviation ex_ctl :: controller where
  "ex_ctl \<equiv> fst ex_world"

abbreviation ex_headers :: "(string \<times> string) list" where
  "ex_headers \<equiv> [(''Authorization'', ''Bearer jwt'')]"

lemma ex_jwt: "authFuncJWT ex_env \<lparr>rq_url = u, rq_method = m, rq_headers = ex_headers, rq_body = d\<rparr>"
  by (simp add: authFuncJWT_def header_def ex_env_def)

lemma ex_nodes:
  "GetNode k ex_store = (if k \<in> {''n1'', ''n2'', ''n3''}
     then Some ((ex_node k)\<lparr>n_Version := versionString 1, n_ConfigVersion := versionString 1\<rparr>) else None)"
  by (simp add: ex_store_def UpsertNode_def ex_node_def node_zero_def GetNode_def NewMemoryStore_def Let_def)

lemma ex_logged_in: "logged_in ex_browser (\<lambda>_. ex_env) ''http://c''"
  by (simp add: logged_in_def ex_browser_def ex_env_def storage_defs str_or_def strip_slashes_def)

end
