(* ===== verification/Policy_Flow.thy ===== *)
theory Policy_Flow
  imports Js_Policy Example
begin

text \<open>
  The policy drawer and the controller together: the contract of \<open>/api/v1/policy\<close> as the
  drawer relies on it, the drawer's lemmas under that contract, and the model of the
  controller as a provider of it.
\<close>

section \<open>What the drawer sends and shows\<close>

text \<open>The stored policy of a node, as the request that would store it.\<close>

definition policy_of :: "string \<Rightarrow> mem_store \<Rightarrow> policy_request" where
  "policy_of nid m =
     (let n = (case GetNode nid m of Some n \<Rightarrow> n | None \<Rightarrow> node_zero)
      in \<lparr>q_NodeID = nid, q_EgressPeer = n_EgressPeerID n, q_PolicyRules = n_PolicyRules n,
          q_DefaultRoute = n_DefaultRoute n, q_BypassCIDRs = n_BypassCIDRs n,
          q_DefaultRouteNextHop = n_DefaultRouteNextHop n\<rparr>)"

definition answer :: "policy_request \<Rightarrow> jsval" where
  "answer q = Obj [(''egressPeerId'', Str (q_EgressPeer q)),
     (''policyRules'', js_list json_rule (q_PolicyRules q)),
     (''defaultRoute'', Boolean (q_DefaultRoute q)),
     (''bypassCidrs'', js_list Str (q_BypassCIDRs q)),
     (''defaultRouteNextHop'', Str (q_DefaultRouteNextHop q))]"

definition sends :: "string \<Rightarrow> drawer \<Rightarrow> policy_request option" where
  "sends nid s =
     (case submit_payload nid s of Inr v \<Rightarrow> go_policy_request (stringify v) | Inl e \<Rightarrow> None)"

definition acceptable :: "policy_request \<Rightarrow> bool" where
  "acceptable q \<longleftrightarrow> q_PolicyRules q = [] \<or> list_ex Validate (map prepare_rule (q_PolicyRules q))"

definition accepted :: "policy_request \<Rightarrow> policy_request" where
  "accepted q = q\<lparr>q_PolicyRules := map prepare_rule (q_PolicyRules q)\<rparr>"

text \<open>The drawer shows a policy: its rules and its form hold it.\<close>

definition shows_policy :: "policy_request \<Rightarrow> drawer \<Rightarrow> bool" where
  "shows_policy q s \<longleftrightarrow>
     pd_rules s = Arr (map json_rule (q_PolicyRules q)) \<and>
     js_lookup ''egressPeerId'' (pd_form s) = Str (q_EgressPeer q) \<and>
     js_lookup ''defaultRoute'' (pd_form s) = Boolean (q_DefaultRoute q) \<and>
     js_lookup ''bypassCidrs'' (pd_form s) = Str (join '','' (q_BypassCIDRs q)) \<and>
     js_lookup ''defaultRouteNextHop'' (pd_form s) =
       (if q_DefaultRouteNextHop q = [] then Undef else Str (q_DefaultRouteNextHop q))"

lemma prepare_rule_idem [simp]: "prepare_rule (prepare_rule r) = prepare_rule r"
  by (simp add: prepare_rule_def Let_def)

lemma accepted_idem [simp]: "accepted (accepted q) = accepted q"
  by (simp add: accepted_def comp_def)

lemma acceptable_accepted [simp]: "acceptable (accepted q) \<longleftrightarrow> acceptable q"
  by (simp add: acceptable_def accepted_def comp_def)

lemma js_or_js_list [simp]: "js_or (js_list f xs) (Arr []) = Arr (map f xs)"
  by (simp add: js_list_def)

lemma load_values_answer:
  "load_values (answer q) =
     Inr ([(''egressPeerId'', Str (q_EgressPeer q)), (''defaultRoute'', Boolean (q_DefaultRoute q)),
           (''bypassCidrs'', Str (join '','' (q_BypassCIDRs q))),
           (''defaultRouteNextHop'', js_or (Str (q_DefaultRouteNextHop q)) Undef)],
          Arr (map json_rule (q_PolicyRules q)))"
  by (simp add: load_values_def answer_def js_bool_def)

lemma shows_load_done: "shows_policy q (load_done (Inr (answer q)) s)"
  by (simp add: shows_policy_def load_done_def load_values_answer setFieldsValue_def)

text \<open>Submitting what is shown sends it back.\<close>

lemma sends_shown:
  assumes "shows_policy q s" and "clean_items (q_BypassCIDRs q)"
  shows "sends (q_NodeID q) s = Some q"
proof -
  have "js_split_trim (js_lookup ''bypassCidrs'' (pd_form s)) = Inr (q_BypassCIDRs q)"
    using assms by (simp add: shows_policy_def split_trim_join)
  then show ?thesis
    using assms(1)
    by (cases q) (auto simp: sends_def submit_payload_def shows_policy_def go_policy_request_def
        js_bool_def Let_def comp_def)
qed

text \<open>What a filled-in form and decodable rules send.\<close>

lemma sends_form:
  assumes "go_list go_rule (stringify (pd_rules s)) = Some rs"
    and "js_lookup ''egressPeerId'' (pd_form s) = Str e"
    and "js_lookup ''defaultRoute'' (pd_form s) = Boolean d"
    and "js_lookup ''bypassCidrs'' (pd_form s) = Str bp"
    and "js_lookup ''defaultRouteNextHop'' (pd_form s) = Str h"
  shows "sends nid s = Some \<lparr>q_NodeID = nid, q_EgressPeer = e, q_PolicyRules = rs,
    q_DefaultRoute = d, q_BypassCIDRs = split_trim bp, q_DefaultRouteNextHop = h\<rparr>"
proof -
  have "pd_rules s \<noteq> Undef \<Longrightarrow> ?thesis"
    using assms by (simp add: sends_def submit_payload_def go_policy_request_def js_bool_def Let_def comp_def)
  moreover have "pd_rules s = Undef \<Longrightarrow> ?thesis"
    using assms by (simp add: sends_def submit_payload_def go_policy_request_def js_bool_def Let_def comp_def)
  ultimately show ?thesis by blast
qed

section \<open>The contract\<close>

locale policy_backend =
  fixes b :: browser
    and fetch :: "'w fetch"
    and known :: "string \<Rightarrow> 'w \<Rightarrow> bool"
    and policy_at :: "string \<Rightarrow> 'w \<Rightarrow> policy_request"
  assumes node_id: "q_NodeID (policy_at nid w) = nid"
    and get_policy: "known nid w \<Longrightarrow>
      \<exists>w'. api b fetch (policy_path nid) get_options w = (Inr (answer (policy_at nid w)), w')
        \<and> (\<forall>k. known k w' = known k w) \<and> (\<forall>k. policy_at k w' = policy_at k w)"
    and post_policy: "known (q_NodeID q) w \<Longrightarrow> go_policy_request (stringify v) = Some q \<Longrightarrow> acceptable q \<Longrightarrow>
      \<exists>x w'. api b fetch ''/api/v1/policy'' (post_json v) w = (Inr x, w')
        \<and> (\<forall>k. known k w' = known k w)
        \<and> (\<forall>k. policy_at k w' = (if k = q_NodeID q then accepted q else policy_at k w))"
    and post_rejected: "known (q_NodeID q) w \<Longrightarrow> go_policy_request (stringify v) = Some q \<Longrightarrow> \<not> acceptable q \<Longrightarrow>
      \<exists>e w'. api b fetch ''/api/v1/policy'' (post_json v) w = (Inl e, w')
        \<and> (\<forall>k. known k w' = known k w) \<and> (\<forall>k. policy_at k w' = policy_at k w)"
begin

lemma load:
  assumes "known nid w" and "drawer_load b fetch nid s w = (s', w')"
  shows "shows_policy (policy_at nid w) s' \<and> pd_toasts s' = pd_toasts s
    \<and> known k w' = known k w \<and> policy_at k w' = policy_at k w"
  using get_policy [OF assms(1)] assms(2) shows_load_done [of "policy_at nid w" s]
  by (auto simp: drawer_load_def load_done_def load_values_answer setFieldsValue_def)

lemma sends_payload:
  assumes "sends nid s = Some q"
  obtains v where "submit_payload nid s = Inr v" "go_policy_request (stringify v) = Some q"
  using assms that by (auto simp: sends_def split: sum.splits)

lemma sends_node:
  assumes "sends nid s = Some q"
  shows "q_NodeID q = nid"
  using assms
  by (auto simp: sends_def submit_payload_def go_policy_request_def Let_def bind_eq_Some_conv
      sbind_def split: sum.splits)

lemma submit:
  assumes "known nid w" and "sends nid s = Some q" and "acceptable q"
    and "drawer_submit b fetch nid s w = (s', w')"
  shows "s' = pd_toast (Success msg_policy_submitted) s \<and> known k w' = known k w
    \<and> policy_at k w' = (if k = nid then accepted q else policy_at k w)"
proof -
  obtain v where v: "submit_payload nid s = Inr v" "go_policy_request (stringify v) = Some q"
    using sends_payload [OF assms(2)] by blast
  have "known (q_NodeID q) w" using assms(1) sends_node [OF assms(2)] by simp
  from post_policy [OF this v(2) assms(3)] assms(4) v(1) show ?thesis
    by (auto simp: drawer_submit_def submit_done_def sends_node [OF assms(2)])
qed

lemma submit_rejected:
  assumes "known nid w" and "sends nid s = Some q" and "\<not> acceptable q"
    and "drawer_submit b fetch nid s w = (s', w')"
  shows "(\<exists>msg. s' = pd_toast (Failure msg) s) \<and> policy_at k w' = policy_at k w"
proof -
  obtain v where v: "submit_payload nid s = Inr v" "go_policy_request (stringify v) = Some q"
    using sends_payload [OF assms(2)] by blast
  have "known (q_NodeID q) w" using assms(1) sends_node [OF assms(2)] by simp
  from post_rejected [OF this v(2) assms(3)] assms(4) v(1) show ?thesis
    by (auto simp: drawer_submit_def submit_done_def)
qed

text \<open>Submit, reopen the drawer, and see what was accepted.\<close>

lemma submit_load:
  assumes "known nid w" and "sends nid s = Some q" and "acceptable q"
    and "drawer_submit b fetch nid s w = (s1, w1)"
    and "drawer_load b fetch nid s0 w1 = (s2, w2)"
  shows "shows_policy (accepted q) s2 \<and> policy_at nid w2 = accepted q"
proof -
  have "known nid w1" "policy_at nid w1 = accepted q"
    using submit [OF assms(1-4), of nid] assms(1) by auto
  with load [OF _ assms(5), of nid] show ?thesis by simp
qed

text \<open>Loading and submitting without an edit changes nothing.\<close>

lemma load_submit:
  assumes "known nid w" and "clean_items (q_BypassCIDRs (policy_at nid w))"
    and "accepted (policy_at nid w) = policy_at nid w" and "acceptable (policy_at nid w)"
    and "drawer_load b fetch nid s w = (s1, w1)"
    and "drawer_submit b fetch nid s1 w1 = (s2, w2)"
  shows "policy_at k w2 = policy_at k w"
proof -
  note L = load [OF assms(1,5)]
  have "sends nid s1 = Some (policy_at nid w)"
    using sends_shown [of "policy_at nid w" s1] L assms(2) node_id by simp
  from submit [OF _ this assms(4,6), of k] L assms(1,3) show ?thesis by auto
qed

end

section \<open>The controller provides it\<close>

definition ctl_known :: "browser \<Rightarrow> (nat \<Rightarrow> env) \<Rightarrow> string \<Rightarrow> string \<Rightarrow> world \<Rightarrow> bool" where
  "ctl_known b envs origin nid w \<longleftrightarrow>
     logged_in b envs origin \<and> nid \<noteq> [] \<and> GetNode nid (store (fst w)) \<noteq> None"

definition ctl_policy :: "string \<Rightarrow> world \<Rightarrow> policy_request" where
  "ctl_policy nid w = policy_of nid (store (fst w))"

lemma answer_policy_of: "GetNode nid m = Some n \<Longrightarrow> answer (policy_of nid m) = Obj (json_policy n)"
  by (simp add: policy_of_def answer_def json_policy_def)

lemma policy_path_cut: "cut (CHR ''?'') (policy_path nid) = (''/api/v1/policy'', setting ''nodeId'' nid)"
  using cut_path [of "''/api/v1/policy''" "setting ''nodeId'' nid"] by (simp add: policy_path_def)

lemma plain_nodeId [simp]: "plain_key ''nodeId''" "plain_key ''limit''"
  by (code_simp, code_simp)

lemma query_get_setting: "query_get (setting ''nodeId'' nid) ''nodeId'' = nid"
  using query_get_settings [of "[(''nodeId'', nid)]" "''nodeId''" nid] by simp

lemma routes_policy [simp]: "map_of routes ''/api/v1/policy'' = Some policy_route"
  by (simp add: routes_def)

lemma UpdatePolicy_Some:
  "GetNode nid m \<noteq> None \<Longrightarrow> \<exists>m'. UpdatePolicy nid e r d x h m = Some m'
     \<and> (\<forall>k. (GetNode k m' = None) = (GetNode k m = None))
     \<and> (\<forall>k. policy_of k m' = (if k = nid then \<lparr>q_NodeID = nid, q_EgressPeer = e, q_PolicyRules = r,
          q_DefaultRoute = d, q_BypassCIDRs = x, q_DefaultRouteNextHop = h\<rparr> else policy_of k m))"
  by (auto simp: UpdatePolicy_def GetNode_def policy_of_def split: option.splits)

lemma policy_apply_nodes [simp]: "nodes (store (policy_apply e nid c)) = nodes (store c)"
  by (simp add: policy_apply_def Let_def SaveTask_def)

lemma nodes_cong:
  assumes "nodes m = nodes m'"
  shows "GetNode k m = GetNode k m'" "policy_of k m = policy_of k m'"
  using assms by (simp_all add: GetNode_def policy_of_def)

lemma policy_post_ok:
  assumes "body go_policy_request rq = Some q" and "q_NodeID q \<noteq> []"
    and "GetNode (q_NodeID q) (store c) \<noteq> None" and "acceptable q"
  shows "\<exists>x c'. policy_post e rq c = (writeJSON x, c')
    \<and> (\<forall>k. (GetNode k (store c') = None) = (GetNode k (store c) = None))
    \<and> (\<forall>k. policy_of k (store c') = (if k = q_NodeID q then accepted q else policy_of k (store c)))"
proof -
  obtain m where m: "UpdatePolicy (q_NodeID q) (q_EgressPeer q) (map prepare_rule (q_PolicyRules q))
      (q_DefaultRoute q) (q_BypassCIDRs q) (q_DefaultRouteNextHop q) (store c) = Some m"
    and nodes_m: "\<forall>k. (GetNode k m = None) = (GetNode k (store c) = None)"
    and policy_m: "\<forall>k. policy_of k m = (if k = q_NodeID q then accepted q else policy_of k (store c))"
    using UpdatePolicy_Some [OF assms(3)] by (fastforce simp: accepted_def)
  let ?c' = "policy_apply e (q_NodeID q) (BumpPlanVersion (set_store m c))"
  have same: "nodes (store ?c') = nodes m" by simp
  have "\<exists>x. policy_post e rq c = (writeJSON x, ?c')"
    using assms(1,2,4) m by (auto simp: policy_post_def acceptable_def Let_def)
  moreover have "\<forall>k. (GetNode k (store ?c') = None) = (GetNode k (store c) = None)"
    using nodes_m nodes_cong(1) [OF same] by simp
  moreover have "\<forall>k. policy_of k (store ?c') = (if k = q_NodeID q then accepted q else policy_of k (store c))"
    using policy_m nodes_cong(2) [OF same] by simp
  ultimately show ?thesis by blast
qed

lemma policy_post_rejected:
  assumes "body go_policy_request rq = Some q" and "\<not> acceptable q"
  shows "\<exists>msg. policy_post e rq c = (http_error msg 400, c)"
  using assms by (auto simp: policy_post_def acceptable_def Let_def)

lemma body_post_json [simp]: "body f (api_request b path (post_json v)) = f (stringify v)"
  by (simp add: body_def post_json_def)

lemma post_json_simps [simp]: "opt_base (post_json v) = []" "opt_method (post_json v) = ''POST''"
  by (simp_all add: post_json_def)

lemma get_options_simps [simp]: "opt_base get_options = []" "opt_method get_options = ''GET''"
  by (simp_all add: get_options_def)

lemma ctl_policy_call:
  assumes "logged_in b envs origin" and "opt_base opts = []"
    and "path = ''/api/v1/policy''"
    and "policy_route (envs k) [] (api_request b path opts) c = (r, c')"
  shows "api b (controller_fetch others envs origin) path opts (c, k) = (api_result path r, (c', Suc k))"
  using api_controller [OF assms(1,2) cut_none routes_policy] assms(3,4) by simp

lemma ctl_get_policy:
  assumes "ctl_known b envs origin nid (c, k)"
  shows "api b (controller_fetch others envs origin) (policy_path nid) get_options (c, k)
      = (Inr (answer (ctl_policy nid (c, k))), (c, Suc k))"
proof -
  obtain n where n: "GetNode nid (store c) = Some n" using assms by (auto simp: ctl_known_def)
  have login: "logged_in b envs origin" "nid \<noteq> []" using assms by (simp_all add: ctl_known_def)
  then have "policy_route (envs k) (setting ''nodeId'' nid) (api_request b (policy_path nid) get_options) c
      = (writeJSON (Obj (json_policy n)), c)"
    using n by (simp add: policy_route_def guarded_ok api_authFuncJWT policy_get_def query_get_setting)
  then show ?thesis
    using api_controller [OF login(1) _ policy_path_cut routes_policy] n
    by (simp add: ctl_policy_def answer_policy_of)
qed

lemma ctl_post_policy:
  assumes "ctl_known b envs origin (q_NodeID q) (c, k)" and "go_policy_request (stringify v) = Some q"
    and "acceptable q"
  shows "\<exists>x c'. api b (controller_fetch others envs origin) ''/api/v1/policy'' (post_json v) (c, k)
        = (Inr x, (c', Suc k))
    \<and> (\<forall>n. (GetNode n (store c') = None) = (GetNode n (store c) = None))
    \<and> (\<forall>n. policy_of n (store c') = (if n = q_NodeID q then accepted q else policy_of n (store c)))"
proof -
  have login: "logged_in b envs origin" using assms(1) by (simp add: ctl_known_def)
  let ?rq = "api_request b ''/api/v1/policy'' (post_json v)"
  have "body go_policy_request ?rq = Some q" using assms(2) by simp
  then obtain x c' where post: "policy_post (envs k) ?rq c = (writeJSON x, c')"
    and c': "\<forall>n. (GetNode n (store c') = None) = (GetNode n (store c) = None)"
      "\<forall>n. policy_of n (store c') = (if n = q_NodeID q then accepted q else policy_of n (store c))"
    using policy_post_ok [of ?rq q c "envs k"] assms(1,3) by (auto simp: ctl_known_def)
  have "policy_route (envs k) [] ?rq c = (writeJSON x, c')"
    using login post by (simp add: policy_route_def guarded_ok api_authFuncJWT)
  from ctl_policy_call [OF login _ refl this] c' show ?thesis by auto
qed

lemma ctl_post_rejected:
  assumes "ctl_known b envs origin (q_NodeID q) (c, k)" and "go_policy_request (stringify v) = Some q"
    and "\<not> acceptable q"
  shows "\<exists>x. api b (controller_fetch others envs origin) ''/api/v1/policy'' (post_json v) (c, k)
        = (Inl x, (c, Suc k))"
proof -
  have login: "logged_in b envs origin" using assms(1) by (simp add: ctl_known_def)
  let ?rq = "api_request b ''/api/v1/policy'' (post_json v)"
  have "body go_policy_request ?rq = Some q" using assms(2) by simp
  then obtain msg where "policy_post (envs k) ?rq c = (http_error msg 400, c)"
    using policy_post_rejected assms(3) by blast
  then have "policy_route (envs k) [] ?rq c = (http_error msg 400, c)"
    using login by (simp add: policy_route_def guarded_ok api_authFuncJWT)
  from ctl_policy_call [OF login _ refl this] show ?thesis by (simp add: api_result_http_error)
qed

interpretation ctl: policy_backend b "controller_fetch others envs origin"
    "ctl_known b envs origin" ctl_policy
  for b others envs origin
proof unfold_locales
  show "q_NodeID (ctl_policy nid w) = nid" for nid and w :: world
    by (simp add: ctl_policy_def policy_of_def Let_def)
next
  fix nid and w :: world
  assume "ctl_known b envs origin nid w"
  then show "\<exists>w'. api b (controller_fetch others envs origin) (policy_path nid) get_options w
        = (Inr (answer (ctl_policy nid w)), w')
      \<and> (\<forall>k. ctl_known b envs origin k w' = ctl_known b envs origin k w)
      \<and> (\<forall>k. ctl_policy k w' = ctl_policy k w)"
    by (cases w) (auto simp: ctl_get_policy ctl_known_def ctl_policy_def)
next
  fix q and w :: world and v
  assume "ctl_known b envs origin (q_NodeID q) w" "go_policy_request (stringify v) = Some q" "acceptable q"
  then show "\<exists>x w'. api b (controller_fetch others envs origin) ''/api/v1/policy'' (post_json v) w = (Inr x, w')
      \<and> (\<forall>k. ctl_known b envs origin k w' = ctl_known b envs origin k w)
      \<and> (\<forall>k. ctl_policy k w' = (if k = q_NodeID q then accepted q else ctl_policy k w))"
    using ctl_post_policy [of b envs origin q "fst w" "snd w" v]
    by (force simp: ctl_known_def ctl_policy_def simp del: not_None_eq)
next
  fix q and w :: world and v
  assume "ctl_known b envs origin (q_NodeID q) w" "go_policy_request (stringify v) = Some q" "\<not> acceptable q"
  then show "\<exists>e w'. api b (controller_fetch others envs origin) ''/api/v1/policy'' (post_json v) w = (Inl e, w')
      \<and> (\<forall>k. ctl_known b envs origin k w' = ctl_known b envs origin k w)
      \<and> (\<forall>k. ctl_policy k w' = ctl_policy k w)"
    using ctl_post_rejected [of b envs origin q "fst w" "snd w" v]
    by (fastforce simp: ctl_known_def ctl_policy_def)
qed

lemma known_nodes:
  assumes "ctl_known b envs origin nid w" and "sends nid s = Some q" and "acceptable q"
    and "drawer_submit b (controller_fetch others envs origin) nid s w = (s', w')"
  shows "(GetNode k (store (fst w')) = None) = (GetNode k (store (fst w)) = None)"
proof -
  obtain v where v: "submit_payload nid s = Inr v" "go_policy_request (stringify v) = Some q"
    using ctl.sends_payload [OF assms(2)] by blast
  have "ctl_known b envs origin (q_NodeID q) (fst w, snd w)"
    using assms(1) ctl.sends_node [OF assms(2)] by simp
  from ctl_post_policy [OF this v(2) assms(3), of others] assms(4) v(1)
  show ?thesis by (auto simp: drawer_submit_def)
qed

lemma ex_known: "nid \<in> {''n1'', ''n2'', ''n3''} \<Longrightarrow> ctl_known ex_browser (\<lambda>_. ex_env) ''http://c'' nid ex_world"
  by (auto simp: ctl_known_def ex_logged_in ex_world_def ex_nodes)

end
