(* ===== verification/Path_Flow.thy ===== *)
theory Path_Flow
  imports Policy_Flow
begin

text \<open>
  From the clicks on the map to the traffic: the rule the drawer makes of a chosen path, the
  request it sends, the node the controller stores, and the hop-by-hop rules the controller
  distributes.
\<close>

text \<open>How the controller reads a rule object of the drawer.\<close>

lemma go_str_lookup:
  "distinct (map fst ps) \<Longrightarrow>
   go_str (js_lookup k (map (\<lambda>(k, v). (k, stringify v)) (filter (\<lambda>(k, v). v \<noteq> Undef) ps))) =
     go_str (stringify (js_lookup k ps))"
  by (simp add: js_lookup_stringify)

lemma go_list_lookup:
  "distinct (map fst ps) \<Longrightarrow>
   go_list f (js_lookup k (map (\<lambda>(k, v). (k, stringify v)) (filter (\<lambda>(k, v). v \<noteq> Undef) ps))) =
     go_list f (stringify (js_lookup k ps))"
  by (simp add: js_lookup_stringify)

lemma go_rule_stringify:
  assumes "distinct (map fst ps)"
    and "js_lookup ''prefix'' ps = Str p" and "js_lookup ''viaNode'' ps = Str v"
    and "js_lookup ''path'' ps = Arr (map Str path)" and "js_lookup ''domains'' ps = Arr (map Str ds)"
  shows "go_rule (stringify (Obj ps)) =
    Some \<lparr>pr_prefix = p, pr_viaNode = v, pr_path = path, pr_domains = ds\<rparr>"
  using assms by (simp add: go_rule_def go_str_lookup go_list_lookup comp_def)

lemma those_append: "those (xs @ [y]) = (case (those xs, y) of (Some as, Some b) \<Rightarrow> Some (as @ [b]) | _ \<Rightarrow> None)"
  by (induction xs) (auto split: option.splits)

lemma go_list_snoc:
  "go_list f (stringify (Arr vs)) = Some xs \<Longrightarrow> f (stringify v) = Some x \<Longrightarrow>
   go_list f (stringify (Arr (vs @ [v]))) = Some (xs @ [x])"
  by (simp add: those_append)

lemma addRule_rule:
  assumes "distinct (map fst values)" and "js_lookup ''prefix'' values = Str p"
    and "js_lookup ''domains'' values = Str ds" and "pd_currentPath s \<noteq> []"
    and "pd_rules s = Arr vs" and "go_list go_rule (stringify (Arr vs)) = Some rs"
    and "addRule values s = Inr s'"
  shows "go_list go_rule (stringify (pd_rules s')) =
      Some (rs @ [\<lparr>pr_prefix = p, pr_viaNode = last (pd_currentPath s), pr_path = pd_currentPath s,
        pr_domains = split_trim ds\<rparr>])
    \<and> pd_form s' = pd_form s"
proof -
  let ?ps = "set_prop ''path'' (Arr (map Str (pd_currentPath s)))
    (set_prop ''viaNode'' (Str (last (pd_currentPath s))) (set_prop ''domains'' (Arr (map Str (split_trim ds))) values))"
  have s': "pd_rules s' = Arr (vs @ [Obj ?ps])" "pd_form s' = pd_form s"
    using assms(3-5,7) by (auto simp: addRule_def rule_domains_def Let_def)
  have "go_rule (stringify (Obj ?ps)) = Some \<lparr>pr_prefix = p, pr_viaNode = last (pd_currentPath s),
      pr_path = pd_currentPath s, pr_domains = split_trim ds\<rparr>"
    using assms(1,2) by (intro go_rule_stringify) simp_all
  from go_list_snoc [OF assms(6) this] show ?thesis using s' by simp
qed

text \<open>The nodes of a store under its invariant.\<close>

lemma GetNode_ID:
  assumes "store_inv m" and "GetNode k m = Some n"
  shows "n_ID n = k"
proof -
  have "versioned m k n" using assms unfolding store_inv_def nodes_inv_def GetNode_def by blast
  then show ?thesis by (simp add: versioned_def)
qed

lemma ListNodes_GetNode:
  assumes "store_inv m"
  shows "distinct (map n_ID (ListNodes m))"
    and "n \<in> set (ListNodes m) \<longleftrightarrow> GetNode (n_ID n) m = Some n"
proof -
  have dist: "distinct (map fst (nodes m))" using assms by (simp add: store_inv_def keys_inv_def)
  have ids: "n_ID n = k" if "(k, n) \<in> set (nodes m)" for k n
    using GetNode_ID [OF assms, of k n] that dist by (simp add: GetNode_def)
  then have "map n_ID (ListNodes m) = map fst (nodes m)" by (auto simp: ListNodes_def)
  then show "distinct (map n_ID (ListNodes m))" using dist by simp
  show "n \<in> set (ListNodes m) \<longleftrightarrow> GetNode (n_ID n) m = Some n"
  proof
    assume "n \<in> set (ListNodes m)"
    then obtain k where k: "(k, n) \<in> set (nodes m)" by (auto simp: ListNodes_def)
    then show "GetNode (n_ID n) m = Some n" using ids [OF k] dist by (simp add: GetNode_def)
  next
    assume "GetNode (n_ID n) m = Some n"
    then show "n \<in> set (ListNodes m)" by (force simp: GetNode_def ListNodes_def dest: map_of_SomeD)
  qed
qed

lemma policy_of_rules: "GetNode k m = Some n \<Longrightarrow> q_PolicyRules (policy_of k m) = n_PolicyRules n"
  by (simp add: policy_of_def)

lemma drawer_submit_inv:
  assumes "\<forall>p h. others p = Some h \<longrightarrow> keeps store_inv h" and "store_inv (store (fst w))"
    and "drawer_submit b (controller_fetch others envs origin) nid s w = (s', w')"
  shows "store_inv (store (fst w'))"
proof (cases "submit_payload nid s")
  case (Inl e)
  then show ?thesis using assms(2,3) by (simp add: drawer_submit_def)
next
  case (Inr v)
  have "w' = snd (api b (controller_fetch others envs origin) ''/api/v1/policy'' (post_json v) w)"
    using assms(3) Inr by (simp add: drawer_submit_def case_prod_unfold Let_def)
  then show ?thesis using sound.api_keeps [OF assms(1,2)] by simp
qed

text \<open>After a submit, the sent rule is the only one for its prefix.\<close>

lemma submitted_rule_is_sole:
  assumes inv: "store_inv (store (fst w'))"
    and stored: "\<And>k. policy_of k (store (fst w')) = (if k = nid then accepted q else policy_of k m)"
    and known: "GetNode nid (store (fst w')) \<noteq> None"
    and same: "\<And>k. (GetNode k (store (fst w')) = None) = (GetNode k m = None)" and "store_inv m"
    and rules: "q_PolicyRules q = rs @ [r]"
    and own: "\<forall>x\<in>set rs. pr_prefix (prepare_rule x) \<noteq> pr_prefix (prepare_rule r)"
    and other: "\<forall>n\<in>set (ListNodes m). n_ID n \<noteq> nid \<longrightarrow>
      (\<forall>x\<in>set (n_PolicyRules n). pr_prefix x \<noteq> pr_prefix (prepare_rule r))"
  shows "sole_rule (ListNodes (store (fst w'))) nid (prepare_rule r)"
proof -
  let ?m = "store (fst w')"
  note L = ListNodes_GetNode [OF inv] and M = ListNodes_GetNode [OF \<open>store_inv m\<close>]
  have id: "n_ID n = k" if "GetNode k ?m = Some n" for k n by (rule GetNode_ID [OF inv that])
  obtain n where n: "GetNode nid ?m = Some n" using known by blast
  have "n_PolicyRules n = map prepare_rule rs @ [prepare_rule r]"
    using policy_of_rules [OF n] stored [of nid] rules by (simp add: accepted_def)
  then have "filter (\<lambda>x. pr_prefix x = pr_prefix (prepare_rule r)) (n_PolicyRules n) = [prepare_rule r]"
    using own by (auto simp: filter_empty_conv)
  moreover have "\<forall>x\<in>set (n_PolicyRules k). pr_prefix x \<noteq> pr_prefix (prepare_rule r)"
    if k: "k \<in> set (ListNodes ?m)" "n_ID k \<noteq> n_ID n" for k
  proof -
    have gk: "GetNode (n_ID k) ?m = Some k" "n_ID k \<noteq> nid"
      using L(2) [of k] k id [OF n] by simp_all
    then have "GetNode (n_ID k) m \<noteq> None" using same [of "n_ID k"] by simp
    then obtain k0 where k0: "GetNode (n_ID k) m = Some k0" by blast
    have "n_ID k0 = n_ID k" by (rule GetNode_ID [OF \<open>store_inv m\<close> k0])
    then have "k0 \<in> set (ListNodes m)" "n_ID k0 \<noteq> nid" using M(2) [of k0] k0 gk(2) by simp_all
    moreover have "n_PolicyRules k = n_PolicyRules k0"
      using policy_of_rules [OF gk(1)] policy_of_rules [OF k0] stored [of "n_ID k"] gk(2) by simp
    ultimately show ?thesis using other by simp
  qed
  ultimately show ?thesis
    using sole_ruleI [of "ListNodes ?m" n "prepare_rule r"] L(1) L(2) [of n] n id [OF n] by simp
qed

end
