(* ===== verification/Js_Nodes.thy ===== *)
theory Js_Nodes
  imports Js_Session
begin

text \<open>
  Managing nodes: the state and the install command of \<open>frontend/src/pages/Admin.jsx\<close>,
  \<open>NodesTable.jsx\<close>, \<open>EndpointDrawer.jsx\<close> and \<open>NodeFormModal.jsx\<close>.
\<close>

section \<open>Number\<close>

text \<open>
  \<open>Number(s)\<close> of a string: white space around is ignored, the empty string is 0, an
  optional sign and decimal digits with an optional fraction, or the prefixes for base 16, 8
  and 2.  Exponents and \<open>Infinity\<close> are not modelled: like every other text they give
  \<open>NaN\<close> here, which JSON writes as \<open>null\<close>, as it does \<open>Infinity\<close>.
\<close>

definition decimal_value :: "string \<Rightarrow> rat option" where
  "decimal_value s =
     (let (i, f) = cut (CHR ''.'') s in
      if list_all (\<lambda>c. digit_val c \<noteq> None) (i @ f) \<and> i @ f \<noteq> []
      then Some (of_nat (digits_val (i @ f)) / 10 ^ length f) else None)"

definition based_value :: "nat \<Rightarrow> string \<Rightarrow> rat option" where
  "based_value base s =
     (if s \<noteq> [] \<and> list_all (\<lambda>c. case unhex c of Some d \<Rightarrow> d < base | None \<Rightarrow> False) s
      then Some (of_nat (foldl (\<lambda>a c. base * a + the (unhex c)) 0 s)) else None)"

definition number_of_string :: "string \<Rightarrow> jsval" where
  "number_of_string str =
     (let s = js_trim str;
          r = (if s = [] then Some 0
               else if prefix ''0x'' s \<or> prefix ''0X'' s then based_value 16 (drop 2 s)
               else if prefix ''0o'' s \<or> prefix ''0O'' s then based_value 8 (drop 2 s)
               else if prefix ''0b'' s \<or> prefix ''0B'' s then based_value 2 (drop 2 s)
               else if hd s = CHR ''-'' then map_option uminus (decimal_value (tl s))
               else if hd s = CHR ''+'' then decimal_value (tl s)
               else decimal_value s)
      in case r of None \<Rightarrow> NaN | Some n \<Rightarrow> Number n)"

fun js_number :: "jsval \<Rightarrow> jsval" where
  "js_number (Number n) = Number n"
| "js_number (Str s) = number_of_string s"
| "js_number (Boolean b) = Number (if b then 1 else 0)"
| "js_number Null = Number 0"
| "js_number _ = NaN"

lemma cut_no_sep: "c \<notin> set s \<Longrightarrow> cut c s = (s, [])"
  by (induction s) auto

lemma digit_not: "digit_val c \<noteq> None \<Longrightarrow> c \<noteq> CHR ''.'' \<and> c \<noteq> CHR ''-'' \<and> c \<noteq> CHR ''+''"
  by (auto simp: digit_val_def Let_def)

section \<open>NodeFormModal\<close>

record node_form =
  nf_loading :: bool
  nf_open :: bool
  nf_toasts :: "toast list"

definition node_form_payload :: "jsval \<Rightarrow> jsval \<Rightarrow> jsval" where
  "node_form_payload v_id v_listenPort =
     Obj [(''id'', v_id), (''listenPort'', js_number (js_or v_listenPort (Number 8082)))]"

text \<open>The flag says whether \<open>onOk\<close> (reloading the nodes) is called.\<close>

definition node_form_start :: "node_form \<Rightarrow> node_form" where
  "node_form_start s = s\<lparr>nf_loading := True\<rparr>"

definition node_form_done :: "jsval res \<Rightarrow> node_form \<Rightarrow> node_form \<times> bool" where
  "node_form_done r s =
     (case r of
        Inr _ \<Rightarrow> (s\<lparr>nf_toasts := nf_toasts s @ [Success msg_node_created], nf_open := False,
                    nf_loading := False\<rparr>, True)
      | Inl e \<Rightarrow> (s\<lparr>nf_toasts := nf_toasts s @ [Failure (msg_node_create_failed @ exn_string e)],
                    nf_loading := False\<rparr>, False))"

definition node_form_submit ::
  "browser \<Rightarrow> 'w fetch \<Rightarrow> jsval \<Rightarrow> jsval \<Rightarrow> node_form \<Rightarrow> 'w \<Rightarrow> (node_form \<times> bool) \<times> 'w" where
  "node_form_submit b fetch v_id v_listenPort s w =
     (let (r, w') = api b fetch ''/api/v1/nodes/register''
                      (post_json (node_form_payload v_id v_listenPort)) w
      in (node_form_done r (node_form_start s), w'))"

section \<open>EndpointDrawer\<close>

text \<open>
  \<open>ed_endpoints\<close> is the form's value of \<open>peerEndpoints\<close>.  How antd's
  \<open>setFieldsValue\<close> combines an object with the one already in the store is a parameter
  (\<open>merge old new\<close>).
\<close>

record endpoint_drawer =
  ed_open :: bool
  ed_loading :: bool
  ed_endpoints :: jsval
  ed_toasts :: "toast list"

definition node_with_id :: "string \<Rightarrow> jsval list \<Rightarrow> jsval" where
  "node_with_id nid nodes =
     (case find (\<lambda>n. js_oget ''id'' n = Str nid) nodes of None \<Rightarrow> Undef | Some n \<Rightarrow> n)"

definition endpoint_load_done ::
  "(jsval \<Rightarrow> jsval \<Rightarrow> jsval) \<Rightarrow> string \<Rightarrow> jsval res \<Rightarrow> endpoint_drawer \<Rightarrow> endpoint_drawer" where
  "endpoint_load_done merge nid r s =
     (case sbind r as_array of
        Inr nodes \<Rightarrow>
          (let target = js_or (node_with_id nid nodes) (Obj [])
           in s\<lparr>ed_endpoints := merge (ed_endpoints s)
                  (js_or (js_oget ''peerEndpoints'' target) (Obj []))\<rparr>)
      | Inl e \<Rightarrow> s\<lparr>ed_toasts := ed_toasts s @ [Failure msg_nodes_load_failed]\<rparr>)"

definition endpoint_payload :: "string \<Rightarrow> endpoint_drawer \<Rightarrow> jsval" where
  "endpoint_payload nid s =
     Obj [(''id'', Str nid), (''peerEndpoints'', ed_endpoints s), (''force'', Boolean True)]"

definition endpoint_submit_start :: "endpoint_drawer \<Rightarrow> endpoint_drawer" where
  "endpoint_submit_start s = s\<lparr>ed_loading := True\<rparr>"

definition endpoint_submit_done :: "jsval res \<Rightarrow> endpoint_drawer \<Rightarrow> endpoint_drawer" where
  "endpoint_submit_done r s =
     (case r of
        Inr _ \<Rightarrow> s\<lparr>ed_toasts := ed_toasts s @ [Success msg_endpoint_saved], ed_open := False,
                   ed_loading := False\<rparr>
      | Inl e \<Rightarrow> s\<lparr>ed_toasts := ed_toasts s @ [Failure (msg_save_failed @ exn_string e)],
                   ed_loading := False\<rparr>)"

definition endpoint_submit ::
  "browser \<Rightarrow> 'w fetch \<Rightarrow> string \<Rightarrow> endpoint_drawer \<Rightarrow> 'w \<Rightarrow> endpoint_drawer \<times> 'w" where
  "endpoint_submit b fetch nid s w =
     (let (r, w') = api b fetch ''/api/v1/nodes/register'' (post_json (endpoint_payload nid s)) w
      in (endpoint_submit_done r (endpoint_submit_start s), w'))"

text \<open>The selects of the drawer: one for each other node, with that node's endpoints.\<close>

definition array_or_empty :: "jsval \<Rightarrow> jsval list" where
  "array_or_empty v = (case v of Arr xs \<Rightarrow> xs | _ \<Rightarrow> [])"

definition endpoint_selects :: "string \<Rightarrow> jsval list \<Rightarrow> (string \<times> jsval list) list" where
  "endpoint_selects nid nodes =
     map (\<lambda>n. (elem_string (js_oget ''id'' n), array_or_empty (js_or (js_oget ''endpoints'' n) (Arr []))))
       (filter (\<lambda>n. js_oget ''id'' n \<noteq> Str nid) nodes)"

section \<open>NodesTable\<close>

record node_row =
  nr_id :: jsval
  nr_overlay :: jsval
  nr_endpoints :: string
  nr_cidrs :: string
  nr_version :: jsval

definition node_row_of :: "jsval \<Rightarrow> node_row" where
  "node_row_of r =
     \<lparr>nr_id = js_oget ''id'' r, nr_overlay = js_oget ''overlayIp'' r,
      nr_endpoints = js_join '', '' (array_or_empty (js_or (js_oget ''endpoints'' r) (Arr []))),
      nr_cidrs = js_join '', '' (array_or_empty (js_or (js_oget ''cidrs'' r) (Arr []))),
      nr_version = js_oget ''configVersion'' r\<rparr>"

definition node_rows :: "jsval \<Rightarrow> node_row list" where
  "node_rows data = map node_row_of (array_or_empty (js_or data (Arr [])))"

section \<open>Admin\<close>

text \<open>
  Which dialogs are open: a node variable holds the clicked row or \<open>Null\<close>, and the
  dialog is open when it is truthy.
\<close>

record admin =
  ad_policyNode :: jsval
  ad_installOpen :: bool
  ad_installText :: string
  ad_endpointNode :: jsval
  ad_settingsOpen :: bool
  ad_menuKey :: string
  ad_historyNode :: jsval
  ad_diagNode :: jsval
  ad_showNodeForm :: bool
  ad_clipboard :: string
  ad_toasts :: "toast list"

definition install_payload :: "string \<Rightarrow> jsval" where
  "install_payload nid = Obj [(''id'', Str nid)]"

text \<open>
  Writing the clipboard may fail, which is ignored: \<open>clip\<close> says whether it worked.
\<close>

definition showInstall_done :: "bool \<Rightarrow> jsval res \<Rightarrow> admin \<Rightarrow> admin" where
  "showInstall_done clip r s =
     (case sbind r (js_get ''command'') of
        Inr command \<Rightarrow>
          (let cmd = elem_string (js_or command (Str []))
           in s\<lparr>ad_installOpen := True, ad_installText := cmd,
                ad_clipboard := (if clip then cmd else ad_clipboard s)\<rparr>)
      | Inl e \<Rightarrow> s\<lparr>ad_toasts := ad_toasts s @ [Failure (msg_install_failed @ exn_string e)]\<rparr>)"

definition showInstall :: "browser \<Rightarrow> 'w fetch \<Rightarrow> bool \<Rightarrow> string \<Rightarrow> admin \<Rightarrow> 'w \<Rightarrow> admin \<times> 'w" where
  "showInstall b fetch clip nid s w =
     (let (r, w') = api b fetch ''/api/v1/nodes/prepare'' (post_json (install_payload nid)) w
      in (showInstall_done clip r s, w'))"

end
