(* ===== verification/Js_Cards.thy ===== *)
theory Js_Cards
  imports Js_Session
begin

text \<open>
  The cards and dialogs that show or edit one document of the controller:
  \<open>HealthHistoryModal.jsx\<close>, \<open>DiagnoseModal.jsx\<close>, \<open>DiagCard.jsx\<close>,
  \<open>GeoIPCard.jsx\<close> and \<open>StatusCard.jsx\<close>.
\<close>

section \<open>HealthHistoryModal\<close>

definition history_path :: "string \<Rightarrow> string" where
  "history_path nid = ''/api/v1/health/history?'' @ setting ''nodeId'' nid @ ''&hours=24''"

record history_modal =
  hm_loading :: bool
  hm_data :: jsval
  hm_toasts :: "toast list"

definition history_load_start :: "history_modal \<Rightarrow> history_modal" where
  "history_load_start s = s\<lparr>hm_loading := True\<rparr>"

definition history_load_done :: "jsval res \<Rightarrow> history_modal \<Rightarrow> history_modal" where
  "history_load_done r s =
     (case r of
        Inr res \<Rightarrow> s\<lparr>hm_data := js_or res (Arr []), hm_loading := False\<rparr>
      | Inl e \<Rightarrow> s\<lparr>hm_toasts := hm_toasts s @ [Failure (msg_history_failed @ exn_string e)],
                   hm_loading := False\<rparr>)"

record history_row =
  hr_timestamp :: jsval
  hr_target :: string
  hr_latency :: jsval
  hr_loss :: jsval

text \<open>
  \<open>Object.keys\<close> gives the keys in insertion order: they are IP addresses, none of which
  is an array index.
\<close>

definition report_rows :: "jsval \<Rightarrow> history_row list" where
  "report_rows h =
     (let latency = js_or (js_oget ''latencyMs'' h) (Obj []) in
      map (\<lambda>ip. \<lparr>hr_timestamp = js_oget ''timestamp'' h, hr_target = ip,
             hr_latency = js_oget ip latency,
             hr_loss = js_oget ip (js_or (js_oget ''packetLoss'' h) (Obj []))\<rparr>)
        (map fst (spread latency)))"

definition history_rows :: "jsval list \<Rightarrow> history_row list" where
  "history_rows data = concat (map report_rows data)"

text \<open>
  The table's rows.  \<open>date_ms\<close> is the engine's \<open>new Date(t).getTime()\<close>;
  \<open>sort\<close> is stable, and with valid dates its comparison is by descending time.
\<close>

definition sorted_rows :: "(jsval \<Rightarrow> int) \<Rightarrow> jsval list \<Rightarrow> history_row list" where
  "sorted_rows date_ms data = sort_key (\<lambda>r. - date_ms (hr_timestamp r)) (history_rows data)"

section \<open>DiagnoseModal\<close>

definition diagnose_path :: "string \<Rightarrow> string" where
  "diagnose_path nid = ''/api/v1/diagnose?'' @ setting ''nodeId'' nid"

record diagnose_modal =
  gm_loading :: bool
  gm_data :: jsval
  gm_toasts :: "toast list"

definition diagnose_load_start :: "diagnose_modal \<Rightarrow> diagnose_modal" where
  "diagnose_load_start s = s\<lparr>gm_loading := True\<rparr>"

definition diagnose_load_done :: "jsval res \<Rightarrow> diagnose_modal \<Rightarrow> diagnose_modal" where
  "diagnose_load_done r s =
     (case r of
        Inr res \<Rightarrow> s\<lparr>gm_data := res, gm_loading := False\<rparr>
      | Inl e \<Rightarrow> s\<lparr>gm_toasts := gm_toasts s @ [Failure (msg_diagnose_failed @ exn_string e)],
                   gm_loading := False\<rparr>)"

definition colorMap :: "(string \<times> string) list" where
  "colorMap = [(''ok'', ''green''), (''warn'', ''orange''), (''fail'', ''red''), (''info'', ''blue'')]"

definition severity_color :: "string \<Rightarrow> string" where
  "severity_color severity = str_or (map_of colorMap severity) ''default''"

definition diagnose_summary :: "diagnose_modal \<Rightarrow> string" where
  "diagnose_summary s = elem_string (js_or (js_oget ''summary'' (gm_data s)) (Str txt_diagnose_result))"

section \<open>The settings cards\<close>

record settings_card =
  sc_form :: "(string \<times> jsval) list"
  sc_loading :: bool
  sc_toasts :: "toast list"

text \<open>
  A card loads a document into its form and posts the validated form; the texts and the path
  are those of the card.  The flag of \<open>card_save_done\<close> says whether \<open>onChanged\<close> is
  called.
\<close>

definition card_load_done :: "string \<Rightarrow> jsval res \<Rightarrow> settings_card \<Rightarrow> settings_card" where
  "card_load_done failed r s =
     (case r of
        Inr cfg \<Rightarrow> s\<lparr>sc_form := fold (\<lambda>(k, v). set_prop k v) (spread cfg) (sc_form s)\<rparr>
      | Inl e \<Rightarrow> s\<lparr>sc_toasts := sc_toasts s @ [Warning failed]\<rparr>)"

definition card_save_done :: "string \<Rightarrow> jsval res \<Rightarrow> settings_card \<Rightarrow> settings_card \<times> bool" where
  "card_save_done saved r s =
     (case r of
        Inr _ \<Rightarrow> (s\<lparr>sc_toasts := sc_toasts s @ [Success saved], sc_loading := False\<rparr>, True)
      | Inl e \<Rightarrow> (s\<lparr>sc_toasts := sc_toasts s @ [Failure (msg_save_failed @ exn_string e)],
                    sc_loading := False\<rparr>, False))"

definition diag_card_load :: "browser \<Rightarrow> 'w fetch \<Rightarrow> settings_card \<Rightarrow> 'w \<Rightarrow> settings_card \<times> 'w" where
  "diag_card_load b fetch s w =
     (let (r, w') = api b fetch ''/api/v1/settings/diag'' get_options w
      in (card_load_done msg_diag_cfg_load_failed r s, w'))"

definition diag_card_save ::
  "browser \<Rightarrow> 'w fetch \<Rightarrow> settings_card \<Rightarrow> 'w \<Rightarrow> (settings_card \<times> bool) \<times> 'w" where
  "diag_card_save b fetch s w =
     (let (r, w') = api b fetch ''/api/v1/settings/diag'' (post_json (Obj (sc_form s))) w
      in (card_save_done msg_diag_cfg_saved r s, w'))"

definition geoip_card_load :: "browser \<Rightarrow> 'w fetch \<Rightarrow> settings_card \<Rightarrow> 'w \<Rightarrow> settings_card \<times> 'w" where
  "geoip_card_load b fetch s w =
     (let (r, w') = api b fetch ''/api/v1/settings/geoip'' get_options w
      in (card_load_done msg_geoip_load_failed r s, w'))"

definition geoip_card_save ::
  "browser \<Rightarrow> 'w fetch \<Rightarrow> settings_card \<Rightarrow> 'w \<Rightarrow> (settings_card \<times> bool) \<times> 'w" where
  "geoip_card_save b fetch s w =
     (let (r, w') = api b fetch ''/api/v1/settings/geoip'' (post_json (Obj (sc_form s))) w
      in (card_save_done msg_geoip_saved r (s\<lparr>sc_loading := True\<rparr>), w'))"

section \<open>StatusCard\<close>

definition field_or :: "string \<Rightarrow> jsval \<Rightarrow> jsval \<Rightarrow> string" where
  "field_or k data d = elem_string (js_or (js_oget k data) d)"

definition status_lines :: "jsval \<Rightarrow> string list" where
  "status_lines data =
     [''Store: '' @ elem_string (js_oget ''store'' data) @ '' ('' @ field_or ''storeStatus'' data (Str ''-'') @ '')'',
      ''Consul: '' @ field_or ''consulAddr'' data (Str ''-''),
      ''MySQL: '' @ field_or ''mysql'' data (Str ''-''),
      ''PublicAddr: '' @ field_or ''publicAddr'' data (Str ''-''),
      ''PlanVersion: '' @ field_or ''planVersion'' data (Number 0),
      ''Build: '' @ field_or ''buildVersion'' data (Str ''dev'')]"

section \<open>Lemmas\<close>

lemma mset_sorted_rows: "mset (sorted_rows date_ms data) = mset (history_rows data)"
  by (simp add: sorted_rows_def)

lemma sorted_rows_descending:
  "sorted_wrt (\<lambda>r q. date_ms (hr_timestamp q) \<le> date_ms (hr_timestamp r)) (sorted_rows date_ms data)"
proof -
  have "sorted (map (\<lambda>r. - date_ms (hr_timestamp r)) (sorted_rows date_ms data))"
    by (simp add: sorted_rows_def)
  then show ?thesis by (simp add: sorted_map)
qed

section \<open>Properties\<close>

lemma js_or_obj [simp]:
  "spread (js_or v (Obj [])) = spread v" "js_oget k (js_or v (Obj [])) = js_oget k v"
  by (cases v; simp add: js_or_def)+

lemma report_rows_row:
  "r \<in> set (report_rows h) \<Longrightarrow> hr_timestamp r = js_oget ''timestamp'' h
     \<and> hr_target r \<in> set (map fst (spread (js_oget ''latencyMs'' h)))
     \<and> hr_latency r = js_oget (hr_target r) (js_oget ''latencyMs'' h)
     \<and> hr_loss r = js_oget (hr_target r) (js_oget ''packetLoss'' h)"
  by (auto simp: report_rows_def Let_def intro: rev_image_eqI)

text \<open>The history table shows one row for every latency of every report, with that report's
  time, target, latency and loss, and no other row, newest first.\<close>

theorem history_table_spec:
  "mset (sorted_rows date_ms data) = mset (concat (map report_rows data))
   \<and> sorted_wrt (\<lambda>r q. date_ms (hr_timestamp q) \<le> date_ms (hr_timestamp r)) (sorted_rows date_ms data)
   \<and> length (sorted_rows date_ms data) = sum_list (map (\<lambda>h. length (spread (js_oget ''latencyMs'' h))) data)
   \<and> (\<forall>r\<in>set (sorted_rows date_ms data). \<exists>h\<in>set data.
        hr_timestamp r = js_oget ''timestamp'' h \<and> hr_target r \<in> set (map fst (spread (js_oget ''latencyMs'' h)))
        \<and> hr_latency r = js_oget (hr_target r) (js_oget ''latencyMs'' h)
        \<and> hr_loss r = js_oget (hr_target r) (js_oget ''packetLoss'' h))"
proof (intro conjI ballI)
  show "length (sorted_rows date_ms data) = sum_list (map (\<lambda>h. length (spread (js_oget ''latencyMs'' h))) data)"
    by (simp add: sorted_rows_def history_rows_def length_concat comp_def report_rows_def Let_def)
  fix r assume "r \<in> set (sorted_rows date_ms data)"
  then obtain h where "h \<in> set data" "r \<in> set (report_rows h)"
    by (auto simp: sorted_rows_def history_rows_def)
  then show "\<exists>h\<in>set data. hr_timestamp r = js_oget ''timestamp'' h
      \<and> hr_target r \<in> set (map fst (spread (js_oget ''latencyMs'' h)))
      \<and> hr_latency r = js_oget (hr_target r) (js_oget ''latencyMs'' h)
      \<and> hr_loss r = js_oget (hr_target r) (js_oget ''packetLoss'' h)"
    using report_rows_row by blast
qed (simp_all add: mset_sorted_rows history_rows_def sorted_rows_descending)

theorem history_table_spec_witness:
  "let rep = (\<lambda>t ms. Obj [(''timestamp'', Str t), (''latencyMs'', Obj [(''n2'', Number ms), (''n3'', Number 7)])]);
       rows = sorted_rows (\<lambda>v. if v = Str ''b'' then 2 else 1) [rep ''a'' 5, rep ''b'' 6]
   in length rows = 4 \<and> (\<exists>r\<in>set rows. hr_target r = ''n2'' \<and> hr_latency r = Number 6)"
proof -
  let ?d = "\<lambda>v. if v = Str ''b'' then 2 else (1::int)"
  let ?rep = "\<lambda>t ms. Obj [(''timestamp'', Str t), (''latencyMs'', Obj [(''n2'', Number ms), (''n3'', Number 7)])]"
  let ?data = "[?rep ''a'' 5, ?rep ''b'' 6]"
  have "set (sorted_rows ?d ?data) = set (concat (map report_rows ?data))"
    using history_table_spec [of ?d ?data] by (metis set_mset_mset)
  moreover have "\<exists>r\<in>set (concat (map report_rows ?data)). hr_target r = ''n2'' \<and> hr_latency r = Number 6"
    by (simp add: report_rows_def history_rows_def)
  ultimately show ?thesis
    using history_table_spec [of ?d ?data] by (auto simp: Let_def)
qed

end
