(* ===== verification/Page_Flow.thy ===== *)
theory Page_Flow
  imports Policy_Flow Js_Nodes Js_Cards
begin

text \<open>
  The other dialogs against the controller: editing endpoints, creating a node and asking for
  its install command, diagnosing, verifying, and the settings cards.
\<close>

lemma ctl_call:
  assumes "logged_in b envs origin" and "opt_base opts = []" and "CHR ''?'' \<notin> set path"
    and "map_of routes path = Some h" and "h (envs k) [] (api_request b path opts) c = (r, c')"
  shows "api b (controller_fetch others envs origin) path opts (c, k) = (api_result path r, (c', Suc k))"
  by (rule api_controller [OF assms(1,2) cut_none [OF assms(3)] assms(4,5)])

lemma post_json_header [simp]:
  "header ''X-Provision-Token'' (api_request b path (post_json v)) = []"
  by (simp add: header_def api_request_def post_json_def Let_def)

lemma routes_simps [simp]:
  "map_of routes ''/api/v1/nodes/register'' = Some register_route"
  "map_of routes ''/api/v1/nodes/prepare'' = Some prepare_route"
  "map_of routes ''/api/v1/policy/command'' = Some command_route"
  "map_of routes ''/api/v1/policy/diag'' = Some diag_route"
  "map_of routes ''/api/v1/tasks'' = Some tasks_route"
  "map_of routes ''/api/v1/settings/geoip'' = Some geoip_route"
  "map_of routes ''/api/v1/settings/diag'' = Some diag_config_route"
  by (simp_all add: routes_def)

section \<open>Registration from the page\<close>

text \<open>What the page posts to the registration route, when it sets only some fields.\<close>

definition page_registration :: "string \<Rightarrow> bool \<Rightarrow> int \<Rightarrow> (string \<times> string) list \<Rightarrow> node_registration" where
  "page_registration nid force port eps = \<lparr>r_ID = nid, r_PublicKey = [], r_Endpoints = [],
     r_CIDRs = [], r_Force = force, r_ListenPort = port, r_OverlayIP = [], r_ASN = 0,
     r_RouterID = [], r_ProvisionToken = [], r_PeerEndpoints = eps\<rparr>"

lemma go_endpoint_payload:
  assumes "go_str_map (stringify (ed_endpoints s)) = Some m"
  shows "go_node_registration (stringify (endpoint_payload nid s)) = Some (page_registration nid True 0 m)"
  using assms
  by (cases "ed_endpoints s = Undef")
    (simp_all add: endpoint_payload_def go_node_registration_def page_registration_def)

lemma go_node_form_payload:
  assumes "js_number (js_or v (Number 8082)) = Number (of_int p)" and "- (2 ^ 63) \<le> p" "p < 2 ^ 63"
  shows "go_node_registration (stringify (node_form_payload (Str nid) v)) =
    Some (page_registration nid False p [])"
  using assms by (simp add: node_form_payload_def go_node_registration_def page_registration_def)

lemma page_registration_simps [simp]:
  "r_ProvisionToken (page_registration nid f p m) = []" "r_ID (page_registration nid f p m) = nid"
  "page_registration nid f p m\<lparr>r_ProvisionToken := []\<rparr> = page_registration nid f p m"
  by (simp_all add: page_registration_def)

lemma page_register:
  assumes "logged_in b envs origin" and "nid \<noteq> []"
    and "go_node_registration (stringify v) = Some (page_registration nid f p m)"
  shows "\<exists>x. api b (controller_fetch others envs origin) ''/api/v1/nodes/register'' (post_json v) (c, k) =
    (Inr x, (snd (register_save (envs k) (page_registration nid f p m) (GetNode nid (store c)) c), Suc k))"
proof -
  let ?r = "page_registration nid f p m"
  let ?rq = "api_request b ''/api/v1/nodes/register'' (post_json v)"
  have route: "register_route (envs k) [] ?rq c = register_save (envs k) ?r (GetNode nid (store c)) c"
    using assms by (simp add: register_route_def api_authFuncJWT Let_def)
  obtain x where "fst (register_save (envs k) ?r (GetNode nid (store c)) c) = writeJSON x"
    by (simp add: register_save_def Let_def case_prod_unfold)
  then have "register_route (envs k) [] ?rq c =
      (writeJSON x, snd (register_save (envs k) ?r (GetNode nid (store c)) c))"
    using route by (simp add: prod_eq_iff)
  from ctl_call [OF assms(1) post_json_simps(1) _ routes_simps(1) this] show ?thesis by simp
qed

lemma register_save_node:
  assumes "existing = None \<or> r_Force r"
  shows "\<exists>v. GetNode (r_ID r) (store (snd (register_save e r existing c))) =
    Some ((registered_node r existing)\<lparr>n_Version := v, n_ConfigVersion := v\<rparr>)"
proof -
  have id: "n_ID (registered_node r existing) = r_ID r"
    by (simp add: registered_node_def split: option.split)
  have "(case existing of
        Some x \<Rightarrow> if \<not> r_Force r \<and> nodeEqual x (registered_node r existing) then (x, store c)
          else UpsertNode (registered_node r existing) (store c)
      | None \<Rightarrow> UpsertNode (registered_node r existing) (store c))
    = UpsertNode (registered_node r existing) (store c)"
    using assms by (auto split: option.split)
  then show ?thesis
    using id by (auto simp: register_save_def Let_def case_prod_unfold GetNode_def UpsertNode_def)
qed

section \<open>Editing endpoints\<close>

text \<open>C37. Saving the endpoint dialog deletes the policy of the node: the node that is registered
  anew has no rules, no egress, no default route and no bypass networks, whatever it had, and
  the page reports success.  An emptied choice of endpoints on the other hand keeps the old
  one.\<close>

theorem endpoint_edit_deletes_policy:
  assumes "ctl_known b envs origin nid w" and "GetNode nid (store (fst w)) = Some x"
    and "go_str_map (stringify (ed_endpoints s)) = Some m"
    and "endpoint_submit b (controller_fetch others envs origin) nid s w = (s', w')"
  shows "\<exists>n. GetNode nid (store (fst w')) = Some n \<and> n_PolicyRules n = [] \<and> n_EgressPeerID n = []
    \<and> n_DefaultRoute n = False \<and> n_BypassCIDRs n = [] \<and> n_DefaultRouteNextHop n = []
    \<and> n_PeerEndpoints n = (if m = [] then n_PeerEndpoints x else m)
    \<and> ed_toasts s' = ed_toasts s @ [Success msg_endpoint_saved]"
proof -
  let ?r = "page_registration nid True 0 m"
  obtain c k where w: "w = (c, k)" by (cases w)
  have login: "logged_in b envs origin" "nid \<noteq> []" using assms(1) by (simp_all add: ctl_known_def)
  obtain y where y: "api b (controller_fetch others envs origin) ''/api/v1/nodes/register''
      (post_json (endpoint_payload nid s)) w = (Inr y, (snd (register_save (envs k) ?r (Some x) c), Suc k))"
    using page_register [OF login go_endpoint_payload [OF assms(3)], of others c k] assms(2) w by auto
  then have w': "fst w' = snd (register_save (envs k) ?r (Some x) c)"
    "ed_toasts s' = ed_toasts s @ [Success msg_endpoint_saved]"
    using assms(4) by (auto simp: endpoint_submit_def endpoint_submit_done_def endpoint_submit_start_def)
  obtain v where "GetNode nid (store (fst w')) =
      Some ((registered_node ?r (Some x))\<lparr>n_Version := v, n_ConfigVersion := v\<rparr>)"
    using register_save_node [of "Some x" ?r "envs k" c] w'(1) by (auto simp: page_registration_def)
  then show ?thesis
    using w'(2) by (simp add: registered_node_def page_registration_def)
qed

theorem endpoint_edit_deletes_policy_witness:
  "let s = \<lparr>ed_open = True, ed_loading = False, ed_endpoints = Obj [(''n2'', Str ''198.51.100.1:1'')], ed_toasts = []\<rparr>;
       w = (set_store (the (UpdatePolicy ''n1'' ''n2'' [\<lparr>pr_prefix = ''10.9.0.0/16'', pr_viaNode = ''n2'',
              pr_path = [], pr_domains = []\<rparr>] True [] [] ex_store)) ex_ctl, 0);
       w' = snd (endpoint_submit ex_browser ex_fetch ''n1'' s w)
   in map_option n_PolicyRules (GetNode ''n1'' (store (fst w))) \<noteq> Some []
      \<and> map_option n_PolicyRules (GetNode ''n1'' (store (fst w'))) = Some []"
proof -
  let ?s = "\<lparr>ed_open = True, ed_loading = False, ed_endpoints = Obj [(''n2'', Str ''198.51.100.1:1'')], ed_toasts = []\<rparr>"
  let ?rs = "[\<lparr>pr_prefix = ''10.9.0.0/16'', pr_viaNode = ''n2'', pr_path = [], pr_domains = []\<rparr>]"
  let ?w = "(set_store (the (UpdatePolicy ''n1'' ''n2'' ?rs True [] [] ex_store)) ex_ctl, 0::nat)"
  have "GetNode ''n1'' ex_store \<noteq> None" by (simp add: ex_nodes)
  then obtain m x where m: "UpdatePolicy ''n1'' ''n2'' ?rs True [] [] ex_store = Some m"
    "GetNode ''n1'' m = Some x" "n_PolicyRules x = ?rs"
    by (auto simp: UpdatePolicy_def GetNode_def)
  then have x: "GetNode ''n1'' (store (fst ?w)) = Some x" by simp
  then have known: "ctl_known ex_browser (\<lambda>_. ex_env) ''http://c'' ''n1'' ?w"
    by (simp add: ctl_known_def ex_logged_in)
  have "go_str_map (stringify (ed_endpoints ?s)) = Some [(''n2'', ''198.51.100.1:1'')]" by simp
  from endpoint_edit_deletes_policy [OF known x this prod.collapse [symmetric], of "\<lambda>_. None"] x m
  show ?thesis by (auto simp: Let_def)
qed

section \<open>Creating a node\<close>

text \<open>The install command resets a node that was created on the page: a node created with
  a port of its own has that port, but asking for its install command replaces the node by a
  fresh one that listens on 8082, because a node created on the page has no provision token.\<close>

theorem install_resets_created_node:
  assumes "logged_in b envs origin" and "nid \<noteq> []" and "GetNode nid (store (fst w)) = None"
    and "js_number (js_or v (Number 8082)) = Number (of_int p)" and "- (2 ^ 63) \<le> p" "p < 2 ^ 63"
    and "\<forall>k. e_keys (envs k) \<noteq> None"
    and "node_form_submit b (controller_fetch others envs origin) (Str nid) v s w = (s1, w1)"
    and "showInstall b (controller_fetch others envs origin) clip nid a w1 = (a2, w2)"
  shows "(\<exists>n. GetNode nid (store (fst w1)) = Some n \<and> n_ListenPort n = p \<and> n_ProvisionToken n = [])
    \<and> (\<exists>n. GetNode nid (store (fst w2)) = Some n \<and> n_ListenPort n = 8082 \<and> n_ProvisionToken n \<noteq> []
         \<and> ad_installOpen a2 \<and> ad_installText a2 = install_command (envs (snd w1)) nid (n_ProvisionToken n))"
proof -
  let ?r = "page_registration nid False p []"
  obtain c k where w: "w = (c, k)" by (cases w)
  obtain y where y: "api b (controller_fetch others envs origin) ''/api/v1/nodes/register''
      (post_json (node_form_payload (Str nid) v)) w = (Inr y, (snd (register_save (envs k) ?r None c), Suc k))"
    using page_register [OF assms(1,2) go_node_form_payload [OF assms(4-6)], of others c k] assms(3) w by auto
  then have w1: "w1 = (snd (register_save (envs k) ?r None c), Suc k)"
    using assms(8) by (simp add: node_form_submit_def)
  obtain u where "GetNode nid (store (fst w1)) =
      Some ((registered_node ?r None)\<lparr>n_Version := u, n_ConfigVersion := u\<rparr>)"
    using register_save_node [of None ?r "envs k" c] w1 by (auto simp: page_registration_def)
  then obtain n where n: "GetNode nid (store (fst w1)) = Some n" "n_ListenPort n = p" "n_ProvisionToken n = []"
    by (simp add: registered_node_def page_registration_def)
  obtain keys where keys: "e_keys (envs (Suc k)) = Some keys" using assms(7) by blast
  let ?c1 = "fst w1" and ?e = "envs (Suc k)"
  let ?n = "prepared_node ?e (store ?c1) nid keys"
  have id: "n_ID ?n = nid" "n_ListenPort ?n = 8082" "n_ProvisionToken ?n \<noteq> []"
    by (simp_all add: prepared_node_def Let_def)
  have "body go_prepare_request (api_request b ''/api/v1/nodes/prepare'' (post_json (install_payload nid))) = Some nid"
    by (simp add: go_prepare_request_def install_payload_def)
  then have "prepare_route ?e [] (api_request b ''/api/v1/nodes/prepare'' (post_json (install_payload nid))) ?c1
      = (writeJSON (json_prepared ?e ?n nid),
         BumpPlanVersion (set_store (snd (UpsertNode ?n (store ?c1))) ?c1))"
    using assms(1,2) n keys
    by (simp add: prepare_route_def guarded_ok api_authFuncJWT Let_def)
  from ctl_call [OF assms(1) post_json_simps(1) _ routes_simps(2) this, of others]
  have "api b (controller_fetch others envs origin) ''/api/v1/nodes/prepare'' (post_json (install_payload nid)) w1
      = (Inr (json_prepared ?e ?n nid), (BumpPlanVersion (set_store (snd (UpsertNode ?n (store ?c1))) ?c1), Suc (Suc k)))"
    using w1 by simp
  then have w2: "fst w2 = BumpPlanVersion (set_store (snd (UpsertNode ?n (store ?c1))) ?c1)"
    and a2: "a2 = showInstall_done clip (Inr (json_prepared ?e ?n nid)) a"
    using assms(9) by (auto simp: showInstall_def)
  have "install_command ?e nid (n_ProvisionToken ?n) \<noteq> []" by (simp add: install_command_def)
  then have "ad_installOpen a2 \<and> ad_installText a2 = install_command ?e nid (n_ProvisionToken ?n)"
    by (simp add: a2 showInstall_done_def json_prepared_def Let_def)
  moreover have "\<exists>n'. GetNode nid (store (fst w2)) = Some n' \<and> n_ListenPort n' = 8082
      \<and> n_ProvisionToken n' = n_ProvisionToken ?n"
    using id by (simp add: w2 GetNode_def UpsertNode_def Let_def)
  ultimately show ?thesis using n id(3) w1 by auto
qed

theorem install_resets_created_node_witness:
  "let f = \<lparr>nf_loading = False, nf_open = True, nf_toasts = []\<rparr>;
       a = \<lparr>ad_policyNode = Null, ad_installOpen = False, ad_installText = [], ad_endpointNode = Null,
            ad_settingsOpen = False, ad_menuKey = ''nodes'', ad_historyNode = Null, ad_diagNode = Null,
            ad_showNodeForm = False, ad_clipboard = [], ad_toasts = []\<rparr>;
       w1 = snd (node_form_submit ex_browser ex_fetch (Str ''n4'') (Str '' 9000 '') f ex_world);
       w2 = snd (showInstall ex_browser ex_fetch True ''n4'' a w1)
   in map_option n_ListenPort (GetNode ''n4'' (store (fst w1))) = Some 9000
      \<and> map_option n_ListenPort (GetNode ''n4'' (store (fst w2))) = Some 8082"
proof -
  let ?f = "\<lparr>nf_loading = False, nf_open = True, nf_toasts = []\<rparr>"
  let ?a = "\<lparr>ad_policyNode = Null, ad_installOpen = False, ad_installText = [], ad_endpointNode = Null,
            ad_settingsOpen = False, ad_menuKey = ''nodes'', ad_historyNode = Null, ad_diagNode = Null,
            ad_showNodeForm = False, ad_clipboard = [], ad_toasts = []\<rparr>"
  have trim: "js_trim '' 9000 '' = ''9000''" by code_simp
  have "decimal_value ''9000'' = Some 9000"
    by (simp add: decimal_value_def digit_val_def digits_val_def Let_def)
  then have port: "js_number (js_or (Str '' 9000 '') (Number 8082)) = Number (of_int 9000)"
    by (simp add: number_of_string_def trim Let_def)
  have none: "GetNode ''n4'' (store ex_ctl) = None" by (simp add: ex_world_def ex_nodes)
  have keys: "\<forall>k. e_keys ((\<lambda>_. ex_env) k) \<noteq> None" by (simp add: ex_env_def)
  let ?w1 = "snd (node_form_submit ex_browser ex_fetch (Str ''n4'') (Str '' 9000 '') ?f ex_world)"
  let ?r2 = "showInstall ex_browser ex_fetch True ''n4'' ?a ?w1"
  have "(\<exists>n. GetNode ''n4'' (store (fst ?w1)) = Some n \<and> n_ListenPort n = 9000 \<and> n_ProvisionToken n = [])
    \<and> (\<exists>n. GetNode ''n4'' (store (fst (snd ?r2))) = Some n \<and> n_ListenPort n = 8082 \<and> n_ProvisionToken n \<noteq> []
         \<and> ad_installOpen (fst ?r2)
         \<and> ad_installText (fst ?r2) = install_command ex_env ''n4'' (n_ProvisionToken n))"
    by (rule install_resets_created_node [OF ex_logged_in _ none port _ _ keys
        prod.collapse [symmetric] prod.collapse [symmetric]]) simp_all
  then show ?thesis unfolding Let_def by fastforce
qed

section \<open>Diagnosing and verifying\<close>

lemma js_array_items: "js_oget ''items'' (Obj [(''items'', v)]) = v"
  by simp

lemma last_item_js_array: "last_item (js_array f xs) = (if xs = [] then Null else f (last xs))"
  by (simp add: js_array_def last_map)

lemma diag_path_cut:
  "cut (CHR ''?'') (diag_path nid) = (''/api/v1/policy/diag'', setting ''nodeId'' nid @ ''&limit=1'')"
  using cut_path [of "''/api/v1/policy/diag''" "setting ''nodeId'' nid @ ''&limit=1''"]
  by (simp add: diag_path_def)

lemma diag_query:
  "query_get (setting ''nodeId'' nid @ ''&limit=1'') ''nodeId'' = nid"
  "query_limit (setting ''nodeId'' nid @ ''&limit=1'') ''limit'' 10 = 1"
proof -
  have enc: "encodeURIComponent ''1'' = ''1''" "Atoi ''1'' = Some 1" by code_simp+
  have "query_get (setting ''nodeId'' nid @ ''&limit=1'') ''limit'' = ''1''"
    using query_get_settings [of "[(''nodeId'', nid), (''limit'', ''1'')]" "''limit''" "''1''"] enc
    by (simp add: setting_def)
  then show "query_limit (setting ''nodeId'' nid @ ''&limit=1'') ''limit'' 10 = 1"
    using enc by (simp add: query_limit_def)
  show "query_get (setting ''nodeId'' nid @ ''&limit=1'') ''nodeId'' = nid"
    using query_get_settings [of "[(''nodeId'', nid), (''limit'', ''1'')]" "''nodeId''" nid] enc
    by (simp add: setting_def)
qed

lemma api_command:
  assumes "ctl_known b envs origin nid (c, k)"
  shows "\<exists>x. api b (controller_fetch others envs origin) ''/api/v1/policy/command'' (post_json (diag_command nid)) (c, k)
    = (Inr x, (hub_send nid (ws_message ''command'' nid (diag_command nid)) c, Suc k))"
proof -
  let ?rq = "api_request b ''/api/v1/policy/command'' (post_json (diag_command nid))"
  have login: "logged_in b envs origin" "nid \<noteq> []" using assms by (simp_all add: ctl_known_def)
  have "body go_cmd_request ?rq = Some \<lparr>cmd_NodeID = nid, cmd_Action = ''diag'', cmd_Data = []\<rparr>"
    by (simp add: go_cmd_request_def diag_command_def)
  then have "command_route (envs k) [] ?rq c = (writeJSON (Obj [(''status'', Str ''sent'')]),
      hub_send nid (ws_message ''command'' nid (diag_command nid)) c)"
    using login by (simp add: command_route_def guarded_ok api_authFuncJWT omit_data_def diag_command_def)
  from ctl_call [OF login(1) post_json_simps(1) _ routes_simps(3) this, of others] show ?thesis by simp
qed

lemma api_diag:
  assumes "ctl_known b envs origin nid (c, k)"
  shows "api b (controller_fetch others envs origin) (diag_path nid) get_options (c, k) =
    (Inr (Obj [(''items'', js_array (json_diag (e_rfc3339 (envs k)))
       (take_last 1 (slice_of (policyDiag (store c)) nid)))]), (c, Suc k))"
proof -
  have login: "logged_in b envs origin" "nid \<noteq> []" using assms by (simp_all add: ctl_known_def)
  have "diag_route (envs k) (setting ''nodeId'' nid @ ''&limit=1'') (api_request b (diag_path nid) get_options) c =
      (items (json_diag (e_rfc3339 (envs k))) (take_last 1 (slice_of (policyDiag (store c)) nid)), c)"
    using login by (simp add: diag_route_def guarded_ok api_authFuncJWT diag_query ListPolicyDiag_def
        limited_take_last Let_def)
  from api_controller [OF login(1) get_options_simps(1) diag_path_cut routes_simps(4) this, of others]
  show ?thesis by (simp add: items_def)
qed

text \<open>The diagnose button shows the newest diagnosis the controller had before the click: the
  command goes to the agent when it is connected, but the report is read at once, so what is
  shown is the last stored report of the node, or none, and never the answer to the command.\<close>

theorem diagnose_shows_stored_report:
  assumes "ctl_known b envs origin nid w"
    and "loadDiag b (controller_fetch others envs origin) nid s w = (s', w')"
  shows "pd_diag s' = (case slice_of (policyDiag (store (fst w))) nid of
        [] \<Rightarrow> Null
      | ds \<Rightarrow> json_diag (e_rfc3339 (envs (Suc (snd w)))) (last ds))
    \<and> pd_diagLoading s' = False \<and> pd_toasts s' = pd_toasts s \<and> store (fst w') = store (fst w)
    \<and> sent (fst w') = sent (fst w) @
        (if nid \<in> set (agents (fst w)) then [(nid, ws_message ''command'' nid (diag_command nid))] else [])"
proof -
  obtain c k where w: "w = (c, k)" by (cases w)
  let ?c = "hub_send nid (ws_message ''command'' nid (diag_command nid)) c"
  obtain x where x: "api b (controller_fetch others envs origin) ''/api/v1/policy/command''
      (post_json (diag_command nid)) (c, k) = (Inr x, (?c, Suc k))"
    using api_command assms(1) w by blast
  have "ctl_known b envs origin nid (?c, Suc k)" using assms(1) w by (simp add: ctl_known_def)
  note y = api_diag [OF this, of others]
  have "s' = loadDiag_done (Inr (Obj [(''items'', js_array (json_diag (e_rfc3339 (envs (Suc k))))
      (take_last 1 (slice_of (policyDiag (store c)) nid)))])) (loadDiag_sent (Inr x) s)" "w' = (?c, Suc (Suc k))"
    using assms(2) by (simp_all add: loadDiag_def w x y Let_def)
  then show ?thesis
    by (cases "slice_of (policyDiag (store c)) nid")
      (simp_all add: w loadDiag_done_def loadDiag_sent_def last_item_js_array hub_send_def Let_def)
qed

theorem diagnose_shows_stored_report_witness:
  "let w = (set_store (SavePolicyDiag 7 \<lparr>d_NodeID = ''n1'', d_Summary = ''ok'', d_Checks = [], d_Timestamp = 0\<rparr> ex_store) ex_ctl, 0)
   in pd_diag (fst (loadDiag ex_browser ex_fetch ''n1'' drawer_init w)) =
        Obj [(''nodeId'', Str ''n1''), (''summary'', Str ''ok''), (''checks'', Null), (''timestamp'', Str (show_int 7))]"
proof -
  let ?d = "\<lparr>d_NodeID = ''n1'', d_Summary = ''ok'', d_Checks = [], d_Timestamp = 0\<rparr>"
  let ?w = "(set_store (SavePolicyDiag 7 ?d ex_store) ex_ctl, 0::nat)"
  have "policyDiag ex_store = []"
    by (simp add: ex_store_def NewMemoryStore_def UpsertNode_def Let_def)
  then have "slice_of (policyDiag (store (fst ?w))) ''n1'' = [?d\<lparr>d_Timestamp := 7\<rparr>]"
    by (simp add: diag_log.entries_save stamp_diag_def take_last_def)
  moreover have "nodes (store (fst ?w)) = nodes ex_store" by simp
  then have "ctl_known ex_browser (\<lambda>_. ex_env) ''http://c'' ''n1'' ?w"
    using nodes_cong(1) [of "store (fst ?w)" ex_store "''n1''"] by (simp add: ctl_known_def ex_logged_in ex_nodes)
  ultimately show ?thesis
    using diagnose_shows_stored_report [OF _ prod.collapse [symmetric], of ex_browser "\<lambda>_. ex_env" "''http://c''" "''n1''" ?w "\<lambda>_. None" drawer_init]
    by (simp add: Let_def json_diag_def js_list_def ex_env_def)
qed

text \<open>A triggered verification appears at once at the end of the task list: after the verify
  button, with a task id that is new and a clock that does not go back, the last task shown is
  the one created, running, with its dispatch step, and the success message is shown.\<close>

theorem verify_task_is_listed:
  assumes "ctl_known b envs origin nid w"
    and "map_of (tasks (store (fst w))) (e_uuid (envs (snd w))) = None"
    and "\<forall>x\<in>snd ` set (tasks (store (fst w))). t_CreatedAt x \<le> e_now (envs (snd w))"
    and "runVerify b (controller_fetch others envs origin) nid s w = (s', w')"
  shows "\<exists>ts. pd_tasks s' = Arr ts \<and> ts \<noteq> [] \<and>
      last ts = json_task (e_rfc3339 (envs (Suc (snd w))))
        \<lparr>t_ID = e_uuid (envs (snd w)), t_NodeID = nid, t_Targets = [nid], t_Type = ''verify'',
         t_Status = ''running'', t_OverallStatus = ''running'',
         t_Steps = [dispatch_step (envs (snd w)) ''sending to agents''],
         t_CreatedAt = e_now (envs (snd w)), t_UpdatedAt = e_now (envs (snd w))\<rparr>
    \<and> pd_toasts s' = pd_toasts s @ [Success msg_verify_triggered] \<and> pd_verifyLoading s' = False"
proof -
  obtain c k where w: "w = (c, k)" by (cases w)
  let ?e = "envs k"
  let ?t = "\<lparr>t_ID = e_uuid ?e, t_NodeID = nid, t_Targets = [nid], t_Type = ''verify'',
         t_Status = ''running'', t_OverallStatus = ''running'',
         t_Steps = [dispatch_step ?e ''sending to agents''], t_CreatedAt = e_now ?e, t_UpdatedAt = e_now ?e\<rparr>"
  let ?d = "\<lparr>tk_NodeID = nid, tk_Targets = [], tk_Type = ''verify'', tk_VerifyTargets = [], tk_Data = []\<rparr>"
  let ?c = "hub_send nid (ws_message ''task'' nid (task_payload ?e ?d)) (set_store (SaveTask (e_now ?e) ?t (store c)) c)"
  let ?rq = "api_request b ''/api/v1/tasks'' (post_json (verify_task nid))"
  have login: "logged_in b envs origin" "nid \<noteq> []" using assms(1) by (simp_all add: ctl_known_def)
  have "body go_task_request ?rq = Some ?d" by (simp add: go_task_request_def verify_task_def)
  then have "tasks_route ?e [] ?rq c = (writeJSON (json_task (e_rfc3339 ?e) ?t), ?c)"
    using login by (simp add: tasks_route_def task_post_def guarded_ok api_authFuncJWT Let_def)
  from ctl_call [OF login(1) post_json_simps(1) _ routes_simps(5) this, of others]
  have post: "api b (controller_fetch others envs origin) ''/api/v1/tasks'' (post_json (verify_task nid)) (c, k)
      = (Inr (json_task (e_rfc3339 ?e) ?t), (?c, Suc k))" by simp
  have "tasks_route (envs (Suc k)) (setting ''nodeId'' nid) (api_request b (tasks_path nid) get_options) ?c =
      (items (json_task (e_rfc3339 (envs (Suc k)))) (ListTasks nid 50 (store ?c)), ?c)"
    using login by (simp add: tasks_route_def guarded_ok api_authFuncJWT query_get_setting)
  moreover have "cut (CHR ''?'') (tasks_path nid) = (''/api/v1/tasks'', setting ''nodeId'' nid)"
    using cut_path [of "''/api/v1/tasks''" "setting ''nodeId'' nid"] by (simp add: tasks_path_def)
  ultimately have get: "api b (controller_fetch others envs origin) (tasks_path nid) get_options (?c, Suc k)
      = (Inr (Obj [(''items'', js_array (json_task (e_rfc3339 (envs (Suc k)))) (ListTasks nid 50 (store ?c)))]),
         (?c, Suc (Suc k)))"
    using api_controller [OF login(1) get_options_simps(1) _ routes_simps(5), where k = "Suc k" and others = others]
    by (simp add: items_def)
  have "ListTasks nid 50 (store ?c) \<noteq> [] \<and> last (ListTasks nid 50 (store ?c)) = ?t"
    using last_ListTasks [of "store c" ?t "e_now ?e" nid 50] assms(2,3) w by simp
  then show ?thesis
    using assms(4) by (auto simp: w runVerify_def runVerify_done_def runVerify_start_def post get
        loadTasks_done_def js_array_def last_map)
qed

theorem verify_task_is_listed_witness:
  "\<exists>ts. pd_tasks (fst (runVerify ex_browser ex_fetch ''n1'' drawer_init ex_world)) = Arr ts
     \<and> js_oget ''id'' (last ts) = Str ''task-1''"
proof -
  have none: "tasks (store ex_ctl) = []"
    by (simp add: ex_world_def ex_store_def NewMemoryStore_def UpsertNode_def Let_def)
  then have "\<exists>ts. pd_tasks (fst (runVerify ex_browser ex_fetch ''n1'' drawer_init ex_world)) = Arr ts \<and> ts \<noteq> [] \<and>
      last ts = json_task (e_rfc3339 ex_env)
        \<lparr>t_ID = e_uuid ex_env, t_NodeID = ''n1'', t_Targets = [''n1''], t_Type = ''verify'',
         t_Status = ''running'', t_OverallStatus = ''running'',
         t_Steps = [dispatch_step ex_env ''sending to agents''],
         t_CreatedAt = e_now ex_env, t_UpdatedAt = e_now ex_env\<rparr>"
    using verify_task_is_listed [OF ex_known _ _ prod.collapse [symmetric], of "''n1''" "\<lambda>_. None" drawer_init] by auto
  then show ?thesis by (auto simp: json_task_def ex_env_def omit_defs)
qed

section \<open>Settings\<close>

definition field :: "string \<Rightarrow> settings_card \<Rightarrow> jsval" where
  "field k s = js_lookup k (sc_form s)"

lemma routes_get_settings:
  assumes "logged_in b envs origin"
  shows "api b (controller_fetch others envs origin) ''/api/v1/settings/geoip'' get_options (c, k) =
    (Inr (json_geoip (s_GeoIP (loadSettingsOrDefault (store c)))), (c, Suc k))"
proof -
  have "geoip_route (envs k) [] (api_request b ''/api/v1/settings/geoip'' get_options) c =
      (writeJSON (json_geoip (s_GeoIP (loadSettingsOrDefault (store c)))), c)"
    using assms by (simp add: geoip_route_def guarded_ok api_authFuncJWT)
  from ctl_call [OF assms get_options_simps(1) _ routes_simps(6) this, of others] show ?thesis by simp
qed

text \<open>Saved GeoIP settings are the ones shown afterwards: when the four fields are filled in,
  saving reports success and the card opened next shows exactly these values.\<close>

theorem geoip_save_then_load:
  assumes "logged_in b envs origin"
    and "sc_form s = [(''sourceV4'', Str v4), (''sourceV6'', Str v6), (''cacheDir'', Str dir), (''cacheTtl'', Str ttl)]"
    and "v4 \<noteq> []" "v6 \<noteq> []" "dir \<noteq> []" "ttl \<noteq> []"
    and "geoip_card_save b (controller_fetch others envs origin) s w = ((s1, changed), w1)"
    and "geoip_card_load b (controller_fetch others envs origin) s0 w1 = (s2, w2)"
  shows "changed \<and> sc_toasts s1 = sc_toasts s @ [Success msg_geoip_saved] \<and> \<not> sc_loading s1
    \<and> field ''sourceV4'' s2 = Str v4 \<and> field ''sourceV6'' s2 = Str v6
    \<and> field ''cacheDir'' s2 = Str dir \<and> field ''cacheTtl'' s2 = Str ttl \<and> sc_toasts s2 = sc_toasts s0"
proof -
  obtain c k where w: "w = (c, k)" by (cases w)
  let ?g = "\<lparr>g_SourceV4 = v4, g_SourceV6 = v6, g_CacheDir = dir, g_CacheTTL = ttl\<rparr>"
  let ?c = "set_store (UpdateSettings ((loadSettingsOrDefault (store c))\<lparr>s_GeoIP := ?g\<rparr>) (store c)) c"
  have "body go_geoip (api_request b ''/api/v1/settings/geoip'' (post_json (Obj (sc_form s)))) = Some ?g"
    using assms(2) by (simp add: go_geoip_def)
  then have "geoip_route (envs k) [] (api_request b ''/api/v1/settings/geoip'' (post_json (Obj (sc_form s)))) c
      = (writeJSON (json_geoip ?g), ?c)"
    using assms(1,3-6) by (simp add: geoip_route_def guarded_ok api_authFuncJWT Let_def)
  from ctl_call [OF assms(1) post_json_simps(1) _ routes_simps(6) this, of others]
  have post: "api b (controller_fetch others envs origin) ''/api/v1/settings/geoip'' (post_json (Obj (sc_form s))) (c, k)
      = (Inr (json_geoip ?g), (?c, Suc k))" by simp
  have "s_GeoIP (loadSettingsOrDefault (store ?c)) = ?g"
    using assms(3-6) by (simp add: loadSettingsOrDefault_def GetSettings_def UpdateSettings_def Let_def)
  note get = routes_get_settings [OF assms(1), of others ?c "Suc k", unfolded this]
  show ?thesis
    using assms(7,8) by (auto simp: w geoip_card_save_def geoip_card_load_def post get card_save_done_def
        card_load_done_def json_geoip_def field_def)
qed

theorem geoip_save_then_load_witness:
  "let s = \<lparr>sc_form = [(''sourceV4'', Str ''http://a/%s''), (''sourceV6'', Str ''http://b/%s''),
         (''cacheDir'', Str ''/tmp/x''), (''cacheTtl'', Str ''12h'')], sc_loading = False, sc_toasts = []\<rparr>;
       w1 = snd (geoip_card_save ex_browser ex_fetch s ex_world)
   in field ''cacheTtl'' (fst (geoip_card_load ex_browser ex_fetch (s\<lparr>sc_form := []\<rparr>) w1)) = Str ''12h''"
proof -
  let ?s = "\<lparr>sc_form = [(''sourceV4'', Str ''http://a/%s''), (''sourceV6'', Str ''http://b/%s''),
         (''cacheDir'', Str ''/tmp/x''), (''cacheTtl'', Str ''12h'')], sc_loading = False, sc_toasts = []\<rparr>"
  obtain s1 ch w1 where save: "geoip_card_save ex_browser ex_fetch ?s ex_world = ((s1, ch), w1)"
    by (metis surj_pair)
  then show ?thesis
    using geoip_save_then_load [OF ex_logged_in _ _ _ _ _ save prod.collapse [symmetric], of _ _ _ _ "?s\<lparr>sc_form := []\<rparr>"]
    by (simp add: Let_def)
qed

end
