(* ===== verification/Go_Properties.thy ===== *)
theory Go_Properties
  imports Example
begin

text \<open>
  Properties of the controller as a whole: what its routes refuse, and what
  single requests do to the state.
\<close>

text \<open>The plan stored after a health report is not the node's plan: it is built for a node of
  which only the id is set, so whatever the node's networks, addresses, egress and default
  route are, the new current plan of the reporting node has none of them, and another node
  that was reported down is still a peer.\<close>

theorem health_report_stores_bare_plan:
  assumes "body (go_health e) rq = Some h" and "h_NodeID h \<noteq> []"
    and "authFuncJWT e rq \<or> agentAuthorized (store c) (h_NodeID h) (header ''X-Provision-Token'' rq)"
    and "health_post e rq c = (r, c')"
    and "m \<in> set (ListNodes (store c))" "n_ID m \<noteq> h_NodeID h" "n_CIDRs m \<noteq> []" "n_PublicKey m \<noteq> []"
  shows "\<exists>p. GetPlan (h_NodeID h) (store c') = Some p \<and> pl_Routes p = [] \<and> pl_EgressPeerID p = []
    \<and> pl_DefaultRoute p = False \<and> pl_BypassCIDRs p = [] \<and> pl_PeerEndpoints p = []
    \<and> peer_of m \<in> set (pl_Peers p)"
proof -
  let ?h = "h\<lparr>h_Timestamp := e_now e\<rparr>" and ?n = "node_zero\<lparr>n_ID := h_NodeID h\<rparr>"
  let ?c1 = "set_store (SaveHealth (e_now e) ?h (store c)) c"
  let ?ps = "BuildPeerPlan (h_NodeID h) (ListNodes (store ?c1)) [(h_NodeID h, ?h)]"
  let ?rs = "slice_of (expandPolicyRules (ListNodes (store ?c1))) (h_NodeID h)"
  have "health_post e rq c = (status_ok, c')"
    using assms(1-4) by (auto simp: health_post_def Let_def)
  then have "GetPlan (h_NodeID h) (store c') = GetPlan (n_ID ?n) (store (savePlanWithRules e ?n ?ps ?rs ?c1))"
    using assms(1-3) by (auto simp: health_post_def Let_def)
  moreover have "eligible (h_NodeID h) [(h_NodeID h, ?h)] m"
    using assms(6-8) by (simp add: eligible_def)
  then have "peer_of m \<in> set ?ps"
    using assms(5) by (simp add: set_BuildPeerPlan ListNodes_def)
  ultimately show ?thesis using GetPlan_savePlan [of ?n e ?ps ?rs ?c1] by (simp add: node_zero_def)
qed

theorem health_report_stores_bare_plan_witness:
  "let rq = \<lparr>rq_url = [], rq_method = ''POST'', rq_headers = ex_headers,
         rq_body = Some (Obj [(''nodeId'', Str ''n1''), (''status'', Str ''up'')])\<rparr>
   in \<exists>p. GetPlan ''n1'' (store (snd (health_post ex_env rq ex_ctl))) = Some p \<and> pl_Routes p = []
      \<and> n_CIDRs (the (GetNode ''n1'' (store ex_ctl))) = [''10.20.0.0/16'']"
proof -
  let ?rq = "\<lparr>rq_url = [], rq_method = ''POST'', rq_headers = ex_headers,
         rq_body = Some (Obj [(''nodeId'', Str ''n1''), (''status'', Str ''up'')])\<rparr>"
  let ?h = "\<lparr>h_NodeID = ''n1'', h_Status = ''up'', h_LatencyMs = [], h_PacketLoss = [], h_FRRState = [],
         h_Timestamp = 0\<rparr>"
  have b: "body (go_health ex_env) ?rq = Some ?h" by (simp add: body_def go_health_def)
  have "GetNode ''n2'' ex_store \<noteq> None" by (simp add: ex_nodes)
  then have m: "the (GetNode ''n2'' ex_store) \<in> set (ListNodes (store ex_ctl))"
    by (force simp: ex_world_def GetNode_def ListNodes_def dest: map_of_SomeD)
  show ?thesis
    using health_report_stores_bare_plan [OF b _ disjI1 [OF ex_jwt] prod.collapse [symmetric] m]
    by (auto simp: Let_def ex_nodes ex_node_def node_zero_def ex_world_def)
qed

lemma guarded_refuses: "\<not> authFuncJWT e rq \<Longrightarrow> snd (guarded e rq c r) = c"
  by (simp add: guarded_def)

text \<open>
  Three routes accept the provision token of a node in the place of a bearer token.  The nodes a request
  names, and the provision tokens it carries: the header, and the body of a registration.
\<close>

definition named_nodes :: "env \<Rightarrow> string \<Rightarrow> request \<Rightarrow> string list" where
  "named_nodes e q rq = query_get q ''nodeId''
     # (case body go_node_registration rq of None \<Rightarrow> [] | Some r \<Rightarrow> [r_ID r])
     @ (case body (go_health e) rq of None \<Rightarrow> [] | Some r \<Rightarrow> [h_NodeID r])"

definition carried_tokens :: "request \<Rightarrow> string list" where
  "carried_tokens rq = header ''X-Provision-Token'' rq
     # (case body go_node_registration rq of None \<Rightarrow> [] | Some r \<Rightarrow> [r_ProvisionToken r])"

definition provisioned :: "env \<Rightarrow> string \<Rightarrow> request \<Rightarrow> mem_store \<Rightarrow> bool" where
  "provisioned e q rq m \<longleftrightarrow>
     list_ex (\<lambda>k. case GetNode k m of
         None \<Rightarrow> False
       | Some n \<Rightarrow> n_ProvisionToken n \<noteq> [] \<and> n_ProvisionToken n \<in> set (carried_tokens rq)) (named_nodes e q rq)"

lemma not_provisioned:
  assumes "\<not> provisioned e q rq m" and "k \<in> set (named_nodes e q rq)" and "GetNode k m = Some n"
  shows "n_ProvisionToken n = [] \<or> n_ProvisionToken n \<notin> set (carried_tokens rq)"
  using assms by (auto simp: provisioned_def list_ex_iff)

lemma not_authorized:
  assumes "\<not> provisioned e q rq m" and "k \<in> set (named_nodes e q rq)"
  shows "\<not> agentAuthorized m k (header ''X-Provision-Token'' rq)"
  using not_provisioned [OF assms] by (auto simp: agentAuthorized_def carried_tokens_def split: option.split)

lemma unprovisioned_refuse:
  assumes "\<not> authFuncJWT e rq" and "\<not> provisioned e q rq (store c)"
  shows "snd (health_route e q rq c) = c" "snd (plan_route e q rq c) = c" "snd (register_route e q rq c) = c"
proof -
  have "\<not> agentAuthorized (store c) (h_NodeID r) (header ''X-Provision-Token'' rq)"
    if "body (go_health e) rq = Some r" for r
    using that by (intro not_authorized [OF assms(2)]) (simp add: named_nodes_def)
  then show "snd (health_route e q rq c) = c"
    using assms(1) by (auto simp: health_route_def health_post_def Let_def split: option.split)
  have "\<not> agentAuthorized (store c) (query_get q ''nodeId'') (header ''X-Provision-Token'' rq)"
    by (intro not_authorized [OF assms(2)]) (simp add: named_nodes_def)
  then show "snd (plan_route e q rq c) = c" using assms(1) by (simp add: plan_route_def Let_def)
  show "snd (register_route e q rq c) = c"
  proof (cases "body go_node_registration rq")
    case None
    then show ?thesis by (simp add: register_route_def)
  next
    case (Some r)
    then have named: "r_ID r \<in> set (named_nodes e q rq)"
      and token: "r_ProvisionToken r \<in> set (carried_tokens rq)" "header ''X-Provision-Token'' rq \<in> set (carried_tokens rq)"
      by (simp_all add: named_nodes_def carried_tokens_def)
    have "n_ProvisionToken n = [] \<or> n_ProvisionToken n \<noteq> r_ProvisionToken r \<and> n_ProvisionToken n \<noteq> header ''X-Provision-Token'' rq"
      if "GetNode (r_ID r) (store c) = Some n" for n
      using not_provisioned [OF assms(2) named that] token by metis
    then show ?thesis using Some assms(1) by (auto simp: register_route_def Let_def split: option.split)
  qed
qed

lemma auth_routes_keep:
  "snd (handleLogin e q rq c) = c"
  "snd (handleRegister e q rq c) = c \<or> users c = [] \<and> (\<exists>u. snd (handleRegister e q rq c) = c\<lparr>users := [u]\<rparr>)"
  by (auto simp: handleLogin_def handleRegister_def create_user_def count_users_def Let_def split: option.split)

text \<open>C9. Without a valid token nothing changes: a request whose bearer token is not accepted leaves
  the whole state as it was (the cached locations of addresses are state, too), on every HTTP route of
  the controller, unless it carries, in the header or the body, the provision token of the very node
  it names; an unknown node, a wrong token and the token of another node do not help.  The exception
  is the first registration, which needs no token and adds the first user.  The WebSocket endpoints are
  not among these routes.\<close>

theorem unauthenticated_requests_change_nothing:
  assumes "\<not> authFuncJWT e rq" and "\<not> provisioned e (snd (cut (CHR ''?'') target)) rq (store c)"
  shows "snd (serve (\<lambda>_. None) e target rq c) = c
    \<or> fst (cut (CHR ''?'') target) = ''/api/v1/auth/register'' \<and> users c = []
      \<and> (\<exists>u. snd (serve (\<lambda>_. None) e target rq c) = c\<lparr>users := [u]\<rparr>)"
proof -
  obtain p q where pq: "cut (CHR ''?'') target = (p, q)" by (cases "cut (CHR ''?'') target")
  have "\<not> provisioned e q rq (store c)" using assms(2) pq by simp
  note refuse = guarded_refuses [OF assms(1)] unprovisioned_refuse [OF assms(1) this]
  have all: "\<forall>(p, h)\<in>set routes. p \<noteq> ''/api/v1/auth/register'' \<longrightarrow> snd (h e q rq c) = c"
    using assms(1)
    by (simp add: routes_def refuse policy_route_def status_route_def diag_route_def
        command_route_def tasks_route_def prepare_route_def geoip_route_def diag_config_route_def
        nodes_route_def health_history_route_def audit_route_def plan_history_route_def
        rollback_route_def mesh_route_def diagnose_route_def info_route_def healthz_route_def
        version_route_def auth_routes_keep(1))
  have h: "snd (h e q rq c) = c" if "map_of routes p = Some h" "p \<noteq> ''/api/v1/auth/register''" for h p
    using map_of_SomeD [OF that(1)] that(2) bspec [OF all, of "(p, h)"] by simp
  have reg: "map_of routes ''/api/v1/auth/register'' = Some handleRegister" by (simp add: routes_def)
  show ?thesis
  proof (cases "p = ''/api/v1/auth/register''")
    case True
    then show ?thesis using pq reg auth_routes_keep(2) [of e q rq c] by (auto simp: serve_def)
  next
    case False
    then show ?thesis using pq h by (auto simp: serve_def split: option.splits)
  qed
qed

text \<open>A node with a provision token, and a report for it that carries another one.\<close>

definition ex_provisioned :: controller where
  "ex_provisioned = set_store (snd (UpsertNode ((ex_node ''n1'')\<lparr>n_ProvisionToken := ''pt-7''\<rparr>) NewMemoryStore)) ex_ctl"

theorem unauthenticated_requests_change_nothing_witness:
  "let rq = \<lparr>rq_url = [], rq_method = ''POST'',
         rq_headers = [(''Authorization'', ''Bearer forged''), (''X-Provision-Token'', ''pt-8'')],
         rq_body = Some (Obj [(''nodeId'', Str ''n1'')])\<rparr>
   in snd (serve (\<lambda>_. None) ex_env ''/api/v1/health'' rq ex_provisioned) = ex_provisioned
      \<and> map_option n_ProvisionToken (GetNode ''n1'' (store ex_provisioned)) = Some ''pt-7''"
proof -
  let ?rq = "\<lparr>rq_url = [], rq_method = ''POST'',
         rq_headers = [(''Authorization'', ''Bearer forged''), (''X-Provision-Token'', ''pt-8'')],
         rq_body = Some (Obj [(''nodeId'', Str ''n1'')])\<rparr>"
  have get: "GetNode k (store ex_provisioned) = (if k = ''n1'' then Some ((ex_node k)\<lparr>n_ProvisionToken := ''pt-7'',
      n_Version := versionString 1, n_ConfigVersion := versionString 1\<rparr>) else None)" for k
    by (simp add: ex_provisioned_def UpsertNode_def ex_node_def node_zero_def GetNode_def NewMemoryStore_def Let_def)
  have "\<not> authFuncJWT ex_env ?rq" by (simp add: authFuncJWT_def header_def ex_env_def)
  moreover have "carried_tokens ?rq = [''pt-8'', []]"
    by (simp add: carried_tokens_def header_def body_def go_node_registration_def)
  then have "\<not> provisioned ex_env (snd (cut (CHR ''?'') ''/api/v1/health'')) ?rq (store ex_provisioned)"
    by (simp add: provisioned_def get list_ex_iff)
  moreover have "fst (cut (CHR ''?'') ''/api/v1/health'') \<noteq> ''/api/v1/auth/register''" by simp
  ultimately show ?thesis
    using unauthenticated_requests_change_nothing [of ex_env ?rq "''/api/v1/health''" ex_provisioned] get by simp
qed

text \<open>A rollback that is refused still takes effect: when the stored signature of the plan does
  not match, the answer is an error, and yet the plan has become the current plan of the node
  and the global version has moved to it.\<close>

theorem refused_rollback_changes_plan:
  assumes "authFuncJWT e rq" and "rq_method rq = ''POST''"
    and "body go_rollback_request rq = Some (nid, v)" and "nid \<noteq> []"
    and "RollbackPlan nid v (store c) = Some (p, m)" and "pl_Signature p \<noteq> []"
    and "pl_Signature p \<noteq> signPlan e (node_zero\<lparr>n_ID := pl_NodeID p, n_CIDRs := pl_Routes p\<rparr>)
      (pl_Peers p) (pl_ConfigVersion p)"
    and "rollback_route e q rq c = (r, c')"
  shows "rs_status r = 400 \<and> GetPlan nid (store c') = Some p \<and> globalPlanVersion (store c') = v
    \<and> planVersion c' = planVersion c"
proof -
  have "r = http_error ''rollback signature mismatch'' 400 \<and> c' = set_store m c"
    using assms by (auto simp: rollback_route_def guarded_def)
  then show ?thesis
    using assms(5) by (auto simp: RollbackPlan_def GetPlan_def split: option.splits)
qed

theorem refused_rollback_changes_plan_witness:
  "let c = set_store (SavePlan ((sample_plan 2)\<lparr>pl_Signature := ''forged''\<rparr>) (store ex_ctl)) ex_ctl;
       (r, c') = rollback_route ex_env [] \<lparr>rq_url = [], rq_method = ''POST'', rq_headers = ex_headers,
         rq_body = Some (Obj [(''nodeId'', Str ''a''), (''version'', Number 2)])\<rparr> c
   in rs_status r = 400 \<and> GetPlan ''a'' (store c') = Some ((sample_plan 2)\<lparr>pl_Signature := ''forged''\<rparr>)"
proof -
  let ?p = "(sample_plan 2)\<lparr>pl_Signature := ''forged''\<rparr>"
  let ?c = "set_store (SavePlan ?p (store ex_ctl)) ex_ctl"
  let ?rq = "\<lparr>rq_url = [], rq_method = ''POST'', rq_headers = ex_headers,
         rq_body = Some (Obj [(''nodeId'', Str ''a''), (''version'', Number 2)])\<rparr>"
  have b: "body go_rollback_request ?rq = Some (''a'', 2)" by (simp add: body_def go_rollback_request_def)
  have "slice_of (history (store ?c)) ''a'' = [?p]"
    by (simp add: plan_log.entries_save)
      (simp add: ex_world_def ex_store_def NewMemoryStore_def UpsertNode_def Let_def sample_plan_def take_last_def)
  then obtain m where m: "RollbackPlan ''a'' 2 (store ?c) = Some (?p, m)"
    by (simp add: RollbackPlan_def sample_plan_def)
  show ?thesis
    using refused_rollback_changes_plan [OF ex_jwt _ b _ m _ _ prod.collapse [symmetric], of "[]"]
    by (simp add: case_prod_unfold Let_def sample_plan_def signPlan_def ex_env_def node_zero_def)
qed

end
