(* ===== verification/Ui_Labels.thy ===== *)
theory Ui_Labels
  imports Prelude
begin

text \<open>
  The labels of the rendered page, byte by byte in UTF-8; each comment gives the meaning in
  English and the file.  Texts that depend on data or that a handler shows are in the
  theory of messages.
\<close>

\<comment> \<open>PolicyDrawer.jsx: new rule\<close>
definition lbl_new_rule :: string where
  "lbl_new_rule =
     [CHR 0xE6, CHR 0x96, CHR 0xB0, CHR 0xE5, CHR 0xA2, CHR 0x9E,
      CHR 0xE8, CHR 0xA7, CHR 0x84, CHR 0xE5, CHR 0x88, CHR 0x99]"

\<comment> \<open>PolicyDrawer.jsx: prefix or geoip:CN\<close>
definition lbl_prefix_hint :: string where
  "lbl_prefix_hint =
     [CHR 0xE5, CHR 0x89, CHR 0x8D, CHR 0xE7, CHR 0xBC, CHR 0x80,
      CHR 0xE6, CHR 0x88, CHR 0x96] @ '' geoip:CN''"

\<comment> \<open>PolicyDrawer.jsx: domains, separated by commas\<close>
definition lbl_domains_hint :: string where
  "lbl_domains_hint =
     [CHR 0xE5, CHR 0x9F, CHR 0x9F, CHR 0xE5, CHR 0x90, CHR 0x8D] @ '','' @ [CHR 0xE9, CHR 0x80, CHR 0x97, CHR 0xE5, CHR 0x8F, CHR 0xB7,
      CHR 0xE5, CHR 0x88, CHR 0x86, CHR 0xE9, CHR 0x9A, CHR 0x94]"

\<comment> \<open>PolicyDrawer.jsx: the via node is required\<close>
definition lbl_via_required :: string where
  "lbl_via_required =
     [CHR 0xE7, CHR 0xBB, CHR 0x8F, CHR 0xE7, CHR 0x94, CHR 0xB1,
      CHR 0xE8, CHR 0x8A, CHR 0x82, CHR 0xE7, CHR 0x82, CHR 0xB9,
      CHR 0xE5, CHR 0xBF, CHR 0x85, CHR 0xE5, CHR 0xA1, CHR 0xAB]"

\<comment> \<open>PolicyDrawer.jsx: via node\<close>
definition lbl_via_hint :: string where
  "lbl_via_hint =
     [CHR 0xE7, CHR 0xBB, CHR 0x8F, CHR 0xE7, CHR 0x94, CHR 0xB1,
      CHR 0xE8, CHR 0x8A, CHR 0x82, CHR 0xE7, CHR 0x82, CHR 0xB9]"

\<comment> \<open>PolicyDrawer.jsx: leave locally\<close>
definition lbl_local :: string where
  "lbl_local =
     [CHR 0xE6, CHR 0x9C, CHR 0xAC, CHR 0xE5, CHR 0x9C, CHR 0xB0,
      CHR 0xE7, CHR 0x9B, CHR 0xB4, CHR 0xE5, CHR 0x87, CHR 0xBA]"

\<comment> \<open>PolicyDrawer.jsx: add\<close>
definition lbl_add :: string where
  "lbl_add =
     [CHR 0xE6, CHR 0xB7, CHR 0xBB, CHR 0xE5, CHR 0x8A, CHR 0xA0]"

\<comment> \<open>PolicyDrawer.jsx: no policy rules\<close>
definition lbl_no_rules :: string where
  "lbl_no_rules =
     [CHR 0xE6, CHR 0x97, CHR 0xA0, CHR 0xE7, CHR 0xAD, CHR 0x96,
      CHR 0xE7, CHR 0x95, CHR 0xA5, CHR 0xE8, CHR 0xA7, CHR 0x84,
      CHR 0xE5, CHR 0x88, CHR 0x99]"

\<comment> \<open>PolicyDrawer.jsx: configured rules\<close>
definition lbl_rules :: string where
  "lbl_rules =
     [CHR 0xE5, CHR 0xB7, CHR 0xB2, CHR 0xE9, CHR 0x85, CHR 0x8D,
      CHR 0xE7, CHR 0xBD, CHR 0xAE, CHR 0xE8, CHR 0xA7, CHR 0x84,
      CHR 0xE5, CHR 0x88, CHR 0x99]"

\<comment> \<open>PolicyDrawer.jsx: remove\<close>
definition lbl_remove :: string where
  "lbl_remove =
     [CHR 0xE5, CHR 0x88, CHR 0xA0, CHR 0xE9, CHR 0x99, CHR 0xA4]"

\<comment> \<open>PolicyDrawer.jsx: connect on the map to fix the path\<close>
definition lbl_path_title :: string where
  "lbl_path_title =
     [CHR 0xE5, CHR 0x9C, CHR 0xB0, CHR 0xE5, CHR 0x9B, CHR 0xBE,
      CHR 0xE8, CHR 0xBF, CHR 0x9E, CHR 0xE7, CHR 0xBA, CHR 0xBF,
      CHR 0xEF, CHR 0xBC, CHR 0x8C, CHR 0xE7, CHR 0xA1, CHR 0xAE,
      CHR 0xE5, CHR 0xAE, CHR 0x9A, CHR 0xE8, CHR 0xB7, CHR 0xAF,
      CHR 0xE5, CHR 0xBE, CHR 0x84]"

\<comment> \<open>PolicyDrawer.jsx: chosen path:\<close>
definition lbl_chosen_path :: string where
  "lbl_chosen_path =
     [CHR 0xE5, CHR 0xB7, CHR 0xB2, CHR 0xE9, CHR 0x80, CHR 0x89,
      CHR 0xE8, CHR 0xB7, CHR 0xAF, CHR 0xE5, CHR 0xBE, CHR 0x84,
      CHR 0xEF, CHR 0xBC, CHR 0x9A]"

\<comment> \<open>PolicyDrawer.jsx: broken segments:\<close>
definition lbl_down_segments :: string where
  "lbl_down_segments =
     [CHR 0xE5, CHR 0xBC, CHR 0x82, CHR 0xE5, CHR 0xB8, CHR 0xB8,
      CHR 0xE6, CHR 0xAE, CHR 0xB5, CHR 0xEF, CHR 0xBC, CHR 0x9A]"

\<comment> \<open>PolicyDrawer.jsx: no broken segment on the chosen path\<close>
definition lbl_path_fine :: string where
  "lbl_path_fine =
     [CHR 0xE6, CHR 0x89, CHR 0x80, CHR 0xE9, CHR 0x80, CHR 0x89,
      CHR 0xE8, CHR 0xB7, CHR 0xAF, CHR 0xE5, CHR 0xBE, CHR 0x84,
      CHR 0xE6, CHR 0x9A, CHR 0x82, CHR 0xE6, CHR 0x9C, CHR 0xAA,
      CHR 0xE5, CHR 0x8F, CHR 0x91, CHR 0xE7, CHR 0x8E, CHR 0xB0,
      CHR 0xE5, CHR 0xBC, CHR 0x82, CHR 0xE5, CHR 0xB8, CHR 0xB8]"

\<comment> \<open>PolicyDrawer.jsx: hint: click nodes in order, the last one is the egress\<close>
definition lbl_path_hint :: string where
  "lbl_path_hint =
     [CHR 0xE6, CHR 0x8F, CHR 0x90, CHR 0xE7, CHR 0xA4, CHR 0xBA,
      CHR 0xEF, CHR 0xBC, CHR 0x9A, CHR 0xE7, CHR 0x82, CHR 0xB9,
      CHR 0xE5, CHR 0x87, CHR 0xBB, CHR 0xE8, CHR 0x8A, CHR 0x82,
      CHR 0xE7, CHR 0x82, CHR 0xB9, CHR 0xE6, CHR 0x8C, CHR 0x89,
      CHR 0xE9, CHR 0xA1, CHR 0xBA, CHR 0xE5, CHR 0xBA, CHR 0x8F,
      CHR 0xE8, CHR 0xBF, CHR 0x9E, CHR 0xE7, CHR 0xBA, CHR 0xBF,
      CHR 0xEF, CHR 0xBC, CHR 0x8C, CHR 0xE6, CHR 0x9C, CHR 0x80,
      CHR 0xE5, CHR 0x90, CHR 0x8E, CHR 0xE4, CHR 0xB8, CHR 0x80,
      CHR 0xE4, CHR 0xB8, CHR 0xAA, CHR 0xE5, CHR 0x8D, CHR 0xB3,
      CHR 0xE4, CHR 0xB8, CHR 0xBA, CHR 0xE5, CHR 0x87, CHR 0xBA,
      CHR 0xE5, CHR 0x8F, CHR 0xA3, CHR 0xE8, CHR 0x8A, CHR 0x82,
      CHR 0xE7, CHR 0x82, CHR 0xB9, CHR 0xE3, CHR 0x80, CHR 0x82]"

\<comment> \<open>PolicyDrawer.jsx: policy of\<close>
definition lbl_policy_title :: string where
  "lbl_policy_title =
     [CHR 0xE7, CHR 0xAD, CHR 0x96, CHR 0xE7, CHR 0x95, CHR 0xA5,
      CHR 0xE9, CHR 0x85, CHR 0x8D, CHR 0xE7, CHR 0xBD, CHR 0xAE] @ '' - ''"

\<comment> \<open>PolicyDrawer.jsx: egress peer\<close>
definition lbl_egress :: string where
  "lbl_egress =
     [CHR 0xE5, CHR 0x87, CHR 0xBA, CHR 0xE5, CHR 0x8F, CHR 0xA3] @ '' PeerID''"

\<comment> \<open>PolicyDrawer.jsx: choose the egress node\<close>
definition lbl_egress_hint :: string where
  "lbl_egress_hint =
     [CHR 0xE9, CHR 0x80, CHR 0x89, CHR 0xE6, CHR 0x8B, CHR 0xA9,
      CHR 0xE5, CHR 0x87, CHR 0xBA, CHR 0xE5, CHR 0x8F, CHR 0xA3,
      CHR 0xE8, CHR 0x8A, CHR 0x82, CHR 0xE7, CHR 0x82, CHR 0xB9]"

\<comment> \<open>PolicyDrawer.jsx: next hop of the default route\<close>
definition lbl_next_hop :: string where
  "lbl_next_hop =
     [CHR 0xE5, CHR 0x85, CHR 0x9C, CHR 0xE5, CHR 0xBA, CHR 0x95,
      CHR 0xE4, CHR 0xB8, CHR 0x8B, CHR 0xE4, CHR 0xB8, CHR 0x80,
      CHR 0xE8, CHR 0xB7, CHR 0xB3, CHR 0xE8, CHR 0x8A, CHR 0x82,
      CHR 0xE7, CHR 0x82, CHR 0xB9]"

\<comment> \<open>PolicyDrawer.jsx: the egress peer when empty\<close>
definition lbl_next_hop_hint :: string where
  "lbl_next_hop_hint =
     [CHR 0xE4, CHR 0xB8, CHR 0x8D, CHR 0xE5, CHR 0xA1, CHR 0xAB,
      CHR 0xE5, CHR 0x88, CHR 0x99, CHR 0xE7, CHR 0x94, CHR 0xA8,
      CHR 0xE5, CHR 0x87, CHR 0xBA, CHR 0xE5, CHR 0x8F, CHR 0xA3] @ '' Peer''"

\<comment> \<open>PolicyDrawer.jsx: bypass CIDRs (commas)\<close>
definition lbl_bypass :: string where
  "lbl_bypass =
     [CHR 0xE6, CHR 0x97, CHR 0x81, CHR 0xE8, CHR 0xB7, CHR 0xAF] @ '' CIDR('' @ [CHR 0xE9, CHR 0x80, CHR 0x97, CHR 0xE5, CHR 0x8F, CHR 0xB7] @ '')''"

\<comment> \<open>PolicyDrawer.jsx: enable the default route\<close>
definition lbl_default_route :: string where
  "lbl_default_route =
     [CHR 0xE5, CHR 0x90, CHR 0xAF, CHR 0xE7, CHR 0x94, CHR 0xA8,
      CHR 0xE5, CHR 0x85, CHR 0x9C, CHR 0xE5, CHR 0xBA, CHR 0x95,
      CHR 0xE9, CHR 0xBB, CHR 0x98, CHR 0xE8, CHR 0xAE, CHR 0xA4,
      CHR 0xE8, CHR 0xB7, CHR 0xAF, CHR 0xE7, CHR 0x94, CHR 0xB1,
      CHR 0xEF, CHR 0xBC, CHR 0x88, CHR 0xE8, CHR 0x87, CHR 0xAA,
      CHR 0xE5, CHR 0x8A, CHR 0xA8, CHR 0xE7, CHR 0xAD, CHR 0x96,
      CHR 0xE7, CHR 0x95, CHR 0xA5, CHR 0xE8, CHR 0xB7, CHR 0xAF,
      CHR 0xE7, CHR 0x94, CHR 0xB1, CHR 0xEF, CHR 0xBC, CHR 0x89]"

\<comment> \<open>PolicyDrawer.jsx: current path:\<close>
definition lbl_current_path :: string where
  "lbl_current_path =
     [CHR 0xE5, CHR 0xBD, CHR 0x93, CHR 0xE5, CHR 0x89, CHR 0x8D,
      CHR 0xE8, CHR 0xB7, CHR 0xAF, CHR 0xE5, CHR 0xBE, CHR 0x84,
      CHR 0xEF, CHR 0xBC, CHR 0x9A]"

\<comment> \<open>PolicyDrawer.jsx: none chosen, straight to the egress node\<close>
definition lbl_no_path :: string where
  "lbl_no_path =
     [CHR 0xE6, CHR 0x9C, CHR 0xAA, CHR 0xE9, CHR 0x80, CHR 0x89,
      CHR 0xE6, CHR 0x8B, CHR 0xA9, CHR 0xEF, CHR 0xBC, CHR 0x8C,
      CHR 0xE9, CHR 0xBB, CHR 0x98, CHR 0xE8, CHR 0xAE, CHR 0xA4,
      CHR 0xE7, CHR 0x9B, CHR 0xB4, CHR 0xE8, CHR 0xBE, CHR 0xBE,
      CHR 0xE5, CHR 0x87, CHR 0xBA, CHR 0xE5, CHR 0x8F, CHR 0xA3,
      CHR 0xE8, CHR 0x8A, CHR 0x82, CHR 0xE7, CHR 0x82, CHR 0xB9]"

\<comment> \<open>PolicyDrawer.jsx: open the map\<close>
definition lbl_open_map :: string where
  "lbl_open_map =
     [CHR 0xE6, CHR 0x89, CHR 0x93, CHR 0xE5, CHR 0xBC, CHR 0x80,
      CHR 0xE5, CHR 0x9C, CHR 0xB0, CHR 0xE5, CHR 0x9B, CHR 0xBE,
      CHR 0xE8, CHR 0xBF, CHR 0x9E, CHR 0xE7, CHR 0xBA, CHR 0xBF]"

\<comment> \<open>PolicyDrawer.jsx: view the configuration of the interface\<close>
definition lbl_view_config :: string where
  "lbl_view_config =
     [CHR 0xE6, CHR 0x9F, CHR 0xA5, CHR 0xE7, CHR 0x9C, CHR 0x8B,
      CHR 0xE6, CHR 0x8E, CHR 0xA5, CHR 0xE5, CHR 0x8F, CHR 0xA3,
      CHR 0xE9, CHR 0x85, CHR 0x8D, CHR 0xE7, CHR 0xBD, CHR 0xAE]"

\<comment> \<open>PolicyDrawer.jsx: broken segments\<close>
definition lbl_down_count :: string where
  "lbl_down_count =
     [CHR 0xE5, CHR 0xBC, CHR 0x82, CHR 0xE5, CHR 0xB8, CHR 0xB8,
      CHR 0xE6, CHR 0xAE, CHR 0xB5] @ '' ''"

\<comment> \<open>PolicyDrawer.jsx: installation progress\<close>
definition lbl_install :: string where
  "lbl_install =
     [CHR 0xE5, CHR 0xAE, CHR 0x89, CHR 0xE8, CHR 0xA3, CHR 0x85,
      CHR 0xE8, CHR 0xBF, CHR 0x9B, CHR 0xE5, CHR 0xBA, CHR 0xA6]"

\<comment> \<open>PolicyDrawer.jsx: refresh by hand\<close>
definition lbl_refresh_logs :: string where
  "lbl_refresh_logs =
     [CHR 0xE6, CHR 0x89, CHR 0x8B, CHR 0xE5, CHR 0x8A, CHR 0xA8,
      CHR 0xE5, CHR 0x88, CHR 0xB7, CHR 0xE6, CHR 0x96, CHR 0xB0]"

\<comment> \<open>PolicyDrawer.jsx: current status:\<close>
definition lbl_current_status :: string where
  "lbl_current_status =
     [CHR 0xE5, CHR 0xBD, CHR 0x93, CHR 0xE5, CHR 0x89, CHR 0x8D,
      CHR 0xE7, CHR 0x8A, CHR 0xB6, CHR 0xE6, CHR 0x80, CHR 0x81,
      CHR 0xEF, CHR 0xBC, CHR 0x9A]"

\<comment> \<open>PolicyDrawer.jsx: no status yet\<close>
definition lbl_no_status :: string where
  "lbl_no_status =
     [CHR 0xE6, CHR 0x9A, CHR 0x82, CHR 0xE6, CHR 0x97, CHR 0xA0,
      CHR 0xE7, CHR 0x8A, CHR 0xB6, CHR 0xE6, CHR 0x80, CHR 0x81]"

\<comment> \<open>PolicyDrawer.jsx: no installation log yet\<close>
definition lbl_no_logs :: string where
  "lbl_no_logs =
     [CHR 0xE6, CHR 0x9A, CHR 0x82, CHR 0xE6, CHR 0x97, CHR 0xA0,
      CHR 0xE5, CHR 0xAE, CHR 0x89, CHR 0xE8, CHR 0xA3, CHR 0x85,
      CHR 0xE6, CHR 0x97, CHR 0xA5, CHR 0xE5, CHR 0xBF, CHR 0x97]"

\<comment> \<open>PolicyDrawer.jsx: (version\<close>
definition lbl_version_open :: string where
  "lbl_version_open =
     ''('' @ [CHR 0xE7, CHR 0x89, CHR 0x88, CHR 0xE6, CHR 0x9C, CHR 0xAC] @ '' ''"

\<comment> \<open>PolicyDrawer.jsx: timeline of policy tasks\<close>
definition lbl_timeline :: string where
  "lbl_timeline =
     [CHR 0xE7, CHR 0xAD, CHR 0x96, CHR 0xE7, CHR 0x95, CHR 0xA5,
      CHR 0xE4, CHR 0xBB, CHR 0xBB, CHR 0xE5, CHR 0x8A, CHR 0xA1,
      CHR 0xE6, CHR 0x97, CHR 0xB6, CHR 0xE9, CHR 0x97, CHR 0xB4,
      CHR 0xE7, CHR 0xBA, CHR 0xBF]"

\<comment> \<open>PolicyDrawer.jsx: no tasks yet\<close>
definition lbl_no_tasks :: string where
  "lbl_no_tasks =
     [CHR 0xE6, CHR 0x9A, CHR 0x82, CHR 0xE6, CHR 0x97, CHR 0xA0,
      CHR 0xE4, CHR 0xBB, CHR 0xBB, CHR 0xE5, CHR 0x8A, CHR 0xA1]"

\<comment> \<open>PolicyDrawer.jsx: agent log (WS)\<close>
definition lbl_agent_log :: string where
  "lbl_agent_log =
     ''Agent '' @ [CHR 0xE6, CHR 0x97, CHR 0xA5, CHR 0xE5, CHR 0xBF, CHR 0x97] @ ''(WS)''"

\<comment> \<open>PolicyDrawer.jsx: waiting for log lines\<close>
definition lbl_waiting_log :: string where
  "lbl_waiting_log =
     [CHR 0xE7, CHR 0xAD, CHR 0x89, CHR 0xE5, CHR 0xBE, CHR 0x85,
      CHR 0xE6, CHR 0x97, CHR 0xA5, CHR 0xE5, CHR 0xBF, CHR 0x97] @ ''...''"

\<comment> \<open>PolicyDrawer.jsx: policy diagnosis\<close>
definition lbl_diagnosis :: string where
  "lbl_diagnosis =
     [CHR 0xE7, CHR 0xAD, CHR 0x96, CHR 0xE7, CHR 0x95, CHR 0xA5,
      CHR 0xE8, CHR 0xAF, CHR 0x8A, CHR 0xE6, CHR 0x96, CHR 0xAD]"

\<comment> \<open>PolicyDrawer.jsx: diagnose\<close>
definition lbl_diagnose :: string where
  "lbl_diagnose =
     [CHR 0xE8, CHR 0xAF, CHR 0x8A, CHR 0xE6, CHR 0x96, CHR 0xAD]"

\<comment> \<open>PolicyDrawer.jsx: verify\<close>
definition lbl_verify :: string where
  "lbl_verify =
     [CHR 0xE9, CHR 0xAA, CHR 0x8C, CHR 0xE8, CHR 0xAF, CHR 0x81]"

\<comment> \<open>PolicyDrawer.jsx: no diagnosis yet, press the diagnose button\<close>
definition lbl_no_diag :: string where
  "lbl_no_diag =
     [CHR 0xE5, CHR 0xB0, CHR 0x9A, CHR 0xE6, CHR 0x97, CHR 0xA0,
      CHR 0xE8, CHR 0xAF, CHR 0x8A, CHR 0xE6, CHR 0x96, CHR 0xAD,
      CHR 0xE7, CHR 0xBB, CHR 0x93, CHR 0xE6, CHR 0x9E, CHR 0x9C,
      CHR 0xEF, CHR 0xBC, CHR 0x8C, CHR 0xE7, CHR 0x82, CHR 0xB9,
      CHR 0xE5, CHR 0x87, CHR 0xBB, CHR 0xE8, CHR 0xAF, CHR 0x8A,
      CHR 0xE6, CHR 0x96, CHR 0xAD, CHR 0xE6, CHR 0x8C, CHR 0x89,
      CHR 0xE9, CHR 0x92, CHR 0xAE, CHR 0xE8, CHR 0x8E, CHR 0xB7,
      CHR 0xE5, CHR 0x8F, CHR 0x96, CHR 0xE6, CHR 0x9C, CHR 0x80,
      CHR 0xE6, CHR 0x96, CHR 0xB0, CHR 0xE6, CHR 0xA3, CHR 0x80,
      CHR 0xE6, CHR 0x9F, CHR 0xA5, CHR 0xE3, CHR 0x80, CHR 0x82]"

\<comment> \<open>PolicyDrawer.jsx: answer of the interface\<close>
definition lbl_answer :: string where
  "lbl_answer =
     [CHR 0xE6, CHR 0x8E, CHR 0xA5, CHR 0xE5, CHR 0x8F, CHR 0xA3,
      CHR 0xE8, CHR 0xBF, CHR 0x94, CHR 0xE5, CHR 0x9B, CHR 0x9E]"

\<comment> \<open>PolicyDrawer.jsx: no data\<close>
definition lbl_no_data :: string where
  "lbl_no_data =
     [CHR 0xE6, CHR 0x97, CHR 0xA0, CHR 0xE6, CHR 0x95, CHR 0xB0,
      CHR 0xE6, CHR 0x8D, CHR 0xAE]"

\<comment> \<open>MeshStatus.jsx: status centre (connectivity of the whole net)\<close>
definition lbl_mesh_title :: string where
  "lbl_mesh_title =
     [CHR 0xE7, CHR 0x8A, CHR 0xB6, CHR 0xE6, CHR 0x80, CHR 0x81,
      CHR 0xE4, CHR 0xB8, CHR 0xAD, CHR 0xE5, CHR 0xBF, CHR 0x83,
      CHR 0xEF, CHR 0xBC, CHR 0x88, CHR 0xE5, CHR 0x85, CHR 0xA8,
      CHR 0xE7, CHR 0xBD, CHR 0x91, CHR 0xE8, CHR 0xBF, CHR 0x9E,
      CHR 0xE9, CHR 0x80, CHR 0x9A, CHR 0xEF, CHR 0xBC, CHR 0x89]"

\<comment> \<open>MeshStatus.jsx: everything is connected\<close>
definition lbl_all_connected :: string where
  "lbl_all_connected =
     [CHR 0xE5, CHR 0x85, CHR 0xA8, CHR 0xE9, CHR 0x83, CHR 0xA8,
      CHR 0xE5, CHR 0xB7, CHR 0xB2, CHR 0xE8, CHR 0xBF, CHR 0x9E,
      CHR 0xE9, CHR 0x80, CHR 0x9A]"

\<comment> \<open>MeshStatus.jsx: arrow\<close>
definition lbl_arrow :: string where
  "lbl_arrow =
     [CHR 0xE2, CHR 0x86, CHR 0x92]"

\<comment> \<open>NodeFormModal.jsx: new node\<close>
definition lbl_new_node :: string where
  "lbl_new_node =
     [CHR 0xE6, CHR 0x96, CHR 0xB0, CHR 0xE5, CHR 0xA2, CHR 0x9E,
      CHR 0xE8, CHR 0x8A, CHR 0x82, CHR 0xE7, CHR 0x82, CHR 0xB9]"

\<comment> \<open>NodeFormModal.jsx: node id\<close>
definition lbl_node_id :: string where
  "lbl_node_id =
     [CHR 0xE8, CHR 0x8A, CHR 0x82, CHR 0xE7, CHR 0x82, CHR 0xB9] @ '' ID''"

\<comment> \<open>NodeFormModal.jsx: enter the node id\<close>
definition lbl_node_id_required :: string where
  "lbl_node_id_required =
     [CHR 0xE8, CHR 0xAF, CHR 0xB7, CHR 0xE8, CHR 0xBE, CHR 0x93,
      CHR 0xE5, CHR 0x85, CHR 0xA5, CHR 0xE8, CHR 0x8A, CHR 0x82,
      CHR 0xE7, CHR 0x82, CHR 0xB9] @ ''ID''"

\<comment> \<open>NodeFormModal.jsx: such as node-1\<close>
definition lbl_node_id_hint :: string where
  "lbl_node_id_hint =
     [CHR 0xE5, CHR 0xA6, CHR 0x82] @ '' node-1''"

\<comment> \<open>NodeFormModal.jsx: listen port\<close>
definition lbl_port :: string where
  "lbl_port =
     [CHR 0xE7, CHR 0x9B, CHR 0x91, CHR 0xE5, CHR 0x90, CHR 0xAC,
      CHR 0xE7, CHR 0xAB, CHR 0xAF, CHR 0xE5, CHR 0x8F, CHR 0xA3]"

\<comment> \<open>NodeFormModal.jsx: enter the port\<close>
definition lbl_port_required :: string where
  "lbl_port_required =
     [CHR 0xE8, CHR 0xAF, CHR 0xB7, CHR 0xE8, CHR 0xBE, CHR 0x93,
      CHR 0xE5, CHR 0x85, CHR 0xA5, CHR 0xE7, CHR 0xAB, CHR 0xAF,
      CHR 0xE5, CHR 0x8F, CHR 0xA3]"

\<comment> \<open>NodeFormModal.jsx: default 8082\<close>
definition lbl_port_hint :: string where
  "lbl_port_hint =
     [CHR 0xE9, CHR 0xBB, CHR 0x98, CHR 0xE8, CHR 0xAE, CHR 0xA4] @ '' 8082''"

\<comment> \<open>NodeFormModal.jsx: submit\<close>
definition lbl_submit :: string where
  "lbl_submit =
     [CHR 0xE6, CHR 0x8F, CHR 0x90, CHR 0xE4, CHR 0xBA, CHR 0xA4]"

\<comment> \<open>EndpointDrawer.jsx: endpoints of\<close>
definition lbl_endpoint_title :: string where
  "lbl_endpoint_title =
     ''Endpoint '' @ [CHR 0xE9, CHR 0x85, CHR 0x8D, CHR 0xE7, CHR 0xBD, CHR 0xAE] @ '' - ''"

\<comment> \<open>EndpointDrawer.jsx: connect to\<close>
definition lbl_connect_to :: string where
  "lbl_connect_to =
     [CHR 0xE8, CHR 0xBF, CHR 0x9E, CHR 0xE6, CHR 0x8E, CHR 0xA5,
      CHR 0xE5, CHR 0x88, CHR 0xB0] @ '' ''"

\<comment> \<open>EndpointDrawer.jsx: choose the endpoint of the peer\<close>
definition lbl_endpoint_hint :: string where
  "lbl_endpoint_hint =
     [CHR 0xE9, CHR 0x80, CHR 0x89, CHR 0xE6, CHR 0x8B, CHR 0xA9,
      CHR 0xE5, CHR 0xAF, CHR 0xB9, CHR 0xE7, CHR 0xAB, CHR 0xAF] @ '' endpoint''"

\<comment> \<open>NodesTable.jsx: actions\<close>
definition lbl_actions :: string where
  "lbl_actions =
     [CHR 0xE6, CHR 0x93, CHR 0x8D, CHR 0xE4, CHR 0xBD, CHR 0x9C]"

\<comment> \<open>NodesTable.jsx: install command\<close>
definition lbl_install_command :: string where
  "lbl_install_command =
     [CHR 0xE5, CHR 0xAE, CHR 0x89, CHR 0xE8, CHR 0xA3, CHR 0x85,
      CHR 0xE5, CHR 0x91, CHR 0xBD, CHR 0xE4, CHR 0xBB, CHR 0xA4]"

\<comment> \<open>NodesTable.jsx: policy\<close>
definition lbl_policy :: string where
  "lbl_policy =
     [CHR 0xE7, CHR 0xAD, CHR 0x96, CHR 0xE7, CHR 0x95, CHR 0xA5]"

\<comment> \<open>NodesTable.jsx: endpoint settings\<close>
definition lbl_endpoint_config :: string where
  "lbl_endpoint_config =
     ''Endpoint '' @ [CHR 0xE9, CHR 0x85, CHR 0x8D, CHR 0xE7, CHR 0xBD, CHR 0xAE]"

\<comment> \<open>GeoIPCard.jsx: GeoIP settings\<close>
definition lbl_geoip_title :: string where
  "lbl_geoip_title =
     ''GeoIP '' @ [CHR 0xE8, CHR 0xAE, CHR 0xBE, CHR 0xE7, CHR 0xBD, CHR 0xAE]"

\<comment> \<open>GeoIPCard.jsx: IPv4 source URL template\<close>
definition lbl_source_v4 :: string where
  "lbl_source_v4 =
     ''IPv4 '' @ [CHR 0xE6, CHR 0xBA, CHR 0x90] @ '' URL '' @ [CHR 0xE6, CHR 0xA8, CHR 0xA1, CHR 0xE6, CHR 0x9D, CHR 0xBF]"

\<comment> \<open>GeoIPCard.jsx: IPv6 source URL template\<close>
definition lbl_source_v6 :: string where
  "lbl_source_v6 =
     ''IPv6 '' @ [CHR 0xE6, CHR 0xBA, CHR 0x90] @ '' URL '' @ [CHR 0xE6, CHR 0xA8, CHR 0xA1, CHR 0xE6, CHR 0x9D, CHR 0xBF]"

\<comment> \<open>GeoIPCard.jsx: cache directory\<close>
definition lbl_cache_dir :: string where
  "lbl_cache_dir =
     [CHR 0xE7, CHR 0xBC, CHR 0x93, CHR 0xE5, CHR 0xAD, CHR 0x98,
      CHR 0xE7, CHR 0x9B, CHR 0xAE, CHR 0xE5, CHR 0xBD, CHR 0x95]"

\<comment> \<open>GeoIPCard.jsx: cache lifetime\<close>
definition lbl_cache_ttl :: string where
  "lbl_cache_ttl =
     [CHR 0xE7, CHR 0xBC, CHR 0x93, CHR 0xE5, CHR 0xAD, CHR 0x98] @ ''TTL''"

\<comment> \<open>GeoIPCard.jsx: load again\<close>
definition lbl_reload :: string where
  "lbl_reload =
     [CHR 0xE9, CHR 0x87, CHR 0x8D, CHR 0xE8, CHR 0xBD, CHR 0xBD]"

\<comment> \<open>GeoIPCard.jsx: save\<close>
definition lbl_save :: string where
  "lbl_save =
     [CHR 0xE4, CHR 0xBF, CHR 0x9D, CHR 0xE5, CHR 0xAD, CHR 0x98]"

\<comment> \<open>HealthHistoryModal.jsx: ping history of\<close>
definition lbl_history_title :: string where
  "lbl_history_title =
     [CHR 0xE4, CHR 0xBA, CHR 0x92] @ '' ping '' @ [CHR 0xE5, CHR 0x8E, CHR 0x86, CHR 0xE5, CHR 0x8F, CHR 0xB2] @ '' - ''"

\<comment> \<open>HealthHistoryModal.jsx: the last 24 hours, newest first\<close>
definition lbl_history_hint :: string where
  "lbl_history_hint =
     [CHR 0xE8, CHR 0xBF, CHR 0x91] @ ''24'' @ [CHR 0xE5, CHR 0xB0, CHR 0x8F, CHR 0xE6, CHR 0x97, CHR 0xB6,
      CHR 0xEF, CHR 0xBC, CHR 0x8C, CHR 0xE6, CHR 0x8C, CHR 0x89,
      CHR 0xE6, CHR 0x9C, CHR 0x80, CHR 0xE6, CHR 0x96, CHR 0xB0,
      CHR 0xE5, CHR 0x9C, CHR 0xA8, CHR 0xE5, CHR 0x89, CHR 0x8D]"

\<comment> \<open>HealthHistoryModal.jsx: time\<close>
definition lbl_time :: string where
  "lbl_time =
     [CHR 0xE6, CHR 0x97, CHR 0xB6, CHR 0xE9, CHR 0x97, CHR 0xB4]"

\<comment> \<open>HealthHistoryModal.jsx: target IP\<close>
definition lbl_target :: string where
  "lbl_target =
     [CHR 0xE7, CHR 0x9B, CHR 0xAE, CHR 0xE6, CHR 0xA0, CHR 0x87] @ '' IP''"

\<comment> \<open>HealthHistoryModal.jsx: latency (ms)\<close>
definition lbl_latency :: string where
  "lbl_latency =
     [CHR 0xE5, CHR 0xBB, CHR 0xB6, CHR 0xE8, CHR 0xBF, CHR 0x9F] @ ''(ms)''"

\<comment> \<open>HealthHistoryModal.jsx: loss (%)\<close>
definition lbl_loss :: string where
  "lbl_loss =
     [CHR 0xE4, CHR 0xB8, CHR 0xA2, CHR 0xE5, CHR 0x8C, CHR 0x85] @ ''(%)''"

\<comment> \<open>DiagnoseModal.jsx: diagnosis of\<close>
definition lbl_diagnose_title :: string where
  "lbl_diagnose_title =
     [CHR 0xE8, CHR 0xAF, CHR 0x8A, CHR 0xE6, CHR 0x96, CHR 0xAD] @ '' - ''"

\<comment> \<open>StatusCard.jsx: status\<close>
definition lbl_status_title :: string where
  "lbl_status_title =
     [CHR 0xE7, CHR 0x8A, CHR 0xB6, CHR 0xE6, CHR 0x80, CHR 0x81]"

\<comment> \<open>DiagCard.jsx: diagnosis settings (agents ping each other)\<close>
definition lbl_diag_title :: string where
  "lbl_diag_title =
     [CHR 0xE8, CHR 0xAF, CHR 0x8A, CHR 0xE6, CHR 0x96, CHR 0xAD,
      CHR 0xE8, CHR 0xAE, CHR 0xBE, CHR 0xE7, CHR 0xBD, CHR 0xAE,
      CHR 0xEF, CHR 0xBC, CHR 0x88] @ ''Agent '' @ [CHR 0xE4, CHR 0xBA, CHR 0x92] @ '' ping'' @ [CHR 0xEF, CHR 0xBC, CHR 0x89]"

\<comment> \<open>DiagCard.jsx: ping interval\<close>
definition lbl_ping :: string where
  "lbl_ping =
     [CHR 0xE4, CHR 0xBA, CHR 0x92] @ '' ping '' @ [CHR 0xE5, CHR 0x91, CHR 0xA8, CHR 0xE6, CHR 0x9C, CHR 0x9F]"

\<comment> \<open>DiagCard.jsx: enter such as 3s/5s/10s\<close>
definition lbl_ping_required :: string where
  "lbl_ping_required =
     [CHR 0xE8, CHR 0xAF, CHR 0xB7, CHR 0xE8, CHR 0xBE, CHR 0x93,
      CHR 0xE5, CHR 0x85, CHR 0xA5, CHR 0xE5, CHR 0xA6, CHR 0x82] @ '' 3s/5s/10s''"

\<comment> \<open>Admin.jsx: nodes\<close>
definition lbl_node :: string where
  "lbl_node =
     [CHR 0xE8, CHR 0x8A, CHR 0x82, CHR 0xE7, CHR 0x82, CHR 0xB9]"

\<comment> \<open>Admin.jsx: status centre\<close>
definition lbl_status_center :: string where
  "lbl_status_center =
     [CHR 0xE7, CHR 0x8A, CHR 0xB6, CHR 0xE6, CHR 0x80, CHR 0x81,
      CHR 0xE4, CHR 0xB8, CHR 0xAD, CHR 0xE5, CHR 0xBF, CHR 0x83]"

\<comment> \<open>Admin.jsx: node administration\<close>
definition lbl_node_admin :: string where
  "lbl_node_admin =
     [CHR 0xE8, CHR 0x8A, CHR 0x82, CHR 0xE7, CHR 0x82, CHR 0xB9,
      CHR 0xE7, CHR 0xAE, CHR 0xA1, CHR 0xE7, CHR 0x90, CHR 0x86]"

\<comment> \<open>Admin.jsx: API base\<close>
definition lbl_base :: string where
  "lbl_base =
     ''API '' @ [CHR 0xE5, CHR 0x9F, CHR 0xBA, CHR 0xE5, CHR 0x9D, CHR 0x80]"

\<comment> \<open>Admin.jsx: status / settings\<close>
definition lbl_settings :: string where
  "lbl_settings =
     [CHR 0xE7, CHR 0x8A, CHR 0xB6, CHR 0xE6, CHR 0x80, CHR 0x81] @ '' / '' @ [CHR 0xE9, CHR 0x85, CHR 0x8D, CHR 0xE7, CHR 0xBD, CHR 0xAE]"

\<comment> \<open>Admin.jsx: sign out\<close>
definition lbl_logout :: string where
  "lbl_logout =
     [CHR 0xE9, CHR 0x80, CHR 0x80, CHR 0xE5, CHR 0x87, CHR 0xBA]"

\<comment> \<open>Admin.jsx: refresh\<close>
definition lbl_refresh :: string where
  "lbl_refresh =
     [CHR 0xE5, CHR 0x88, CHR 0xB7, CHR 0xE6, CHR 0x96, CHR 0xB0]"

\<comment> \<open>Admin.jsx: status and settings\<close>
definition lbl_settings_title :: string where
  "lbl_settings_title =
     [CHR 0xE7, CHR 0x8A, CHR 0xB6, CHR 0xE6, CHR 0x80, CHR 0x81,
      CHR 0xE4, CHR 0xB8, CHR 0x8E, CHR 0xE9, CHR 0x85, CHR 0x8D,
      CHR 0xE7, CHR 0xBD, CHR 0xAE]"

\<comment> \<open>Admin.jsx: copying to the clipboard has been tried\<close>
definition lbl_clipboard :: string where
  "lbl_clipboard =
     [CHR 0xE5, CHR 0xB7, CHR 0xB2, CHR 0xE8, CHR 0x87, CHR 0xAA,
      CHR 0xE5, CHR 0x8A, CHR 0xA8, CHR 0xE5, CHR 0xB0, CHR 0x9D,
      CHR 0xE8, CHR 0xAF, CHR 0x95, CHR 0xE5, CHR 0xA4, CHR 0x8D,
      CHR 0xE5, CHR 0x88, CHR 0xB6, CHR 0xE5, CHR 0x88, CHR 0xB0,
      CHR 0xE5, CHR 0x89, CHR 0xAA, CHR 0xE8, CHR 0xB4, CHR 0xB4,
      CHR 0xE6, CHR 0x9D, CHR 0xBF]"

\<comment> \<open>Login.jsx: sign in at peer-wan\<close>
definition lbl_login_title :: string where
  "lbl_login_title =
     [CHR 0xE7, CHR 0x99, CHR 0xBB, CHR 0xE5, CHR 0xBD, CHR 0x95] @ '' peer-wan''"

\<comment> \<open>Login.jsx: user name\<close>
definition lbl_user :: string where
  "lbl_user =
     [CHR 0xE7, CHR 0x94, CHR 0xA8, CHR 0xE6, CHR 0x88, CHR 0xB7,
      CHR 0xE5, CHR 0x90, CHR 0x8D]"

\<comment> \<open>Login.jsx: password\<close>
definition lbl_pass :: string where
  "lbl_pass =
     [CHR 0xE5, CHR 0xAF, CHR 0x86, CHR 0xE7, CHR 0xA0, CHR 0x81]"

\<comment> \<open>Login.jsx: first use? register\<close>
definition lbl_to_register :: string where
  "lbl_to_register =
     [CHR 0xE9, CHR 0xA6, CHR 0x96, CHR 0xE6, CHR 0xAC, CHR 0xA1,
      CHR 0xE4, CHR 0xBD, CHR 0xBF, CHR 0xE7, CHR 0x94, CHR 0xA8] @ ''? '' @ [CHR 0xE5, CHR 0x8E, CHR 0xBB, CHR 0xE6, CHR 0xB3, CHR 0xA8,
      CHR 0xE5, CHR 0x86, CHR 0x8C]"

\<comment> \<open>Login.jsx: sign in\<close>
definition lbl_login :: string where
  "lbl_login =
     [CHR 0xE7, CHR 0x99, CHR 0xBB, CHR 0xE5, CHR 0xBD, CHR 0x95]"

\<comment> \<open>Register.jsx: register the administrator\<close>
definition lbl_register_title :: string where
  "lbl_register_title =
     [CHR 0xE6, CHR 0xB3, CHR 0xA8, CHR 0xE5, CHR 0x86, CHR 0x8C,
      CHR 0xE7, CHR 0xAE, CHR 0xA1, CHR 0xE7, CHR 0x90, CHR 0x86,
      CHR 0xE5, CHR 0x91, CHR 0x98]"

\<comment> \<open>Register.jsx: have an account? sign in\<close>
definition lbl_to_login :: string where
  "lbl_to_login =
     [CHR 0xE5, CHR 0xB7, CHR 0xB2, CHR 0xE6, CHR 0x9C, CHR 0x89,
      CHR 0xE8, CHR 0xB4, CHR 0xA6, CHR 0xE5, CHR 0x8F, CHR 0xB7] @ ''? '' @ [CHR 0xE5, CHR 0x8E, CHR 0xBB, CHR 0xE7, CHR 0x99, CHR 0xBB,
      CHR 0xE5, CHR 0xBD, CHR 0x95]"

\<comment> \<open>Register.jsx: register\<close>
definition lbl_register :: string where
  "lbl_register =
     [CHR 0xE6, CHR 0xB3, CHR 0xA8, CHR 0xE5, CHR 0x86, CHR 0x8C]"

end
