(* ===== verification/Js_View.thy ===== *)
theory Js_View
  imports Js_Value Ui_Text Ui_Labels
begin

text \<open>
  What a component returns: a tree of elements with their properties, the actions of their
  event handlers, and their children.  A handler is named by a value of the component's
  action type \<open>'a\<close>.  A property that is itself markup (\<open>extra\<close> of a card, the cells
  of a table) is a child element with the name of the property.  Properties that only set the
  look (\<open>style\<close>, \<open>size\<close>, \<open>width\<close>, \<open>className\<close>, \<open>gutter\<close>, \<open>span\<close>,
  \<open>layout\<close>) are left out.  Rendering is a value of a sum type, because an expression in
  it may throw, and then React takes the whole page down: there is no error boundary.
\<close>

datatype 'a markup =
    Leaf jsval
  | Elem string "(string \<times> jsval) list" "(string \<times> 'a) list" "'a markup list"

type_synonym 'a frag = "'a markup list res"

fun kids :: "'a frag list \<Rightarrow> 'a frag" where
  "kids [] = Inr []"
| "kids (f # fs) = sbind f (\<lambda>xs. sbind (kids fs) (\<lambda>ys. Inr (xs @ ys)))"

definition el :: "string \<Rightarrow> (string \<times> jsval) list \<Rightarrow> (string \<times> 'a) list \<Rightarrow> 'a frag list \<Rightarrow> 'a frag" where
  "el tag props handlers fs = sbind (kids fs) (\<lambda>ks. Inr [Elem tag props handlers ks])"

definition says :: "string \<Rightarrow> 'a frag" where
  "says s = Inr [Leaf (Str s)]"

text \<open>
  \<open>{v}\<close> in markup: strings and numbers are shown, \<open>undefined\<close>, \<open>null\<close> and
  booleans are not, an array contributes its elements, and React refuses any other object.
\<close>

primrec child :: "jsval \<Rightarrow> 'a frag" where
  "child Undef = Inr []"
| "child Null = Inr []"
| "child (Boolean b) = Inr []"
| "child (Number n) = Inr [Leaf (Number n)]"
| "child NaN = Inr [Leaf NaN]"
| "child (Str s) = Inr [Leaf (Str s)]"
| "child (Arr xs) = kids (map child xs)"
| "child (Obj ps) = Inl (Exn ''Error'' ''Objects are not valid as a React child'')"

text \<open>\<open>{xs.map(f)}\<close>, with and without the index\<close>

definition each :: "('b \<Rightarrow> 'a frag) \<Rightarrow> 'b list \<Rightarrow> 'a frag" where
  "each f xs = kids (map f xs)"

definition each_i :: "(nat \<Rightarrow> 'b \<Rightarrow> 'a frag) \<Rightarrow> 'b list \<Rightarrow> 'a frag" where
  "each_i f xs = kids (map (\<lambda>(i, x). f i x) (enumerate 0 xs))"

text \<open>antd's \<open>List\<close> spreads its data source, which throws when that is no array.\<close>

definition antd_list ::
  "(string \<times> jsval) list \<Rightarrow> jsval \<Rightarrow> (jsval \<Rightarrow> 'a frag) \<Rightarrow> 'a frag" where
  "antd_list props dataSource renderItem =
     sbind (as_array dataSource) (\<lambda>xs. el ''List'' props [] [each renderItem xs])"

text \<open>A computed property, a computed child.\<close>

definition dot :: "string \<Rightarrow> jsval \<Rightarrow> (jsval \<Rightarrow> 'b res) \<Rightarrow> 'b res" where
  "dot k v f = sbind (js_get k v) f"

definition show_dot :: "string \<Rightarrow> jsval \<Rightarrow> 'a frag" where
  "show_dot k v = dot k v child"

definition opt :: "bool \<Rightarrow> 'a frag \<Rightarrow> 'a frag" where
  "opt b f = (if b then f else Inr [])"

text \<open>\<open>v.length\<close> of an array or a string, and the property \<open>length\<close> of anything else\<close>

fun js_length :: "jsval \<Rightarrow> jsval" where
  "js_length (Arr xs) = Number (of_nat (length xs))"
| "js_length (Str s) = Number (of_nat (length s))"
| "js_length v = js_oget ''length'' v"

text \<open>\<open>v.includes(s)\<close> of a string or an array\<close>

fun js_includes :: "string \<Rightarrow> jsval \<Rightarrow> bool res" where
  "js_includes s (Str t) = Inr (sublist s t)"
| "js_includes s (Arr xs) = Inr (Str s \<in> set xs)"
| "js_includes s v = Inl type_error"

text \<open>\<open>v?.slice(0, n)\<close>\<close>

fun js_slice :: "nat \<Rightarrow> jsval \<Rightarrow> jsval res" where
  "js_slice n Undef = Inr Undef"
| "js_slice n Null = Inr Undef"
| "js_slice n (Str s) = Inr (Str (take n s))"
| "js_slice n (Arr xs) = Inr (Arr (take n xs))"
| "js_slice n v = Inl type_error"

fun traverse :: "('b \<Rightarrow> 'c res) \<Rightarrow> 'b list \<Rightarrow> 'c list res" where
  "traverse f [] = Inr []"
| "traverse f (x # xs) = sbind (f x) (\<lambda>y. sbind (traverse f xs) (\<lambda>ys. Inr (y # ys)))"

text \<open>How the engine writes a date, which depends on its locale.\<close>

record clock =
  toLocaleString :: "jsval \<Rightarrow> string"
  toLocaleTimeString :: "jsval \<Rightarrow> string"

section \<open>Looking at markup\<close>

primrec shown :: "'a markup \<Rightarrow> jsval list" where
  "shown (Leaf v) = [v]"
| "shown (Elem t ps hs ks) = concat (map shown ks)"

primrec offers :: "'a markup \<Rightarrow> 'a list" where
  "offers (Leaf v) = []"
| "offers (Elem t ps hs ks) = map snd hs @ concat (map offers ks)"

definition shown_all :: "'a frag \<Rightarrow> jsval list" where
  "shown_all f = (case f of Inr xs \<Rightarrow> concat (map shown xs) | Inl e \<Rightarrow> [])"

definition offers_all :: "'a frag \<Rightarrow> 'a list" where
  "offers_all f = (case f of Inr xs \<Rightarrow> concat (map offers xs) | Inl e \<Rightarrow> [])"

definition renders :: "'b res \<Rightarrow> bool" where
  "renders f \<longleftrightarrow> (\<exists>x. f = Inr x)"

text \<open>The parts of a page where the tag is \<open>t\<close>, outermost first.\<close>

primrec parts :: "string \<Rightarrow> 'a markup \<Rightarrow> 'a markup list" where
  "parts t (Leaf v) = []"
| "parts t (Elem t' ps hs ks) = (if t = t' then [Elem t' ps hs ks] else []) @ concat (map (parts t) ks)"

definition parts_all :: "string \<Rightarrow> 'a frag \<Rightarrow> 'a markup list" where
  "parts_all t f = (case f of Inr xs \<Rightarrow> concat (map (parts t) xs) | Inl e \<Rightarrow> [])"

section \<open>Lemmas\<close>

lemma renders_simps [simp]:
  "renders (Inr x)" "\<not> renders (Inl e)" "renders (says s)"
  by (simp_all add: renders_def says_def)

lemma renders_sbind: "renders (sbind m f) \<longleftrightarrow> (\<exists>x. m = Inr x \<and> renders (f x))"
  by (cases m) (simp_all add: renders_def)

lemma renders_kids [simp]: "renders (kids fs) \<longleftrightarrow> (\<forall>f\<in>set fs. renders f)"
proof (induction fs)
  case (Cons f fs)
  then show ?case by (cases f) (auto simp: renders_sbind, auto simp: renders_def)
qed simp

lemma renders_el [simp]: "renders (el t ps hs fs) \<longleftrightarrow> (\<forall>f\<in>set fs. renders f)"
  using renders_kids [of fs] by (auto simp: el_def renders_def sbind_def split: sum.splits)

lemma renders_each [simp]: "renders (each f xs) \<longleftrightarrow> (\<forall>x\<in>set xs. renders (f x))"
  by (simp add: each_def)

lemma renders_each_i [simp]: "renders (each_i f xs) \<longleftrightarrow> (\<forall>i<length xs. renders (f i (xs ! i)))"
proof -
  have "renders (each_i f xs) \<longleftrightarrow> (\<forall>p\<in>set (enumerate 0 xs). renders (f (fst p) (snd p)))"
    by (auto simp: each_i_def)
  also have "\<dots> \<longleftrightarrow> (\<forall>i<length xs. renders (f i (xs ! i)))"
    by (force simp: in_set_enumerate_eq Ball_def)
  finally show ?thesis .
qed

lemma renders_opt [simp]: "renders (opt b f) \<longleftrightarrow> (b \<longrightarrow> renders f)"
  by (simp add: opt_def)

lemma renders_list [simp]:
  "renders (antd_list ps (Arr xs) f) \<longleftrightarrow> (\<forall>x\<in>set xs. renders (f x))"
  by (simp add: antd_list_def)

lemma renders_dot: "renders (dot k v f) \<longleftrightarrow> v \<noteq> Undef \<and> v \<noteq> Null \<and> renders (f (js_oget k v))"
  by (simp add: dot_def js_get_oget)

lemma dot_Obj [simp]: "dot k (Obj ps) f = f (js_lookup k ps)"
  by (simp add: dot_def)

lemma traverse_Inr: "(\<And>x. x \<in> set xs \<Longrightarrow> f x = Inr (g x)) \<Longrightarrow> traverse f xs = Inr (map g xs)"
  by (induction xs) auto

lemma renders_traverse [simp]: "renders (traverse f xs) \<longleftrightarrow> (\<forall>x\<in>set xs. renders (f x))"
proof (induction xs)
  case (Cons x xs)
  then show ?case by (cases "f x") (auto simp: renders_sbind, auto simp: renders_def)
qed simp

lemma shown_all_Inl [simp]: "shown_all (Inl e) = []" "offers_all (Inl e) = []" "parts_all t (Inl e) = []"
  by (simp_all add: shown_all_def offers_all_def parts_all_def)

lemma shown_all_Inr [simp]:
  "shown_all (Inr xs) = concat (map shown xs)" "offers_all (Inr xs) = concat (map offers xs)"
  "parts_all t (Inr xs) = concat (map (parts t) xs)"
  by (simp_all add: shown_all_def offers_all_def parts_all_def)

lemma shown_all_txt [simp]: "shown_all (says s) = [Str s]" "offers_all (says s) = []" "parts_all t (says s) = []"
  by (simp_all add: says_def)

text \<open>A page that renders is made of all its parts.\<close>

lemma kids_observe:
  "renders (kids fs) \<Longrightarrow> shown_all (kids fs) = concat (map shown_all fs)
     \<and> offers_all (kids fs) = concat (map offers_all fs)
     \<and> parts_all t (kids fs) = concat (map (parts_all t) fs)"
proof (induction fs)
  case (Cons f fs)
  then obtain x y where x: "f = Inr x" and y: "kids fs = Inr y"
    by (auto simp: renders_def sbind_Inr_iff)
  from y have "renders (kids fs)" by (simp add: renders_def)
  from Cons.IH [OF this] x y show ?case by simp
qed simp

lemma el_observe:
  assumes "renders (el tag ps hs fs)"
  shows "shown_all (el tag ps hs fs) = concat (map shown_all fs)"
    "offers_all (el tag ps hs fs) = map snd hs @ concat (map offers_all fs)"
proof -
  from assms have "renders (kids fs)" by simp
  with kids_observe [OF this, of "[]"] obtain ks where "kids fs = Inr ks"
    "concat (map shown ks) = concat (map shown_all fs)" "concat (map offers ks) = concat (map offers_all fs)"
    by (auto simp: renders_def)
  then show "shown_all (el tag ps hs fs) = concat (map shown_all fs)"
    "offers_all (el tag ps hs fs) = map snd hs @ concat (map offers_all fs)"
    by (simp_all add: el_def)
qed

text \<open>An element that renders is one element, and shows what its parts show.\<close>

lemma el_single:
  assumes "renders (el tag ps hs fs)"
  obtains ks where "el tag ps hs fs = Inr [Elem tag ps hs ks]"
    and "concat (map shown ks) = concat (map shown_all fs)"
    and "concat (map offers ks) = concat (map offers_all fs)"
proof -
  from assms have r: "renders (kids fs)" by simp
  then obtain ks where ks: "kids fs = Inr ks" by (auto simp: renders_def)
  with kids_observe [OF r, of "[]"] have "concat (map shown ks) = concat (map shown_all fs)"
    "concat (map offers ks) = concat (map offers_all fs)" by simp_all
  then show ?thesis using that [of ks] ks by (simp add: el_def)
qed

lemma kids_single: "kids (map (\<lambda>p. Inr [g p]) ps) = Inr (map g ps)"
  by (induction ps) simp_all

lemma each_i_single:
  assumes "\<And>i. i < length xs \<Longrightarrow> f i (xs ! i) = Inr [g i]"
  shows "each_i f xs = Inr (map g [0..<length xs])"
proof -
  have "each_i f xs = kids (map (\<lambda>p. Inr [g (fst p)]) (enumerate 0 xs))"
    unfolding each_i_def
    by (rule arg_cong [where f = kids], rule map_cong) (auto simp: in_set_enumerate_eq assms)
  also have "\<dots> = Inr (map (g \<circ> fst) (enumerate 0 xs))" by (simp add: kids_single comp_def)
  finally show ?thesis by (simp only: map_map [symmetric] map_fst_enumerate) simp
qed

declare kids.simps [simp del]

end
