(* ===== verification/View_Mesh.thy ===== *)
theory View_Mesh
  imports Js_Mesh Js_View
begin

text \<open>
  What \<open>MeshStatus.jsx\<close> and the path selection of \<open>PolicyDrawer.jsx\<close> put on the
  page.  The coordinates of the lines and dots are those of \<open>mesh_lines\<close> and
  \<open>mesh_dots\<close>; the markup holds their other data.
\<close>

section \<open>MeshMap\<close>

text \<open>Reading a property of a node or link that is \<open>null\<close> throws.\<close>

definition node_of :: "jsval \<Rightarrow> mesh_node res" where
  "node_of v = (if v = Undef \<or> v = Null then Inl type_error else Inr (mesh_node_of v))"

definition link_of :: "jsval \<Rightarrow> mesh_link res" where
  "link_of v = (if v = Undef \<or> v = Null then Inl type_error else Inr (mesh_link_of v))"

definition line_markup :: "mesh_line \<Rightarrow> 'a frag" where
  "line_markup l = el ''line'' [(''stroke'', Str (ln_stroke l)), (''strokeWidth'', Number (ln_width l)),
     (''strokeDasharray'', Str (ln_dash l))] [] []"

definition dot_markup :: "'a option \<Rightarrow> mesh_dot \<Rightarrow> 'a frag" where
  "dot_markup click d =
     el ''div''
       [(''title'', Str (dt_id d)), (''size'', Number (of_nat (dt_size d))),
        (''background'', Str (dt_background d)),
        (''cursor'', Str (if click = None then ''default'' else ''pointer''))]
       (case click of Some act \<Rightarrow> [(''onClick'', act)] | None \<Rightarrow> [])
       [el ''span'' [] [] [says (dt_id d)]]"

text \<open>Clicking a dot hands its node to \<open>onNodeClick\<close>.\<close>

definition node_markup ::
  "(jsval \<Rightarrow> 'a) option \<Rightarrow> (string \<times> real \<times> real) list \<Rightarrow> mesh_link list \<Rightarrow> jsval \<Rightarrow> 'a frag" where
  "node_markup click pos links n =
     (case node_dot pos links (mesh_node_of n) of
        None \<Rightarrow> Inr []
      | Some d \<Rightarrow> dot_markup (map_option (\<lambda>f. f n) click) d)"

definition mesh_map ::
  "(jsval \<Rightarrow> 'a) option \<Rightarrow> jsval \<Rightarrow> jsval \<Rightarrow> string list \<Rightarrow> 'a frag" where
  "mesh_map click nodes links hl =
     sbind (as_array nodes) (\<lambda>ns. sbind (traverse node_of ns) (\<lambda>mns.
     sbind (as_array links) (\<lambda>ls. sbind (traverse link_of ls) (\<lambda>mls.
       el ''div'' [] []
         [el ''svg'' [] [] [each line_markup (mesh_lines mns mls hl)],
          each (node_markup click (positions mns) mls) ns]))))"

section \<open>MeshStatus\<close>

fun is_number :: "jsval \<Rightarrow> bool" where
  "is_number (Number _) = True"
| "is_number NaN = True"
| "is_number _ = False"

definition down_row :: "jsval \<Rightarrow> 'a frag" where
  "down_row item =
     el ''List.Item'' [] []
       [el ''Tag'' [(''color'', Str ''red'')] [] [show_dot ''from'' item],
        el ''span'' [] [] [says lbl_arrow],
        el ''Tag'' [(''color'', Str ''red'')] [] [show_dot ''to'' item],
        el ''span'' [] [] [dot ''reason'' item (\<lambda>r. child (js_or r (Str txt_down)))],
        dot ''latencyMs'' item (\<lambda>v. opt (is_number v)
          (el ''Tag'' [(''color'', Str ''blue'')] [] [says ''lat '', child v, says ''ms''])),
        dot ''packetLoss'' item (\<lambda>v. opt (is_number v)
          (el ''Tag'' [(''color'', Str ''orange'')] [] [says ''loss '', child v, says ''%'']))]"

text \<open>\<open>links.filter(l => !l.ok)\<close>\<close>

definition not_ok :: "jsval list \<Rightarrow> jsval list res" where
  "not_ok links =
     sbind (traverse (\<lambda>l. dot ''ok'' l (\<lambda>ok. Inr (l, truthy ok))) links)
       (\<lambda>ps. Inr (map fst (filter (\<lambda>(l, ok). \<not> ok) ps)))"

definition MeshStatus :: "(jsval \<Rightarrow> 'a) \<Rightarrow> jsval \<Rightarrow> 'a frag" where
  "MeshStatus click data =
     (let links = js_or (js_oget ''links'' data) (Arr []) in
      sbind (as_array links) (\<lambda>ls. sbind (not_ok ls) (\<lambda>down.
        el ''Card'' [(''title'', Str lbl_mesh_title)] []
          [mesh_map (Some click) (js_or (js_oget ''nodes'' data) (Arr [])) links [],
           el ''div'' [] []
             [antd_list [(''header'', Str (lbl_down_segments @ show_nat (length down))),
                (''emptyText'', Str lbl_all_connected)] (Arr down) down_row]])))"

section \<open>PathSelectorModal\<close>

datatype path_action = ClickNode string | FinishPath | ClosePath

definition with_current :: "jsval \<Rightarrow> jsval \<Rightarrow> jsval res" where
  "with_current node n =
     dot ''id'' n (\<lambda>i. Inr (Obj (set_prop ''current'' (Boolean (i = js_oget ''id'' node)) (spread n))))"

definition segment_row :: "string \<times> string \<times> string \<Rightarrow> 'a frag" where
  "segment_row item =
     (case item of (a, b, reason) \<Rightarrow>
       el ''List.Item'' [] []
         [el ''Tag'' [(''color'', Str ''red'')] [] [says a],
          el ''span'' [] [] [says lbl_arrow],
          el ''Tag'' [(''color'', Str ''red'')] [] [says b],
          el ''Text'' [] [] [child (js_or (Str reason) (Str txt_down))]])"

text \<open>
  The links are searched only when the path has a hop.  A link behind the hit that is
  \<open>null\<close> makes the model throw where \<open>find\<close> would not look at it.
\<close>

definition path_segments :: "jsval \<Rightarrow> string \<Rightarrow> string list \<Rightarrow> (string \<times> string \<times> string) list res" where
  "path_segments links current path =
     (if path = [] then Inr []
      else sbind (as_array links) (\<lambda>ls. sbind (traverse link_of ls) (\<lambda>mls.
        Inr (downSegments mls current path))))"

text \<open>antd mounts what is inside a dialog when it opens, so the map is drawn only then.\<close>

definition PathSelectorModal :: "jsval \<Rightarrow> jsval \<Rightarrow> path_modal \<Rightarrow> path_action frag" where
  "PathSelectorModal mesh node m =
     (let links = js_or (js_oget ''links'' mesh) (Arr []);
          current = elem_string (js_oget ''id'' node);
          highlight = highlightPath current (pm_path m)
      in sbind (as_array (js_or (js_oget ''nodes'' mesh) (Arr []))) (\<lambda>ns.
         sbind (traverse (with_current node) ns) (\<lambda>nodes.
         sbind (path_segments links current (pm_path m)) (\<lambda>segs.
           el ''Modal'' [(''open'', Boolean (pm_open m)), (''title'', Str lbl_path_title)]
             [(''onCancel'', ClosePath), (''onOk'', FinishPath)]
             [opt (pm_open m) (mesh_map (Some (\<lambda>n. ClickNode (elem_string (js_oget ''id'' n)))) (Arr nodes) links highlight),
              el ''Text'' [] [] [says lbl_chosen_path,
                child (js_or (Str (join txt_arrow highlight)) (Str txt_not_selected))],
              el ''List'' [(''header'', Str (lbl_down_segments @ show_nat (length segs))),
                (''emptyText'', Str lbl_path_fine)] [] [each segment_row segs],
              el ''Text'' [] [] [says lbl_path_hint]]))))"

section \<open>What is needed to render\<close>

text \<open>
  An entry of the mesh answer: an object whose shown fields are no objects.  Whether a value
  renders does not depend on the actions around it, so a unit action stands for any.
\<close>

definition item_shape :: "jsval \<Rightarrow> bool" where
  "item_shape x \<longleftrightarrow> (\<exists>ps. x = Obj ps) \<and>
     (\<forall>k\<in>set [''from'', ''to'', ''reason'', ''latencyMs'', ''packetLoss''].
        renders (child (js_oget k x) :: unit frag))"

fun array_shape :: "(jsval \<Rightarrow> bool) \<Rightarrow> jsval \<Rightarrow> bool" where
  "array_shape P (Arr xs) = (\<forall>x\<in>set xs. P x)"
| "array_shape P v = (\<not> truthy v)"

definition mesh_shape :: "jsval \<Rightarrow> bool" where
  "mesh_shape v \<longleftrightarrow> array_shape item_shape (js_oget ''nodes'' v) \<and> array_shape item_shape (js_oget ''links'' v)"

lemma renders_show_dot: "renders (show_dot k v :: 'a frag) \<longleftrightarrow>
    v \<noteq> Undef \<and> v \<noteq> Null \<and> renders (child (js_oget k v) :: 'a frag)"
  by (simp add: show_dot_def renders_dot)

lemma renders_child_any: "renders (child v :: 'a frag) \<longleftrightarrow> renders (child v :: 'b frag)"
  by (induction v) auto

lemma renders_line [simp]: "renders (line_markup l)"
  by (simp add: line_markup_def)

lemma renders_dot_markup [simp]: "renders (dot_markup f d)"
  by (simp add: dot_markup_def)

lemma renders_node_markup [simp]: "renders (node_markup f pos links n)"
  by (simp add: node_markup_def split: option.split)

lemma renders_segment_row [simp]: "renders (segment_row x)"
  by (cases x) (simp add: segment_row_def js_or_def)

lemma traverse_objects:
  assumes "\<forall>x\<in>set xs. \<exists>ps. x = Obj ps"
  shows "traverse node_of xs = Inr (map mesh_node_of xs)" "traverse link_of xs = Inr (map mesh_link_of xs)"
proof -
  have "node_of x = Inr (mesh_node_of x)" "link_of x = Inr (mesh_link_of x)" if "x \<in> set xs" for x
    using assms that by (auto simp: node_of_def link_of_def)
  then show "traverse node_of xs = Inr (map mesh_node_of xs)" "traverse link_of xs = Inr (map mesh_link_of xs)"
    by (auto intro: traverse_Inr)
qed

lemma renders_mesh_map:
  assumes "\<forall>x\<in>set ns. \<exists>ps. x = Obj ps" and "\<forall>x\<in>set ls. \<exists>ps. x = Obj ps"
  shows "renders (mesh_map f (Arr ns) (Arr ls) hl)"
  using assms by (simp add: mesh_map_def traverse_objects)

lemma not_ok_objects:
  assumes "\<forall>x\<in>set ls. \<exists>ps. x = Obj ps"
  shows "not_ok ls = Inr (filter (\<lambda>l. \<not> truthy (js_oget ''ok'' l)) ls)"
proof -
  have "traverse (\<lambda>l. dot ''ok'' l (\<lambda>ok. Inr (l, truthy ok))) ls = Inr (map (\<lambda>l. (l, truthy (js_oget ''ok'' l))) ls)"
    using assms by (intro traverse_Inr) auto
  then show ?thesis by (simp add: not_ok_def filter_map comp_def)
qed

lemma array_shape_js_or:
  assumes "array_shape P v"
  obtains xs where "js_or v (Arr []) = Arr xs" and "\<forall>x\<in>set xs. P x"
proof (cases v)
  case (Arr xs)
  then show ?thesis using assms that [of xs] by simp
qed (use assms that [of "[]"] in \<open>simp_all add: js_or_def\<close>)

lemma item_shape_obj: "\<forall>x\<in>set xs. item_shape x \<Longrightarrow> \<forall>x\<in>set xs. \<exists>ps. x = Obj ps"
  by (simp add: item_shape_def)

lemma renders_down_row:
  assumes "item_shape x"
  shows "renders (down_row x :: 'a frag)"
proof -
  have "renders (child (js_oget k x) :: 'a frag)"
    if "k \<in> set [''from'', ''to'', ''reason'', ''latencyMs'', ''packetLoss'']" for k
    using assms that renders_child_any [where 'a = 'a and 'b = unit] unfolding item_shape_def by blast
  moreover have "x \<noteq> Undef" "x \<noteq> Null" using assms by (auto simp: item_shape_def)
  ultimately show ?thesis by (simp add: down_row_def renders_show_dot renders_dot js_or_def)
qed

lemma renders_MeshStatus:
  assumes "mesh_shape data"
  shows "renders (MeshStatus f data :: 'a frag)"
proof -
  obtain ns where ns: "js_or (js_oget ''nodes'' data) (Arr []) = Arr ns" "\<forall>x\<in>set ns. item_shape x"
    using assms array_shape_js_or unfolding mesh_shape_def by blast
  obtain ls where ls: "js_or (js_oget ''links'' data) (Arr []) = Arr ls" "\<forall>x\<in>set ls. item_shape x"
    using assms array_shape_js_or unfolding mesh_shape_def by blast
  show ?thesis
    unfolding MeshStatus_def Let_def ns(1) ls(1) as_array.simps sbind_simps not_ok_objects [OF item_shape_obj [OF ls(2)]]
    using renders_mesh_map [OF item_shape_obj [OF ns(2)] item_shape_obj [OF ls(2)]] ls(2)
    by (simp add: renders_down_row)
qed

lemma with_current_objects:
  assumes "\<forall>x\<in>set ns. \<exists>ps. x = Obj ps"
  obtains xs where "traverse (with_current node) ns = Inr xs" and "\<forall>x\<in>set xs. \<exists>ps. x = Obj ps"
proof -
  let ?g = "\<lambda>n. Obj (set_prop ''current'' (Boolean (js_oget ''id'' n = js_oget ''id'' node)) (spread n))"
  have "traverse (with_current node) ns = Inr (map ?g ns)"
    using assms by (intro traverse_Inr) (auto simp: with_current_def)
  then show ?thesis using that [of "map ?g ns"] by auto
qed

lemma renders_PathSelectorModal:
  assumes "mesh_shape mesh"
  shows "renders (PathSelectorModal mesh node m)"
proof -
  obtain ns where ns: "js_or (js_oget ''nodes'' mesh) (Arr []) = Arr ns" "\<forall>x\<in>set ns. item_shape x"
    using assms array_shape_js_or unfolding mesh_shape_def by blast
  obtain ls where ls: "js_or (js_oget ''links'' mesh) (Arr []) = Arr ls" "\<forall>x\<in>set ls. item_shape x"
    using assms array_shape_js_or unfolding mesh_shape_def by blast
  obtain xs where xs: "traverse (with_current node) ns = Inr xs" "\<forall>x\<in>set xs. \<exists>ps. x = Obj ps"
    using with_current_objects [OF item_shape_obj [OF ns(2)]] by blast
  obtain segs where segs: "path_segments (Arr ls) (elem_string (js_oget ''id'' node)) (pm_path m) = Inr segs"
    by (cases "pm_path m = []") (simp_all add: path_segments_def traverse_objects(2) [OF item_shape_obj [OF ls(2)]])
  show ?thesis
    unfolding PathSelectorModal_def Let_def ns(1) ls(1) as_array.simps sbind_simps xs(1) segs
    by (simp add: js_or_def renders_mesh_map [OF xs(2) item_shape_obj [OF ls(2)]])
qed

end
