(* ===== verification/View_Policy.thy ===== *)
theory View_Policy
  imports Js_Policy View_Mesh
begin

text \<open>
  What \<open>PolicyDrawer.jsx\<close> puts on the page, with the action of every button, and when
  rendering it does not throw.
\<close>

datatype drawer_action =
    AddRule
  | RemoveRule nat
  | OpenMap
  | Path path_action
  | ViewPolicy
  | CloseView
  | LoadLogs
  | LoadDiag
  | RunVerify
  | SubmitPolicy
  | CloseDrawer

primrec map_markup :: "('a \<Rightarrow> 'b) \<Rightarrow> 'a markup \<Rightarrow> 'b markup" where
  "map_markup f (Leaf v) = Leaf v"
| "map_markup f (Elem t ps hs ks) = Elem t ps (map (map_prod id f) hs) (map (map_markup f) ks)"

definition map_frag :: "('a \<Rightarrow> 'b) \<Rightarrow> 'a frag \<Rightarrow> 'b frag" where
  "map_frag f m = sbind m (\<lambda>xs. Inr (map (map_markup f) xs))"

section \<open>Rules\<close>

definition input :: "string \<Rightarrow> 'a frag" where
  "input placeholder = el ''Input'' [(''placeholder'', Str placeholder)] [] []"

definition node_select :: "string \<Rightarrow> jsval list \<Rightarrow> 'a frag" where
  "node_select placeholder options =
     el ''Select'' [(''allowClear'', Boolean True), (''showSearch'', Boolean True),
       (''placeholder'', Str placeholder), (''optionFilterProp'', Str ''label''),
       (''options'', Arr options)] [] []"

definition required :: "string \<Rightarrow> jsval" where
  "required message = Arr [Obj [(''required'', Boolean True), (''message'', Str message)]]"

definition RuleEditor :: "jsval list \<Rightarrow> bool \<Rightarrow> drawer_action frag" where
  "RuleEditor viaOptions pathSelected =
     el ''Card'' [(''title'', Str lbl_new_rule)] []
       [el ''Form'' [] []
         [el ''Form.Item'' [(''name'', Str ''prefix'')] [] [input lbl_prefix_hint],
          el ''Form.Item'' [(''name'', Str ''domains'')] [] [input lbl_domains_hint],
          el ''Form.Item'' [(''name'', Str ''viaNode''),
              (''rules'', if pathSelected then Arr [] else required lbl_via_required)] []
            [node_select lbl_via_hint
               (Obj [(''label'', Str lbl_local), (''value'', Str ''local'')] # viaOptions)],
          el ''Button'' [(''type'', Str ''primary'')] [(''onClick'', AddRule)] [says lbl_add]]]"

text \<open>\<open>Array.isArray(ds) && ds.length ? `[${ds.join(',')}]` : ''\<close>\<close>

fun domains_text :: "jsval \<Rightarrow> string" where
  "domains_text (Arr ds) = (if ds = [] then [] else ''['' @ js_join '','' ds @ '']'')"
| "domains_text v = []"

text \<open>\<open>r.path?.length ? ` ... ${r.path.join(...)}` : ''\<close>: only an array has \<open>join\<close>.\<close>

definition path_text :: "jsval \<Rightarrow> string res" where
  "path_text v =
     (if truthy (js_length v) then sbind (as_array v) (\<lambda>hs. Inr (txt_path @ js_join txt_arrow hs))
      else Inr [])"

definition rule_span :: "jsval \<Rightarrow> 'a frag" where
  "rule_span r =
     el ''span'' [] []
       [dot ''prefix'' r (\<lambda>p. child (js_or p (Str txt_domain_rule))), says '' '',
        dot ''domains'' r (\<lambda>ds. says (domains_text ds)), says txt_arrow,
        show_dot ''viaNode'' r,
        dot ''path'' r (\<lambda>p. sbind (path_text p) says)]"

definition rule_row :: "nat \<Rightarrow> jsval \<Rightarrow> drawer_action frag" where
  "rule_row i r =
     el ''div'' [] []
       [rule_span r, el ''Button'' [] [(''onClick'', RemoveRule i)] [says lbl_remove]]"

definition RuleList :: "jsval \<Rightarrow> drawer_action frag" where
  "RuleList rules =
     (if \<not> truthy (js_length rules) then el ''Text'' [] [] [says lbl_no_rules]
      else sbind (as_array rules) (\<lambda>rs.
        el ''Card'' [(''title'', Str lbl_rules)] [] [each_i rule_row rs]))"

section \<open>The cards of the drawer\<close>

definition status_color :: "jsval \<Rightarrow> string" where
  "status_color v = (case v of Str s \<Rightarrow> statusColor s | _ \<Rightarrow> ''default'')"

definition button :: "bool option \<Rightarrow> 'a \<Rightarrow> string \<Rightarrow> 'a frag" where
  "button loading act lbl =
     el ''Button'' (case loading of Some b \<Rightarrow> [(''loading'', Boolean b)] | None \<Rightarrow> [])
       [(''onClick'', act)] [says lbl]"

definition status_tag :: "jsval \<Rightarrow> jsval \<Rightarrow> 'a frag" where
  "status_tag status content = el ''Tag'' [(''color'', Str (status_color status))] [] [child content]"

definition log_item :: "clock \<Rightarrow> jsval \<Rightarrow> 'a frag" where
  "log_item t item =
     el ''List.Item'' [] []
       [el ''Space'' [] [] [dot ''status'' item (\<lambda>s. status_tag s s),
          el ''Text'' [] [] [dot ''message'' item (\<lambda>m. child (js_or m (Str ''-'')))]],
        el ''Text'' [] []
          [dot ''timestamp'' item (\<lambda>ts. says (toLocaleString t ts)), says '' '',
           dot ''version'' item (\<lambda>v. if truthy v then says (lbl_version_open @ elem_string v @ '')'') else says [])],
        dot ''logs'' item (\<lambda>ls. opt (truthy (js_length ls))
          (sbind (as_array ls) (\<lambda>xs. el ''Text'' [] [] [says (js_join '' | '' xs)])))]"

definition install_card :: "clock \<Rightarrow> drawer \<Rightarrow> drawer_action frag" where
  "install_card t s =
     el ''Card'' [(''title'', Str lbl_install)] []
       [el ''extra'' [] [] [button (Some (pd_logsLoading s)) LoadLogs lbl_refresh_logs],
        (let l = latest s in
         if truthy l then
           el ''div'' [] [] [el ''Text'' [] [] [says lbl_current_status],
             dot ''status'' l (\<lambda>v. status_tag v v), el ''Text'' [] [] [show_dot ''message'' l]]
         else el ''Text'' [] [] [says lbl_no_status]),
        sbind (as_array (pd_installLogs s)) (\<lambda>logs.
          antd_list [(''emptyText'', Str lbl_no_logs)] (Arr (rev logs)) (log_item t))]"

definition step_row :: "clock \<Rightarrow> jsval \<Rightarrow> 'a frag" where
  "step_row t s =
     el ''Space'' [] []
       [dot ''status'' s (\<lambda>st. dot ''name'' s (\<lambda>n. status_tag st n)),
        el ''Text'' [] [] [show_dot ''message'' s],
        el ''Text'' [] [] [dot ''timestamp'' s (\<lambda>ts. says (if truthy ts then toLocaleTimeString t ts else []))]]"

definition task_item :: "clock \<Rightarrow> jsval \<Rightarrow> 'a frag" where
  "task_item t task =
     el ''List.Item'' [] []
       [el ''Space'' [] []
          [el ''Tag'' [(''color'', Str ''blue'')] [] [show_dot ''type'' task],
           el ''Text'' [(''strong'', Boolean True)] [] [dot ''id'' task (\<lambda>i. sbind (js_slice 8 i) child)],
           el ''Text'' [] [] [dot ''createdAt'' task (\<lambda>ts. says (if truthy ts then toLocaleString t ts else []))]],
        dot ''steps'' task (\<lambda>st. sbind (as_array (js_or st (Arr []))) (each (step_row t)))]"

definition tasks_card :: "clock \<Rightarrow> drawer \<Rightarrow> drawer_action frag" where
  "tasks_card t s =
     el ''Card'' [(''title'', Str lbl_timeline)] []
       [antd_list [(''emptyText'', Str lbl_no_tasks)] (pd_tasks s) (task_item t)]"

definition agent_log_card :: "drawer \<Rightarrow> drawer_action frag" where
  "agent_log_card s =
     el ''Card'' [(''title'', Str lbl_agent_log)] []
       [el ''pre'' [] [] [says (if pd_logLines s \<noteq> [] then join [CHR 0x0A] (pd_logLines s) else lbl_waiting_log)]]"

definition check_item :: "jsval \<Rightarrow> 'a frag" where
  "check_item item =
     el ''List.Item'' [] []
       [dot ''status'' item (\<lambda>s. status_tag s s),
        el ''Text'' [(''strong'', Boolean True)] [] [show_dot ''name'' item],
        el ''Text'' [] [] [show_dot ''detail'' item]]"

definition summary_status :: "jsval \<Rightarrow> string res" where
  "summary_status summary =
     sbind (js_includes txt_error summary) (\<lambda>err.
       if err then Inr ''failed''
       else sbind (js_includes txt_warning summary) (\<lambda>warn. Inr (if warn then ''warn'' else ''success'')))"

definition diag_card :: "clock \<Rightarrow> drawer \<Rightarrow> drawer_action frag" where
  "diag_card t s =
     el ''Card'' [(''title'', Str lbl_diagnosis)] []
       [el ''extra'' [] [] [button (Some (pd_diagLoading s)) LoadDiag lbl_diagnose,
          button (Some (pd_verifyLoading s)) RunVerify lbl_verify],
        (let diag = pd_diag s in
         if truthy diag then
           kids [el ''Space'' [] []
               [dot ''summary'' diag (\<lambda>sm. sbind (summary_status sm) (\<lambda>st. status_tag (Str st) sm)),
                el ''Text'' [] [] [dot ''timestamp'' diag (\<lambda>ts. says (toLocaleString t ts))]],
             dot ''checks'' diag (\<lambda>cs. antd_list [] (js_or cs (Arr [])) check_item)]
         else el ''Text'' [] [] [says lbl_no_diag])]"

text \<open>The text \<open>JSON.stringify\<close> prints is not modelled: a \<open>JSON\<close> element holds the value.\<close>

definition view_modal :: "drawer \<Rightarrow> drawer_action frag" where
  "view_modal s =
     el ''Modal'' [(''open'', Boolean (pd_viewModal s)), (''title'', Str lbl_answer)] [(''onCancel'', CloseView)]
       [el ''pre'' [] [] [if truthy (pd_rawPolicy s)
          then el ''JSON'' [(''value'', stringify (pd_rawPolicy s))] [] [] else says lbl_no_data]]"

section \<open>The drawer\<close>

record drawer_props =
  dp_open :: bool
  dp_node :: jsval
  dp_nodes :: jsval
  dp_mesh :: jsval

definition node_options :: "jsval \<Rightarrow> jsval list res" where
  "node_options nodes =
     sbind (as_array (js_or nodes (Arr [])))
       (traverse (\<lambda>n. dot ''id'' n (\<lambda>i. Inr (Obj [(''label'', i), (''value'', i)]))))"

text \<open>\<open>`...${node?.id || ''}`\<close>\<close>

definition titled :: "string \<Rightarrow> jsval \<Rightarrow> jsval" where
  "titled lbl node = Str (lbl @ elem_string (js_or (js_oget ''id'' node) (Str [])))"

definition current_path_text :: "jsval \<Rightarrow> drawer \<Rightarrow> string" where
  "current_path_text node s =
     (if pd_currentPath s \<noteq> []
      then js_join txt_arrow (js_oget ''id'' node # map Str (pd_currentPath s)) else lbl_no_path)"

definition down_count :: "jsval \<Rightarrow> 'a frag" where
  "down_count mesh =
     (let links = js_oget ''links'' mesh in
      if truthy links then
        sbind (as_array links) (\<lambda>ls. sbind (not_ok ls) (\<lambda>down.
          el ''Text'' [] [] [says lbl_down_count, child (Number (of_nat (length down)))]))
      else child links)"

definition policy_form :: "jsval list \<Rightarrow> drawer_action frag" where
  "policy_form options =
     el ''Form'' [] []
       [el ''Form.Item'' [(''name'', Str ''egressPeerId''), (''label'', Str lbl_egress)] []
          [node_select lbl_egress_hint options],
        el ''Form.Item'' [(''name'', Str ''defaultRouteNextHop''), (''label'', Str lbl_next_hop)] []
          [node_select lbl_next_hop_hint options],
        el ''Form.Item'' [(''name'', Str ''bypassCidrs''), (''label'', Str lbl_bypass)] [] [input ''172.19.3.0/24''],
        el ''Form.Item'' [(''name'', Str ''defaultRoute''), (''valuePropName'', Str ''checked'')] []
          [el ''Checkbox'' [] [] [says lbl_default_route]]]"

definition PolicyDrawer :: "clock \<Rightarrow> drawer_props \<Rightarrow> path_modal \<Rightarrow> drawer \<Rightarrow> drawer_action frag" where
  "PolicyDrawer t p m s =
     sbind (if pd_crashed s then Inl type_error else node_options (dp_nodes p)) (\<lambda>options.
       el ''Modal'' [(''title'', titled lbl_policy_title (dp_node p)), (''open'', Boolean (dp_open p))]
         [(''onCancel'', CloseDrawer), (''onOk'', SubmitPolicy)]
         [policy_form options,
          el ''div'' [] []
            [el ''Text'' [] [] [says lbl_current_path],
             el ''Text'' [] [] [says (current_path_text (dp_node p) s)],
             button None OpenMap lbl_open_map,
             button None ViewPolicy lbl_view_config,
             down_count (dp_mesh p)],
          RuleEditor options (pd_currentPath s \<noteq> []),
          RuleList (pd_rules s),
          map_frag Path (PathSelectorModal (dp_mesh p) (dp_node p) m),
          install_card t s, tasks_card t s, agent_log_card s, diag_card t s, view_modal s])"

section \<open>When rendering does not throw\<close>

text \<open>Values React shows or skips.\<close>

definition plain :: "jsval \<Rightarrow> bool" where
  "plain v \<longleftrightarrow> renders (child v :: unit frag)"

definition object_of :: "string list \<Rightarrow> jsval \<Rightarrow> bool" where
  "object_of ks v \<longleftrightarrow> (\<exists>ps. v = Obj ps) \<and> (\<forall>k\<in>set ks. plain (js_oget k v))"

fun joinable :: "jsval \<Rightarrow> bool" where
  "joinable (Arr xs) = True"
| "joinable v = (\<not> truthy (js_length v))"

definition rule_shape :: "jsval \<Rightarrow> bool" where
  "rule_shape r \<longleftrightarrow> object_of [''prefix'', ''viaNode''] r \<and> joinable (js_oget ''path'' r)"

definition log_shape :: "jsval \<Rightarrow> bool" where
  "log_shape l \<longleftrightarrow> object_of [''status'', ''message''] l \<and> joinable (js_oget ''logs'' l)"

definition step_shape :: "jsval \<Rightarrow> bool" where
  "step_shape x \<longleftrightarrow> object_of [''name'', ''message''] x"

definition task_shape :: "jsval \<Rightarrow> bool" where
  "task_shape x \<longleftrightarrow> object_of [''type''] x \<and> (js_oget ''id'' x = Undef \<or> (\<exists>i. js_oget ''id'' x = Str i))
     \<and> array_shape step_shape (js_oget ''steps'' x)"

definition check_shape :: "jsval \<Rightarrow> bool" where
  "check_shape x \<longleftrightarrow> object_of [''status'', ''name'', ''detail''] x"

definition diag_shape :: "jsval \<Rightarrow> bool" where
  "diag_shape d \<longleftrightarrow> \<not> truthy d \<or> (object_of [] d \<and> (\<exists>m. js_oget ''summary'' d = Str m)
     \<and> array_shape check_shape (js_oget ''checks'' d))"

definition all_shape :: "(jsval \<Rightarrow> bool) \<Rightarrow> jsval \<Rightarrow> bool" where
  "all_shape P v \<longleftrightarrow> (\<exists>xs. v = Arr xs \<and> (\<forall>x\<in>set xs. P x))"

definition drawer_shape :: "drawer \<Rightarrow> bool" where
  "drawer_shape s \<longleftrightarrow> all_shape rule_shape (pd_rules s) \<and> all_shape log_shape (pd_installLogs s)
     \<and> all_shape task_shape (pd_tasks s) \<and> diag_shape (pd_diag s) \<and> \<not> pd_crashed s"

definition nodes_shape :: "jsval \<Rightarrow> bool" where
  "nodes_shape v \<longleftrightarrow> array_shape (\<lambda>x. \<exists>ps. x = Obj ps) v"

lemma plain_simps [simp]:
  "plain Undef" "plain Null" "plain (Str s)" "plain (Number n)" "plain (Boolean b)" "plain NaN"
  by (simp_all add: plain_def)

lemma renders_child: "renders (child v :: 'a frag) \<longleftrightarrow> plain v"
  unfolding plain_def by (rule renders_child_any)

lemma plain_js_or: "plain v \<Longrightarrow> plain (js_or v (Str s))"
  by (simp add: js_or_def)

lemma falsy_plain: "\<not> truthy v \<Longrightarrow> plain v"
  by (cases v) simp_all

lemma renders_object:
  assumes "object_of ks v"
  shows "renders (dot k v f) \<longleftrightarrow> renders (f (js_oget k v))"
    "k \<in> set ks \<Longrightarrow> renders (show_dot k v)" "k \<in> set ks \<Longrightarrow> plain (js_oget k v)"
  using assms by (auto simp: object_of_def renders_dot renders_show_dot renders_child)

lemma renders_basic [simp]:
  "renders (input h)" "renders (node_select h opts)" "renders (button l act lbl)"
  "renders (status_tag st c :: 'a frag) \<longleftrightarrow> plain c" "renders (RuleEditor opts b)" "renders (policy_form opts)"
  by (simp_all add: input_def node_select_def button_def status_tag_def renders_child RuleEditor_def policy_form_def)

lemma joinable_cases:
  assumes "joinable v"
  shows "\<not> truthy (js_length v) \<or> (\<exists>xs. v = Arr xs)"
  using assms by (cases v) auto

lemma renders_path_text [simp]: "joinable v \<Longrightarrow> \<exists>t. path_text v = Inr t"
  using joinable_cases [of v] by (auto simp: path_text_def)

lemma renders_rule_row: "rule_shape r \<Longrightarrow> renders (rule_row i r)"
proof -
  assume "rule_shape r"
  then have obj: "object_of [''prefix'', ''viaNode''] r" and "joinable (js_oget ''path'' r)"
    by (simp_all add: rule_shape_def)
  then obtain t where "path_text (js_oget ''path'' r) = Inr t" using renders_path_text by blast
  then show ?thesis
    by (simp add: rule_row_def rule_span_def renders_object [OF obj] renders_child plain_js_or)
qed

lemma renders_log_item: "log_shape l \<Longrightarrow> renders (log_item t l)"
proof -
  assume "log_shape l"
  then have obj: "object_of [''status'', ''message''] l" and logs: "joinable (js_oget ''logs'' l)"
    by (simp_all add: log_shape_def)
  have if_says: "renders (if c then says u else says v)" for c u v by simp
  from joinable_cases [OF logs] show ?thesis
    by (elim disjE exE)
      (simp_all only: log_item_def renders_el list.set ball_simps insert_iff renders_object(1) [OF obj]
        renders_basic renders_child plain_js_or renders_object(3) [OF obj] renders_simps if_says simp_thms
        renders_opt, simp_all add: renders_object(3) [OF obj] plain_js_or)
qed

lemma log_object: "log_shape l \<Longrightarrow> object_of [''status'', ''message''] l"
  by (simp add: log_shape_def)

lemma renders_step_row: "step_shape x \<Longrightarrow> renders (step_row t x)"
  by (auto simp: step_shape_def step_row_def renders_object)

lemma renders_task_item: "task_shape x \<Longrightarrow> renders (task_item t x)"
proof -
  assume x: "task_shape x"
  then have obj: "object_of [''type''] x" by (simp add: task_shape_def)
  obtain ss where ss: "js_or (js_oget ''steps'' x) (Arr []) = Arr ss" "\<forall>y\<in>set ss. step_shape y"
    using x array_shape_js_or unfolding task_shape_def by blast
  have "js_oget ''id'' x = Undef \<or> (\<exists>i. js_oget ''id'' x = Str i)" using x by (simp add: task_shape_def)
  then show ?thesis
    using renders_object(2,3) [OF obj] ss
    by (auto simp: task_item_def renders_object(1) [OF obj] renders_child renders_step_row)
qed

lemma renders_check_item: "check_shape x \<Longrightarrow> renders (check_item x)"
  by (auto simp: check_shape_def check_item_def renders_object)

lemma renders_cards:
  assumes "drawer_shape s"
  shows "renders (RuleList (pd_rules s))" "renders (install_card t s)" "renders (tasks_card t s)"
    "renders (agent_log_card s)" "renders (diag_card t s)" "renders (view_modal s)"
proof -
  obtain rs where rs: "pd_rules s = Arr rs" "\<forall>r\<in>set rs. rule_shape r"
    using assms by (auto simp: drawer_shape_def all_shape_def)
  then show "renders (RuleList (pd_rules s))" by (simp add: RuleList_def renders_rule_row)
  obtain ls where ls: "pd_installLogs s = Arr ls" "\<forall>r\<in>set ls. log_shape r"
    using assms by (auto simp: drawer_shape_def all_shape_def)
  moreover have "latest s = Null \<or> log_shape (latest s)" using ls by (auto simp: latest_def)
  ultimately show "renders (install_card t s)"
    by (auto simp: install_card_def renders_log_item renders_object [OF log_object] Let_def)
  obtain ts where "pd_tasks s = Arr ts" "\<forall>r\<in>set ts. task_shape r"
    using assms by (auto simp: drawer_shape_def all_shape_def)
  then show "renders (tasks_card t s)" by (simp add: tasks_card_def renders_task_item)
  show "renders (agent_log_card s)" "renders (view_modal s)"
    by (simp_all add: agent_log_card_def view_modal_def)
  show "renders (diag_card t s)"
  proof (cases "truthy (pd_diag s)")
    case True
    then have d: "object_of [] (pd_diag s)" "array_shape check_shape (js_oget ''checks'' (pd_diag s))"
      and m: "\<exists>m. js_oget ''summary'' (pd_diag s) = Str m"
      using assms by (auto simp: drawer_shape_def diag_shape_def)
    obtain cs where cs: "js_or (js_oget ''checks'' (pd_diag s)) (Arr []) = Arr cs" "\<forall>x\<in>set cs. check_shape x"
      using d(2) by (rule array_shape_js_or)
    show ?thesis
      using m cs True
      by (auto simp: diag_card_def Let_def renders_object(1) [OF d(1)] summary_status_def renders_check_item)
  qed (simp add: diag_card_def)
qed

lemma renders_map_frag [simp]: "renders (map_frag f m) \<longleftrightarrow> renders m"
  by (cases m) (simp_all add: map_frag_def)

lemma node_options_ok: "nodes_shape nodes \<Longrightarrow> \<exists>opts. node_options nodes = Inr opts"
proof -
  assume "nodes_shape nodes"
  then obtain ns where ns: "js_or nodes (Arr []) = Arr ns" "\<forall>x\<in>set ns. \<exists>ps. x = Obj ps"
    unfolding nodes_shape_def by (rule array_shape_js_or)
  have "traverse (\<lambda>n. dot ''id'' n (\<lambda>i. Inr (Obj [(''label'', i), (''value'', i)]))) ns =
      Inr (map (\<lambda>n. Obj [(''label'', js_oget ''id'' n), (''value'', js_oget ''id'' n)]) ns)"
    using ns(2) by (intro traverse_Inr) auto
  then show ?thesis using ns(1) by (simp add: node_options_def)
qed

lemma renders_down_count: "mesh_shape mesh \<Longrightarrow> renders (down_count mesh)"
proof (cases "truthy (js_oget ''links'' mesh)")
  case True
  assume "mesh_shape mesh"
  with True obtain ls where ls: "js_oget ''links'' mesh = Arr ls" "\<forall>x\<in>set ls. item_shape x"
    unfolding mesh_shape_def by (cases "js_oget ''links'' mesh") auto
  then show ?thesis by (simp add: down_count_def not_ok_objects [OF item_shape_obj])
qed (simp add: down_count_def renders_child falsy_plain)

lemma renders_PolicyDrawer:
  assumes "drawer_shape s" and "mesh_shape (dp_mesh p)" and "nodes_shape (dp_nodes p)"
  shows "renders (PolicyDrawer t p m s)"
proof -
  obtain opts where "node_options (dp_nodes p) = Inr opts" using node_options_ok [OF assms(3)] by blast
  then show ?thesis
    using renders_cards [OF assms(1)] renders_PathSelectorModal [OF assms(2)] renders_down_count [OF assms(2)]
    using assms(1) by (simp add: PolicyDrawer_def drawer_shape_def)
qed

section \<open>Properties\<close>

text \<open>What the inputs of a form give: a text, or nothing.\<close>

definition field_value :: "jsval \<Rightarrow> bool" where
  "field_value v \<longleftrightarrow> v = Undef \<or> (\<exists>s. v = Str s)"

definition text_rule :: "jsval \<Rightarrow> bool" where
  "text_rule r \<longleftrightarrow> rule_shape r \<and> field_value (js_oget ''prefix'' r) \<and> field_value (js_oget ''viaNode'' r)"

lemma shown_child: "field_value v \<Longrightarrow> concat (map elem_string (shown_all (child v))) = elem_string v"
  "field_value v \<Longrightarrow> offers_all (child v) = []"
  by (auto simp: field_value_def)

lemma rule_row_single:
  assumes "text_rule r"
  obtains m where "rule_row i r = Inr [m]" and "offers m = [RemoveRule i]"
    and "concat (map elem_string (shown m)) = rule_text r @ lbl_remove"
proof -
  have shape: "rule_shape r" and obj: "object_of [''prefix'', ''viaNode''] r"
    and pre: "field_value (js_oget ''prefix'' r)" and via: "field_value (js_oget ''viaNode'' r)"
    using assms by (simp_all add: text_rule_def rule_shape_def)
  then obtain ps where ps: "r = Obj ps" by (auto simp: object_of_def)
  have join: "joinable (js_lookup ''path'' ps)" using shape ps by (simp add: rule_shape_def)
  then have path: "path_text (js_lookup ''path'' ps) =
      Inr (case js_lookup ''path'' ps of Arr hs \<Rightarrow> if hs = [] then [] else txt_path @ js_join txt_arrow hs | _ \<Rightarrow> [])"
    using joinable_cases [OF join] by (cases "js_lookup ''path'' ps") (auto simp: path_text_def)
  have pre': "field_value (js_or (js_lookup ''prefix'' ps) (Str txt_domain_rule))"
  proof -
    have "js_or (Str u) (Str v) = Str (if u = [] then v else u)" for u v by simp
    then show ?thesis using pre ps by (auto simp: field_value_def)
  qed
  have via': "field_value (js_lookup ''viaNode'' ps)" using via ps by simp
  let ?span = "[child (js_or (js_lookup ''prefix'' ps) (Str txt_domain_rule)), says '' '',
        says (domains_text (js_lookup ''domains'' ps)), says txt_arrow, child (js_lookup ''viaNode'' ps),
        says (case js_lookup ''path'' ps of Arr hs \<Rightarrow> if hs = [] then [] else txt_path @ js_join txt_arrow hs | _ \<Rightarrow> [])]
        :: drawer_action frag list"
  have span: "(rule_span r :: drawer_action frag) = el ''span'' [] [] ?span"
    unfolding rule_span_def ps show_dot_def dot_Obj path sbind_simps ..
  have rspan: "renders (rule_span r :: drawer_action frag)"
    using renders_rule_row [OF shape, of i] by (simp add: rule_row_def)
  have dt: "domains_text v = (case v of Arr ds \<Rightarrow> if ds = [] then [] else ''['' @ js_join '','' ds @ '']'' | _ \<Rightarrow> [])" for v
    by (cases v) simp_all
  have "shown_all (rule_span r :: drawer_action frag) = concat (map shown_all ?span)"
    using el_observe(1) [OF rspan [unfolded span]] by (simp only: span)
  then have words: "concat (map elem_string (shown_all (rule_span r :: drawer_action frag))) = rule_text r"
    by (simp add: shown_child(1) [OF pre'] shown_child(1) [OF via'] rule_text_def ps dt)
  have offers: "offers_all (rule_span r) = ([] :: drawer_action list)"
    using el_observe(2) [OF rspan [unfolded span]] by (simp add: span shown_child(2) [OF pre'] shown_child(2) [OF via'])
  have button: "el ''Button'' [] [(''onClick'', RemoveRule i)] [says lbl_remove] =
      Inr [Elem ''Button'' [] [(''onClick'', RemoveRule i)] [Leaf (Str lbl_remove)]]"
    by (simp add: el_def says_def kids.simps)
  from renders_rule_row [OF shape, of i] show ?thesis
    unfolding rule_row_def
  proof (rule el_single)
    fix ks :: "drawer_action markup list"
    assume ks: "el ''div'' [] [] [rule_span r, el ''Button'' [] [(''onClick'', RemoveRule i)] [says lbl_remove]] =
        Inr [Elem ''div'' [] [] ks]"
      "concat (map shown ks) = concat (map shown_all [rule_span r, el ''Button'' [] [(''onClick'', RemoveRule i)] [says lbl_remove]])"
      "concat (map offers ks) = concat (map offers_all [rule_span r, el ''Button'' [] [(''onClick'', RemoveRule i)] [says lbl_remove]])"
    show ?thesis
    proof (rule that [of "Elem ''div'' [] [] ks"])
      show "rule_row i r = Inr [Elem ''div'' [] [] ks]" using ks(1) by (simp add: rule_row_def)
      show "offers (Elem ''div'' [] [] ks) = [RemoveRule i]" using ks(3) offers by (simp add: button)
      show "concat (map elem_string (shown (Elem ''div'' [] [] ks))) = rule_text r @ lbl_remove"
        using ks(2) words by (simp add: button)
    qed
  qed
qed

lemma removeRule_at:
  assumes "pd_rules s = Arr rs"
  shows "removeRule i s = Inr (s\<lparr>pd_rules := Arr (take i rs @ drop (Suc i) rs)\<rparr>)"
proof -
  have "map fst (filter (\<lambda>(_, j). j \<noteq> i) (zip rs [n..<n + length rs])) =
      (if i < n then rs else take (i - n) rs @ drop (Suc (i - n)) rs)" for n
  proof (induction rs arbitrary: n)
    case (Cons r rs)
    have "[n..<n + length (r # rs)] = n # [Suc n..<Suc n + length rs]"
      by (simp add: upt_conv_Cons del: upt_Suc)
    with Cons.IH [of "Suc n"] show ?case
      by (cases "i = n"; cases "i < n") (simp_all add: Suc_diff_Suc [symmetric] del: upt_Suc)
  qed simp
  from this [of 0] show ?thesis using assms by (simp add: removeRule_def)
qed

text \<open>C27. The list of rules has one row for each rule, in order; a row shows its rule as a line of
  text, and its button removes exactly this rule and keeps the others in order.\<close>

theorem rule_rows_match_rules:
  assumes "rs \<noteq> []" and "\<forall>r\<in>set rs. text_rule r"
  shows "\<exists>rows. RuleList (Arr rs) = Inr [Elem ''Card'' [(''title'', Str lbl_rules)] [] rows] \<and> length rows = length rs
    \<and> (\<forall>i<length rs. offers (rows ! i) = [RemoveRule i]
         \<and> concat (map elem_string (shown (rows ! i))) = rule_text (rs ! i) @ lbl_remove
         \<and> (\<forall>s. pd_rules s = Arr rs \<longrightarrow>
              removeRule i s = Inr (s\<lparr>pd_rules := Arr (take i rs @ drop (Suc i) rs)\<rparr>)))"
proof -
  have "\<forall>i<length rs. \<exists>m. rule_row i (rs ! i) = Inr [m] \<and> offers m = [RemoveRule i]
      \<and> concat (map elem_string (shown m)) = rule_text (rs ! i) @ lbl_remove"
    using assms(2) rule_row_single by (metis nth_mem)
  then obtain g where g: "\<forall>i<length rs. rule_row i (rs ! i) = Inr [g i] \<and> offers (g i) = [RemoveRule i]
      \<and> concat (map elem_string (shown (g i))) = rule_text (rs ! i) @ lbl_remove"
    by metis
  then have "each_i rule_row rs = Inr (map g [0..<length rs])" by (intro each_i_single) simp
  then have "RuleList (Arr rs) = Inr [Elem ''Card'' [(''title'', Str lbl_rules)] [] (map g [0..<length rs])]"
    using assms(1) by (simp add: RuleList_def el_def kids.simps)
  then show ?thesis using g removeRule_at by (intro exI [of _ "map g [0..<length rs]"]) simp
qed

theorem rule_rows_match_rules_witness:
  "\<exists>rows. RuleList (Arr [Obj [(''prefix'', Str ''10.0.0.0/8''), (''viaNode'', Str ''b'')],
        Obj [(''domains'', Arr [Str ''x.org'']), (''viaNode'', Str ''c''), (''path'', Arr [Str ''c''])]])
      = Inr [Elem ''Card'' [(''title'', Str lbl_rules)] [] rows]
    \<and> offers (rows ! 1) = [RemoveRule 1]
    \<and> concat (map elem_string (shown (rows ! 0))) = ''10.0.0.0/8 '' @ txt_arrow @ ''b'' @ lbl_remove"
proof -
  let ?a = "Obj [(''prefix'', Str ''10.0.0.0/8''), (''viaNode'', Str ''b'')]"
  let ?b = "Obj [(''domains'', Arr [Str ''x.org'']), (''viaNode'', Str ''c''), (''path'', Arr [Str ''c''])]"
  have "text_rule ?a" "text_rule ?b"
    by (simp_all add: text_rule_def rule_shape_def object_of_def field_value_def)
  moreover have "rule_text ?a = ''10.0.0.0/8 '' @ txt_arrow @ ''b''" by (simp add: rule_text_def)
  ultimately show ?thesis
    using rule_rows_match_rules [of "[?a, ?b]"] by (auto simp: less_Suc_eq)
qed

end
