(* ===== verification/View_Nodes.thy ===== *)
theory View_Nodes
  imports Js_Nodes View_Policy
begin

text \<open>
  What the node management shows: \<open>NodesTable.jsx\<close> with the buttons of every row,
  \<open>NodeFormModal.jsx\<close> and \<open>EndpointDrawer.jsx\<close>.
\<close>

section \<open>antd's table\<close>

text \<open>
  A column is a title and how it renders a record.  A column with a \<open>dataIndex\<close> shows the
  property, and nothing for an object (the table drops a cell that is no React node).
\<close>

definition cell :: "jsval \<Rightarrow> 'a frag" where
  "cell v = (case v of Obj ps \<Rightarrow> Inr [] | _ \<Rightarrow> child v)"

definition data_cell :: "string \<Rightarrow> jsval \<Rightarrow> 'a frag" where
  "data_cell k r = cell (js_oget k r)"

definition antd_table ::
  "(string \<times> jsval) list \<Rightarrow> (string \<times> ('b \<Rightarrow> 'a frag)) list \<Rightarrow> 'b list \<Rightarrow> 'a frag" where
  "antd_table props columns rows =
     el ''Table'' props []
       [each (\<lambda>r. el ''tr'' [] []
          (map (\<lambda>(title, f). el ''td'' [(''title'', Str title)] [] [f r]) columns)) rows]"

section \<open>NodesTable\<close>

datatype table_action = Install jsval | Policy jsval | Endpoints jsval | Diagnose jsval

definition join_cell :: "string \<Rightarrow> jsval \<Rightarrow> 'a frag" where
  "join_cell k r = dot k r (\<lambda>v. sbind (as_array (js_or v (Arr []))) (\<lambda>xs. says (js_join '', '' xs)))"

definition row_buttons :: "jsval \<Rightarrow> table_action frag" where
  "row_buttons r =
     el ''Space'' [] []
       [button None (Install r) lbl_install_command, button None (Policy r) lbl_policy,
        button None (Endpoints r) lbl_endpoint_config, button None (Diagnose r) lbl_diagnose]"

definition node_columns :: "(string \<times> (jsval \<Rightarrow> table_action frag)) list" where
  "node_columns =
     [(''ID'', data_cell ''id''), (''Overlay'', data_cell ''overlayIp''),
      (''Endpoints'', join_cell ''endpoints''), (''CIDRs'', join_cell ''cidrs''),
      (''Version'', data_cell ''configVersion''), (lbl_actions, row_buttons)]"

definition NodesTable :: "jsval \<Rightarrow> table_action frag" where
  "NodesTable data =
     sbind (as_array (js_or data (Arr []))) (antd_table [(''rowKey'', Str ''id'')] node_columns)"

section \<open>NodeFormModal\<close>

datatype form_action = SubmitForm | CloseForm

definition NodeFormModal :: "bool \<Rightarrow> node_form \<Rightarrow> form_action frag" where
  "NodeFormModal is_open s =
     el ''Modal'' [(''open'', Boolean is_open), (''title'', Str lbl_new_node)]
       [(''onCancel'', CloseForm), (''onOk'', SubmitForm)]
       [el ''Form'' [] []
         [el ''Form.Item'' [(''name'', Str ''id''), (''label'', Str lbl_node_id),
              (''rules'', required lbl_node_id_required)] [] [input lbl_node_id_hint],
          el ''Form.Item'' [(''name'', Str ''listenPort''), (''label'', Str lbl_port),
              (''rules'', required lbl_port_required)] []
            [el ''Input'' [(''placeholder'', Str lbl_port_hint), (''defaultValue'', Str ''8082'')] [] []],
          el ''Button'' [(''type'', Str ''primary''), (''loading'', Boolean (nf_loading s))]
            [(''onClick'', SubmitForm)] [says lbl_submit]]]"

section \<open>EndpointDrawer\<close>

text \<open>\<open>(n.endpoints || []).map(ep => ({ label: ep, value: ep }))\<close>\<close>

definition endpoint_options :: "jsval \<Rightarrow> jsval list res" where
  "endpoint_options n =
     dot ''endpoints'' n (\<lambda>v. sbind (as_array (js_or v (Arr [])))
       (\<lambda>eps. Inr (map (\<lambda>ep. Obj [(''label'', ep), (''value'', ep)]) eps)))"

definition endpoint_item :: "jsval \<Rightarrow> form_action frag" where
  "endpoint_item n =
     sbind (endpoint_options n) (\<lambda>opts.
       el ''Form.Item'' [(''label'', Str (lbl_connect_to @ elem_string (js_oget ''id'' n)))] []
         [el ''Form.Item'' [(''name'', Arr [Str ''peerEndpoints'', js_oget ''id'' n])] []
            [node_select lbl_endpoint_hint opts]])"

definition other_nodes :: "jsval \<Rightarrow> jsval list \<Rightarrow> jsval list res" where
  "other_nodes node ns =
     sbind (traverse (\<lambda>n. dot ''id'' n (\<lambda>i. Inr (n, i))) ns)
       (\<lambda>ps. Inr (map fst (filter (\<lambda>(n, i). i \<noteq> js_oget ''id'' node) ps)))"

definition EndpointDrawer :: "bool \<Rightarrow> jsval \<Rightarrow> jsval \<Rightarrow> endpoint_drawer \<Rightarrow> form_action frag" where
  "EndpointDrawer is_open node nodes s =
     sbind (as_array (js_or nodes (Arr []))) (\<lambda>ns. sbind (other_nodes node ns) (\<lambda>others.
       el ''Modal'' [(''open'', Boolean is_open), (''title'', titled lbl_endpoint_title node),
           (''confirmLoading'', Boolean (ed_loading s))]
         [(''onCancel'', CloseForm), (''onOk'', SubmitForm)]
         [el ''Form'' [] [] [each endpoint_item others]]))"

section \<open>What is needed to render\<close>

definition entry_shape :: "jsval \<Rightarrow> bool" where
  "entry_shape n \<longleftrightarrow> object_of [''id'', ''overlayIp'', ''configVersion''] n
     \<and> array_shape (\<lambda>_. True) (js_oget ''endpoints'' n) \<and> array_shape (\<lambda>_. True) (js_oget ''cidrs'' n)"

definition entries_shape :: "jsval \<Rightarrow> bool" where
  "entries_shape v \<longleftrightarrow> array_shape entry_shape v"

lemma entries_nodes: "entries_shape v \<Longrightarrow> nodes_shape v"
  by (cases v) (auto simp: entries_shape_def nodes_shape_def entry_shape_def object_of_def)

lemma renders_table [simp]:
  "renders (antd_table ps columns rows) \<longleftrightarrow> (\<forall>r\<in>set rows. \<forall>c\<in>set columns. renders (snd c r))"
  by (simp add: antd_table_def case_prod_unfold)

lemma plain_Arr [simp]: "plain (Arr xs) \<longleftrightarrow> (\<forall>x\<in>set xs. plain x)"
  by (simp add: plain_def)

lemma renders_cell [simp]: "plain v \<Longrightarrow> renders (cell v)"
  by (cases v) (simp_all add: cell_def renders_child)

lemma renders_data_cell: "plain (js_oget k r) \<Longrightarrow> renders (data_cell k r)"
  by (simp add: data_cell_def)

lemma renders_join_cell:
  assumes "n = Obj ps" and "array_shape (\<lambda>_. True) (js_oget k n)"
  shows "renders (join_cell k n)"
proof -
  obtain xs where "js_or (js_oget k n) (Arr []) = Arr xs" using assms(2) by (rule array_shape_js_or)
  then show ?thesis using assms(1) by (simp add: join_cell_def)
qed

lemma renders_row:
  assumes "entry_shape n"
  shows "\<forall>c\<in>set node_columns. renders (snd c n)"
proof -
  obtain ps where ps: "n = Obj ps" using assms by (auto simp: entry_shape_def object_of_def)
  have obj: "object_of [''id'', ''overlayIp'', ''configVersion''] n" using assms by (simp add: entry_shape_def)
  have "renders (data_cell k n :: table_action frag)" if "k \<in> set [''id'', ''overlayIp'', ''configVersion'']" for k
    by (rule renders_data_cell [OF renders_object(3) [OF obj that]])
  moreover have "renders (join_cell ''endpoints'' n :: table_action frag)" "renders (join_cell ''cidrs'' n :: table_action frag)"
    using assms by (auto intro: renders_join_cell [OF ps] simp: entry_shape_def)
  ultimately show ?thesis by (simp add: node_columns_def row_buttons_def)
qed

lemma renders_NodesTable: "entries_shape v \<Longrightarrow> renders (NodesTable v)"
proof -
  assume "entries_shape v"
  then obtain ns where "js_or v (Arr []) = Arr ns" "\<forall>n\<in>set ns. entry_shape n"
    unfolding entries_shape_def by (rule array_shape_js_or)
  then show ?thesis using renders_row by (simp add: NodesTable_def)
qed

lemma renders_NodeFormModal [simp]: "renders (NodeFormModal is_open s)"
  by (simp add: NodeFormModal_def)

lemma other_nodes_objects:
  assumes "\<forall>x\<in>set ns. \<exists>ps. x = Obj ps"
  shows "other_nodes node ns = Inr (filter (\<lambda>n. js_oget ''id'' n \<noteq> js_oget ''id'' node) ns)"
proof -
  have "traverse (\<lambda>n. dot ''id'' n (\<lambda>i. Inr (n, i))) ns = Inr (map (\<lambda>n. (n, js_oget ''id'' n)) ns)"
    using assms by (intro traverse_Inr) auto
  then show ?thesis by (simp add: other_nodes_def filter_map comp_def)
qed

lemma renders_endpoint_item: "entry_shape n \<Longrightarrow> renders (endpoint_item n)"
proof -
  assume n: "entry_shape n"
  then obtain ps where ps: "n = Obj ps" by (auto simp: entry_shape_def object_of_def)
  obtain xs where "js_or (js_oget ''endpoints'' n) (Arr []) = Arr xs"
    using n array_shape_js_or unfolding entry_shape_def by blast
  then show ?thesis using ps by (simp add: endpoint_item_def endpoint_options_def)
qed

lemma renders_EndpointDrawer: "entries_shape nodes \<Longrightarrow> renders (EndpointDrawer is_open node nodes s)"
proof -
  assume "entries_shape nodes"
  then obtain ns where ns: "js_or nodes (Arr []) = Arr ns" "\<forall>n\<in>set ns. entry_shape n"
    unfolding entries_shape_def by (rule array_shape_js_or)
  then have "\<forall>x\<in>set ns. \<exists>ps. x = Obj ps" by (auto simp: entry_shape_def object_of_def)
  then show ?thesis
    using ns by (simp add: EndpointDrawer_def other_nodes_objects renders_endpoint_item)
qed

section \<open>Properties\<close>

lemma antd_table_rows:
  assumes "renders (antd_table ps columns rows)"
  obtains trs where "antd_table ps columns rows = Inr [Elem ''Table'' ps [] trs]" and "length trs = length rows"
    and "\<And>i. i < length rows \<Longrightarrow>
      offers (trs ! i) = concat (map (\<lambda>c. offers_all (snd c (rows ! i))) columns)
      \<and> shown (trs ! i) = concat (map (\<lambda>c. shown_all (snd c (rows ! i))) columns)"
proof -
  let ?tds = "\<lambda>r. map (\<lambda>(title, f). el ''td'' [(''title'', Str title)] [] [f r]) columns"
  let ?tr = "\<lambda>r. el ''tr'' [] [] (?tds r)"
  have tr: "\<exists>m. ?tr r = Inr [m] \<and> offers m = concat (map (\<lambda>c. offers_all (snd c r)) columns)
      \<and> shown m = concat (map (\<lambda>c. shown_all (snd c r)) columns)" if "r \<in> set rows" for r
  proof -
    have cell: "renders (snd c r)" if "c \<in> set columns" for c
      using assms \<open>r \<in> set rows\<close> that by simp
    have cells: "map shown_all (?tds r) = map (\<lambda>c. shown_all (snd c r)) columns"
      "map offers_all (?tds r) = map (\<lambda>c. offers_all (snd c r)) columns"
      using cell by (auto simp: el_observe case_prod_unfold)
    have "renders (?tr r)" using cell by (simp add: case_prod_unfold)
    then obtain ks where "?tr r = Inr [Elem ''tr'' [] [] ks]"
      "concat (map shown ks) = concat (map shown_all (?tds r))"
      "concat (map offers ks) = concat (map offers_all (?tds r))"
      by (rule el_single)
    then show ?thesis
      unfolding cells by (intro exI [of _ "Elem ''tr'' [] [] ks"]) (simp only: offers.simps shown.simps list.map append_Nil simp_thms)
  qed
  then obtain g where g: "\<And>r. r \<in> set rows \<Longrightarrow> ?tr r = Inr [g r]
      \<and> offers (g r) = concat (map (\<lambda>c. offers_all (snd c r)) columns)
      \<and> shown (g r) = concat (map (\<lambda>c. shown_all (snd c r)) columns)"
    by metis
  then have "map ?tr rows = map (\<lambda>r. Inr [g r]) rows" by (intro map_cong) auto
  then have "each ?tr rows = Inr (map g rows)"
    unfolding each_def by (simp only: kids_single)
  then have "antd_table ps columns rows = Inr [Elem ''Table'' ps [] (map g rows)]"
    by (simp add: antd_table_def el_def kids.simps)
  then show ?thesis using that [of "map g rows"] g by simp
qed

lemma row_buttons_offer [simp]:
  "offers_all (row_buttons r) = [Install r, Policy r, Endpoints r, Diagnose r]"
  by (simp add: row_buttons_def button_def el_def says_def kids.simps)

lemma cells_offer [simp]:
  "offers_all (data_cell k r :: 'a frag) = []" "offers_all (join_cell k r :: 'a frag) = []"
proof -
  have "offers_all (child v :: 'a frag) = []" for v
  proof (induction v)
    case (Arr xs)
    show ?case
    proof (cases "kids (map child xs :: 'a frag list)")
      case (Inr ys)
      then have "renders (kids (map child xs :: 'a frag list))" by (simp only: renders_simps)
      from kids_observe [OF this, of "[]"] Arr show ?thesis by (simp add: comp_def)
    qed simp
  qed simp_all
  from this this [of "Arr xs" for xs] show "offers_all (data_cell k r :: 'a frag) = []"
    by (simp add: data_cell_def cell_def split: jsval.split)
  show "offers_all (join_cell k r :: 'a frag) = []"
    by (simp add: join_cell_def dot_def sbind_def says_def split: sum.split)
qed

text \<open>The node table has one row for each node, in order, and the four buttons of a row hand
  exactly this node to the install, policy, endpoint and diagnosis handlers.\<close>

theorem node_rows_act_on_their_node:
  assumes "\<forall>n\<in>set ns. entry_shape n"
  shows "\<exists>trs. NodesTable (Arr ns) = Inr [Elem ''Table'' [(''rowKey'', Str ''id'')] [] trs] \<and> length trs = length ns
    \<and> (\<forall>i<length ns. offers (trs ! i) = [Install (ns ! i), Policy (ns ! i), Endpoints (ns ! i), Diagnose (ns ! i)])"
proof -
  have "renders (antd_table [(''rowKey'', Str ''id'')] node_columns ns)"
    using renders_NodesTable [of "Arr ns"] assms by (simp add: entries_shape_def NodesTable_def)
  then show ?thesis
    by (rule antd_table_rows) (auto simp: NodesTable_def node_columns_def)
qed

theorem node_rows_act_on_their_node_witness:
  "\<exists>trs. NodesTable (Arr [Obj [(''id'', Str ''a''), (''overlayIp'', Str ''10.10.1.1/32'')],
        Obj [(''id'', Str ''b''), (''cidrs'', Arr [Str ''10.1.0.0/16''])]])
      = Inr [Elem ''Table'' [(''rowKey'', Str ''id'')] [] trs]
    \<and> offers (trs ! 1) = (let n = Obj [(''id'', Str ''b''), (''cidrs'', Arr [Str ''10.1.0.0/16''])]
         in [Install n, Policy n, Endpoints n, Diagnose n])"
  using node_rows_act_on_their_node [of "[Obj [(''id'', Str ''a''), (''overlayIp'', Str ''10.10.1.1/32'')],
      Obj [(''id'', Str ''b''), (''cidrs'', Arr [Str ''10.1.0.0/16''])]]"]
  by (auto simp: entry_shape_def object_of_def Let_def less_Suc_eq)

end
