(* ===== verification/View_Cards.thy ===== *)
theory View_Cards
  imports Js_Cards View_Nodes
begin

text \<open>
  What the history and diagnosis dialogs and the cards of the settings dialog show:
  \<open>HealthHistoryModal.jsx\<close>, \<open>DiagnoseModal.jsx\<close>, \<open>DiagCard.jsx\<close>,
  \<open>GeoIPCard.jsx\<close> and \<open>StatusCard.jsx\<close>.
\<close>

section \<open>HealthHistoryModal\<close>

text \<open>Reading \<open>latencyMs\<close> of a report that is \<open>null\<close> throws.\<close>

definition entry_rows :: "jsval \<Rightarrow> history_row list res" where
  "entry_rows h = (if h = Undef \<or> h = Null then Inl type_error else Inr (report_rows h))"

definition loss_cell :: "jsval \<Rightarrow> 'a frag" where
  "loss_cell v = (if v = Undef then says ''-'' else cell v)"

definition history_columns :: "clock \<Rightarrow> (string \<times> (history_row \<Rightarrow> 'a frag)) list" where
  "history_columns t =
     [(lbl_time, \<lambda>r. says (toLocaleString t (hr_timestamp r))), (lbl_target, \<lambda>r. says (hr_target r)),
      (lbl_latency, \<lambda>r. cell (hr_latency r)), (lbl_loss, \<lambda>r. loss_cell (hr_loss r))]"

datatype dialog_action = CloseDialog

definition HealthHistoryModal ::
  "clock \<Rightarrow> (jsval \<Rightarrow> int) \<Rightarrow> bool \<Rightarrow> jsval \<Rightarrow> history_modal \<Rightarrow> dialog_action frag" where
  "HealthHistoryModal t date_ms is_open node s =
     sbind (as_array (js_or (hm_data s) (Arr []))) (\<lambda>data. sbind (traverse entry_rows data) (\<lambda>_.
       el ''Modal'' [(''open'', Boolean is_open), (''title'', titled lbl_history_title node)]
         [(''onCancel'', CloseDialog)]
         [el ''Text'' [] [] [says lbl_history_hint],
          antd_table [(''loading'', Boolean (hm_loading s)), (''pageSize'', Number 10)]
            (history_columns t) (sorted_rows date_ms data)]))"

section \<open>DiagnoseModal\<close>

definition result_item :: "jsval \<Rightarrow> 'a frag" where
  "result_item item =
     el ''List.Item'' [] []
       [el ''Space'' [] []
         [dot ''severity'' item (\<lambda>s. el ''Tag'' [(''color'', Str (severity_color (elem_string s)))] []
            [show_dot ''check'' item]),
          el ''Text'' [] [] [show_dot ''detail'' item]]]"

definition DiagnoseModal :: "bool \<Rightarrow> jsval \<Rightarrow> diagnose_modal \<Rightarrow> dialog_action frag" where
  "DiagnoseModal is_open node s =
     el ''Modal'' [(''open'', Boolean is_open), (''title'', titled lbl_diagnose_title node)]
       [(''onCancel'', CloseDialog)]
       [el ''Text'' [] [] [child (js_or (js_oget ''summary'' (gm_data s)) (Str txt_diagnose_result))],
        antd_list [(''loading'', Boolean (gm_loading s))]
          (js_or (js_oget ''results'' (gm_data s)) (Arr [])) result_item]"

section \<open>The cards of the settings dialog\<close>

datatype card_action = LoadCard | SaveCard

definition mandatory :: jsval where
  "mandatory = Arr [Obj [(''required'', Boolean True)]]"

definition DiagCard :: "card_action frag" where
  "DiagCard =
     el ''Card'' [(''title'', Str lbl_diag_title)] []
       [el ''Form'' [] []
         [el ''Form.Item'' [(''name'', Str ''pingInterval''), (''label'', Str lbl_ping),
            (''rules'', required lbl_ping_required)] [] [input ''3s''],
          el ''Button'' [(''type'', Str ''primary'')] [(''onClick'', SaveCard)] [says lbl_save]]]"

definition text_item :: "string \<Rightarrow> string \<Rightarrow> (string \<times> jsval) list \<Rightarrow> 'a frag" where
  "text_item name label_text props =
     el ''Form.Item'' [(''name'', Str name), (''label'', Str label_text), (''rules'', mandatory)] []
       [el ''Input'' props [] []]"

definition GeoIPCard :: "settings_card \<Rightarrow> card_action frag" where
  "GeoIPCard s =
     el ''Card'' [(''title'', Str lbl_geoip_title)] []
       [el ''Form'' [] []
         [text_item ''sourceV4'' lbl_source_v4 [(''placeholder'', Str ''https://.../%s.cidr'')],
          text_item ''sourceV6'' lbl_source_v6 [(''placeholder'', Str ''https://.../%s.cidr'')],
          el ''Row'' [] []
            [el ''Col'' [] [] [text_item ''cacheDir'' lbl_cache_dir []],
             el ''Col'' [] [] [text_item ''cacheTtl'' lbl_cache_ttl [(''placeholder'', Str ''24h'')]]],
          el ''Space'' [] []
            [button None LoadCard lbl_reload,
             el ''Button'' [(''type'', Str ''primary''), (''loading'', Boolean (sc_loading s))]
               [(''onClick'', SaveCard)] [says lbl_save]]]]"

definition StatusCard :: "jsval \<Rightarrow> 'a frag" where
  "StatusCard data =
     (let field = (\<lambda>k d. child (js_or (js_oget k data) d)) in
      el ''Card'' [(''title'', Str lbl_status_title)] []
        [el ''p'' [] [] [says ''Store: '', child (js_oget ''store'' data), says '' ('',
           field ''storeStatus'' (Str ''-''), says '')''],
         el ''p'' [] [] [says ''Consul: '', field ''consulAddr'' (Str ''-'')],
         el ''p'' [] [] [says ''MySQL: '', field ''mysql'' (Str ''-'')],
         el ''p'' [] [] [says ''PublicAddr: '', field ''publicAddr'' (Str ''-'')],
         el ''p'' [] [] [says ''PlanVersion: '', field ''planVersion'' (Number 0)],
         el ''p'' [] [] [says ''Build: '', field ''buildVersion'' (Str ''dev'')]])"

section \<open>What is needed to render\<close>

definition report_shape :: "jsval \<Rightarrow> bool" where
  "report_shape h \<longleftrightarrow> (\<exists>ps. h = Obj ps) \<and> (\<forall>k. plain (js_oget k (js_oget ''latencyMs'' h)))
     \<and> (\<forall>k. plain (js_oget k (js_oget ''packetLoss'' h)))"

definition history_shape :: "jsval \<Rightarrow> bool" where
  "history_shape v \<longleftrightarrow> array_shape report_shape v"

definition result_shape :: "jsval \<Rightarrow> bool" where
  "result_shape x \<longleftrightarrow> object_of [''check'', ''detail''] x"

definition diagnosis_shape :: "jsval \<Rightarrow> bool" where
  "diagnosis_shape v \<longleftrightarrow> plain (js_oget ''summary'' v) \<and> array_shape result_shape (js_oget ''results'' v)"

definition info_shape :: "jsval \<Rightarrow> bool" where
  "info_shape v \<longleftrightarrow> (\<forall>k\<in>set [''store'', ''storeStatus'', ''consulAddr'', ''mysql'', ''publicAddr'',
     ''planVersion'', ''buildVersion'']. plain (js_oget k v))"

lemma plain_or [simp]: "plain v \<Longrightarrow> plain d \<Longrightarrow> plain (js_or v d)"
  by (simp add: js_or_def)

lemma renders_HealthHistoryModal:
  assumes "history_shape (hm_data s)"
  shows "renders (HealthHistoryModal t date_ms is_open node s)"
proof -
  obtain ds where ds: "js_or (hm_data s) (Arr []) = Arr ds" "\<forall>h\<in>set ds. report_shape h"
    using assms unfolding history_shape_def by (rule array_shape_js_or)
  then have tr: "traverse entry_rows ds = Inr (map report_rows ds)"
    by (intro traverse_Inr) (auto simp: entry_rows_def report_shape_def)
  have "plain (hr_latency r)" "plain (hr_loss r)" if "r \<in> set (sorted_rows date_ms ds)" for r
    using that ds(2) report_rows_row by (force simp: sorted_rows_def history_rows_def report_shape_def)+
  then show ?thesis
    using ds(1) tr by (simp add: HealthHistoryModal_def history_columns_def loss_cell_def)
qed

lemma renders_result_item: "result_shape x \<Longrightarrow> renders (result_item x)"
  by (auto simp: result_shape_def result_item_def renders_object)

lemma renders_DiagnoseModal:
  assumes "diagnosis_shape (gm_data s)"
  shows "renders (DiagnoseModal is_open node s)"
proof -
  obtain rs where "js_or (js_oget ''results'' (gm_data s)) (Arr []) = Arr rs" "\<forall>x\<in>set rs. result_shape x"
    using assms array_shape_js_or unfolding diagnosis_shape_def by blast
  then show ?thesis
    using assms by (simp add: DiagnoseModal_def diagnosis_shape_def renders_child renders_result_item)
qed

lemma renders_cards_of_settings [simp]: "renders DiagCard" "renders (GeoIPCard s)"
  by (simp_all add: DiagCard_def GeoIPCard_def text_item_def)

lemma renders_StatusCard: "info_shape data \<Longrightarrow> renders (StatusCard data)"
  by (simp add: StatusCard_def Let_def info_shape_def renders_child)

end
