(* ===== verification/View_Session.thy ===== *)
theory View_Session
  imports Js_Session View_Cards
begin

text \<open>
  The forms of \<open>Login.jsx\<close> and \<open>Register.jsx\<close>, which differ in their texts only, and
  what \<open>App.jsx\<close> shows.
\<close>

datatype session_action = SubmitSession | SwitchSession

definition auth_form :: "string \<Rightarrow> string \<Rightarrow> string \<Rightarrow> session \<Rightarrow> session_action frag" where
  "auth_form title to_other submit s =
     el ''Layout'' [] []
       [el ''Card'' [] []
         [el ''h2'' [] [] [says title],
          el ''Form'' [(''initialValues'', Obj [(''base'', Str (storage_base (ss_browser s)))])] []
            [text_item ''base'' lbl_base [(''placeholder'', Str ''http://127.0.0.1:8080'')],
             text_item ''user'' lbl_user [],
             el ''Form.Item'' [(''name'', Str ''pass''), (''label'', Str lbl_pass), (''rules'', mandatory)] []
               [el ''Input.Password'' [] [] []],
             el ''Space'' [] []
               [el ''Button'' [(''type'', Str ''link'')] [(''onClick'', SwitchSession)] [says to_other],
                el ''Button'' [(''type'', Str ''primary''), (''loading'', Boolean (ss_loading s))]
                  [(''onClick'', SubmitSession)] [says submit]]]]]"

definition Login :: "session \<Rightarrow> session_action frag" where
  "Login = auth_form lbl_login_title lbl_to_register lbl_login"

definition Register :: "session \<Rightarrow> session_action frag" where
  "Register = auth_form lbl_register_title lbl_to_login lbl_register"

lemma renders_text_item [simp]: "renders (text_item n l ps)"
  by (simp add: text_item_def)

lemma renders_session [simp]: "renders (Login s)" "renders (Register s)"
  by (simp_all add: Login_def Register_def auth_form_def)

lemma session_buttons:
  "offers_all (Login s) = [SwitchSession, SubmitSession]" "offers_all (Register s) = [SwitchSession, SubmitSession]"
  by (simp_all add: Login_def Register_def auth_form_def text_item_def el_def says_def kids.simps)

end
