(* ===== verification/Js_Drawer.thy ===== *)
theory Js_Drawer
  imports View_Policy
begin

text \<open>
  The policy drawer over time: its node changes, its effects and buttons start calls, the
  answers come back in any order, and everything else in the world may change in between.
  The handlers are those of \<open>Js_Policy\<close>; here they are composed as \<open>PolicyDrawer.jsx\<close>
  composes them.
\<close>

section \<open>Calls\<close>

text \<open>
  Every \<open>await api(...)\<close> of the drawer.  A call keeps the node its handler was created
  for, because a handler is a closure of one render.
\<close>

datatype call =
    C_Load string
  | C_Logs string
  | C_Tasks string
  | C_Command string
  | C_Diag string
  | C_Verify string
  | C_View string
  | C_Submit string jsval

fun call_path :: "call \<Rightarrow> string" where
  "call_path (C_Load n) = policy_path n"
| "call_path (C_Logs n) = logs_path n"
| "call_path (C_Tasks n) = tasks_path n"
| "call_path (C_Command n) = ''/api/v1/policy/command''"
| "call_path (C_Diag n) = diag_path n"
| "call_path (C_Verify n) = ''/api/v1/tasks''"
| "call_path (C_View n) = policy_path n"
| "call_path (C_Submit n v) = ''/api/v1/policy''"

fun call_options :: "call \<Rightarrow> api_options" where
  "call_options (C_Command n) = post_json (diag_command n)"
| "call_options (C_Verify n) = post_json (verify_task n)"
| "call_options (C_Submit n v) = post_json v"
| "call_options c = get_options"

text \<open>What follows the \<open>await\<close>, and the calls made next.\<close>

fun settle :: "call \<Rightarrow> jsval res \<Rightarrow> drawer \<Rightarrow> drawer \<times> call list" where
  "settle (C_Load n) r s = (load_done r s, [])"
| "settle (C_Logs n) r s = (loadLogs_done r s, [])"
| "settle (C_Tasks n) r s = (loadTasks_done r s, [])"
| "settle (C_Command n) r s = (loadDiag_sent r s, [C_Diag n])"
| "settle (C_Diag n) r s = (loadDiag_done r s, [])"
| "settle (C_Verify n) r s = (let (s', again) = runVerify_done r s in (s', if again then [C_Tasks n] else []))"
| "settle (C_View n) r s = (viewPolicy_done r s, [])"
| "settle (C_Submit n v) r s = (submit_done r s, [])"

section \<open>The system\<close>

text \<open>
  \<open>sy_node\<close> is the \<open>node\<close> property, \<open>None\<close> while the drawer is closed
  (\<open>open\<close> is \<open>!!policyNode\<close>); \<open>sy_pending\<close> holds the calls the server has
  answered and the page has not yet seen the answer of.
\<close>

record 'w system =
  sy_node :: "string option"
  sy_drawer :: drawer
  sy_modal :: path_modal
  sy_pending :: "(call \<times> jsval res) list"
  sy_world :: 'w

definition system_init :: "'w \<Rightarrow> 'w system" where
  "system_init w = \<lparr>sy_node = None, sy_drawer = drawer_init, sy_modal = \<lparr>pm_open = False, pm_path = []\<rparr>,
     sy_pending = [], sy_world = w\<rparr>"

definition ask :: "browser \<Rightarrow> 'w fetch \<Rightarrow> call \<Rightarrow> 'w system \<Rightarrow> 'w system" where
  "ask b fetch c sy =
     (let (r, w') = api b fetch (call_path c) (call_options c) (sy_world sy)
      in sy\<lparr>sy_pending := sy_pending sy @ [(c, r)], sy_world := w'\<rparr>)"

definition on_drawer :: "(drawer \<Rightarrow> drawer) \<Rightarrow> 'w system \<Rightarrow> 'w system" where
  "on_drawer f sy = sy\<lparr>sy_drawer := f (sy_drawer sy)\<rparr>"

text \<open>
  Both effects on \<open>[node, open]\<close>: the first loads the policy, the second the log and the
  tasks.  No \<open>useState\<close> value of the drawer is reset.
\<close>

definition open_node :: "browser \<Rightarrow> 'w fetch \<Rightarrow> string \<Rightarrow> 'w system \<Rightarrow> 'w system" where
  "open_node b fetch n sy =
     ask b fetch (C_Tasks n) (ask b fetch (C_Logs n) (on_drawer loadLogs_start
       (ask b fetch (C_Load n) (sy\<lparr>sy_node := Some n\<rparr>))))"

definition close_node :: "'w system \<Rightarrow> 'w system" where
  "close_node sy = sy\<lparr>sy_node := None\<rparr>"

definition deliver :: "browser \<Rightarrow> 'w fetch \<Rightarrow> nat \<Rightarrow> 'w system \<Rightarrow> 'w system" where
  "deliver b fetch i sy =
     (let (c, r) = sy_pending sy ! i;
          (s', next_calls) = settle c r (sy_drawer sy)
      in fold (ask b fetch) next_calls
           (sy\<lparr>sy_drawer := s', sy_pending := take i (sy_pending sy) @ drop (Suc i) (sy_pending sy)\<rparr>))"

text \<open>An exception in an event handler leaves the state as it is.\<close>

definition attempt :: "(drawer \<Rightarrow> drawer res) \<Rightarrow> drawer \<Rightarrow> drawer" where
  "attempt f s = (case f s of Inr s' \<Rightarrow> s' | Inl e \<Rightarrow> s)"

definition edit_field :: "string \<Rightarrow> jsval \<Rightarrow> drawer \<Rightarrow> drawer" where
  "edit_field k v s = s\<lparr>pd_form := set_prop k v (pd_form s)\<rparr>"

text \<open>The buttons of the drawer; without a node their handlers return at once.\<close>

definition click :: "browser \<Rightarrow> 'w fetch \<Rightarrow> (string \<times> jsval) list \<Rightarrow> drawer_action \<Rightarrow> 'w system \<Rightarrow> 'w system" where
  "click b fetch values act sy =
     (case act of
        AddRule \<Rightarrow> on_drawer (attempt (addRule values)) sy
      | RemoveRule i \<Rightarrow> on_drawer (attempt (removeRule i)) sy
      | OpenMap \<Rightarrow> sy\<lparr>sy_modal := pm_opened (sy_modal sy)\<rparr>
      | Path ClosePath \<Rightarrow> sy\<lparr>sy_modal := (sy_modal sy)\<lparr>pm_open := False\<rparr>\<rparr>
      | Path FinishPath \<Rightarrow>
          (let (path, m) = pm_finish (sy_modal sy)
           in sy\<lparr>sy_modal := m, sy_drawer := (sy_drawer sy)\<lparr>pd_currentPath := path\<rparr>\<rparr>)
      | Path (ClickNode k) \<Rightarrow>
          sy\<lparr>sy_modal := (sy_modal sy)\<lparr>pm_path :=
            onNodeClick (case sy_node sy of Some n \<Rightarrow> n | None \<Rightarrow> []) k (pm_path (sy_modal sy))\<rparr>\<rparr>
      | CloseView \<Rightarrow> on_drawer (\<lambda>s. s\<lparr>pd_viewModal := False\<rparr>) sy
      | CloseDrawer \<Rightarrow> close_node sy
      | LoadLogs \<Rightarrow> (case sy_node sy of None \<Rightarrow> sy
          | Some n \<Rightarrow> ask b fetch (C_Logs n) (on_drawer loadLogs_start sy))
      | LoadDiag \<Rightarrow> (case sy_node sy of None \<Rightarrow> sy | Some n \<Rightarrow> ask b fetch (C_Command n) sy)
      | RunVerify \<Rightarrow> (case sy_node sy of None \<Rightarrow> sy
          | Some n \<Rightarrow> ask b fetch (C_Verify n) (on_drawer runVerify_start sy))
      | ViewPolicy \<Rightarrow> (case sy_node sy of None \<Rightarrow> sy | Some n \<Rightarrow> ask b fetch (C_View n) sy)
      | SubmitPolicy \<Rightarrow> (case sy_node sy of None \<Rightarrow> sy
          | Some n \<Rightarrow> (case submit_payload n (sy_drawer sy) of
               Inl e \<Rightarrow> sy
             | Inr v \<Rightarrow> ask b fetch (C_Submit n v) sy)))"

text \<open>What the rule form validates to.\<close>

definition rule_values :: "(string \<times> jsval) list \<Rightarrow> bool" where
  "rule_values vs \<longleftrightarrow> (\<exists>p d v. vs = [(''prefix'', p), (''domains'', d), (''viaNode'', v)]
     \<and> field_value p \<and> field_value d \<and> field_value v)"

text \<open>
  The frames of a well-behaved agent: without lines, or with an array of them.  Which frames may
  come is the argument \<open>frames\<close> of the steps; the hub itself forwards any payload.
\<close>

definition frame_ok :: "jsval option \<Rightarrow> bool" where
  "frame_ok evt \<longleftrightarrow> (\<forall>data. evt = Some data \<longrightarrow>
     \<not> truthy (js_oget ''lines'' data) \<or> (\<exists>ls. js_oget ''lines'' data = Arr ls))"

inductive system_step ::
  "browser \<Rightarrow> 'w fetch \<Rightarrow> ('w \<Rightarrow> 'w \<Rightarrow> bool) \<Rightarrow> (jsval option \<Rightarrow> bool)
    \<Rightarrow> 'w system \<Rightarrow> 'w system \<Rightarrow> bool" for b fetch other frames where
  sy_open: "system_step b fetch other frames sy (open_node b fetch n sy)"
| sy_click: "rule_values values \<Longrightarrow> system_step b fetch other frames sy (click b fetch values act sy)"
| sy_edit: "system_step b fetch other frames sy (on_drawer (edit_field k v) sy)"
| sy_poll_logs: "sy_node sy = Some n \<Longrightarrow>
    system_step b fetch other frames sy (ask b fetch (C_Logs n) (on_drawer loadLogs_start sy))"
| sy_poll_tasks: "sy_node sy = Some n \<Longrightarrow> system_step b fetch other frames sy (ask b fetch (C_Tasks n) sy)"
| sy_frame: "sy_node sy = Some n \<Longrightarrow> frames evt \<Longrightarrow>
    system_step b fetch other frames sy (on_drawer (ws_onmessage (Some (log_callback stamp)) evt) sy)"
| sy_deliver: "i < length (sy_pending sy) \<Longrightarrow> system_step b fetch other frames sy (deliver b fetch i sy)"
| sy_other: "other (sy_world sy) w \<Longrightarrow> system_step b fetch other frames sy (sy\<lparr>sy_world := w\<rparr>)"

inductive system_reachable ::
  "browser \<Rightarrow> 'w fetch \<Rightarrow> ('w \<Rightarrow> 'w \<Rightarrow> bool) \<Rightarrow> (jsval option \<Rightarrow> bool) \<Rightarrow> 'w
    \<Rightarrow> 'w system \<Rightarrow> bool" for b fetch other frames w0 where
  sy_init: "system_reachable b fetch other frames w0 (system_init w0)"
| sy_step: "system_reachable b fetch other frames w0 sy \<Longrightarrow> system_step b fetch other frames sy sy' \<Longrightarrow>
    system_reachable b fetch other frames w0 sy'"

inductive_cases system_stepE: "system_step b fetch other frames sy sy'"

section \<open>The drawer never fails to render\<close>

text \<open>What an answer must look like for the state it ends up in to render.\<close>

definition items_shape :: "(jsval \<Rightarrow> bool) \<Rightarrow> jsval res \<Rightarrow> bool" where
  "items_shape P r \<longleftrightarrow> (\<forall>items. sbind r (js_get ''items'') = Inr items \<longrightarrow> all_shape P (js_or items (Arr [])))"

fun answer_shape :: "call \<Rightarrow> jsval res \<Rightarrow> bool" where
  "answer_shape (C_Load n) r = (\<forall>vs rules. sbind r load_values = Inr (vs, rules) \<longrightarrow> all_shape rule_shape rules)"
| "answer_shape (C_Logs n) r = items_shape log_shape r"
| "answer_shape (C_Tasks n) r = items_shape task_shape r"
| "answer_shape (C_Diag n) r =
     (\<forall>items. sbind r (js_get ''items'') = Inr items \<longrightarrow> diag_shape (last_item items))"
| "answer_shape c r = True"

definition pending_shape :: "(call \<times> jsval res) list \<Rightarrow> bool" where
  "pending_shape ps \<longleftrightarrow> (\<forall>(c, r)\<in>set ps. answer_shape c r)"

lemma pd_toast_shape [simp]: "drawer_shape (pd_toast t s) \<longleftrightarrow> drawer_shape s"
  by (simp add: drawer_shape_def pd_toast_def)

lemma drawer_shape_update [simp]:
  "drawer_shape (s\<lparr>pd_form := v1\<rparr>) \<longleftrightarrow> drawer_shape s"
  "drawer_shape (s\<lparr>pd_logsLoading := b1\<rparr>) \<longleftrightarrow> drawer_shape s"
  "drawer_shape (s\<lparr>pd_diagLoading := b1\<rparr>) \<longleftrightarrow> drawer_shape s"
  "drawer_shape (s\<lparr>pd_verifyLoading := b1\<rparr>) \<longleftrightarrow> drawer_shape s"
  "drawer_shape (s\<lparr>pd_viewModal := b1\<rparr>) \<longleftrightarrow> drawer_shape s"
  "drawer_shape (s\<lparr>pd_rawPolicy := j\<rparr>) \<longleftrightarrow> drawer_shape s"
  "drawer_shape (s\<lparr>pd_logLines := ls\<rparr>) \<longleftrightarrow> drawer_shape s"
  "drawer_shape (s\<lparr>pd_currentPath := p\<rparr>) \<longleftrightarrow> drawer_shape s"
  by (simp_all add: drawer_shape_def)

lemma drawer_init_shape [simp]: "drawer_shape drawer_init"
  by (simp add: drawer_shape_def drawer_init_def all_shape_def diag_shape_def)

lemma settle_shape:
  assumes "answer_shape c r" and "drawer_shape s" and "settle c r s = (s', cs)"
  shows "drawer_shape s'"
proof (cases c)
  case (C_Load n)
  then show ?thesis
    using assms by (cases "sbind r load_values")
      (auto simp: load_done_def setFieldsValue_def drawer_shape_def pd_toast_def)
next
  case (C_Logs n)
  then show ?thesis
    using assms by (cases "sbind r (js_get ''items'')")
      (auto simp: loadLogs_done_def items_shape_def drawer_shape_def)
next
  case (C_Tasks n)
  then show ?thesis
    using assms by (cases "sbind r (js_get ''items'')")
      (auto simp: loadTasks_done_def items_shape_def drawer_shape_def)
next
  case (C_Diag n)
  then show ?thesis
    using assms by (cases "sbind r (js_get ''items'')")
      (auto simp: loadDiag_done_def drawer_shape_def pd_toast_def)
next
  case (C_Verify n)
  then show ?thesis using assms by (cases r) (auto simp: runVerify_done_def)
next
  case (C_Command n)
  then show ?thesis using assms by (cases r) (auto simp: loadDiag_sent_def)
next
  case (C_View n)
  then show ?thesis using assms by (cases r) (auto simp: viewPolicy_done_def)
next
  case (C_Submit n v)
  then show ?thesis using assms by (cases r) (auto simp: submit_done_def)
qed

lemma addRule_shape:
  assumes "rule_values values" and "drawer_shape s"
  shows "drawer_shape (attempt (addRule values) s)"
proof (cases "addRule values s")
  case (Inr s')
  obtain p d v where vs: "values = [(''prefix'', p), (''domains'', d), (''viaNode'', v)]"
    "field_value p" "field_value v" using assms(1) by (auto simp: rule_values_def)
  obtain rs where rs: "pd_rules s = Arr rs" "\<forall>r\<in>set rs. rule_shape r"
    using assms(2) by (auto simp: drawer_shape_def all_shape_def)
  have "\<exists>r. pd_rules s' = Arr (rs @ [r]) \<and> rule_shape r \<and> s' = s\<lparr>pd_rules := Arr (rs @ [r]), pd_currentPath := []\<rparr>"
    using Inr vs rs(1)
    by (auto simp: addRule_def Let_def rule_shape_def object_of_def field_value_def set_prop_def sbind_Inr_iff)
  with rs(2) assms(2) Inr show ?thesis
    by (auto simp: attempt_def drawer_shape_def all_shape_def)
qed (use assms in \<open>simp add: attempt_def\<close>)

lemma removeRule_shape:
  assumes "drawer_shape s"
  shows "drawer_shape (attempt (removeRule i) s)"
proof -
  obtain rs where rs: "pd_rules s = Arr rs" "\<forall>r\<in>set rs. rule_shape r"
    using assms by (auto simp: drawer_shape_def all_shape_def)
  have "rule_shape r" if "(r, j) \<in> set (zip rs ks)" for r j ks
    using rs(2) set_zip_leftD [OF that] by blast
  then show ?thesis
    using assms rs(1) by (auto simp: attempt_def removeRule_def drawer_shape_def all_shape_def)
qed

lemma frame_shape:
  assumes "frame_ok evt" and "drawer_shape s"
  shows "drawer_shape (ws_onmessage (Some (log_callback stamp)) evt s)"
proof -
  have "drawer_shape s'" if "log_callback stamp data s = Inr s'" "evt = Some data" for data s'
    using that assms by (auto simp: log_callback_def Let_def frame_ok_def split: if_splits sum.splits)
  then show ?thesis using assms by (auto simp: ws_onmessage_def split: option.split sum.split)
qed

text \<open>
  The contract: as long as the world is fine, every answer has the shape its handler expects,
  and neither answering nor the rest of the world breaks that.
\<close>

locale drawer_backend =
  fixes b :: browser
    and fetch :: "'w fetch"
    and other :: "'w \<Rightarrow> 'w \<Rightarrow> bool"
    and fine :: "'w \<Rightarrow> bool"
  assumes answers: "fine w \<Longrightarrow> api b fetch (call_path c) (call_options c) w = (r, w') \<Longrightarrow>
      answer_shape c r \<and> fine w'"
    and others: "fine w \<Longrightarrow> other w w' \<Longrightarrow> fine w'"
begin

definition sys_inv :: "'w system \<Rightarrow> bool" where
  "sys_inv sy \<longleftrightarrow> drawer_shape (sy_drawer sy) \<and> pending_shape (sy_pending sy) \<and> fine (sy_world sy)"

lemma ask_inv: "sys_inv sy \<Longrightarrow> sys_inv (ask b fetch c sy)"
  using answers [of "sy_world sy" c]
  by (cases "api b fetch (call_path c) (call_options c) (sy_world sy)")
    (auto simp: ask_def sys_inv_def pending_shape_def)

lemma asks_inv: "sys_inv sy \<Longrightarrow> sys_inv (fold (ask b fetch) cs sy)"
  by (induction cs arbitrary: sy) (simp_all add: ask_inv)

lemma on_drawer_inv:
  "sys_inv sy \<Longrightarrow> (drawer_shape (sy_drawer sy) \<Longrightarrow> drawer_shape (f (sy_drawer sy))) \<Longrightarrow> sys_inv (on_drawer f sy)"
  by (simp add: sys_inv_def on_drawer_def)

lemma open_inv: "sys_inv sy \<Longrightarrow> sys_inv (open_node b fetch n sy)"
  unfolding open_node_def
  by (intro ask_inv on_drawer_inv) (simp_all add: loadLogs_start_def sys_inv_def)

lemma click_inv:
  assumes "sys_inv sy" and "rule_values values"
  shows "sys_inv (click b fetch values act sy)"
proof -
  have "sys_inv (sy\<lparr>sy_modal := m\<rparr>)" "sys_inv (sy\<lparr>sy_node := k\<rparr>)" for m k
    using assms(1) by (simp_all add: sys_inv_def)
  moreover have "sys_inv (sy\<lparr>sy_modal := m, sy_drawer := (sy_drawer sy)\<lparr>pd_currentPath := p\<rparr>\<rparr>)" for m p
    using assms(1) by (simp add: sys_inv_def)
  ultimately show ?thesis
    using assms
    by (auto simp: click_def close_node_def pm_finish_def loadLogs_start_def runVerify_start_def
        split: drawer_action.split path_action.split option.split sum.split
        intro!: ask_inv on_drawer_inv addRule_shape removeRule_shape)
qed

lemma deliver_inv:
  assumes "sys_inv sy" and "i < length (sy_pending sy)"
  shows "sys_inv (deliver b fetch i sy)"
proof -
  obtain c r where cr: "sy_pending sy ! i = (c, r)" by (cases "sy_pending sy ! i")
  obtain s' cs where st: "settle c r (sy_drawer sy) = (s', cs)" by (cases "settle c r (sy_drawer sy)")
  have "(c, r) \<in> set (sy_pending sy)" using assms(2) cr by (metis nth_mem)
  then have "answer_shape c r" using assms(1) by (auto simp: sys_inv_def pending_shape_def)
  with assms(1) st have "drawer_shape s'" using settle_shape by (auto simp: sys_inv_def)
  moreover have "pending_shape (take i (sy_pending sy) @ drop (Suc i) (sy_pending sy))"
    using assms(1) by (auto simp: sys_inv_def pending_shape_def dest: in_set_takeD in_set_dropD)
  ultimately have "sys_inv (sy\<lparr>sy_drawer := s',
      sy_pending := take i (sy_pending sy) @ drop (Suc i) (sy_pending sy)\<rparr>)"
    using assms(1) by (simp add: sys_inv_def)
  from asks_inv [OF this, of cs] show ?thesis by (simp add: deliver_def cr st)
qed

lemma step_inv: "system_step b fetch other frame_ok sy sy' \<Longrightarrow> sys_inv sy \<Longrightarrow> sys_inv sy'"
proof (erule system_stepE)
  fix w assume "sys_inv sy" "sy' = sy\<lparr>sy_world := w\<rparr>" "other (sy_world sy) w"
  then show "sys_inv sy'" using others [of "sy_world sy" w] by (simp add: sys_inv_def)
qed (auto simp: edit_field_def loadLogs_start_def
    intro!: open_inv click_inv ask_inv on_drawer_inv deliver_inv frame_shape)

lemma reachable_inv: "system_reachable b fetch other frame_ok w0 sy \<Longrightarrow> fine w0 \<Longrightarrow> sys_inv sy"
proof (induction rule: system_reachable.induct)
  case sy_init
  then show ?case by (simp add: sys_inv_def system_init_def pending_shape_def)
next
  case (sy_step sy sy')
  then show ?case by (blast intro: step_inv)
qed

lemma always_renders:
  assumes "system_reachable b fetch other frame_ok w0 sy" and "fine w0"
    and "mesh_shape (dp_mesh p)" and "nodes_shape (dp_nodes p)"
  shows "renders (PolicyDrawer t p (sy_modal sy) (sy_drawer sy))"
  using reachable_inv [OF assms(1,2)] renders_PolicyDrawer [OF _ assms(3,4)] by (simp add: sys_inv_def)

end

end
