(* ===== verification/Js_Admin.thy ===== *)
theory Js_Admin
  imports View_Session Js_Drawer
begin

text \<open>
  The page of \<open>Admin.jsx\<close>: its state with that of every component it mounts, what it
  shows, and what every click, answer and effect does.
\<close>

section \<open>State\<close>

text \<open>The calls of the page and of all its components but the policy drawer.\<close>

datatype page_call =
    P_Status nat
  | P_Nodes nat
  | P_Mesh nat
  | P_Install string
  | P_Endpoints string
  | P_SaveEndpoints jsval
  | P_History string
  | P_Diagnose string
  | P_Create jsval
  | P_GeoIP
  | P_SaveGeoIP jsval
  | P_DiagCfg
  | P_SaveDiagCfg jsval

fun page_path :: "page_call \<Rightarrow> string" where
  "page_path (P_Status k) = ''/api/v1/info''"
| "page_path (P_Nodes k) = ''/api/v1/nodes''"
| "page_path (P_Mesh k) = ''/api/v1/status/mesh''"
| "page_path (P_Install n) = ''/api/v1/nodes/prepare''"
| "page_path (P_Endpoints n) = ''/api/v1/nodes''"
| "page_path (P_SaveEndpoints v) = ''/api/v1/nodes/register''"
| "page_path (P_History n) = history_path n"
| "page_path (P_Diagnose n) = diagnose_path n"
| "page_path (P_Create v) = ''/api/v1/nodes/register''"
| "page_path P_GeoIP = ''/api/v1/settings/geoip''"
| "page_path (P_SaveGeoIP v) = ''/api/v1/settings/geoip''"
| "page_path P_DiagCfg = ''/api/v1/settings/diag''"
| "page_path (P_SaveDiagCfg v) = ''/api/v1/settings/diag''"

fun page_options :: "page_call \<Rightarrow> api_options" where
  "page_options (P_Install n) = post_json (install_payload n)"
| "page_options (P_SaveEndpoints v) = post_json v"
| "page_options (P_Create v) = post_json v"
| "page_options (P_SaveGeoIP v) = post_json v"
| "page_options (P_SaveDiagCfg v) = post_json v"
| "page_options c = get_options"

record 'w page =
  pg_browser :: browser
  pg_admin :: admin
  pg_status :: async
  pg_nodes :: async
  pg_mesh :: async
  pg_policy :: "'w system"
  pg_endpoint :: endpoint_drawer
  pg_history :: history_modal
  pg_diagnose :: diagnose_modal
  pg_form :: node_form
  pg_cards :: bool
  pg_geoip :: settings_card
  pg_diagcfg :: settings_card
  pg_calls :: "(page_call \<times> jsval res) list"

definition admin_init :: admin where
  "admin_init = \<lparr>ad_policyNode = Null, ad_installOpen = False, ad_installText = [], ad_endpointNode = Null,
     ad_settingsOpen = False, ad_menuKey = ''status'', ad_historyNode = Null, ad_diagNode = Null,
     ad_showNodeForm = False, ad_clipboard = [], ad_toasts = []\<rparr>"

definition page_init :: "browser \<Rightarrow> 'w \<Rightarrow> 'w page" where
  "page_init b w =
     (let card = \<lparr>sc_form = [], sc_loading = False, sc_toasts = []\<rparr> in
      \<lparr>pg_browser = b, pg_admin = admin_init, pg_status = async_init, pg_nodes = async_init,
       pg_mesh = async_init, pg_policy = system_init w,
       pg_endpoint = \<lparr>ed_open = False, ed_loading = False, ed_endpoints = Undef, ed_toasts = []\<rparr>,
       pg_history = \<lparr>hm_loading = False, hm_data = Arr [], hm_toasts = []\<rparr>,
       pg_diagnose = \<lparr>gm_loading = False, gm_data = Null, gm_toasts = []\<rparr>,
       pg_form = \<lparr>nf_loading = False, nf_open = False, nf_toasts = []\<rparr>,
       pg_cards = False, pg_geoip = card, pg_diagcfg = card, pg_calls = []\<rparr>)"

section \<open>What the page shows\<close>

datatype admin_action =
    Menu string
  | NewNode
  | OnTable table_action
  | ShowHistory jsval
  | OpenSettings
  | CloseSettings
  | BaseBlur
  | TokenBlur
  | Logout
  | Refresh
  | CloseInstall
  | OnDrawer drawer_action
  | OnEndpoints form_action
  | OnHistory dialog_action
  | OnDiagnose dialog_action
  | OnForm form_action
  | OnGeoIP card_action
  | OnDiagCard card_action

definition menu_items :: jsval where
  "menu_items = Arr [Obj [(''key'', Str ''status''), (''label'', Str lbl_status_center)],
     Obj [(''key'', Str ''nodes''), (''label'', Str lbl_node_admin)]]"

definition admin_content :: "'w page \<Rightarrow> admin_action frag" where
  "admin_content pg =
     (if ad_menuKey (pg_admin pg) = ''nodes'' then
        el ''Card'' [(''title'', Str lbl_node)] []
          [el ''extra'' [] []
             [el ''Button'' [(''type'', Str ''primary'')] [(''onClick'', NewNode)] [says lbl_new_node]],
           map_frag OnTable (NodesTable (as_data (pg_nodes pg)))]
      else MeshStatus ShowHistory (as_data (pg_mesh pg)))"

definition admin_header :: "'w page \<Rightarrow> admin_action frag" where
  "admin_header pg =
     (let b = pg_browser pg in
      el ''div'' [] []
        [el ''Title'' [] [] [says (if ad_menuKey (pg_admin pg) = ''nodes'' then lbl_node_admin else lbl_status_center)],
         el ''Space'' [] []
           [el ''Input'' [(''defaultValue'', Str (storage_base b)), (''placeholder'', Str lbl_base)]
              [(''onBlur'', BaseBlur)] [],
            el ''Input'' [(''defaultValue'', Str (storage_token b)), (''placeholder'', Str ''Token'')]
              [(''onBlur'', TokenBlur)] [],
            button None OpenSettings lbl_settings,
            button None Logout lbl_logout,
            el ''Button'' [(''type'', Str ''primary'')] [(''onClick'', Refresh)] [says lbl_refresh]]])"

text \<open>antd mounts what is inside a dialog when it first opens (\<open>pg_cards\<close>).\<close>

definition settings_modal :: "'w page \<Rightarrow> admin_action frag" where
  "settings_modal pg =
     el ''Modal'' [(''open'', Boolean (ad_settingsOpen (pg_admin pg))), (''title'', Str lbl_settings_title)]
       [(''onCancel'', CloseSettings)]
       [opt (pg_cards pg)
         (el ''Row'' [] []
           [el ''Col'' [] [] [StatusCard (as_data (pg_status pg))],
            el ''Col'' [] [] [map_frag OnGeoIP (GeoIPCard (pg_geoip pg))],
            el ''Col'' [] [] [map_frag OnDiagCard DiagCard]])]"

definition install_modal :: "'w page \<Rightarrow> admin_action frag" where
  "install_modal pg =
     el ''Modal'' [(''open'', Boolean (ad_installOpen (pg_admin pg))), (''title'', Str lbl_install_command)]
       [(''onCancel'', CloseInstall)]
       [el ''pre'' [] [] [says (ad_installText (pg_admin pg))],
        el ''Text'' [] [] [says lbl_clipboard]]"

definition drawer_props_of :: "'w page \<Rightarrow> drawer_props" where
  "drawer_props_of pg = \<lparr>dp_open = truthy (ad_policyNode (pg_admin pg)), dp_node = ad_policyNode (pg_admin pg),
     dp_nodes = as_data (pg_nodes pg), dp_mesh = as_data (pg_mesh pg)\<rparr>"

definition Admin :: "clock \<Rightarrow> (jsval \<Rightarrow> int) \<Rightarrow> 'w page \<Rightarrow> admin_action frag" where
  "Admin t date_ms pg =
     (let a = pg_admin pg; sy = pg_policy pg in
      el ''Layout'' [] []
        [el ''Layout.Sider'' [] []
           [el ''div'' [] [] [says ''peer-wan''],
            el ''Menu'' [(''selectedKeys'', Arr [Str (ad_menuKey a)]), (''items'', menu_items)]
              [(''onClick'', Menu ''status''), (''onClick'', Menu ''nodes'')] []],
         el ''Layout.Content'' [] []
           [admin_header pg, admin_content pg, settings_modal pg, install_modal pg,
            map_frag OnDrawer (PolicyDrawer t (drawer_props_of pg) (sy_modal sy) (sy_drawer sy)),
            map_frag OnEndpoints (EndpointDrawer (truthy (ad_endpointNode a)) (ad_endpointNode a)
              (as_data (pg_nodes pg)) (pg_endpoint pg)),
            map_frag OnHistory (HealthHistoryModal t date_ms (truthy (ad_historyNode a)) (ad_historyNode a)
              (pg_history pg)),
            map_frag OnDiagnose (DiagnoseModal (truthy (ad_diagNode a)) (ad_diagNode a) (pg_diagnose pg)),
            map_frag OnForm (NodeFormModal (ad_showNodeForm a) (pg_form pg))]])"

text \<open>\<open>App.jsx\<close>\<close>

datatype app_action = InSession session_action | InAdmin admin_action

definition App :: "clock \<Rightarrow> (jsval \<Rightarrow> int) \<Rightarrow> session \<Rightarrow> 'w page \<Rightarrow> app_action frag" where
  "App t date_ms s pg =
     (case ss_view s of
        LoginView \<Rightarrow> map_frag InSession (Login s)
      | RegisterView \<Rightarrow> map_frag InSession (Register s)
      | AppView \<Rightarrow> map_frag InAdmin (Admin t date_ms pg))"

section \<open>What the page does\<close>

definition node_id :: "jsval \<Rightarrow> string" where
  "node_id n = elem_string (js_oget ''id'' n)"

definition page_ask :: "'w fetch \<Rightarrow> page_call \<Rightarrow> 'w page \<Rightarrow> 'w page" where
  "page_ask fetch c pg =
     (let (r, w') = api (pg_browser pg) fetch (page_path c) (page_options c) (sy_world (pg_policy pg))
      in pg\<lparr>pg_calls := pg_calls pg @ [(c, r)], pg_policy := (pg_policy pg)\<lparr>sy_world := w'\<rparr>\<rparr>)"

definition on_admin :: "(admin \<Rightarrow> admin) \<Rightarrow> 'w page \<Rightarrow> 'w page" where
  "on_admin f pg = pg\<lparr>pg_admin := f (pg_admin pg)\<rparr>"

text \<open>\<open>status.run\<close>, \<open>nodes.run\<close> and \<open>mesh.run\<close>, and all three.\<close>

definition run_status :: "'w fetch \<Rightarrow> 'w page \<Rightarrow> 'w page" where
  "run_status fetch pg =
     page_ask fetch (P_Status (as_next (pg_status pg))) (pg\<lparr>pg_status := async_run (pg_status pg)\<rparr>)"

definition run_nodes :: "'w fetch \<Rightarrow> 'w page \<Rightarrow> 'w page" where
  "run_nodes fetch pg =
     page_ask fetch (P_Nodes (as_next (pg_nodes pg))) (pg\<lparr>pg_nodes := async_run (pg_nodes pg)\<rparr>)"

definition run_mesh :: "'w fetch \<Rightarrow> 'w page \<Rightarrow> 'w page" where
  "run_mesh fetch pg =
     page_ask fetch (P_Mesh (as_next (pg_mesh pg))) (pg\<lparr>pg_mesh := async_run (pg_mesh pg)\<rparr>)"

definition reloadAll :: "'w fetch \<Rightarrow> 'w page \<Rightarrow> 'w page" where
  "reloadAll fetch pg = run_mesh fetch (run_nodes fetch (run_status fetch pg))"

text \<open>The effects of the three hooks: a call each when the token is not the one of the last.\<close>

definition page_render :: "'w fetch \<Rightarrow> 'w page \<Rightarrow> 'w page" where
  "page_render fetch pg =
     (let token = Some (storage_token (pg_browser pg));
          p1 = (if as_deps (pg_status pg) = token then pg
                else run_status fetch (pg\<lparr>pg_status := (pg_status pg)\<lparr>as_deps := token\<rparr>\<rparr>));
          p2 = (if as_deps (pg_nodes p1) = token then p1
                else run_nodes fetch (p1\<lparr>pg_nodes := (pg_nodes p1)\<lparr>as_deps := token\<rparr>\<rparr>))
      in (if as_deps (pg_mesh p2) = token then p2
          else run_mesh fetch (p2\<lparr>pg_mesh := (pg_mesh p2)\<lparr>as_deps := token\<rparr>\<rparr>)))"

fun table_click :: "'w fetch \<Rightarrow> table_action \<Rightarrow> 'w page \<Rightarrow> 'w page" where
  "table_click fetch (Install r) pg = page_ask fetch (P_Install (node_id r)) pg"
| "table_click fetch (Policy r) pg =
     on_admin (\<lambda>a. a\<lparr>ad_policyNode := r\<rparr>)
       (pg\<lparr>pg_policy := open_node (pg_browser pg) fetch (node_id r) (pg_policy pg)\<rparr>)"
| "table_click fetch (Endpoints r) pg =
     page_ask fetch (P_Endpoints (node_id r))
       (on_admin (\<lambda>a. a\<lparr>ad_endpointNode := r\<rparr>) (pg\<lparr>pg_endpoint := (pg_endpoint pg)\<lparr>ed_open := True\<rparr>\<rparr>))"
| "table_click fetch (Diagnose r) pg =
     page_ask fetch (P_Diagnose (node_id r))
       (on_admin (\<lambda>a. a\<lparr>ad_diagNode := r\<rparr>) (pg\<lparr>pg_diagnose := diagnose_load_start (pg_diagnose pg)\<rparr>))"

definition open_settings :: "'w fetch \<Rightarrow> 'w page \<Rightarrow> 'w page" where
  "open_settings fetch pg =
     (let p1 = on_admin (\<lambda>a. a\<lparr>ad_settingsOpen := True\<rparr>) pg
      in if pg_cards pg then p1
         else page_ask fetch P_DiagCfg (page_ask fetch P_GeoIP (p1\<lparr>pg_cards := True\<rparr>)))"

text \<open>
  The handlers.  \<open>values\<close> is what the form at hand validates to, and \<open>typed\<close> what an
  input holds when it loses the focus.  Signing out starts the page again.
\<close>

fun page_click :: "'w fetch \<Rightarrow> (string \<times> jsval) list \<Rightarrow> string \<Rightarrow> admin_action \<Rightarrow> 'w page \<Rightarrow> 'w page" where
  "page_click fetch values typed (Menu k) pg = on_admin (\<lambda>a. a\<lparr>ad_menuKey := k\<rparr>) pg"
| "page_click fetch values typed NewNode pg =
     on_admin (\<lambda>a. a\<lparr>ad_showNodeForm := True\<rparr>) (pg\<lparr>pg_form := (pg_form pg)\<lparr>nf_open := True\<rparr>\<rparr>)"
| "page_click fetch values typed (OnTable act) pg = table_click fetch act pg"
| "page_click fetch values typed (ShowHistory n) pg =
     page_ask fetch (P_History (node_id n))
       (on_admin (\<lambda>a. a\<lparr>ad_historyNode := n\<rparr>) (pg\<lparr>pg_history := history_load_start (pg_history pg)\<rparr>))"
| "page_click fetch values typed OpenSettings pg = open_settings fetch pg"
| "page_click fetch values typed CloseSettings pg = on_admin (\<lambda>a. a\<lparr>ad_settingsOpen := False\<rparr>) pg"
| "page_click fetch values typed BaseBlur pg = pg\<lparr>pg_browser := set_storage_base typed (pg_browser pg)\<rparr>"
| "page_click fetch values typed TokenBlur pg = pg\<lparr>pg_browser := set_storage_token typed (pg_browser pg)\<rparr>"
| "page_click fetch values typed Logout pg =
     page_init (set_storage_token [] (pg_browser pg)) (sy_world (pg_policy pg))"
| "page_click fetch values typed Refresh pg = reloadAll fetch pg"
| "page_click fetch values typed CloseInstall pg =
     on_admin (\<lambda>a. a\<lparr>ad_installOpen := False, ad_installText := []\<rparr>) pg"
| "page_click fetch values typed (OnDrawer act) pg =
     (let p1 = pg\<lparr>pg_policy := click (pg_browser pg) fetch values act (pg_policy pg)\<rparr>
      in if act = CloseDrawer then on_admin (\<lambda>a. a\<lparr>ad_policyNode := Null\<rparr>) p1 else p1)"
| "page_click fetch values typed (OnEndpoints CloseForm) pg =
     on_admin (\<lambda>a. a\<lparr>ad_endpointNode := Null\<rparr>) (pg\<lparr>pg_endpoint := (pg_endpoint pg)\<lparr>ed_open := False\<rparr>\<rparr>)"
| "page_click fetch values typed (OnEndpoints SubmitForm) pg =
     page_ask fetch (P_SaveEndpoints (endpoint_payload (node_id (ad_endpointNode (pg_admin pg))) (pg_endpoint pg)))
       (pg\<lparr>pg_endpoint := endpoint_submit_start (pg_endpoint pg)\<rparr>)"
| "page_click fetch values typed (OnHistory CloseDialog) pg = on_admin (\<lambda>a. a\<lparr>ad_historyNode := Null\<rparr>) pg"
| "page_click fetch values typed (OnDiagnose CloseDialog) pg = on_admin (\<lambda>a. a\<lparr>ad_diagNode := Null\<rparr>) pg"
| "page_click fetch values typed (OnForm CloseForm) pg =
     on_admin (\<lambda>a. a\<lparr>ad_showNodeForm := False\<rparr>) (pg\<lparr>pg_form := (pg_form pg)\<lparr>nf_open := False\<rparr>\<rparr>)"
| "page_click fetch values typed (OnForm SubmitForm) pg =
     page_ask fetch (P_Create (node_form_payload (js_lookup ''id'' values) (js_lookup ''listenPort'' values)))
       (pg\<lparr>pg_form := node_form_start (pg_form pg)\<rparr>)"
| "page_click fetch values typed (OnGeoIP LoadCard) pg = page_ask fetch P_GeoIP pg"
| "page_click fetch values typed (OnGeoIP SaveCard) pg =
     page_ask fetch (P_SaveGeoIP (Obj (sc_form (pg_geoip pg)))) (pg\<lparr>pg_geoip := (pg_geoip pg)\<lparr>sc_loading := True\<rparr>\<rparr>)"
| "page_click fetch values typed (OnDiagCard LoadCard) pg = page_ask fetch P_DiagCfg pg"
| "page_click fetch values typed (OnDiagCard SaveCard) pg =
     page_ask fetch (P_SaveDiagCfg (Obj (sc_form (pg_diagcfg pg)))) pg"

text \<open>
  What follows an answer.  \<open>merge\<close> and \<open>clip\<close> are as for the endpoint drawer and
  the install command.
\<close>

fun page_settle ::
  "'w fetch \<Rightarrow> (jsval \<Rightarrow> jsval \<Rightarrow> jsval) \<Rightarrow> bool \<Rightarrow> page_call \<Rightarrow> jsval res \<Rightarrow> 'w page \<Rightarrow> 'w page" where
  "page_settle fetch merge clip (P_Status k) r pg = pg\<lparr>pg_status := async_settle k r (pg_status pg)\<rparr>"
| "page_settle fetch merge clip (P_Nodes k) r pg = pg\<lparr>pg_nodes := async_settle k r (pg_nodes pg)\<rparr>"
| "page_settle fetch merge clip (P_Mesh k) r pg = pg\<lparr>pg_mesh := async_settle k r (pg_mesh pg)\<rparr>"
| "page_settle fetch merge clip (P_Install n) r pg = on_admin (showInstall_done clip r) pg"
| "page_settle fetch merge clip (P_Endpoints n) r pg =
     pg\<lparr>pg_endpoint := endpoint_load_done merge n r (pg_endpoint pg)\<rparr>"
| "page_settle fetch merge clip (P_SaveEndpoints v) r pg =
     (let s = endpoint_submit_done r (pg_endpoint pg); p1 = pg\<lparr>pg_endpoint := s\<rparr>
      in if ed_open s then p1 else on_admin (\<lambda>a. a\<lparr>ad_endpointNode := Null\<rparr>) p1)"
| "page_settle fetch merge clip (P_History n) r pg = pg\<lparr>pg_history := history_load_done r (pg_history pg)\<rparr>"
| "page_settle fetch merge clip (P_Diagnose n) r pg = pg\<lparr>pg_diagnose := diagnose_load_done r (pg_diagnose pg)\<rparr>"
| "page_settle fetch merge clip (P_Create v) r pg =
     (let (s, created) = node_form_done r (pg_form pg);
          p1 = on_admin (\<lambda>a. a\<lparr>ad_showNodeForm := nf_open s\<rparr>) (pg\<lparr>pg_form := s\<rparr>)
      in if created then run_nodes fetch p1 else p1)"
| "page_settle fetch merge clip P_GeoIP r pg =
     pg\<lparr>pg_geoip := card_load_done msg_geoip_load_failed r (pg_geoip pg)\<rparr>"
| "page_settle fetch merge clip (P_SaveGeoIP v) r pg =
     (let (s, changed) = card_save_done msg_geoip_saved r (pg_geoip pg); p1 = pg\<lparr>pg_geoip := s\<rparr>
      in if changed then reloadAll fetch p1 else p1)"
| "page_settle fetch merge clip P_DiagCfg r pg =
     pg\<lparr>pg_diagcfg := card_load_done msg_diag_cfg_load_failed r (pg_diagcfg pg)\<rparr>"
| "page_settle fetch merge clip (P_SaveDiagCfg v) r pg =
     (let (s, changed) = card_save_done msg_diag_cfg_saved r (pg_diagcfg pg); p1 = pg\<lparr>pg_diagcfg := s\<rparr>
      in if changed then reloadAll fetch p1 else p1)"

definition page_deliver :: "'w fetch \<Rightarrow> (jsval \<Rightarrow> jsval \<Rightarrow> jsval) \<Rightarrow> bool \<Rightarrow> nat \<Rightarrow> 'w page \<Rightarrow> 'w page" where
  "page_deliver fetch merge clip i pg =
     (let (c, r) = pg_calls pg ! i
      in page_settle fetch merge clip c r (pg\<lparr>pg_calls := take i (pg_calls pg) @ drop (Suc i) (pg_calls pg)\<rparr>))"

text \<open>An answer for the policy drawer; a submit that succeeds calls \<open>reloadNodes\<close>.\<close>

definition drawer_deliver :: "'w fetch \<Rightarrow> nat \<Rightarrow> 'w page \<Rightarrow> 'w page" where
  "drawer_deliver fetch i pg =
     (let p1 = pg\<lparr>pg_policy := deliver (pg_browser pg) fetch i (pg_policy pg)\<rparr>
      in case sy_pending (pg_policy pg) ! i of
           (C_Submit n v, Inr x) \<Rightarrow> run_nodes fetch p1
         | _ \<Rightarrow> p1)"

section \<open>Steps\<close>

text \<open>
  \<open>at_home b\<close> says that the API base of a browser is the controller's; the user may type
  any other into its input, and then the page talks to something else.  \<open>frames\<close> says
  which log frames may come.
\<close>

inductive page_step ::
  "'w fetch \<Rightarrow> (browser \<Rightarrow> bool) \<Rightarrow> ('w \<Rightarrow> 'w \<Rightarrow> bool) \<Rightarrow> (jsval option \<Rightarrow> bool)
    \<Rightarrow> 'w page \<Rightarrow> 'w page \<Rightarrow> bool"
  for fetch at_home other frames where
  pg_click: "rule_values values \<or> (\<forall>d. act \<noteq> OnDrawer d) \<Longrightarrow>
    at_home (pg_browser (page_click fetch values typed act pg)) \<Longrightarrow>
    page_step fetch at_home other frames pg (page_click fetch values typed act pg)"
| pg_render: "page_step fetch at_home other frames pg (page_render fetch pg)"
| pg_settle: "i < length (pg_calls pg) \<Longrightarrow>
    page_step fetch at_home other frames pg (page_deliver fetch merge clip i pg)"
| pg_answer: "i < length (sy_pending (pg_policy pg)) \<Longrightarrow>
    page_step fetch at_home other frames pg (drawer_deliver fetch i pg)"
| pg_drawer: "system_step (pg_browser pg) fetch other frames (pg_policy pg) sy \<Longrightarrow> sy_node sy = sy_node (pg_policy pg) \<Longrightarrow>
    page_step fetch at_home other frames pg (pg\<lparr>pg_policy := sy\<rparr>)"
| pg_choose: "page_step fetch at_home other frames pg (pg\<lparr>pg_endpoint := (pg_endpoint pg)\<lparr>ed_endpoints := v\<rparr>\<rparr>)"
| pg_type: "page_step fetch at_home other frames pg
    (pg\<lparr>pg_geoip := (pg_geoip pg)\<lparr>sc_form := f1\<rparr>, pg_diagcfg := (pg_diagcfg pg)\<lparr>sc_form := f2\<rparr>\<rparr>)"

inductive page_reachable ::
  "'w fetch \<Rightarrow> (browser \<Rightarrow> bool) \<Rightarrow> ('w \<Rightarrow> 'w \<Rightarrow> bool) \<Rightarrow> (jsval option \<Rightarrow> bool)
    \<Rightarrow> browser \<Rightarrow> 'w \<Rightarrow> 'w page \<Rightarrow> bool"
  for fetch at_home other frames b0 w0 where
  pg_start: "page_reachable fetch at_home other frames b0 w0 (page_init b0 w0)"
| pg_next: "page_reachable fetch at_home other frames b0 w0 pg \<Longrightarrow> page_step fetch at_home other frames pg pg' \<Longrightarrow>
    page_reachable fetch at_home other frames b0 w0 pg'"

inductive_cases page_stepE: "page_step fetch at_home other frames pg pg'"

end
