(* ===== verification/Page_System.thy ===== *)
theory Page_System
  imports Js_Admin
begin

text \<open>
  The page as a system: what its state must look like to render, the contract with the server
  that keeps it so, and the invariant of all its steps.
\<close>

section \<open>What is needed to render\<close>

definition page_shape :: "'w page \<Rightarrow> bool" where
  "page_shape pg \<longleftrightarrow> info_shape (as_data (pg_status pg)) \<and> entries_shape (as_data (pg_nodes pg))
     \<and> mesh_shape (as_data (pg_mesh pg)) \<and> history_shape (hm_data (pg_history pg))
     \<and> diagnosis_shape (gm_data (pg_diagnose pg))"

definition drawer_ok :: "'w system \<Rightarrow> bool" where
  "drawer_ok sy \<longleftrightarrow> drawer_shape (sy_drawer sy) \<and> pending_shape (sy_pending sy)"

lemma renders_Admin:
  assumes "page_shape pg" and "drawer_ok (pg_policy pg)"
  shows "renders (Admin t date_ms pg)"
proof -
  have "renders (admin_content pg)"
    using assms(1) by (simp add: admin_content_def page_shape_def renders_NodesTable renders_MeshStatus)
  moreover have "renders (settings_modal pg)"
    using assms(1) by (simp add: settings_modal_def page_shape_def renders_StatusCard)
  moreover have "renders (PolicyDrawer t (drawer_props_of pg) (sy_modal (pg_policy pg)) (sy_drawer (pg_policy pg)))"
    using assms by (intro renders_PolicyDrawer) (simp_all add: drawer_ok_def drawer_props_of_def page_shape_def entries_nodes)
  moreover have "renders (EndpointDrawer o' n (as_data (pg_nodes pg)) (pg_endpoint pg))"
    "renders (HealthHistoryModal t date_ms o' n (pg_history pg))" "renders (DiagnoseModal o' n (pg_diagnose pg))" for o' n
    using assms(1)
    by (simp_all add: page_shape_def renders_EndpointDrawer renders_HealthHistoryModal renders_DiagnoseModal)
  ultimately show ?thesis
    by (simp add: Admin_def admin_header_def install_modal_def Let_def)
qed

lemma renders_App:
  assumes "page_shape pg" and "drawer_ok (pg_policy pg)"
  shows "renders (App t date_ms s pg)"
  using renders_Admin [OF assms] by (simp add: App_def split: view.split)

lemma page_shape_init: "page_shape (page_init b w)" "drawer_ok (pg_policy (page_init b w))"
  by (simp_all add: page_shape_def drawer_ok_def page_init_def system_init_def Let_def async_init_def info_shape_def
      entries_shape_def mesh_shape_def history_shape_def diagnosis_shape_def pending_shape_def)

lemma page_init_simps [simp]: "pg_browser (page_init b w) = b" "pg_calls (page_init b w) = []"
  by (simp_all add: page_init_def Let_def)

section \<open>Answers\<close>

text \<open>What the answer to a call must look like when it succeeds.\<close>

fun page_answer :: "page_call \<Rightarrow> jsval res \<Rightarrow> bool" where
  "page_answer (P_Status k) r = (\<forall>v. r = Inr v \<longrightarrow> info_shape v)"
| "page_answer (P_Nodes k) r = (\<forall>v. r = Inr v \<longrightarrow> entries_shape v)"
| "page_answer (P_Mesh k) r = (\<forall>v. r = Inr v \<longrightarrow> mesh_shape v)"
| "page_answer (P_History n) r = (\<forall>v. r = Inr v \<longrightarrow> history_shape v)"
| "page_answer (P_Diagnose n) r = (\<forall>v. r = Inr v \<longrightarrow> diagnosis_shape v)"
| "page_answer c r = True"

definition calls_ok :: "(page_call \<times> jsval res) list \<Rightarrow> bool" where
  "calls_ok cs \<longleftrightarrow> (\<forall>(c, r)\<in>set cs. page_answer c r)"

lemma async_run_data [simp]: "as_data (async_run s) = as_data s"
  by (simp add: async_run_def)

lemma async_settle_data: "as_data (async_settle k r s) = (case r of Inr d \<Rightarrow> d | Inl e \<Rightarrow> as_data s)"
  by (simp add: async_settle_def Let_def split: sum.split)

lemma history_shape_or: "history_shape v \<Longrightarrow> history_shape (js_or v (Arr []))"
  by (cases v) (simp_all add: history_shape_def js_or_def)

text \<open>
  The contract: at home, every answer to a call of the drawer and of the page has the shape
  the page expects.
\<close>

locale page_backend =
  fixes fetch :: "'w fetch"
    and at_home :: "browser \<Rightarrow> bool"
    and other :: "'w \<Rightarrow> 'w \<Rightarrow> bool"
  assumes drawer_calls: "at_home b \<Longrightarrow> drawer_backend b fetch other (\<lambda>_. True)"
    and page_calls: "at_home b \<Longrightarrow> page_answer c (fst (api b fetch (page_path c) (page_options c) w))"
    and signed_out: "at_home b \<Longrightarrow> at_home (set_storage_token t b)"
begin

definition page_inv :: "'w page \<Rightarrow> bool" where
  "page_inv pg \<longleftrightarrow> page_shape pg \<and> drawer_ok (pg_policy pg) \<and> at_home (pg_browser pg) \<and> calls_ok (pg_calls pg)"

lemma page_inv_parts:
  "page_inv pg \<Longrightarrow> page_inv (pg\<lparr>pg_admin := a\<rparr>)" "page_inv pg \<Longrightarrow> page_inv (on_admin f pg)"
  "page_inv pg \<Longrightarrow> page_inv (pg\<lparr>pg_endpoint := ed\<rparr>)" "page_inv pg \<Longrightarrow> page_inv (pg\<lparr>pg_form := nf\<rparr>)"
  "page_inv pg \<Longrightarrow> page_inv (pg\<lparr>pg_cards := k\<rparr>)" "page_inv pg \<Longrightarrow> page_inv (pg\<lparr>pg_geoip := g\<rparr>)"
  "page_inv pg \<Longrightarrow> page_inv (pg\<lparr>pg_diagcfg := g\<rparr>)"
  "page_inv pg \<Longrightarrow> hm_data h = hm_data (pg_history pg) \<Longrightarrow> page_inv (pg\<lparr>pg_history := h\<rparr>)"
  "page_inv pg \<Longrightarrow> gm_data d = gm_data (pg_diagnose pg) \<Longrightarrow> page_inv (pg\<lparr>pg_diagnose := d\<rparr>)"
  "page_inv pg \<Longrightarrow> as_data s = as_data (pg_status pg) \<Longrightarrow> page_inv (pg\<lparr>pg_status := s\<rparr>)"
  "page_inv pg \<Longrightarrow> as_data s = as_data (pg_nodes pg) \<Longrightarrow> page_inv (pg\<lparr>pg_nodes := s\<rparr>)"
  "page_inv pg \<Longrightarrow> as_data s = as_data (pg_mesh pg) \<Longrightarrow> page_inv (pg\<lparr>pg_mesh := s\<rparr>)"
  "page_inv pg \<Longrightarrow> drawer_ok sy \<Longrightarrow> page_inv (pg\<lparr>pg_policy := sy\<rparr>)"
  by (simp_all add: page_inv_def page_shape_def on_admin_def)

lemma page_ask_inv: "page_inv pg \<Longrightarrow> page_inv (page_ask fetch c pg)"
  using page_calls [of "pg_browser pg" c "sy_world (pg_policy pg)"]
  by (simp add: page_ask_def page_inv_def page_shape_def calls_ok_def drawer_ok_def case_prod_unfold Let_def)

lemma run_inv:
  "page_inv pg \<Longrightarrow> page_inv (run_status fetch pg)" "page_inv pg \<Longrightarrow> page_inv (run_nodes fetch pg)"
  "page_inv pg \<Longrightarrow> page_inv (run_mesh fetch pg)"
  by (simp_all add: run_status_def run_nodes_def run_mesh_def page_ask_inv page_inv_parts(10-12))

lemma reloadAll_inv: "page_inv pg \<Longrightarrow> page_inv (reloadAll fetch pg)"
  by (simp add: reloadAll_def run_inv)

lemma page_render_inv:
  assumes "page_inv pg"
  shows "page_inv (page_render fetch pg)"
proof -
  let ?d = "Some (storage_token (pg_browser pg))"
  have "page_inv (if as_deps (pg_status p) = d then p
      else run_status fetch (p\<lparr>pg_status := (pg_status p)\<lparr>as_deps := d\<rparr>\<rparr>))" if "page_inv p" for p d
    using that by (simp add: run_inv page_inv_parts(10))
  moreover have "page_inv (if as_deps (pg_nodes p) = d then p
      else run_nodes fetch (p\<lparr>pg_nodes := (pg_nodes p)\<lparr>as_deps := d\<rparr>\<rparr>))" if "page_inv p" for p d
    using that by (simp add: run_inv page_inv_parts(11))
  moreover have "page_inv (if as_deps (pg_mesh p) = d then p
      else run_mesh fetch (p\<lparr>pg_mesh := (pg_mesh p)\<lparr>as_deps := d\<rparr>\<rparr>))" if "page_inv p" for p d
    using that by (simp add: run_inv page_inv_parts(12))
  ultimately show ?thesis using assms unfolding page_render_def Let_def by blast
qed

text \<open>The steps of the drawer are those proved for it alone.\<close>

lemma drawer_ok_inv: "at_home b \<Longrightarrow> drawer_backend.sys_inv (\<lambda>_. True) (sy :: 'w system) \<longleftrightarrow> drawer_ok sy"
  using drawer_backend.sys_inv_def [OF drawer_calls] by (simp add: drawer_ok_def)

lemma drawer_steps:
  assumes "at_home b" and "drawer_ok sy"
  shows "drawer_ok (open_node b fetch n sy)"
    and "rule_values values \<Longrightarrow> drawer_ok (click b fetch values act sy)"
    and "i < length (sy_pending sy) \<Longrightarrow> drawer_ok (deliver b fetch i sy)"
    and "system_step b fetch other frame_ok sy sy' \<Longrightarrow> drawer_ok sy'"
  using assms drawer_backend.open_inv [OF drawer_calls [OF assms(1)], of sy n]
    drawer_backend.click_inv [OF drawer_calls [OF assms(1)], of sy "values" act]
    drawer_backend.deliver_inv [OF drawer_calls [OF assms(1)], of sy i]
    drawer_backend.step_inv [OF drawer_calls [OF assms(1)], of sy sy']
  by (simp_all add: drawer_ok_inv [OF assms(1)])

lemma page_home: "page_inv pg \<Longrightarrow> at_home (pg_browser pg)" "page_inv pg \<Longrightarrow> drawer_ok (pg_policy pg)"
  by (simp_all add: page_inv_def)

lemma table_click_inv: "page_inv pg \<Longrightarrow> page_inv (table_click fetch act pg)"
  by (cases act) (simp_all add: page_ask_inv page_inv_parts(2,3,9,13) diagnose_load_start_def drawer_steps(1) page_home)

lemma open_settings_inv: "page_inv pg \<Longrightarrow> page_inv (open_settings fetch pg)"
  by (simp add: open_settings_def Let_def page_ask_inv page_inv_parts(2,5))

lemma page_init_inv: "at_home b \<Longrightarrow> page_inv (page_init b w)"
  by (simp add: page_inv_def page_shape_init calls_ok_def)

lemma page_browser_inv: "page_inv pg \<Longrightarrow> at_home b \<Longrightarrow> page_inv (pg\<lparr>pg_browser := b\<rparr>)"
  by (simp add: page_inv_def page_shape_def)

lemma page_click_inv:
  assumes "page_inv pg" and "rule_values values \<or> (\<forall>d. act \<noteq> OnDrawer d)"
    and "at_home (pg_browser (page_click fetch values typed act pg))"
  shows "page_inv (page_click fetch values typed act pg)"
proof (cases act)
  case (OnEndpoints x)
  then show ?thesis using assms(1) by (cases x) (simp_all add: page_ask_inv page_inv_parts)
next
  case (OnHistory x)
  then show ?thesis using assms(1) by (cases x) (simp_all add: page_inv_parts)
next
  case (OnDiagnose x)
  then show ?thesis using assms(1) by (cases x) (simp_all add: page_inv_parts)
next
  case (OnForm x)
  then show ?thesis using assms(1) by (cases x) (simp_all add: page_ask_inv page_inv_parts)
next
  case (OnGeoIP x)
  then show ?thesis using assms(1) by (cases x) (simp_all add: page_ask_inv page_inv_parts)
next
  case (OnDiagCard x)
  then show ?thesis using assms(1) by (cases x) (simp_all add: page_ask_inv page_inv_parts)
next
  case (OnDrawer x)
  then have "drawer_ok (click (pg_browser pg) fetch values x (pg_policy pg))"
    using assms(1,2) by (auto intro: drawer_steps(2) page_home)
  then have "page_inv (pg\<lparr>pg_policy := click (pg_browser pg) fetch values x (pg_policy pg)\<rparr>)"
    using assms(1) by (rule page_inv_parts(13) [rotated])
  moreover from this have "page_inv (on_admin f (pg\<lparr>pg_policy := click (pg_browser pg) fetch values x (pg_policy pg)\<rparr>))" for f
    by (rule page_inv_parts(2))
  ultimately show ?thesis
    unfolding OnDrawer page_click.simps Let_def by (simp only: split: if_split) simp
qed (use assms(1,3) in \<open>simp_all add: page_ask_inv page_inv_parts reloadAll_inv table_click_inv open_settings_inv
    page_init_inv page_home signed_out history_load_start_def page_browser_inv\<close>)

lemma page_settle_inv:
  assumes "page_inv pg" and "page_answer c r"
  shows "page_inv (page_settle fetch merge clip c r pg)"
proof (cases c)
  case (P_Status k)
  then show ?thesis using assms by (cases r) (simp_all add: page_inv_def page_shape_def async_settle_data)
next
  case (P_Nodes k)
  then show ?thesis using assms by (cases r) (simp_all add: page_inv_def page_shape_def async_settle_data)
next
  case (P_Mesh k)
  then show ?thesis using assms by (cases r) (simp_all add: page_inv_def page_shape_def async_settle_data)
next
  case (P_History n)
  then show ?thesis using assms
    by (cases r) (simp_all add: page_inv_def page_shape_def history_load_done_def history_shape_or)
next
  case (P_Diagnose n)
  then show ?thesis using assms by (cases r) (simp_all add: page_inv_def page_shape_def diagnose_load_done_def)
qed (use assms(1) in \<open>simp_all add: page_inv_parts run_inv reloadAll_inv case_prod_unfold Let_def\<close>)

lemma page_deliver_inv:
  assumes "page_inv pg" and "i < length (pg_calls pg)"
  shows "page_inv (page_deliver fetch merge clip i pg)"
proof -
  obtain c r where cr: "pg_calls pg ! i = (c, r)" by (cases "pg_calls pg ! i")
  have ok: "calls_ok (pg_calls pg)" using assms(1) by (simp add: page_inv_def)
  have "(c, r) \<in> set (pg_calls pg)" using assms(2) cr by (metis nth_mem)
  then have "page_answer c r" using ok by (auto simp: calls_ok_def)
  moreover have "calls_ok (take i (pg_calls pg) @ drop (Suc i) (pg_calls pg))"
    using ok by (auto simp: calls_ok_def dest: in_set_takeD in_set_dropD)
  then have "page_inv (pg\<lparr>pg_calls := take i (pg_calls pg) @ drop (Suc i) (pg_calls pg)\<rparr>)"
    using assms(1) by (simp add: page_inv_def page_shape_def)
  ultimately show ?thesis by (simp add: page_deliver_def cr page_settle_inv)
qed

lemma drawer_deliver_inv:
  assumes "page_inv pg" and "i < length (sy_pending (pg_policy pg))"
  shows "page_inv (drawer_deliver fetch i pg)"
proof -
  have "page_inv (pg\<lparr>pg_policy := deliver (pg_browser pg) fetch i (pg_policy pg)\<rparr>)"
    using assms by (intro page_inv_parts(13) drawer_steps(3) page_home)
  then show ?thesis
    by (auto simp: drawer_deliver_def Let_def run_inv split: prod.split call.split sum.split)
qed

lemma page_step_inv: "page_step fetch at_home other frame_ok pg pg' \<Longrightarrow> page_inv pg \<Longrightarrow> page_inv pg'"
proof (erule page_stepE)
  fix sy assume "page_inv pg" "pg' = pg\<lparr>pg_policy := sy\<rparr>" "system_step (pg_browser pg) fetch other frame_ok (pg_policy pg) sy"
  then show "page_inv pg'" using drawer_steps(4) [OF page_home] by (simp add: page_inv_parts(13))
qed (simp_all add: page_click_inv page_render_inv page_deliver_inv drawer_deliver_inv page_inv_parts)

lemma page_reachable_inv: "page_reachable fetch at_home other frame_ok b0 w0 pg \<Longrightarrow> at_home b0 \<Longrightarrow> page_inv pg"
proof (induction rule: page_reachable.induct)
  case pg_start
  then show ?case by (rule page_init_inv)
next
  case (pg_next pg pg')
  then show ?case by (blast intro: page_step_inv)
qed

lemma page_renders:
  "page_reachable fetch at_home other frame_ok b0 w0 pg \<Longrightarrow> at_home b0 \<Longrightarrow> renders (App t date_ms s pg)"
  using page_reachable_inv by (simp add: page_inv_def renders_App)

end

end
