(* ===== verification/Drawer_Flow.thy ===== *)
theory Drawer_Flow
  imports Js_Drawer Policy_Flow
begin

text \<open>
  The drawer over time against the controller: its answers have the shapes the drawer needs,
  whoever is signed in and whatever the store holds.
\<close>

section \<open>Shapes of the answers\<close>

lemma json_rule_shape [simp]: "rule_shape (json_rule r)"
  by (simp add: rule_shape_def json_rule_def object_of_def omit_defs)

lemma json_log_shape [simp]: "log_shape (json_log t l)"
  by (simp add: log_shape_def json_log_def object_of_def omit_defs)

lemma json_step_shape [simp]: "step_shape (json_step t x)"
  by (simp add: step_shape_def json_step_def object_of_def omit_defs)

lemma array_shape_js_list: "(\<And>x. P (f x)) \<Longrightarrow> array_shape P (js_list f xs)"
  by (simp add: js_list_def)

lemma json_task_shape [simp]: "task_shape (json_task t x)"
  by (simp add: task_shape_def json_task_def object_of_def omit_defs array_shape_js_list)

lemma json_check_shape [simp]: "check_shape (json_check x)"
  by (simp add: check_shape_def json_check_def object_of_def omit_defs)

lemma json_diag_shape [simp]: "diag_shape (json_diag t d)"
  by (simp add: diag_shape_def json_diag_def object_of_def array_shape_js_list)

lemma all_shape_js_array: "(\<And>x. P (f x)) \<Longrightarrow> all_shape P (js_or (js_array f xs) (Arr []))"
  by (simp add: all_shape_def js_array_def)

lemma items_shape_items: "(\<And>x. P (f x)) \<Longrightarrow> items_shape P (Inr (Obj [(''items'', js_array f xs)]))"
  by (simp add: items_shape_def all_shape_def js_array_def)

lemma items_shape_Inl [simp]: "items_shape P (Inl e)"
  by (simp add: items_shape_def)

section \<open>Answers of the controller\<close>

lemma api_result_error: "400 \<le> code \<Longrightarrow> \<exists>e. api_result path (http_error msg code) = Inl e"
  by (simp add: api_result_def http_error_def response_ok_def)

text \<open>A call by a browser that talks to this controller, signed in or not.\<close>

lemma api_routed:
  assumes "strip_slashes (storage_base b) = origin" and "opt_base opts = []"
    and "cut (CHR ''?'') path = (p, q)" and "map_of routes p = Some h"
  shows "fst (api b (controller_fetch others envs origin) path opts w) =
    api_result path (fst (h (envs (snd w)) q (api_request b path opts) (fst w)))"
proof -
  have "rq_url (api_request b path opts) = origin @ path"
    using assms(1,2) by (simp add: api_url)
  then show ?thesis
    using assms(3,4) by (simp add: api_def controller_fetch_def serve_def case_prod_unfold Let_def)
qed

definition refused :: "response \<Rightarrow> bool" where
  "refused r \<longleftrightarrow> (\<exists>msg code. 400 \<le> code \<and> r = http_error msg code)"

lemma refused_error [simp]: "400 \<le> code \<Longrightarrow> refused (http_error msg code)"
  by (auto simp: refused_def)

lemma refused_result: "refused r \<Longrightarrow> \<exists>e. api_result path r = Inl e"
  using api_result_error by (auto simp: refused_def)

lemma answers_json:
  assumes "rq_method rq = ''GET''"
  shows "refused (fst (policy_route e q rq c)) \<or> (\<exists>n. fst (policy_route e q rq c) = writeJSON (Obj (json_policy n)))"
    "refused (fst (status_route e q rq c)) \<or> (\<exists>xs. fst (status_route e q rq c) = items (json_log (e_rfc3339 e)) xs)"
    "refused (fst (diag_route e q rq c)) \<or> (\<exists>xs. fst (diag_route e q rq c) = items (json_diag (e_rfc3339 e)) xs)"
    "refused (fst (tasks_route e q rq c)) \<or> (\<exists>xs. fst (tasks_route e q rq c) = items (json_task (e_rfc3339 e)) xs)"
  using assms
  by (auto simp: policy_route_def status_route_def diag_route_def tasks_route_def guarded_def policy_get_def
      Let_def split: option.split)

lemma call_options_base [simp]: "opt_base (call_options c) = []"
  by (cases c) (simp_all add: get_options_def post_json_def)

text \<open>The answer of a route the page reads, as \<open>api\<close> hands it on.\<close>

lemma read_answer:
  assumes "strip_slashes (storage_base b) = origin" and "cut (CHR ''?'') path = (p, q)"
    and "map_of routes p = Some h"
    and "\<And>e c. refused (fst (h e q (api_request b path get_options) c))
        \<or> (\<exists>x. fst (h e q (api_request b path get_options) c) = f e x)"
    and "\<And>e x. api_result path (f e x) = Inr (g e x)"
  shows "(\<exists>err. fst (api b (controller_fetch others envs origin) path get_options w) = Inl err)
    \<or> (\<exists>e x. fst (api b (controller_fetch others envs origin) path get_options w) = Inr (g e x))"
proof -
  have base: "opt_base get_options = []" by simp
  show ?thesis
    using assms(4) [of "envs (snd w)" "fst w"] refused_result [of _ path] assms(5)
    unfolding api_routed [OF assms(1) base assms(2,3)] by metis
qed

lemma paths_cut:
  "cut (CHR ''?'') (logs_path n) = (''/api/v1/policy/status'', setting ''nodeId'' n @ ''&limit=40'')"
  "cut (CHR ''?'') (tasks_path n) = (''/api/v1/tasks'', setting ''nodeId'' n)"
  "cut (CHR ''?'') (diag_path n) = (''/api/v1/policy/diag'', setting ''nodeId'' n @ ''&limit=1'')"
  using cut_path [of "''/api/v1/policy/status''" "setting ''nodeId'' n @ ''&limit=40''"]
    cut_path [of "''/api/v1/tasks''" "setting ''nodeId'' n"]
    cut_path [of "''/api/v1/policy/diag''" "setting ''nodeId'' n @ ''&limit=1''"]
  by (simp_all add: logs_path_def tasks_path_def diag_path_def)

lemma routes_read:
  "map_of routes ''/api/v1/policy/status'' = Some status_route"
  "map_of routes ''/api/v1/tasks'' = Some tasks_route"
  "map_of routes ''/api/v1/policy/diag'' = Some diag_route"
  by (simp_all add: routes_def)

lemma api_result_items [simp]: "api_result path (items f xs) = Inr (Obj [(''items'', js_array f xs)])"
  by (simp add: items_def)

lemma controller_answers:
  assumes "strip_slashes (storage_base b) = origin"
  shows "answer_shape c (fst (api b (controller_fetch others envs origin) (call_path c) (call_options c) w))"
proof (cases c)
  case (C_Load n)
  have "(\<exists>err. fst (api b (controller_fetch others envs origin) (policy_path n) get_options w) = Inl err)
    \<or> (\<exists>(e :: env) x. fst (api b (controller_fetch others envs origin) (policy_path n) get_options w) = Inr (Obj (json_policy x)))"
    by (rule read_answer [OF assms policy_path_cut routes_policy,
          where f = "\<lambda>_ n. writeJSON (Obj (json_policy n))" and g = "\<lambda>_ n. Obj (json_policy n)"])
      (simp_all add: answers_json(1))
  then show ?thesis
    using C_Load by (auto simp: load_values_def json_policy_def all_shape_def)
next
  case (C_Logs n)
  have "(\<exists>err. fst (api b (controller_fetch others envs origin) (logs_path n) get_options w) = Inl err)
    \<or> (\<exists>(e :: env) x. fst (api b (controller_fetch others envs origin) (logs_path n) get_options w)
        = Inr (Obj [(''items'', js_array (json_log (e_rfc3339 e)) x)]))"
    by (rule read_answer [OF assms paths_cut(1) routes_read(1),
          where f = "\<lambda>e. items (json_log (e_rfc3339 e))" and g = "\<lambda>e x. Obj [(''items'', js_array (json_log (e_rfc3339 e)) x)]"])
      (simp_all add: answers_json(2))
  then show ?thesis using C_Logs by (auto simp: items_shape_items)
next
  case (C_Tasks n)
  have "(\<exists>err. fst (api b (controller_fetch others envs origin) (tasks_path n) get_options w) = Inl err)
    \<or> (\<exists>(e :: env) x. fst (api b (controller_fetch others envs origin) (tasks_path n) get_options w)
        = Inr (Obj [(''items'', js_array (json_task (e_rfc3339 e)) x)]))"
    by (rule read_answer [OF assms paths_cut(2) routes_read(2),
          where f = "\<lambda>e. items (json_task (e_rfc3339 e))" and g = "\<lambda>e x. Obj [(''items'', js_array (json_task (e_rfc3339 e)) x)]"])
      (simp_all add: answers_json(4))
  then show ?thesis using C_Tasks by (auto simp: items_shape_items)
next
  case (C_Diag n)
  have "(\<exists>err. fst (api b (controller_fetch others envs origin) (diag_path n) get_options w) = Inl err)
    \<or> (\<exists>(e :: env) x. fst (api b (controller_fetch others envs origin) (diag_path n) get_options w)
        = Inr (Obj [(''items'', js_array (json_diag (e_rfc3339 e)) x)]))"
    by (rule read_answer [OF assms paths_cut(3) routes_read(3),
          where f = "\<lambda>e. items (json_diag (e_rfc3339 e))" and g = "\<lambda>e x. Obj [(''items'', js_array (json_diag (e_rfc3339 e)) x)]"])
      (simp_all add: answers_json(3))
  moreover have "diag_shape (last_item (js_array (json_diag t) xs))" for t xs
  proof (cases xs rule: rev_cases)
    case Nil
    then show ?thesis by (simp add: js_array_def diag_shape_def)
  qed (simp add: js_array_def)
  ultimately show ?thesis using C_Diag by auto
qed simp_all

interpretation desk: drawer_backend b "controller_fetch others envs origin" other
    "\<lambda>w. strip_slashes (storage_base b) = origin"
  for b others envs origin other
proof unfold_locales
  fix w c r w'
  assume "strip_slashes (storage_base b) = origin"
    "api b (controller_fetch others envs origin) (call_path c) (call_options c) w = (r, w')"
  then show "answer_shape c r \<and> strip_slashes (storage_base b) = origin"
    using controller_answers [of b origin c others envs w] by simp
qed simp

section \<open>Calls that only read\<close>

lemma ask_simps [simp]:
  "sy_node (ask b fetch c sy) = sy_node sy" "sy_drawer (ask b fetch c sy) = sy_drawer sy"
  "sy_modal (ask b fetch c sy) = sy_modal sy"
  "sy_pending (ask b fetch c sy) = sy_pending sy @ [(c, fst (api b fetch (call_path c) (call_options c) (sy_world sy)))]"
  "sy_world (ask b fetch c sy) = snd (api b fetch (call_path c) (call_options c) (sy_world sy))"
  by (simp_all add: ask_def case_prod_unfold Let_def)

lemma on_drawer_simps [simp]:
  "sy_node (on_drawer f sy) = sy_node sy" "sy_drawer (on_drawer f sy) = f (sy_drawer sy)"
  "sy_pending (on_drawer f sy) = sy_pending sy" "sy_world (on_drawer f sy) = sy_world sy"
  by (simp_all add: on_drawer_def)

lemma routes_get_same:
  assumes "rq_method rq = ''GET''"
  shows "snd (policy_route e q rq c) = c" "snd (status_route e q rq c) = c" "snd (tasks_route e q rq c) = c"
  using assms
  by (auto simp: policy_route_def status_route_def tasks_route_def guarded_def policy_get_def Let_def
      split: option.split)

lemma read_world:
  assumes "strip_slashes (storage_base b) = origin" and "c \<in> {C_Load n, C_Logs n, C_Tasks n}"
  shows "snd (api b (controller_fetch others envs origin) (call_path c) (call_options c) w) = (fst w, Suc (snd w))"
proof -
  have "snd (api b (controller_fetch others envs origin) path get_options w) = (fst w, Suc (snd w))"
    if "cut (CHR ''?'') path = (p, q)" and "map_of routes p = Some h"
      and "\<And>e c. snd (h e q (api_request b path get_options) c) = c" for path p q h
  proof -
    have "rq_url (api_request b path get_options) = origin @ path"
      using assms(1) api_url [of get_options b path] by simp
    then show ?thesis
      using that by (simp add: api_def controller_fetch_def serve_def case_prod_unfold Let_def)
  qed
  from this [OF policy_path_cut routes_policy routes_get_same(1)]
    this [OF paths_cut(1) routes_read(1) routes_get_same(2)]
    this [OF paths_cut(2) routes_read(2) routes_get_same(3)]
  show ?thesis using assms(2) by auto
qed

lemma open_node_simps:
  assumes "strip_slashes (storage_base b) = origin"
  shows "sy_world (open_node b (controller_fetch others envs origin) n sy) =
      (fst (sy_world sy), Suc (Suc (Suc (snd (sy_world sy)))))"
    "sy_drawer (open_node b (controller_fetch others envs origin) n sy) = loadLogs_start (sy_drawer sy)"
    "sy_node (open_node b (controller_fetch others envs origin) n sy) = Some n"
    "\<exists>r1 r2. sy_pending (open_node b (controller_fetch others envs origin) n sy) = sy_pending sy @
       [(C_Load n, fst (api b (controller_fetch others envs origin) (policy_path n) get_options (sy_world sy))),
        (C_Logs n, r1), (C_Tasks n, r2)]"
  using read_world [OF assms, of "C_Load n" n] read_world [OF assms, of "C_Logs n" n]
    read_world [OF assms, of "C_Tasks n" n]
  by (simp_all add: open_node_def)

section \<open>Properties\<close>

text \<open>The drawer never takes the page down: in every state it reaches with the controller,
  whatever the user clicks and types, in whatever order answers and the log lines agents send
  come, and whatever other clients do meanwhile, rendering the drawer raises no exception, as long
  as the lines of every log frame, if it has any, are an array.\<close>

theorem drawer_never_crashes:
  assumes "strip_slashes (storage_base b) = origin"
    and "system_reachable b (controller_fetch others envs origin) other frame_ok w0 sy"
    and "mesh_shape (dp_mesh p)" and "nodes_shape (dp_nodes p)"
  shows "renders (PolicyDrawer t p (sy_modal sy) (sy_drawer sy))"
  using desk.always_renders [OF assms(2,1,3,4)] .

theorem drawer_never_crashes_witness:
  "renders (PolicyDrawer \<lparr>toLocaleString = elem_string, toLocaleTimeString = elem_string\<rparr>
     \<lparr>dp_open = True, dp_node = Obj [(''id'', Str ''n1'')], dp_nodes = Null, dp_mesh = Null\<rparr>
     (sy_modal (deliver ex_browser ex_fetch 0 (open_node ex_browser ex_fetch ''n1'' (system_init ex_world))))
     (sy_drawer (deliver ex_browser ex_fetch 0 (open_node ex_browser ex_fetch ''n1'' (system_init ex_world)))))"
proof -
  let ?o = "open_node ex_browser ex_fetch ''n1'' (system_init ex_world)"
  have base: "strip_slashes (storage_base ex_browser) = ''http://c''"
    using ex_logged_in by (simp add: logged_in_def)
  have reach: "system_reachable ex_browser ex_fetch (\<lambda>_ _. False) frame_ok ex_world ?o"
    by (rule sy_step [OF sy_init sy_open])
  have "0 < length (sy_pending ?o)" using open_node_simps(4) [OF base, of "\<lambda>_. None" "\<lambda>_. ex_env" "''n1''" "system_init ex_world"] by auto
  then have "system_reachable ex_browser ex_fetch (\<lambda>_ _. False) frame_ok ex_world (deliver ex_browser ex_fetch 0 ?o)"
    by (rule sy_step [OF reach sy_deliver])
  from drawer_never_crashes [OF base this] show ?thesis
    by (simp add: mesh_shape_def nodes_shape_def)
qed

text \<open>C28. An answer that comes late puts one node's policy on another: the drawer is opened for
  one node, closed, and opened for another; when the answer for the first node arrives last,
  the drawer of the second node shows the first node's policy, and submitting stores it
  there.\<close>

theorem late_answer_moves_policy:
  assumes "ctl_known b envs origin n1 (sy_world sy)" "ctl_known b envs origin n2 (sy_world sy)"
    and "sy_pending sy = []"
    and "clean_items (q_BypassCIDRs (ctl_policy n1 (sy_world sy)))" "acceptable (ctl_policy n1 (sy_world sy))"
  shows "let fetch = controller_fetch others envs origin;
      sy2 = open_node b fetch n2 (close_node (open_node b fetch n1 sy));
      sy3 = deliver b fetch 0 (deliver b fetch 3 sy2);
      sy4 = click b fetch [] SubmitPolicy sy3
    in sy_node sy4 = Some n2 \<and> shows_policy (ctl_policy n1 (sy_world sy)) (sy_drawer sy3)
     \<and> ctl_policy n2 (sy_world sy4) = (accepted (ctl_policy n1 (sy_world sy)))\<lparr>q_NodeID := n2\<rparr>"
proof -
  obtain c k where w: "sy_world sy = (c, k)" by (cases "sy_world sy")
  let ?f = "controller_fetch others envs origin" and ?P = "ctl_policy n1 (c, k)"
  have base: "strip_slashes (storage_base b) = origin"
    using assms(1) by (simp add: ctl_known_def logged_in_def)
  let ?s1 = "open_node b ?f n1 sy" and ?s2 = "open_node b ?f n2 (close_node (open_node b ?f n1 sy))"
  note O = open_node_simps [OF base, of others envs]
  have a1: "fst (api b ?f (policy_path n1) get_options (c, k)) = Inr (answer ?P)"
    using ctl_get_policy [of b envs origin n1 c k others] assms(1) w by simp
  obtain r1 r2 where p1: "sy_pending ?s1 = [(C_Load n1, Inr (answer ?P)), (C_Logs n1, r1), (C_Tasks n1, r2)]"
    using O(4) [of n1 sy] assms(3) w a1 by auto
  obtain x r3 r4 where p2: "sy_pending ?s2 =
      [(C_Load n1, Inr (answer ?P)), (C_Logs n1, r1), (C_Tasks n1, r2), (C_Load n2, x), (C_Logs n2, r3), (C_Tasks n2, r4)]"
    using O(4) [of n2 "close_node ?s1"] p1 by (auto simp: close_node_def)
  have w2: "fst (sy_world ?s2) = c" by (simp add: O(1) close_node_def w)
  let ?s3 = "deliver b ?f 0 (deliver b ?f 3 ?s2)"
  obtain d where d: "sy_drawer ?s3 = load_done (Inr (answer ?P)) d" "sy_world ?s3 = sy_world ?s2" "sy_node ?s3 = Some n2"
    using p2 O(3) by (simp add: deliver_def numeral_3_eq_3)
  have shown: "shows_policy ?P (sy_drawer ?s3)" using d(1) shows_load_done by simp
  then have "shows_policy (?P\<lparr>q_NodeID := n2\<rparr>) (sy_drawer ?s3)" by (simp add: shows_policy_def)
  then have "sends n2 (sy_drawer ?s3) = Some (?P\<lparr>q_NodeID := n2\<rparr>)"
    using sends_shown [of "?P\<lparr>q_NodeID := n2\<rparr>"] assms(4) w by simp
  then obtain v where v: "submit_payload n2 (sy_drawer ?s3) = Inr v"
      "go_policy_request (stringify v) = Some (?P\<lparr>q_NodeID := n2\<rparr>)"
    using ctl.sends_payload by blast
  obtain k2 where w2': "sy_world ?s2 = (c, k2)" using w2 by (cases "sy_world ?s2") simp
  have known: "ctl_known b envs origin (q_NodeID (?P\<lparr>q_NodeID := n2\<rparr>)) (c, k2)"
    using assms(2) w by (simp add: ctl_known_def)
  have acc: "acceptable (?P\<lparr>q_NodeID := n2\<rparr>)" using assms(5) w by (simp add: acceptable_def)
  obtain y c' where post: "api b ?f ''/api/v1/policy'' (post_json v) (c, k2) = (Inr y, (c', Suc k2))"
    "\<forall>n. policy_of n (store c') = (if n = n2 then accepted (?P\<lparr>q_NodeID := n2\<rparr>) else policy_of n (store c))"
    using ctl_post_policy [OF known v(2) acc, of others] by auto
  have "click b ?f [] SubmitPolicy ?s3 = ask b ?f (C_Submit n2 v) ?s3" using d(3) v(1) by (simp add: click_def)
  then show ?thesis
    using d shown post w2' w by (simp add: Let_def ctl_policy_def accepted_def)
qed

theorem late_answer_moves_policy_witness:
  "sy_node (click ex_browser ex_fetch [] SubmitPolicy (deliver ex_browser ex_fetch 0 (deliver ex_browser ex_fetch 3
     (open_node ex_browser ex_fetch ''n2'' (close_node (open_node ex_browser ex_fetch ''n1'' (system_init ex_world))))))) = Some ''n2''"
proof -
  have p: "ctl_policy ''n1'' ex_world = \<lparr>q_NodeID = ''n1'', q_EgressPeer = [], q_PolicyRules = [],
      q_DefaultRoute = False, q_BypassCIDRs = [], q_DefaultRouteNextHop = []\<rparr>"
    by (simp add: ctl_policy_def policy_of_def ex_world_def ex_nodes ex_node_def node_zero_def)
  have "sy_world (system_init ex_world) = ex_world" "sy_pending (system_init ex_world) = []"
    by (simp_all add: system_init_def)
  then show ?thesis
    using late_answer_moves_policy [of ex_browser "\<lambda>_. ex_env" "''http://c''" "''n1''" "system_init ex_world" "''n2''" "\<lambda>_. None"]
      ex_known p by (simp add: Let_def clean_items_def acceptable_def)
qed

end
