(* ===== verification/Status_Flow.thy ===== *)
theory Status_Flow
  imports View_Session Example
begin

text \<open>
  The state of the mesh and the diagnosis of a node, from the store to what the page shows.
\<close>

section \<open>The mesh\<close>

lemma length_mesh_pairs: "length (mesh_pairs xs) = length xs * (length xs - 1) div 2"
proof -
  have "2 * length (mesh_pairs xs) = length xs * (length xs - 1)"
  proof (induction xs)
    case (Cons x xs)
    have "length xs \<le> length xs * length xs" by (rule le_square)
    with Cons show ?case by (simp add: algebra_simps diff_mult_distrib2)
  qed simp
  then show ?thesis by simp
qed

text \<open>The loss the reports give for a pair: from its first node, else from the second.\<close>

definition loss_between :: "(string \<times> health_report) list \<Rightarrow> node \<Rightarrow> node \<Rightarrow> rat option" where
  "loss_between reports a b =
     (case probe reports (n_ID a) (ipWithoutMask (n_OverlayIP b)) of
        Some (_, loss, _) \<Rightarrow> Some loss
      | None \<Rightarrow> map_option (\<lambda>(_, loss, _). loss) (probe reports (n_ID b) (ipWithoutMask (n_OverlayIP a))))"

definition connected :: "(string \<times> health_report) list \<Rightarrow> node \<Rightarrow> node \<Rightarrow> bool" where
  "connected reports a b \<longleftrightarrow> n_Endpoints a \<noteq> [] \<and> n_Endpoints b \<noteq> []
     \<and> (\<exists>loss. loss_between reports a b = Some loss \<and> loss < 100)"

lemma link_status_simps [simp]:
  "lk_From (link_status_of reports a b) = n_ID a" "lk_To (link_status_of reports a b) = n_ID b"
  "lk_OK (link_status_of reports a b) \<longleftrightarrow> connected reports a b"
  by (auto simp: link_status_of_def Let_def connected_def loss_between_def split: option.split)

lemma json_link_simps [simp]:
  "js_oget ''from'' (json_link_status l) = Str (lk_From l)" "js_oget ''to'' (json_link_status l) = Str (lk_To l)"
  "js_oget ''ok'' (json_link_status l) = Boolean (lk_OK l)" "item_shape (json_link_status l)"
  "\<exists>ps. json_link_status l = Obj ps"
  by (auto simp: json_link_status_def item_shape_def omit_defs omit_rat_def)

lemma json_node_shape [simp]: "item_shape (json_node_status n)"
  by (auto simp: json_node_status_def item_shape_def omit_defs split: option.split)

lemma mesh_answer:
  assumes "authFuncJWT e rq"
  obtains ns where "rs_json (fst (mesh_route e q rq c)) = Inr (json_mesh ns
      (buildLinkStatuses (ListNodes (store c)) (ListHealth (store c))) (diagIntervalSeconds e (store c)))"
    and "fst (mesh_route e q rq c) = writeJSON (json_mesh ns
      (buildLinkStatuses (ListNodes (store c)) (ListHealth (store c))) (diagIntervalSeconds e (store c)))"
  using assms that by (simp add: mesh_route_def case_prod_unfold Let_def writeJSON_def)

lemma json_mesh_shape: "mesh_shape (json_mesh ns ls k)"
  by (auto simp: mesh_shape_def json_mesh_def js_list_def)

text \<open>C18. The status page lists the broken pairs: the mesh answer has one link for each pair of
  nodes, and the page, which always renders it, lists exactly the pairs where a node has no
  endpoint or the last reports give no loss below 100 percent, looking first at the report of
  the earlier node and then at that of the other.\<close>

theorem status_page_lists_broken_pairs:
  assumes "authFuncJWT e rq" and "ListNodes (store c) = ns"
  shows "\<exists>v ls down. rs_json (fst (mesh_route e q rq c)) = Inr v
    \<and> js_or (js_oget ''links'' v) (Arr []) = Arr ls \<and> length ls = length ns * (length ns - 1) div 2
    \<and> renders (MeshStatus f v) \<and> not_ok ls = Inr down
    \<and> map (\<lambda>d. (js_oget ''from'' d, js_oget ''to'' d)) down =
        map (\<lambda>(a, b). (Str (n_ID a), Str (n_ID b)))
          (filter (\<lambda>(a, b). \<not> connected (health_by_node (ListHealth (store c))) a b) (mesh_pairs ns))"
proof -
  let ?hs = "health_by_node (ListHealth (store c))"
  let ?ls = "map (\<lambda>(a, b). json_link_status (link_status_of ?hs a b)) (mesh_pairs ns)"
  let ?down = "filter (\<lambda>l. \<not> truthy (js_oget ''ok'' l)) ?ls"
  obtain nst where v: "rs_json (fst (mesh_route e q rq c)) = Inr (json_mesh nst
      (buildLinkStatuses ns (ListHealth (store c))) (diagIntervalSeconds e (store c)))"
    using mesh_answer [OF assms(1), of q c] assms(2) by metis
  let ?v = "json_mesh nst (buildLinkStatuses ns (ListHealth (store c))) (diagIntervalSeconds e (store c))"
  have ls: "js_or (js_oget ''links'' ?v) (Arr []) = Arr ?ls"
    by (simp add: json_mesh_def buildLinkStatuses_def js_list_def comp_def case_prod_unfold)
  have "\<forall>l\<in>set ?ls. \<exists>ps. l = Obj ps" by auto
  from not_ok_objects [OF this] have "not_ok ?ls = Inr ?down" .
  moreover have "map (\<lambda>d. (js_oget ''from'' d, js_oget ''to'' d)) ?down =
      map (\<lambda>(a, b). (Str (n_ID a), Str (n_ID b))) (filter (\<lambda>(a, b). \<not> connected ?hs a b) (mesh_pairs ns))"
    by (simp add: filter_map comp_def case_prod_unfold)
  moreover have "renders (MeshStatus f ?v)" by (rule renders_MeshStatus [OF json_mesh_shape])
  ultimately show ?thesis using v ls by (auto simp: length_mesh_pairs)
qed

theorem status_page_lists_broken_pairs_witness:
  "\<exists>v ls down. rs_json (fst (mesh_route ex_env [] \<lparr>rq_url = [], rq_method = ''GET'', rq_headers = ex_headers,
        rq_body = None\<rparr> ex_ctl)) = Inr v
    \<and> js_or (js_oget ''links'' v) (Arr []) = Arr ls \<and> length ls = 3 \<and> not_ok ls = Inr down
    \<and> map (\<lambda>d. (js_oget ''from'' d, js_oget ''to'' d)) down =
        [(Str ''n1'', Str ''n2''), (Str ''n1'', Str ''n3''), (Str ''n2'', Str ''n3'')]"
proof -
  let ?rq = "\<lparr>rq_url = [], rq_method = ''GET'', rq_headers = ex_headers, rq_body = None\<rparr>"
  have ids: "map n_ID (ListNodes (store ex_ctl)) = [''n1'', ''n2'', ''n3'']" and noh: "ListHealth (store ex_ctl) = []"
    by (simp_all add: ex_world_def ex_store_def ListNodes_def ListHealth_def UpsertNode_def ex_node_def
        node_zero_def NewMemoryStore_def Let_def)
  then obtain a b d where ns: "ListNodes (store ex_ctl) = [a, b, d]"
    "n_ID a = ''n1''" "n_ID b = ''n2''" "n_ID d = ''n3''" by (auto simp: map_eq_Cons_conv)
  have none: "\<not> connected (health_by_node (ListHealth (store ex_ctl))) x y" for x y
    by (simp add: noh health_by_node_def connected_def loss_between_def probe_def)
  from status_page_lists_broken_pairs [where e = ex_env and rq = ?rq and c = ex_ctl and q = "[]"
      and f = "\<lambda>_. ()", OF ex_jwt ns(1)] show ?thesis
    by (auto simp: none ns(2-4) numeral_3_eq_3)
qed

text \<open>The location of a node on the equator or on the prime meridian does not reach the page.\<close>

theorem zero_coordinate_is_no_location:
  assumes "geo_Lat g = 0 \<or> geo_Lng g = 0"
  shows "\<not> has_location (mesh_node_of (json_node_status \<lparr>ns_ID = i, ns_OverlayIP = ip, ns_Location = Some g\<rparr>))"
  using assms
  by (auto simp: has_location_def mesh_node_of_def json_node_status_def json_geo_def omit_defs omit_rat_def)

section \<open>The diagnosis\<close>

text \<open>What the last report of the node says about a peer.\<close>

definition peer_loss :: "health_report \<Rightarrow> peer \<Rightarrow> rat option" where
  "peer_loss h p =
     map_option (\<lambda>(_, loss, _). loss) (probe [(h_NodeID h, h)] (h_NodeID h) (ipWithoutMask (hd (p_AllowedIPs p))))"

lemma probe_peers_routed:
  assumes "\<forall>p\<in>set ps. routed p"
  obtains missing blocked where "probe_peers h ps = Some (missing, blocked)"
    and "missing \<noteq> [] \<longleftrightarrow> (\<exists>p\<in>set ps. peer_loss h p = None)"
    and "blocked \<noteq> [] \<longleftrightarrow> (\<exists>p\<in>set ps. \<exists>loss. peer_loss h p = Some loss \<and> 100 \<le> loss)"
proof -
  have "\<exists>missing blocked. probe_peers h ps = Some (missing, blocked)
      \<and> (missing \<noteq> [] \<longleftrightarrow> (\<exists>p\<in>set ps. peer_loss h p = None))
      \<and> (blocked \<noteq> [] \<longleftrightarrow> (\<exists>p\<in>set ps. \<exists>loss. peer_loss h p = Some loss \<and> 100 \<le> loss))"
    using assms
  proof (induction ps)
    case (Cons p ps)
    then obtain missing blocked where IH: "probe_peers h ps = Some (missing, blocked)"
      "missing \<noteq> [] \<longleftrightarrow> (\<exists>p\<in>set ps. peer_loss h p = None)"
      "blocked \<noteq> [] \<longleftrightarrow> (\<exists>p\<in>set ps. \<exists>loss. peer_loss h p = Some loss \<and> 100 \<le> loss)" by auto
    from Cons.prems obtain ip ips where ip: "p_AllowedIPs p = ip # ips"
      by (cases "p_AllowedIPs p") (auto simp: routed_def)
    show ?case
    proof (cases "probe [(h_NodeID h, h)] (h_NodeID h) (ipWithoutMask ip)")
      case None
      then have "peer_loss h p = None" by (simp add: peer_loss_def ip)
      with IH None ip show ?thesis by auto
    next
      case (Some r)
      obtain ms loss x where r: "r = (ms, loss, x)" by (cases r)
      with Some have "peer_loss h p = Some loss" by (simp add: peer_loss_def ip)
      with IH Some ip r show ?thesis by auto
    qed
  qed simp
  then show ?thesis using that by blast
qed

lemma plan_peers_routed:
  "plans_routed m \<Longrightarrow> \<forall>p\<in>set (case GetPlan nid m of None \<Rightarrow> [] | Some p \<Rightarrow> pl_Peers p). routed p"
  by (cases "GetPlan nid m") (auto simp: plans_routed_def plan_routed_def)

definition unestablished :: "health_report \<Rightarrow> bool" where
  "unestablished h \<longleftrightarrow> (\<exists>(nbr, st)\<in>set (h_FRRState h). ToLower st \<noteq> ''established'')"

lemma result_severity [simp]: "dr_Severity (result c s d) = s"
  by (simp add: result_def)

definition severities :: "diagnose_result list \<Rightarrow> string set" where
  "severities rs = dr_Severity ` set rs"

lemma severities_simps [simp]:
  "severities [] = {}" "severities (r # rs) = insert (dr_Severity r) (severities rs)"
  "severities (rs @ rs') = severities rs \<union> severities rs'"
  by (auto simp: severities_def)

lemma highestSeverity_severities:
  "highestSeverity rs = (if ''fail'' \<in> severities rs then dg_sum_fail
     else if ''warn'' \<in> severities rs then dg_sum_warn else dg_sum_ok)"
proof -
  have "x \<in> severities rs \<longleftrightarrow> (\<exists>r\<in>set rs. dr_Severity r = x)" for x
    by (auto simp: severities_def image_iff)
  then show ?thesis by (simp only: highestSeverity_worst)
qed

lemma check_frr_severities:
  "severities (check_frr h) = (if h_FRRState h = [] then {} else if unestablished h then {''warn''} else {''ok''})"
proof -
  let ?bad = "filter (\<lambda>(nbr, st). ToLower st \<noteq> ''established'') (h_FRRState h)"
  have "?bad \<noteq> [] \<longleftrightarrow> unestablished h" by (simp add: unestablished_def filter_empty_conv case_prod_unfold)
  then show ?thesis by (simp add: check_frr_def)
qed

lemma unestablished_Nil: "h_FRRState h = [] \<Longrightarrow> \<not> unestablished h"
  by (simp add: unestablished_def)

lemma check_severities:
  "dr_Severity (check_endpoints n) = (if n_Endpoints n = [] then ''warn'' else ''ok'')"
  "dr_Severity (check_heartbeat e m h) = (if staleThreshold e m < e_now e - h_Timestamp h then ''warn'' else ''ok'')"
  by (simp_all add: check_endpoints_def check_heartbeat_def Let_def)

lemma check_peers_routed:
  assumes "\<forall>p\<in>set ps. routed p"
  obtains rs where "check_peers h ps = Some rs"
    and "''fail'' \<in> severities rs \<longleftrightarrow> (\<exists>p\<in>set ps. \<exists>loss. peer_loss h p = Some loss \<and> 100 \<le> loss)"
    and "''warn'' \<in> severities rs \<longleftrightarrow> ps = [] \<or> (\<exists>p\<in>set ps. peer_loss h p = None)"
proof (cases "ps = []")
  case True
  then show ?thesis using that by (simp add: check_peers_def)
next
  case False
  obtain missing blocked where p: "probe_peers h ps = Some (missing, blocked)"
    "missing \<noteq> [] \<longleftrightarrow> (\<exists>p\<in>set ps. peer_loss h p = None)"
    "blocked \<noteq> [] \<longleftrightarrow> (\<exists>p\<in>set ps. \<exists>loss. peer_loss h p = Some loss \<and> 100 \<le> loss)"
    using probe_peers_routed [OF assms] by blast
  define rs where "rs = (if blocked \<noteq> [] then [result dg_wg_firewall ''fail'' (dg_blocked @ join '', '' blocked)] else [])
      @ [if missing \<noteq> [] then result dg_wg_link ''warn'' (dg_missing @ join '', '' missing)
         else result dg_wg_link ''ok'' dg_wg_ok]"
  have "check_peers h ps = Some rs" using False p(1) by (simp add: check_peers_def rs_def)
  moreover have "''fail'' \<in> severities rs \<longleftrightarrow> blocked \<noteq> []" "''warn'' \<in> severities rs \<longleftrightarrow> missing \<noteq> []"
    by (simp_all add: rs_def)
  ultimately show ?thesis using that [of rs] False unfolding p(2,3) by blast
qed

lemma diagnoseNode_verdict:
  assumes "plans_routed m" and "GetNode nid m = Some n" and "find (\<lambda>h. h_NodeID h = nid) (ListHealth m) = Some h"
    and "(case GetPlan nid m of None \<Rightarrow> [] | Some p \<Rightarrow> pl_Peers p) = ps"
  shows "\<exists>d. diagnoseNode e nid m = Some d \<and> dn_Summary d =
     (if \<exists>p\<in>set ps. \<exists>loss. peer_loss h p = Some loss \<and> 100 \<le> loss then dg_sum_fail
      else if staleThreshold e m < e_now e - h_Timestamp h \<or> n_Endpoints n = [] \<or> ps = []
        \<or> (\<exists>p\<in>set ps. peer_loss h p = None) \<or> unestablished h then dg_sum_warn
      else dg_sum_ok)"
proof -
  obtain rs where rs: "check_peers h ps = Some rs"
    "''fail'' \<in> severities rs \<longleftrightarrow> (\<exists>p\<in>set ps. \<exists>loss. peer_loss h p = Some loss \<and> 100 \<le> loss)"
    "''warn'' \<in> severities rs \<longleftrightarrow> ps = [] \<or> (\<exists>p\<in>set ps. peer_loss h p = None)"
    using plan_peers_routed [OF assms(1), of nid] unfolding assms(4) by (rule check_peers_routed)
  let ?rs = "[check_heartbeat e m h, check_endpoints n] @ rs @ check_frr h"
  have "''fail'' \<in> severities ?rs \<longleftrightarrow> ''fail'' \<in> severities rs"
    "''warn'' \<in> severities ?rs \<longleftrightarrow> staleThreshold e m < e_now e - h_Timestamp h \<or> n_Endpoints n = []
      \<or> ''warn'' \<in> severities rs \<or> unestablished h"
    using unestablished_Nil [of h] by (auto simp: check_severities check_frr_severities)
  then have "highestSeverity ?rs =
     (if \<exists>p\<in>set ps. \<exists>loss. peer_loss h p = Some loss \<and> 100 \<le> loss then dg_sum_fail
      else if staleThreshold e m < e_now e - h_Timestamp h \<or> n_Endpoints n = [] \<or> ps = []
        \<or> (\<exists>p\<in>set ps. peer_loss h p = None) \<or> unestablished h then dg_sum_warn
      else dg_sum_ok)"
    by (simp only: highestSeverity_severities rs(2,3) disj_assoc)
  moreover have "diagnoseNode e nid m = Some \<lparr>dn_NodeID = nid, dn_Summary = highestSeverity ?rs, dn_Results = ?rs,
      dn_Timestamp = e_now e\<rparr>"
    using assms(2-4) rs(1) by (simp add: diagnoseNode_def Let_def)
  ultimately show ?thesis by simp
qed

text \<open>C17. What a diagnosis concludes: for a node with a health report, in any store whose plans
  come from \<open>BuildPeerPlan\<close>, the diagnosis does not panic; it finds an error exactly when the
  last report gives a loss of 100 percent for a peer of the plan, else a warning exactly when the
  report is late, the node has no endpoint, the plan has no peer or one without a latency, or
  a BGP neighbour is not established, and else reports that the checks passed.\<close>

theorem diagnosis_verdict:
  assumes "plans_routed m" and "GetNode nid m = Some n" and "find (\<lambda>h. h_NodeID h = nid) (ListHealth m) = Some h"
    and "(case GetPlan nid m of None \<Rightarrow> [] | Some p \<Rightarrow> pl_Peers p) = ps"
  shows "\<exists>d. diagnoseNode e nid m = Some d \<and> dn_Summary d =
     (if \<exists>p\<in>set ps. \<exists>loss. peer_loss h p = Some loss \<and> 100 \<le> loss then dg_sum_fail
      else if staleThreshold e m < e_now e - h_Timestamp h \<or> n_Endpoints n = [] \<or> ps = []
        \<or> (\<exists>p\<in>set ps. peer_loss h p = None) \<or> unestablished h then dg_sum_warn
      else dg_sum_ok)"
  by (rule diagnoseNode_verdict [OF assms])

theorem diagnosis_verdict_witness:
  "let h = \<lparr>h_NodeID = ''n1'', h_Status = ''up'', h_LatencyMs = [(''10.10.2.1'', 9)], h_PacketLoss = [(''10.10.2.1'', 100)],
         h_FRRState = [], h_Timestamp = 0\<rparr>;
       p = \<lparr>p_ID = ''n2'', p_PublicKey = ''k'', p_Endpoint = [], p_AllowedIPs = [''10.10.2.1/32''], p_Keepalive = 25\<rparr>;
       m = SavePlan (new_plan ex_env (ex_node ''n1'') [p] [] 1) (SaveHealth 0 h (snd (UpsertNode (ex_node ''n1'') NewMemoryStore)))
   in map_option dn_Summary (diagnoseNode ex_env ''n1'' m) = Some dg_sum_fail"
proof -
  let ?h = "\<lparr>h_NodeID = ''n1'', h_Status = ''up'', h_LatencyMs = [(''10.10.2.1'', 9)], h_PacketLoss = [(''10.10.2.1'', 100)],
         h_FRRState = [], h_Timestamp = 0\<rparr>"
  let ?p = "\<lparr>p_ID = ''n2'', p_PublicKey = ''k'', p_Endpoint = [], p_AllowedIPs = [''10.10.2.1/32''], p_Keepalive = 25\<rparr>"
  let ?m0 = "SaveHealth 0 ?h (snd (UpsertNode (ex_node ''n1'') NewMemoryStore))"
  let ?plan = "new_plan ex_env (ex_node ''n1'') [?p] [] 1"
  let ?m = "SavePlan ?plan ?m0"
  have nid: "n_ID (ex_node ''n1'') = ''n1''" by (simp add: ex_node_def)
  have routed: "plans_routed ?m"
    by (rule SavePlan_routed [OF routing.health [OF routing.upsert [OF plans_routed_init]]])
      (simp add: plan_routed_def routed_def)
  have node: "GetNode ''n1'' ?m \<noteq> None"
    by (simp add: SavePlan_def SaveHealth_def UpsertNode_def GetNode_def NewMemoryStore_def ex_node_def Let_def)
  have report: "find (\<lambda>h. h_NodeID h = ''n1'') (ListHealth ?m) = Some ?h"
    by (simp add: SavePlan_def SaveHealth_def UpsertNode_def ListHealth_def NewMemoryStore_def Let_def)
  have plan: "(case GetPlan ''n1'' ?m of None \<Rightarrow> [] | Some p \<Rightarrow> pl_Peers p) = [?p]"
    by (simp add: SavePlan_def GetPlan_def nid Let_def)
  have "ipWithoutMask ''10.10.2.1/32'' = ''10.10.2.1''" by (simp add: ipWithoutMask_def)
  then have "peer_loss ?h ?p = Some 100" by (simp add: peer_loss_def probe_def)
  then show ?thesis
    using diagnosis_verdict [OF routed _ report plan, of _ ex_env] node by (auto simp: Let_def)
qed

text \<open>Requests to the controller, one after the other.\<close>

fun serve_run :: "(env \<times> string \<times> request) list \<Rightarrow> controller \<Rightarrow> controller" where
  "serve_run [] c = c"
| "serve_run ((e, target, rq) # rqs) c = serve_run rqs (snd (serve (\<lambda>_. None) e target rq c))"

lemma diagnoseNode_answers: "plans_routed m \<Longrightarrow> \<exists>d. diagnoseNode e nid m = Some d"
proof -
  assume m: "plans_routed m"
  show ?thesis
  proof (cases "GetNode nid m")
    case (Some n)
    show ?thesis
    proof (cases "find (\<lambda>h. h_NodeID h = nid) (ListHealth m)")
      case None
      with Some show ?thesis by (simp add: diagnoseNode_def)
    next
      case (Some h)
      with diagnoseNode_verdict [OF m \<open>GetNode nid m = Some n\<close> this refl] show ?thesis by blast
    qed
  qed (simp add: diagnoseNode_def)
qed

text \<open>C20. A diagnosis never panics: after whatever requests to a controller with a fresh store, a
  request for a diagnosis is answered, because every peer of a stored plan has a network, so
  \<open>AllowedIPs[0]\<close> exists.\<close>

theorem diagnosis_never_panics:
  assumes "store c = NewMemoryStore"
  shows "fst (diagnose_route e q rq (serve_run rqs c)) \<noteq> no_answer"
proof -
  have "plans_routed (store (serve_run rqs c))" if "plans_routed (store c)" for c
    using that by (induction rqs c rule: serve_run.induct) (simp_all add: routing.serve_keeps)
  then have m: "plans_routed (store (serve_run rqs c))" using assms plans_routed_init by metis
  obtain d where d: "diagnoseNode e (query_get q ''nodeId'') (store (serve_run rqs c)) = Some d"
    using diagnoseNode_answers [OF m] by blast
  have "rs_status (fst (diagnose_route e q rq (serve_run rqs c))) \<noteq> 0"
    by (simp add: diagnose_route_def guarded_def d method_not_allowed_def writeJSON_def Let_def)
  then show ?thesis by (auto simp: no_answer_def)
qed

theorem diagnosis_never_panics_witness:
  "fst (diagnose_route ex_env ''nodeId=n1'' \<lparr>rq_url = [], rq_method = ''GET'', rq_headers = ex_headers, rq_body = None\<rparr>
     (serve_run [(ex_env, ''/api/v1/health'', \<lparr>rq_url = [], rq_method = ''POST'', rq_headers = ex_headers,
        rq_body = Some (Obj [(''nodeId'', Str ''n1'')])\<rparr>)]
       (ex_ctl\<lparr>store := NewMemoryStore\<rparr>))) \<noteq> no_answer"
  by (rule diagnosis_never_panics) simp

end
