(* ===== verification/Admin_Flow.thy ===== *)
theory Admin_Flow
  imports Page_System Drawer_Flow Status_Flow
begin

text \<open>
  The page against the controller: the answers of the routes the page reads have the shapes it
  needs, so the page always renders; and what happens when it talks to something else.
\<close>

section \<open>Shapes of the answers\<close>

lemma answer_of_route:
  assumes "strip_slashes (storage_base b) = origin" and "cut (CHR ''?'') path = (p, q)"
    and "map_of routes p = Some h"
    and "\<And>e c v. api_result path (fst (h e q (api_request b path get_options) c)) = Inr v \<Longrightarrow> P v"
  shows "\<forall>v. fst (api b (controller_fetch others envs origin) path get_options w) = Inr v \<longrightarrow> P v"
proof -
  have base: "opt_base get_options = []" by (simp add: get_options_def)
  show ?thesis
    using assms(4) [of "envs (snd w)" "fst w"] unfolding api_routed [OF assms(1) base assms(2,3)] by blast
qed

lemma api_result_refused [simp]: "400 \<le> code \<Longrightarrow> api_result path (http_error msg code) \<noteq> Inr v"
  using api_result_error [of code path msg] by auto

lemma api_result_none [simp]: "api_result path no_answer \<noteq> Inr v"
  by (simp add: api_result_def no_answer_def response_ok_def)

lemma api_result_405 [simp]: "api_result path method_not_allowed \<noteq> Inr v"
  by (simp add: method_not_allowed_def)

lemma info_answer: "api_result path (fst (info_route e q rq c)) = Inr v \<Longrightarrow> info_shape v"
  by (auto simp: info_route_def info_shape_def)

lemma json_entry: "entry_shape (json_node n)"
  by (simp add: entry_shape_def json_node_def object_of_def omit_defs js_list_def)

lemma nodes_answer: "api_result path (fst (nodes_route e q rq c)) = Inr v \<Longrightarrow> entries_shape v"
  by (auto simp: nodes_route_def guarded_def entries_shape_def js_array_def json_entry split: if_splits)

lemma mesh_answer_shape: "api_result path (fst (mesh_route e q rq c)) = Inr v \<Longrightarrow> mesh_shape v"
  by (auto simp: mesh_route_def case_prod_unfold Let_def json_mesh_shape split: if_splits)

lemma plain_values: "(\<And>x. plain (f x)) \<Longrightarrow> plain (js_lookup k (map (map_prod (\<lambda>x. x) f) m))"
proof (induction m)
  case (Cons a m)
  then show ?case by (cases a) simp
qed simp

lemma json_report: "report_shape (json_health e h)"
  by (auto simp: report_shape_def json_health_def omit_obj_def plain_values)

lemma history_answer: "api_result path (fst (health_history_route e q rq c)) = Inr v \<Longrightarrow> history_shape v"
  by (auto simp: health_history_route_def guarded_def history_shape_def js_array_def json_report Let_def split: if_splits)

lemma json_result_shape: "result_shape (json_result r)"
  by (simp add: result_shape_def json_result_def object_of_def)

lemma diagnose_answer: "api_result path (fst (diagnose_route e q rq c)) = Inr v \<Longrightarrow> diagnosis_shape v"
  by (auto simp: diagnose_route_def guarded_def diagnosis_shape_def json_diagnosis_def json_result_shape Let_def
      split: if_splits option.splits)

lemma page_cuts:
  "cut (CHR ''?'') (history_path n) = (''/api/v1/health/history'', setting ''nodeId'' n @ ''&hours=24'')"
  "cut (CHR ''?'') (diagnose_path n) = (''/api/v1/diagnose'', setting ''nodeId'' n)"
  "cut (CHR ''?'') ''/api/v1/info'' = (''/api/v1/info'', [])"
  "cut (CHR ''?'') ''/api/v1/nodes'' = (''/api/v1/nodes'', [])"
  "cut (CHR ''?'') ''/api/v1/status/mesh'' = (''/api/v1/status/mesh'', [])"
  using cut_path [of "''/api/v1/health/history''" "setting ''nodeId'' n @ ''&hours=24''"]
    cut_path [of "''/api/v1/diagnose''" "setting ''nodeId'' n"]
  by (simp_all add: history_path_def diagnose_path_def)

lemma page_routes:
  "map_of routes ''/api/v1/health/history'' = Some health_history_route"
  "map_of routes ''/api/v1/diagnose'' = Some diagnose_route"
  "map_of routes ''/api/v1/info'' = Some info_route"
  "map_of routes ''/api/v1/nodes'' = Some nodes_route"
  "map_of routes ''/api/v1/status/mesh'' = Some mesh_route"
  by (simp_all add: routes_def)

lemma controller_page_answers:
  assumes "strip_slashes (storage_base b) = origin"
  shows "page_answer c (fst (api b (controller_fetch others envs origin) (page_path c) (page_options c) w))"
proof (cases c)
  case (P_Status k)
  then show ?thesis
    by (simp only: page_path.simps page_options.simps page_answer.simps)
      (rule answer_of_route [OF assms page_cuts(3) page_routes(3) info_answer])
next
  case (P_Nodes k)
  then show ?thesis
    by (simp only: page_path.simps page_options.simps page_answer.simps)
      (rule answer_of_route [OF assms page_cuts(4) page_routes(4) nodes_answer])
next
  case (P_Mesh k)
  then show ?thesis
    by (simp only: page_path.simps page_options.simps page_answer.simps)
      (rule answer_of_route [OF assms page_cuts(5) page_routes(5) mesh_answer_shape])
next
  case (P_History n)
  then show ?thesis
    by (simp only: page_path.simps page_options.simps page_answer.simps)
      (rule answer_of_route [OF assms page_cuts(1) page_routes(1) history_answer])
next
  case (P_Diagnose n)
  then show ?thesis
    by (simp only: page_path.simps page_options.simps page_answer.simps)
      (rule answer_of_route [OF assms page_cuts(2) page_routes(2) diagnose_answer])
qed simp_all

interpretation home: page_backend "controller_fetch others envs origin" "\<lambda>b. strip_slashes (storage_base b) = origin" other
  for others envs origin other
proof (rule page_backend.intro)
  fix b :: browser
  assume home: "strip_slashes (storage_base b) = origin"
  show "drawer_backend b (controller_fetch others envs origin) other (\<lambda>_. True)"
  proof
    fix w c r w'
    assume "api b (controller_fetch others envs origin) (call_path c) (call_options c) w = (r, w')"
    then show "answer_shape c r \<and> True" using controller_answers [OF home, of c others envs w] by simp
  qed simp
  show "page_answer c (fst (api b (controller_fetch others envs origin) (page_path c) (page_options c) w))" for c w
    by (rule controller_page_answers [OF home])
  show "strip_slashes (storage_base (set_storage_token t b)) = origin" for t using home by simp
qed

section \<open>Properties\<close>


lemma page_ask_simps [simp]:
  "pg_browser (page_ask fetch c pg) = pg_browser pg" "pg_admin (page_ask fetch c pg) = pg_admin pg"
  "pg_status (page_ask fetch c pg) = pg_status pg" "pg_nodes (page_ask fetch c pg) = pg_nodes pg"
  "pg_mesh (page_ask fetch c pg) = pg_mesh pg"
  "pg_calls (page_ask fetch c pg) = pg_calls pg @
     [(c, fst (api (pg_browser pg) fetch (page_path c) (page_options c) (sy_world (pg_policy pg))))]"
  "sy_world (pg_policy (page_ask fetch c pg)) =
     snd (api (pg_browser pg) fetch (page_path c) (page_options c) (sy_world (pg_policy pg)))"
  by (simp_all add: page_ask_def case_prod_unfold Let_def)

text \<open>The page starts with one call of each hook.\<close>

lemma first_render:
  "map fst (pg_calls (page_render fetch (page_init b w))) = [P_Status 0, P_Nodes 0, P_Mesh 0]"
  "snd (pg_calls (page_render fetch (page_init b w)) ! 1) =
     fst (api b fetch ''/api/v1/nodes'' get_options (snd (api b fetch ''/api/v1/info'' get_options w)))"
  "length (pg_calls (page_render fetch (page_init b w))) = 3"
  by (simp_all add: page_render_def page_init_def Let_def run_status_def run_nodes_def run_mesh_def
      async_init_def async_run_def system_init_def)


text \<open>A wrong API base takes the page down for good: the controller answers any path it does not
  know with its banner and status 200, and the page takes that text for its nodes.  When the
  stored base has a path behind the controller's origin, the page throws as soon as the answer
  for the nodes arrives; since the base is kept in the browser, loading the page again ends the
  same way.\<close>

theorem wrong_base_crashes_page:
  assumes "strip_slashes (storage_base b) = origin @ path" and "CHR ''?'' \<notin> set path"
    and "map_of routes (path @ ''/api/v1/nodes'') = None" "others (path @ ''/api/v1/nodes'') = None"
    and "storage_token b \<noteq> []"
  shows "\<not> renders (App t date_ms (app_mount b)
      (page_deliver (controller_fetch others envs origin) merge clip 1
        (page_render (controller_fetch others envs origin) (page_init b w))))"
proof -
  let ?f = "controller_fetch others envs origin"
  let ?p1 = "page_render ?f (page_init b w)"
  have "rq_url (api_request b ''/api/v1/nodes'' get_options) = origin @ path @ ''/api/v1/nodes''"
    using assms(1) api_url [of get_options b "''/api/v1/nodes''"] by (simp add: get_options_def)
  moreover have "cut (CHR ''?'') (path @ ''/api/v1/nodes'') = (path @ ''/api/v1/nodes'', [])"
    using assms(2) by (intro cut_none) simp
  ultimately have "fst (api b ?f ''/api/v1/nodes'' get_options x) = api_result ''/api/v1/nodes'' banner" for x
    using assms(3,4) by (simp add: api_def controller_fetch_def serve_def case_prod_unfold Let_def)
  moreover have "api_result ''/api/v1/nodes'' banner = Inr (Str ''peer-wan controller'')"
  proof -
    have "\<not> sublist ''application/json'' ''text/plain; charset=utf-8''" by code_simp
    then show ?thesis by (simp add: api_result_def banner_def response_ok_def)
  qed
  ultimately have "pg_calls ?p1 ! 1 = (P_Nodes 0, Inr (Str ''peer-wan controller''))"
    using first_render [of ?f b w] by (auto simp: length_Suc_conv numeral_3_eq_3)
  then have "as_data (pg_nodes (page_deliver ?f merge clip 1 ?p1)) = Str ''peer-wan controller''"
    by (simp add: page_deliver_def async_settle_data)
  then have "\<not> renders (Admin t date_ms (page_deliver ?f merge clip 1 ?p1))"
    by (simp add: Admin_def Let_def PolicyDrawer_def drawer_props_of_def node_options_def renders_sbind)
  moreover have "ss_view (app_mount b) = AppView" using assms(5) by (simp add: app_mount_def initialView_def)
  ultimately show ?thesis by (simp add: App_def)
qed

theorem wrong_base_crashes_page_witness:
  "\<not> renders (App \<lparr>toLocaleString = elem_string, toLocaleTimeString = elem_string\<rparr> (\<lambda>_. 0)
     (app_mount (ex_browser\<lparr>local_storage := [(''peerwan_base'', ''http://c/api''), (''peerwan_token'', ''jwt'')]\<rparr>))
     (page_deliver ex_fetch (\<lambda>_ v. v) True 1 (page_render ex_fetch
       (page_init (ex_browser\<lparr>local_storage := [(''peerwan_base'', ''http://c/api''), (''peerwan_token'', ''jwt'')]\<rparr>)
         ex_world))))"
proof -
  let ?b = "ex_browser\<lparr>local_storage := [(''peerwan_base'', ''http://c/api''), (''peerwan_token'', ''jwt'')]\<rparr>"
  have base: "strip_slashes (storage_base ?b) = ''http://c'' @ ''/api''"
    by (simp add: storage_defs str_or_def strip_slashes_def)
  have token: "storage_token ?b \<noteq> []" by (simp add: storage_defs str_or_def)
  have none: "map_of routes (''/api'' @ ''/api/v1/nodes'') = None" by (simp add: routes_def)
  have "CHR ''?'' \<notin> set ''/api''" by code_simp
  from wrong_base_crashes_page [OF base this none refl token] show ?thesis .
qed

end
