(* ===== verification/Session_Flow.thy ===== *)
theory Session_Flow
  imports View_Session Example
begin

text \<open>
  Signing in against the controller: the forms of \<open>Login.jsx\<close> and \<open>Register.jsx\<close>
  and the user table of \<open>pkg/api/auth.go\<close>.
\<close>

text \<open>The whole handlers, with the request in between.\<close>

definition login_submit :: "'w fetch \<Rightarrow> credentials \<Rightarrow> session \<Rightarrow> 'w \<Rightarrow> session \<times> 'w" where
  "login_submit fetch values s w =
     (let (r, w') = fetch (login_request values) w
      in (login_finish (strip_slashes (cr_base values)) r (auth_start values s), w'))"

definition register_submit :: "'w fetch \<Rightarrow> credentials \<Rightarrow> session \<Rightarrow> 'w \<Rightarrow> session \<times> 'w" where
  "register_submit fetch values s w =
     (let (r, w') = fetch (register_request values) w
      in (register_finish (strip_slashes (cr_base values)) r (auth_start values s), w'))"

section \<open>The requests at the controller\<close>

lemma routes_auth:
  "map_of routes ''/api/v1/auth/login'' = Some handleLogin"
  "map_of routes ''/api/v1/auth/register'' = Some handleRegister"
  by (simp_all add: routes_def)

lemma fetch_auth:
  assumes "strip_slashes (cr_base v) = origin"
  shows "controller_fetch others envs origin (login_request v) (c, k) =
      (let (r, c') = handleLogin (envs k) [] (login_request v) c in (Inr r, (c', Suc k)))"
    "controller_fetch others envs origin (register_request v) (c, k) =
      (let (r, c') = handleRegister (envs k) [] (register_request v) c in (Inr r, (c', Suc k)))"
  using assms
  by (simp_all add: controller_fetch_def serve_def login_request_def register_request_def auth_request_def
      routes_auth cut_none)

lemma auth_body:
  assumes "cr_user v \<noteq> []" and "cr_pass v \<noteq> []"
  shows "body go_auth_request (login_request v) = Some \<lparr>ar_Username = cr_user v, ar_Password = cr_pass v\<rparr>"
    "body go_auth_request (register_request v) = Some \<lparr>ar_Username = cr_user v, ar_Password = cr_pass v\<rparr>"
    "rq_method (login_request v) = ''POST''" "rq_method (register_request v) = ''POST''"
  using assms
  by (simp_all add: body_def login_request_def register_request_def auth_request_def go_auth_request_def)

lemma auth_token_simps [simp]:
  "t \<noteq> [] \<Longrightarrow> auth_token m (Inr (writeJSON (json_token t))) = Inr t"
  "400 \<le> code \<Longrightarrow> auth_token m (Inr (http_error msg code)) = Inl (Exn ''Error'' (m @ show_nat code))"
  by (simp_all add: auth_token_def writeJSON_def json_token_def response_ok_def http_error_def)

text \<open>What a refused form leaves: everything but one message.\<close>

definition refused_form :: "session \<Rightarrow> session \<Rightarrow> bool" where
  "refused_form s s' \<longleftrightarrow> ss_view s' = ss_view s \<and> ss_browser s' = ss_browser s
     \<and> (\<exists>msg. ss_toasts s' = ss_toasts s @ [Failure msg])"

lemma auth_finish_Inl:
  "auth_token m r = Inl e \<Longrightarrow> refused_form s (auth_finish m fb base r (auth_start v s))"
  by (simp add: refused_form_def auth_finish_def auth_start_def)

lemma auth_finish_Inr:
  "auth_token m r = Inr t \<Longrightarrow> ss_view (auth_finish m fb base r s) = AppView
     \<and> storage_token (ss_browser (auth_finish m fb base r s)) = t"
  by (simp add: auth_finish_def)

lemma submit_simps:
  assumes "strip_slashes (cr_base v) = origin"
  shows "login_submit (controller_fetch others envs origin) v s (c, k) =
      (login_finish origin (Inr (fst (handleLogin (envs k) [] (login_request v) c))) (auth_start v s),
       (snd (handleLogin (envs k) [] (login_request v) c), Suc k))"
    "register_submit (controller_fetch others envs origin) v s (c, k) =
      (register_finish origin (Inr (fst (handleRegister (envs k) [] (register_request v) c))) (auth_start v s),
       (snd (handleRegister (envs k) [] (register_request v) c), Suc k))"
  using assms by (simp_all add: login_submit_def register_submit_def fetch_auth case_prod_unfold Let_def)

text \<open>A registration while there is a user.\<close>

lemma register_closed:
  assumes "strip_slashes (cr_base v) = origin" and "cr_user v \<noteq> []" "cr_pass v \<noteq> []" and "users c \<noteq> []"
    and "register_submit (controller_fetch others envs origin) v s (c, k) = (s', w')"
  shows "refused_form s s' \<and> fst w' = c"
proof -
  have "handleRegister (envs k) [] (register_request v) c = (http_error ''registration closed'' 403, c)"
    using assms(2-4) by (simp add: handleRegister_def auth_body count_users_def)
  then show ?thesis
    using assms(5) submit_simps(2) [OF assms(1), of others envs s c k]
    by (auto simp: register_finish_def intro!: auth_finish_Inl)
qed

lemma register_first:
  assumes "strip_slashes (cr_base v) = origin" and "cr_user v \<noteq> []" "cr_pass v \<noteq> []" and "users c = []"
    and "e_insertable (envs k) [] (new_user (envs k) \<lparr>ar_Username = cr_user v, ar_Password = cr_pass v\<rparr> c)"
    and "e_sign (envs k) 1 (cr_user v) \<noteq> []"
    and "register_submit (controller_fetch others envs origin) v s (c, k) = (s', w')"
  shows "ss_view s' = AppView \<and> storage_token (ss_browser s') = e_sign (envs k) 1 (cr_user v)
    \<and> fst w' = c\<lparr>users := [new_user (envs k) \<lparr>ar_Username = cr_user v, ar_Password = cr_pass v\<rparr> c]\<rparr>"
proof -
  let ?u = "new_user (envs k) \<lparr>ar_Username = cr_user v, ar_Password = cr_pass v\<rparr> c"
  have "handleRegister (envs k) [] (register_request v) c =
      (writeJSON (json_token (e_sign (envs k) 1 (cr_user v))), c\<lparr>users := [?u]\<rparr>)"
    using assms(2-5) by (simp add: handleRegister_def auth_body count_users_def create_user_def new_user_def Let_def)
  then show ?thesis
    using assms(6,7) submit_simps(2) [OF assms(1), of others envs s c k]
    by (auto simp: register_finish_def auth_finish_Inr)
qed

section \<open>Properties\<close>

text \<open>C16. The first registration is the only one: at a controller without users a registration
  signs the browser in and creates the user; from then on every registration is refused and
  changes neither the browser nor the controller, and the user can sign in with the password
  chosen, from any page, as long as bcrypt takes a password for the one it hashed and the
  table finds a user by its name.\<close>

theorem first_registration_signs_in:
  assumes "strip_slashes (cr_base v) = origin" and "cr_user v \<noteq> []" "cr_pass v \<noteq> []" and "users c = []"
    and "e_insertable (envs k) [] (new_user (envs k) \<lparr>ar_Username = cr_user v, ar_Password = cr_pass v\<rparr> c)"
    and "e_sign (envs k) 1 (cr_user v) \<noteq> []" and "e_hash (envs k) (cr_pass v) = Some hsh"
    and "register_submit (controller_fetch others envs origin) v s (c, k) = (s1, (c1, k1))"
  shows "ss_view s1 = AppView \<and> storage_token (ss_browser s1) = e_sign (envs k) 1 (cr_user v)
    \<and> map u_Username (users c1) = [cr_user v] \<and> store c1 = store c
    \<and> (\<forall>v' s' j. strip_slashes (cr_base v') = origin \<longrightarrow> cr_user v' \<noteq> [] \<longrightarrow> cr_pass v' \<noteq> [] \<longrightarrow>
        refused_form s' (fst (register_submit (controller_fetch others envs origin) v' s' (c1, j)))
        \<and> fst (snd (register_submit (controller_fetch others envs origin) v' s' (c1, j))) = c1)
    \<and> (\<forall>s' j. e_same_name (envs j) (cr_user v) (cr_user v) \<longrightarrow> e_matches (envs j) hsh (cr_pass v) \<longrightarrow>
        e_sign (envs j) 1 (cr_user v) \<noteq> [] \<longrightarrow>
        ss_view (fst (login_submit (controller_fetch others envs origin) v s' (c1, j))) = AppView)"
proof -
  let ?u = "new_user (envs k) \<lparr>ar_Username = cr_user v, ar_Password = cr_pass v\<rparr> c"
  note R = register_first [OF assms(1-6,8)]
  then have c1: "c1 = c\<lparr>users := [?u]\<rparr>" by simp
  have "refused_form s' (fst (register_submit (controller_fetch others envs origin) v' s' (c1, j)))
      \<and> fst (snd (register_submit (controller_fetch others envs origin) v' s' (c1, j))) = c1"
    if "strip_slashes (cr_base v') = origin" "cr_user v' \<noteq> []" "cr_pass v' \<noteq> []" for v' s' j
    by (rule register_closed [OF that _ prod.collapse [symmetric]]) (simp add: c1)
  moreover have "ss_view (fst (login_submit (controller_fetch others envs origin) v s' (c1, j))) = AppView"
    if "e_same_name (envs j) (cr_user v) (cr_user v)" "e_matches (envs j) hsh (cr_pass v)"
      "e_sign (envs j) 1 (cr_user v) \<noteq> []" for s' j
  proof -
    have "fst (handleLogin (envs j) [] (login_request v) c1) = writeJSON (json_token (e_sign (envs j) 1 (cr_user v)))"
      using that assms(2-4,7) by (simp add: handleLogin_def auth_body find_user_def c1 new_user_def)
    then show ?thesis
      using that(3) submit_simps(1) [OF assms(1), of others envs s' c1 j]
      by (simp add: login_finish_def auth_finish_Inr)
  qed
  ultimately show ?thesis using R by (simp add: c1 new_user_def)
qed

theorem first_registration_signs_in_witness:
  "let v = \<lparr>cr_base = ''http://c'', cr_user = ''admin'', cr_pass = ''secret''\<rparr>;
       fresh = app_mount \<lparr>local_storage = [], win_origin = ''http://c''\<rparr>;
       (s1, (c1, k1)) = register_submit ex_fetch v fresh ex_world
   in ss_view s1 = AppView \<and> map u_Username (users c1) = [''admin'']
      \<and> ss_view (fst (login_submit ex_fetch v fresh (c1, k1))) = AppView
      \<and> fst (snd (register_submit ex_fetch v fresh (c1, k1))) = c1"
proof -
  let ?v = "\<lparr>cr_base = ''http://c'', cr_user = ''admin'', cr_pass = ''secret''\<rparr>"
  let ?s = "app_mount \<lparr>local_storage = [], win_origin = ''http://c''\<rparr>"
  obtain s1 c1 k1 where S: "register_submit ex_fetch ?v ?s (ex_ctl, snd ex_world) = (s1, (c1, k1))"
    by (metis prod.exhaust)
  have base: "strip_slashes (cr_base ?v) = ''http://c''" by (simp add: strip_slashes_def)
  have users: "users ex_ctl = []" by (simp add: ex_world_def)
  have env: "e_hash ex_env (cr_pass ?v) = Some ''#secret''" by (simp add: ex_env_def)
  from first_registration_signs_in [OF base _ _ users _ _ env S] show ?thesis
    using S base by (simp add: ex_env_def)
qed

text \<open>C35. A password bcrypt refuses locks everybody out: the error of hashing is ignored, so the
  registration succeeds with an empty hash, no login ever succeeds after it, because bcrypt
  matches nothing with an empty hash, and no other registration is accepted.\<close>

theorem refused_password_locks_out:
  assumes "strip_slashes (cr_base v) = origin" and "cr_user v \<noteq> []" "cr_pass v \<noteq> []" and "users c = []"
    and "e_insertable (envs k) [] (new_user (envs k) \<lparr>ar_Username = cr_user v, ar_Password = cr_pass v\<rparr> c)"
    and "e_sign (envs k) 1 (cr_user v) \<noteq> []" and "e_hash (envs k) (cr_pass v) = None"
    and "\<forall>j p. \<not> e_matches (envs j) [] p"
    and "register_submit (controller_fetch others envs origin) v s (c, k) = (s1, (c1, k1))"
  shows "ss_view s1 = AppView
    \<and> (\<forall>v' s' j. strip_slashes (cr_base v') = origin \<longrightarrow> cr_user v' \<noteq> [] \<longrightarrow> cr_pass v' \<noteq> [] \<longrightarrow>
        refused_form s' (fst (login_submit (controller_fetch others envs origin) v' s' (c1, j)))
        \<and> fst (snd (login_submit (controller_fetch others envs origin) v' s' (c1, j))) = c1
        \<and> refused_form s' (fst (register_submit (controller_fetch others envs origin) v' s' (c1, j)))
        \<and> fst (snd (register_submit (controller_fetch others envs origin) v' s' (c1, j))) = c1)"
proof -
  let ?u = "new_user (envs k) \<lparr>ar_Username = cr_user v, ar_Password = cr_pass v\<rparr> c"
  note R = register_first [OF assms(1-6,9)]
  then have c1: "c1 = c\<lparr>users := [?u]\<rparr>" by simp
  have reg: "refused_form s' (fst (register_submit (controller_fetch others envs origin) v' s' (c1, j)))
      \<and> fst (snd (register_submit (controller_fetch others envs origin) v' s' (c1, j))) = c1"
    if "strip_slashes (cr_base v') = origin" "cr_user v' \<noteq> []" "cr_pass v' \<noteq> []" for v' s' j
    by (rule register_closed [OF that _ prod.collapse [symmetric]]) (simp add: c1)
  have log: "refused_form s' (fst (login_submit (controller_fetch others envs origin) v' s' (c1, j)))
      \<and> fst (snd (login_submit (controller_fetch others envs origin) v' s' (c1, j))) = c1"
    if "strip_slashes (cr_base v') = origin" "cr_user v' \<noteq> []" "cr_pass v' \<noteq> []" for v' s' j
  proof -
    have "handleLogin (envs j) [] (login_request v') c1 = (http_error ''invalid credentials'' 401, c1)"
      using that(2,3) assms(7,8) by (auto simp: handleLogin_def auth_body find_user_def c1 new_user_def)
    then show ?thesis
      using submit_simps(1) [OF that(1), of others envs s' c1 j] by (simp add: login_finish_def auth_finish_Inl)
  qed
  show ?thesis using R reg log by simp
qed

theorem refused_password_locks_out_witness:
  "let v = \<lparr>cr_base = ''http://c'', cr_user = ''admin'', cr_pass = replicate 73 (CHR ''x'')\<rparr>;
       fresh = app_mount \<lparr>local_storage = [], win_origin = ''http://c''\<rparr>;
       (s1, (c1, k1)) = register_submit ex_fetch v fresh ex_world
   in ss_view s1 = AppView \<and> ss_view (fst (login_submit ex_fetch v fresh (c1, k1))) = RegisterView"
proof -
  let ?v = "\<lparr>cr_base = ''http://c'', cr_user = ''admin'', cr_pass = replicate 73 (CHR ''x'')\<rparr>"
  let ?s = "app_mount \<lparr>local_storage = [], win_origin = ''http://c''\<rparr>"
  obtain s1 c1 k1 where S: "register_submit ex_fetch ?v ?s (ex_ctl, snd ex_world) = (s1, (c1, k1))"
    by (metis prod.exhaust)
  have base: "strip_slashes (cr_base ?v) = ''http://c''" by (simp add: strip_slashes_def)
  have users: "users ex_ctl = []" by (simp add: ex_world_def)
  have env: "e_hash ex_env (cr_pass ?v) = None" by (simp add: ex_env_def del: replicate.simps)
  have pass: "cr_pass ?v \<noteq> []" by simp
  have view: "ss_view ?s = RegisterView" by (simp add: app_mount_def initialView_def storage_defs str_or_def)
  have rest: "e_insertable ex_env [] u" "e_sign ex_env 1 (cr_user ?v) \<noteq> []" "\<forall>j p. \<not> e_matches ex_env [] p" for u
    by (simp_all add: ex_env_def)
  from refused_password_locks_out [OF base _ pass users rest(1,2) env rest(3) S] show ?thesis
    using S base view pass by (simp add: refused_form_def del: replicate.simps)
qed

text \<open>
  Two registrations at the same time: both may find the table empty before either writes, and
  then there are two administrators.
\<close>

theorem registration_race:
  assumes "users c = []" and "e_insertable e1 [] (new_user e1 r1 c)"
    and "e_insertable e2 [new_user e1 r1 c] (new_user e2 r2 (snd (create_user e1 r1 c)))"
  shows "count_users c = 0 \<and> map u_Username (users (snd (create_user e2 r2 (snd (create_user e1 r1 c)))))
    = [ar_Username r1, ar_Username r2]"
  using assms by (simp add: count_users_def create_user_def new_user_def Let_def)

end
