(* ===== verification/Go_Hub.thy ===== *)
theory Go_Hub
  imports Go_Policy_Api
begin

text \<open>
  The WebSocket hub of \<open>pkg/api/ws.go\<close> with its connections: which connection is
  registered for a node, which loops read which connection, which connections the server has
  closed, and what was written to them.  The other theories see of it only the set of
  connected nodes and the messages sent to them; the last section shows that this is a
  correct view of the hub.
\<close>

section \<open>State\<close>

text \<open>
  A connection is a number, drawn when it is upgraded.  \<open>hb_loops\<close> and
  \<open>hb_watches\<close> are the running loops of agents and of log subscribers with the node
  of each, \<open>hb_frames\<close> the frames written to agents, oldest first, \<open>hb_lines\<close>
  those written to each subscriber; \<open>hb_rest\<close> is the part of the controller the hub
  writes to (the store and the buffered task updates).
\<close>

record hub =
  hb_agents :: "string \<rightharpoonup> nat"
  hb_subs :: "string \<rightharpoonup> nat set"
  hb_loops :: "nat \<rightharpoonup> string"
  hb_watches :: "nat \<rightharpoonup> string"
  hb_closed :: "nat set"
  hb_frames :: "(nat \<times> string \<times> jsval) list"
  hb_lines :: "nat \<Rightarrow> jsval list"
  hb_next :: nat
  hb_rest :: controller

definition NewWSHub :: "controller \<Rightarrow> hub" where
  "NewWSHub c = \<lparr>hb_agents = Map.empty, hb_subs = Map.empty, hb_loops = Map.empty,
     hb_watches = Map.empty, hb_closed = {}, hb_frames = [], hb_lines = (\<lambda>_. []), hb_next = 0,
     hb_rest = c\<rparr>"

section \<open>Agents\<close>

text \<open>The connection the node had before is closed; its loop still runs.\<close>

definition HandleAgentWS :: "string \<Rightarrow> hub \<Rightarrow> hub" where
  "HandleAgentWS nid h =
     (if nid = [] then h
      else
        (let closed = (case hb_agents h nid of Some old \<Rightarrow> insert old (hb_closed h) | None \<Rightarrow> hb_closed h)
         in h\<lparr>hb_closed := closed, hb_agents := (hb_agents h)(nid \<mapsto> hb_next h),
              hb_loops := (hb_loops h)(hb_next h \<mapsto> nid), hb_next := Suc (hb_next h)\<rparr>))"

text \<open>Writing to a connection that is closed fails, which is only logged.\<close>

definition Send :: "string \<Rightarrow> jsval \<Rightarrow> hub \<Rightarrow> hub" where
  "Send nid msg h =
     (case hb_agents h nid of
        None \<Rightarrow> h
      | Some c \<Rightarrow> if c \<in> hb_closed h then h else h\<lparr>hb_frames := hb_frames h @ [(c, nid, msg)]\<rparr>)"

text \<open>The end of \<open>readLoop\<close>: it removes whatever is registered for its node.\<close>

definition loop_end :: "nat \<Rightarrow> hub \<Rightarrow> hub" where
  "loop_end c h =
     (case hb_loops h c of
        None \<Rightarrow> h
      | Some nid \<Rightarrow> h\<lparr>hb_closed := insert c (hb_closed h), hb_agents := (hb_agents h)(nid := None),
          hb_loops := (hb_loops h)(c := None)\<rparr>)"

definition fanoutLogs :: "string \<Rightarrow> jsval \<Rightarrow> hub \<Rightarrow> hub" where
  "fanoutLogs nid payload h =
     (case hb_subs h nid of
        None \<Rightarrow> h
      | Some subs \<Rightarrow> h\<lparr>hb_lines := (\<lambda>c. if c \<in> subs \<and> c \<notin> hb_closed h
                                     then hb_lines h c @ [payload] else hb_lines h c)\<rparr>)"

text \<open>The type of a \<open>WSMessage\<close>, if the message decodes to one, and its payload.\<close>

definition go_ws_type :: "jsval \<Rightarrow> string option" where
  "go_ws_type v = do {
     ps \<leftarrow> go_obj v;
     ty \<leftarrow> go_str (js_lookup ''type'' ps);
     nid \<leftarrow> go_str (js_lookup ''nodeId'' ps);
     Some ty
   }"

definition ws_payload :: "jsval \<Rightarrow> jsval" where
  "ws_payload msg = (if js_oget ''payload'' msg = Undef then Null else js_oget ''payload'' msg)"

text \<open>
  One round of \<open>readLoop\<close>; a message that is no \<open>WSMessage\<close> ends it.  A frame
  that was read ahead is still handled after the connection is closed.
\<close>

definition read_message :: "env \<Rightarrow> nat \<Rightarrow> jsval \<Rightarrow> hub \<Rightarrow> hub" where
  "read_message e c msg h =
     (case hb_loops h c of
        None \<Rightarrow> h
      | Some nid \<Rightarrow>
          (case go_ws_type msg of
             None \<Rightarrow> loop_end c h
           | Some ty \<Rightarrow>
               (if ty = ''agent_log'' then fanoutLogs nid (ws_payload msg) h
                else if ty = ''task_step'' then h\<lparr>hb_rest := handleTaskStep e msg nid (hb_rest h)\<rparr>
                else h)))"

section \<open>Log subscribers\<close>

definition HandleUILogs :: "string \<Rightarrow> hub \<Rightarrow> hub" where
  "HandleUILogs nid h =
     (if nid = [] then h
      else
        (let subs = (case hb_subs h nid of Some subs \<Rightarrow> subs | None \<Rightarrow> {})
         in h\<lparr>hb_subs := (hb_subs h)(nid \<mapsto> insert (hb_next h) subs),
              hb_watches := (hb_watches h)(hb_next h \<mapsto> nid), hb_next := Suc (hb_next h)\<rparr>))"

text \<open>\<open>closeSub\<close>, at the end of \<open>logSubLoop\<close>\<close>

definition closeSub :: "nat \<Rightarrow> hub \<Rightarrow> hub" where
  "closeSub c h =
     (case hb_watches h c of
        None \<Rightarrow> h
      | Some nid \<Rightarrow>
          h\<lparr>hb_closed := insert c (hb_closed h),
            hb_subs := (case hb_subs h nid of
                None \<Rightarrow> hb_subs h
              | Some subs \<Rightarrow> (hb_subs h)(nid := (if subs - {c} = {} then None else Some (subs - {c})))),
            hb_watches := (hb_watches h)(c := None)\<rparr>)"

section \<open>Events\<close>

text \<open>
  What happens to the hub, in any order: an agent or a page dials in, a connection delivers a
  message or is lost, a handler sends a message to a node or writes to the store.
\<close>

datatype hub_event =
    AgentDials string
  | AgentSays nat jsval
  | AgentLost nat
  | Push string jsval
  | Writes "mem_store \<Rightarrow> mem_store"
  | PageDials string
  | PageLost nat

fun hub_step :: "env \<Rightarrow> hub_event \<Rightarrow> hub \<Rightarrow> hub" where
  "hub_step e (AgentDials nid) h = HandleAgentWS nid h"
| "hub_step e (AgentSays c msg) h = read_message e c msg h"
| "hub_step e (AgentLost c) h = loop_end c h"
| "hub_step e (Push nid msg) h = Send nid msg h"
| "hub_step e (Writes f) h = h\<lparr>hb_rest := set_store (f (store (hb_rest h))) (hb_rest h)\<rparr>"
| "hub_step e (PageDials nid) h = HandleUILogs nid h"
| "hub_step e (PageLost c) h = closeSub c h"

fun hub_run :: "env \<Rightarrow> hub_event list \<Rightarrow> hub \<Rightarrow> hub" where
  "hub_run e [] h = h"
| "hub_run e (ev # evs) h = hub_run e evs (hub_step e ev h)"

section \<open>Invariant\<close>

text \<open>
  What is registered for a node is open and read by a loop for that node; the subscribers of a
  node are the connections watching it, they are open, and no node has an empty set of them.
\<close>

definition hub_inv :: "hub \<Rightarrow> bool" where
  "hub_inv h \<longleftrightarrow>
     (\<forall>nid c. hb_agents h nid = Some c \<longrightarrow> c \<notin> hb_closed h \<and> hb_loops h c = Some nid)
   \<and> (\<forall>nid subs c. hb_subs h nid = Some subs \<longrightarrow> (c \<in> subs \<longleftrightarrow> hb_watches h c = Some nid))
   \<and> (\<forall>nid c. hb_watches h c = Some nid \<longrightarrow> c \<notin> hb_closed h \<and> hb_loops h c = None \<and> hb_subs h nid \<noteq> None)
   \<and> (\<forall>nid. hb_subs h nid \<noteq> Some {})
   \<and> (\<forall>c. hb_loops h c \<noteq> None \<or> hb_watches h c \<noteq> None \<or> c \<in> hb_closed h \<longrightarrow> c < hb_next h)"

lemma hub_invI:
  assumes "\<And>nid c. hb_agents h nid = Some c \<Longrightarrow> c \<notin> hb_closed h \<and> hb_loops h c = Some nid"
    and "\<And>nid subs c. hb_subs h nid = Some subs \<Longrightarrow> c \<in> subs \<longleftrightarrow> hb_watches h c = Some nid"
    and "\<And>nid c. hb_watches h c = Some nid \<Longrightarrow> c \<notin> hb_closed h \<and> hb_loops h c = None \<and> hb_subs h nid \<noteq> None"
    and "\<And>nid. hb_subs h nid \<noteq> Some {}"
    and "\<And>c. hb_loops h c \<noteq> None \<or> hb_watches h c \<noteq> None \<or> c \<in> hb_closed h \<Longrightarrow> c < hb_next h"
  shows "hub_inv h"
  unfolding hub_inv_def using assms(1-5) by (intro conjI allI impI; assumption?; blast)

lemma hub_invD:
  assumes "hub_inv h"
  shows hub_inv_agent: "\<And>nid c. hb_agents h nid = Some c \<Longrightarrow> c \<notin> hb_closed h \<and> hb_loops h c = Some nid"
    and hub_inv_subs: "\<And>nid subs c. hb_subs h nid = Some subs \<Longrightarrow> c \<in> subs \<longleftrightarrow> hb_watches h c = Some nid"
    and hub_inv_watch: "\<And>nid c. hb_watches h c = Some nid \<Longrightarrow> c \<notin> hb_closed h \<and> hb_loops h c = None \<and> hb_subs h nid \<noteq> None"
    and hub_inv_nonempty: "\<And>nid. hb_subs h nid \<noteq> Some {}"
    and hub_inv_bound: "\<And>c. hb_loops h c \<noteq> None \<or> hb_watches h c \<noteq> None \<or> c \<in> hb_closed h \<Longrightarrow> c < hb_next h"
  using assms unfolding hub_inv_def by (elim conjE; blast)+

lemma hub_inv_fresh:
  assumes "hub_inv h"
  shows "hb_loops h (hb_next h) = None" "hb_watches h (hb_next h) = None" "hb_next h \<notin> hb_closed h"
  using hub_inv_bound [OF assms, of "hb_next h"] less_irrefl [of "hb_next h"] by blast+

lemma hub_inv_rest [simp]: "hub_inv (h\<lparr>hb_rest := c\<rparr>) = hub_inv h"
  by (simp add: hub_inv_def)

lemma hub_inv_init: "hub_inv (NewWSHub c)"
  by (simp add: hub_inv_def NewWSHub_def)

lemma HandleAgentWS_simps:
  assumes "nid \<noteq> []"
  shows "hb_agents (HandleAgentWS nid h) = (hb_agents h)(nid \<mapsto> hb_next h)"
    and "hb_loops (HandleAgentWS nid h) = (hb_loops h)(hb_next h \<mapsto> nid)"
    and "hb_closed (HandleAgentWS nid h) = hb_closed h \<union> set_option (hb_agents h nid)"
    and "hb_next (HandleAgentWS nid h) = Suc (hb_next h)"
    and "hb_subs (HandleAgentWS nid h) = hb_subs h" "hb_watches (HandleAgentWS nid h) = hb_watches h"
    and "hb_frames (HandleAgentWS nid h) = hb_frames h" "hb_rest (HandleAgentWS nid h) = hb_rest h"
  using assms by (auto simp: HandleAgentWS_def split: option.split)

lemma HandleAgentWS_inv:
  assumes "hub_inv h"
  shows "hub_inv (HandleAgentWS nid h)"
proof (cases "nid = []")
  case False
  note F = hub_inv_fresh [OF assms] and A = hub_inv_agent [OF assms] and S = hub_inv_subs [OF assms]
    and W = hub_inv_watch [OF assms] and N = hub_inv_nonempty [OF assms] and B = hub_inv_bound [OF assms]
  note [simp] = HandleAgentWS_simps [OF False]
  show ?thesis
  proof (rule hub_invI)
    fix k c assume k: "hb_agents (HandleAgentWS nid h) k = Some c"
    show "c \<notin> hb_closed (HandleAgentWS nid h) \<and> hb_loops (HandleAgentWS nid h) c = Some k"
    proof (cases "k = nid")
      case True
      then have "c = hb_next h" using k by simp
      then show ?thesis using True F A [of nid c] by (cases "hb_agents h nid") auto
    next
      case other: False
      then have "hb_agents h k = Some c" using k by simp
      then show ?thesis using A [of k c] A [of nid c] F other by (cases "hb_agents h nid") auto
    qed
  next
    fix k c assume k: "hb_watches (HandleAgentWS nid h) c = Some k"
    then have "hb_watches h c = Some k" by simp
    then show "c \<notin> hb_closed (HandleAgentWS nid h) \<and> hb_loops (HandleAgentWS nid h) c = None
        \<and> hb_subs (HandleAgentWS nid h) k \<noteq> None"
      using W [of c k] A [of nid c] F by (cases "hb_agents h nid") auto
  next
    fix c assume "hb_loops (HandleAgentWS nid h) c \<noteq> None \<or> hb_watches (HandleAgentWS nid h) c \<noteq> None
      \<or> c \<in> hb_closed (HandleAgentWS nid h)"
    then show "c < hb_next (HandleAgentWS nid h)"
      using B [of c] A [of nid c] by (auto simp: less_Suc_eq split: if_splits)
  qed (use S N in auto)
qed (simp add: HandleAgentWS_def assms)

lemma Send_inv: "hub_inv h \<Longrightarrow> hub_inv (Send nid msg h)"
  by (simp add: Send_def hub_inv_def split: option.split)

lemma fanoutLogs_inv: "hub_inv h \<Longrightarrow> hub_inv (fanoutLogs nid v h)"
  by (simp add: fanoutLogs_def hub_inv_def split: option.split)

lemma loop_end_inv:
  assumes "hub_inv h"
  shows "hub_inv (loop_end c h)"
proof (cases "hb_loops h c")
  case (Some nid)
  note A = hub_inv_agent [OF assms] and S = hub_inv_subs [OF assms]
    and W = hub_inv_watch [OF assms] and N = hub_inv_nonempty [OF assms] and B = hub_inv_bound [OF assms]
  have eq: "loop_end c h = h\<lparr>hb_closed := insert c (hb_closed h), hb_agents := (hb_agents h)(nid := None),
      hb_loops := (hb_loops h)(c := None)\<rparr>"
    using Some by (simp add: loop_end_def)
  show ?thesis
    unfolding eq
  proof (rule hub_invI, goal_cases)
    case (1 k d)
    then have "hb_agents h k = Some d" "k \<noteq> nid" by (auto split: if_splits)
    then show ?case using A [of k d] Some by auto
  next
    case (3 k d)
    then show ?case using W [of d k] Some by auto
  next
    case (5 d)
    then show ?case using B [of d] B [of c] Some by (auto split: if_splits)
  qed (use S N in auto)
qed (simp add: loop_end_def assms)

lemma read_message_inv: "hub_inv h \<Longrightarrow> hub_inv (read_message e c msg h)"
  by (simp add: read_message_def loop_end_inv fanoutLogs_inv split: option.split)

lemma HandleUILogs_inv:
  assumes "hub_inv h"
  shows "hub_inv (HandleUILogs nid h)"
proof (cases "nid = []")
  case False
  note F = hub_inv_fresh [OF assms] and A = hub_inv_agent [OF assms] and S = hub_inv_subs [OF assms]
    and W = hub_inv_watch [OF assms] and N = hub_inv_nonempty [OF assms] and B = hub_inv_bound [OF assms]
  let ?subs = "case hb_subs h nid of Some subs \<Rightarrow> subs | None \<Rightarrow> {}"
  have eq: "HandleUILogs nid h = h\<lparr>hb_subs := (hb_subs h)(nid \<mapsto> insert (hb_next h) ?subs),
      hb_watches := (hb_watches h)(hb_next h \<mapsto> nid), hb_next := Suc (hb_next h)\<rparr>"
    using False by (simp add: HandleUILogs_def)
  have mem: "c \<in> ?subs \<longleftrightarrow> hb_watches h c = Some nid" for c
    using S [of nid _ c] W [of c nid] by (cases "hb_subs h nid") auto
  show ?thesis
    unfolding eq
  proof (rule hub_invI, goal_cases)
    case (1 k d)
    then show ?case using A [of k d] by auto
  next
    case (2 k subs d)
    show ?case
    proof (cases "k = nid")
      case True
      then have "subs = insert (hb_next h) ?subs" using 2 by simp
      then show ?thesis using mem [of d] True by auto
    next
      case other: False
      then show ?thesis using 2 S [of k subs d] F by auto
    qed
  next
    case (3 k d)
    then show ?case using W [of d k] F by (auto split: if_splits)
  next
    case (4 k)
    then show ?case using N [of k] by auto
  next
    case (5 d)
    then show ?case using B [of d] by (auto simp: less_Suc_eq split: if_splits)
  qed
qed (simp add: HandleUILogs_def assms)

lemma closeSub_inv:
  assumes "hub_inv h"
  shows "hub_inv (closeSub c h)"
proof (cases "hb_watches h c")
  case (Some nid)
  note A = hub_inv_agent [OF assms] and S = hub_inv_subs [OF assms]
    and W = hub_inv_watch [OF assms] and N = hub_inv_nonempty [OF assms] and B = hub_inv_bound [OF assms]
  obtain subs where subs: "hb_subs h nid = Some subs" using W [OF Some] by auto
  have eq: "closeSub c h = h\<lparr>hb_closed := insert c (hb_closed h),
      hb_subs := (hb_subs h)(nid := (if subs - {c} = {} then None else Some (subs - {c}))),
      hb_watches := (hb_watches h)(c := None)\<rparr>"
    using Some subs by (simp add: closeSub_def)
  show ?thesis
    unfolding eq
  proof (rule hub_invI, goal_cases)
    case (1 k d)
    then show ?case using A [of k d] W [OF Some] by auto
  next
    case (2 k ss d)
    then show ?case using S [of k ss d] S [OF subs, of d] Some by (auto split: if_splits)
  next
    case (3 k d)
    then have d: "hb_watches h d = Some k" "d \<noteq> c" by (auto split: if_splits)
    then show ?case using W [of d k] S [OF subs, of d] by auto
  next
    case (4 k)
    then show ?case using N [of k] by simp
  next
    case (5 d)
    then show ?case using B [of d] B [of c] Some by (auto split: if_splits)
  qed
qed (simp add: closeSub_def assms)

lemma hub_step_inv: "hub_inv h \<Longrightarrow> hub_inv (hub_step e ev h)"
  by (cases ev) (simp_all add: HandleAgentWS_inv read_message_inv loop_end_inv Send_inv HandleUILogs_inv
      closeSub_inv)

lemma hub_run_inv: "hub_inv h \<Longrightarrow> hub_inv (hub_run e evs h)"
  by (induction evs arbitrary: h) (simp_all add: hub_step_inv)

section \<open>What the rest of the controller sees\<close>

text \<open>
  The abstract links: the nodes that are connected and the messages sent to them, as the
  routes use them.
\<close>

datatype link_event =
    Connect string
  | Gone string
  | Deliver string jsval
  | Report string jsval
  | Update "mem_store \<Rightarrow> mem_store"

fun link_step :: "env \<Rightarrow> link_event \<Rightarrow> controller \<Rightarrow> controller" where
  "link_step e (Connect nid) c = agent_connect nid c"
| "link_step e (Gone nid) c = agent_disconnect nid c"
| "link_step e (Deliver nid msg) c = hub_send nid msg c"
| "link_step e (Report nid msg) c = handleTaskStep e msg nid c"
| "link_step e (Update f) c = set_store (f (store c)) c"

fun link_run :: "env \<Rightarrow> link_event list \<Rightarrow> controller \<Rightarrow> controller" where
  "link_run e [] c = c"
| "link_run e (ev # evs) c = link_run e evs (link_step e ev c)"

text \<open>The link event an event of the hub is, if any\<close>

fun link_of :: "hub \<Rightarrow> hub_event \<Rightarrow> link_event list" where
  "link_of h (AgentDials nid) = [Connect nid]"
| "link_of h (AgentSays c msg) =
     (case (hb_loops h c, go_ws_type msg) of
        (None, _) \<Rightarrow> []
      | (Some nid, None) \<Rightarrow> [Gone nid]
      | (Some nid, Some ty) \<Rightarrow> if ty = ''task_step'' then [Report nid msg] else [])"
| "link_of h (AgentLost c) = (case hb_loops h c of None \<Rightarrow> [] | Some nid \<Rightarrow> [Gone nid])"
| "link_of h (Push nid msg) = [Deliver nid msg]"
| "link_of h (Writes f) = [Update f]"
| "link_of h (PageDials nid) = []"
| "link_of h (PageLost c) = []"

fun link_trace :: "env \<Rightarrow> hub_event list \<Rightarrow> hub \<Rightarrow> link_event list" where
  "link_trace e [] h = []"
| "link_trace e (ev # evs) h = link_of h ev @ link_trace e evs (hub_step e ev h)"

definition hub_view :: "hub \<Rightarrow> controller \<Rightarrow> bool" where
  "hub_view h c \<longleftrightarrow> dom (hb_agents h) = set (agents c) \<and> map snd (hb_frames h) = sent c
     \<and> store (hb_rest h) = store c \<and> taskUpd (hb_rest h) = taskUpd c"

lemma link_run_append: "link_run e (as @ bs) c = link_run e bs (link_run e as c)"
  by (induction as arbitrary: c) simp_all

lemma handleTaskStep_simps [simp]:
  "agents (handleTaskStep e msg nid c) = agents c" "sent (handleTaskStep e msg nid c) = sent c"
  by (simp_all add: handleTaskStep_def Let_def split: jsval.split option.split)

lemma handleTaskStep_cong:
  assumes "store a = store c" "taskUpd a = taskUpd c"
  shows "store (handleTaskStep e msg nid a) = store (handleTaskStep e msg nid c)"
    "taskUpd (handleTaskStep e msg nid a) = taskUpd (handleTaskStep e msg nid c)"
  using assms by (simp_all add: handleTaskStep_def Let_def split: jsval.split option.split)

lemma loop_end_view:
  assumes "hub_view h c" "hb_loops h d = Some nid"
  shows "hub_view (loop_end d h) (agent_disconnect nid c)"
  using assms by (auto simp: hub_view_def loop_end_def agent_disconnect_def)

lemma HandleAgentWS_view:
  assumes "hub_view h c"
  shows "hub_view (HandleAgentWS nid h) (agent_connect nid c)"
proof (cases "nid = []")
  case False
  then show ?thesis using assms HandleAgentWS_simps [OF False, of h]
    by (auto simp: hub_view_def agent_connect_def)
qed (use assms in \<open>simp add: HandleAgentWS_def agent_connect_def\<close>)

text \<open>A registered connection is open, so a message for a connected node is written.\<close>

lemma Send_view:
  assumes "hub_inv h" "hub_view h c"
  shows "hub_view (Send nid msg h) (hub_send nid msg c)"
proof (cases "hb_agents h nid")
  case None
  then have "nid \<notin> set (agents c)" using assms(2) by (auto simp: hub_view_def)
  then show ?thesis using None assms(2) by (simp add: Send_def hub_send_def)
next
  case (Some d)
  then have "nid \<in> set (agents c)" using assms(2) by (auto simp: hub_view_def)
  then show ?thesis using Some assms(2) hub_inv_agent [OF assms(1) Some]
    by (simp add: Send_def hub_send_def hub_view_def)
qed

lemma fanoutLogs_view: "hub_view h c \<Longrightarrow> hub_view (fanoutLogs nid v h) c"
  by (simp add: hub_view_def fanoutLogs_def split: option.split)

lemma read_message_view:
  assumes "hub_view h c"
  shows "hub_view (read_message e d msg h) (link_run e (link_of h (AgentSays d msg)) c)"
proof (cases "hb_loops h d")
  case (Some nid)
  show ?thesis
  proof (cases "go_ws_type msg")
    case None
    then show ?thesis using Some assms loop_end_view [OF assms Some] by (simp add: read_message_def)
  next
    case ty: (Some ty)
    have "hub_view (h\<lparr>hb_rest := handleTaskStep e msg nid (hb_rest h)\<rparr>) (handleTaskStep e msg nid c)"
      using assms handleTaskStep_cong [of "hb_rest h" c e msg nid] by (simp add: hub_view_def)
    then show ?thesis using Some ty assms by (simp add: read_message_def fanoutLogs_view)
  qed
qed (use assms in \<open>simp add: read_message_def\<close>)

lemma hub_step_view:
  assumes "hub_inv h" "hub_view h c"
  shows "hub_view (hub_step e ev h) (link_run e (link_of h ev) c)"
proof (cases ev)
  case (AgentSays d msg)
  then show ?thesis using read_message_view [OF assms(2), of e d msg] by (simp only: hub_step.simps)
next
  case (AgentLost d)
  then show ?thesis using assms(2) loop_end_view [OF assms(2), of d]
    by (cases "hb_loops h d") (simp_all add: loop_end_def)
next
  case (PageLost d)
  then show ?thesis using assms(2) by (simp add: closeSub_def hub_view_def split: option.split)
next
  case (AgentDials k)
  then show ?thesis using HandleAgentWS_view [OF assms(2)] by simp
next
  case (Push k msg)
  then show ?thesis using Send_view [OF assms] by simp
qed (use assms in \<open>simp_all add: HandleUILogs_def hub_view_def Let_def\<close>)

lemma hub_run_view:
  "hub_inv h \<Longrightarrow> hub_view h c \<Longrightarrow> hub_view (hub_run e evs h) (link_run e (link_trace e evs h) c)"
proof (induction evs arbitrary: h c)
  case (Cons ev evs)
  then show ?case using hub_step_inv hub_step_view by (simp add: link_run_append)
qed simp

section \<open>A node that is not registered\<close>

definition frames_to :: "string \<Rightarrow> hub \<Rightarrow> (nat \<times> string \<times> jsval) list" where
  "frames_to nid h = filter (\<lambda>f. fst (snd f) = nid) (hb_frames h)"

lemma unregistered_step:
  assumes "hb_agents h nid = None" "ev \<noteq> AgentDials nid"
  shows "hb_agents (hub_step e ev h) nid = None \<and> frames_to nid (hub_step e ev h) = frames_to nid h"
proof (cases ev)
  case (AgentDials k)
  then show ?thesis using assms by (simp add: HandleAgentWS_def frames_to_def Let_def)
next
  case (Push k msg)
  then show ?thesis using assms by (auto simp: Send_def frames_to_def split: option.split)
qed (use assms in \<open>auto simp: frames_to_def read_message_def loop_end_def fanoutLogs_def
  HandleUILogs_def closeSub_def Let_def split: option.split\<close>)

lemma unregistered_run:
  "hb_agents h nid = None \<Longrightarrow> AgentDials nid \<notin> set evs \<Longrightarrow>
   hb_agents (hub_run e evs h) nid = None \<and> frames_to nid (hub_run e evs h) = frames_to nid h"
proof (induction evs arbitrary: h)
  case (Cons ev evs)
  have "hb_agents (hub_step e ev h) nid = None \<and> frames_to nid (hub_step e ev h) = frames_to nid h"
    using unregistered_step Cons.prems by force
  then show ?case using Cons by simp
qed simp

end
