(* ===== verification/Hub_Flow.thy ===== *)
theory Hub_Flow
  imports Go_Hub View_Policy Example
begin

text \<open>
  What the WebSocket hub promises its two sides: the routes, which see the connected nodes and
  send them messages, and the policy drawers, which show the log of a node live.
\<close>

section \<open>The live log\<close>

text \<open>What a drawer shows after the frames its socket received\<close>

definition live_lines :: "string \<Rightarrow> jsval list \<Rightarrow> string list" where
  "live_lines stamp ps = pd_logLines (log_frames (map (\<lambda>p. (stamp, Some p)) ps) drawer_init)"

lemma log_frames_snoc:
  "log_frames (evs @ [(t, ev)]) s = ws_onmessage (Some (log_callback t)) ev (log_frames evs s)"
  by (induction evs arbitrary: s) auto

lemma live_lines_snoc:
  assumes "js_oget ''lines'' p = Arr (map Str ls)"
  shows "live_lines stamp (ps @ [p])
   = take 200 (map (\<lambda>l. ''['' @ stamp @ ''] '' @ l) ls @ live_lines stamp ps)"
proof -
  have "length (live_lines stamp ps) \<le> 200"
    by (simp add: live_lines_def log_frames_length drawer_init_def)
  then show ?thesis
    using assms by (simp add: live_lines_def log_frames_snoc ws_onmessage_def log_callback_def comp_def)
qed

lemma fanoutLogs_lines:
  assumes "hub_inv h"
  shows "hb_lines (fanoutLogs nid v h) u = (if hb_watches h u = Some nid then hb_lines h u @ [v] else hb_lines h u)"
  using hub_inv_subs [OF assms, of nid] hub_inv_watch [OF assms, of u nid]
  by (auto simp: fanoutLogs_def split: option.split)

lemma agent_log_lines:
  assumes "hub_inv h" "hb_loops h c = Some nid" "go_ws_type msg = Some ''agent_log''"
  shows "hb_lines (hub_step e (AgentSays c msg) h) u
    = (if hb_watches h u = Some nid then hb_lines h u @ [ws_payload msg] else hb_lines h u)"
  using assms(2,3) fanoutLogs_lines [OF assms(1)] by (simp add: read_message_def)

lemma bad_lines_crash:
  assumes "js_oget ''lines'' p = Str l" "l \<noteq> []"
  shows "pd_crashed (log_frames (map (\<lambda>p. (stamp, Some p)) (ps @ [p])) s)"
  using assms by (simp add: log_frames_snoc ws_onmessage_def log_callback_def)

section \<open>Properties\<close>

text \<open>C8. The routes see the hub rightly: whatever happens to its connections, in any order, the
  hub keeps its bookkeeping (what is registered for a node is open and read by a loop for it,
  the subscribers of a node are the connections watching it), the nodes registered in it are
  those of the abstract links that follow the same events, and the messages written to agents,
  the store and the buffered task updates are theirs too.\<close>

theorem hub_refines_links:
  "hub_inv (hub_run e evs (NewWSHub c))
   \<and> hub_view (hub_run e evs (NewWSHub c))
       (link_run e (link_trace e evs (NewWSHub c)) (c\<lparr>agents := [], sent := []\<rparr>))"
  using hub_run_inv [OF hub_inv_init] hub_run_view [OF hub_inv_init]
  by (simp add: hub_view_def NewWSHub_def)

text \<open>C33. An agent that dials in again is cut off: the hub closes its old connection, the loop of
  the old connection then ends and removes what is registered for the node, which is the new
  connection; this one stays open and read, but until the agent dials once more, no message
  for the node is written to anyone.\<close>

theorem reconnect_cuts_agent_off:
  assumes "hb_agents (hub_run e before (NewWSHub c0)) nid = Some c" and "nid \<noteq> []"
    and "AgentDials nid \<notin> set after"
  shows "let h = hub_run e before (NewWSHub c0);
             h1 = hub_run e [AgentDials nid, AgentLost c] h;
             h2 = hub_run e after h1
         in hb_agents (hub_step e (AgentDials nid) h) nid = Some (hb_next h)
          \<and> c \<in> hb_closed (hub_step e (AgentDials nid) h)
          \<and> hb_loops h1 (hb_next h) = Some nid \<and> hb_next h \<notin> hb_closed h1
          \<and> hb_agents h2 nid = None \<and> frames_to nid h2 = frames_to nid h"
proof -
  let ?h = "hub_run e before (NewWSHub c0)"
  have inv: "hub_inv ?h" by (rule hub_run_inv [OF hub_inv_init])
  note F = hub_inv_fresh [OF inv] and A = hub_inv_agent [OF inv assms(1)]
  note S = HandleAgentWS_simps [OF assms(2), of ?h]
  have ne: "c \<noteq> hb_next ?h" using A F by auto
  let ?h1 = "loop_end c (HandleAgentWS nid ?h)"
  have h1: "hb_agents ?h1 nid = None" "frames_to nid ?h1 = frames_to nid ?h"
      "hb_loops ?h1 (hb_next ?h) = Some nid" "hb_next ?h \<notin> hb_closed ?h1"
    using S A F ne assms(1) by (simp_all add: loop_end_def frames_to_def)
  then show ?thesis
    using unregistered_run [OF h1(1) assms(3), of e] S A assms(1) by (simp add: Let_def)
qed

theorem reconnect_cuts_agent_off_witness:
  "let h2 = hub_run ex_env [AgentDials ''n1'', AgentDials ''n1'', AgentLost 0, Push ''n1'' Null] (NewWSHub ex_ctl)
   in hb_loops h2 1 = Some ''n1'' \<and> hb_agents h2 ''n1'' = None \<and> frames_to ''n1'' h2 = []"
  using reconnect_cuts_agent_off [of ex_env "[AgentDials ''n1'']" ex_ctl "''n1''" 0 "[Push ''n1'' Null]"]
  by (simp add: HandleAgentWS_def NewWSHub_def Let_def frames_to_def Send_def loop_end_def)

text \<open>C21. The log of an agent reaches the drawers of its node, and only these: when an agent's
  connection delivers log lines, each page that watches the node shows them in their order, with one
  stamp, above what it showed before, 200 lines at most, and every other page shows what it showed.\<close>

theorem agent_log_reaches_drawers:
  assumes "hb_loops (hub_run e evs (NewWSHub c0)) c = Some nid"
    and "go_ws_type msg = Some ''agent_log''"
    and "js_oget ''lines'' (js_oget ''payload'' msg) = Arr (map Str ls)"
  shows "let h = hub_run e evs (NewWSHub c0); h' = hub_step e (AgentSays c msg) h
         in live_lines stamp (hb_lines h' u)
          = (if hb_watches h u = Some nid
             then take 200 (map (\<lambda>l. ''['' @ stamp @ ''] '' @ l) ls @ live_lines stamp (hb_lines h u))
             else live_lines stamp (hb_lines h u))"
proof -
  have "js_oget ''lines'' (ws_payload msg) = Arr (map Str ls)"
    using assms(3) by (auto simp: ws_payload_def)
  then show ?thesis
    using agent_log_lines [OF hub_run_inv [OF hub_inv_init] assms(1,2)]
    by (simp add: Let_def live_lines_snoc)
qed

theorem agent_log_reaches_drawers_witness:
  "live_lines ''12:00'' (hb_lines (hub_run ex_env [PageDials ''n1'', AgentDials ''n1'',
     AgentSays 1 (Obj [(''type'', Str ''agent_log''), (''nodeId'', Str ''n1''), (''payload'', Obj [(''lines'', Arr [Str ''up'']), (''ts'', Number 7)])])]
     (NewWSHub ex_ctl)) 0) = [''[12:00] up'']"
  using agent_log_reaches_drawers [of ex_env "[PageDials ''n1'', AgentDials ''n1'']" ex_ctl 1 "''n1''"
      "Obj [(''type'', Str ''agent_log''), (''nodeId'', Str ''n1''), (''payload'', Obj [(''lines'', Arr [Str ''up'']), (''ts'', Number 7)])]"
      "[''up'']" "''12:00''" 0]
  by (simp add: HandleAgentWS_def HandleUILogs_def NewWSHub_def Let_def go_ws_type_def live_lines_def
      drawer_init_def)

text \<open>C34. Anyone can take down the pages that watch a node: the hub asks a connection that calls
  itself an agent for no token, and forwards what it sends as it is; a single log message whose
  lines are a text makes every drawer that watches the node throw when it renders.\<close>

theorem text_frame_crashes_page:
  assumes "hb_watches (hub_run e evs (NewWSHub c0)) u = Some nid" and "nid \<noteq> []" and "l \<noteq> []"
  shows "let h = hub_run e evs (NewWSHub c0);
             h' = hub_run e [AgentDials nid, AgentSays (hb_next h)
                (Obj [(''type'', Str ''agent_log''), (''payload'', Obj [(''lines'', Str l)])])] h
         in \<not> renders (PolicyDrawer t p m (log_frames (map (\<lambda>v. (stamp, Some v)) (hb_lines h' u)) s))"
proof -
  let ?h = "hub_run e evs (NewWSHub c0)" and ?p = "Obj [(''lines'', Str l)]"
  let ?msg = "Obj [(''type'', Str ''agent_log''), (''payload'', ?p)]"
  have inv: "hub_inv (HandleAgentWS nid ?h)"
    by (intro HandleAgentWS_inv hub_run_inv hub_inv_init)
  have "hb_lines (hub_step e (AgentSays (hb_next ?h) ?msg) (HandleAgentWS nid ?h)) u
    = hb_lines (HandleAgentWS nid ?h) u @ [?p]"
    using agent_log_lines [OF inv, of "hb_next ?h" nid ?msg e u] assms(1) HandleAgentWS_simps [OF assms(2), of ?h]
    by (simp add: go_ws_type_def ws_payload_def)
  then show ?thesis
    using bad_lines_crash [of ?p l stamp "hb_lines (HandleAgentWS nid ?h) u" s] assms(3)
    by (simp add: Let_def PolicyDrawer_def renders_def)
qed

theorem text_frame_crashes_page_witness:
  "\<not> renders (PolicyDrawer \<lparr>toLocaleString = elem_string, toLocaleTimeString = elem_string\<rparr>
     \<lparr>dp_open = True, dp_node = Obj [(''id'', Str ''n1'')], dp_nodes = Arr [], dp_mesh = Null\<rparr>
     \<lparr>pm_open = False, pm_path = []\<rparr>
     (log_frames (map (\<lambda>v. (''12:00'', Some v)) (hb_lines (hub_run ex_env [PageDials ''n1'', AgentDials ''n1'',
        AgentSays 1 (Obj [(''type'', Str ''agent_log''), (''payload'', Obj [(''lines'', Str ''up'')])])]
        (NewWSHub ex_ctl)) 0)) drawer_init))"
  using text_frame_crashes_page [of ex_env "[PageDials ''n1'']" ex_ctl 0 "''n1''" "''up''"]
  by (simp add: HandleUILogs_def NewWSHub_def Let_def)

end
