(* ===== verification/Js_Poll.thy ===== *)
theory Js_Poll
  imports Js_Drawer
begin

text \<open>
  The polling of \<open>PolicyDrawer\<close> (\<open>frontend/src/components/PolicyDrawer.jsx\<close>):
  the effect on \<open>[open, node]\<close> that starts two intervals, one reading the install log
  and one the tasks, and whose cleanup clears both.  What its first round of calls does is
  part of \<open>open_node\<close>.
\<close>

section \<open>The effect\<close>

text \<open>
  React compares the \<open>node\<close> property by identity: it is the number of the object with
  the id of the node.  \<open>po_timers\<close> are the intervals set and not cleared, with the call
  each makes when it fires (an interval keeps the closure of the render that set it), and
  \<open>po_cleanup\<close> the intervals the cleanup of the last effect will clear.
\<close>

record polling =
  po_deps :: "(bool \<times> (nat \<times> string) option) option"
  po_timers :: "(nat \<times> call) list"
  po_cleanup :: "nat list"
  po_next :: nat

definition poll_init :: polling where
  "poll_init = \<lparr>po_deps = None, po_timers = [], po_cleanup = [], po_next = 0\<rparr>"

definition poll_cleanup :: "polling \<Rightarrow> polling" where
  "poll_cleanup s =
     s\<lparr>po_cleanup := [], po_timers := filter (\<lambda>(t, _). t \<notin> set (po_cleanup s)) (po_timers s)\<rparr>"

definition poll_effect :: "bool \<Rightarrow> (nat \<times> string) option \<Rightarrow> polling \<Rightarrow> polling" where
  "poll_effect open_prop node s =
     (case node of
        Some (_, n) \<Rightarrow>
          (if open_prop then
             s\<lparr>po_timers := po_timers s @ [(po_next s, C_Logs n), (Suc (po_next s), C_Tasks n)],
               po_cleanup := [po_next s, Suc (po_next s)], po_next := po_next s + 2\<rparr>
           else s\<lparr>po_cleanup := []\<rparr>)
      | None \<Rightarrow> s\<lparr>po_cleanup := []\<rparr>)"

definition poll_render :: "bool \<Rightarrow> (nat \<times> string) option \<Rightarrow> polling \<Rightarrow> polling" where
  "poll_render open_prop node s =
     (if po_deps s = Some (open_prop, node) then s
      else poll_effect open_prop node (poll_cleanup (s\<lparr>po_deps := Some (open_prop, node)\<rparr>)))"

definition poll_unmount :: "polling \<Rightarrow> polling" where
  "poll_unmount s = poll_cleanup (s\<lparr>po_deps := None\<rparr>)"

inductive poll_reachable :: "polling \<Rightarrow> bool" where
  pr_init: "poll_reachable poll_init"
| pr_render: "poll_reachable s \<Longrightarrow> poll_reachable (poll_render open_prop node s)"
| pr_unmount: "poll_reachable s \<Longrightarrow> poll_reachable (poll_unmount s)"

section \<open>Which calls are polled\<close>

text \<open>The calls that should be polled, by the properties of the last render\<close>

definition polled :: "(bool \<times> (nat \<times> string) option) option \<Rightarrow> call list" where
  "polled deps = (case deps of Some (True, Some (_, n)) \<Rightarrow> [C_Logs n, C_Tasks n] | _ \<Rightarrow> [])"

text \<open>The cleanup clears all intervals that run.\<close>

definition poll_inv :: "polling \<Rightarrow> bool" where
  "poll_inv s \<longleftrightarrow> map fst (po_timers s) = po_cleanup s \<and> distinct (po_cleanup s)
     \<and> map snd (po_timers s) = polled (po_deps s)"

lemma poll_cleanup_timers:
  assumes "poll_inv s"
  shows "po_timers (poll_cleanup s) = []"
proof -
  have "po_cleanup s = map fst (po_timers s)" using assms by (simp add: poll_inv_def)
  then show ?thesis by (force simp: poll_cleanup_def filter_empty_conv)
qed

lemma poll_cleanup_deps [simp]:
  "po_deps (poll_cleanup s) = po_deps s" "po_cleanup (poll_cleanup s) = []"
  "poll_cleanup (s\<lparr>po_deps := d\<rparr>) = (poll_cleanup s)\<lparr>po_deps := d\<rparr>"
  by (simp_all add: poll_cleanup_def)

lemma poll_render_inv: "poll_inv s \<Longrightarrow> poll_inv (poll_render open_prop node s)"
  using poll_cleanup_timers [of s]
  by (auto simp: poll_render_def poll_effect_def poll_inv_def polled_def split: option.split bool.split)

lemma poll_unmount_inv: "poll_inv s \<Longrightarrow> poll_inv (poll_unmount s)"
  using poll_cleanup_timers [of s] by (simp add: poll_unmount_def poll_inv_def polled_def)

lemma poll_reachable_inv: "poll_reachable s \<Longrightarrow> poll_inv s"
  by (induction rule: poll_reachable.induct)
    (simp_all add: poll_render_inv poll_unmount_inv, simp add: poll_inv_def poll_init_def polled_def)

text \<open>C26. The drawer polls for the node it shows and for nothing else: however its properties
  change between renders, after a render with the drawer open for a node exactly two intervals
  run, one reading the node's install log and one its tasks; with the drawer closed, and after
  it is unmounted, none runs.\<close>

theorem polling_follows_node:
  assumes "poll_reachable s"
  shows "map snd (po_timers (poll_render open_prop node s)) =
      (case node of Some (_, n) \<Rightarrow> if open_prop then [C_Logs n, C_Tasks n] else [] | None \<Rightarrow> [])
    \<and> distinct (map fst (po_timers (poll_render open_prop node s)))
    \<and> po_timers (poll_unmount s) = []"
proof -
  have inv: "poll_inv (poll_render open_prop node s)" "po_timers (poll_unmount s) = []"
    using poll_reachable_inv [OF assms] poll_cleanup_timers [of s]
    by (simp_all add: poll_render_inv poll_unmount_def)
  moreover have "po_deps (poll_render open_prop node s) = Some (open_prop, node)"
    by (simp add: poll_render_def poll_effect_def split: option.split)
  ultimately show ?thesis by (auto simp: poll_inv_def polled_def split: option.split bool.split)
qed

theorem polling_follows_node_witness:
  "map snd (po_timers (poll_render True (Some (1, ''n2'')) (poll_render True (Some (0, ''n1'')) poll_init)))
   = [C_Logs ''n2'', C_Tasks ''n2'']"
  using polling_follows_node [OF pr_render [OF pr_init], where node = "Some (1, ''n2'')" and open_prop = True]
  by simp

end
