(* ===== verification/Go_Expand.thy ===== *)
theory Go_Expand
  imports Go_Model
begin

text \<open>
  The networks a policy rule stands for, \<open>Expand\<close> of \<open>pkg/policy/geoip.go\<close>: a
  network or an address, the networks of a country, and the addresses of domains.
\<close>

section \<open>The world outside\<close>

text \<open>
  What \<open>Expand\<close> takes from outside the repository: which files are there and how old they
  are (below a given age in nanoseconds, and what they contain), the body of a web page unless
  fetching it fails, \<open>fmt.Sprintf\<close> of a configured template, whether the cache
  directory can be made, which texts are networks and which of those IPv4, the text of a parsed
  address, the IPv4 addresses of a domain, and \<open>time.ParseDuration\<close>.
\<close>

record net =
  x_fresh :: "string \<Rightarrow> int \<Rightarrow> bool"
  x_read :: "string \<Rightarrow> string option"
  x_get :: "string \<Rightarrow> string option"
  x_format :: "string \<Rightarrow> string \<Rightarrow> string"
  x_mkdir :: "string \<Rightarrow> bool"
  x_cidr :: "string \<Rightarrow> bool"
  x_cidr4 :: "string \<Rightarrow> bool"
  x_addr :: "string \<Rightarrow> string option"
  x_lookup :: "string \<Rightarrow> string list"
  x_duration :: "string \<Rightarrow> int option"

section \<open>Settings\<close>

record geo_settings =
  gs_dir :: string
  gs_v4 :: string
  gs_v6 :: string
  gs_ttl :: int

definition SetConfig :: "net \<Rightarrow> geoip_config \<Rightarrow> geo_settings \<Rightarrow> geo_settings" where
  "SetConfig x cfg g =
     \<lparr>gs_dir = (if g_CacheDir cfg \<noteq> [] then g_CacheDir cfg else gs_dir g),
      gs_v4 = (if g_SourceV4 cfg \<noteq> [] then g_SourceV4 cfg else gs_v4 g),
      gs_v6 = (if g_SourceV6 cfg \<noteq> [] then g_SourceV6 cfg else gs_v6 g),
      gs_ttl = (if g_CacheTTL cfg \<noteq> [] then
                  (case x_duration x (g_CacheTTL cfg) of Some d \<Rightarrow> d | None \<Rightarrow> gs_ttl g)
                else gs_ttl g)\<rparr>"

section \<open>Networks of a country\<close>

text \<open>\<open>bufio.ScanLines\<close>: no empty line after a final newline, no carriage return.\<close>

definition scan_lines :: "string \<Rightarrow> string list" where
  "scan_lines s =
     (let ls = split_on (CHR 0x0A) s;
          ls' = (if last ls = [] then butlast ls else ls)
      in map (\<lambda>l. if l \<noteq> [] \<and> last l = CHR 0x0D then butlast l else l) ls')"

definition parseCIDRs :: "string \<Rightarrow> string list" where
  "parseCIDRs content =
     fold (\<lambda>l out. let line = go_trim_space l
                   in if line = [] \<or> prefix ''#'' line then out
                      else if CHR ''/'' \<notin> set line then out
                      else if line \<in> set out then out
                      else out @ [line])
       (scan_lines content) []"

fun first_source :: "net \<Rightarrow> geo_settings \<Rightarrow> string \<Rightarrow> string \<Rightarrow> string list \<Rightarrow> string list" where
  "first_source x g kind tmpl [] = []"
| "first_source x g kind tmpl (code # codes) =
     (let file = gs_dir g @ ''/'' @ kind @ ''-'' @ code @ ''.cidr'';
          cached = (if x_fresh x file (gs_ttl g) then x_read x file else None)
      in case cached of
           Some content \<Rightarrow> parseCIDRs content
         | None \<Rightarrow>
             (case x_get x (x_format x tmpl code) of
                Some content \<Rightarrow> parseCIDRs content
              | None \<Rightarrow> first_source x g kind tmpl codes))"

definition geoipPrefixes :: "net \<Rightarrow> geo_settings \<Rightarrow> string \<Rightarrow> bool \<Rightarrow> string list" where
  "geoipPrefixes x g country ipv6 =
     (let cc = go_trim_space country
      in if cc = [] then []
         else
           (let codes = (if ToUpper cc \<noteq> ToLower cc then [ToLower cc, ToUpper cc] else [ToLower cc]);
                kind = (if ipv6 then ''v6'' else ''v4'');
                tmpl = (if ipv6 then gs_v6 g else gs_v4 g)
            in if \<not> x_mkdir x (gs_dir g) then [] else first_source x g kind tmpl codes))"

section \<open>The networks of a rule\<close>

definition add_prefix :: "string \<Rightarrow> string list \<Rightarrow> string list" where
  "add_prefix p out = (if p = [] then out else if p \<in> set out then out else out @ [p])"

definition prefix_networks :: "net \<Rightarrow> geo_settings \<Rightarrow> string \<Rightarrow> string list" where
  "prefix_networks x g pfx =
     (let lower = ToLower pfx
      in if prefix ''geoip6:'' lower then geoipPrefixes x g (drop 7 lower) True
         else if prefix ''geoip:'' lower then geoipPrefixes x g (drop 6 lower) False
         else
           (let p = (if CHR ''/'' \<in> set pfx then pfx else pfx @ ''/32'')
            in if x_cidr x p then [p]
               else (case x_addr x pfx of Some ip \<Rightarrow> [ip @ ''/32''] | None \<Rightarrow> [])))"

definition Expand :: "net \<Rightarrow> geo_settings \<Rightarrow> policy_rule \<Rightarrow> string list" where
  "Expand x g pr =
     (if \<not> Validate pr then []
      else
        (let out = (if pr_prefix pr \<noteq> [] then fold add_prefix (prefix_networks x g (pr_prefix pr)) [] else [])
         in fold (\<lambda>d. fold (\<lambda>ip. add_prefix (ip @ ''/32'')) (x_lookup x d)) (pr_domains pr) out))"

section \<open>Lemmas\<close>

lemma set_add_prefix: "set (add_prefix p out) = set out \<union> ({p} - {[]})"
  by (auto simp: add_prefix_def)

lemma distinct_add_prefix: "distinct out \<Longrightarrow> distinct (add_prefix p out)"
  by (simp add: add_prefix_def)

lemma set_fold_add_prefix: "set (fold add_prefix ps out) = set out \<union> (set ps - {[]})"
  by (induction ps arbitrary: out) (auto simp: set_add_prefix)

lemma distinct_fold_add_prefix: "distinct out \<Longrightarrow> distinct (fold add_prefix ps out)"
  by (induction ps arbitrary: out) (simp_all add: distinct_add_prefix)

lemma fold_add_host: "fold (\<lambda>ip. add_prefix (ip @ s)) ips = fold add_prefix (map (\<lambda>ip. ip @ s) ips)"
  by (simp add: fold_map comp_def)

lemma fold_add_domains:
  "fold (\<lambda>d. fold (\<lambda>ip. add_prefix (ip @ s)) (f d)) ds =
     fold add_prefix (concat (map (\<lambda>d. map (\<lambda>ip. ip @ s) (f d)) ds))"
  by (induction ds) (simp_all add: fold_add_host fun_eq_iff)

lemmas Expand_folds = Expand_def fold_add_domains Let_def

lemma set_Expand:
  "set (Expand x g pr) =
     (if Validate pr then
        (if pr_prefix pr = [] then {} else set (prefix_networks x g (pr_prefix pr)) - {[]})
          \<union> {ip @ ''/32'' | d ip. d \<in> set (pr_domains pr) \<and> ip \<in> set (x_lookup x d)}
      else {})"
  by (auto simp: Expand_folds set_fold_add_prefix)

lemma distinct_Expand: "distinct (Expand x g pr)"
  by (simp add: Expand_folds distinct_fold_add_prefix)

lemma Expand_valid: "p \<in> set (Expand x g pr) \<Longrightarrow> Validate pr"
  by (auto simp: Expand_def split: if_splits)

text \<open>A plain rule stands for its own network.\<close>

definition plain_rule :: "net \<Rightarrow> policy_rule \<Rightarrow> bool" where
  "plain_rule x pr \<longleftrightarrow> Validate pr \<and> pr_domains pr = [] \<and> pr_prefix pr \<noteq> []
     \<and> CHR ''/'' \<in> set (pr_prefix pr) \<and> x_cidr x (pr_prefix pr)
     \<and> \<not> prefix ''geoip6:'' (ToLower (pr_prefix pr)) \<and> \<not> prefix ''geoip:'' (ToLower (pr_prefix pr))"

lemma Expand_plain: "plain_rule x pr \<Longrightarrow> Expand x g pr = [pr_prefix pr]"
  by (simp add: plain_rule_def Expand_def prefix_networks_def add_prefix_def Let_def)

text \<open>What a list of networks gives: its lines that hold a network, none twice.\<close>

lemma parseCIDRs_spec:
  "distinct (parseCIDRs content)"
  "set (parseCIDRs content) =
     {l \<in> go_trim_space ` set (scan_lines content). \<not> prefix ''#'' l \<and> CHR ''/'' \<in> set l}"
proof -
  let ?step = "\<lambda>l out. let line = go_trim_space l
                   in if line = [] \<or> prefix ''#'' line then out
                      else if CHR ''/'' \<notin> set line then out
                      else if line \<in> set out then out
                      else out @ [line]"
  have "(distinct out \<longrightarrow> distinct (fold ?step ls out)) \<and>
      set (fold ?step ls out) = set out \<union>
        {l \<in> go_trim_space ` set ls. \<not> prefix ''#'' l \<and> CHR ''/'' \<in> set l}" for ls out
  proof (induction ls arbitrary: out)
    case (Cons l ls)
    let ?out = "?step l out"
    have "set ?out = set out \<union> {k. k = go_trim_space l \<and> \<not> prefix ''#'' k \<and> CHR ''/'' \<in> set k}"
      by (auto simp: Let_def)
    moreover have "distinct out \<longrightarrow> distinct ?out" by (simp add: Let_def)
    moreover note Cons [of ?out]
    ultimately show ?case by (simp only: fold.simps comp_apply list.set image_insert) blast
  qed simp
  note spec = this [of "[]" "scan_lines content"]
  show "distinct (parseCIDRs content)" unfolding parseCIDRs_def using conjunct1 [OF spec] by simp
  show "set (parseCIDRs content) =
      {l \<in> go_trim_space ` set (scan_lines content). \<not> prefix ''#'' l \<and> CHR ''/'' \<in> set l}"
    unfolding parseCIDRs_def using conjunct2 [OF spec] by simp
qed

end
