(* ===== verification/Go_Render.thy ===== *)
theory Go_Render
  imports Go_Expand Go_Status
begin

text \<open>
  The configuration files the agent writes: \<open>pkg/wireguard/render.go\<close>,
  \<open>pkg/frr/bgp.go\<close>, and from \<open>pkg/agent\<close> the addresses of the tunnels
  (\<open>wstunnel.go\<close>) and the networks added for policy rules (\<open>render.go\<close>).
\<close>

definition newline :: string where
  "newline = [CHR 0x0A]"

section \<open>WireGuard\<close>

definition interface_section :: "node \<Rightarrow> string \<Rightarrow> string" where
  "interface_section n privateKey =
     ''[Interface]'' @ newline
     @ (if n_OverlayIP n \<noteq> [] then ''Address = '' @ n_OverlayIP n @ newline else [])
     @ (if 0 < n_ListenPort n then ''ListenPort = '' @ show_int (n_ListenPort n) @ newline else [])
     @ (if privateKey \<noteq> [] then ''PrivateKey = '' @ privateKey @ newline else [])
     @ newline"

definition peer_endpoint :: "node \<Rightarrow> peer \<Rightarrow> string" where
  "peer_endpoint n p =
     (case map_of (n_PeerEndpoints n) (p_ID p) of
        Some override \<Rightarrow> if override \<noteq> [] then override else p_Endpoint p
      | None \<Rightarrow> p_Endpoint p)"

definition peer_section :: "node \<Rightarrow> peer \<Rightarrow> string" where
  "peer_section n p =
     ''[Peer]'' @ newline
     @ ''PublicKey = '' @ p_PublicKey p @ newline
     @ (let ep = peer_endpoint n p in if ep \<noteq> [] then ''Endpoint = '' @ ep @ newline else [])
     @ (if p_AllowedIPs p \<noteq> [] then ''AllowedIPs = '' @ join '', '' (p_AllowedIPs p) @ newline else [])
     @ (if 0 < p_Keepalive p then ''PersistentKeepalive = '' @ show_int (p_Keepalive p) @ newline else [])
     @ newline"

definition RenderConfig :: "node \<Rightarrow> peer list \<Rightarrow> string \<Rightarrow> string" where
  "RenderConfig n ps privateKey =
     interface_section n privateKey @ concat (map (peer_section n) ps)"

section \<open>FRR\<close>

definition stripMask :: "string \<Rightarrow> string" where
  "stripMask ip =
     (let host = takeWhile (\<lambda>c. c \<noteq> CHR ''/'') ip
      in if CHR ''/'' \<in> set ip \<and> host \<noteq> [] then host else ip)"

text \<open>The first network of the first peer with this id.\<close>

definition overlayForPeer :: "string \<Rightarrow> peer list \<Rightarrow> string" where
  "overlayForPeer k ps =
     (case filter (\<lambda>p. p_ID p = k \<and> p_AllowedIPs p \<noteq> []) ps of
        [] \<Rightarrow> []
      | p # _ \<Rightarrow> hd (p_AllowedIPs p))"

definition NeighborOverlayIPs :: "peer list \<Rightarrow> (string \<times> int) list" where
  "NeighborOverlayIPs ps =
     fold (\<lambda>p res. if p_AllowedIPs p = [] then res else AList.update (hd (p_AllowedIPs p)) 0 res) ps []"

definition rule_target :: "policy_rule \<Rightarrow> string" where
  "rule_target pr = (if pr_path pr \<noteq> [] then hd (pr_path pr) else pr_viaNode pr)"

definition frr_line :: "string list \<Rightarrow> string" where
  "frr_line ws = '' '' @ join '' '' ws @ newline"

definition frr_rule_lines :: "net \<Rightarrow> geo_settings \<Rightarrow> peer list \<Rightarrow> policy_rule \<Rightarrow> string list" where
  "frr_rule_lines x g ps pr =
     (if pr_viaNode pr = [] \<and> pr_path pr = [] then []
      else
        (let nh = stripMask (overlayForPeer (rule_target pr) ps)
         in if nh = [] then [] else map (\<lambda>t. frr_line [''ip route'', t, nh]) (Expand x g pr)))"

text \<open>
  The neighbours come in the order in which the map is walked, which Go leaves open; here it is
  the order of the list.
\<close>

definition RenderBGP ::
  "net \<Rightarrow> geo_settings \<Rightarrow> int \<Rightarrow> string \<Rightarrow> string \<Rightarrow> (string \<times> int) list \<Rightarrow> string list \<Rightarrow> plan \<Rightarrow> string" where
  "RenderBGP x g localASN0 routerID iface0 neighbors advertised pl =
     (let localASN = (if localASN0 = 0 then 65000 else localASN0);
          iface = (if iface0 = [] then ''wg0'' else iface0);
          egress = (if pl_EgressPeerID pl \<noteq> [] \<and> pl_Peers pl \<noteq> []
                    then overlayForPeer (pl_EgressPeerID pl) (pl_Peers pl) else [])
      in ''router bgp '' @ show_int localASN @ newline
         @ (if routerID \<noteq> [] then frr_line [''bgp router-id'', routerID] else [])
         @ concat (map (\<lambda>(ip, asn).
               frr_line [''neighbor'', ip, ''remote-as'', show_int (if asn = 0 then localASN else asn)]
               @ frr_line [''neighbor'', ip, ''update-source'', iface]) neighbors)
         @ concat (map (\<lambda>pfx. frr_line [''network'', pfx]) advertised)
         @ (if egress \<noteq> [] then frr_line [''ip route 0.0.0.0/0'', stripMask egress] else [])
         @ concat (concat (map (frr_rule_lines x g (pl_Peers pl)) (pl_PolicyRules pl)))
         @ ''!'' @ newline)"

section \<open>Tunnels\<close>

definition endpointHost :: "string \<Rightarrow> string" where
  "endpointHost ep =
     (if ep = [] then []
      else
        (case (if CHR '':'' \<in> set ep then SplitHostPort ep else None) of
           Some h \<Rightarrow> h
         | None \<Rightarrow> if Atoi ep \<noteq> None then [] else ep))"

fun allocateLocalPorts :: "peer list \<Rightarrow> int \<Rightarrow> (string \<times> int) list \<Rightarrow> (string \<times> int) list" where
  "allocateLocalPorts [] cur hostToPort = hostToPort"
| "allocateLocalPorts (p # ps) cur hostToPort =
     (let host = endpointHost (p_Endpoint p)
      in if host = [] then allocateLocalPorts ps cur hostToPort
         else if map_of hostToPort host \<noteq> None then allocateLocalPorts ps cur hostToPort
         else allocateLocalPorts ps (cur + 1) (hostToPort @ [(host, cur)]))"

text \<open>The endpoint of a peer becomes the local end of the tunnel to its host.\<close>

definition tunnel_endpoint :: "(string \<times> int) list \<Rightarrow> peer \<Rightarrow> peer" where
  "tunnel_endpoint hostToLocal p =
     (let host = endpointHost (p_Endpoint p)
      in if host = [] then p
         else (case map_of hostToLocal host of
             Some lp \<Rightarrow> p\<lparr>p_Endpoint := ''127.0.0.1:'' @ show_int lp\<rparr>
           | None \<Rightarrow> p))"

section \<open>The networks of a policy\<close>

definition rule_prefixes :: "net \<Rightarrow> geo_settings \<Rightarrow> policy_rule list \<Rightarrow> (string \<times> string list) list" where
  "rule_prefixes x g rules =
     fold (\<lambda>pr targets.
        let pfx = Expand x g pr; target = rule_target pr
        in if pfx = [] then targets
           else if target = [] then targets
           else AList.update target (slice_of targets target @ pfx) targets) rules []"

definition egress_targets :: "net \<Rightarrow> geo_settings \<Rightarrow> node \<Rightarrow> (string \<times> string list) list" where
  "egress_targets x g n =
     (let targets = rule_prefixes x g (n_PolicyRules n); egress = n_EgressPeerID n
      in if n_DefaultRoute n \<and> egress \<noteq> []
         then AList.update egress (slice_of targets egress @ [''0.0.0.0/0'']) targets
         else targets)"

definition augmentEgressAllowedIPs :: "net \<Rightarrow> geo_settings \<Rightarrow> peer list \<Rightarrow> node \<Rightarrow> peer list" where
  "augmentEgressAllowedIPs x g ps n =
     map (\<lambda>p. case map_of (egress_targets x g n) (p_ID p) of
                None \<Rightarrow> p
              | Some want \<Rightarrow> p\<lparr>p_AllowedIPs := add_cidrs want (p_AllowedIPs p)\<rparr>) ps"

text \<open>\<open>policyPrefixes\<close>: the networks of all rules, none twice.\<close>

definition policyPrefixes :: "net \<Rightarrow> geo_settings \<Rightarrow> policy_rule list \<Rightarrow> string list" where
  "policyPrefixes x g rules = fold (\<lambda>pr. add_cidrs (Expand x g pr)) rules []"

section \<open>Lemmas\<close>

text \<open>Every tunnel has a port of its own, counted up from the base.\<close>

lemma allocateLocalPorts_gen:
  assumes "map snd hp = [b..cur - 1]" and "distinct (map fst hp)" and "b \<le> cur"
  shows "(\<exists>cur'. map snd (allocateLocalPorts ps cur hp) = [b..cur'])
    \<and> distinct (map fst (allocateLocalPorts ps cur hp))
    \<and> fst ` set (allocateLocalPorts ps cur hp) =
        fst ` set hp \<union> ((\<lambda>p. endpointHost (p_Endpoint p)) ` set ps - {[]})"
  using assms
proof (induction ps arbitrary: cur hp)
  case Nil
  then show ?case by auto
next
  case (Cons p ps)
  let ?h = "endpointHost (p_Endpoint p)"
  have dom: "map_of hp ?h \<noteq> None \<longleftrightarrow> ?h \<in> fst ` set hp"
    by (simp add: map_of_eq_None_iff)
  show ?case
  proof (cases "?h = [] \<or> ?h \<in> fst ` set hp")
    case True
    then have "allocateLocalPorts (p # ps) cur hp = allocateLocalPorts ps cur hp"
      using dom by (auto simp: Let_def)
    then show ?thesis using Cons.IH [OF Cons.prems] True by auto
  next
    case False
    then have step: "allocateLocalPorts (p # ps) cur hp = allocateLocalPorts ps (cur + 1) (hp @ [(?h, cur)])"
      using dom by (auto simp: Let_def)
    have "map snd (hp @ [(?h, cur)]) = [b..cur + 1 - 1]" "distinct (map fst (hp @ [(?h, cur)]))" "b \<le> cur + 1"
      using Cons.prems False upto_rec2 [of b cur] by auto
    from Cons.IH [OF this] show ?thesis unfolding step using False by auto
  qed
qed

lemma allocateLocalPorts_spec:
  "\<exists>cur. map snd (allocateLocalPorts ps base []) = [base..cur]"
  "distinct (map fst (allocateLocalPorts ps base []))"
  "fst ` set (allocateLocalPorts ps base []) = (\<lambda>p. endpointHost (p_Endpoint p)) ` set ps - {[]}"
  using allocateLocalPorts_gen [of "[]" base base ps] by auto

lemma set_rule_prefixes_gen:
  "set (slice_of (fold (\<lambda>pr targets.
        let pfx = Expand x g pr; target = rule_target pr
        in if pfx = [] then targets
           else if target = [] then targets
           else AList.update target (slice_of targets target @ pfx) targets) rules ts) k)
   = set (slice_of ts k) \<union> {p. k \<noteq> [] \<and> (\<exists>pr\<in>set rules. rule_target pr = k \<and> p \<in> set (Expand x g pr))}"
proof (induction rules arbitrary: ts)
  case (Cons pr rules)
  show ?case by (simp only: fold.simps comp_apply Cons) (auto simp: Let_def slice_of_def)
qed auto

lemma set_rule_prefixes:
  "set (slice_of (rule_prefixes x g rules) k) =
     {p. k \<noteq> [] \<and> (\<exists>pr\<in>set rules. rule_target pr = k \<and> p \<in> set (Expand x g pr))}"
  by (simp add: rule_prefixes_def set_rule_prefixes_gen)

lemma set_egress_targets:
  "set (slice_of (egress_targets x g n) k) =
     {p. k \<noteq> [] \<and> (\<exists>pr\<in>set (n_PolicyRules n). rule_target pr = k \<and> p \<in> set (Expand x g pr))}
     \<union> (if n_DefaultRoute n \<and> k = n_EgressPeerID n \<and> k \<noteq> [] then {''0.0.0.0/0''} else {})"
  by (auto simp: egress_targets_def Let_def set_rule_prefixes)

definition augmented :: "net \<Rightarrow> geo_settings \<Rightarrow> node \<Rightarrow> peer \<Rightarrow> peer" where
  "augmented x g n p =
     p\<lparr>p_AllowedIPs := add_cidrs (slice_of (egress_targets x g n) (p_ID p)) (p_AllowedIPs p)\<rparr>"

lemma augmentEgressAllowedIPs_map: "augmentEgressAllowedIPs x g ps n = map (augmented x g n) ps"
  by (auto simp: augmentEgressAllowedIPs_def augmented_def slice_of_def split: option.split)

lemma augmented_simps [simp]:
  "p_ID (augmented x g n p) = p_ID p" "p_PublicKey (augmented x g n p) = p_PublicKey p"
  "p_Endpoint (augmented x g n p) = p_Endpoint p" "p_Keepalive (augmented x g n p) = p_Keepalive p"
  by (simp_all add: augmented_def)

lemma set_augmented:
  "set (p_AllowedIPs (augmented x g n p)) = set (p_AllowedIPs p) \<union> set (slice_of (egress_targets x g n) (p_ID p))"
  by (simp add: augmented_def set_add_cidrs)

lemma tunnel_endpoint_simps [simp]:
  "p_ID (tunnel_endpoint m p) = p_ID p" "p_PublicKey (tunnel_endpoint m p) = p_PublicKey p"
  "p_AllowedIPs (tunnel_endpoint m p) = p_AllowedIPs p" "p_Keepalive (tunnel_endpoint m p) = p_Keepalive p"
  by (simp_all add: tunnel_endpoint_def Let_def split: option.split)

text \<open>A part of a text between two newlines is one of its lines.\<close>

lemma split_on_middle:
  assumes "CHR 0x0A \<notin> set l"
  shows "\<exists>us. split_on (CHR 0x0A) (a @ newline @ l @ newline @ b) = us @ l # split_on (CHR 0x0A) b \<and> us \<noteq> []"
proof (induction a)
  case Nil
  show ?case by (intro exI [of _ "[[]]"]) (simp add: newline_def split_on_append [OF assms])
next
  case (Cons c a)
  then obtain u us where "split_on (CHR 0x0A) (a @ newline @ l @ newline @ b) = (u # us) @ l # split_on (CHR 0x0A) b"
    by (metis neq_Nil_conv)
  then show ?case
    by (cases "c = CHR 0x0A") (auto intro: exI [of _ "[] # u # us"] exI [of _ "(c # u) # us"])
qed

lemma line_between_newlines:
  "CHR 0x0A \<notin> set l \<Longrightarrow> l \<in> set (split_on (CHR 0x0A) (a @ newline @ l @ newline @ b))"
  using split_on_middle [of l a b] by auto

end
