(* ===== verification/Go_Host.thy ===== *)
theory Go_Host
  imports Go_Render
begin

text \<open>
  What the agent does to its host: the routes of \<open>pkg/agent/render.go\<close> and the
  forwarding and address translation of \<open>pkg/agent/nat.go\<close>.  The program runs the
  commands \<open>ip\<close> and \<open>iptables\<close>; a command is a value here, and the tables
  of the kernel are the state it acts on.
\<close>

section \<open>The tables of the kernel\<close>

datatype selector = From string | To string | All

text \<open>
  \<open>ip route replace d [via g] dev i table t\<close>, \<open>ip route del d dev i table t\<close>
  and \<open>ip rule add s lookup t priority p\<close>; a route without \<open>table\<close> is one of the
  table \<open>main\<close>.
\<close>

datatype ip_cmd =
    Route_replace string "string option" string string
  | Route_del string string string
  | Rule_add selector string string

record route =
  rt_via :: "string option"
  rt_dev :: string

text \<open>The routes by table and destination, and the rules that choose a table.\<close>

record kernel =
  k_routes :: "((string \<times> string) \<times> route) list"
  k_rules :: "(selector \<times> string \<times> string) list"

text \<open>
  The tool: the destination a text denotes, the text it prints for a destination, which commands
  succeed, whether listing the routes does, and the output of \<open>ip route show default\<close>
  unless it fails.
\<close>

record ip_tool =
  ip_dst :: "string \<Rightarrow> string"
  ip_show :: "string \<Rightarrow> string"
  ip_runs :: "ip_cmd \<Rightarrow> bool"
  ip_lists :: bool
  ip_default :: "string option"

fun ip_exec :: "ip_tool \<Rightarrow> ip_cmd \<Rightarrow> kernel \<Rightarrow> kernel" where
  "ip_exec t (Route_replace d via dev tb) k =
     k\<lparr>k_routes := AList.update (tb, ip_dst t d) \<lparr>rt_via = via, rt_dev = dev\<rparr> (k_routes k)\<rparr>"
| "ip_exec t (Route_del d dev tb) k =
     (case map_of (k_routes k) (tb, ip_dst t d) of
        Some r \<Rightarrow> if rt_dev r = dev then k\<lparr>k_routes := AList.delete (tb, ip_dst t d) (k_routes k)\<rparr> else k
      | None \<Rightarrow> k)"
| "ip_exec t (Rule_add s tb prio) k =
     (if (s, tb, prio) \<in> set (k_rules k) then k else k\<lparr>k_rules := k_rules k @ [(s, tb, prio)]\<rparr>)"

definition run_ip :: "ip_tool \<Rightarrow> ip_cmd \<Rightarrow> kernel \<Rightarrow> kernel" where
  "run_ip t c k = (if ip_runs t c then ip_exec t c k else k)"

definition route_of :: "ip_tool \<Rightarrow> string \<Rightarrow> string \<Rightarrow> kernel \<Rightarrow> route option" where
  "route_of t tb d k = map_of (k_routes k) (tb, ip_dst t d)"

section \<open>The primary route\<close>

text \<open>\<open>strings.Fields\<close>, for the white space of ASCII\<close>

definition Fields :: "string \<Rightarrow> string list" where
  "Fields s =
     filter (\<lambda>w. w \<noteq> []) (split_on (CHR 0x20) (map (\<lambda>c. if [c] \<in> set ascii_space then CHR 0x20 else c) s))"

text \<open>The last word after \<open>key\<close>, searched from the second word on.\<close>

fun word_after :: "string \<Rightarrow> string list \<Rightarrow> string \<Rightarrow> string" where
  "word_after key (a # b # ws) found = word_after key (b # ws) (if a = key then b else found)"
| "word_after key _ found = found"

fun primary_of_lines :: "string list \<Rightarrow> string \<times> string" where
  "primary_of_lines [] = ([], [])"
| "primary_of_lines (line # ls) =
     (let fields = Fields line;
          gw = word_after ''via'' (tl fields) [];
          dev = word_after ''dev'' (tl fields) []
      in if length fields < 5 then primary_of_lines ls
         else if hd fields \<noteq> ''default'' then primary_of_lines ls
         else if prefix ''wg'' dev then primary_of_lines ls
         else if gw \<noteq> [] \<and> dev \<noteq> [] then (gw, dev)
         else primary_of_lines ls)"

definition detectPrimaryRoute :: "ip_tool \<Rightarrow> string \<times> string" where
  "detectPrimaryRoute t =
     (case ip_default t of
        None \<Rightarrow> ([], [])
      | Some out \<Rightarrow> primary_of_lines (split_on (CHR 0x0A) (go_trim_space out)))"

section \<open>Routes of peers\<close>

text \<open>
  The networks of the peers; Go walks them in any order, here they come in the order of
  the peers.
\<close>

definition desired_prefixes :: "net \<Rightarrow> peer list \<Rightarrow> string list" where
  "desired_prefixes x ps =
     add_cidrs (filter (\<lambda>p. p \<noteq> [] \<and> p \<noteq> ''0.0.0.0/0'' \<and> x_cidr4 x p) (concat (map p_AllowedIPs ps))) []"

fun ensure_routes :: "ip_tool \<Rightarrow> string \<Rightarrow> string \<Rightarrow> string list \<Rightarrow> kernel \<Rightarrow> bool \<times> kernel" where
  "ensure_routes t iface tb [] k = (True, k)"
| "ensure_routes t iface tb (pref # prefs) k =
     (let c = Route_replace pref None iface tb
      in if ip_runs t c then ensure_routes t iface tb prefs (ip_exec t c k) else (False, k))"

text \<open>The first words of the lines of \<open>ip route show table tb dev iface\<close>\<close>

definition shown_routes :: "ip_tool \<Rightarrow> string \<Rightarrow> string \<Rightarrow> kernel \<Rightarrow> string list" where
  "shown_routes t tb iface k =
     map (\<lambda>((_, d), _). ip_show t d) (filter (\<lambda>((tb', _), r). tb' = tb \<and> rt_dev r = iface) (k_routes k))"

definition prune_routes :: "ip_tool \<Rightarrow> string \<Rightarrow> string list \<Rightarrow> kernel \<Rightarrow> kernel" where
  "prune_routes t iface desired k =
     (if ip_lists t then
        fold (\<lambda>pref k. if pref \<in> set desired then k
                       else if \<not> prefix ''10.'' pref then k
                       else run_ip t (Route_del pref iface ''52'') k)
          (shown_routes t ''52'' iface k) k
      else k)"

definition syncPeerRoutes :: "net \<Rightarrow> ip_tool \<Rightarrow> peer list \<Rightarrow> string \<Rightarrow> kernel \<Rightarrow> kernel" where
  "syncPeerRoutes x t ps iface0 k =
     (let iface = (if iface0 = [] then ''wg0'' else iface0);
          desired = desired_prefixes x ps;
          (ok1, k1) = ensure_routes t iface ''main'' desired k
      in if \<not> ok1 then k1
         else (let (ok2, k2) = ensure_routes t iface ''52'' desired k1
               in if \<not> ok2 then k2 else prune_routes t iface desired k2))"

section \<open>Routes of the policy\<close>

definition host_of :: "string \<Rightarrow> string" where
  "host_of nh = hd (split_on (CHR ''/'') nh)"

definition apply_route :: "ip_tool \<Rightarrow> string \<Rightarrow> string \<Rightarrow> string \<Rightarrow> kernel \<Rightarrow> bool \<times> kernel" where
  "apply_route t iface pfx nh k =
     (if pfx = [] \<or> nh = [] then (True, k)
      else
        (let ip = host_of nh;
             k1 = run_ip t (Route_replace (ip @ ''/32'') None iface ''main'') k;
             c1 = Route_replace pfx (Some ip) iface ''main'';
             c2 = Route_replace pfx (Some ip) iface ''100''
         in if \<not> ip_runs t c1 then (False, k1)
            else if \<not> ip_runs t c2 then (False, ip_exec t c1 k1)
            else (True, ip_exec t c2 (ip_exec t c1 k1))))"

definition default_routes :: "ip_tool \<Rightarrow> plan \<Rightarrow> string \<Rightarrow> kernel \<Rightarrow> kernel" where
  "default_routes t pl iface k =
     (if pl_DefaultRoute pl then
        (let target = (if pl_DefaultRouteNextHop pl = [] then pl_EgressPeerID pl else pl_DefaultRouteNextHop pl);
             nh = overlayForPeer target (pl_Peers pl)
         in if nh = [] then k
            else
              (let k1 = run_ip t (Route_replace ''default'' (Some (host_of nh)) iface ''100'') k;
                   k2 = fold (\<lambda>c. run_ip t (Rule_add (From c) ''main'' ''100'')) (pl_BypassCIDRs pl) k1
               in run_ip t (Rule_add All ''100'' ''200'') k2))
      else k)"

text \<open>A rule that leaves the mesh at this node.\<close>

definition local_route :: "ip_tool \<Rightarrow> string \<times> string \<Rightarrow> string \<Rightarrow> kernel \<Rightarrow> kernel" where
  "local_route t primary pfx k =
     (let k1 = run_ip t (Rule_add (To pfx) ''main'' ''150'') k
      in if fst primary \<noteq> [] \<and> snd primary \<noteq> []
         then run_ip t (Route_replace pfx (Some (fst primary)) (snd primary) ''main'') k1 else k1)"

definition via_route :: "ip_tool \<Rightarrow> string \<Rightarrow> string \<Rightarrow> string \<Rightarrow> kernel \<Rightarrow> kernel" where
  "via_route t iface nextHop pfx k =
     (case apply_route t iface pfx nextHop k of
        (False, k1) \<Rightarrow> k1
      | (True, k1) \<Rightarrow> run_ip t (Rule_add (To pfx) ''main'' ''140'') k1)"

definition rule_routes ::
  "net \<Rightarrow> geo_settings \<Rightarrow> ip_tool \<Rightarrow> peer list \<Rightarrow> string \<Rightarrow> policy_rule \<Rightarrow> kernel \<Rightarrow> kernel" where
  "rule_routes x g t ps iface pr k =
     (if \<not> Validate pr then k
      else if pr_viaNode pr = ''local'' \<or> pr_viaNode pr = ''main'' then
        fold (local_route t (detectPrimaryRoute t)) (Expand x g pr) k
      else
        (let nextHop = overlayForPeer (rule_target pr) ps
         in if nextHop = [] then k else fold (via_route t iface nextHop) (Expand x g pr) k))"

definition applyStaticRoutes ::
  "net \<Rightarrow> geo_settings \<Rightarrow> ip_tool \<Rightarrow> plan \<Rightarrow> string \<Rightarrow> kernel \<Rightarrow> kernel" where
  "applyStaticRoutes x g t pl iface k =
     fold (rule_routes x g t (pl_Peers pl) iface) (pl_PolicyRules pl)
       (default_routes t pl iface (syncPeerRoutes x t (pl_Peers pl) iface k))"

section \<open>Forwarding and address translation\<close>

text \<open>
  A rule of \<open>iptables\<close> is its table with the arguments behind \<open>-C\<close>, \<open>-A\<close>
  or \<open>-D\<close>; \<open>fw_saved\<close> is the file with interface, egress and network of the rules
  installed before.
\<close>

type_synonym fw_rule = "string \<times> string list"

record firewall =
  fw_rules :: "fw_rule list"
  fw_forward :: bool
  fw_saved :: "string \<times> string \<times> string"

text \<open>
  The operating system, the variables \<open>AUTO_NAT\<close>, \<open>WG_CIDR\<close>,
  \<open>NAT_EGRESS_IF\<close> and \<open>WAN_IF\<close>, whether \<open>iptables\<close> is found, which
  rules can be added, and whether \<open>sysctl\<close> and saving the file succeed.
\<close>

record nat_env =
  ne_darwin :: bool
  ne_auto :: string
  ne_cidr :: string
  ne_egress :: string
  ne_wan :: string
  ne_iptables :: bool
  ne_adds :: "fw_rule \<Rightarrow> bool"
  ne_sysctl :: bool
  ne_saves :: bool

definition forward_out :: "string \<Rightarrow> string \<Rightarrow> fw_rule" where
  "forward_out iface egress = (''filter'', [''FORWARD'', ''-i'', iface, ''-o'', egress, ''-j'', ''ACCEPT''])"

definition forward_back :: "string \<Rightarrow> string \<Rightarrow> fw_rule" where
  "forward_back iface egress = (''filter'', [''FORWARD'', ''-i'', egress, ''-o'', iface,
     ''-m'', ''state'', ''--state'', ''RELATED,ESTABLISHED'', ''-j'', ''ACCEPT''])"

definition masquerade :: "string \<Rightarrow> string \<Rightarrow> fw_rule" where
  "masquerade cidr egress = (''nat'', [''POSTROUTING'', ''-s'', cidr, ''-o'', egress, ''-j'', ''MASQUERADE''])"

definition ensureIptablesRule :: "nat_env \<Rightarrow> fw_rule \<Rightarrow> firewall \<Rightarrow> bool \<times> firewall" where
  "ensureIptablesRule ne r f =
     (if r \<in> set (fw_rules f) then (True, f)
      else if ne_adds ne r then (True, f\<lparr>fw_rules := fw_rules f @ [r]\<rparr>)
      else (False, f))"

definition cleanupNatRules :: "string \<Rightarrow> string \<Rightarrow> string \<Rightarrow> firewall \<Rightarrow> firewall" where
  "cleanupNatRules iface egress cidr f =
     (if iface = [] \<or> egress = [] \<or> cidr = [] then f
      else f\<lparr>fw_rules := remove1 (forward_back iface egress) (remove1 (forward_out iface egress)
               (remove1 (masquerade cidr egress) (fw_rules f)))\<rparr>)"

definition nat_cidr :: "nat_env \<Rightarrow> string" where
  "nat_cidr ne = (if ne_cidr ne = [] then ''10.10.0.0/16'' else ne_cidr ne)"

definition nat_egress :: "nat_env \<Rightarrow> ip_tool \<Rightarrow> string \<Rightarrow> string" where
  "nat_egress ne t iface =
     (if ne_egress ne \<noteq> [] then ne_egress ne
      else if ne_wan ne \<noteq> [] then ne_wan ne
      else if snd (detectPrimaryRoute t) \<noteq> [] then snd (detectPrimaryRoute t)
      else iface)"

definition ensureNAT :: "nat_env \<Rightarrow> ip_tool \<Rightarrow> string \<Rightarrow> firewall \<Rightarrow> firewall" where
  "ensureNAT ne t iface0 f =
     (if ne_darwin ne then f
      else
        (let iface = (if iface0 = [] then ''wg0'' else iface0)
         in if ToLower (ne_auto ne) = ''false'' then f
            else if \<not> ne_iptables ne then f
            else
              (let cidr = nat_cidr ne; egress = nat_egress ne t iface;
                   (prevIface, prevEgress, prevCidr) = fw_saved f;
                   f1 = (if prevIface \<noteq> [] \<and> (prevIface \<noteq> iface \<or> prevEgress \<noteq> egress \<or> prevCidr \<noteq> cidr)
                         then cleanupNatRules prevIface prevEgress prevCidr f else f);
                   f2 = (if ne_sysctl ne then f1\<lparr>fw_forward := True\<rparr> else f1);
                   (ok3, f3) = ensureIptablesRule ne (forward_out iface egress) f2
               in if \<not> ok3 then f3
                  else (let (ok4, f4) = ensureIptablesRule ne (forward_back iface egress) f3
                        in if \<not> ok4 then f4
                           else (let (ok5, f5) = ensureIptablesRule ne (masquerade cidr egress) f4
                                 in if \<not> ok5 then f5
                                    else if ne_saves ne then f5\<lparr>fw_saved := (iface, egress, cidr)\<rparr>
                                    else f5)))))"

end
