(* ===== verification/Go_Routes.thy ===== *)
theory Go_Routes
  imports Go_Host
begin

text \<open>
  What the commands of \<open>Go_Host\<close> leave in the tables of the kernel: which route a
  network has after the agent has applied a plan, and which routes it never touches.
\<close>

section \<open>Single commands\<close>

lemma routes_replace [simp]:
  "map_of (k_routes (ip_exec t (Route_replace d via dev tb) k)) (tb', D) =
     (if tb' = tb \<and> D = ip_dst t d then Some \<lparr>rt_via = via, rt_dev = dev\<rparr> else map_of (k_routes k) (tb', D))"
  by simp

lemma routes_rule_add [simp]: "k_routes (ip_exec t (Rule_add s tb prio) k) = k_routes k"
  by simp

lemma routes_del:
  "(tb', D) \<noteq> (tb, ip_dst t d) \<Longrightarrow>
   map_of (k_routes (ip_exec t (Route_del d dev tb) k)) (tb', D) = map_of (k_routes k) (tb', D)"
  by (simp add: map_of_delete split: option.split)

lemma run_rule_add [simp]: "k_routes (run_ip t (Rule_add s tb prio) k) = k_routes k"
  by (simp add: run_ip_def)

lemma run_replace_other:
  "(tb', D) \<noteq> (tb, ip_dst t d) \<Longrightarrow>
   map_of (k_routes (run_ip t (Route_replace d via dev tb) k)) (tb', D) = map_of (k_routes k) (tb', D)"
  by (auto simp: run_ip_def)

declare ip_exec.simps [simp del]

lemma fold_rule_add [simp]: "k_routes (fold (\<lambda>c. run_ip t (Rule_add (f c) tb prio)) cs k) = k_routes k"
  by (induction cs arbitrary: k) simp_all

section \<open>Which routes are left alone\<close>

lemma desired_prefixes_set:
  "set (desired_prefixes x ps) =
     {p. \<exists>q\<in>set ps. p \<in> set (p_AllowedIPs q) \<and> p \<noteq> [] \<and> p \<noteq> ''0.0.0.0/0'' \<and> x_cidr4 x p}"
  by (auto simp: desired_prefixes_def set_add_cidrs)

lemma ensure_routes_frame:
  "(tb', D) \<notin> Pair tb ` ip_dst t ` set prefs \<Longrightarrow>
   map_of (k_routes (snd (ensure_routes t iface tb prefs k))) (tb', D) = map_of (k_routes k) (tb', D)"
  by (induction t iface tb prefs k rule: ensure_routes.induct) (auto simp: Let_def)

lemma prune_routes_frame:
  assumes "tb \<noteq> ''52''"
  shows "map_of (k_routes (prune_routes t iface desired k)) (tb, D) = map_of (k_routes k) (tb, D)"
proof -
  have "map_of (k_routes (fold (\<lambda>pref k. if pref \<in> set desired then k
        else if \<not> prefix ''10.'' pref then k else run_ip t (Route_del pref iface ''52'') k) ps k)) (tb, D)
      = map_of (k_routes k) (tb, D)" for ps
    using assms by (induction ps arbitrary: k) (simp_all add: run_ip_def routes_del)
  then show ?thesis by (simp add: prune_routes_def)
qed

lemma syncPeerRoutes_frame:
  assumes "tb \<noteq> ''52''" and "D \<notin> ip_dst t ` set (desired_prefixes x ps)"
  shows "map_of (k_routes (syncPeerRoutes x t ps iface k)) (tb, D) = map_of (k_routes k) (tb, D)"
proof -
  have "map_of (k_routes (snd (ensure_routes t i tb' (desired_prefixes x ps) k))) (tb, D) = map_of (k_routes k) (tb, D)"
    for i tb' k
    using assms(2) by (intro ensure_routes_frame) auto
  then show ?thesis
    by (simp add: syncPeerRoutes_def Let_def case_prod_beta prune_routes_frame [OF assms(1)])
qed

lemma default_routes_frame:
  assumes "tb \<noteq> ''100'' \<or> D \<noteq> ip_dst t ''default''"
  shows "map_of (k_routes (default_routes t pl iface k)) (tb, D) = map_of (k_routes k) (tb, D)"
  using assms by (auto simp: default_routes_def Let_def run_replace_other)

lemma via_route_frame:
  assumes "D \<noteq> ip_dst t pfx" and "D \<noteq> ip_dst t (host_of nh @ ''/32'')"
  shows "map_of (k_routes (via_route t iface nh pfx k)) (tb, D) = map_of (k_routes k) (tb, D)"
  using assms by (simp add: via_route_def apply_route_def Let_def run_replace_other split: prod.split bool.split)

lemma local_route_frame:
  assumes "D \<noteq> ip_dst t pfx"
  shows "map_of (k_routes (local_route t primary pfx k)) (tb, D) = map_of (k_routes k) (tb, D)"
  using assms by (simp add: local_route_def Let_def run_replace_other)

lemma fold_frame:
  assumes "\<forall>a\<in>set xs. \<forall>k. map_of (k_routes (f a k)) r = map_of (k_routes k) r"
  shows "map_of (k_routes (fold f xs k)) r = map_of (k_routes k) r"
  using assms by (induction xs arbitrary: k) simp_all

text \<open>The host route a rule adds for its next hop.\<close>

definition hop_host :: "ip_tool \<Rightarrow> peer list \<Rightarrow> policy_rule \<Rightarrow> string" where
  "hop_host t ps pr = ip_dst t (host_of (overlayForPeer (rule_target pr) ps) @ ''/32'')"

lemma rule_routes_frame:
  assumes "D \<notin> ip_dst t ` set (Expand x g pr)" and "D \<noteq> hop_host t ps pr"
  shows "map_of (k_routes (rule_routes x g t ps iface pr k)) (tb, D) = map_of (k_routes k) (tb, D)"
proof -
  have "map_of (k_routes (fold (local_route t p) (Expand x g pr) k)) (tb, D) = map_of (k_routes k) (tb, D)" for p
    using assms(1) local_route_frame by (intro fold_frame) blast
  moreover have "map_of (k_routes (fold (via_route t iface
      (overlayForPeer (rule_target pr) ps)) (Expand x g pr) k)) (tb, D) = map_of (k_routes k) (tb, D)"
    using assms via_route_frame unfolding hop_host_def by (intro fold_frame) blast
  ultimately show ?thesis by (simp add: rule_routes_def Let_def)
qed

lemma applyStaticRoutes_frame:
  assumes "tb \<noteq> ''52''" and "D \<notin> ip_dst t ` set (desired_prefixes x (pl_Peers pl))"
    and "tb \<noteq> ''100'' \<or> D \<noteq> ip_dst t ''default''"
    and "\<forall>pr\<in>set (pl_PolicyRules pl). D \<notin> ip_dst t ` set (Expand x g pr) \<and> D \<noteq> hop_host t (pl_Peers pl) pr"
  shows "map_of (k_routes (applyStaticRoutes x g t pl iface k)) (tb, D) = map_of (k_routes k) (tb, D)"
proof -
  have "map_of (k_routes (applyStaticRoutes x g t pl iface k)) (tb, D) =
      map_of (k_routes (default_routes t pl iface (syncPeerRoutes x t (pl_Peers pl) iface k))) (tb, D)"
    unfolding applyStaticRoutes_def using assms(4) rule_routes_frame by (intro fold_frame) blast
  then show ?thesis by (simp add: default_routes_frame [OF assms(3)] syncPeerRoutes_frame [OF assms(1,2)])
qed

section \<open>Which route a rule gets\<close>

lemma via_route_hit:
  assumes "\<forall>c. ip_runs t c" and "pfx \<noteq> []" and "nh \<noteq> []" and "tb = ''main'' \<or> tb = ''100''"
    and "D \<noteq> ip_dst t (host_of nh @ ''/32'')"
  shows "map_of (k_routes (via_route t iface nh pfx k)) (tb, D) =
    (if D = ip_dst t pfx then Some \<lparr>rt_via = Some (host_of nh), rt_dev = iface\<rparr> else map_of (k_routes k) (tb, D))"
  using assms by (auto simp: via_route_def apply_route_def Let_def run_replace_other)

lemma via_routes_hit:
  assumes "\<forall>c. ip_runs t c" and "[] \<notin> set ps" and "nh \<noteq> []" and "tb = ''main'' \<or> tb = ''100''"
    and "D \<noteq> ip_dst t (host_of nh @ ''/32'')"
  shows "map_of (k_routes (fold (via_route t iface nh) ps k)) (tb, D) =
    (if D \<in> ip_dst t ` set ps then Some \<lparr>rt_via = Some (host_of nh), rt_dev = iface\<rparr> else map_of (k_routes k) (tb, D))"
  using assms(2)
proof (induction ps arbitrary: k)
  case (Cons p ps)
  then show ?case using via_route_hit [OF assms(1) _ assms(3-5), of p] by auto
qed simp

lemma Nil_notin_Expand: "[] \<notin> set (Expand x g pr)"
  by (auto simp: set_Expand)

text \<open>The last rule for a destination decides its route, in both tables.\<close>

lemma last_rule_decides:
  assumes runs: "\<forall>c. ip_runs t c" and rules: "pl_PolicyRules pl = us @ pr # vs"
    and pr: "D \<in> ip_dst t ` set (Expand x g pr)" "pr_viaNode pr \<noteq> ''local''" "pr_viaNode pr \<noteq> ''main''"
      "overlayForPeer (rule_target pr) (pl_Peers pl) \<noteq> []"
    and later: "\<forall>r\<in>set vs. D \<notin> ip_dst t ` set (Expand x g r)"
    and hosts: "\<forall>r\<in>set (pl_PolicyRules pl). D \<noteq> hop_host t (pl_Peers pl) r"
    and tb: "tb = ''main'' \<or> tb = ''100''"
  shows "map_of (k_routes (applyStaticRoutes x g t pl iface k)) (tb, D) =
    Some \<lparr>rt_via = Some (host_of (overlayForPeer (rule_target pr) (pl_Peers pl))), rt_dev = iface\<rparr>"
proof -
  let ?f = "rule_routes x g t (pl_Peers pl) iface"
  have "map_of (k_routes (fold ?f vs k')) (tb, D) = map_of (k_routes k') (tb, D)" for k'
    using later hosts rules by (intro fold_frame) (simp add: rule_routes_frame)
  moreover have "Validate pr" using pr(1) Expand_valid by blast
  then have "map_of (k_routes (?f pr k')) (tb, D) =
      Some \<lparr>rt_via = Some (host_of (overlayForPeer (rule_target pr) (pl_Peers pl))), rt_dev = iface\<rparr>" for k'
    using via_routes_hit [OF runs Nil_notin_Expand pr(4) tb, of D] pr hosts rules
    by (simp add: rule_routes_def Let_def hop_host_def)
  ultimately show ?thesis by (simp add: applyStaticRoutes_def rules)
qed

section \<open>The routes of the overlay\<close>

lemma ensure_routes_all:
  assumes "\<forall>c. ip_runs t c"
  shows "fst (ensure_routes t iface tb prefs k)"
    and "map_of (k_routes (snd (ensure_routes t iface tb prefs k))) (tb', D) =
      (if tb' = tb \<and> D \<in> ip_dst t ` set prefs then Some \<lparr>rt_via = None, rt_dev = iface\<rparr>
       else map_of (k_routes k) (tb', D))"
  using assms by (induction prefs arbitrary: k) auto

lemma run_del:
  assumes "\<forall>c. ip_runs t c"
  shows "map_of (k_routes (run_ip t (Route_del d dev tb) k)) r =
    (if r = (tb, ip_dst t d) \<and> (\<exists>rt. map_of (k_routes k) r = Some rt \<and> rt_dev rt = dev) then None
     else map_of (k_routes k) r)"
  using assms by (auto simp: run_ip_def ip_exec.simps AList.delete_conv' split: option.split)

text \<open>Pruning only removes; a route of the interface that is shown by another name goes.\<close>

lemma pruned:
  fixes iface desired
  defines "step \<equiv> \<lambda>t pref k. if pref \<in> set desired then k
      else if \<not> prefix ''10.'' pref then k else run_ip t (Route_del pref iface ''52'') k"
  assumes "\<forall>c. ip_runs t c" and "a \<in> set ps" and "a \<notin> set desired" and "prefix ''10.'' a"
    and "\<forall>rt. map_of (k_routes k) (''52'', ip_dst t a) = Some rt \<longrightarrow> rt_dev rt = iface"
  shows "map_of (k_routes (fold (step t) ps k)) (''52'', ip_dst t a) = None"
proof -
  have none: "map_of (k_routes (fold (step t) qs k)) r = None" if "map_of (k_routes k) r = None" for qs k r
    using that by (induction qs arbitrary: k) (simp_all add: step_def run_del [OF assms(2)])
  show ?thesis using assms(3,6)
  proof (induction ps arbitrary: k)
    case (Cons p ps)
    show ?case
    proof (cases "p = a")
      case True
      have "map_of (k_routes (step t a k)) (''52'', ip_dst t a) = None"
        using Cons.prems(2) assms(4,5)
        by (cases "map_of (k_routes k) (''52'', ip_dst t a)") (auto simp: step_def run_del [OF assms(2)])
      then show ?thesis using none True by simp
    next
      case False
      have "\<forall>rt. map_of (k_routes (step t p k)) (''52'', ip_dst t a) = Some rt \<longrightarrow> rt_dev rt = iface"
        using Cons.prems(2) by (auto simp: step_def run_del [OF assms(2)] split: if_splits)
      then show ?thesis using Cons.IH Cons.prems(1) False by simp
    qed
  qed simp
qed

lemma overlay_pruned:
  assumes runs: "\<forall>c. ip_runs t c" "ip_lists t" and iface: "iface \<noteq> []"
    and tool: "ip_show t (ip_dst t (a @ ''/32'')) = a" "ip_dst t a = ip_dst t (a @ ''/32'')"
    and a: "prefix ''10.'' a" "a @ ''/32'' \<in> set (desired_prefixes x ps)" "a \<notin> set (desired_prefixes x ps)"
  shows "map_of (k_routes (syncPeerRoutes x t ps iface k)) (''main'', ip_dst t (a @ ''/32'')) =
      Some \<lparr>rt_via = None, rt_dev = iface\<rparr>"
    and "map_of (k_routes (syncPeerRoutes x t ps iface k)) (''52'', ip_dst t (a @ ''/32'')) = None"
proof -
  let ?ds = "desired_prefixes x ps"
  let ?k1 = "snd (ensure_routes t iface ''main'' ?ds k)"
  let ?k2 = "snd (ensure_routes t iface ''52'' ?ds ?k1)"
  have sync: "syncPeerRoutes x t ps iface k = prune_routes t iface ?ds ?k2"
    using iface ensure_routes_all(1) [OF runs(1)] by (simp add: syncPeerRoutes_def Let_def case_prod_beta)
  have hit: "map_of (k_routes ?k2) (tb, ip_dst t (a @ ''/32'')) = Some \<lparr>rt_via = None, rt_dev = iface\<rparr>"
    if "tb = ''main'' \<or> tb = ''52''" for tb
    using that a(2) by (auto simp: ensure_routes_all(2) [OF runs(1)])
  show "map_of (k_routes (syncPeerRoutes x t ps iface k)) (''main'', ip_dst t (a @ ''/32'')) =
      Some \<lparr>rt_via = None, rt_dev = iface\<rparr>"
    using hit by (simp add: sync prune_routes_frame)
  have "((''52'', ip_dst t (a @ ''/32'')), \<lparr>rt_via = None, rt_dev = iface\<rparr>) \<in> set (k_routes ?k2)"
    using hit by (simp add: map_of_SomeD)
  then have "ip_show t (ip_dst t (a @ ''/32'')) \<in> set (shown_routes t ''52'' iface ?k2)"
    unfolding shown_routes_def by force
  then have "a \<in> set (shown_routes t ''52'' iface ?k2)" by (simp add: tool(1))
  from pruned [OF runs(1) this a(3,1), of ?k2 iface] hit [of "''52''"]
  show "map_of (k_routes (syncPeerRoutes x t ps iface k)) (''52'', ip_dst t (a @ ''/32'')) = None"
    using runs(2) by (simp add: sync prune_routes_def tool(2))
qed

section \<open>Address translation\<close>

lemma ensureIptablesRule_all:
  "\<forall>r. ne_adds ne r \<Longrightarrow> ensureIptablesRule ne r f =
     (True, f\<lparr>fw_rules := if r \<in> set (fw_rules f) then fw_rules f else fw_rules f @ [r]\<rparr>)"
  by (cases r) (simp add: ensureIptablesRule_def)

lemma fw_rule_neq [simp]:
  "forward_out a b \<noteq> forward_back c d" "forward_back c d \<noteq> forward_out a b"
  "forward_out a b \<noteq> masquerade c d" "masquerade c d \<noteq> forward_out a b"
  "forward_back a b \<noteq> masquerade c d" "masquerade c d \<noteq> forward_back a b"
  by (simp_all add: forward_out_def forward_back_def masquerade_def)

text \<open>Whether the agent manages the rules at all.\<close>

definition nat_managed :: "nat_env \<Rightarrow> bool" where
  "nat_managed ne \<longleftrightarrow> \<not> ne_darwin ne \<and> ToLower (ne_auto ne) \<noteq> ''false'' \<and> ne_iptables ne
     \<and> (\<forall>r. ne_adds ne r) \<and> ne_saves ne"

definition nat_rules :: "string \<Rightarrow> string \<Rightarrow> string \<Rightarrow> fw_rule set" where
  "nat_rules iface egress cidr = {forward_out iface egress, forward_back iface egress, masquerade cidr egress}"

lemma ensureNAT_result:
  fixes t
  assumes "nat_managed ne" and "iface \<noteq> []"
  defines "egress \<equiv> nat_egress ne t iface" and "cidr \<equiv> nat_cidr ne"
  shows "fw_saved (ensureNAT ne t iface f) = (iface, egress, cidr)"
    and "nat_rules iface egress cidr \<subseteq> set (fw_rules (ensureNAT ne t iface f))"
    and "set (fw_rules (ensureNAT ne t iface f)) \<subseteq> set (fw_rules f) \<union> nat_rules iface egress cidr"
    and "distinct (fw_rules f) \<Longrightarrow> fw_saved f = (i0, e0, c0) \<Longrightarrow> i0 \<noteq> [] \<Longrightarrow> e0 \<noteq> [] \<Longrightarrow> c0 \<noteq> [] \<Longrightarrow>
      set (fw_rules (ensureNAT ne t iface f)) =
        (if (i0, e0, c0) = (iface, egress, cidr) then set (fw_rules f)
         else set (fw_rules f) - nat_rules i0 e0 c0) \<union> nat_rules iface egress cidr"
proof -
  obtain i1 e1 c1 where saved: "fw_saved f = (i1, e1, c1)" by (cases "fw_saved f")
  let ?f1 = "if i1 \<noteq> [] \<and> (i1 \<noteq> iface \<or> e1 \<noteq> egress \<or> c1 \<noteq> cidr) then cleanupNatRules i1 e1 c1 f else f"
  have all: "\<forall>r. ne_adds ne r" and flags: "\<not> ne_darwin ne" "ToLower (ne_auto ne) \<noteq> ''false''" "ne_iptables ne" "ne_saves ne"
    using assms(1) by (simp_all add: nat_managed_def)
  note run = ensureNAT_def Let_def ensureIptablesRule_all [OF all] egress_def [symmetric] cidr_def [symmetric]
  show "fw_saved (ensureNAT ne t iface f) = (iface, egress, cidr)"
    using flags assms(2) saved by (simp add: run)
  have rules: "set (fw_rules (ensureNAT ne t iface f)) = set (fw_rules ?f1) \<union> nat_rules iface egress cidr"
    using flags assms(2) saved by (simp add: run nat_rules_def insert_commute insert_absorb)
  then show "nat_rules iface egress cidr \<subseteq> set (fw_rules (ensureNAT ne t iface f))" by simp
  have "set (fw_rules (cleanupNatRules i1 e1 c1 f)) \<subseteq> set (fw_rules f)"
    by (auto simp: cleanupNatRules_def dest: notin_set_remove1 set_remove1_subset [THEN subsetD])
  then show "set (fw_rules (ensureNAT ne t iface f)) \<subseteq> set (fw_rules f) \<union> nat_rules iface egress cidr"
    unfolding rules by auto
  show "set (fw_rules (ensureNAT ne t iface f)) =
        (if (i0, e0, c0) = (iface, egress, cidr) then set (fw_rules f)
         else set (fw_rules f) - nat_rules i0 e0 c0) \<union> nat_rules iface egress cidr"
    if "distinct (fw_rules f)" "fw_saved f = (i0, e0, c0)" "i0 \<noteq> []" "e0 \<noteq> []" "c0 \<noteq> []"
  proof -
    have "set (fw_rules (cleanupNatRules i0 e0 c0 f)) = set (fw_rules f) - nat_rules i0 e0 c0"
      using that by (simp add: cleanupNatRules_def nat_rules_def set_diff_eq distinct_remove1) blast
    then show ?thesis unfolding rules using that saved by auto
  qed
qed

lemma ensureNAT_idem:
  assumes "nat_managed ne" and "iface \<noteq> []"
  shows "ensureNAT ne t iface (ensureNAT ne t iface f) = ensureNAT ne t iface f"
proof -
  let ?f = "ensureNAT ne t iface f"
  have all: "\<forall>r. ne_adds ne r" and flags: "\<not> ne_darwin ne" "ToLower (ne_auto ne) \<noteq> ''false''" "ne_iptables ne" "ne_saves ne"
    using assms(1) by (simp_all add: nat_managed_def)
  have fwd: "ne_sysctl ne \<Longrightarrow> fw_forward ?f"
    using flags assms(2) by (simp add: ensureNAT_def Let_def ensureIptablesRule_all [OF all] case_prod_beta)
  show ?thesis
    using ensureNAT_result(1,2) [OF assms, of t f] flags assms(2) fwd
    by (simp add: ensureNAT_def [of ne t iface ?f] Let_def ensureIptablesRule_all [OF all] nat_rules_def)
qed

end
