(* ===== verification/Agent_Text.thy ===== *)
theory Agent_Text
  imports Prelude
begin

text \<open>
  The texts of the agent (\<open>pkg/agent/plan.go\<close>), byte by byte in UTF-8, with their
  meaning in English.
\<close>

\<comment> \<open>policy sent, about to write the configuration\<close>
definition ag_applying :: string where
  "ag_applying =
     [CHR 0xE4, CHR 0xB8, CHR 0x8B, CHR 0xE5, CHR 0x8F, CHR 0x91,
      CHR 0xE7, CHR 0xAD, CHR 0x96, CHR 0xE7, CHR 0x95, CHR 0xA5,
      CHR 0xEF, CHR 0xBC, CHR 0x8C, CHR 0xE5, CHR 0x87, CHR 0x86,
      CHR 0xE5, CHR 0xA4, CHR 0x87, CHR 0xE5, CHR 0x86, CHR 0x99,
      CHR 0xE5, CHR 0x85, CHR 0xA5, CHR 0xE9, CHR 0x85, CHR 0x8D,
      CHR 0xE7, CHR 0xBD, CHR 0xAE]"

\<comment> \<open>rendering failed\<close>
definition ag_render_failed :: string where
  "ag_render_failed =
     [CHR 0xE6, CHR 0xB8, CHR 0xB2, CHR 0xE6, CHR 0x9F, CHR 0x93,
      CHR 0xE5, CHR 0xA4, CHR 0xB1, CHR 0xE8, CHR 0xB4, CHR 0xA5] @ '': ''"

\<comment> \<open>applying failed\<close>
definition ag_apply_failed :: string where
  "ag_apply_failed =
     [CHR 0xE5, CHR 0xBA, CHR 0x94, CHR 0xE7, CHR 0x94, CHR 0xA8,
      CHR 0xE5, CHR 0xA4, CHR 0xB1, CHR 0xE8, CHR 0xB4, CHR 0xA5] @ '': ''"

\<comment> \<open>policy applied\<close>
definition ag_applied :: string where
  "ag_applied =
     [CHR 0xE7, CHR 0xAD, CHR 0x96, CHR 0xE7, CHR 0x95, CHR 0xA5,
      CHR 0xE9, CHR 0x85, CHR 0x8D, CHR 0xE7, CHR 0xBD, CHR 0xAE,
      CHR 0xE5, CHR 0xB7, CHR 0xB2, CHR 0xE5, CHR 0xBA, CHR 0x94,
      CHR 0xE7, CHR 0x94, CHR 0xA8]"

\<comment> \<open>wg, frr and iptables refreshed\<close>
definition ag_refreshed :: string where
  "ag_refreshed =
     ''wg+frr+iptables'' @ [CHR 0xE5, CHR 0xB7, CHR 0xB2, CHR 0xE5, CHR 0x88, CHR 0xB7,
      CHR 0xE6, CHR 0x96, CHR 0xB0]"

\<comment> \<open>checking the policy, repairing missing rules\<close>
definition ag_ensuring :: string where
  "ag_ensuring =
     [CHR 0xE8, CHR 0x87, CHR 0xAA, CHR 0xE6, CHR 0xA3, CHR 0x80,
      CHR 0xE7, CHR 0xAD, CHR 0x96, CHR 0xE7, CHR 0x95, CHR 0xA5,
      CHR 0xEF, CHR 0xBC, CHR 0x8C, CHR 0xE4, CHR 0xBF, CHR 0xAE,
      CHR 0xE5, CHR 0xA4, CHR 0x8D, CHR 0xE7, CHR 0xBC, CHR 0xBA,
      CHR 0xE5, CHR 0xA4, CHR 0xB1, CHR 0xE8, CHR 0xA7, CHR 0x84,
      CHR 0xE5, CHR 0x88, CHR 0x99]"

\<comment> \<open>rendering failed in the self check\<close>
definition ag_ensure_render_failed :: string where
  "ag_ensure_render_failed =
     [CHR 0xE8, CHR 0x87, CHR 0xAA, CHR 0xE6, CHR 0xA3, CHR 0x80,
      CHR 0xE6, CHR 0xB8, CHR 0xB2, CHR 0xE6, CHR 0x9F, CHR 0x93,
      CHR 0xE5, CHR 0xA4, CHR 0xB1, CHR 0xE8, CHR 0xB4, CHR 0xA5] @ '': ''"

\<comment> \<open>applying failed in the self check\<close>
definition ag_ensure_apply_failed :: string where
  "ag_ensure_apply_failed =
     [CHR 0xE8, CHR 0x87, CHR 0xAA, CHR 0xE6, CHR 0xA3, CHR 0x80,
      CHR 0xE5, CHR 0xBA, CHR 0x94, CHR 0xE7, CHR 0x94, CHR 0xA8,
      CHR 0xE5, CHR 0xA4, CHR 0xB1, CHR 0xE8, CHR 0xB4, CHR 0xA5] @ '': ''"

\<comment> \<open>self check done, policy in place\<close>
definition ag_ensured :: string where
  "ag_ensured =
     [CHR 0xE8, CHR 0x87, CHR 0xAA, CHR 0xE6, CHR 0xA3, CHR 0x80,
      CHR 0xE5, CHR 0xAE, CHR 0x8C, CHR 0xE6, CHR 0x88, CHR 0x90,
      CHR 0xEF, CHR 0xBC, CHR 0x8C, CHR 0xE7, CHR 0xAD, CHR 0x96,
      CHR 0xE7, CHR 0x95, CHR 0xA5, CHR 0xE5, CHR 0xB7, CHR 0xB2,
      CHR 0xE5, CHR 0x90, CHR 0x8C, CHR 0xE6, CHR 0xAD, CHR 0xA5]"

\<comment> \<open>verified\<close>
definition ag_verified :: string where
  "ag_verified =
     [CHR 0xE9, CHR 0xAA, CHR 0x8C, CHR 0xE8, CHR 0xAF, CHR 0x81,
      CHR 0xE9, CHR 0x80, CHR 0x9A, CHR 0xE8, CHR 0xBF, CHR 0x87]"

\<comment> \<open>script done\<close>
definition ag_script_done :: string where
  "ag_script_done =
     [CHR 0xE8, CHR 0x84, CHR 0x9A, CHR 0xE6, CHR 0x9C, CHR 0xAC,
      CHR 0xE6, CHR 0x89, CHR 0xA7, CHR 0xE8, CHR 0xA1, CHR 0x8C,
      CHR 0xE5, CHR 0xAE, CHR 0x8C, CHR 0xE6, CHR 0x88, CHR 0x90]"

\<comment> \<open>script failed\<close>
definition ag_script_failed :: string where
  "ag_script_failed =
     [CHR 0xE8, CHR 0x84, CHR 0x9A, CHR 0xE6, CHR 0x9C, CHR 0xAC,
      CHR 0xE9, CHR 0x94, CHR 0x99, CHR 0xE8, CHR 0xAF, CHR 0xAF] @ '': ''"

\<comment> \<open>checking the environment\<close>
definition ag_env :: string where
  "ag_env =
     [CHR 0xE6, CHR 0xA3, CHR 0x80, CHR 0xE6, CHR 0x9F, CHR 0xA5,
      CHR 0xE7, CHR 0x8E, CHR 0xAF, CHR 0xE5, CHR 0xA2, CHR 0x83]"

\<comment> \<open>environment checked\<close>
definition ag_env_done :: string where
  "ag_env_done =
     [CHR 0xE7, CHR 0x8E, CHR 0xAF, CHR 0xE5, CHR 0xA2, CHR 0x83,
      CHR 0xE6, CHR 0xA3, CHR 0x80, CHR 0xE6, CHR 0x9F, CHR 0xA5,
      CHR 0xE5, CHR 0xAE, CHR 0x8C, CHR 0xE6, CHR 0x88, CHR 0x90]"

\<comment> \<open>diagnosis of the policy\<close>
definition ag_diag :: string where
  "ag_diag =
     [CHR 0xE7, CHR 0xAD, CHR 0x96, CHR 0xE7, CHR 0x95, CHR 0xA5,
      CHR 0xE8, CHR 0xAF, CHR 0x8A, CHR 0xE6, CHR 0x96, CHR 0xAD]"

\<comment> \<open>diagnosis done\<close>
definition ag_diag_done :: string where
  "ag_diag_done =
     [CHR 0xE8, CHR 0xAF, CHR 0x8A, CHR 0xE6, CHR 0x96, CHR 0xAD,
      CHR 0xE5, CHR 0xAE, CHR 0x8C, CHR 0xE6, CHR 0x88, CHR 0x90]"

\<comment> \<open>verifying the exit\<close>
definition ag_verify :: string where
  "ag_verify =
     [CHR 0xE5, CHR 0x87, CHR 0xBA, CHR 0xE5, CHR 0x8F, CHR 0xA3,
      CHR 0xE9, CHR 0xAA, CHR 0x8C, CHR 0xE8, CHR 0xAF, CHR 0x81]"

\<comment> \<open>targets verified\<close>
definition ag_targets_ok :: string where
  "ag_targets_ok =
     [CHR 0xE7, CHR 0x9B, CHR 0xAE, CHR 0xE6, CHR 0xA0, CHR 0x87,
      CHR 0xE9, CHR 0xAA, CHR 0x8C, CHR 0xE8, CHR 0xAF, CHR 0x81,
      CHR 0xE9, CHR 0x80, CHR 0x9A, CHR 0xE8, CHR 0xBF, CHR 0x87]"

\<comment> \<open>applying the policy\<close>
definition ag_apply :: string where
  "ag_apply =
     [CHR 0xE5, CHR 0xBA, CHR 0x94, CHR 0xE7, CHR 0x94, CHR 0xA8,
      CHR 0xE7, CHR 0xAD, CHR 0x96, CHR 0xE7, CHR 0x95, CHR 0xA5]"

\<comment> \<open>policy applied\<close>
definition ag_apply_done :: string where
  "ag_apply_done =
     [CHR 0xE7, CHR 0xAD, CHR 0x96, CHR 0xE7, CHR 0x95, CHR 0xA5,
      CHR 0xE5, CHR 0xBA, CHR 0x94, CHR 0xE7, CHR 0x94, CHR 0xA8,
      CHR 0xE5, CHR 0xAE, CHR 0x8C, CHR 0xE6, CHR 0x88, CHR 0x90]"

\<comment> \<open>self test\<close>
definition ag_self_test :: string where
  "ag_self_test =
     [CHR 0xE8, CHR 0x87, CHR 0xAA, CHR 0xE6, CHR 0xA3, CHR 0x80,
      CHR 0xE9, CHR 0xAA, CHR 0x8C, CHR 0xE8, CHR 0xAF, CHR 0x81]"

\<comment> \<open>self test done\<close>
definition ag_self_done :: string where
  "ag_self_done =
     [CHR 0xE8, CHR 0x87, CHR 0xAA, CHR 0xE6, CHR 0xA3, CHR 0x80,
      CHR 0xE5, CHR 0xAE, CHR 0x8C, CHR 0xE6, CHR 0x88, CHR 0x90]"

\<comment> \<open>verified with curl\<close>
definition ag_curl_ok :: string where
  "ag_curl_ok =
     ''curl '' @ [CHR 0xE9, CHR 0xAA, CHR 0x8C, CHR 0xE8, CHR 0xAF, CHR 0x81,
      CHR 0xE9, CHR 0x80, CHR 0x9A, CHR 0xE8, CHR 0xBF, CHR 0x87]"

\<comment> \<open>task done\<close>
definition ag_complete :: string where
  "ag_complete =
     [CHR 0xE4, CHR 0xBB, CHR 0xBB, CHR 0xE5, CHR 0x8A, CHR 0xA1,
      CHR 0xE5, CHR 0xAE, CHR 0x8C, CHR 0xE6, CHR 0x88, CHR 0x90]"

\<comment> \<open>WireGuard interface\<close>
definition ck_wg :: string where
  "ck_wg =
     ''wg'' @ [CHR 0xE6, CHR 0x8E, CHR 0xA5, CHR 0xE5, CHR 0x8F, CHR 0xA3]"

\<comment> \<open>exists\<close>
definition ck_exists :: string where
  "ck_exists =
     '' '' @ [CHR 0xE5, CHR 0xAD, CHR 0x98, CHR 0xE5, CHR 0x9C, CHR 0xA8]"

\<comment> \<open>does not exist\<close>
definition ck_missing :: string where
  "ck_missing =
     '' '' @ [CHR 0xE4, CHR 0xB8, CHR 0x8D, CHR 0xE5, CHR 0xAD, CHR 0x98,
      CHR 0xE5, CHR 0x9C, CHR 0xA8]"

\<comment> \<open>the POSTROUTING rule exists\<close>
definition ck_nat_ok :: string where
  "ck_nat_ok =
     [CHR 0xE5, CHR 0xAD, CHR 0x98, CHR 0xE5, CHR 0x9C, CHR 0xA8] @ '' POSTROUTING '' @ [CHR 0xE6, CHR 0x8E, CHR 0xA9, CHR 0xE7, CHR 0xA0, CHR 0x81,
      CHR 0xE8, CHR 0xA7, CHR 0x84, CHR 0xE5, CHR 0x88, CHR 0x99]"

\<comment> \<open>the POSTROUTING rule is missing\<close>
definition ck_nat_missing :: string where
  "ck_nat_missing =
     [CHR 0xE7, CHR 0xBC, CHR 0xBA, CHR 0xE5, CHR 0xB0, CHR 0x91] @ '' POSTROUTING '' @ [CHR 0xE6, CHR 0x8E, CHR 0xA9, CHR 0xE7, CHR 0xA0, CHR 0x81,
      CHR 0xE8, CHR 0xA7, CHR 0x84, CHR 0xE5, CHR 0x88, CHR 0x99]"

\<comment> \<open>FORWARD allowed (name of the check)\<close>
definition ck_forward :: string where
  "ck_forward =
     ''FORWARD '' @ [CHR 0xE5, CHR 0x85, CHR 0x81, CHR 0xE8, CHR 0xAE, CHR 0xB8]"

\<comment> \<open>the FORWARD rule exists\<close>
definition ck_forward_ok :: string where
  "ck_forward_ok =
     [CHR 0xE5, CHR 0xAD, CHR 0x98, CHR 0xE5, CHR 0x9C, CHR 0xA8] @ '' FORWARD '' @ [CHR 0xE5, CHR 0x85, CHR 0x81, CHR 0xE8, CHR 0xAE, CHR 0xB8,
      CHR 0xE8, CHR 0xA7, CHR 0x84, CHR 0xE5, CHR 0x88, CHR 0x99]"

\<comment> \<open>the FORWARD rule is missing\<close>
definition ck_forward_missing :: string where
  "ck_forward_missing =
     [CHR 0xE7, CHR 0xBC, CHR 0xBA, CHR 0xE5, CHR 0xB0, CHR 0x91] @ '' FORWARD '' @ [CHR 0xE5, CHR 0x85, CHR 0x81, CHR 0xE8, CHR 0xAE, CHR 0xB8,
      CHR 0xE8, CHR 0xA7, CHR 0x84, CHR 0xE5, CHR 0x88, CHR 0x99]"

\<comment> \<open>forwarding switch\<close>
definition ck_switch :: string where
  "ck_switch =
     [CHR 0xE8, CHR 0xBD, CHR 0xAC, CHR 0xE5, CHR 0x8F, CHR 0x91,
      CHR 0xE5, CHR 0xBC, CHR 0x80, CHR 0xE5, CHR 0x85, CHR 0xB3]"

\<comment> \<open>forwarding is off\<close>
definition ck_switch_off :: string where
  "ck_switch_off =
     ''net.ipv4.ip_forward '' @ [CHR 0xE6, CHR 0x9C, CHR 0xAA, CHR 0xE5, CHR 0xBC, CHR 0x80,
      CHR 0xE5, CHR 0x90, CHR 0xAF]"

\<comment> \<open>policy table 100\<close>
definition ck_table :: string where
  "ck_table =
     [CHR 0xE7, CHR 0xAD, CHR 0x96, CHR 0xE7, CHR 0x95, CHR 0xA5,
      CHR 0xE8, CHR 0xB7, CHR 0xAF, CHR 0xE7, CHR 0x94, CHR 0xB1,
      CHR 0xE8, CHR 0xA1, CHR 0xA8] @ ''100''"

\<comment> \<open>FRR neighbours\<close>
definition ck_frr :: string where
  "ck_frr =
     ''FRR '' @ [CHR 0xE9, CHR 0x82, CHR 0xBB, CHR 0xE5, CHR 0xB1, CHR 0x85]"

\<comment> \<open>no state of neighbours\<close>
definition ck_frr_none :: string where
  "ck_frr_none =
     [CHR 0xE6, CHR 0x9C, CHR 0xAA, CHR 0xE8, CHR 0x8E, CHR 0xB7,
      CHR 0xE5, CHR 0x8F, CHR 0x96, CHR 0xE5, CHR 0x88, CHR 0xB0,
      CHR 0xE9, CHR 0x82, CHR 0xBB, CHR 0xE5, CHR 0xB1, CHR 0x85,
      CHR 0xE7, CHR 0x8A, CHR 0xB6, CHR 0xE6, CHR 0x80, CHR 0x81]"

\<comment> \<open>all established\<close>
definition ck_frr_ok :: string where
  "ck_frr_ok =
     [CHR 0xE5, CHR 0x9D, CHR 0x87, CHR 0xE5, CHR 0xB7, CHR 0xB2] @ '' Established''"

\<comment> \<open>no peer given\<close>
definition ck_no_peer :: string where
  "ck_no_peer =
     [CHR 0xE6, CHR 0x9C, CHR 0xAA, CHR 0xE4, CHR 0xB8, CHR 0x8B,
      CHR 0xE5, CHR 0x8F, CHR 0x91, CHR 0xE4, CHR 0xBB, CHR 0xBB,
      CHR 0xE4, CHR 0xBD, CHR 0x95] @ '' peer''"

\<comment> \<open>checks passed\<close>
definition ck_sum_ok :: string where
  "ck_sum_ok =
     [CHR 0xE7, CHR 0xAD, CHR 0x96, CHR 0xE7, CHR 0x95, CHR 0xA5,
      CHR 0xE6, CHR 0xA3, CHR 0x80, CHR 0xE6, CHR 0x9F, CHR 0xA5,
      CHR 0xE9, CHR 0x80, CHR 0x9A, CHR 0xE8, CHR 0xBF, CHR 0x87]"

\<comment> \<open>errors found\<close>
definition ck_sum_fail :: string where
  "ck_sum_fail =
     [CHR 0xE6, CHR 0xA3, CHR 0x80, CHR 0xE6, CHR 0xB5, CHR 0x8B,
      CHR 0xE5, CHR 0x88, CHR 0xB0, CHR 0xE9, CHR 0x94, CHR 0x99,
      CHR 0xE8, CHR 0xAF, CHR 0xAF]"

\<comment> \<open>there are warnings\<close>
definition ck_sum_warn :: string where
  "ck_sum_warn =
     [CHR 0xE5, CHR 0xAD, CHR 0x98, CHR 0xE5, CHR 0x9C, CHR 0xA8,
      CHR 0xE8, CHR 0xAD, CHR 0xA6, CHR 0xE5, CHR 0x91, CHR 0x8A]"

end
