(* ===== verification/Go_Agent.thy ===== *)
theory Go_Agent
  imports Go_Routes Agent_Text
begin

text \<open>
  The agent of a node, \<open>pkg/agent\<close>: the configuration it is sent, the files it writes
  from it and applies, its diagnosis, and what it does with a plan, a command or a task that
  arrives over its WebSocket connection.  A handler runs as one step; in the program two
  messages that arrive together are handled by two goroutines.
\<close>

section \<open>The configuration\<close>

text \<open>\<open>NodeConfigResponse\<close>, as the agent decodes it\<close>

record config =
  nc_ID :: string
  nc_ConfigVersion :: string
  nc_Peers :: "peer list"
  nc_Routes :: "string list"
  nc_OverlayIP :: string
  nc_ListenPort :: int
  nc_ASN :: int
  nc_RouterID :: string
  nc_Endpoints :: "string list"
  nc_PrivateKey :: string
  nc_PublicKey :: string
  nc_Message :: string
  nc_EgressPeerID :: string
  nc_PolicyRules :: "policy_rule list"
  nc_PeerEndpoints :: "(string \<times> string) list"
  nc_GeoIP :: "geoip_config option"
  nc_DefaultRoute :: bool
  nc_BypassCIDRs :: "string list"
  nc_DefaultRouteNextHop :: string
  nc_HealthIntervalSec :: int

definition config_zero :: config where
  "config_zero = \<lparr>nc_ID = [], nc_ConfigVersion = [], nc_Peers = [], nc_Routes = [], nc_OverlayIP = [],
     nc_ListenPort = 0, nc_ASN = 0, nc_RouterID = [], nc_Endpoints = [], nc_PrivateKey = [],
     nc_PublicKey = [], nc_Message = [], nc_EgressPeerID = [], nc_PolicyRules = [],
     nc_PeerEndpoints = [], nc_GeoIP = None, nc_DefaultRoute = False, nc_BypassCIDRs = [],
     nc_DefaultRouteNextHop = [], nc_HealthIntervalSec = 0\<rparr>"

definition go_peer :: "jsval \<Rightarrow> peer option" where
  "go_peer v = do {
     ps \<leftarrow> go_obj v;
     pid \<leftarrow> go_str (js_lookup ''id'' ps);
     pub \<leftarrow> go_str (js_lookup ''publicKey'' ps);
     ep \<leftarrow> go_str (js_lookup ''endpoint'' ps);
     ips \<leftarrow> go_list go_str (js_lookup ''allowedIPs'' ps);
     ka \<leftarrow> go_int (js_lookup ''keepaliveSeconds'' ps);
     Some \<lparr>p_ID = pid, p_PublicKey = pub, p_Endpoint = ep, p_AllowedIPs = ips, p_Keepalive = ka\<rparr>
   }"

text \<open>A field that holds a pointer: \<open>nil\<close> when it is missing or \<open>null\<close>.\<close>

definition go_ptr :: "(jsval \<Rightarrow> 'a option) \<Rightarrow> jsval \<Rightarrow> 'a option option" where
  "go_ptr f v = (if v = Undef \<or> v = Null then Some None else map_option Some (f v))"

definition go_config :: "jsval \<Rightarrow> config option" where
  "go_config v = do {
     ps \<leftarrow> go_obj v;
     nid \<leftarrow> go_str (js_lookup ''id'' ps);
     ver \<leftarrow> go_str (js_lookup ''configVersion'' ps);
     peers \<leftarrow> go_list go_peer (js_lookup ''wireGuardPeers'' ps);
     routes \<leftarrow> go_list go_str (js_lookup ''routes'' ps);
     overlay \<leftarrow> go_str (js_lookup ''overlayIp'' ps);
     port \<leftarrow> go_int (js_lookup ''listenPort'' ps);
     asn \<leftarrow> go_int (js_lookup ''asn'' ps);
     rid \<leftarrow> go_str (js_lookup ''routerId'' ps);
     eps \<leftarrow> go_list go_str (js_lookup ''endpoints'' ps);
     priv \<leftarrow> go_str (js_lookup ''privateKey'' ps);
     pub \<leftarrow> go_str (js_lookup ''publicKey'' ps);
     message \<leftarrow> go_str (js_lookup ''message'' ps);
     egress \<leftarrow> go_str (js_lookup ''egressPeerId'' ps);
     rules \<leftarrow> go_list go_rule (js_lookup ''policyRules'' ps);
     overrides \<leftarrow> go_str_map (js_lookup ''peerEndpoints'' ps);
     geoip \<leftarrow> go_ptr go_geoip (js_lookup ''geoip'' ps);
     dflt \<leftarrow> go_bool (js_lookup ''defaultRoute'' ps);
     bypass \<leftarrow> go_list go_str (js_lookup ''bypassCidrs'' ps);
     nh \<leftarrow> go_str (js_lookup ''defaultRouteNextHop'' ps);
     interval \<leftarrow> go_int (js_lookup ''healthIntervalSec'' ps);
     Some \<lparr>nc_ID = nid, nc_ConfigVersion = ver, nc_Peers = peers, nc_Routes = routes,
           nc_OverlayIP = overlay, nc_ListenPort = port, nc_ASN = asn, nc_RouterID = rid,
           nc_Endpoints = eps, nc_PrivateKey = priv, nc_PublicKey = pub, nc_Message = message,
           nc_EgressPeerID = egress, nc_PolicyRules = rules, nc_PeerEndpoints = overrides,
           nc_GeoIP = geoip, nc_DefaultRoute = dflt, nc_BypassCIDRs = bypass,
           nc_DefaultRouteNextHop = nh, nc_HealthIntervalSec = interval\<rparr>
   }"

section \<open>State\<close>

text \<open>A process of \<open>wstunnel\<close>: the server, or the client of a host with its ports.\<close>

datatype tunnel = Server int | Client string int int

text \<open>
  The connection to the controller: not made yet, open, or lost and not yet made again (then
  writing to it fails).
\<close>

datatype connection = Unconnected | Open | Broken

text \<open>
  \<open>as_cfg\<close>, \<open>as_node\<close> and \<open>as_task\<close> are the package variables
  \<open>latestCfg\<close>, \<open>latestNode\<close> and \<open>currentTask\<close>, \<open>as_geo\<close> those of
  \<open>pkg/policy\<close>; then the files written, the tables of the kernel, the firewall, the
  configurations WireGuard and FRR run with, the tunnels, the connection with the frames written
  to it, the requests posted (path and body), and the log lines waiting to be sent.
\<close>

record agent =
  as_cfg :: config
  as_node :: node
  as_task :: string
  as_geo :: geo_settings
  as_files :: "(string \<times> string) list"
  as_kernel :: kernel
  as_firewall :: firewall
  as_wg :: "string option"
  as_frr :: "string option"
  as_tunnels :: "tunnel list"
  as_conn :: connection
  as_frames :: "jsval list"
  as_posts :: "(string \<times> jsval) list"
  as_lines :: "string list"

text \<open>\<open>wsCtx\<close>, set once at the start; the tokens only appear in headers.\<close>

record agent_context =
  cx_iface :: string
  cx_outDir :: string
  cx_private :: string
  cx_asn :: int
  cx_apply :: bool
  cx_controller :: string
  cx_nodeID :: string

text \<open>
  The host: its network, its tools, and for each call of the system the error it ends with, if
  any: making a directory, writing a file, \<open>wg-quick up\<close>, \<open>wg-quick strip\<close> and
  \<open>wg syncconf\<close>, \<open>vtysh\<close>, \<open>curl\<close>, a shell script (with its output); what
  \<open>ip addr show\<close> and \<open>ip route show table 100\<close> answer (an error or the output);
  the answers of \<open>vtysh\<close> to \<open>show bgp summary\<close> as JSON (a body that may not
  parse) and as text; whether \<open>sysctl\<close> can be read; whether \<open>net.ParseIP\<close> accepts a
  text; whether \<open>wstunnel\<close> is installed and which of its processes start; the clock and
  the text of a time.
\<close>

record host =
  ho_net :: net
  ho_ip :: ip_tool
  ho_nat :: nat_env
  ho_mkdir :: "string \<Rightarrow> string option"
  ho_write :: "string \<Rightarrow> string option"
  ho_wgup :: "string \<Rightarrow> string option"
  ho_wgstrip :: "string \<Rightarrow> string option"
  ho_wgsync :: "string \<Rightarrow> string option"
  ho_vtysh :: "string \<Rightarrow> string option"
  ho_curl :: "string \<Rightarrow> string option"
  ho_sh :: "string \<Rightarrow> string option \<times> string"
  ho_addr :: "string \<Rightarrow> string + string"
  ho_table100 :: "string + string"
  ho_bgp_json :: "jsval option option"
  ho_bgp_text :: "string option"
  ho_sysctl :: bool
  ho_is_ip :: "string \<Rightarrow> bool"
  ho_wstunnel :: bool
  ho_starts :: "tunnel \<Rightarrow> bool"
  ho_now :: int
  ho_rfc3339 :: "int \<Rightarrow> string"

section \<open>Talking to the controller\<close>

text \<open>\<open>newWSClient\<close> makes no client without controller or node.\<close>

definition has_ws :: "agent_context \<Rightarrow> bool" where
  "has_ws cx \<longleftrightarrow> cx_controller cx \<noteq> [] \<and> cx_nodeID cx \<noteq> []"

definition ws_client_send :: "agent_context \<Rightarrow> jsval \<Rightarrow> agent \<Rightarrow> agent" where
  "ws_client_send cx msg a =
     (if has_ws cx \<and> as_conn a = Open then a\<lparr>as_frames := as_frames a @ [msg]\<rparr> else a)"

definition wsSend :: "agent_context \<Rightarrow> string \<Rightarrow> jsval \<Rightarrow> agent \<Rightarrow> agent" where
  "wsSend cx ty payload = ws_client_send cx (Obj [(''payload'', payload), (''type'', Str ty)])"

text \<open>The channel of log lines has 200 places; a line that finds none is dropped.\<close>

definition wsLog :: "agent_context \<Rightarrow> string \<Rightarrow> agent \<Rightarrow> agent" where
  "wsLog cx line a =
     (if has_ws cx \<and> length (as_lines a) < 200 then a\<lparr>as_lines := as_lines a @ [line]\<rparr> else a)"

definition unix_seconds :: "host \<Rightarrow> int" where
  "unix_seconds h = (ho_now h - unix_epoch) div 1000000000"

definition drainLogs :: "host \<Rightarrow> agent_context \<Rightarrow> agent \<Rightarrow> agent" where
  "drainLogs h cx a =
     (if \<not> has_ws cx \<or> as_conn a = Unconnected then a
      else
        (let ls = take 50 (as_lines a);
             a1 = a\<lparr>as_lines := drop 50 (as_lines a)\<rparr>
         in if ls = [] then a
            else ws_client_send cx (Obj [(''nodeId'', Str (cx_nodeID cx)),
                   (''payload'', Obj [(''lines'', Arr (map Str ls)), (''ts'', Number (of_int (unix_seconds h)))]),
                   (''type'', Str ''agent_log'')]) a1))"

definition post :: "string \<Rightarrow> jsval \<Rightarrow> agent \<Rightarrow> agent" where
  "post path v a = a\<lparr>as_posts := as_posts a @ [(path, v)]\<rparr>"

definition reportPolicyStatus ::
  "host \<Rightarrow> agent_context \<Rightarrow> bool \<Rightarrow> string \<Rightarrow> string \<Rightarrow> string \<Rightarrow> string \<Rightarrow> string list \<Rightarrow> agent \<Rightarrow> agent" where
  "reportPolicyStatus h cx client nodeID ver status message logs a =
     (if \<not> client \<or> cx_controller cx = [] \<or> nodeID = [] \<or> status = [] then a
      else
        (let payload = json_log (ho_rfc3339 h) \<lparr>l_NodeID = nodeID, l_Version = ver, l_Status = status,
               l_Message = message, l_Logs = logs, l_Timestamp = ho_now h\<rparr>
         in post ''/api/v1/policy/status'' payload
              (ws_client_send cx (Obj [(''nodeId'', Str nodeID), (''payload'', payload),
                 (''type'', Str ''install_status'')]) a)))"

section \<open>Merging a plan into the node\<close>

definition mergePlanIntoNode :: "node \<Rightarrow> config \<Rightarrow> int \<Rightarrow> node \<times> int" where
  "mergePlanIntoNode n cfg asn =
     (let n' = n\<lparr>n_OverlayIP := (if nc_OverlayIP cfg \<noteq> [] then nc_OverlayIP cfg else n_OverlayIP n),
            n_ListenPort := (if 0 < nc_ListenPort cfg then nc_ListenPort cfg
                             else if n_ListenPort n = 0 then 8082 else n_ListenPort n),
            n_ASN := (if 0 < nc_ASN cfg then nc_ASN cfg else n_ASN n),
            n_RouterID := (if nc_RouterID cfg \<noteq> [] then nc_RouterID cfg else n_RouterID n),
            n_CIDRs := (if nc_Routes cfg \<noteq> [] then nc_Routes cfg else n_CIDRs n),
            n_PeerEndpoints := (if nc_PeerEndpoints cfg \<noteq> [] then nc_PeerEndpoints cfg else n_PeerEndpoints n),
            n_EgressPeerID := (if nc_EgressPeerID cfg \<noteq> [] then nc_EgressPeerID cfg else n_EgressPeerID n),
            n_PolicyRules := (if nc_PolicyRules cfg \<noteq> [] then nc_PolicyRules cfg else n_PolicyRules n),
            n_DefaultRoute := nc_DefaultRoute cfg,
            n_BypassCIDRs := (if nc_BypassCIDRs cfg \<noteq> [] then nc_BypassCIDRs cfg else n_BypassCIDRs n),
            n_DefaultRouteNextHop :=
              (if nc_DefaultRouteNextHop cfg \<noteq> [] then nc_DefaultRouteNextHop cfg else n_DefaultRouteNextHop n)\<rparr>
      in (n', if 0 < n_ASN n' then n_ASN n' else asn))"

text \<open>Its effect on the settings of \<open>pkg/policy\<close>\<close>

definition merge_geo :: "host \<Rightarrow> config \<Rightarrow> agent \<Rightarrow> agent" where
  "merge_geo h cfg a =
     (case nc_GeoIP cfg of
        Some g \<Rightarrow> a\<lparr>as_geo := SetConfig (ho_net h) g (as_geo a)\<rparr>
      | None \<Rightarrow> a)"

section \<open>Writing and applying the configuration\<close>

text \<open>\<open>startAll\<close>: every tunnel is started anew, if \<open>wstunnel\<close> is installed.\<close>

definition tunnels_of :: "(string \<times> int) list \<Rightarrow> int \<Rightarrow> tunnel list" where
  "tunnels_of hostToLocal port = Server port # map (\<lambda>(host, lp). Client host lp port) hostToLocal"

definition startAll :: "host \<Rightarrow> (string \<times> int) list \<Rightarrow> int \<Rightarrow> agent \<Rightarrow> agent" where
  "startAll h hostToLocal port a =
     (if \<not> ho_wstunnel h then a
      else a\<lparr>as_tunnels := filter (ho_starts h) (tunnels_of hostToLocal port)\<rparr>)"

definition write_file :: "string \<Rightarrow> string \<Rightarrow> agent \<Rightarrow> agent" where
  "write_file path content a = a\<lparr>as_files := AList.update path content (as_files a)\<rparr>"

definition wg_path :: "string \<Rightarrow> string \<Rightarrow> string" where
  "wg_path outDir iface = outDir @ ''/'' @ iface @ ''.conf''"

definition bgp_path :: "string \<Rightarrow> string" where
  "bgp_path outDir = outDir @ ''/bgpd.conf''"

definition listening_node :: "node \<Rightarrow> node" where
  "listening_node n = (if n_ListenPort n = 0 then n\<lparr>n_ListenPort := 8082\<rparr> else n)"

text \<open>The peers of the WireGuard configuration, and the plan the routes are taken from.\<close>

definition rendered_peers :: "net \<Rightarrow> geo_settings \<Rightarrow> node \<Rightarrow> peer list \<Rightarrow> peer list" where
  "rendered_peers x g n ps =
     augmentEgressAllowedIPs x g (map (tunnel_endpoint (allocateLocalPorts ps 30000 [])) ps) n"

definition agent_plan :: "node \<Rightarrow> peer list \<Rightarrow> plan" where
  "agent_plan n ps = \<lparr>pl_NodeID = n_ID n, pl_Version = 0, pl_ConfigVersion = [], pl_Peers = ps,
     pl_Routes = [], pl_CreatedAt = 0, pl_Signature = [], pl_EgressPeerID = n_EgressPeerID n,
     pl_PolicyRules = n_PolicyRules n, pl_PeerEndpoints = [], pl_DefaultRoute = n_DefaultRoute n,
     pl_BypassCIDRs = n_BypassCIDRs n, pl_DefaultRouteNextHop = n_DefaultRouteNextHop n\<rparr>"

definition RenderAndWrite ::
  "host \<Rightarrow> agent_context \<Rightarrow> node \<Rightarrow> peer list \<Rightarrow> int \<Rightarrow> agent \<Rightarrow> string option \<times> agent" where
  "RenderAndWrite h cx node0 ps asn a =
     (case ho_mkdir h (cx_outDir cx) of
        Some err \<Rightarrow> (Some (''mkdir output: '' @ err), a)
      | None \<Rightarrow>
          (let n = listening_node node0;
               hostToLocal = allocateLocalPorts ps 30000 [];
               wgConf = RenderConfig n (rendered_peers (ho_net h) (as_geo a) n ps) (cx_private cx);
               wgPath = wg_path (cx_outDir cx) (cx_iface cx)
           in (case ho_write h wgPath of
                 Some err \<Rightarrow> (Some (''write wireguard config: '' @ err), a)
               | None \<Rightarrow>
                   (let a1 = write_file wgPath wgConf a;
                        routerID = (if n_RouterID n = [] then n_OverlayIP n else n_RouterID n);
                        pl = agent_plan n ps;
                        bgpConf = RenderBGP (ho_net h) (as_geo a) asn routerID (cx_iface cx)
                          (NeighborOverlayIPs ps) (n_CIDRs n) pl;
                        bgpPath = bgp_path (cx_outDir cx)
                    in (case ho_write h bgpPath of
                          Some err \<Rightarrow> (Some (''write bgp config: '' @ err), a1)
                        | None \<Rightarrow>
                            (let a2 = write_file bgpPath bgpConf a1;
                                 a3 = a2\<lparr>as_kernel := applyStaticRoutes (ho_net h) (as_geo a) (ho_ip h) pl
                                           (cx_iface cx) (as_kernel a2)\<rparr>
                             in (None, startAll h hostToLocal (n_ListenPort n) a3)))))))"

definition file_content :: "string \<Rightarrow> agent \<Rightarrow> string" where
  "file_content path a = (case map_of (as_files a) path of Some s \<Rightarrow> s | None \<Rightarrow> [])"

definition applyWireGuard :: "host \<Rightarrow> string \<Rightarrow> agent \<Rightarrow> string option \<times> agent" where
  "applyWireGuard h path a =
     (if as_wg a = None then
        (case ho_wgup h path of
           Some err \<Rightarrow> (Some (''wg-quick up: '' @ err), a)
         | None \<Rightarrow> (None, a\<lparr>as_wg := Some (file_content path a)\<rparr>))
      else
        (case ho_wgstrip h path of
           Some err \<Rightarrow> (Some (''wg-quick strip: '' @ err), a)
         | None \<Rightarrow>
             (case ho_wgsync h path of
                Some err \<Rightarrow> (Some (''wg syncconf: '' @ err), a)
              | None \<Rightarrow> (None, a\<lparr>as_wg := Some (file_content path a)\<rparr>))))"

definition ApplyConfigs :: "host \<Rightarrow> agent_context \<Rightarrow> agent \<Rightarrow> string option \<times> agent" where
  "ApplyConfigs h cx a =
     (let iface = (if cx_iface cx = [] then ''wg0'' else cx_iface cx);
          bgpPath = bgp_path (cx_outDir cx)
      in (case applyWireGuard h (wg_path (cx_outDir cx) (cx_iface cx)) a of
            (Some err, a1) \<Rightarrow> (Some err, a1)
          | (None, a1) \<Rightarrow>
              (let a2 = a1\<lparr>as_firewall := ensureNAT (ho_nat h) (ho_ip h) iface (as_firewall a1)\<rparr>
               in (case ho_vtysh h bgpPath of
                     Some err \<Rightarrow> (Some (''vtysh apply bgp: '' @ err), a2)
                   | None \<Rightarrow> (None, a2\<lparr>as_frr := Some (file_content bgpPath a2)\<rparr>)))))"

end
