(* ===== verification/Go_Agent_Tasks.thy ===== *)
theory Go_Agent_Tasks
  imports Go_Agent
begin

text \<open>
  What the agent does with the messages of the controller (\<open>pkg/agent/plan.go\<close>): the
  diagnosis, applying a plan, commands and tasks; the verification of
  \<open>pkg/agent/verify.go\<close>; and the health report of \<open>pkg/agent/health.go\<close>.
\<close>

section \<open>Neighbours and health\<close>

text \<open>\<open>parseFRRJSON\<close>: only the states below \<open>neighbors\<close> are read.\<close>

definition go_frr_neighbor :: "jsval \<Rightarrow> string option" where
  "go_frr_neighbor v = do { ps \<leftarrow> go_obj v; go_str (js_lookup ''state'' ps) }"

definition parseFRRJSON :: "jsval option \<Rightarrow> (string \<times> string) list" where
  "parseFRRJSON answer =
     (case answer of
        None \<Rightarrow> []
      | Some v \<Rightarrow>
          (case do { ps \<leftarrow> go_obj v; go_map go_frr_neighbor (js_lookup ''neighbors'' ps) } of
             None \<Rightarrow> []
           | Some ns \<Rightarrow> ns))"

definition readFRRNeighbors :: "host \<Rightarrow> (string \<times> string) list" where
  "readFRRNeighbors h =
     (case ho_bgp_json h of
        Some answer \<Rightarrow> parseFRRJSON answer
      | None \<Rightarrow>
          (case ho_bgp_text h of
             None \<Rightarrow> []
           | Some out \<Rightarrow>
               fold (\<lambda>line res.
                  let fields = Fields line
                  in if length fields < 6 \<or> \<not> ho_is_ip h (hd fields) then res
                     else AList.update (hd fields) (last fields) res)
                 (split_on (CHR 0x0A) out) []))"

text \<open>The address a peer is probed at.\<close>

fun overlay_address :: "host \<Rightarrow> string list \<Rightarrow> string" where
  "overlay_address h [] = []"
| "overlay_address h (ip # ips) =
     (if CHR ''/'' \<in> set ip then
        (let a = takeWhile (\<lambda>c. c \<noteq> CHR ''/'') ip in if a \<noteq> [] then a else ip)
      else if ho_is_ip h ip then ip
      else overlay_address h ips)"

definition peerOverlayIP :: "host \<Rightarrow> peer \<Rightarrow> string" where
  "peerOverlayIP h p = overlay_address h (p_AllowedIPs p)"

text \<open>
  \<open>reportOnce\<close>; \<open>ping\<close> is what \<open>ping\<close> gives for an address: milliseconds, loss
  and error.
\<close>

type_synonym prober = "string \<Rightarrow> rat \<times> rat \<times> string option"

definition probe_peer :: "host \<Rightarrow> prober \<Rightarrow> peer
    \<Rightarrow> (string \<times> int) list \<times> (string \<times> rat) list \<Rightarrow> (string \<times> int) list \<times> (string \<times> rat) list" where
  "probe_peer h ping p acc =
     (let ip = peerOverlayIP h p
      in if ip = [] then acc
         else
           (let (ms, pct, err) = ping ip
            in if err \<noteq> None then acc
               else (AList.update ip (float_to_int ms) (fst acc), AList.update ip pct (snd acc))))"

definition health_of :: "host \<Rightarrow> prober \<Rightarrow> string \<Rightarrow> peer list \<Rightarrow> health_report" where
  "health_of h ping nodeID ps =
     (let (latency, loss) = fold (probe_peer h ping) ps ([], [])
      in \<lparr>h_NodeID = nodeID, h_Status = ''up'', h_LatencyMs = latency, h_PacketLoss = loss,
          h_FRRState = readFRRNeighbors h, h_Timestamp = ho_now h\<rparr>)"

section \<open>Diagnosis\<close>

definition check_of :: "string \<Rightarrow> string \<Rightarrow> string \<Rightarrow> diag_check" where
  "check_of name status detail = \<lparr>c_Name = name, c_Status = status, c_Detail = detail\<rparr>"

definition interface_checks :: "host \<Rightarrow> string \<Rightarrow> agent \<Rightarrow> diag_check list" where
  "interface_checks h iface a =
     [if iface \<noteq> [] \<and> as_wg a \<noteq> None then check_of ck_wg ''ok'' (iface @ ck_exists)
      else check_of ck_wg ''fail'' (iface @ ck_missing),
      case ho_addr h iface of
        Inr out \<Rightarrow> check_of ''ip addr'' ''ok'' (go_trim_space out)
      | Inl err \<Rightarrow> check_of ''ip addr'' ''fail'' err]"

text \<open>\<open>iptables -C\<close> fails when the rule is not there or the tool is missing.\<close>

definition rule_present :: "host \<Rightarrow> fw_rule \<Rightarrow> agent \<Rightarrow> bool" where
  "rule_present h r a \<longleftrightarrow> ne_iptables (ho_nat h) \<and> r \<in> set (fw_rules (as_firewall a))"

definition firewall_checks :: "host \<Rightarrow> string \<Rightarrow> agent \<Rightarrow> diag_check list" where
  "firewall_checks h iface a =
     [if rule_present h (masquerade ''10.10.0.0/16'' iface) a
      then check_of ''NAT MASQUERADE'' ''ok'' ck_nat_ok
      else check_of ''NAT MASQUERADE'' ''warn'' ck_nat_missing,
      if rule_present h (''filter'', [''FORWARD'', ''-i'', iface, ''-j'', ''ACCEPT'']) a
      then check_of ck_forward ''ok'' ck_forward_ok
      else check_of ck_forward ''warn'' ck_forward_missing,
      if ho_sysctl h \<and> fw_forward (as_firewall a) then check_of ck_switch ''ok'' ''net.ipv4.ip_forward=1''
      else check_of ck_switch ''fail'' ck_switch_off]"

definition routing_checks :: "host \<Rightarrow> peer list \<Rightarrow> diag_check list" where
  "routing_checks h ps =
     [case ho_table100 h of
        Inr out \<Rightarrow> check_of ck_table ''ok'' (go_trim_space out)
      | Inl err \<Rightarrow> check_of ck_table ''warn'' err,
      (let frr = readFRRNeighbors h;
           bad = filter (\<lambda>(_, st). ToLower st \<noteq> ''established'') frr
       in if frr = [] then check_of ck_frr ''warn'' ck_frr_none
          else if bad = [] then check_of ck_frr ''ok'' ck_frr_ok
          else check_of ck_frr ''warn'' (join ''; '' (map (\<lambda>(nbr, st). nbr @ ''='' @ st) bad))),
      if ps \<noteq> [] then check_of ''WireGuard peers'' ''ok'' (''peers='' @ show_int (int (length ps)))
      else check_of ''WireGuard peers'' ''warn'' ck_no_peer]"

definition policy_checks :: "host \<Rightarrow> string \<Rightarrow> peer list \<Rightarrow> agent \<Rightarrow> diag_check list" where
  "policy_checks h iface ps a =
     interface_checks h iface a @ firewall_checks h iface a @ routing_checks h ps"

fun diag_summary :: "diag_check list \<Rightarrow> string \<Rightarrow> string" where
  "diag_summary [] summary = summary"
| "diag_summary (c # cs) summary =
     (if c_Status c = ''fail'' then ck_sum_fail
      else if c_Status c = ''warn'' \<and> summary = ck_sum_ok then diag_summary cs ck_sum_warn
      else diag_summary cs summary)"

definition runPolicyDiag ::
  "host \<Rightarrow> agent_context \<Rightarrow> bool \<Rightarrow> node \<Rightarrow> string \<Rightarrow> peer list \<Rightarrow> agent \<Rightarrow> agent" where
  "runPolicyDiag h cx client n ver ps a =
     (if \<not> client \<or> cx_controller cx = [] then a
      else
        (let a1 = wsLog cx (''diag start version='' @ ver) a;
             checks = policy_checks h (cx_iface cx) ps a1;
             summary = diag_summary checks ck_sum_ok;
             report = json_diag (ho_rfc3339 h) \<lparr>d_NodeID = n_ID n, d_Summary = summary, d_Checks = checks,
               d_Timestamp = ho_now h\<rparr>;
             a2 = ws_client_send cx (Obj [(''nodeId'', Str (n_ID n)), (''payload'', report),
               (''type'', Str ''diag_result'')]) a1;
             a3 = post ''/api/v1/policy/diag'' report a2
         in wsLog cx (''diag finish summary='' @ summary @ '' checks='' @ show_int (int (length checks))) a3))"

section \<open>Applying a plan\<close>

definition handlePlan ::
  "host \<Rightarrow> agent_context \<Rightarrow> bool \<Rightarrow> config \<Rightarrow> node \<Rightarrow> agent \<Rightarrow> string option \<times> agent" where
  "handlePlan h cx client cfg node a =
     (let (n, nextASN) = mergePlanIntoNode node cfg (cx_asn cx);
          a1 = (merge_geo h cfg a)\<lparr>as_cfg := cfg, as_node := n\<rparr>;
          report = (\<lambda>st msg logs. reportPolicyStatus h cx client (n_ID n) (nc_ConfigVersion cfg) st msg logs);
          a2 = report ''applying'' ag_applying [] a1
      in (case RenderAndWrite h cx n (nc_Peers cfg) nextASN a2 of
            (Some err, a3) \<Rightarrow> (Some (''render: '' @ err), report ''failed'' (ag_render_failed @ err) [] a3)
          | (None, a3) \<Rightarrow>
              (case (if cx_apply cx then ApplyConfigs h cx a3 else (None, a3)) of
                 (Some err, a4) \<Rightarrow> (Some (''apply: '' @ err), report ''failed'' (ag_apply_failed @ err) [] a4)
               | (None, a4) \<Rightarrow>
                   (let a5 = report ''success'' ag_applied [ag_refreshed] a4;
                        a6 = wsLog cx (''apply plan success version='' @ nc_ConfigVersion cfg) a5
                    in (None, runPolicyDiag h cx client n (nc_ConfigVersion cfg) (nc_Peers cfg) a6)))))"

text \<open>Writing and applying the last plan again; \<open>latestNode\<close> stays as it is.\<close>

definition ensureRuntimeState ::
  "host \<Rightarrow> agent_context \<Rightarrow> bool \<Rightarrow> config \<Rightarrow> node \<Rightarrow> agent \<Rightarrow> string option \<times> agent" where
  "ensureRuntimeState h cx client cfg base a =
     (let (n, nextASN) = mergePlanIntoNode base cfg (cx_asn cx);
          a1 = merge_geo h cfg a;
          report = (\<lambda>st msg logs. reportPolicyStatus h cx client (n_ID n) (nc_ConfigVersion cfg) st msg logs);
          a2 = report ''checking'' ag_ensuring [] a1
      in (case RenderAndWrite h cx n (nc_Peers cfg) nextASN a2 of
            (Some err, a3) \<Rightarrow>
              (Some (''render (runtime ensure): '' @ err), report ''failed'' (ag_ensure_render_failed @ err) [] a3)
          | (None, a3) \<Rightarrow>
              (case (if cx_apply cx then ApplyConfigs h cx a3 else (None, a3)) of
                 (Some err, a4) \<Rightarrow>
                   (Some (''apply (runtime ensure): '' @ err), report ''failed'' (ag_ensure_apply_failed @ err) [] a4)
               | (None, a4) \<Rightarrow>
                   (None, runPolicyDiag h cx client n (nc_ConfigVersion cfg) (nc_Peers cfg)
                            (report ''success'' ag_ensured [] a4)))))"

text \<open>One tick of the ticker of \<open>StartPlanPoller\<close>\<close>

definition poll_tick :: "host \<Rightarrow> agent_context \<Rightarrow> agent \<Rightarrow> agent" where
  "poll_tick h cx a =
     (if cx_apply cx \<and> nc_ConfigVersion (as_cfg a) \<noteq> []
      then snd (ensureRuntimeState h cx True (as_cfg a) (as_node a) a) else a)"

section \<open>Verification\<close>

definition strip_network :: "string \<Rightarrow> string" where
  "strip_network p = (if CHR ''/'' \<in> set p then hd (split_on (CHR ''/'') p) else p)"

text \<open>\<open>seen\<close> holds exactly the targets collected so far.\<close>

definition collect_target :: "string \<Rightarrow> string list \<Rightarrow> string list" where
  "collect_target s targets = (if s \<in> set targets then targets else targets @ [s])"

definition rule_targets :: "net \<Rightarrow> geo_settings \<Rightarrow> policy_rule \<Rightarrow> string list \<Rightarrow> string list" where
  "rule_targets x g pr targets =
     (let t1 = (if pr_prefix pr \<noteq> [] then collect_target (strip_network (pr_prefix pr)) targets else targets);
          t2 = fold (\<lambda>d t. let s = go_trim_space d in if s \<noteq> [] then collect_target s t else t) (pr_domains pr) t1
      in fold (\<lambda>p. collect_target (strip_network p)) (Expand x g pr) t2)"

definition collectVerifyTargets :: "net \<Rightarrow> geo_settings \<Rightarrow> policy_rule list \<Rightarrow> string list" where
  "collectVerifyTargets x g rules = fold (rule_targets x g) rules []"

text \<open>The first target \<open>curl\<close> fails for ends the verification.\<close>

fun runCurlVerify :: "host \<Rightarrow> string list \<Rightarrow> string option" where
  "runCurlVerify h [] = None"
| "runCurlVerify h (t # ts) =
     (let arg = (if sublist ''://'' t then t else ''http://'' @ t)
      in case ho_curl h arg of
           Some err \<Rightarrow> Some (''curl '' @ arg @ '' failed: '' @ err)
         | None \<Rightarrow> runCurlVerify h ts)"

section \<open>Messages of the controller\<close>

definition handleWSPlan :: "host \<Rightarrow> agent_context \<Rightarrow> jsval \<Rightarrow> agent \<Rightarrow> agent" where
  "handleWSPlan h cx payload a =
     (case go_config payload of
        None \<Rightarrow> a
      | Some cfg0 \<Rightarrow>
          (let cfg = (if nc_ID cfg0 = [] then cfg0\<lparr>nc_ID := cx_nodeID cx\<rparr> else cfg0)
           in snd (handlePlan h cx False cfg (as_node a) a)))"

definition handleWSCommand :: "host \<Rightarrow> agent_context \<Rightarrow> jsval \<Rightarrow> agent \<Rightarrow> agent" where
  "handleWSCommand h cx payload a0 =
     (let action = asString (js_oget ''action'' payload);
          cfg = as_cfg a0; n = as_node a0;
          a = wsLog cx (''ws command '' @ action) a0;
          report = (\<lambda>st msg logs. reportPolicyStatus h cx True (n_ID n) (nc_ConfigVersion cfg) st msg logs)
      in if action = ''diag'' then runPolicyDiag h cx True n (nc_ConfigVersion cfg) (nc_Peers cfg) a
         else if action = ''install'' then snd (ensureRuntimeState h cx True cfg n a)
         else if action = ''verify'' then
           (case runCurlVerify h (collectVerifyTargets (ho_net h) (as_geo a) (nc_PolicyRules cfg)) of
              Some err \<Rightarrow> report ''failed'' err [] a
            | None \<Rightarrow> report ''success'' ag_verified [] a)
         else if action = ''script'' then
           (let cmd = asString (js_oget ''cmd'' payload)
            in if cmd = [] then a
               else (case ho_sh h cmd of
                   (Some err, out) \<Rightarrow> report ''failed'' (ag_script_failed @ err) [out] a
                 | (None, out) \<Rightarrow> report ''success'' ag_script_done [out] a))
         else a)"

fun toStringSlice :: "jsval \<Rightarrow> string list" where
  "toStringSlice (Arr xs) =
     List.map_filter (\<lambda>x. case x of Str s \<Rightarrow> if go_trim_space s \<noteq> [] then Some s else None | _ \<Rightarrow> None) xs"
| "toStringSlice _ = []"

definition task_frame :: "host \<Rightarrow> string \<Rightarrow> string \<Rightarrow> string \<Rightarrow> string \<Rightarrow> string \<Rightarrow> jsval" where
  "task_frame h taskID nid name status message =
     Obj [(''message'', Str message), (''name'', Str name), (''nodeId'', Str nid), (''status'', Str status),
       (''taskId'', Str taskID), (''ts'', Number (of_int (unix_seconds h)))]"

definition report_step :: "host \<Rightarrow> agent_context \<Rightarrow> string \<Rightarrow> string \<Rightarrow> string \<Rightarrow> string \<Rightarrow> string \<Rightarrow> agent \<Rightarrow> agent" where
  "report_step h cx taskID nid name status message a =
     wsLog cx (''task '' @ taskID @ '' '' @ name @ '': '' @ message)
       (wsSend cx ''task_step'' (task_frame h taskID nid name status message) a)"

text \<open>The verification of a task and what is said about it; \<open>False\<close> ends the task.\<close>

definition verify_step ::
  "host \<Rightarrow> agent_context \<Rightarrow> string \<Rightarrow> string \<Rightarrow> string list \<Rightarrow> string \<Rightarrow> agent \<Rightarrow> bool \<times> agent" where
  "verify_step h cx taskID nid targets done_text a =
     (let a1 = report_step h cx taskID nid ''verify'' ''running'' ag_verify a
      in case runCurlVerify h targets of
           Some err \<Rightarrow> (False, report_step h cx taskID nid ''verify'' ''fail'' err a1)
         | None \<Rightarrow> (True, report_step h cx taskID nid ''verify'' ''success'' done_text a1))"

definition diag_step ::
  "host \<Rightarrow> agent_context \<Rightarrow> string \<Rightarrow> node \<Rightarrow> config \<Rightarrow> string \<Rightarrow> string \<Rightarrow> string \<Rightarrow> agent \<Rightarrow> agent" where
  "diag_step h cx taskID n cfg name start_text done_text a =
     report_step h cx taskID (n_ID n) name ''success'' done_text
       (runPolicyDiag h cx True n (nc_ConfigVersion cfg) (nc_Peers cfg)
         (report_step h cx taskID (n_ID n) name ''running'' start_text a))"

definition apply_task ::
  "host \<Rightarrow> agent_context \<Rightarrow> string \<Rightarrow> string list \<Rightarrow> config \<Rightarrow> node \<Rightarrow> agent \<Rightarrow> bool \<times> agent" where
  "apply_task h cx taskID targets cfg n a =
     (let a1 = report_step h cx taskID (n_ID n) ''apply'' ''running'' ag_apply a
      in case handlePlan h cx True cfg n a1 of
           (Some err, a2) \<Rightarrow> (False, report_step h cx taskID (n_ID n) ''apply'' ''fail'' err a2)
         | (None, a2) \<Rightarrow>
             (let a3 = report_step h cx taskID (n_ID n) ''apply'' ''success'' ag_apply_done a2;
                  a4 = diag_step h cx taskID n cfg ''self_test'' ag_self_test ag_self_done a3
              in verify_step h cx taskID (n_ID n) targets ag_curl_ok a4))"

definition handleWSTask :: "host \<Rightarrow> agent_context \<Rightarrow> jsval \<Rightarrow> agent \<Rightarrow> agent" where
  "handleWSTask h cx payload a =
     (let cfg = as_cfg a; n = as_node a;
          taskID = asString (js_oget ''taskId'' payload);
          taskType = asString (js_oget ''type'' payload)
      in if taskID = [] \<or> taskType = [] then a
         else
           (let given = toStringSlice (js_oget ''verifyTargets'' payload);
                targets = (if given = []
                  then collectVerifyTargets (ho_net h) (as_geo a) (nc_PolicyRules cfg) else given);
                a1 = diag_step h cx taskID n cfg ''environment_check'' ag_env ag_env_done (a\<lparr>as_task := taskID\<rparr>);
                (ok, a2) =
                  (if taskType = ''policy_diag''
                   then (True, diag_step h cx taskID n cfg ''diag'' ag_diag ag_diag_done a1)
                   else if taskType = ''verify'' then verify_step h cx taskID (n_ID n) targets ag_targets_ok a1
                   else apply_task h cx taskID targets cfg n a1)
            in if ok then (report_step h cx taskID (n_ID n) ''complete'' ''success'' ag_complete a2)\<lparr>as_task := []\<rparr>
               else a2))"

text \<open>
  One message of \<open>readLoop\<close>; a message of another type is ignored.  A payload that is no
  object reads as an empty one.
\<close>

definition object_payload :: "jsval \<Rightarrow> jsval" where
  "object_payload msg = (case js_oget ''payload'' msg of Obj ps \<Rightarrow> Obj ps | _ \<Rightarrow> Null)"

definition agent_receive :: "host \<Rightarrow> agent_context \<Rightarrow> jsval \<Rightarrow> agent \<Rightarrow> agent" where
  "agent_receive h cx msg a =
     (let ty = asString (js_oget ''type'' msg); payload = object_payload msg
      in if ty = ''command'' then handleWSCommand h cx payload a
         else if ty = ''plan'' then handleWSPlan h cx payload a
         else if ty = ''task'' then handleWSTask h cx payload a
         else a)"

section \<open>Health reports\<close>

text \<open>Of \<open>e\<close> only the text of a time is read, which both sides encode alike.\<close>

definition reportOnce ::
  "env \<Rightarrow> host \<Rightarrow> agent_context \<Rightarrow> prober \<Rightarrow> peer list \<Rightarrow> agent \<Rightarrow> agent" where
  "reportOnce e h cx ping ps a =
     (let report = json_health e (health_of h ping (cx_nodeID cx) ps)
      in post ''/api/v1/health'' report (wsSend cx ''health'' report a))"

end
