(* ===== verification/Go_Agent_Main.thy ===== *)
theory Go_Agent_Main
  imports Go_Agent_Tasks "HOL-Library.Word"
begin

text \<open>
  The start of the agent, \<open>cmd/agent/main.go\<close>: the endpoints it finds for itself, the
  registration, the node it makes of the answer and the first configuration.  An address is the
  list of its bytes, as \<open>net.IP\<close> is: 4 of them, or 16 with an IPv4 address behind a
  fixed prefix.
\<close>

unbundle bit_operations_syntax

section \<open>Addresses\<close>

type_synonym ip = "8 word list"

definition v4_prefix :: ip where
  "v4_prefix = [0, 0, 0, 0, 0, 0, 0, 0, 0, 0, 255, 255]"

definition To4 :: "ip \<Rightarrow> ip option" where
  "To4 ip =
     (if length ip = 4 then Some ip
      else if length ip = 16 \<and> take 12 ip = v4_prefix then Some (drop 12 ip) else None)"

definition To16 :: "ip \<Rightarrow> ip option" where
  "To16 ip = (if length ip = 4 then Some (v4_prefix @ ip) else if length ip = 16 then Some ip else None)"

definition IsLoopback :: "ip \<Rightarrow> bool" where
  "IsLoopback ip =
     (case To4 ip of Some a \<Rightarrow> a ! 0 = 127 | None \<Rightarrow> ip = replicate 15 0 @ [1])"

definition IsGlobalUnicast :: "ip \<Rightarrow> bool" where
  "IsGlobalUnicast ip \<longleftrightarrow>
     (length ip = 4 \<or> length ip = 16)
     \<and> To4 ip \<noteq> Some [255, 255, 255, 255]
     \<and> (case To4 ip of Some a \<Rightarrow> a \<noteq> [0, 0, 0, 0] | None \<Rightarrow> ip \<noteq> replicate 16 0)
     \<and> \<not> IsLoopback ip
     \<and> (case To4 ip of Some a \<Rightarrow> a ! 0 AND 0xF0 \<noteq> 0xE0 | None \<Rightarrow> ip ! 0 \<noteq> 0xFF)
     \<and> (case To4 ip of
          Some a \<Rightarrow> \<not> (a ! 0 = 169 \<and> a ! 1 = 254)
        | None \<Rightarrow> \<not> (ip ! 0 = 0xFE \<and> ip ! 1 AND 0xC0 = 0x80))"

text \<open>It tests the bytes of \<open>ip\<close>, not those of \<open>ip.To4()\<close>.\<close>

definition isPrivate :: "ip \<Rightarrow> bool" where
  "isPrivate ip \<longleftrightarrow>
     To4 ip \<noteq> None \<and>
       (ip ! 0 = 10
        \<or> ip ! 0 = 172 \<and> ip ! 1 AND 0xF0 = 16
        \<or> ip ! 0 = 192 \<and> ip ! 1 = 168
        \<or> ip ! 0 = 100 \<and> ip ! 1 AND 0xC0 = 0x40
        \<or> ip ! 0 = 169 \<and> ip ! 1 = 254)
     \<or> To16 ip \<noteq> None \<and> ip ! 0 AND 0xFE = 0xFC
     \<or> IsLoopback ip"

definition isPublic :: "ip option \<Rightarrow> bool" where
  "isPublic a = (case a of None \<Rightarrow> False | Some ip \<Rightarrow> IsGlobalUnicast ip \<and> \<not> isPrivate ip)"

section \<open>Endpoints\<close>

text \<open>
  What the host answers: the local address of a connection to the outside, the body of a web
  page, \<open>net.ParseIP\<close> and the text of an address, and the interfaces (up, loopback,
  addresses).
\<close>

record surroundings =
  su_dial :: "ip option"
  su_page :: "string \<Rightarrow> string option"
  su_parse :: "string \<Rightarrow> ip option"
  su_show :: "ip \<Rightarrow> string"
  su_ifaces :: "(bool \<times> bool \<times> ip list) list"

definition fetchPublicIP :: "surroundings \<Rightarrow> string \<Rightarrow> string" where
  "fetchPublicIP su url =
     (case su_page su url of
        None \<Rightarrow> []
      | Some b \<Rightarrow> (let ip = go_trim_space b in if ip \<noteq> [] \<and> isPublic (su_parse su ip) then ip else []))"

definition with_port :: "string \<Rightarrow> int \<Rightarrow> string" where
  "with_port a port = a @ '':'' @ show_int port"

definition bracketed :: "string \<Rightarrow> int \<Rightarrow> string" where
  "bracketed a port = ''['' @ a @ '']:'' @ show_int port"

definition page_endpoints :: "surroundings \<Rightarrow> int \<Rightarrow> string list" where
  "page_endpoints su port =
     List.map_filter (\<lambda>url.
        let ip = fetchPublicIP su url
        in if ip = [] then None
           else Some (if CHR '':'' \<in> set ip then bracketed ip port else with_port ip port))
       [''http://ipv4.icanhazip.com'', ''http://ipv6.icanhazip.com'', ''https://api.ipify.org'', ''https://ip.sb'']"

definition iface_endpoints :: "surroundings \<Rightarrow> int \<Rightarrow> string list" where
  "iface_endpoints su port =
     concat (map (\<lambda>(up, loop, ips).
        if \<not> up \<or> loop then []
        else map (\<lambda>ip. if To4 ip = None \<and> CHR '':'' \<in> set (su_show su ip) then bracketed (su_show su ip) port
                        else with_port (su_show su ip) port) (filter (\<lambda>ip. isPublic (Some ip)) ips)) (su_ifaces su))"

definition dedup :: "string list \<Rightarrow> string list" where
  "dedup xs = fold (\<lambda>x out. if x = [] \<or> x \<in> set out then out else out @ [x]) xs []"

definition detectEndpoints :: "surroundings \<Rightarrow> int \<Rightarrow> string list" where
  "detectEndpoints su port =
     dedup ((if isPublic (su_dial su) then [with_port (su_show su (the (su_dial su))) port] else [])
            @ page_endpoints su port @ iface_endpoints su port)"

section \<open>Registration\<close>

record flags =
  fl_id :: string
  fl_pub :: string
  fl_endpoints :: string
  fl_cidrs :: string
  fl_overlay :: string
  fl_listen :: int
  fl_priv :: string
  fl_out :: string
  fl_iface :: string
  fl_asn :: int
  fl_router :: string
  fl_apply :: bool
  fl_controller :: string
  fl_provision :: string
  fl_auto :: bool

definition splitAndTrim :: "string \<Rightarrow> string list" where
  "splitAndTrim s = filter (\<lambda>p. p \<noteq> []) (map go_trim_space (split_on (CHR '','') s))"

definition firstNonEmpty :: "string list \<Rightarrow> string" where
  "firstNonEmpty vals = (case filter (\<lambda>v. go_trim_space v \<noteq> []) vals of [] \<Rightarrow> [] | v # _ \<Rightarrow> v)"

definition chooseInt :: "int list \<Rightarrow> int" where
  "chooseInt vals = (case filter (\<lambda>v. 0 < v) vals of [] \<Rightarrow> 0 | v # _ \<Rightarrow> v)"

definition ipFromCIDR :: "string \<Rightarrow> string" where
  "ipFromCIDR cidr =
     (let ip = takeWhile (\<lambda>c. c \<noteq> CHR ''/'') cidr
      in if CHR ''/'' \<in> set cidr \<and> ip \<noteq> [] then ip else cidr)"

definition agent_request :: "flags \<Rightarrow> surroundings \<Rightarrow> node_registration" where
  "agent_request fl su =
     \<lparr>r_ID = fl_id fl, r_PublicKey = fl_pub fl,
      r_Endpoints =
        (let eps = detectEndpoints su (fl_listen fl)
         in if fl_auto fl \<and> eps \<noteq> [] then eps else splitAndTrim (fl_endpoints fl)),
      r_CIDRs = splitAndTrim (fl_cidrs fl), r_Force = False, r_ListenPort = fl_listen fl,
      r_OverlayIP = (if fl_provision fl \<noteq> [] \<and> fl_overlay fl = ''10.10.1.1/32'' then [] else fl_overlay fl),
      r_ASN = fl_asn fl, r_RouterID = fl_router fl, r_ProvisionToken = fl_provision fl,
      r_PeerEndpoints = []\<rparr>"

text \<open>The node made of the answer to the registration.\<close>

definition started_node :: "flags \<Rightarrow> config \<Rightarrow> node" where
  "started_node fl cfg =
     (let overlay = firstNonEmpty [nc_OverlayIP cfg, fl_overlay fl]
      in node_zero\<lparr>n_ID := nc_ID cfg, n_CIDRs := nc_Routes cfg, n_OverlayIP := overlay,
           n_ListenPort := chooseInt [nc_ListenPort cfg, fl_listen fl],
           n_ASN := chooseInt [nc_ASN cfg, fl_asn fl],
           n_RouterID := firstNonEmpty [nc_RouterID cfg, fl_router fl, ipFromCIDR overlay]\<rparr>)"

definition started_context :: "flags \<Rightarrow> config \<Rightarrow> agent_context" where
  "started_context fl cfg =
     \<lparr>cx_iface = fl_iface fl, cx_outDir = fl_out fl,
      cx_private = firstNonEmpty [nc_PrivateKey cfg, fl_priv fl],
      cx_asn = chooseInt [nc_ASN cfg, fl_asn fl], cx_apply = fl_apply fl,
      cx_controller = fl_controller fl, cx_nodeID = nc_ID cfg\<rparr>"

text \<open>
  From the answer on: the first configuration is written and, with \<open>--apply\<close>, applied; an
  error ends the program (\<open>None\<close>).  Then \<open>StartPlanPoller\<close> takes the node over
  and dials the controller; \<open>latestCfg\<close> is still the zero configuration.
\<close>

definition start_agent :: "host \<Rightarrow> flags \<Rightarrow> config \<Rightarrow> agent \<Rightarrow> agent option" where
  "start_agent h fl cfg a =
     (let n = started_node fl cfg; cx = started_context fl cfg
      in (case RenderAndWrite h cx n (nc_Peers cfg) (cx_asn cx) a of
            (Some err, a1) \<Rightarrow> None
          | (None, a1) \<Rightarrow>
              (case (if cx_apply cx then ApplyConfigs h cx a1 else (None, a1)) of
                 (Some err, a2) \<Rightarrow> None
               | (None, a2) \<Rightarrow> Some (a2\<lparr>as_node := n\<rparr>))))"

lemma v4_prefix_simps [simp]:
  "length v4_prefix = 12" "(v4_prefix @ a) ! 0 = 0" "(v4_prefix @ a) ! Suc 0 = 0"
  by (simp_all add: v4_prefix_def)

lemma To4_simps [simp]:
  "To4 [a, b, c, d] = Some [a, b, c, d]" "To4 (v4_prefix @ [a, b, c, d]) = Some [a, b, c, d]"
  "To16 [a, b, c, d] \<noteq> None" "To16 (v4_prefix @ [a, b, c, d]) \<noteq> None"
  by (simp_all add: To4_def To16_def)

lemma isPrivate_short: "isPrivate [a, b, c, d] \<longleftrightarrow> a = 10 \<or> a = 172 \<and> b AND 0xF0 = 16 \<or> a = 192 \<and> b = 168
    \<or> a = 100 \<and> b AND 0xC0 = 0x40 \<or> a = 169 \<and> b = 254 \<or> a AND 0xFE = 0xFC \<or> a = 127"
  by (simp add: isPrivate_def IsLoopback_def)

lemma isPrivate_long: "isPrivate (v4_prefix @ [a, b, c, d]) \<longleftrightarrow> a = 127"
  by (simp add: isPrivate_def IsLoopback_def)

lemma IsGlobalUnicast_long: "IsGlobalUnicast (v4_prefix @ [a, b, c, d]) = IsGlobalUnicast [a, b, c, d]"
  by (simp add: IsGlobalUnicast_def IsLoopback_def)

lemma IsGlobalUnicast_short: "IsGlobalUnicast [a, b, c, d] \<Longrightarrow> a \<noteq> 127"
  by (simp add: IsGlobalUnicast_def IsLoopback_def)

section \<open>Properties\<close>

text \<open>The filter that keeps private addresses out of the endpoints only knows the short form of
  an address.  In the 16 bytes in which the standard library returns parsed addresses and those
  of interfaces every unicast IPv4 address counts as public, those of 10.0.0.0/8 and
  192.168.0.0/16 among them; in its 4 bytes such an address counts as private.\<close>

theorem private_addresses_pass:
  "(isPublic (Some (v4_prefix @ [a, b, c, d])) \<longleftrightarrow> IsGlobalUnicast [a, b, c, d])
   \<and> isPublic (Some (v4_prefix @ [10, b, c, d])) \<and> \<not> isPublic (Some [10, b, c, d])
   \<and> isPublic (Some (v4_prefix @ [192, 168, c, d])) \<and> \<not> isPublic (Some [192, 168, c, d])"
  using IsGlobalUnicast_short [of a b c d]
  by (auto simp: isPublic_def isPrivate_short isPrivate_long IsGlobalUnicast_long)
    (simp_all add: IsGlobalUnicast_def IsLoopback_def)

end
