(* ===== verification/Agent_Wire.thy ===== *)
theory Agent_Wire
  imports Go_Agent_Main
begin

text \<open>
  The wire between the controller and the agents: a configuration the controller sends decodes
  to itself at the agent, whether it is pushed as a plan or answers a registration.
\<close>

definition int64 :: "int \<Rightarrow> bool" where
  "int64 n \<longleftrightarrow> - (2 ^ 63) \<le> n \<and> n < 2 ^ 63"

lemma omit_lookup [wire_simps]:
  "js_lookup k (omit_str k' s @ ps) = (if k = k' \<and> s \<noteq> [] then Str s else js_lookup k ps)"
  "js_lookup k (omit_int k' n @ ps) = (if k = k' \<and> n \<noteq> 0 then Number (of_int n) else js_lookup k ps)"
  "js_lookup k (omit_bool k' b @ ps) = (if k = k' \<and> b then Boolean True else js_lookup k ps)"
  "js_lookup k (omit_list k' f xs @ ps) = (if k = k' \<and> xs \<noteq> [] then Arr (map f xs) else js_lookup k ps)"
  "js_lookup k (omit_map k' m @ ps) =
     (if k = k' \<and> m \<noteq> [] then Obj (map (map_prod (\<lambda>x. x) Str) m) else js_lookup k ps)"
  "js_lookup k (omit_str k' s) = (if k = k' \<and> s \<noteq> [] then Str s else Undef)"
  "js_lookup k (omit_int k' n) = (if k = k' \<and> n \<noteq> 0 then Number (of_int n) else Undef)"
  by (simp_all add: omit_defs)

text \<open>A field that may be left out decodes to its value.\<close>

lemma go_omitted [wire_simps]:
  "go_str (if s \<noteq> [] then Str s else Undef) = Some s"
  "int64 n \<Longrightarrow> go_int (if n \<noteq> 0 then Number (of_int n) else Undef) = Some n"
  "go_bool (if b then Boolean True else Undef) = Some b"
  "those (map (f \<circ> g) xs) = Some xs \<Longrightarrow> go_list f (if xs \<noteq> [] then Arr (map g xs) else Undef) = Some xs"
  "go_str_map (if m \<noteq> [] then Obj (map (map_prod (\<lambda>x. x) Str) m) else Undef) = Some m"
proof -
  have "those (map ((\<lambda>(k, v). map_option (Pair k) (go_str v)) \<circ> map_prod (\<lambda>x. x) Str) m) = Some m"
    by (induction m) auto
  then show "go_str_map (if m \<noteq> [] then Obj (map (map_prod (\<lambda>x. x) Str) m) else Undef) = Some m" by simp
qed (simp_all add: int64_def)

lemma js_lookup_Cons [wire_simps]:
  "js_lookup k ((k', v) # ps) = (if k = k' then v else js_lookup k ps)" "js_lookup k [] = Undef"
  by simp_all

lemma go_peer_json_peer [simp, wire_simps]: "int64 (p_Keepalive p) \<Longrightarrow> go_peer (json_peer p) = Some p"
  by (simp add: go_peer_def json_peer_def wire_simps split del: if_split cong: if_cong)

lemma go_peers_js_array [simp, wire_simps]:
  "\<forall>p\<in>set ps. int64 (p_Keepalive p) \<Longrightarrow> go_list go_peer (js_array json_peer ps) = Some ps"
proof -
  assume "\<forall>p\<in>set ps. int64 (p_Keepalive p)"
  then have "those (map (go_peer \<circ> json_peer) ps) = Some ps" by (induction ps) auto
  then show ?thesis by (simp add: js_array_def)
qed

lemma go_geoip_json [simp, wire_simps]: "go_ptr go_geoip (json_geoip g) = Some (Some g)"
  by (cases g) (simp add: go_ptr_def go_geoip_def json_geoip_def)

text \<open>What the agent makes of the configuration of a node.\<close>

definition sent_config ::
  "env \<Rightarrow> mem_store \<Rightarrow> node \<Rightarrow> string \<Rightarrow> peer list \<Rightarrow> policy_rule list \<Rightarrow> bool \<Rightarrow> string \<Rightarrow> config" where
  "sent_config e m n cv ps rules keys msg = \<lparr>nc_ID = n_ID n, nc_ConfigVersion = cv, nc_Peers = ps,
     nc_Routes = n_CIDRs n, nc_OverlayIP = n_OverlayIP n, nc_ListenPort = n_ListenPort n,
     nc_ASN = n_ASN n, nc_RouterID = n_RouterID n, nc_Endpoints = n_Endpoints n,
     nc_PrivateKey = (if keys then n_PrivateKey n else []),
     nc_PublicKey = (if keys then n_PublicKey n else []), nc_Message = msg,
     nc_EgressPeerID = n_EgressPeerID n, nc_PolicyRules = rules, nc_PeerEndpoints = n_PeerEndpoints n,
     nc_GeoIP = Some (s_GeoIP (loadSettingsOrDefault m)), nc_DefaultRoute = n_DefaultRoute n,
     nc_BypassCIDRs = n_BypassCIDRs n, nc_DefaultRouteNextHop = n_DefaultRouteNextHop n,
     nc_HealthIntervalSec = diagIntervalSeconds e m\<rparr>"

lemma go_config_json_config:
  assumes "int64 (n_ListenPort n)" "int64 (n_ASN n)" "int64 (diagIntervalSeconds e m)"
    and "\<forall>p\<in>set ps. int64 (p_Keepalive p)"
  shows "go_config (json_config e m n cv ps rules keys msg) = Some (sent_config e m n cv ps rules keys msg)"
  using assms
  by (cases keys) (simp_all add: go_config_def json_config_def sent_config_def wire_simps
      split del: if_split cong: if_cong)

end
