(* ===== verification/Agent_Laws.thy ===== *)
theory Agent_Laws
  imports Agent_Wire
begin

text \<open>
  What each operation of the agent changes and what it leaves alone: reporting only appends to
  what is sent, writing the configuration changes files, routes and tunnels, applying it what
  WireGuard and FRR run with, and a plan is taken over whatever becomes of it.
\<close>

section \<open>What the reports leave alone\<close>

lemma ws_client_send_simps [simp]:
  "as_cfg (ws_client_send cx m a) = as_cfg a" "as_node (ws_client_send cx m a) = as_node a"
  "as_geo (ws_client_send cx m a) = as_geo a" "as_files (ws_client_send cx m a) = as_files a"
  "as_kernel (ws_client_send cx m a) = as_kernel a" "as_firewall (ws_client_send cx m a) = as_firewall a"
  "as_wg (ws_client_send cx m a) = as_wg a" "as_conn (ws_client_send cx m a) = as_conn a"
  "as_task (ws_client_send cx m a) = as_task a" "as_frr (ws_client_send cx m a) = as_frr a"
  "as_tunnels (ws_client_send cx m a) = as_tunnels a"
  by (simp_all add: ws_client_send_def)

lemma wsLog_simps [simp]:
  "as_cfg (wsLog cx l a) = as_cfg a" "as_node (wsLog cx l a) = as_node a" "as_geo (wsLog cx l a) = as_geo a"
  "as_files (wsLog cx l a) = as_files a" "as_kernel (wsLog cx l a) = as_kernel a"
  "as_firewall (wsLog cx l a) = as_firewall a" "as_wg (wsLog cx l a) = as_wg a"
  "as_conn (wsLog cx l a) = as_conn a" "as_frames (wsLog cx l a) = as_frames a"
  "as_task (wsLog cx l a) = as_task a" "as_frr (wsLog cx l a) = as_frr a"
  "as_tunnels (wsLog cx l a) = as_tunnels a"
  by (simp_all add: wsLog_def)

lemma post_simps [simp]:
  "as_cfg (post p v a) = as_cfg a" "as_node (post p v a) = as_node a" "as_geo (post p v a) = as_geo a"
  "as_files (post p v a) = as_files a" "as_kernel (post p v a) = as_kernel a"
  "as_firewall (post p v a) = as_firewall a" "as_wg (post p v a) = as_wg a"
  "as_conn (post p v a) = as_conn a" "as_frames (post p v a) = as_frames a"
  "as_task (post p v a) = as_task a" "as_frr (post p v a) = as_frr a" "as_tunnels (post p v a) = as_tunnels a"
  by (simp_all add: post_def)

lemma report_simps [simp]:
  "as_cfg (reportPolicyStatus h cx cl k v st m ls a) = as_cfg a"
  "as_node (reportPolicyStatus h cx cl k v st m ls a) = as_node a"
  "as_geo (reportPolicyStatus h cx cl k v st m ls a) = as_geo a"
  "as_files (reportPolicyStatus h cx cl k v st m ls a) = as_files a"
  "as_kernel (reportPolicyStatus h cx cl k v st m ls a) = as_kernel a"
  "as_firewall (reportPolicyStatus h cx cl k v st m ls a) = as_firewall a"
  "as_wg (reportPolicyStatus h cx cl k v st m ls a) = as_wg a"
  "as_conn (reportPolicyStatus h cx cl k v st m ls a) = as_conn a"
  "as_task (reportPolicyStatus h cx cl k v st m ls a) = as_task a"
  "as_frr (reportPolicyStatus h cx cl k v st m ls a) = as_frr a"
  "as_tunnels (reportPolicyStatus h cx cl k v st m ls a) = as_tunnels a"
  by (simp_all add: reportPolicyStatus_def Let_def)

lemma diag_simps [simp]:
  "as_cfg (runPolicyDiag h cx cl n v ps a) = as_cfg a"
  "as_node (runPolicyDiag h cx cl n v ps a) = as_node a"
  "as_geo (runPolicyDiag h cx cl n v ps a) = as_geo a"
  "as_files (runPolicyDiag h cx cl n v ps a) = as_files a"
  "as_kernel (runPolicyDiag h cx cl n v ps a) = as_kernel a"
  "as_firewall (runPolicyDiag h cx cl n v ps a) = as_firewall a"
  "as_wg (runPolicyDiag h cx cl n v ps a) = as_wg a"
  "as_conn (runPolicyDiag h cx cl n v ps a) = as_conn a"
  "as_task (runPolicyDiag h cx cl n v ps a) = as_task a"
  "as_frr (runPolicyDiag h cx cl n v ps a) = as_frr a"
  "as_tunnels (runPolicyDiag h cx cl n v ps a) = as_tunnels a"
  by (simp_all add: runPolicyDiag_def Let_def)

lemma report_step_simps [simp]:
  "as_cfg (report_step h cx k nid nm st m a) = as_cfg a" "as_node (report_step h cx k nid nm st m a) = as_node a"
  "as_geo (report_step h cx k nid nm st m a) = as_geo a" "as_files (report_step h cx k nid nm st m a) = as_files a"
  "as_kernel (report_step h cx k nid nm st m a) = as_kernel a"
  "as_firewall (report_step h cx k nid nm st m a) = as_firewall a"
  "as_wg (report_step h cx k nid nm st m a) = as_wg a" "as_conn (report_step h cx k nid nm st m a) = as_conn a"
  "as_task (report_step h cx k nid nm st m a) = as_task a" "as_frr (report_step h cx k nid nm st m a) = as_frr a"
  "as_tunnels (report_step h cx k nid nm st m a) = as_tunnels a"
  by (simp_all add: report_step_def wsSend_def)

lemma diag_step_simps [simp]:
  "as_cfg (diag_step h cx k n cfg nm t1 t2 a) = as_cfg a" "as_node (diag_step h cx k n cfg nm t1 t2 a) = as_node a"
  "as_geo (diag_step h cx k n cfg nm t1 t2 a) = as_geo a" "as_files (diag_step h cx k n cfg nm t1 t2 a) = as_files a"
  "as_kernel (diag_step h cx k n cfg nm t1 t2 a) = as_kernel a"
  "as_firewall (diag_step h cx k n cfg nm t1 t2 a) = as_firewall a"
  "as_wg (diag_step h cx k n cfg nm t1 t2 a) = as_wg a" "as_conn (diag_step h cx k n cfg nm t1 t2 a) = as_conn a"
  "as_task (diag_step h cx k n cfg nm t1 t2 a) = as_task a" "as_frr (diag_step h cx k n cfg nm t1 t2 a) = as_frr a"
  "as_tunnels (diag_step h cx k n cfg nm t1 t2 a) = as_tunnels a"
  by (simp_all add: diag_step_def)

lemma verify_step_simps [simp]:
  "as_cfg (snd (verify_step h cx k nid ts t a)) = as_cfg a" "as_node (snd (verify_step h cx k nid ts t a)) = as_node a"
  "as_kernel (snd (verify_step h cx k nid ts t a)) = as_kernel a" "as_wg (snd (verify_step h cx k nid ts t a)) = as_wg a"
  "as_files (snd (verify_step h cx k nid ts t a)) = as_files a"
  by (simp_all add: verify_step_def Let_def split: option.split)

section \<open>Writing and applying\<close>

lemma startAll_simps [simp]:
  "as_cfg (startAll h m p a) = as_cfg a" "as_node (startAll h m p a) = as_node a"
  "as_files (startAll h m p a) = as_files a" "as_kernel (startAll h m p a) = as_kernel a"
  "as_wg (startAll h m p a) = as_wg a" "as_conn (startAll h m p a) = as_conn a"
  "as_frames (startAll h m p a) = as_frames a" "as_task (startAll h m p a) = as_task a"
  "as_geo (startAll h m p a) = as_geo a" "as_firewall (startAll h m p a) = as_firewall a"
  by (simp_all add: startAll_def)

definition writes_ok :: "host \<Rightarrow> agent_context \<Rightarrow> bool" where
  "writes_ok h cx \<longleftrightarrow> ho_mkdir h (cx_outDir cx) = None
     \<and> ho_write h (wg_path (cx_outDir cx) (cx_iface cx)) = None \<and> ho_write h (bgp_path (cx_outDir cx)) = None
     \<and> cx_iface cx \<noteq> ''bgpd''"

lemma paths_differ: "cx_iface cx \<noteq> ''bgpd'' \<Longrightarrow> wg_path (cx_outDir cx) (cx_iface cx) \<noteq> bgp_path (cx_outDir cx)"
proof
  assume "wg_path (cx_outDir cx) (cx_iface cx) = bgp_path (cx_outDir cx)" "cx_iface cx \<noteq> ''bgpd''"
  then have "cx_iface cx @ ''.conf'' = ''bgpd'' @ ''.conf''" by (simp add: wg_path_def bgp_path_def)
  then show False using \<open>cx_iface cx \<noteq> ''bgpd''\<close> by (simp only: append_same_eq)
qed

lemma agent_plan_listening [simp]: "agent_plan (listening_node n) ps = agent_plan n ps"
  by (simp add: agent_plan_def listening_node_def)

lemma RenderAndWrite_frame [simp]:
  "as_cfg (snd (RenderAndWrite h cx n ps asn a)) = as_cfg a"
  "as_node (snd (RenderAndWrite h cx n ps asn a)) = as_node a"
  "as_wg (snd (RenderAndWrite h cx n ps asn a)) = as_wg a"
  "as_geo (snd (RenderAndWrite h cx n ps asn a)) = as_geo a"
  "as_conn (snd (RenderAndWrite h cx n ps asn a)) = as_conn a"
  "as_frames (snd (RenderAndWrite h cx n ps asn a)) = as_frames a"
  "as_firewall (snd (RenderAndWrite h cx n ps asn a)) = as_firewall a"
  unfolding RenderAndWrite_def Let_def write_file_def by (simp_all split: option.split)

lemma RenderAndWrite_ok:
  assumes "writes_ok h cx"
  shows "fst (RenderAndWrite h cx n ps asn a) = None"
    and "as_kernel (snd (RenderAndWrite h cx n ps asn a)) =
      applyStaticRoutes (ho_net h) (as_geo a) (ho_ip h) (agent_plan n ps) (cx_iface cx) (as_kernel a)"
    and "file_content (wg_path (cx_outDir cx) (cx_iface cx)) (snd (RenderAndWrite h cx n ps asn a)) =
      RenderConfig (listening_node n) (rendered_peers (ho_net h) (as_geo a) (listening_node n) ps) (cx_private cx)"
  using assms paths_differ [of cx] unfolding RenderAndWrite_def Let_def write_file_def writes_ok_def
  by (simp_all add: file_content_def)

lemma RenderAndWrite_tunnels:
  assumes "writes_ok h cx"
  shows "as_tunnels (snd (RenderAndWrite h cx n ps asn a)) =
    (if ho_wstunnel h then filter (ho_starts h)
       (tunnels_of (allocateLocalPorts ps 30000 []) (n_ListenPort (listening_node n))) else as_tunnels a)"
  using assms unfolding RenderAndWrite_def Let_def write_file_def writes_ok_def by (simp add: startAll_def)

lemma applyWireGuard_frame [simp]:
  "as_cfg (snd (applyWireGuard h p a)) = as_cfg a" "as_node (snd (applyWireGuard h p a)) = as_node a"
  "as_kernel (snd (applyWireGuard h p a)) = as_kernel a" "as_geo (snd (applyWireGuard h p a)) = as_geo a"
  "as_files (snd (applyWireGuard h p a)) = as_files a" "as_conn (snd (applyWireGuard h p a)) = as_conn a"
  "as_frames (snd (applyWireGuard h p a)) = as_frames a"
  "as_firewall (snd (applyWireGuard h p a)) = as_firewall a"
  by (simp_all add: applyWireGuard_def split: option.split)

lemma ApplyConfigs_frame [simp]:
  "as_cfg (snd (ApplyConfigs h cx a)) = as_cfg a" "as_node (snd (ApplyConfigs h cx a)) = as_node a"
  "as_kernel (snd (ApplyConfigs h cx a)) = as_kernel a" "as_geo (snd (ApplyConfigs h cx a)) = as_geo a"
  "as_files (snd (ApplyConfigs h cx a)) = as_files a" "as_conn (snd (ApplyConfigs h cx a)) = as_conn a"
  "as_frames (snd (ApplyConfigs h cx a)) = as_frames a"
  unfolding ApplyConfigs_def Let_def case_prod_beta by (simp_all split: option.split)

lemma merge_geo_simps [simp]:
  "as_cfg (merge_geo h cfg a) = as_cfg a" "as_node (merge_geo h cfg a) = as_node a"
  "as_kernel (merge_geo h cfg a) = as_kernel a" "as_wg (merge_geo h cfg a) = as_wg a"
  "as_conn (merge_geo h cfg a) = as_conn a" "as_frames (merge_geo h cfg a) = as_frames a"
  by (simp_all add: merge_geo_def split: option.split)

text \<open>A plan is taken over whatever becomes of writing and applying it.\<close>

lemma handlePlan_node:
  "as_cfg (snd (handlePlan h cx cl cfg n a)) = cfg"
  "as_node (snd (handlePlan h cx cl cfg n a)) = fst (mergePlanIntoNode n cfg (cx_asn cx))"
  by (simp_all add: handlePlan_def Let_def case_prod_beta split: option.split)

lemma handlePlan_kernel:
  assumes "writes_ok h cx"
  shows "as_kernel (snd (handlePlan h cx cl cfg n a)) =
    applyStaticRoutes (ho_net h) (as_geo (merge_geo h cfg a)) (ho_ip h)
      (agent_plan (fst (mergePlanIntoNode n cfg (cx_asn cx))) (nc_Peers cfg)) (cx_iface cx) (as_kernel a)"
  using RenderAndWrite_ok(1,2) [OF assms]
  by (simp add: handlePlan_def Let_def case_prod_beta split: option.split)

end
