(* ===== verification/Agent_Flow.thy ===== *)
theory Agent_Flow
  imports Agent_Laws Example
begin

text \<open>
  The agent and the controller together: which routes an agent has after a plan of the
  controller, what a submitted policy and a health report change at the agent, and what the
  controller learns from its tasks and reports.
\<close>

section \<open>Forwarding\<close>

lemma rule_hops_path: "(a, r) \<in> set (rule_hops nid pr) \<Longrightarrow> pr_path r = []"
  by (auto simp: rule_hops_def split: if_splits)

lemma distributed_rule_path: "r \<in> set (slice_of (expandPolicyRules ns) k) \<Longrightarrow> pr_path r = []"
  by (auto simp: slice_expandPolicyRules rules_at_def emitted_def dest: rule_hops_path)

lemma next_hop_last_rule:
  assumes "next_hop (expandPolicyRules ns) pfx k = Some k'"
  obtains us pr vs where "slice_of (expandPolicyRules ns) k = us @ pr # vs" "pr_prefix pr = pfx"
    "rule_target pr = k'" "pr_viaNode pr = k'" "\<forall>r\<in>set vs. pr_prefix r \<noteq> pfx"
proof -
  let ?rs = "slice_of (expandPolicyRules ns) k"
  have "\<exists>r\<in>set ?rs. pr_prefix r = pfx"
  proof (rule ccontr)
    assume "\<not> (\<exists>r\<in>set ?rs. pr_prefix r = pfx)"
    then have "filter (\<lambda>r. pr_prefix r = pfx) ?rs = []" by (simp add: filter_empty_conv)
    then show False using assms by (simp add: next_hop_def)
  qed
  then obtain us pr vs where rs: "?rs = us @ pr # vs" "pr_prefix pr = pfx" "\<forall>r\<in>set vs. pr_prefix r \<noteq> pfx"
    using split_list_last_prop [of ?rs "\<lambda>r. pr_prefix r = pfx"] by auto
  moreover have "filter (\<lambda>r. pr_prefix r = pfx) vs = []" using rs(3) by (simp add: filter_empty_conv)
  then have "filter (\<lambda>r. pr_prefix r = pfx) ?rs = filter (\<lambda>r. pr_prefix r = pfx) us @ [pr]"
    using rs(1,2) by simp
  then have "next_hop (expandPolicyRules ns) pfx k = Some (pr_viaNode pr)"
    unfolding next_hop_def by (cases "filter (\<lambda>r. pr_prefix r = pfx) us") auto
  then have "pr_viaNode pr = k'" using assms by simp
  moreover have "pr_path pr = []" using distributed_rule_path [of pr ns k] rs(1) by simp
  ultimately show ?thesis using that by (simp add: rule_target_def)
qed

lemma overlayForPeer_plan:
  assumes "distinct (map n_ID ns)" and "m \<in> set ns" and "eligible k hm m" and "n_OverlayIP m \<noteq> []"
  shows "overlayForPeer (n_ID m) (BuildPeerPlan k ns hm) = n_OverlayIP m"
proof -
  have own: "hd (p_AllowedIPs p) = n_OverlayIP m" if p: "p \<in> set (BuildPeerPlan k ns hm)" "p_ID p = n_ID m" for p
  proof -
    obtain m' where "m' \<in> set ns" "p = peer_of m'" using p(1) unfolding set_BuildPeerPlan by blast
    then have "m' = m" using p(2) assms(1,2) by (auto simp: peer_of_def distinct_map dest: inj_onD)
    then show ?thesis using \<open>p = peer_of m'\<close> assms(4) by (simp add: peer_of_def hd_allowed_ips)
  qed
  have "n_OverlayIP m \<in> set (p_AllowedIPs (peer_of m))"
    using assms(4) by (simp add: peer_of_def set_allowed_ips)
  then have ex: "peer_of m \<in> set (filter (\<lambda>p. p_ID p = n_ID m \<and> p_AllowedIPs p \<noteq> []) (BuildPeerPlan k ns hm))"
    using assms(2,3) by (auto simp: set_BuildPeerPlan peer_of_def)
  then obtain p ps where f: "filter (\<lambda>p. p_ID p = n_ID m \<and> p_AllowedIPs p \<noteq> []) (BuildPeerPlan k ns hm) = p # ps"
    by (cases "filter (\<lambda>p. p_ID p = n_ID m \<and> p_AllowedIPs p \<noteq> []) (BuildPeerPlan k ns hm)") auto
  then have "p \<in> set (filter (\<lambda>p. p_ID p = n_ID m \<and> p_AllowedIPs p \<noteq> []) (BuildPeerPlan k ns hm))" by simp
  then have "hd (p_AllowedIPs p) = n_OverlayIP m" using own [of p] by simp
  then show ?thesis using f by (simp add: overlayForPeer_def)
qed

text \<open>
  What is asked of the tool and of the rules for the prefix to have a route of its own: the
  commands run, the rules are plain, other prefixes denote other destinations, and the prefix is
  not the host route of a next hop.
\<close>

definition routable :: "host \<Rightarrow> string \<Rightarrow> policy_rule list \<Rightarrow> peer list \<Rightarrow> bool" where
  "routable h pfx rs ps \<longleftrightarrow> (\<forall>c. ip_runs (ho_ip h) c)
     \<and> (\<forall>r\<in>set rs. plain_rule (ho_net h) r \<and> (pr_prefix r \<noteq> pfx \<longrightarrow> ip_dst (ho_ip h) (pr_prefix r) \<noteq> ip_dst (ho_ip h) pfx)
          \<and> ip_dst (ho_ip h) pfx \<noteq> hop_host (ho_ip h) ps r)"

lemma plan_routes:
  assumes hop: "next_hop (expandPolicyRules ns) pfx k = Some k'" "k' \<noteq> ''local''" "k' \<noteq> ''main''"
    and cfg: "nc_PolicyRules cfg = slice_of (expandPolicyRules ns) k" "nc_Peers cfg = ps"
    and overlay: "overlayForPeer k' ps \<noteq> []"
    and ok: "writes_ok h cx" "routable h pfx (nc_PolicyRules cfg) ps" and tb: "tb = ''main'' \<or> tb = ''100''"
  shows "route_of (ho_ip h) tb pfx (as_kernel (snd (handlePlan h cx cl cfg n a))) =
    Some \<lparr>rt_via = Some (host_of (overlayForPeer k' ps)), rt_dev = cx_iface cx\<rparr>"
proof -
  let ?g = "as_geo (merge_geo h cfg a)" and ?t = "ho_ip h"
  let ?pl = "agent_plan (fst (mergePlanIntoNode n cfg (cx_asn cx))) (nc_Peers cfg)"
  obtain us pr vs where rs: "nc_PolicyRules cfg = us @ pr # vs" "pr_prefix pr = pfx" "rule_target pr = k'"
    "pr_viaNode pr = k'" "\<forall>r\<in>set vs. pr_prefix r \<noteq> pfx"
    using next_hop_last_rule [OF hop(1)] cfg(1) by metis
  then have rules: "pl_PolicyRules ?pl = us @ pr # vs"
    by (simp add: agent_plan_def mergePlanIntoNode_def Let_def)
  have peers: "pl_Peers ?pl = ps" by (simp add: agent_plan_def cfg(2))
  have expand: "Expand (ho_net h) ?g r = [pr_prefix r]" if "r \<in> set (us @ pr # vs)" for r
  proof -
    have "plain_rule (ho_net h) r" using ok(2) that unfolding routable_def rs(1) by blast
    then show ?thesis by (rule Expand_plain)
  qed
  have D: "ip_dst ?t pfx \<in> ip_dst ?t ` set (Expand (ho_net h) ?g pr)" using expand [of pr] rs(2) by simp
  have later: "\<forall>r\<in>set vs. ip_dst ?t pfx \<notin> ip_dst ?t ` set (Expand (ho_net h) ?g r)"
    using expand ok(2) rs(1,5) by (auto simp: routable_def)
  have hosts: "\<forall>r\<in>set (pl_PolicyRules ?pl). ip_dst ?t pfx \<noteq> hop_host ?t (pl_Peers ?pl) r"
    using ok(2) unfolding rules peers rs(1) routable_def by blast
  have "overlayForPeer (rule_target pr) (pl_Peers ?pl) \<noteq> []" using overlay rs(3) peers by simp
  from last_rule_decides [where x = "ho_net h" and g = ?g, OF _ rules D _ _ this later hosts tb,
      where iface = "cx_iface cx" and k = "as_kernel a"]
  show ?thesis
    using hop ok(2) rs(3,4) peers by (simp add: route_of_def handlePlan_kernel [OF ok(1)] routable_def)
qed

text \<open>WireGuard takes the traffic for a network to the peer that lists it.\<close>

lemma rendered_lists:
  "(\<exists>q\<in>set (rendered_peers x g n ps). p_ID q = k' \<and> pfx \<in> set (p_AllowedIPs q)) \<longleftrightarrow>
     (\<exists>p\<in>set ps. p_ID p = k' \<and> (pfx \<in> set (p_AllowedIPs p) \<or> pfx \<in> set (slice_of (egress_targets x g n) k')))"
  by (auto simp: rendered_peers_def augmentEgressAllowedIPs_map set_augmented)

lemma planned_peer:
  assumes "m \<in> set ns" and "eligible k hm m"
  shows "\<exists>p\<in>set (BuildPeerPlan k ns hm). p_ID p = n_ID m"
  using assms by (auto simp: set_BuildPeerPlan peer_of_def)

lemma listening_node_simps [simp]:
  "n_PolicyRules (listening_node n) = n_PolicyRules n" "n_DefaultRoute (listening_node n) = n_DefaultRoute n"
  "n_EgressPeerID (listening_node n) = n_EgressPeerID n" "n_PeerEndpoints (listening_node n) = n_PeerEndpoints n"
  by (simp_all add: listening_node_def)


section \<open>An example\<close>

text \<open>A host on which every command succeeds, and the agent of the node \<open>n1\<close>.\<close>

definition ex_net :: net where
  "ex_net = \<lparr>x_fresh = (\<lambda>_ _. False), x_read = (\<lambda>_. None), x_get = (\<lambda>_. None), x_format = (\<lambda>t c. t @ c),
     x_mkdir = (\<lambda>_. True), x_cidr = (\<lambda>p. CHR ''/'' \<in> set p), x_cidr4 = (\<lambda>p. CHR ''/'' \<in> set p),
     x_addr = (\<lambda>_. None), x_lookup = (\<lambda>_. []), x_duration = (\<lambda>_. None)\<rparr>"

definition ex_ip :: ip_tool where
  "ex_ip = \<lparr>ip_dst = (\<lambda>d. if CHR ''/'' \<in> set d \<or> d = ''default'' then d else d @ ''/32''),
     ip_show = (\<lambda>d. if suffix ''/32'' d then take (length d - 3) d else d),
     ip_runs = (\<lambda>_. True), ip_lists = True, ip_default = Some ''default via 192.0.2.1 dev eth0 proto dhcp''\<rparr>"

definition ex_nat :: nat_env where
  "ex_nat = \<lparr>ne_darwin = False, ne_auto = [], ne_cidr = [], ne_egress = [], ne_wan = [], ne_iptables = True,
     ne_adds = (\<lambda>_. True), ne_sysctl = True, ne_saves = True\<rparr>"

definition ex_host :: host where
  "ex_host = \<lparr>ho_net = ex_net, ho_ip = ex_ip, ho_nat = ex_nat, ho_mkdir = (\<lambda>_. None), ho_write = (\<lambda>_. None),
     ho_wgup = (\<lambda>_. None), ho_wgstrip = (\<lambda>_. None), ho_wgsync = (\<lambda>_. None), ho_vtysh = (\<lambda>_. None),
     ho_curl = (\<lambda>_. None), ho_sh = (\<lambda>_. (None, [])), ho_addr = (\<lambda>_. Inr []), ho_table100 = Inr [],
     ho_bgp_json = None, ho_bgp_text = None, ho_sysctl = True, ho_is_ip = (\<lambda>_. True), ho_wstunnel = True,
     ho_starts = (\<lambda>_. True), ho_now = 1000000000000, ho_rfc3339 = show_int\<rparr>"

definition ex_cx :: agent_context where
  "ex_cx = \<lparr>cx_iface = ''wg0'', cx_outDir = ''out'', cx_private = ''priv'', cx_asn = 65000, cx_apply = True,
     cx_controller = ''http://c'', cx_nodeID = ''n1''\<rparr>"

definition ex_agent :: agent where
  "ex_agent = \<lparr>as_cfg = config_zero, as_node = node_zero\<lparr>n_ID := ''n1'', n_DefaultRoute := True, n_EgressPeerID := ''n2''\<rparr>,
     as_task = [], as_geo = \<lparr>gs_dir = ''/tmp'', gs_v4 = [], gs_v6 = [], gs_ttl = 0\<rparr>, as_files = [],
     as_kernel = \<lparr>k_routes = [], k_rules = []\<rparr>,
     as_firewall = \<lparr>fw_rules = [], fw_forward = False, fw_saved = ([], [], [])\<rparr>,
     as_wg = Some [], as_frr = None, as_tunnels = [], as_conn = Open, as_frames = [], as_posts = [], as_lines = []\<rparr>"

lemma ex_writes_ok: "writes_ok ex_host ex_cx"
  by (simp add: writes_ok_def ex_host_def ex_cx_def)

text \<open>Two nodes, and a rule of the first one to leave at the second.\<close>

definition ex_rule :: policy_rule where
  "ex_rule = \<lparr>pr_prefix = ''10.9.0.0/16'', pr_viaNode = ''n2'', pr_path = [''n2''], pr_domains = []\<rparr>"

definition ex_pair :: "node list" where
  "ex_pair = [(ex_node ''n1'')\<lparr>n_OverlayIP := ''10.10.1.1/32'', n_PolicyRules := [ex_rule]\<rparr>,
     (ex_node ''n2'')\<lparr>n_OverlayIP := ''10.10.2.1/32''\<rparr>]"

lemma ex_pair_rules: "slice_of (expandPolicyRules ex_pair) ''n1'' = [ex_rule\<lparr>pr_path := []\<rparr>]"
  by (simp add: ex_pair_def ex_rule_def ex_node_def node_zero_def slice_expandPolicyRules emitted_def rule_hops_def)

lemma ex_pair_peers: "BuildPeerPlan ''n1'' ex_pair [] = [peer_of ((ex_node ''n2'')\<lparr>n_OverlayIP := ''10.10.2.1/32''\<rparr>)]"
  by (simp add: ex_pair_def ex_node_def node_zero_def BuildPeerPlan_def eligible_def)

lemma ex_plain: "plain_rule ex_net (ex_rule\<lparr>pr_path := []\<rparr>)"
proof -
  have "\<not> prefix ''geoip6:'' (ToLower ''10.9.0.0/16'')" "\<not> prefix ''geoip:'' (ToLower ''10.9.0.0/16'')"
    by code_simp+
  then show ?thesis by (simp add: plain_rule_def ex_rule_def ex_net_def Validate_def)
qed

definition ex_config :: config where
  "ex_config = config_zero\<lparr>nc_ID := ''n1'', nc_PolicyRules := slice_of (expandPolicyRules ex_pair) ''n1'',
     nc_Peers := BuildPeerPlan ''n1'' ex_pair []\<rparr>"

lemma ex_routable: "routable ex_host ''10.9.0.0/16'' (nc_PolicyRules ex_config) (nc_Peers ex_config)"
proof -
  have "overlayForPeer ''n2'' (nc_Peers ex_config) = ''10.10.2.1/32''"
    by (simp add: ex_config_def ex_pair_peers overlayForPeer_def peer_of_def ex_node_def node_zero_def allowed_ips_def)
  moreover have "host_of ''10.10.2.1/32'' = ''10.10.2.1''" by code_simp
  ultimately have "hop_host ex_ip (nc_Peers ex_config) (ex_rule\<lparr>pr_path := []\<rparr>) = ''10.10.2.1/32''"
    by (simp add: hop_host_def rule_target_def ex_rule_def ex_ip_def)
  then show ?thesis
    using ex_plain by (simp add: routable_def ex_host_def ex_config_def ex_pair_rules)
      (simp add: ex_ip_def ex_rule_def)
qed


end
