(* ===== verification/Agent_Policy.thy ===== *)
theory Agent_Policy
  imports Agent_Flow Policy_Flow
begin

text \<open>
  How a policy reaches an agent: what a plan pushed by the controller, a submitted policy, a
  task and a health report change in the node the agent works with, and which routes stay.
\<close>

section \<open>Messages\<close>

lemma json_config_obj: "\<exists>ps. json_config e m n cv ps' rules keys msg = Obj ps"
  by (simp add: json_config_def)

lemma object_payload_config [simp]:
  "object_payload (ws_message ty nid (json_config e m n cv ps rules keys msg)) = json_config e m n cv ps rules keys msg"
  using json_config_obj [of e m n cv ps rules keys msg]
  by (auto simp: object_payload_def ws_message_def omit_str_def)

lemma ws_message_type [simp]: "js_oget ''type'' (ws_message ty nid payload) = Str ty"
  by (simp add: ws_message_def)

lemma receive_pushed_plan:
  assumes "int64 (n_ListenPort n)" "int64 (n_ASN n)" "int64 (diagIntervalSeconds e m)"
    and "\<forall>p\<in>set ps. int64 (p_Keepalive p)" and "n_ID n \<noteq> []"
  shows "agent_receive h cx (ws_message ''plan'' nid (json_config e m n cv ps rules keys msg)) a =
    snd (handlePlan h cx False (sent_config e m n cv ps rules keys msg) (as_node a) a)"
  using assms
  by (simp add: agent_receive_def handleWSPlan_def go_config_json_config Let_def) (simp add: sent_config_def)

text \<open>The part of the node a plan changes.\<close>

lemma merge_fields:
  "n_PolicyRules (fst (mergePlanIntoNode n cfg asn)) = (if nc_PolicyRules cfg \<noteq> [] then nc_PolicyRules cfg else n_PolicyRules n)"
  "n_EgressPeerID (fst (mergePlanIntoNode n cfg asn)) = (if nc_EgressPeerID cfg \<noteq> [] then nc_EgressPeerID cfg else n_EgressPeerID n)"
  "n_DefaultRoute (fst (mergePlanIntoNode n cfg asn)) = nc_DefaultRoute cfg"
  "n_BypassCIDRs (fst (mergePlanIntoNode n cfg asn)) = (if nc_BypassCIDRs cfg \<noteq> [] then nc_BypassCIDRs cfg else n_BypassCIDRs n)"
  "n_DefaultRouteNextHop (fst (mergePlanIntoNode n cfg asn)) =
     (if nc_DefaultRouteNextHop cfg \<noteq> [] then nc_DefaultRouteNextHop cfg else n_DefaultRouteNextHop n)"
  "n_ID (fst (mergePlanIntoNode n cfg asn)) = n_ID n"
  by (simp_all add: mergePlanIntoNode_def Let_def)

section \<open>Tasks and the last plan\<close>

lemma apply_task_node:
  "as_cfg (snd (apply_task h cx k ts cfg n a)) = cfg"
  "as_node (snd (apply_task h cx k ts cfg n a)) = fst (mergePlanIntoNode n cfg (cx_asn cx))"
  using handlePlan_node [of h cx True cfg n "report_step h cx k (n_ID n) ''apply'' ''running'' ag_apply a"]
  unfolding apply_task_def Let_def
  by (auto simp: prod.case_eq_if split: option.split)

lemma task_policy_apply:
  assumes "as_cfg a = cfg" and "taskID \<noteq> []"
  shows "as_cfg (handleWSTask h cx (Obj [(''taskId'', Str taskID), (''type'', Str ''policy_apply'')]) a) = cfg"
    and "as_node (handleWSTask h cx (Obj [(''taskId'', Str taskID), (''type'', Str ''policy_apply'')]) a) =
      fst (mergePlanIntoNode (as_node a) cfg (cx_asn cx))"
  using assms by (simp_all add: handleWSTask_def Let_def apply_task_node case_prod_beta)

lemma settings_frame [simp]:
  "diagIntervalSeconds e (SetGlobalPlanVersion v (SavePlan p m)) = diagIntervalSeconds e m"
  "diagIntervalSeconds e (SaveHealth now r m) = diagIntervalSeconds e m"
  by (simp_all add: diagIntervalSeconds_def loadSettingsOrDefault_def GetSettings_def SetGlobalPlanVersion_def
      SavePlan_def SaveHealth_def Let_def)

lemma sent_savePlanWithRules:
  assumes "n_ID n \<in> set (agents c)"
  obtains m cv where "diagIntervalSeconds e m = diagIntervalSeconds e (store c)"
    "sent (savePlanWithRules e n ps rs c) = sent c @ [(n_ID n, ws_message ''plan'' (n_ID n)
       (json_config e m (listening n) cv ps rs False ''ws plan push''))]"
proof
  let ?v = "planVersion c + 1" and ?p = "new_plan e (listening n) ps rs (planVersion c + 1)"
  let ?m = "SetGlobalPlanVersion ?v (SavePlan ?p (store c))"
  show "diagIntervalSeconds e ?m = diagIntervalSeconds e (store c)" by simp
  show "sent (savePlanWithRules e n ps rs c) = sent c @ [(n_ID n, ws_message ''plan'' (n_ID n)
       (json_config e ?m (listening n) (pl_ConfigVersion ?p) ps rs False ''ws plan push''))]"
    using assms by (simp add: savePlanWithRules_def Let_def hub_send_def)
qed

lemma plan_keepalive: "p \<in> set (BuildPeerPlan k ns hm) \<Longrightarrow> int64 (p_Keepalive p)"
  by (auto simp: set_BuildPeerPlan peer_of_def int64_def)

section \<open>What WireGuard runs with\<close>

definition wg_ok :: "host \<Rightarrow> agent_context \<Rightarrow> bool" where
  "wg_ok h cx \<longleftrightarrow> (let p = wg_path (cx_outDir cx) (cx_iface cx)
     in ho_wgup h p = None \<and> ho_wgstrip h p = None \<and> ho_wgsync h p = None)"

lemma ApplyConfigs_wg:
  assumes "wg_ok h cx"
  shows "as_wg (snd (ApplyConfigs h cx a)) = Some (file_content (wg_path (cx_outDir cx) (cx_iface cx)) a)"
  using assms unfolding ApplyConfigs_def Let_def wg_ok_def
  by (simp add: applyWireGuard_def split: option.split)

lemma handlePlan_wg:
  assumes "writes_ok h cx" "wg_ok h cx" "cx_apply cx"
  shows "as_wg (snd (handlePlan h cx cl cfg n a)) =
    Some (RenderConfig (listening_node (fst (mergePlanIntoNode n cfg (cx_asn cx))))
      (rendered_peers (ho_net h) (as_geo (merge_geo h cfg a))
        (listening_node (fst (mergePlanIntoNode n cfg (cx_asn cx)))) (nc_Peers cfg)) (cx_private cx))"
  using assms RenderAndWrite_ok(1,3) [OF assms(1)]
  by (simp add: handlePlan_def Let_def case_prod_beta ApplyConfigs_wg split: option.split)

lemma apply_task_wg:
  "as_wg (snd (apply_task h cx k ts cfg n a)) = as_wg (snd (handlePlan h cx True cfg n
     (report_step h cx k (n_ID n) ''apply'' ''running'' ag_apply a)))"
  unfolding apply_task_def Let_def by (auto simp: prod.case_eq_if split: option.split)

lemma rendered_peers_Nil [simp]: "rendered_peers x g n [] = []"
  by (simp add: rendered_peers_def augmentEgressAllowedIPs_map)

section \<open>Properties\<close>

text \<open>C30. A submitted policy is stored and not sent: all the agent gets is a task, and running it the
  agent takes over its last plan again, so its rules, egress and default route are those it had
  before, whatever was submitted.\<close>

theorem submitted_policy_is_not_sent:
  assumes "body go_policy_request rq = Some q" and "q_NodeID q \<noteq> []"
    and "GetNode (q_NodeID q) (store c) \<noteq> None" and "acceptable q"
    and "q_NodeID q \<in> set (agents c)" and "e_uuid e \<noteq> []"
  shows "\<exists>msg. sent (snd (policy_post e rq c)) = sent c @ [(q_NodeID q, msg)]
    \<and> policy_of (q_NodeID q) (store (snd (policy_post e rq c))) = accepted q
    \<and> as_cfg (agent_receive h cx msg a) = as_cfg a
    \<and> as_node (agent_receive h cx msg a) = fst (mergePlanIntoNode (as_node a) (as_cfg a) (cx_asn cx))"
proof -
  let ?task = "Obj [(''taskId'', Str (e_uuid e)), (''type'', Str ''policy_apply'')]"
  let ?msg = "ws_message ''task'' (q_NodeID q) ?task"
  obtain m where m: "UpdatePolicy (q_NodeID q) (q_EgressPeer q) (map prepare_rule (q_PolicyRules q))
      (q_DefaultRoute q) (q_BypassCIDRs q) (q_DefaultRouteNextHop q) (store c) = Some m"
    using UpdatePolicy_Some [OF assms(3)] by blast
  then have "sent (snd (policy_post e rq c)) = sent c @ [(q_NodeID q, ?msg)]"
    using assms(1,2,4,5) by (auto simp: policy_post_def acceptable_def Let_def policy_apply_def hub_send_def)
  moreover have "policy_of (q_NodeID q) (store (snd (policy_post e rq c))) = accepted q"
    using policy_post_ok [OF assms(1-4), of e] by auto
  moreover have "object_payload ?msg = ?task"
    by (simp add: object_payload_def ws_message_def omit_str_def)
  then have "agent_receive h cx ?msg a = handleWSTask h cx ?task a"
    by (simp add: agent_receive_def)
  ultimately show ?thesis using task_policy_apply [OF refl assms(6), of h cx a] by auto
qed

theorem submitted_policy_is_not_sent_witness:
  "let rq = \<lparr>rq_url = [], rq_method = ''POST'', rq_headers = ex_headers,
         rq_body = Some (Obj [(''nodeId'', Str ''n1''), (''egressPeerId'', Str ''n3'')])\<rparr>
   in \<exists>msg. sent (snd (policy_post ex_env rq ex_ctl)) = [(''n1'', msg)]
      \<and> n_EgressPeerID (as_node (agent_receive ex_host ex_cx msg ex_agent)) = ''n2''"
proof -
  let ?rq = "\<lparr>rq_url = [], rq_method = ''POST'', rq_headers = ex_headers,
         rq_body = Some (Obj [(''nodeId'', Str ''n1''), (''egressPeerId'', Str ''n3'')])\<rparr>"
  let ?q = "\<lparr>q_NodeID = ''n1'', q_EgressPeer = ''n3'', q_PolicyRules = [], q_DefaultRoute = False,
         q_BypassCIDRs = [], q_DefaultRouteNextHop = []\<rparr>"
  have b: "body go_policy_request ?rq = Some ?q" by (simp add: body_def go_policy_request_def)
  have c: "q_NodeID ?q \<noteq> []" "GetNode (q_NodeID ?q) (store ex_ctl) \<noteq> None" "acceptable ?q"
    "q_NodeID ?q \<in> set (agents ex_ctl)" "e_uuid ex_env \<noteq> []"
    by (simp_all add: ex_world_def ex_nodes acceptable_def ex_env_def)
  show ?thesis
    using submitted_policy_is_not_sent [OF b c, of ex_host ex_cx ex_agent]
    by (auto simp: Let_def ex_world_def merge_fields ex_agent_def config_zero_def)
qed

text \<open>C32. The health report of a node switches its default route off: the controller answers every
  accepted report with a plan for a node of which only the id is set, and the agent takes over
  that there is no default route, while it keeps its egress, its bypass networks and its next
  hop.\<close>

theorem health_report_switches_default_route_off:
  assumes "body (go_health e) rq = Some r" and "h_NodeID r \<noteq> []"
    and "authFuncJWT e rq \<or> agentAuthorized (store c) (h_NodeID r) (header ''X-Provision-Token'' rq)"
    and "h_NodeID r \<in> set (agents c)" and "int64 (diagIntervalSeconds e (store c))"
  shows "\<exists>msg. sent (snd (health_post e rq c)) = sent c @ [(h_NodeID r, msg)]
    \<and> (let n = as_node (agent_receive h cx msg a)
       in \<not> n_DefaultRoute n \<and> n_EgressPeerID n = n_EgressPeerID (as_node a)
          \<and> n_BypassCIDRs n = n_BypassCIDRs (as_node a)
          \<and> n_DefaultRouteNextHop n = n_DefaultRouteNextHop (as_node a))"
proof -
  let ?r = "r\<lparr>h_Timestamp := e_now e\<rparr>" and ?n = "node_zero\<lparr>n_ID := h_NodeID r\<rparr>"
  let ?c1 = "set_store (SaveHealth (e_now e) ?r (store c)) c"
  let ?ps = "BuildPeerPlan (h_NodeID r) (ListNodes (store ?c1)) [(h_NodeID r, ?r)]"
  let ?rs = "slice_of (expandPolicyRules (ListNodes (store ?c1))) (h_NodeID r)"
  obtain m cv where m: "diagIntervalSeconds e m = diagIntervalSeconds e (store ?c1)"
    and sent: "sent (savePlanWithRules e ?n ?ps ?rs ?c1) = sent ?c1 @ [(n_ID ?n, ws_message ''plan'' (n_ID ?n)
       (json_config e m (listening ?n) cv ?ps ?rs False ''ws plan push''))]"
    using sent_savePlanWithRules [of ?n ?c1 e ?ps ?rs] assms(4) by auto
  let ?msg = "ws_message ''plan'' (h_NodeID r) (json_config e m (listening ?n) cv ?ps ?rs False ''ws plan push'')"
  have "sent (snd (health_post e rq c)) = sent c @ [(h_NodeID r, ?msg)]"
    using assms(1-3) sent by (auto simp: health_post_def Let_def)
  moreover have "listening ?n = node_zero\<lparr>n_ID := h_NodeID r, n_ListenPort := 8082\<rparr>"
    by (simp add: listening_def node_zero_def)
  then have "agent_receive h cx ?msg a =
      snd (handlePlan h cx False (sent_config e m (listening ?n) cv ?ps ?rs False ''ws plan push'') (as_node a) a)"
    using assms(2,5) m plan_keepalive by (intro receive_pushed_plan) (auto simp: int64_def node_zero_def)
  then have "as_node (agent_receive h cx ?msg a) = fst (mergePlanIntoNode (as_node a)
      (sent_config e m (listening ?n) cv ?ps ?rs False ''ws plan push'') (cx_asn cx))"
    by (simp add: handlePlan_node)
  then have "\<not> n_DefaultRoute (as_node (agent_receive h cx ?msg a))
      \<and> n_EgressPeerID (as_node (agent_receive h cx ?msg a)) = n_EgressPeerID (as_node a)
      \<and> n_BypassCIDRs (as_node (agent_receive h cx ?msg a)) = n_BypassCIDRs (as_node a)
      \<and> n_DefaultRouteNextHop (as_node (agent_receive h cx ?msg a)) = n_DefaultRouteNextHop (as_node a)"
    by (simp add: merge_fields sent_config_def listening_def node_zero_def)
  ultimately show ?thesis unfolding Let_def by blast
qed

theorem health_report_switches_default_route_off_witness:
  "let rq = \<lparr>rq_url = [], rq_method = ''POST'', rq_headers = ex_headers,
         rq_body = Some (Obj [(''nodeId'', Str ''n1''), (''status'', Str ''up'')])\<rparr>
   in n_DefaultRoute (as_node ex_agent)
      \<and> (\<exists>msg. sent (snd (health_post ex_env rq ex_ctl)) = [(''n1'', msg)]
            \<and> \<not> n_DefaultRoute (as_node (agent_receive ex_host ex_cx msg ex_agent)))"
proof -
  let ?rq = "\<lparr>rq_url = [], rq_method = ''POST'', rq_headers = ex_headers,
         rq_body = Some (Obj [(''nodeId'', Str ''n1''), (''status'', Str ''up'')])\<rparr>"
  let ?r = "\<lparr>h_NodeID = ''n1'', h_Status = ''up'', h_LatencyMs = [], h_PacketLoss = [], h_FRRState = [],
         h_Timestamp = 0\<rparr>"
  have b: "body (go_health ex_env) ?rq = Some ?r" by (simp add: body_def go_health_def)
  have i: "int64 (diagIntervalSeconds ex_env (store ex_ctl))"
    by (auto simp: diagIntervalSeconds_def Let_def ex_env_def int64_def split: option.split)
  show ?thesis
    using health_report_switches_default_route_off [OF b _ disjI1 [OF ex_jwt] _ i, of ex_host ex_cx ex_agent]
    by (auto simp: Let_def ex_world_def) (simp_all add: ex_agent_def)
qed

text \<open>C31. Clearing a policy does not reach the agent: from a plan without rules, egress, bypass
  networks and next hop it keeps all of these as they were, and applies them again.\<close>

theorem cleared_policy_stays:
  assumes "int64 (n_ListenPort n)" "int64 (n_ASN n)" "int64 (diagIntervalSeconds e m)"
    and "n_ID n \<noteq> []" and "n_EgressPeerID n = []" and "n_BypassCIDRs n = []" and "n_DefaultRouteNextHop n = []"
    and "writes_ok h cx"
  shows "let ps = BuildPeerPlan (n_ID n) ns hm; cfg = sent_config e m n cv ps [] False info;
      a' = agent_receive h cx (ws_message ''plan'' (n_ID n) (json_config e m n cv ps [] False info)) a
    in n_PolicyRules (as_node a') = n_PolicyRules (as_node a)
       \<and> n_EgressPeerID (as_node a') = n_EgressPeerID (as_node a)
       \<and> n_BypassCIDRs (as_node a') = n_BypassCIDRs (as_node a)
       \<and> n_DefaultRouteNextHop (as_node a') = n_DefaultRouteNextHop (as_node a)
       \<and> as_kernel a' = applyStaticRoutes (ho_net h) (as_geo (merge_geo h cfg a)) (ho_ip h)
            (agent_plan (as_node a') ps) (cx_iface cx) (as_kernel a)"
proof -
  let ?ps = "BuildPeerPlan (n_ID n) ns hm"
  let ?cfg = "sent_config e m n cv ?ps [] False info"
  have "agent_receive h cx (ws_message ''plan'' (n_ID n) (json_config e m n cv ?ps [] False info)) a =
      snd (handlePlan h cx False ?cfg (as_node a) a)"
    using assms(1-4) plan_keepalive by (intro receive_pushed_plan) blast+
  then show ?thesis
    using assms(5-7) by (simp add: Let_def handlePlan_node merge_fields handlePlan_kernel [OF assms(8)])
      (simp add: sent_config_def)
qed

theorem cleared_policy_stays_witness:
  "n_EgressPeerID (as_node (agent_receive ex_host ex_cx (ws_message ''plan'' ''n1''
     (json_config ex_env (store ex_ctl) (ex_node ''n1'') ''v'' (BuildPeerPlan ''n1'' [] []) [] False [])) ex_agent)) = ''n2''"
proof -
  have i: "int64 (diagIntervalSeconds ex_env (store ex_ctl))"
    by (auto simp: diagIntervalSeconds_def Let_def ex_env_def int64_def split: option.split)
  show ?thesis
    using cleared_policy_stays [where n = "ex_node ''n1''" and ns = "[]" and hm = "[]" and e = ex_env
      and m = "store ex_ctl" and h = ex_host and cx = ex_cx and a = ex_agent and cv = "''v''" and info = "[]"] i ex_writes_ok
    by (simp add: Let_def ex_node_def node_zero_def int64_def) (simp add: ex_agent_def)
qed

text \<open>Routes are never taken back: a destination that no rule, no peer and no next hop of the new
  plan stands for has, after the agent has applied the plan, the route it had before, although the
  rule it came from is gone.\<close>

theorem dropped_rule_stays_routed:
  assumes "writes_ok h cx" and "tb = ''main'' \<or> tb = ''100''"
    and "ip_dst (ho_ip h) pfx \<noteq> ip_dst (ho_ip h) ''default''"
    and "ip_dst (ho_ip h) pfx \<notin> ip_dst (ho_ip h) ` set (desired_prefixes (ho_net h) (nc_Peers cfg))"
    and "\<forall>pr\<in>set (n_PolicyRules (fst (mergePlanIntoNode n cfg (cx_asn cx)))).
      ip_dst (ho_ip h) pfx \<notin> ip_dst (ho_ip h) ` set (Expand (ho_net h) (as_geo (merge_geo h cfg a)) pr)
      \<and> ip_dst (ho_ip h) pfx \<noteq> hop_host (ho_ip h) (nc_Peers cfg) pr"
  shows "route_of (ho_ip h) tb pfx (as_kernel (snd (handlePlan h cx cl cfg n a))) =
    route_of (ho_ip h) tb pfx (as_kernel a)"
  unfolding route_of_def handlePlan_kernel [OF assms(1)]
  using assms by (intro applyStaticRoutes_frame) (auto simp: agent_plan_def)

theorem dropped_rule_stays_routed_witness:
  "let a = snd (handlePlan ex_host ex_cx False ex_config node_zero ex_agent)
   in route_of ex_ip ''main'' ''10.9.0.0/16'' (as_kernel (snd (handlePlan ex_host ex_cx False config_zero node_zero a)))
      = route_of ex_ip ''main'' ''10.9.0.0/16'' (as_kernel a)"
proof -
  let ?a = "snd (handlePlan ex_host ex_cx False ex_config node_zero ex_agent)"
  have "ip_dst ex_ip ''10.9.0.0/16'' \<noteq> ip_dst ex_ip ''default''" by (simp add: ex_ip_def)
  then show ?thesis
    using dropped_rule_stays_routed [OF ex_writes_ok, of "''main''" "''10.9.0.0/16''" config_zero node_zero ?a False]
    by (simp add: Let_def ex_host_def config_zero_def desired_prefixes_def merge_fields node_zero_def)
qed

text \<open>The first task after a start takes the peers away: the agent keeps the configuration of its
  registration nowhere, so a policy task that comes before a plan is run with the empty
  configuration, and WireGuard ends up with no peer.\<close>

theorem early_task_drops_peers:
  assumes "start_agent h fl cfg a0 = Some a" and "as_cfg a0 = config_zero" and "fl_apply fl"
    and "wg_ok h (started_context fl cfg)" and "fl_iface fl \<noteq> ''bgpd''" and "taskID \<noteq> []"
  shows "let cx = started_context fl cfg;
      a' = agent_receive h cx (ws_message ''task'' (nc_ID cfg)
             (Obj [(''taskId'', Str taskID), (''type'', Str ''policy_apply'')])) a
    in as_wg a' = Some (interface_section (listening_node (as_node a')) (cx_private cx))"
proof -
  let ?cx = "started_context fl cfg" and ?task = "Obj [(''taskId'', Str taskID), (''type'', Str ''policy_apply'')]"
  let ?msg = "ws_message ''task'' (nc_ID cfg) ?task"
  have ap: "cx_apply ?cx" "cx_iface ?cx \<noteq> ''bgpd''" using assms(3,5) by (simp_all add: started_context_def)
  have "fst (RenderAndWrite h ?cx (started_node fl cfg) (nc_Peers cfg) (cx_asn ?cx) a0) = None"
    using assms(1) by (simp add: start_agent_def Let_def case_prod_beta split: option.splits)
  then have ok: "writes_ok h ?cx"
    using ap(2) unfolding RenderAndWrite_def Let_def writes_ok_def by (auto split: option.splits)
  have cfg: "as_cfg a = config_zero"
    using assms(1,2) by (auto simp: start_agent_def Let_def case_prod_beta split: option.splits if_splits)
  have "object_payload ?msg = ?task" by (simp add: object_payload_def ws_message_def omit_str_def)
  then have run: "agent_receive h ?cx ?msg a = handleWSTask h ?cx ?task a" by (simp add: agent_receive_def)
  have "as_wg (handleWSTask h ?cx ?task a) =
      Some (interface_section (listening_node (fst (mergePlanIntoNode (as_node a) config_zero (cx_asn ?cx)))) (cx_private ?cx))"
    using assms(6) by (simp add: handleWSTask_def Let_def case_prod_beta cfg apply_task_wg
        handlePlan_wg [OF ok assms(4) ap(1)]) (simp add: config_zero_def RenderConfig_def)
  then show ?thesis using task_policy_apply(2) [OF cfg assms(6), of h ?cx] by (simp add: Let_def run)
qed

definition ex_flags :: flags where
  "ex_flags = \<lparr>fl_id = ''n1'', fl_pub = ''k'', fl_endpoints = [], fl_cidrs = [], fl_overlay = ''10.10.1.1/32'',
     fl_listen = 8082, fl_priv = ''priv'', fl_out = ''out'', fl_iface = ''wg0'', fl_asn = 65000,
     fl_router = [], fl_apply = True, fl_controller = ''http://c'', fl_provision = [], fl_auto = False\<rparr>"

lemma ex_started:
  "start_agent ex_host ex_flags ex_config ex_agent \<noteq> None"
  "wg_ok ex_host (started_context ex_flags ex_config)"
proof -
  let ?cx = "started_context ex_flags ex_config"
  have cx: "writes_ok ex_host ?cx" "cx_apply ?cx"
    by (simp_all add: writes_ok_def ex_host_def started_context_def ex_flags_def)
  show wg: "wg_ok ex_host ?cx"
    by (simp add: wg_ok_def ex_host_def)
  have "ho_vtysh ex_host p = None" for p by (simp add: ex_host_def)
  then have "fst (ApplyConfigs ex_host ?cx b) = None" for b
    using wg unfolding ApplyConfigs_def Let_def wg_ok_def
    by (simp add: applyWireGuard_def split: option.split)
  then show "start_agent ex_host ex_flags ex_config ex_agent \<noteq> None"
    using RenderAndWrite_ok(1) [OF cx(1)] cx(2) by (simp add: start_agent_def Let_def case_prod_beta)
qed

theorem early_task_drops_peers_witness:
  "\<exists>s. as_wg (agent_receive ex_host (started_context ex_flags ex_config) (ws_message ''task'' ''n1''
             (Obj [(''taskId'', Str ''t''), (''type'', Str ''policy_apply'')]))
           (the (start_agent ex_host ex_flags ex_config ex_agent)))
         = Some (interface_section s (cx_private (started_context ex_flags ex_config)))"
proof -
  obtain a where a: "start_agent ex_host ex_flags ex_config ex_agent = Some a" using ex_started(1) by auto
  show ?thesis
    using early_task_drops_peers [OF a _ _ ex_started(2), of "''t''"] a
    by (auto simp: Let_def ex_agent_def ex_flags_def ex_config_def config_zero_def)
qed

end
