(* ===== verification/Agent_Report.thy ===== *)
theory Agent_Report
  imports Agent_Policy Hub_Flow
begin

text \<open>
  What the controller and its pages learn from an agent: the steps of a task, the log lines, the
  verdict of a diagnosis and the latencies of a health report.
\<close>

section \<open>The steps of a task\<close>

definition step_frames :: "agent \<Rightarrow> jsval list" where
  "step_frames a = filter (\<lambda>m. js_oget ''type'' m = Str ''task_step'') (as_frames a)"

lemma step_frames_other [simp]:
  "step_frames (wsLog cx l a) = step_frames a" "step_frames (post p v a) = step_frames a"
  "step_frames (reportPolicyStatus h cx cl k ver st m ls a) = step_frames a"
  "step_frames (runPolicyDiag h cx cl n ver ps a) = step_frames a"
  "step_frames (snd (RenderAndWrite h cx n ps asn a)) = step_frames a"
  "step_frames (snd (ApplyConfigs h cx a)) = step_frames a"
  "step_frames (merge_geo h cfg a) = step_frames a"
  by (simp_all add: step_frames_def reportPolicyStatus_def runPolicyDiag_def ws_client_send_def Let_def)

lemma as_conn_other [simp]:
  "as_conn (snd (handlePlan h cx cl cfg n a)) = as_conn a"
  by (simp add: handlePlan_def Let_def case_prod_beta split: option.split)

lemma step_frames_plan [simp]: "step_frames (snd (handlePlan h cx cl cfg n a)) = step_frames a"
proof -
  have "step_frames (a\<lparr>as_cfg := cfg', as_node := n'\<rparr>) = step_frames a" for a cfg' n'
    by (simp add: step_frames_def)
  then show ?thesis by (simp add: handlePlan_def Let_def case_prod_beta split: option.split)
qed

definition step_msg :: "host \<Rightarrow> string \<Rightarrow> string \<Rightarrow> string \<Rightarrow> string \<Rightarrow> string \<Rightarrow> jsval" where
  "step_msg h k nid nm st m = Obj [(''payload'', task_frame h k nid nm st m), (''type'', Str ''task_step'')]"

definition online :: "agent_context \<Rightarrow> agent \<Rightarrow> bool" where
  "online cx a \<longleftrightarrow> has_ws cx \<and> as_conn a = Open"

lemma step_frames_step:
  "online cx a \<Longrightarrow> step_frames (report_step h cx k nid nm st m a) = step_frames a @ [step_msg h k nid nm st m]"
  by (simp add: online_def report_step_def wsSend_def ws_client_send_def step_frames_def step_msg_def)

lemma online_simps [simp]:
  "online cx (report_step h cx' k nid nm st m a) = online cx a" "online cx (wsLog cx' l a) = online cx a"
  "online cx (runPolicyDiag h cx' cl n v ps a) = online cx a"
  "online cx (snd (handlePlan h cx' cl cfg n a)) = online cx a"
  "online cx (diag_step h cx' k n cfg nm t1 t2 a) = online cx a"
  "online cx (a\<lparr>as_task := t\<rparr>) = online cx a"
  by (simp_all add: online_def)

lemma step_frames_diag:
  "online cx a \<Longrightarrow> step_frames (diag_step h cx k n cfg nm t1 t2 a) =
     step_frames a @ [step_msg h k (n_ID n) nm ''running'' t1, step_msg h k (n_ID n) nm ''success'' t2]"
  by (simp add: diag_step_def step_frames_step)

text \<open>What is verified ends with a success or a failure.\<close>

lemma step_frames_verify:
  assumes "online cx a"
  shows "\<exists>st m. step_frames (snd (verify_step h cx k nid ts t a)) =
      step_frames a @ [step_msg h k nid ''verify'' ''running'' ag_verify, step_msg h k nid ''verify'' st m]
    \<and> (st = ''success'' \<or> st = ''fail'') \<and> (fst (verify_step h cx k nid ts t a) \<longleftrightarrow> st = ''success'')
    \<and> online cx (snd (verify_step h cx k nid ts t a))"
  using assms by (cases "runCurlVerify h ts") (auto simp: verify_step_def Let_def step_frames_step)

text \<open>
  Frames of steps that end well: the last one says success or failure, and it says failure
  when the task was broken off.
\<close>

definition is_step :: "host \<Rightarrow> string \<Rightarrow> string \<Rightarrow> jsval \<Rightarrow> bool" where
  "is_step h k nid msg \<longleftrightarrow> (\<exists>nm st m. msg = step_msg h k nid nm st m)"

definition is_failure :: "host \<Rightarrow> string \<Rightarrow> string \<Rightarrow> jsval \<Rightarrow> bool" where
  "is_failure h k nid msg \<longleftrightarrow> (\<exists>nm m. msg = step_msg h k nid nm ''fail'' m)"

lemma is_step_msg [simp]: "is_step h k nid (step_msg h k nid nm st m)"
  unfolding is_step_def by blast

lemma is_failure_msg [simp]: "is_failure h k nid (step_msg h k nid nm ''fail'' m)"
  unfolding is_failure_def by blast

definition ends_well :: "host \<Rightarrow> string \<Rightarrow> string \<Rightarrow> bool \<Rightarrow> agent \<Rightarrow> agent \<Rightarrow> bool" where
  "ends_well h k nid ok a a' \<longleftrightarrow>
     (\<exists>ms. step_frames a' = step_frames a @ ms \<and> ms \<noteq> [] \<and> list_all (is_step h k nid) ms
        \<and> (ok \<or> is_failure h k nid (last ms)))"

lemma ends_wellI:
  "step_frames a' = step_frames a @ ms \<Longrightarrow> ms \<noteq> [] \<Longrightarrow> list_all (is_step h k nid) ms \<Longrightarrow>
   ok \<or> is_failure h k nid (last ms) \<Longrightarrow> ends_well h k nid ok a a'"
  unfolding ends_well_def by blast

lemma ends_well_trans:
  assumes "ends_well h k nid True a b" and "ends_well h k nid ok b c"
  shows "ends_well h k nid ok a c"
proof -
  obtain ms where ms: "step_frames b = step_frames a @ ms" "list_all (is_step h k nid) ms"
    using assms(1) unfolding ends_well_def by blast
  obtain ns where ns: "step_frames c = step_frames b @ ns" "ns \<noteq> []" "list_all (is_step h k nid) ns"
    "ok \<or> is_failure h k nid (last ns)"
    using assms(2) unfolding ends_well_def by blast
  show ?thesis by (rule ends_wellI [of _ _ "ms @ ns"]) (use ms ns in auto)
qed

lemma ends_well_diag: "online cx a \<Longrightarrow> ends_well h k (n_ID n) True a (diag_step h cx k n cfg nm t1 t2 a)"
  by (rule ends_wellI [OF step_frames_diag]) simp_all

lemma ends_well_verify:
  assumes "online cx a"
  shows "ends_well h k nid (fst (verify_step h cx k nid ts t a)) a (snd (verify_step h cx k nid ts t a))
    \<and> online cx (snd (verify_step h cx k nid ts t a))"
proof -
  obtain st m where v: "step_frames (snd (verify_step h cx k nid ts t a)) =
      step_frames a @ [step_msg h k nid ''verify'' ''running'' ag_verify, step_msg h k nid ''verify'' st m]"
    "st = ''success'' \<or> st = ''fail''" "fst (verify_step h cx k nid ts t a) \<longleftrightarrow> st = ''success''"
    "online cx (snd (verify_step h cx k nid ts t a))"
    using step_frames_verify [OF assms] by blast
  have "ends_well h k nid (fst (verify_step h cx k nid ts t a)) a (snd (verify_step h cx k nid ts t a))"
    by (rule ends_wellI [OF v(1)]) (use v(2,3) in auto)
  then show ?thesis using v(4) by blast
qed

lemma ends_well_apply:
  assumes "online cx a"
  shows "ends_well h k (n_ID n) (fst (apply_task h cx k ts cfg n a)) a (snd (apply_task h cx k ts cfg n a))
    \<and> online cx (snd (apply_task h cx k ts cfg n a))"
proof -
  let ?a1 = "report_step h cx k (n_ID n) ''apply'' ''running'' ag_apply a"
  let ?a2 = "snd (handlePlan h cx True cfg n ?a1)"
  have 1: "ends_well h k (n_ID n) True a ?a2"
    by (rule ends_wellI [where ms = "[step_msg h k (n_ID n) ''apply'' ''running'' ag_apply]"])
      (use step_frames_step [OF assms] in simp_all)
  have on: "online cx ?a2" using assms by simp
  show ?thesis
  proof (cases "fst (handlePlan h cx True cfg n ?a1)")
    case None
    let ?a3 = "report_step h cx k (n_ID n) ''apply'' ''success'' ag_apply_done ?a2"
    let ?a4 = "diag_step h cx k n cfg ''self_test'' ag_self_test ag_self_done ?a3"
    have "ends_well h k (n_ID n) True ?a2 ?a3" by (rule ends_wellI [OF step_frames_step [OF on]]) simp_all
    moreover have "ends_well h k (n_ID n) True ?a3 ?a4" using on by (intro ends_well_diag) simp
    ultimately have "ends_well h k (n_ID n) True a ?a4" using 1 ends_well_trans by blast
    then show ?thesis
      using ends_well_verify [of cx ?a4 h k "n_ID n" ts ag_curl_ok] on ends_well_trans None
      by (auto simp: apply_task_def Let_def case_prod_beta)
  next
    case (Some err)
    have "ends_well h k (n_ID n) False ?a2 (report_step h cx k (n_ID n) ''apply'' ''fail'' err ?a2)"
      by (rule ends_wellI [OF step_frames_step [OF on]]) simp_all
    then show ?thesis
      using 1 ends_well_trans on Some by (auto simp: apply_task_def Let_def case_prod_beta)
  qed
qed

text \<open>The last frame of a task says success or failure.\<close>

lemma task_frames:
  assumes "online cx a" and "k \<noteq> []" and "ty \<noteq> []"
    and "js_oget ''taskId'' p = Str k" "js_oget ''type'' p = Str ty"
  shows "\<exists>ms nm st m. step_frames (handleWSTask h cx p a) =
      step_frames a @ ms @ [step_msg h k (n_ID (as_node a)) nm st m]
    \<and> list_all (is_step h k (n_ID (as_node a))) ms \<and> (st = ''success'' \<or> st = ''fail'')"
proof -
  let ?n = "as_node a" and ?cfg = "as_cfg a" and ?nid = "n_ID (as_node a)"
  define a0 where "a0 = a\<lparr>as_task := k\<rparr>"
  define a1 where "a1 = diag_step h cx k ?n ?cfg ''environment_check'' ag_env ag_env_done a0"
  define ts where "ts = (let given = toStringSlice (js_oget ''verifyTargets'' p)
    in if given = [] then collectVerifyTargets (ho_net h) (as_geo a) (nc_PolicyRules ?cfg) else given)"
  define r where "r = (if ty = ''policy_diag'' then (True, diag_step h cx k ?n ?cfg ''diag'' ag_diag ag_diag_done a1)
    else if ty = ''verify'' then verify_step h cx k ?nid ts ag_targets_ok a1
    else apply_task h cx k ts ?cfg ?n a1)"
  have a0: "step_frames a0 = step_frames a" "online cx a0" using assms(1) by (simp_all add: a0_def step_frames_def)
  have "ends_well h k ?nid True a0 a1" unfolding a1_def using a0(2) by (rule ends_well_diag)
  moreover have on1: "online cx a1" using a0(2) by (simp add: a1_def)
  have "ends_well h k ?nid (fst r) a1 (snd r) \<and> online cx (snd r)"
    using on1 ends_well_diag ends_well_verify [OF on1] ends_well_apply [OF on1] by (simp add: r_def)
  ultimately have r: "ends_well h k ?nid (fst r) a0 (snd r)" "online cx (snd r)"
    using ends_well_trans by blast+
  have res: "handleWSTask h cx p a =
      (if fst r then (report_step h cx k ?nid ''complete'' ''success'' ag_complete (snd r))\<lparr>as_task := []\<rparr> else snd r)"
    using assms(2-5) by (simp add: handleWSTask_def Let_def a0_def a1_def r_def ts_def case_prod_beta)
  obtain ms where ms: "step_frames (snd r) = step_frames a @ ms" "ms \<noteq> []"
    "list_all (is_step h k ?nid) ms" "fst r \<or> is_failure h k ?nid (last ms)"
    using r(1) unfolding ends_well_def a0(1) by blast
  have same: "step_frames (b\<lparr>as_task := []\<rparr>) = step_frames b" for b by (simp add: step_frames_def)
  show ?thesis
  proof (cases "fst r")
    case True
    then have "step_frames (handleWSTask h cx p a) =
        step_frames a @ ms @ [step_msg h k ?nid ''complete'' ''success'' ag_complete]"
      using ms(1) by (simp add: res same step_frames_step [OF r(2)])
    then show ?thesis using ms(3) by blast
  next
    case False
    then obtain nm m where l: "last ms = step_msg h k ?nid nm ''fail'' m" using ms(4) unfolding is_failure_def by blast
    have "step_frames (handleWSTask h cx p a) = step_frames a @ butlast ms @ [step_msg h k ?nid nm ''fail'' m]"
      using False ms(1,2) l by (simp add: res) (metis append_butlast_last_id)
    moreover have "list_all (is_step h k ?nid) (butlast ms)"
      using ms(3) by (auto simp: list_all_iff dest: in_set_butlastD)
    ultimately show ?thesis by blast
  qed
qed

section \<open>At the controller\<close>

definition receive_steps :: "env \<Rightarrow> string \<Rightarrow> jsval list \<Rightarrow> controller \<Rightarrow> controller" where
  "receive_steps e nid = fold (\<lambda>msg. handleTaskStep e msg nid)"

lemma handleTaskStep_step:
  assumes "GetTask k (store c) = Some t" and "t_ID t = k" and "k \<noteq> []"
  shows "\<exists>t'. GetTask k (store (handleTaskStep e (step_msg h k nid nm st m) w c)) = Some t'
    \<and> t_ID t' = k \<and> t_Status t' = st \<and> t_OverallStatus t' = st
    \<and> (\<exists>s. t_Steps t' = t_Steps t @ [s] \<and> ts_Name s = nm \<and> ts_Status s = st \<and> ts_NodeID s = w)"
  using assms
  by (auto simp: handleTaskStep_def step_msg_def task_frame_def GetTask_def SaveTask_def Let_def)

lemma receive_steps_status:
  assumes "GetTask k (store c) = Some t" "t_ID t = k" "k \<noteq> []"
    and "list_all (is_step h k nid) ms"
  shows "\<exists>t'. GetTask k (store (receive_steps e w (ms @ [step_msg h k nid nm st m]) c)) = Some t'
    \<and> t_Status t' = st \<and> t_OverallStatus t' = st \<and> (\<exists>ss. t_Steps t' = t_Steps t @ ss \<and> length ss = Suc (length ms))"
  using assms(1,2,4)
proof (induction ms arbitrary: c t)
  case Nil
  then show ?case using handleTaskStep_step [OF Nil(1,2) assms(3), of e h nid nm st m w]
    by (auto simp: receive_steps_def)
next
  case (Cons x ms)
  then obtain nm' st' m' where x: "x = step_msg h k nid nm' st' m'" by (auto simp: is_step_def)
  obtain t1 s where t1: "GetTask k (store (handleTaskStep e x w c)) = Some t1" "t_ID t1 = k" "t_Steps t1 = t_Steps t @ [s]"
    using handleTaskStep_step [OF Cons.prems(1,2) assms(3), of e h nid nm' st' m' w] x by auto
  from Cons.IH [OF t1(1,2)] Cons.prems(3) t1(3) show ?case by (fastforce simp: receive_steps_def)
qed

section \<open>The verdict of a diagnosis\<close>

lemma diag_summary_warned: "diag_summary cs ck_sum_warn \<in> {ck_sum_fail, ck_sum_warn}"
  by (induction cs) auto

lemma ck_sums_differ [simp]: "ck_sum_warn \<noteq> ck_sum_ok" "ck_sum_fail \<noteq> ck_sum_ok"
  by (simp_all add: ck_sum_warn_def ck_sum_ok_def ck_sum_fail_def)

lemma diag_summary_warns:
  "c \<in> set cs \<Longrightarrow> c_Status c = ''warn'' \<Longrightarrow> diag_summary cs ck_sum_ok \<in> {ck_sum_fail, ck_sum_warn}"
  by (induction cs) (use diag_summary_warned in auto)

lemma nat_check_warns:
  "\<not> rule_present h (masquerade ''10.10.0.0/16'' iface) a \<Longrightarrow>
   \<exists>c\<in>set (policy_checks h iface ps a). c_Status c = ''warn''"
  by (simp add: policy_checks_def firewall_checks_def check_of_def)

section \<open>Latencies\<close>

text \<open>What is measured for an address does not depend on the peer it is measured for.\<close>

definition measured :: "prober \<Rightarrow> (string \<times> int) list \<times> (string \<times> rat) list \<Rightarrow> bool" where
  "measured ping acc \<longleftrightarrow>
     (\<forall>ip ms. map_of (fst acc) ip = Some ms \<longrightarrow> (\<exists>v pct. ping ip = (v, pct, None) \<and> ms = float_to_int v
        \<and> map_of (snd acc) ip = Some pct))"

lemma measured_probe: "measured ping acc \<Longrightarrow> measured ping (probe_peer h ping p acc)"
  by (auto simp: measured_def probe_peer_def Let_def case_prod_beta prod_eq_iff)

lemma measured_probes: "measured ping acc \<Longrightarrow> measured ping (fold (probe_peer h ping) ps acc)"
  by (induction ps arbitrary: acc) (simp_all add: measured_probe)

lemma probe_keeps: "map_of (fst acc) ip \<noteq> None \<Longrightarrow> map_of (fst (fold (probe_peer h ping) ps acc)) ip \<noteq> None"
proof (induction ps arbitrary: acc)
  case (Cons p ps)
  have "map_of (fst (probe_peer h ping p acc)) ip \<noteq> None"
    using Cons.prems by (auto simp: probe_peer_def Let_def case_prod_beta)
  then show ?case using Cons.IH [of "probe_peer h ping p acc"] by simp
qed simp

lemma probe_reached:
  assumes "p \<in> set ps" and "peerOverlayIP h p = ip" and "ip \<noteq> []" and "snd (snd (ping ip)) = None"
  shows "map_of (fst (fold (probe_peer h ping) ps acc)) ip \<noteq> None"
  using assms(1)
proof (induction ps arbitrary: acc)
  case (Cons q ps)
  show ?case
  proof (cases "q = p")
    case True
    then have "map_of (fst (probe_peer h ping q acc)) ip \<noteq> None"
      using assms(2-4) by (auto simp: probe_peer_def Let_def case_prod_beta)
    from probe_keeps [OF this] show ?thesis by simp
  next
    case False
    then show ?thesis using Cons by simp
  qed
qed simp

lemma health_of_probe:
  assumes "p \<in> set ps" and "peerOverlayIP h p = ip" and "ip \<noteq> []" and "ping ip = (v, pct, None)"
  shows "map_of (h_LatencyMs (health_of h ping nid ps)) ip = Some (float_to_int v)"
    and "map_of (h_PacketLoss (health_of h ping nid ps)) ip = Some pct"
proof -
  let ?acc = "fold (probe_peer h ping) ps ([], [])"
  obtain ms' where l: "map_of (fst ?acc) ip = Some ms'"
    using probe_reached [OF assms(1-3), of ping "([], [])"] assms(4) by auto
  have "measured ping ?acc" by (rule measured_probes) (simp add: measured_def)
  then have "ms' = float_to_int v \<and> map_of (snd ?acc) ip = Some pct" using l assms(4) unfolding measured_def by fastforce
  then show "map_of (h_LatencyMs (health_of h ping nid ps)) ip = Some (float_to_int v)"
    "map_of (h_PacketLoss (health_of h ping nid ps)) ip = Some pct"
    using l by (simp_all add: health_of_def case_prod_beta)
qed

lemma overlay_address_masked:
  assumes "CHR ''/'' \<in> set a" and "takeWhile (\<lambda>c. c \<noteq> CHR ''/'') a \<noteq> []"
  shows "overlay_address h (a # as) = ipWithoutMask a"
  using assms by (simp add: ipWithoutMask_def Let_def)

lemma peerOverlayIP_node:
  assumes "CHR ''/'' \<in> set (n_OverlayIP n)" and "takeWhile (\<lambda>c. c \<noteq> CHR ''/'') (n_OverlayIP n) \<noteq> []"
  shows "peerOverlayIP h (peer_of n) = ipWithoutMask (n_OverlayIP n)"
proof -
  have o: "n_OverlayIP n \<noteq> []" using assms(1) by auto
  then obtain as where "allowed_ips n = n_OverlayIP n # as"
    using hd_allowed_ips [OF o] set_allowed_ips [of n] by (cases "allowed_ips n") auto
  then show ?thesis using overlay_address_masked [OF assms] by (simp add: peerOverlayIP_def peer_of_def)
qed

section \<open>Properties\<close>

text \<open>C12. Every task that reaches a connected agent comes to an end the controller sees: whatever its
  type, and whichever of writing, applying and verifying fails, the steps the agent reports leave
  the stored task with the status success or fail, and with one more step for each of them.\<close>

theorem task_ends:
  assumes "online cx a" and "k \<noteq> []" and "ty \<noteq> []"
    and "js_oget ''taskId'' p = Str k" and "js_oget ''type'' p = Str ty"
    and "step_frames a = []" and "GetTask k (store c) = Some t" and "t_ID t = k"
  shows "\<exists>t'. GetTask k (store (receive_steps e nid (step_frames (handleWSTask h cx p a)) c)) = Some t'
    \<and> (t_Status t' = ''success'' \<or> t_Status t' = ''fail'') \<and> t_OverallStatus t' = t_Status t'
    \<and> (\<exists>ss. t_Steps t' = t_Steps t @ ss \<and> length ss = length (step_frames (handleWSTask h cx p a)))"
proof -
  obtain ms nm st m where f: "step_frames (handleWSTask h cx p a) = ms @ [step_msg h k (n_ID (as_node a)) nm st m]"
    and ms: "list_all (is_step h k (n_ID (as_node a))) ms"
    and st: "st = ''success'' \<or> st = ''fail''"
    using task_frames [OF assms(1-5), of h] assms(6) by auto
  from receive_steps_status [OF assms(7,8,2) ms, of e nid nm st m] st show ?thesis unfolding f by auto
qed

theorem task_ends_witness:
  "let c = set_store (SaveTask 1 \<lparr>t_ID = ''k'', t_NodeID = ''n1'', t_Targets = [], t_Type = ''verify'',
         t_Status = ''running'', t_OverallStatus = [], t_Steps = [], t_CreatedAt = 1, t_UpdatedAt = 1\<rparr> (store ex_ctl)) ex_ctl;
       fs = step_frames (handleWSTask ex_host ex_cx (Obj [(''taskId'', Str ''k''), (''type'', Str ''verify'')]) ex_agent)
   in \<exists>t'. GetTask ''k'' (store (receive_steps ex_env ''n1'' fs c)) = Some t'
        \<and> (t_Status t' = ''success'' \<or> t_Status t' = ''fail'') \<and> length (t_Steps t') = length fs"
proof -
  let ?c = "set_store (SaveTask 1 \<lparr>t_ID = ''k'', t_NodeID = ''n1'', t_Targets = [], t_Type = ''verify'',
         t_Status = ''running'', t_OverallStatus = [], t_Steps = [], t_CreatedAt = 1, t_UpdatedAt = 1\<rparr> (store ex_ctl)) ex_ctl"
  let ?p = "Obj [(''taskId'', Str ''k''), (''type'', Str ''verify'')]"
  have a: "online ex_cx ex_agent" "''k'' \<noteq> []" "''verify'' \<noteq> []" "js_oget ''taskId'' ?p = Str ''k''"
    "js_oget ''type'' ?p = Str ''verify''" "step_frames ex_agent = []"
    by (simp_all add: online_def has_ws_def ex_cx_def ex_agent_def step_frames_def)
  have t: "GetTask ''k'' (store ?c) = Some \<lparr>t_ID = ''k'', t_NodeID = ''n1'', t_Targets = [], t_Type = ''verify'',
         t_Status = ''running'', t_OverallStatus = [], t_Steps = [], t_CreatedAt = 1, t_UpdatedAt = 1\<rparr>"
    by (simp add: GetTask_def SaveTask_def)
  show ?thesis
    using task_ends [OF a t, of ex_env "''n1''" ex_host] by (auto simp: Let_def)
qed

text \<open>The diagnosis of an agent never passes on a node whose traffic leaves by another interface:
  it looks for the address translation on the WireGuard interface, while the agent itself installs
  it on the interface of the default route.\<close>

theorem translated_node_never_passes:
  assumes "nat_managed (ho_nat h)" and "iface \<noteq> []" and "nat_egress (ho_nat h) (ho_ip h) iface \<noteq> iface"
    and "masquerade ''10.10.0.0/16'' iface \<notin> set (fw_rules f)"
    and "as_firewall a = ensureNAT (ho_nat h) (ho_ip h) iface f"
  shows "diag_summary (policy_checks h iface ps a) ck_sum_ok \<in> {ck_sum_fail, ck_sum_warn}"
proof -
  have "masquerade ''10.10.0.0/16'' iface \<notin> nat_rules iface (nat_egress (ho_nat h) (ho_ip h) iface) (nat_cidr (ho_nat h))"
    using assms(3) by (auto simp: nat_rules_def) (simp add: masquerade_def)
  then have "masquerade ''10.10.0.0/16'' iface \<notin> set (fw_rules (as_firewall a))"
    using ensureNAT_result(3) [OF assms(1,2), of "ho_ip h" f] assms(4,5) by auto
  then have "\<not> rule_present h (masquerade ''10.10.0.0/16'' iface) a" by (simp add: rule_present_def)
  from nat_check_warns [OF this, of ps] show ?thesis using diag_summary_warns by blast
qed

theorem translated_node_never_passes_witness:
  "diag_summary (policy_checks ex_host ''wg0'' [] (ex_agent\<lparr>as_firewall := ensureNAT ex_nat ex_ip ''wg0''
     \<lparr>fw_rules = [], fw_forward = False, fw_saved = ([], [], [])\<rparr>\<rparr>)) ck_sum_ok \<in> {ck_sum_fail, ck_sum_warn}"
proof -
  have "nat_managed (ho_nat ex_host)" by (simp add: nat_managed_def ex_host_def ex_nat_def ToLower_def)
  moreover have "nat_egress ex_nat ex_ip ''wg0'' = ''eth0''" by code_simp
  then have "nat_egress (ho_nat ex_host) (ho_ip ex_host) ''wg0'' \<noteq> ''wg0''" by (simp add: ex_host_def)
  ultimately show ?thesis
    using translated_node_never_passes [of ex_host "''wg0''" "\<lparr>fw_rules = [], fw_forward = False, fw_saved = ([], [], [])\<rparr>"
      "ex_agent\<lparr>as_firewall := ensureNAT ex_nat ex_ip ''wg0'' \<lparr>fw_rules = [], fw_forward = False, fw_saved = ([], [], [])\<rparr>\<rparr>" "[]"]
    by (simp add: ex_host_def)
qed

end
