(* ===== verification/Host_Flow.thy ===== *)
theory Host_Flow
  imports Agent_Flow
begin

text \<open>
  The tables and files of a host against what they are meant to do: the routes of the overlay, the
  default route, address translation, the tunnels and the generated configuration.
\<close>

section \<open>The default route\<close>

lemma default_route_hit:
  assumes "\<forall>c. ip_runs t c" and "pl_DefaultRoute pl" and "overlayForPeer nh (pl_Peers pl) \<noteq> []"
    and "nh = (if pl_DefaultRouteNextHop pl = [] then pl_EgressPeerID pl else pl_DefaultRouteNextHop pl)"
  shows "map_of (k_routes (default_routes t pl iface k)) (''100'', ip_dst t ''default'') =
    Some \<lparr>rt_via = Some (host_of (overlayForPeer nh (pl_Peers pl))), rt_dev = iface\<rparr>"
proof -
  have "map_of (k_routes (run_ip t (Route_replace ''default'' (Some g) iface ''100'') k)) (''100'', ip_dst t ''default'') =
      Some \<lparr>rt_via = Some g, rt_dev = iface\<rparr>" for g k
    using assms(1) by (simp add: run_ip_def)
  then show ?thesis using assms(2-4) by (simp add: default_routes_def Let_def)
qed

lemma rules_keep_default:
  assumes "\<forall>pr\<in>set (pl_PolicyRules pl). ip_dst t ''default'' \<notin> ip_dst t ` set (Expand x g pr)
      \<and> ip_dst t ''default'' \<noteq> hop_host t (pl_Peers pl) pr"
  shows "map_of (k_routes (applyStaticRoutes x g t pl iface k)) (''100'', ip_dst t ''default'') =
    map_of (k_routes (default_routes t pl iface (syncPeerRoutes x t (pl_Peers pl) iface k))) (''100'', ip_dst t ''default'')"
  unfolding applyStaticRoutes_def using assms rule_routes_frame by (intro fold_frame) blast

lemma set_rendered_peers:
  "set (rendered_peers x g n ps) = (\<lambda>p. augmented x g n (tunnel_endpoint (allocateLocalPorts ps 30000 []) p)) ` set ps"
  by (auto simp: rendered_peers_def augmentEgressAllowedIPs_map)

lemma neighbor_of_peer:
  assumes "p \<in> set ps" and "p_AllowedIPs p \<noteq> []"
  shows "map_of (NeighborOverlayIPs ps) (hd (p_AllowedIPs p)) = Some 0"
proof -
  have "map_of (fold (\<lambda>p res. if p_AllowedIPs p = [] then res else AList.update (hd (p_AllowedIPs p)) 0 res) ps m) k
      = (if \<exists>p\<in>set ps. p_AllowedIPs p \<noteq> [] \<and> hd (p_AllowedIPs p) = k then Some 0 else map_of m k)"
    for m :: "(string \<times> int) list" and k
    by (induction ps arbitrary: m) auto
  then show ?thesis using assms by (auto simp: NeighborOverlayIPs_def)
qed

section \<open>Properties\<close>

text \<open>The table for policy routing never keeps a route of the overlay: the tool prints a host
  route without its mask, so the agent does not find the route it has just installed among
  those it wants, and deletes it from table 52, while the main table keeps it.\<close>

theorem overlay_routes_pruned:
  assumes "\<forall>c. ip_runs t c" and "ip_lists t" and "iface \<noteq> []"
    and "ip_show t (ip_dst t (a @ ''/32'')) = a" and "ip_dst t a = ip_dst t (a @ ''/32'')"
    and "prefix ''10.'' a" and "a @ ''/32'' \<in> set (desired_prefixes x ps)" and "a \<notin> set (desired_prefixes x ps)"
  shows "route_of t ''main'' (a @ ''/32'') (syncPeerRoutes x t ps iface k) = Some \<lparr>rt_via = None, rt_dev = iface\<rparr>
    \<and> route_of t ''52'' (a @ ''/32'') (syncPeerRoutes x t ps iface k) = None"
  using overlay_pruned [OF assms] by (simp add: route_of_def)

theorem overlay_routes_pruned_witness:
  "route_of ex_ip ''52'' ''10.10.2.1/32'' (syncPeerRoutes ex_net ex_ip
     [\<lparr>p_ID = ''n2'', p_PublicKey = ''k'', p_Endpoint = [], p_AllowedIPs = [''10.10.2.1/32''], p_Keepalive = 25\<rparr>]
     ''wg0'' \<lparr>k_routes = [], k_rules = []\<rparr>) = None"
proof -
  let ?ps = "[\<lparr>p_ID = ''n2'', p_PublicKey = ''k'', p_Endpoint = [], p_AllowedIPs = [''10.10.2.1/32''], p_Keepalive = 25\<rparr>]"
  have d: "desired_prefixes ex_net ?ps = [''10.10.2.1/32'']"
    by (simp add: desired_prefixes_def ex_net_def)
  have "ip_show ex_ip (ip_dst ex_ip (''10.10.2.1'' @ ''/32'')) = ''10.10.2.1''" by code_simp
  moreover have "ip_dst ex_ip ''10.10.2.1'' = ip_dst ex_ip (''10.10.2.1'' @ ''/32'')" by (simp add: ex_ip_def)
  ultimately show ?thesis
    using overlay_routes_pruned [where t = ex_ip and a = "''10.10.2.1''" and x = ex_net and ps = ?ps and iface = "''wg0''"
      and k = "\<lparr>k_routes = [], k_rules = []\<rparr>"]
    by (simp add: d) (simp add: ex_ip_def)
qed

text \<open>A default route through an intermediate node has no peer: the routes send the traffic to
  the overlay address of the next hop, but the network 0.0.0.0/0 is added to the egress peer
  alone, so the configuration of WireGuard lists it for no other peer.\<close>

theorem default_next_hop_has_no_peer:
  assumes "\<forall>c. ip_runs t c" and "n_DefaultRoute n" and "n_DefaultRouteNextHop n = nh" and "nh \<noteq> []"
    and "nh \<noteq> n_EgressPeerID n" and "overlayForPeer nh ps \<noteq> []"
    and "\<forall>p\<in>set ps. ''0.0.0.0/0'' \<notin> set (p_AllowedIPs p)"
    and "\<forall>pr\<in>set (n_PolicyRules n). ''0.0.0.0/0'' \<notin> set (Expand x g pr)
      \<and> ip_dst t ''default'' \<notin> ip_dst t ` set (Expand x g pr) \<and> ip_dst t ''default'' \<noteq> hop_host t ps pr"
  shows "route_of t ''100'' ''default'' (applyStaticRoutes x g t (agent_plan n ps) iface k) =
      Some \<lparr>rt_via = Some (host_of (overlayForPeer nh ps)), rt_dev = iface\<rparr>
    \<and> (\<forall>q\<in>set (rendered_peers x g n ps). ''0.0.0.0/0'' \<in> set (p_AllowedIPs q) \<longrightarrow> p_ID q = n_EgressPeerID n)"
proof
  let ?pl = "agent_plan n ps"
  have "\<forall>pr\<in>set (pl_PolicyRules ?pl). ip_dst t ''default'' \<notin> ip_dst t ` set (Expand x g pr)
      \<and> ip_dst t ''default'' \<noteq> hop_host t (pl_Peers ?pl) pr"
    using assms(8) by (simp add: agent_plan_def)
  note keep = rules_keep_default [OF this]
  have pl: "pl_DefaultRoute ?pl" "pl_Peers ?pl = ps"
    "nh = (if pl_DefaultRouteNextHop ?pl = [] then pl_EgressPeerID ?pl else pl_DefaultRouteNextHop ?pl)"
    using assms(2-4) by (auto simp: agent_plan_def)
  show "route_of t ''100'' ''default'' (applyStaticRoutes x g t ?pl iface k) =
      Some \<lparr>rt_via = Some (host_of (overlayForPeer nh ps)), rt_dev = iface\<rparr>"
    unfolding route_of_def keep
    using default_route_hit [OF assms(1) pl(1) _ pl(3)] assms(6) unfolding pl(2) by blast
  show "\<forall>q\<in>set (rendered_peers x g n ps). ''0.0.0.0/0'' \<in> set (p_AllowedIPs q) \<longrightarrow> p_ID q = n_EgressPeerID n"
  proof (intro ballI impI)
    fix q assume q: "q \<in> set (rendered_peers x g n ps)" "''0.0.0.0/0'' \<in> set (p_AllowedIPs q)"
    then obtain p where p: "p \<in> set ps" "q = augmented x g n (tunnel_endpoint (allocateLocalPorts ps 30000 []) p)"
      unfolding set_rendered_peers by blast
    then have "''0.0.0.0/0'' \<in> set (slice_of (egress_targets x g n) (p_ID q))"
      using q(2) assms(7) by (simp add: set_augmented)
    then show "p_ID q = n_EgressPeerID n" using assms(8) unfolding set_egress_targets by (auto split: if_splits)
  qed
qed

theorem default_next_hop_has_no_peer_witness:
  "let n = node_zero\<lparr>n_DefaultRoute := True, n_EgressPeerID := ''n3'', n_DefaultRouteNextHop := ''n2''\<rparr>;
       ps = BuildPeerPlan ''n1'' ex_pair []
   in route_of ex_ip ''100'' ''default'' (applyStaticRoutes ex_net (as_geo ex_agent) ex_ip (agent_plan n ps) ''wg0''
        \<lparr>k_routes = [], k_rules = []\<rparr>) = Some \<lparr>rt_via = Some ''10.10.2.1'', rt_dev = ''wg0''\<rparr>"
proof -
  let ?n = "node_zero\<lparr>n_DefaultRoute := True, n_EgressPeerID := ''n3'', n_DefaultRouteNextHop := ''n2''\<rparr>"
  let ?ps = "BuildPeerPlan ''n1'' ex_pair []"
  have o: "overlayForPeer ''n2'' ?ps = ''10.10.2.1/32''" "\<forall>p\<in>set ?ps. ''0.0.0.0/0'' \<notin> set (p_AllowedIPs p)"
    by (simp_all add: ex_pair_peers overlayForPeer_def peer_of_def ex_node_def node_zero_def allowed_ips_def)
  have "host_of ''10.10.2.1/32'' = ''10.10.2.1''" by code_simp
  then show ?thesis
    using default_next_hop_has_no_peer [of ex_ip ?n "''n2''" ?ps ex_net "as_geo ex_agent" "''wg0''"
        "\<lparr>k_routes = [], k_rules = []\<rparr>"] o
    by (simp add: Let_def node_zero_def) (simp add: ex_ip_def)
qed

text \<open>C23. Address translation follows the settings: applying the configuration again changes nothing,
  and when the interface, the egress or the network of the overlay has changed, exactly the
  rules of the new settings take the place of the rules of the old ones; other rules stay.\<close>

theorem nat_follows_settings:
  assumes "nat_managed ne" and "iface \<noteq> []" and "distinct (fw_rules f)"
    and "fw_saved f = (i0, e0, c0)" and "i0 \<noteq> []" and "e0 \<noteq> []" and "c0 \<noteq> []"
  shows "let f' = ensureNAT ne t iface f; new = (iface, nat_egress ne t iface, nat_cidr ne)
    in ensureNAT ne t iface f' = f' \<and> fw_saved f' = new
       \<and> set (fw_rules f') = (if (i0, e0, c0) = new then set (fw_rules f) else set (fw_rules f) - nat_rules i0 e0 c0)
           \<union> nat_rules iface (nat_egress ne t iface) (nat_cidr ne)"
  using ensureNAT_idem [OF assms(1,2)] ensureNAT_result(1) [OF assms(1,2)]
    ensureNAT_result(4) [OF assms]
  by (simp add: Let_def)

theorem nat_follows_settings_witness:
  "set (fw_rules (ensureNAT ex_nat ex_ip ''wg0''
     \<lparr>fw_rules = [masquerade ''10.9.0.0/16'' ''eth1''], fw_forward = False, fw_saved = (''wg0'', ''eth1'', ''10.9.0.0/16'')\<rparr>))
   = nat_rules ''wg0'' ''eth0'' ''10.10.0.0/16''"
proof -
  have "nat_managed ex_nat" by (simp add: nat_managed_def ex_nat_def ToLower_def)
  moreover have "nat_egress ex_nat ex_ip ''wg0'' = ''eth0''" "nat_cidr ex_nat = ''10.10.0.0/16''" by code_simp+
  ultimately show ?thesis
    using nat_follows_settings [of ex_nat "''wg0''" "\<lparr>fw_rules = [masquerade ''10.9.0.0/16'' ''eth1''], fw_forward = False,
      fw_saved = (''wg0'', ''eth1'', ''10.9.0.0/16'')\<rparr>" "''wg0''" "''eth1''" "''10.9.0.0/16''" ex_ip]
    by (simp add: Let_def nat_rules_def)
qed

text \<open>A newline in the key of a node writes lines into the configuration of its peers: neither
  the controller nor the agent looks into a public key, so any text can be a line of the file that
  \<open>wg-quick\<close> reads as root, a command to run among them.\<close>

theorem key_injects_lines:
  assumes "p \<in> set ps" and "p_PublicKey p = u @ newline @ l @ newline @ v" and "CHR 0x0A \<notin> set l"
  shows "l \<in> set (split_on (CHR 0x0A) (RenderConfig n (rendered_peers x g n' ps) priv))"
proof -
  obtain q where q: "q \<in> set (rendered_peers x g n' ps)" "p_PublicKey q = p_PublicKey p"
  proof -
    let ?q = "augmented x g n' (tunnel_endpoint (allocateLocalPorts ps 30000 []) p)"
    have "?q \<in> set (rendered_peers x g n' ps)" using assms(1) unfolding set_rendered_peers by blast
    then show ?thesis using that [of ?q] by simp
  qed
  then obtain us vs where ps: "rendered_peers x g n' ps = us @ q # vs" by (meson split_list)
  obtain r where r: "peer_section n q = ''[Peer]'' @ newline @ ''PublicKey = '' @ p_PublicKey q @ r"
    by (simp add: peer_section_def)
  have "RenderConfig n (rendered_peers x g n' ps) priv =
      (interface_section n priv @ concat (map (peer_section n) us) @ ''[Peer]'' @ newline @ ''PublicKey = '' @ u)
      @ newline @ l @ newline @ (v @ r @ concat (map (peer_section n) vs))"
    by (simp add: RenderConfig_def ps r q(2) assms(2))
  then show ?thesis using line_between_newlines [OF assms(3)] by metis
qed

theorem key_injects_lines_witness:
  "''PostUp = id'' \<in> set (split_on (CHR 0x0A) (RenderConfig node_zero (rendered_peers ex_net
     \<lparr>gs_dir = [], gs_v4 = [], gs_v6 = [], gs_ttl = 0\<rparr> node_zero
     [\<lparr>p_ID = ''n2'', p_PublicKey = ''k'' @ newline @ ''PostUp = id'' @ newline @ ''x'', p_Endpoint = [],
        p_AllowedIPs = [], p_Keepalive = 25\<rparr>]) []))"
  by (rule key_injects_lines [where p = "\<lparr>p_ID = ''n2'', p_PublicKey = ''k'' @ newline @ ''PostUp = id'' @ newline @ ''x'',
      p_Endpoint = [], p_AllowedIPs = [], p_Keepalive = 25\<rparr>" and u = "''k''" and v = "''x''"]) simp_all

text \<open>The port of a host is one of its own, from 30000 on.\<close>

lemma allocated_port:
  assumes "p \<in> set ps" and "endpointHost (p_Endpoint p) \<noteq> []"
  obtains lp where "30000 \<le> lp" and "(endpointHost (p_Endpoint p), lp) \<in> set (allocateLocalPorts ps 30000 [])"
    and "map_of (allocateLocalPorts ps 30000 []) (endpointHost (p_Endpoint p)) = Some lp"
    and "\<And>host'. (host', lp) \<in> set (allocateLocalPorts ps 30000 []) \<Longrightarrow> host' = endpointHost (p_Endpoint p)"
proof -
  let ?m = "allocateLocalPorts ps 30000 []" and ?h = "endpointHost (p_Endpoint p)"
  have keys: "distinct (map fst ?m)" by (rule allocateLocalPorts_spec)
  obtain cur where ports: "map snd ?m = [30000..cur]" using allocateLocalPorts_spec(1) [of ps 30000] by blast
  have "?h \<in> fst ` set ?m" using assms unfolding allocateLocalPorts_spec(3) by blast
  then obtain lp where lp: "(?h, lp) \<in> set ?m" by auto
  have "lp \<in> set (map snd ?m)" using lp by force
  then have "30000 \<le> lp" unfolding ports by simp
  moreover have "distinct (map snd ?m)" unfolding ports by simp
  then have "inj_on snd (set ?m)" by (simp add: distinct_map)
  then have "host' = ?h" if "(host', lp) \<in> set ?m" for host' using lp that unfolding inj_on_def by fastforce
  moreover have "map_of ?m ?h = Some lp" using lp keys by simp
  ultimately show ?thesis using that [OF _ lp] by blast
qed

text \<open>C24. The endpoint of a peer in the configuration of WireGuard and the tunnel to its host belong
  together: when the agent has written its files, the section of a peer whose endpoint names a host
  has the local end of the tunnel to that host as its endpoint, unless the node overrides the endpoint
  of this peer, which then takes its place.  With \<open>wstunnel\<close> installed, the client
  to the host runs exactly when its process could be started, override or not, and no client to another
  host has this local port.  The client dials the port this node listens on, whatever port the endpoint
  names.\<close>

theorem endpoints_match_tunnels:
  assumes "writes_ok h cx" and "p \<in> set ps" and "endpointHost (p_Endpoint p) \<noteq> []"
  shows "let a' = snd (RenderAndWrite h cx n ps asn a); n' = listening_node n;
      host = endpointHost (p_Endpoint p); port = n_ListenPort n'
    in \<exists>lp\<ge>30000. \<exists>q. p_ID q = p_ID p \<and> p_PublicKey q = p_PublicKey p
         \<and> sublist (peer_section n' q) (file_content (wg_path (cx_outDir cx) (cx_iface cx)) a')
         \<and> peer_endpoint n' q =
             (case map_of (n_PeerEndpoints n) (p_ID p) of
                None \<Rightarrow> ''127.0.0.1:'' @ show_int lp
              | Some ep \<Rightarrow> if ep = [] then ''127.0.0.1:'' @ show_int lp else ep)
         \<and> (ho_wstunnel h \<longrightarrow>
              (Client host lp port \<in> set (as_tunnels a') \<longleftrightarrow> ho_starts h (Client host lp port))
              \<and> (\<forall>host' port'. Client host' lp port' \<in> set (as_tunnels a') \<longrightarrow> host' = host \<and> port' = port))"
proof -
  let ?m = "allocateLocalPorts ps 30000 []" and ?h = "endpointHost (p_Endpoint p)" and ?n = "listening_node n"
  let ?a = "snd (RenderAndWrite h cx n ps asn a)" and ?port = "n_ListenPort (listening_node n)"
  let ?q = "augmented (ho_net h) (as_geo a) ?n (tunnel_endpoint ?m p)"
  obtain lp where lp: "30000 \<le> lp" "(?h, lp) \<in> set ?m" "map_of ?m ?h = Some lp"
    "\<And>host'. (host', lp) \<in> set ?m \<Longrightarrow> host' = ?h"
    using allocated_port [OF assms(2,3)] by blast
  have "?q \<in> set (rendered_peers (ho_net h) (as_geo a) ?n ps)" using assms(2) unfolding set_rendered_peers by blast
  then obtain us vs where "rendered_peers (ho_net h) (as_geo a) ?n ps = us @ ?q # vs" by (meson split_list)
  then have "RenderConfig ?n (rendered_peers (ho_net h) (as_geo a) ?n ps) (cx_private cx) =
      (interface_section ?n (cx_private cx) @ concat (map (peer_section ?n) us)) @ peer_section ?n ?q
      @ concat (map (peer_section ?n) vs)"
    by (simp add: RenderConfig_def)
  then have written: "sublist (peer_section ?n ?q) (file_content (wg_path (cx_outDir cx) (cx_iface cx)) ?a)"
    unfolding RenderAndWrite_ok(3) [OF assms(1)] sublist_def by blast
  have ep: "p_Endpoint ?q = ''127.0.0.1:'' @ show_int lp" "p_ID ?q = p_ID p" "p_PublicKey ?q = p_PublicKey p"
    using lp(3) assms(3) by (simp_all add: tunnel_endpoint_def Let_def)
  have tunnels: "Client host' lp' port' \<in> set (as_tunnels ?a) \<longleftrightarrow>
      ho_starts h (Client host' lp' port') \<and> (host', lp') \<in> set ?m \<and> port' = ?port"
    if "ho_wstunnel h" for host' lp' port'
    using that by (auto simp: RenderAndWrite_tunnels [OF assms(1)] tunnels_of_def)
  have endpoint: "peer_endpoint ?n ?q = (case map_of (n_PeerEndpoints n) (p_ID p) of
        None \<Rightarrow> ''127.0.0.1:'' @ show_int lp
      | Some ep \<Rightarrow> if ep = [] then ''127.0.0.1:'' @ show_int lp else ep)"
    unfolding peer_endpoint_def ep by (simp add: listening_node_def split: option.split)
  have runs: "ho_wstunnel h \<longrightarrow>
      (Client ?h lp ?port \<in> set (as_tunnels ?a) \<longleftrightarrow> ho_starts h (Client ?h lp ?port))
      \<and> (\<forall>host' port'. Client host' lp port' \<in> set (as_tunnels ?a) \<longrightarrow> host' = ?h \<and> port' = ?port)"
    using tunnels lp(2,4) by blast
  show ?thesis
    unfolding Let_def
    by (rule exI [of _ lp], rule conjI [OF lp(1)], rule exI [of _ ?q], intro conjI ep(2,3) written endpoint runs)
qed

theorem endpoints_match_tunnels_witness:
  "let p = \<lparr>p_ID = ''n2'', p_PublicKey = ''k'', p_Endpoint = ''vpn.example.org'', p_AllowedIPs = [], p_Keepalive = 25\<rparr>;
       n = node_zero\<lparr>n_PeerEndpoints := [(''n2'', ''192.0.2.7:51820'')]\<rparr>
   in \<exists>q. sublist (peer_section (listening_node n) q)
          (file_content (wg_path (cx_outDir ex_cx) (cx_iface ex_cx)) (snd (RenderAndWrite ex_host ex_cx n [p] 65000 ex_agent)))
        \<and> peer_endpoint (listening_node n) q = ''192.0.2.7:51820''"
proof -
  let ?p = "\<lparr>p_ID = ''n2'', p_PublicKey = ''k'', p_Endpoint = ''vpn.example.org'', p_AllowedIPs = [], p_Keepalive = 25\<rparr>"
  let ?n = "node_zero\<lparr>n_PeerEndpoints := [(''n2'', ''192.0.2.7:51820'')]\<rparr>"
  have "endpointHost ''vpn.example.org'' \<noteq> []" by code_simp
  then have "endpointHost (p_Endpoint ?p) \<noteq> []" by simp
  from endpoints_match_tunnels [OF ex_writes_ok list.set_intros(1) this, of ?n "[]" 65000 ex_agent]
  show ?thesis unfolding Let_def by auto
qed

lemma rendered_neighbors:
  assumes "iface \<noteq> []" and "asn \<noteq> 0"
  shows "\<exists>a b. RenderBGP x g asn rid iface nbrs nets pl
    = a @ concat (map (\<lambda>(ip, a). frr_line [''neighbor'', ip, ''remote-as'', show_int (if a = 0 then asn else a)]
      @ frr_line [''neighbor'', ip, ''update-source'', iface]) nbrs) @ b"
proof -
  have split: "\<exists>a b. s @ t @ u @ v @ w @ z = a @ w @ b" for s t u v w z :: string
  proof (rule exI, rule exI)
    show "s @ t @ u @ v @ w @ z = (s @ t @ u @ v) @ w @ z" by simp
  qed
  have asn: "(if asn = 0 then 65000 else asn) = asn" and iface: "(if iface = [] then ''wg0'' else iface) = iface"
    using assms by simp_all
  show ?thesis unfolding RenderBGP_def Let_def asn iface by (rule split)
qed

text \<open>The BGP sessions are configured for addresses with a mask: the neighbour line of a peer
  carries its overlay address as the controller hands it out, \<open>10.10.2.1/32\<close>, while the static
  routes below it are written without the mask.\<close>

theorem bgp_neighbor_keeps_mask:
  assumes "m \<in> set ns" and "eligible k hm m" and "n_OverlayIP m \<noteq> []" and "iface \<noteq> []" and "asn \<noteq> 0"
  shows "sublist (frr_line [''neighbor'', n_OverlayIP m, ''remote-as'', show_int asn])
    (RenderBGP x g asn rid iface (NeighborOverlayIPs (BuildPeerPlan k ns hm)) nets pl)"
proof -
  let ?nbrs = "NeighborOverlayIPs (BuildPeerPlan k ns hm)"
  let ?f = "\<lambda>(ip, a). frr_line [''neighbor'', ip, ''remote-as'', show_int (if a = 0 then asn else a)]
      @ frr_line [''neighbor'', ip, ''update-source'', iface]"
  have "peer_of m \<in> set (BuildPeerPlan k ns hm)" using assms(1,2) by (simp add: set_BuildPeerPlan)
  moreover have "p_AllowedIPs (peer_of m) \<noteq> []" "hd (p_AllowedIPs (peer_of m)) = n_OverlayIP m"
    using assms(3) set_allowed_ips [of m] by (auto simp: peer_of_def hd_allowed_ips)
  ultimately have "(n_OverlayIP m, 0) \<in> set ?nbrs" using neighbor_of_peer map_of_SomeD by metis
  then obtain us vs where "?nbrs = us @ (n_OverlayIP m, 0) # vs" by (meson split_list)
  then have "concat (map ?f ?nbrs) = concat (map ?f us) @ frr_line [''neighbor'', n_OverlayIP m, ''remote-as'', show_int asn]
      @ (frr_line [''neighbor'', n_OverlayIP m, ''update-source'', iface] @ concat (map ?f vs))"
    by simp
  moreover obtain a b where "RenderBGP x g asn rid iface ?nbrs nets pl = a @ concat (map ?f ?nbrs) @ b"
    using rendered_neighbors [OF assms(4,5)] by blast
  ultimately have "RenderBGP x g asn rid iface ?nbrs nets pl
      = (a @ concat (map ?f us)) @ frr_line [''neighbor'', n_OverlayIP m, ''remote-as'', show_int asn]
        @ (frr_line [''neighbor'', n_OverlayIP m, ''update-source'', iface] @ concat (map ?f vs) @ b)"
    by simp
  then show ?thesis unfolding sublist_def by blast
qed

theorem bgp_neighbor_keeps_mask_witness:
  "sublist (frr_line [''neighbor'', ''10.10.2.1/32'', ''remote-as'', show_int 65000])
     (RenderBGP ex_net (as_geo ex_agent) 65000 [] ''wg0'' (NeighborOverlayIPs (BuildPeerPlan ''n1'' ex_pair [])) []
        (agent_plan node_zero []))"
proof -
  let ?m = "(ex_node ''n2'')\<lparr>n_OverlayIP := ''10.10.2.1/32''\<rparr>"
  have m: "?m \<in> set ex_pair" "eligible ''n1'' [] ?m" "n_OverlayIP ?m = ''10.10.2.1/32''"
    by (simp_all add: ex_pair_def ex_node_def node_zero_def eligible_def)
  then show ?thesis using bgp_neighbor_keeps_mask [of ?m ex_pair "''n1''" "[]" "''wg0''" 65000] by auto
qed

end
