(* ===== verification/Mesh_Flow.thy ===== *)
theory Mesh_Flow
  imports Agent_Policy Path_Flow
begin

text \<open>
  The whole mesh: the controller computes the plans of all nodes anew and pushes them, every agent
  takes over the plan it is sent, and traffic is carried from routing table to routing table.
\<close>

section \<open>Carrying traffic\<close>

text \<open>
  The node with a given overlay address, and the walk of the traffic for a prefix: at every node
  the route of its main table leads to the node whose overlay address is the gateway.  \<open>t\<close> and
  \<open>ks\<close> are the tool and the kernel of each node.
\<close>

definition carrier :: "node list \<Rightarrow> string \<Rightarrow> node option" where
  "carrier ns g = List.find (\<lambda>m. n_OverlayIP m \<noteq> [] \<and> host_of (n_OverlayIP m) = g) ns"

fun carried :: "node list \<Rightarrow> (string \<Rightarrow> ip_tool) \<Rightarrow> (string \<Rightarrow> kernel) \<Rightarrow> string \<Rightarrow> nat \<Rightarrow> string \<Rightarrow> string list" where
  "carried ns t ks pfx 0 k = [k]"
| "carried ns t ks pfx (Suc fuel) k =
     (case Option.bind (route_of (t k) ''main'' pfx (ks k)) rt_via of
        None \<Rightarrow> [k]
      | Some g \<Rightarrow>
          (case carrier ns g of
             None \<Rightarrow> [k]
           | Some m \<Rightarrow> k # carried ns t ks pfx fuel (n_ID m)))"

definition distinct_overlays :: "node list \<Rightarrow> bool" where
  "distinct_overlays ns \<longleftrightarrow>
     (\<forall>m\<in>set ns. \<forall>m'\<in>set ns. n_OverlayIP m \<noteq> [] \<and> n_OverlayIP m' \<noteq> []
        \<and> host_of (n_OverlayIP m) = host_of (n_OverlayIP m') \<longrightarrow> m = m')"

lemma carrier_self:
  assumes "distinct_overlays ns" and "m \<in> set ns" and "n_OverlayIP m \<noteq> []"
  shows "carrier ns (host_of (n_OverlayIP m)) = Some m"
proof (cases "carrier ns (host_of (n_OverlayIP m))")
  case None
  then show ?thesis using assms(2,3) by (auto simp: carrier_def find_None_iff)
next
  case (Some m')
  then have "m' \<in> set ns" "n_OverlayIP m' \<noteq> []" "host_of (n_OverlayIP m') = host_of (n_OverlayIP m)"
    unfolding carrier_def by (auto simp: find_Some_iff)
  then show ?thesis using Some assms unfolding distinct_overlays_def by metis
qed

section \<open>An agent with its plan\<close>

text \<open>
  The rules an agent holds after a plan: the ones of the plan, or its earlier ones when the plan has
  none.  What is asked of every agent: it can write its files, its commands run, and under these rules
  the prefix has a route of its own.
\<close>

definition merged_rules :: "policy_rule list \<Rightarrow> agent \<Rightarrow> policy_rule list" where
  "merged_rules rs a = (if rs = [] then n_PolicyRules (as_node a) else rs)"

definition ready :: "string \<Rightarrow> policy_rule list \<Rightarrow> peer list \<Rightarrow> host \<Rightarrow> agent_context \<Rightarrow> agent \<Rightarrow> bool" where
  "ready pfx rs ps h cx a \<longleftrightarrow> writes_ok h cx \<and> routable h pfx (merged_rules rs a) ps"

text \<open>
  What is asked besides of an agent that is sent no rule for the prefix: it has no rule and no route for
  it from an earlier plan, and the prefix is neither the default route nor a network of its peers.
\<close>

definition no_leftover :: "string \<Rightarrow> policy_rule list \<Rightarrow> peer list \<Rightarrow> host \<Rightarrow> agent \<Rightarrow> bool" where
  "no_leftover pfx rs ps h a \<longleftrightarrow> (\<forall>r\<in>set (merged_rules rs a). pr_prefix r \<noteq> pfx)
     \<and> route_of (ho_ip h) ''main'' pfx (as_kernel a) = None
     \<and> ip_dst (ho_ip h) pfx \<noteq> ip_dst (ho_ip h) ''default''
     \<and> ip_dst (ho_ip h) pfx \<notin> ip_dst (ho_ip h) ` set (desired_prefixes (ho_net h) ps)"

lemma next_hop_None: "next_hop R pfx k = None \<longleftrightarrow> (\<forall>r\<in>set (slice_of R k). pr_prefix r \<noteq> pfx)"
proof -
  have "next_hop R pfx k = None \<longleftrightarrow> filter (\<lambda>r. pr_prefix r = pfx) (slice_of R k) = []"
    by (simp add: next_hop_def split: list.split)
  then show ?thesis by (simp add: filter_empty_conv)
qed

lemma unplanned_stays:
  assumes "ready pfx rs ps h cx a" and "no_leftover pfx rs ps h a"
    and "nc_PolicyRules cfg = rs" and "nc_Peers cfg = ps"
  shows "route_of (ho_ip h) ''main'' pfx (as_kernel (snd (handlePlan h cx cl cfg (as_node a) a))) = None"
proof -
  let ?t = "ho_ip h" and ?g = "as_geo (merge_geo h cfg a)"
  let ?pl = "agent_plan (fst (mergePlanIntoNode (as_node a) cfg (cx_asn cx))) (nc_Peers cfg)"
  let ?rs = "merged_rules rs a"
  have rules: "pl_PolicyRules ?pl = ?rs" and peers: "pl_Peers ?pl = ps"
    using assms(3,4) by (auto simp: agent_plan_def merge_fields merged_rules_def)
  have clear: "ip_dst ?t pfx \<notin> ip_dst ?t ` set (Expand (ho_net h) ?g r) \<and> ip_dst ?t pfx \<noteq> hop_host ?t ps r"
    if "r \<in> set ?rs" for r
  proof -
    have r: "plain_rule (ho_net h) r" "pr_prefix r \<noteq> pfx" "ip_dst ?t (pr_prefix r) \<noteq> ip_dst ?t pfx"
      "ip_dst ?t pfx \<noteq> hop_host ?t ps r"
      using that assms(1,2) unfolding ready_def no_leftover_def routable_def by blast+
    show ?thesis using r(3,4) by (simp add: Expand_plain [OF r(1)])
  qed
  have ok: "writes_ok h cx" "ip_dst ?t pfx \<notin> ip_dst ?t ` set (desired_prefixes (ho_net h) ps)"
    "ip_dst ?t pfx \<noteq> ip_dst ?t ''default''" "map_of (k_routes (as_kernel a)) (''main'', ip_dst ?t pfx) = None"
    using assms(1,2) by (simp_all add: ready_def no_leftover_def route_of_def)
  have "map_of (k_routes (applyStaticRoutes (ho_net h) ?g ?t ?pl (cx_iface cx) (as_kernel a))) (''main'', ip_dst ?t pfx)
      = map_of (k_routes (as_kernel a)) (''main'', ip_dst ?t pfx)"
    using ok clear rules peers by (intro applyStaticRoutes_frame) simp_all
  then show ?thesis using ok(4) by (simp add: route_of_def handlePlan_kernel [OF ok(1)])
qed

section \<open>The plans pushed\<close>

definition plan_message :: "env \<Rightarrow> controller \<Rightarrow> mem_store \<times> string \<Rightarrow> node \<Rightarrow> jsval" where
  "plan_message e c mc n = ws_message ''plan'' (n_ID n)
     (json_config e (fst mc) (listening n) (snd mc)
       (BuildPeerPlan (n_ID n) (ListNodes (store c)) (health_map (ListHealth (store c))))
       (slice_of (expandPolicyRules (ListNodes (store c))) (n_ID n)) False ''ws plan push'')"

lemma savePlan_frame [simp]:
  "agents (savePlanWithRules e n ps rs c) = agents c"
  "diagIntervalSeconds e (store (savePlanWithRules e n ps rs c)) = diagIntervalSeconds e (store c)"
  by (simp_all add: savePlanWithRules_def Let_def hub_send_def)

lemma sent_plans:
  assumes "distinct ns" and "n_ID ` set ns \<subseteq> set (agents c)"
  shows "\<exists>f. (\<forall>n\<in>set ns. diagIntervalSeconds e (fst (f n)) = diagIntervalSeconds e (store c))
    \<and> sent (fold (\<lambda>n. savePlanWithRules e n (P n) (Q n)) ns c) = sent c
        @ map (\<lambda>n. (n_ID n, ws_message ''plan'' (n_ID n)
            (json_config e (fst (f n)) (listening n) (snd (f n)) (P n) (Q n) False ''ws plan push''))) ns"
  using assms
proof (induction ns arbitrary: c)
  case Nil
  then show ?case by simp
next
  case (Cons n ns)
  let ?c = "savePlanWithRules e n (P n) (Q n) c"
  obtain m cv where m: "diagIntervalSeconds e m = diagIntervalSeconds e (store c)"
    "sent ?c = sent c @ [(n_ID n, ws_message ''plan'' (n_ID n)
       (json_config e m (listening n) cv (P n) (Q n) False ''ws plan push''))]"
    using sent_savePlanWithRules [of n c e "P n" "Q n"] Cons.prems(2) by auto
  obtain f where f: "\<forall>n'\<in>set ns. diagIntervalSeconds e (fst (f n')) = diagIntervalSeconds e (store ?c)"
    "sent (fold (\<lambda>n. savePlanWithRules e n (P n) (Q n)) ns ?c) = sent ?c
        @ map (\<lambda>n. (n_ID n, ws_message ''plan'' (n_ID n)
            (json_config e (fst (f n)) (listening n) (snd (f n)) (P n) (Q n) False ''ws plan push''))) ns"
    using Cons.IH [of ?c] Cons.prems by auto
  have other: "(f(n := (m, cv))) n' = f n'" if "n' \<in> set ns" for n' using that Cons.prems(1) by auto
  show ?case
    using f m other by (intro exI [of _ "f(n := (m, cv))"]) simp
qed

lemma sent_recomputed:
  assumes "distinct (map n_ID (ListNodes (store c)))" and "n_ID ` set (ListNodes (store c)) \<subseteq> set (agents c)"
  shows "\<exists>f. (\<forall>n\<in>set (ListNodes (store c)). diagIntervalSeconds e (fst (f n)) = diagIntervalSeconds e (store c))
    \<and> sent (RecomputeAllPlans e c) = sent c @ map (\<lambda>n. (n_ID n, plan_message e c (f n) n)) (ListNodes (store c))"
proof -
  have "distinct (ListNodes (store c))" using assms(1) by (simp add: distinct_map)
  from sent_plans [OF this assms(2)] show ?thesis
    unfolding RecomputeAllPlans_def Let_def plan_message_def by simp
qed

text \<open>The messages of a list that are addressed to a node, taken in by its agent in order.\<close>

definition deliver :: "host \<Rightarrow> agent_context \<Rightarrow> string \<Rightarrow> (string \<times> jsval) list \<Rightarrow> agent \<Rightarrow> agent" where
  "deliver h cx k msgs = fold (agent_receive h cx) (map snd (filter (\<lambda>(i, _). i = k) msgs))"

lemma own_message:
  "distinct (map n_ID ns) \<Longrightarrow> n \<in> set ns \<Longrightarrow>
   filter (\<lambda>(i, _). i = n_ID n) (map (\<lambda>n. (n_ID n, f n)) ns) = [(n_ID n, f n)]"
proof (induction ns)
  case (Cons b ns)
  show ?case
  proof (cases "n = b")
    case True
    then have "\<forall>x\<in>set ns. n_ID x \<noteq> n_ID n" using Cons.prems(1) by (simp add: image_iff) metis
    then show ?thesis using True by (auto simp: filter_empty_conv)
  next
    case False
    then have "n \<in> set ns" "n_ID b \<noteq> n_ID n" using Cons.prems by auto
    then show ?thesis using Cons by simp
  qed
qed simp

lemma deliver_plan:
  assumes "distinct (map n_ID ns)" and "n \<in> set ns"
  shows "deliver h cx (n_ID n) (map (\<lambda>n. (n_ID n, f n)) ns) a = agent_receive h cx (f n) a"
  unfolding deliver_def own_message [OF assms] by simp

section \<open>From table to table\<close>

text \<open>The node the rules of \<open>k\<close> forward to is a peer of \<open>k\<close> with an overlay address.\<close>

definition reachable :: "node list \<Rightarrow> (string \<times> health_report) list \<Rightarrow> string \<Rightarrow> string \<Rightarrow> bool" where
  "reachable ns hm k k' \<longleftrightarrow> k' \<noteq> ''local'' \<and> k' \<noteq> ''main''
     \<and> (\<exists>m\<in>set ns. n_ID m = k' \<and> eligible k hm m \<and> n_OverlayIP m \<noteq> [])"

lemma planned_hop:
  assumes "distinct (map n_ID ns)" and "nc_PolicyRules cfg = slice_of (expandPolicyRules ns) k"
    and "nc_Peers cfg = BuildPeerPlan k ns hm"
    and "ready pfx (slice_of (expandPolicyRules ns) k) (BuildPeerPlan k ns hm) h cx a"
    and "next_hop (expandPolicyRules ns) pfx k = Some k'" and "reachable ns hm k k'"
  shows "\<exists>m\<in>set ns. n_ID m = k' \<and> n_OverlayIP m \<noteq> []
    \<and> route_of (ho_ip h) ''main'' pfx (as_kernel (snd (handlePlan h cx cl cfg (as_node a) a))) =
        Some \<lparr>rt_via = Some (host_of (n_OverlayIP m)), rt_dev = cx_iface cx\<rparr>"
proof -
  obtain m where m: "m \<in> set ns" "n_ID m = k'" "eligible k hm m" "n_OverlayIP m \<noteq> []"
    and k': "k' \<noteq> ''local''" "k' \<noteq> ''main''"
    using assms(6) unfolding reachable_def by blast
  have overlay: "overlayForPeer k' (BuildPeerPlan k ns hm) = n_OverlayIP m"
    using overlayForPeer_plan [OF assms(1) m(1,3,4)] m(2) by simp
  have "slice_of (expandPolicyRules ns) k \<noteq> []" using assms(5) next_hop_None [of "expandPolicyRules ns" pfx k] by auto
  then have ok: "writes_ok h cx" "routable h pfx (nc_PolicyRules cfg) (BuildPeerPlan k ns hm)"
    using assms(2,4) by (simp_all add: ready_def merged_rules_def)
  have "overlayForPeer k' (BuildPeerPlan k ns hm) \<noteq> []" using overlay m(4) by simp
  from plan_routes [OF assms(5) k' assms(2,3) this ok, of "''main''" cl "as_node a" a]
  show ?thesis using m(1,2,4) overlay by auto
qed

lemma carried_follow:
  assumes "distinct_overlays ns"
    and hops: "\<And>n. n \<in> set ns \<Longrightarrow> next_hop R pfx (n_ID n) = None \<Longrightarrow>
      route_of (t (n_ID n)) ''main'' pfx (ks (n_ID n)) = None"
      "\<And>n k'. n \<in> set ns \<Longrightarrow> next_hop R pfx (n_ID n) = Some k' \<Longrightarrow>
      \<exists>m\<in>set ns. n_ID m = k' \<and> n_OverlayIP m \<noteq> [] \<and> route_of (t (n_ID n)) ''main'' pfx (ks (n_ID n)) =
        Some \<lparr>rt_via = Some (host_of (n_OverlayIP m)), rt_dev = dev (n_ID n)\<rparr>"
    and "n \<in> set ns"
  shows "carried ns t ks pfx fuel (n_ID n) = follow R pfx fuel (n_ID n)"
  using assms(4)
proof (induction fuel arbitrary: n)
  case (Suc fuel)
  show ?case
  proof (cases "next_hop R pfx (n_ID n)")
    case None
    then show ?thesis using hops(1) [OF Suc.prems] by simp
  next
    case (Some k')
    obtain m where m: "m \<in> set ns" "n_ID m = k'" "n_OverlayIP m \<noteq> []"
      "route_of (t (n_ID n)) ''main'' pfx (ks (n_ID n)) =
        Some \<lparr>rt_via = Some (host_of (n_OverlayIP m)), rt_dev = dev (n_ID n)\<rparr>"
      using hops(2) [OF Suc.prems Some] by blast
    then show ?thesis using Some carrier_self [OF assms(1) m(1,3)] Suc.IH [OF m(1)] by simp
  qed
qed simp

section \<open>The property\<close>

lemma int64_listening: "int64 (n_ListenPort n) \<Longrightarrow> int64 (n_ListenPort (listening n))"
  by (simp add: listening_def int64_def)

lemma listening_ASN [simp]: "n_ASN (listening n) = n_ASN n" "n_ID (listening n) = n_ID n"
  by (simp_all add: listening_def)

lemma receive_plan_message:
  assumes "int64 (n_ListenPort n)" and "int64 (n_ASN n)" and "n_ID n \<noteq> []"
    and "diagIntervalSeconds e (fst mc) = diagIntervalSeconds e (store c)"
    and "int64 (diagIntervalSeconds e (store c))"
  obtains cfg where "agent_receive h cx (plan_message e c mc n) a = snd (handlePlan h cx False cfg (as_node a) a)"
    and "nc_PolicyRules cfg = slice_of (expandPolicyRules (ListNodes (store c))) (n_ID n)"
    and "nc_Peers cfg = BuildPeerPlan (n_ID n) (ListNodes (store c)) (health_map (ListHealth (store c)))"
  using assms int64_listening [OF assms(1)] plan_keepalive
  unfolding plan_message_def
  by (subst (asm) receive_pushed_plan) (auto simp: sent_config_def)

text \<open>C3. The mesh carries traffic as the controller planned: when the controller computes all
  plans anew and every agent takes in what it is sent, then from any node on the traffic for a
  prefix passes, by the routing tables of the agents' kernels, the same nodes it passes by the
  rules the controller distributes, and stops where these stop.  An agent that is sent a rule for
  the prefix may hold any rules and routes from before; one that is sent none must have no rule and
  no route for the prefix left from an earlier plan, and the prefix must not be a network of its peers
  or the default route (\<open>no_leftover\<close>).  The rules an agent then holds are plain networks, none of
  which but the prefix has its destination (\<open>ready\<close>).  Every node a rule forwards to must be a peer,
  with an overlay address, of the node that forwards (\<open>reachable\<close>), all agents must be connected,
  their files written and their commands run, and no two nodes may share an id or an overlay
  address.\<close>

theorem mesh_carries_as_planned:
  fixes c :: controller and hm :: "(string \<times> health_report) list"
  defines "ns \<equiv> ListNodes (store c)" and "hm \<equiv> health_map (ListHealth (store c))"
  assumes ids: "distinct (map n_ID ns)" and "distinct_overlays ns"
    and conn: "n_ID ` set ns \<subseteq> set (agents c)"
    and nodes: "\<forall>n\<in>set ns. n_ID n \<noteq> [] \<and> int64 (n_ListenPort n) \<and> int64 (n_ASN n)"
    and diag: "int64 (diagIntervalSeconds e (store c))"
    and ready: "\<forall>n\<in>set ns. ready pfx (slice_of (expandPolicyRules ns) (n_ID n)) (BuildPeerPlan (n_ID n) ns hm)
      (h (n_ID n)) (cx (n_ID n)) (a (n_ID n))"
    and ends: "\<forall>n\<in>set ns. next_hop (expandPolicyRules ns) pfx (n_ID n) = None \<longrightarrow>
      no_leftover pfx (slice_of (expandPolicyRules ns) (n_ID n)) (BuildPeerPlan (n_ID n) ns hm) (h (n_ID n)) (a (n_ID n))"
    and peers: "\<forall>n\<in>set ns. \<forall>k'. next_hop (expandPolicyRules ns) pfx (n_ID n) = Some k' \<longrightarrow> reachable ns hm (n_ID n) k'"
    and src: "src \<in> n_ID ` set ns"
  shows "let msgs = drop (length (sent c)) (sent (RecomputeAllPlans e c))
    in carried ns (\<lambda>k. ho_ip (h k)) (\<lambda>k. as_kernel (deliver (h k) (cx k) k msgs (a k))) pfx fuel src
       = follow (expandPolicyRules ns) pfx fuel src"
proof -
  let ?R = "expandPolicyRules ns" and ?msgs = "drop (length (sent c)) (sent (RecomputeAllPlans e c))"
  let ?k = "\<lambda>k. as_kernel (deliver (h k) (cx k) k ?msgs (a k))"
  obtain f where f: "\<forall>n\<in>set ns. diagIntervalSeconds e (fst (f n)) = diagIntervalSeconds e (store c)"
    and msgs: "?msgs = map (\<lambda>n. (n_ID n, plan_message e c (f n) n)) ns"
    using sent_recomputed [of c e] ids conn unfolding ns_def by auto
  have taken: "\<exists>cfg. ?k (n_ID n) = as_kernel (snd (handlePlan (h (n_ID n)) (cx (n_ID n)) False cfg (as_node (a (n_ID n))) (a (n_ID n))))
      \<and> nc_PolicyRules cfg = slice_of ?R (n_ID n) \<and> nc_Peers cfg = BuildPeerPlan (n_ID n) ns hm"
    if n: "n \<in> set ns" for n
  proof -
    have ok: "int64 (n_ListenPort n)" "int64 (n_ASN n)" "n_ID n \<noteq> []"
      "diagIntervalSeconds e (fst (f n)) = diagIntervalSeconds e (store c)"
      using nodes f n by auto
    obtain cfg where "agent_receive (h (n_ID n)) (cx (n_ID n)) (plan_message e c (f n) n) (a (n_ID n)) =
        snd (handlePlan (h (n_ID n)) (cx (n_ID n)) False cfg (as_node (a (n_ID n))) (a (n_ID n)))"
      "nc_PolicyRules cfg = slice_of ?R (n_ID n)" "nc_Peers cfg = BuildPeerPlan (n_ID n) ns hm"
      using receive_plan_message [OF ok diag] unfolding ns_def hm_def by metis
    then show ?thesis unfolding msgs deliver_plan [OF ids n] by auto
  qed
  obtain n where n: "n \<in> set ns" "src = n_ID n" using src by blast
  have "carried ns (\<lambda>k. ho_ip (h k)) ?k pfx fuel (n_ID n) = follow ?R pfx fuel (n_ID n)"
  proof (rule carried_follow [OF assms(4) _ _ n(1)])
    fix n assume n: "n \<in> set ns" and stop: "next_hop ?R pfx (n_ID n) = None"
    obtain cfg where cfg: "?k (n_ID n) = as_kernel (snd (handlePlan (h (n_ID n)) (cx (n_ID n)) False cfg (as_node (a (n_ID n))) (a (n_ID n))))"
      "nc_PolicyRules cfg = slice_of ?R (n_ID n)" "nc_Peers cfg = BuildPeerPlan (n_ID n) ns hm"
      using taken [OF n] by blast
    show "route_of (ho_ip (h (n_ID n))) ''main'' pfx (?k (n_ID n)) = None"
      unfolding cfg(1) using ready ends n stop by (intro unplanned_stays [OF _ _ cfg(2,3)]) blast+
  next
    fix n k' assume n: "n \<in> set ns" and hop: "next_hop ?R pfx (n_ID n) = Some k'"
    obtain cfg where cfg: "?k (n_ID n) = as_kernel (snd (handlePlan (h (n_ID n)) (cx (n_ID n)) False cfg (as_node (a (n_ID n))) (a (n_ID n))))"
      "nc_PolicyRules cfg = slice_of ?R (n_ID n)" "nc_Peers cfg = BuildPeerPlan (n_ID n) ns hm"
      using taken [OF n] by blast
    show "\<exists>m\<in>set ns. n_ID m = k' \<and> n_OverlayIP m \<noteq> [] \<and> route_of (ho_ip (h (n_ID n))) ''main'' pfx (?k (n_ID n)) =
        Some \<lparr>rt_via = Some (host_of (n_OverlayIP m)), rt_dev = cx_iface (cx (n_ID n))\<rparr>"
      unfolding cfg(1) using ready peers n hop by (intro planned_hop [OF ids cfg(2,3)]) blast+
  qed
  then show ?thesis using n(2) by (simp add: Let_def)
qed

text \<open>The two nodes of \<open>ex_pair\<close>, both connected.\<close>

definition ex_mesh :: controller where
  "ex_mesh = ex_ctl\<lparr>store := NewMemoryStore\<lparr>nodes := map (\<lambda>n. (n_ID n, n)) ex_pair\<rparr>, agents := [''n1'', ''n2'']\<rparr>"

definition ex_fresh :: agent where
  "ex_fresh = ex_agent\<lparr>as_node := node_zero\<rparr>"

lemma ex_mesh_simps:
  "ListNodes (store ex_mesh) = ex_pair" "ListHealth (store ex_mesh) = []" "agents ex_mesh = [''n1'', ''n2'']"
  "diagIntervalSeconds ex_env (store ex_mesh) = 3" "sent ex_mesh = []"
  by (simp_all add: ex_mesh_def ListNodes_def ListHealth_def NewMemoryStore_def diagIntervalSeconds_def
      loadSettingsOrDefault_def GetSettings_def default_settings_def ex_env_def ex_world_def comp_def Let_def)

lemma ex_pair_rules2: "slice_of (expandPolicyRules ex_pair) ''n2'' = []"
  by (simp add: ex_pair_def ex_rule_def ex_node_def node_zero_def slice_expandPolicyRules emitted_def rule_hops_def)

text \<open>The first node holds routes and settings from before, the second one is new.\<close>

definition ex_agents :: "string \<Rightarrow> agent" where
  "ex_agents k = (if k = ''n1'' then ex_agent else ex_fresh)"

lemma ex_ready:
  "n \<in> set ex_pair \<Longrightarrow> ready ''10.9.0.0/16'' (slice_of (expandPolicyRules ex_pair) (n_ID n))
     (BuildPeerPlan (n_ID n) ex_pair []) ex_host ex_cx (ex_agents (n_ID n))"
proof -
  assume "n \<in> set ex_pair"
  then consider "n_ID n = ''n1''" | "n_ID n = ''n2''" by (auto simp: ex_pair_def ex_node_def)
  moreover have "merged_rules (slice_of (expandPolicyRules ex_pair) ''n1'') a = slice_of (expandPolicyRules ex_pair) ''n1''" for a
    by (simp add: merged_rules_def ex_pair_rules)
  moreover have "routable ex_host ''10.9.0.0/16'' (slice_of (expandPolicyRules ex_pair) ''n1'') (BuildPeerPlan ''n1'' ex_pair [])"
    using ex_routable by (simp add: ex_config_def)
  moreover have "routable ex_host ''10.9.0.0/16'' (merged_rules [] (ex_agents ''n2'')) ps" for ps
    by (simp add: routable_def ex_host_def ex_ip_def merged_rules_def ex_agents_def ex_fresh_def node_zero_def)
  ultimately show ?thesis by cases (simp_all only: ready_def ex_writes_ok ex_pair_rules2 simp_thms)
qed

lemma ex_ends:
  assumes "n \<in> set ex_pair" and "next_hop (expandPolicyRules ex_pair) ''10.9.0.0/16'' (n_ID n) = None"
  shows "no_leftover ''10.9.0.0/16'' (slice_of (expandPolicyRules ex_pair) (n_ID n))
     (BuildPeerPlan (n_ID n) ex_pair []) ex_host (ex_agents (n_ID n))"
proof -
  have "n_ID n = ''n1'' \<or> n_ID n = ''n2''" using assms(1) by (auto simp: ex_pair_def ex_node_def)
  moreover have "n_ID n \<noteq> ''n1''" using assms(2) by (auto simp: next_hop_def ex_pair_rules ex_rule_def)
  ultimately have n2: "n_ID n = ''n2''" by blast
  have "ip_dst ex_ip ''10.9.0.0/16'' \<notin> ip_dst ex_ip ` set (desired_prefixes ex_net (BuildPeerPlan ''n2'' ex_pair []))"
    by (auto simp: desired_prefixes_set ex_ip_def set_BuildPeerPlan peer_of_def set_allowed_ips ex_pair_def
        ex_node_def node_zero_def)
  moreover have "ho_ip ex_host = ex_ip" "ho_net ex_host = ex_net" "ip_dst ex_ip ''10.9.0.0/16'' \<noteq> ip_dst ex_ip ''default''"
    "n_PolicyRules (as_node ex_fresh) = []" "route_of ex_ip ''main'' ''10.9.0.0/16'' (as_kernel ex_fresh) = None"
    by (simp_all add: ex_host_def ex_ip_def ex_fresh_def ex_agent_def node_zero_def route_of_def)
  ultimately show ?thesis
    by (simp add: no_leftover_def n2 ex_pair_rules2 merged_rules_def ex_agents_def)
qed

lemma ex_reachable:
  "n \<in> set ex_pair \<Longrightarrow> next_hop (expandPolicyRules ex_pair) ''10.9.0.0/16'' (n_ID n) = Some k' \<Longrightarrow>
   reachable ex_pair [] (n_ID n) k'"
  by (auto simp: ex_pair_def ex_rule_def ex_node_def node_zero_def slice_expandPolicyRules emitted_def rule_hops_def
      next_hop_def reachable_def eligible_def)

theorem mesh_carries_as_planned_witness:
  "carried ex_pair (\<lambda>k. ex_ip)
     (\<lambda>k. as_kernel (deliver ex_host ex_cx k (sent (RecomputeAllPlans ex_env ex_mesh)) (ex_agents k))) ''10.9.0.0/16'' 5 ''n1''
   = [''n1'', ''n2'']"
proof -
  have "follow (expandPolicyRules ex_pair) ''10.9.0.0/16'' 5 ''n1'' = [''n1'', ''n2'']"
    by (simp add: next_hop_def ex_pair_rules ex_pair_rules2 ex_rule_def eval_nat_numeral)
  moreover have "distinct (map n_ID ex_pair)" "distinct_overlays ex_pair" "n_ID ` set ex_pair = {''n1'', ''n2''}"
    "\<forall>n\<in>set ex_pair. n_ID n \<noteq> [] \<and> int64 (n_ListenPort n) \<and> int64 (n_ASN n)"
  proof -
    have "host_of ''10.10.2.1/32'' = ''10.10.2.1''" "host_of ''10.10.1.1/32'' = ''10.10.1.1''" by code_simp+
    then show "distinct_overlays ex_pair" by (simp add: distinct_overlays_def ex_pair_def)
  qed (auto simp: ex_pair_def ex_node_def node_zero_def int64_def)
  ultimately show ?thesis
    using mesh_carries_as_planned [of ex_mesh ex_env "''10.9.0.0/16''" "\<lambda>_. ex_host" "\<lambda>_. ex_cx" "ex_agents" "''n1''" 5]
      ex_ready ex_ends ex_reachable
    by (simp add: ex_mesh_simps health_map_def int64_def Let_def) (simp add: ex_host_def)
qed

end
