(* ===== verification/Go_Wait.thy ===== *)
theory Go_Wait
  imports Example
begin

text \<open>
  Waiting for a plan: \<open>waitForVersion\<close> of \<open>pkg/api/controller.go\<close>, and the plan route
  with it.  While the handler waits, other requests change the controller.
\<close>

section \<open>The loop\<close>

text \<open>
  \<open>clock i\<close> is the time at the \<open>i\<close>-th check of the loop and \<open>ver i\<close> the plan version
  found there; the result is the check at which the loop ends.
\<close>

partial_function (option) wait_loop :: "(nat \<Rightarrow> int) \<Rightarrow> (nat \<Rightarrow> int) \<Rightarrow> int \<Rightarrow> int \<Rightarrow> nat \<Rightarrow> nat option" where
  "wait_loop clock ver deadline target i =
     (if clock i < deadline then
        (if target < ver i then Some i else wait_loop clock ver deadline target (Suc i))
      else Some i)"

text \<open>\<open>strconv.ParseInt\<close> with its error ignored: 0, or the limit next to a number out of range.\<close>

definition parse_target :: "string \<Rightarrow> int" where
  "parse_target s =
     (let (neg, ds) = (case s of
            c # t \<Rightarrow> if c = CHR ''-'' then (True, t) else if c = CHR ''+'' then (False, t) else (False, s)
          | [] \<Rightarrow> (False, []));
          v = (if neg then - int (digits_val ds) else int (digits_val ds))
      in if \<not> all_digits ds then 0 else max (- (2 ^ 63)) (min v (2 ^ 63 - 1)))"

definition second :: int where
  "second = 1000000000"

definition waitForVersion :: "(nat \<Rightarrow> int) \<Rightarrow> (nat \<Rightarrow> int) \<Rightarrow> int \<Rightarrow> string \<Rightarrow> nat option" where
  "waitForVersion clock ver start waitStr =
     wait_loop clock ver (start + 20 * second) (parse_target waitStr) 0"

section \<open>The plan route\<close>

text \<open>\<open>start\<close> is the time the wait begins at, \<open>later i\<close> the state at the \<open>i\<close>-th check.\<close>

definition plan_poll ::
  "env \<Rightarrow> (nat \<Rightarrow> int) \<Rightarrow> (nat \<Rightarrow> env \<times> controller) \<Rightarrow> string \<Rightarrow> request \<Rightarrow> controller
    \<Rightarrow> (response \<times> controller) option" where
  "plan_poll e clock later q rq c =
     (let nodeID = query_get q ''nodeId''; waitStr = query_get q ''waitVersion''
      in if rq_method rq \<noteq> ''GET'' \<or> nodeID = []
           \<or> \<not> authFuncJWT e rq \<and> \<not> agentAuthorized (store c) nodeID (header ''X-Provision-Token'' rq)
           \<or> waitStr = []
         then Some (plan_route e q rq c)
         else (case waitForVersion clock (\<lambda>i. planVersion (snd (later i))) (e_now e) waitStr of
             None \<Rightarrow> None
           | Some i \<Rightarrow> Some (plan_answer (fst (later i)) nodeID (snd (later i)))))"

section \<open>The wait ends\<close>

text \<open>Every sleep takes at least half a second.\<close>

definition sleeping :: "int \<Rightarrow> (nat \<Rightarrow> int) \<Rightarrow> bool" where
  "sleeping start clock \<longleftrightarrow> start \<le> clock 0 \<and> (\<forall>i. clock i + second div 2 \<le> clock (Suc i))"

lemma clock_advances: "sleeping start clock \<Longrightarrow> start + int i * (second div 2) \<le> clock i"
proof (induction i)
  case (Suc i)
  then have "start + int i * (second div 2) \<le> clock i" "clock i + second div 2 \<le> clock (Suc i)"
    by (auto simp: sleeping_def)
  then show ?case by (simp add: algebra_simps)
qed (simp add: sleeping_def)

text \<open>
  The first check at which the version is larger than the target or the deadline has passed.
\<close>

definition stops :: "(nat \<Rightarrow> int) \<Rightarrow> (nat \<Rightarrow> int) \<Rightarrow> int \<Rightarrow> int \<Rightarrow> nat \<Rightarrow> bool" where
  "stops clock ver deadline target i \<longleftrightarrow> deadline \<le> clock i \<or> target < ver i"

lemma wait_loop_first:
  assumes "stops clock ver deadline target (i + d)" and "\<forall>j<d. \<not> stops clock ver deadline target (i + j)"
  shows "wait_loop clock ver deadline target i = Some (i + d)"
  using assms
proof (induction d arbitrary: i)
  case 0
  then show ?case by (subst wait_loop.simps) (auto simp: stops_def)
next
  case (Suc d)
  have "\<not> stops clock ver deadline target (i + 0)" using Suc.prems(2) by blast
  then have "wait_loop clock ver deadline target i = wait_loop clock ver deadline target (Suc i)"
    by (subst wait_loop.simps) (auto simp: stops_def)
  moreover have "\<forall>j<d. \<not> stops clock ver deadline target (Suc i + j)"
    using Suc.prems(2) by (metis Suc_less_eq add_Suc_right add_Suc)
  ultimately show ?case using Suc.IH [of "Suc i"] Suc.prems(1) by simp
qed

lemma stops_after_40:
  assumes "sleeping start clock"
  shows "stops clock ver (start + 20 * second) target 40"
proof -
  have "start + 40 * (second div 2) \<le> clock 40" using clock_advances [OF assms, of 40] by simp
  then show ?thesis unfolding stops_def second_def by simp
qed

lemma waitForVersion_Least:
  assumes "sleeping start clock"
  shows "waitForVersion clock ver start w =
    Some (LEAST i. stops clock ver (start + 20 * second) (parse_target w) i)"
proof -
  let ?stop = "stops clock ver (start + 20 * second) (parse_target w)"
  have "?stop (0 + (LEAST i. ?stop i))"
    unfolding add_0_left by (rule LeastI [of ?stop, OF stops_after_40 [OF assms]])
  moreover have "\<forall>j<LEAST i. ?stop i. \<not> ?stop (0 + j)"
    unfolding add_0_left using not_less_Least [of _ ?stop] by blast
  ultimately have "wait_loop clock ver (start + 20 * second) (parse_target w) 0 = Some (0 + (LEAST i. ?stop i))"
    by (rule wait_loop_first)
  then show ?thesis unfolding waitForVersion_def add_0_left .
qed

text \<open>C14. A long poll is always answered: a request for a plan that waits for a version, with a bearer
  token the controller accepts, ends after at most forty sleeps of half a second, with the plan of the first state in which the version is
  larger than the one named, or of the first state after twenty seconds; until then no version
  was larger.\<close>

theorem long_poll_ends:
  assumes "rq_method rq = ''GET''" and "query_get q ''nodeId'' = nid" and "nid \<noteq> []"
    and "query_get q ''waitVersion'' = w" and "w \<noteq> []" and "authFuncJWT e rq"
    and "sleeping (e_now e) clock"
  shows "\<exists>i\<le>40. plan_poll e clock later q rq c = Some (plan_answer (fst (later i)) nid (snd (later i)))
    \<and> (parse_target w < planVersion (snd (later i)) \<or> e_now e + 20 * second \<le> clock i)
    \<and> (\<forall>j<i. planVersion (snd (later j)) \<le> parse_target w \<and> clock j < e_now e + 20 * second)"
proof -
  let ?stop = "stops clock (\<lambda>i. planVersion (snd (later i))) (e_now e + 20 * second) (parse_target w)"
  let ?i = "LEAST i. ?stop i"
  have s40: "?stop 40" by (rule stops_after_40 [OF assms(7)])
  have "?stop ?i" using s40 by (rule LeastI)
  moreover have "?i \<le> 40" using s40 by (rule Least_le)
  moreover have "\<forall>j<?i. \<not> ?stop j" using not_less_Least [of _ ?stop] by blast
  moreover have "plan_poll e clock later q rq c = Some (plan_answer (fst (later ?i)) nid (snd (later ?i)))"
    using assms(1-6) unfolding plan_poll_def Let_def by (simp add: waitForVersion_Least [OF assms(7)])
  ultimately show ?thesis
    by (intro exI [of _ ?i]) (simp only: stops_def not_le not_less de_Morgan_disj, blast)
qed

text \<open>A version that comes late: at the third check of the loop.\<close>

theorem long_poll_ends_witness:
  "\<exists>i\<le>40. plan_poll ex_env (\<lambda>i. 1000000000000 + int i * second) (\<lambda>i. (ex_env, ex_ctl\<lparr>planVersion := int i\<rparr>))
      (setting ''nodeId'' ''n1'' @ ''&waitVersion=1'')
      \<lparr>rq_url = [], rq_method = ''GET'', rq_headers = ex_headers, rq_body = None\<rparr> ex_ctl
    = Some (plan_answer ex_env ''n1'' (ex_ctl\<lparr>planVersion := int i\<rparr>))"
proof -
  have q: "query_get (setting ''nodeId'' ''n1'' @ ''&waitVersion=1'') ''nodeId'' = ''n1''"
    "query_get (setting ''nodeId'' ''n1'' @ ''&waitVersion=1'') ''waitVersion'' = ''1''"
    by code_simp+
  have "sleeping (e_now ex_env) (\<lambda>i. 1000000000000 + int i * second)"
    by (simp add: sleeping_def ex_env_def second_def algebra_simps)
  from long_poll_ends [OF _ q(1) _ q(2) _ _ this, where c = ex_ctl
      and rq = "\<lparr>rq_url = [], rq_method = ''GET'', rq_headers = ex_headers, rq_body = None\<rparr>"
      and later = "\<lambda>i. (ex_env, ex_ctl\<lparr>planVersion := int i\<rparr>)"]
  show ?thesis using ex_jwt by simp blast
qed

end
