(* ===== verification/Go_Tunnels.thy ===== *)
theory Go_Tunnels
  imports Agent_Flow
begin

text \<open>
  The tunnels of an agent and the watcher that keeps them alive, \<open>pkg/agent/wstunnel.go\<close>:
  starting and stopping the processes of \<open>wstunnel\<close>, and restarting missing ones.
\<close>

section \<open>State\<close>

text \<open>
  A process that was started: what it runs, whether it still does, and its \<open>ProcessState\<close>,
  which \<open>os/exec\<close> only fills in when the program waits for the process.
\<close>

record process =
  pr_tunnel :: tunnel
  pr_alive :: bool
  pr_state :: "bool option"

record manager =
  tm_server :: "process option"
  tm_clients :: "(string \<times> process) list"
  tm_hostMap :: "(string \<times> int) list"
  tm_port :: int
  tm_watching :: bool

definition no_tunnels :: manager where
  "no_tunnels = \<lparr>tm_server = None, tm_clients = [], tm_hostMap = [], tm_port = 0, tm_watching = False\<rparr>"

definition started :: "tunnel \<Rightarrow> process" where
  "started t = \<lparr>pr_tunnel = t, pr_alive = True, pr_state = None\<rparr>"

section \<open>Operations\<close>

text \<open>All processes are killed and forgotten.\<close>

definition stopAllLocked :: "manager \<Rightarrow> manager" where
  "stopAllLocked m = m\<lparr>tm_watching := False, tm_clients := [], tm_server := None\<rparr>"

definition startServerLocked :: "host \<Rightarrow> int \<Rightarrow> manager \<Rightarrow> manager" where
  "startServerLocked h port m =
     (if ho_starts h (Server port) then m\<lparr>tm_server := Some (started (Server port))\<rparr> else m)"

definition startClientLocked :: "host \<Rightarrow> int \<Rightarrow> string \<times> int \<Rightarrow> manager \<Rightarrow> manager" where
  "startClientLocked h port hl m =
     (let t = Client (fst hl) (snd hl) port
      in if ho_starts h t then m\<lparr>tm_clients := AList.update (fst hl) (started t) (tm_clients m)\<rparr> else m)"

definition startWatcherLocked :: "manager \<Rightarrow> manager" where
  "startWatcherLocked m = (if tm_hostMap m = [] \<or> tm_port m = 0 then m else m\<lparr>tm_watching := True\<rparr>)"

definition start_tunnels :: "host \<Rightarrow> (string \<times> int) list \<Rightarrow> int \<Rightarrow> manager \<Rightarrow> manager" where
  "start_tunnels h hostToLocal port m =
     (if \<not> ho_wstunnel h then m
      else
        (let m1 = (stopAllLocked m)\<lparr>tm_hostMap := hostToLocal, tm_port := port\<rparr>;
             m2 = startServerLocked h port m1
         in startWatcherLocked (fold (startClientLocked h port) hostToLocal m2)))"

definition missing :: "process option \<Rightarrow> bool" where
  "missing p \<longleftrightarrow> (case p of None \<Rightarrow> True | Some q \<Rightarrow> pr_state q = Some True)"

definition ensureAlive :: "host \<Rightarrow> manager \<Rightarrow> manager" where
  "ensureAlive h m =
     (if \<not> ho_wstunnel h \<or> tm_port m = 0 then m
      else
        (let m1 = (if missing (tm_server m) then startServerLocked h (tm_port m) m else m)
         in fold (\<lambda>hl m'. if missing (map_of (tm_clients m') (fst hl))
                          then startClientLocked h (tm_port m) hl m' else m') (tm_hostMap m) m1))"

definition Shutdown :: "manager \<Rightarrow> manager" where
  "Shutdown m = stopAllLocked m"

section \<open>Events\<close>

text \<open>
  A plan starts the tunnels anew, the watcher ticks, a process ends by itself (nobody waits for
  it, so its \<open>ProcessState\<close> stays as it is), and the program shuts down.
\<close>

datatype tunnel_event =
    Start_tunnels host "(string \<times> int) list" int
  | Tick host
  | Exits tunnel
  | Shuts_down

definition exit_process :: "tunnel \<Rightarrow> process \<Rightarrow> process" where
  "exit_process t p = (if pr_tunnel p = t then p\<lparr>pr_alive := False\<rparr> else p)"

fun tunnel_step :: "manager \<Rightarrow> tunnel_event \<Rightarrow> manager" where
  "tunnel_step m (Start_tunnels h hostToLocal port) = start_tunnels h hostToLocal port m"
| "tunnel_step m (Tick h) = (if tm_watching m then ensureAlive h m else m)"
| "tunnel_step m (Exits t) = m\<lparr>tm_server := map_option (exit_process t) (tm_server m),
     tm_clients := map (map_prod (\<lambda>k. k) (exit_process t)) (tm_clients m)\<rparr>"
| "tunnel_step m Shuts_down = Shutdown m"

definition processes :: "manager \<Rightarrow> process set" where
  "processes m = set_option (tm_server m) \<union> snd ` set (tm_clients m)"

definition running :: "manager \<Rightarrow> tunnel set" where
  "running m = pr_tunnel ` {p \<in> processes m. pr_alive p}"

section \<open>Invariant\<close>

text \<open>
  The processes run the tunnels asked for, each host has its own entry, and no process has been
  waited for.
\<close>

definition tunnels_inv :: "manager \<Rightarrow> bool" where
  "tunnels_inv m \<longleftrightarrow> distinct (map fst (tm_clients m)) \<and> distinct (map fst (tm_hostMap m))
     \<and> (\<forall>p. tm_server m = Some p \<longrightarrow> pr_tunnel p = Server (tm_port m) \<and> pr_state p = None)
     \<and> (\<forall>(k, p)\<in>set (tm_clients m). pr_state p = None
          \<and> (\<exists>lp. (k, lp) \<in> set (tm_hostMap m) \<and> pr_tunnel p = Client k lp (tm_port m)))"

named_theorems tunnel_simps \<open>what the operations on tunnels leave alone\<close>

lemma started_simps [simp]: "pr_tunnel (started t) = t" "pr_alive (started t)" "pr_state (started t) = None"
  by (simp_all add: started_def)

lemma stop_simps [tunnel_simps]:
  "tm_server (stopAllLocked m) = None" "tm_clients (stopAllLocked m) = []"
  "tm_hostMap (stopAllLocked m) = tm_hostMap m" "tm_port (stopAllLocked m) = tm_port m"
  by (simp_all add: stopAllLocked_def)

lemma server_frame [tunnel_simps]:
  "tm_clients (startServerLocked h port m) = tm_clients m" "tm_hostMap (startServerLocked h port m) = tm_hostMap m"
  "tm_port (startServerLocked h port m) = tm_port m"
  by (simp_all add: startServerLocked_def)

lemma client_frame [tunnel_simps]:
  "tm_server (startClientLocked h port hl m) = tm_server m" "tm_hostMap (startClientLocked h port hl m) = tm_hostMap m"
  "tm_port (startClientLocked h port hl m) = tm_port m"
  by (simp_all add: startClientLocked_def Let_def)

lemma watcher_frame [tunnel_simps]:
  "tm_server (startWatcherLocked m) = tm_server m" "tm_clients (startWatcherLocked m) = tm_clients m"
  "tm_hostMap (startWatcherLocked m) = tm_hostMap m" "tm_port (startWatcherLocked m) = tm_port m"
  by (simp_all add: startWatcherLocked_def)

section \<open>Starting what is missing\<close>

abbreviation client_of :: "int \<Rightarrow> string \<times> int \<Rightarrow> tunnel" where
  "client_of port hl \<equiv> Client (fst hl) (snd hl) port"

text \<open>A client is started for each host without an entry; both loops come down to this.\<close>

definition start_missing :: "host \<Rightarrow> int \<Rightarrow> string \<times> int \<Rightarrow> manager \<Rightarrow> manager" where
  "start_missing h port hl m =
     (if fst hl \<in> fst ` set (tm_clients m) then m else startClientLocked h port hl m)"

lemma set_update_new: "k \<notin> fst ` set cs \<Longrightarrow> set (AList.update k p cs) = insert (k, p) (set cs)"
  by (induction cs) auto

lemma distinct_update_iff: "distinct (map fst (AList.update k p cs)) = distinct (map fst cs)"
  by (induction cs) (auto simp: update_keys)

lemma start_missing_frame [tunnel_simps]:
  "tm_server (start_missing h port hl m) = tm_server m" "tm_hostMap (start_missing h port hl m) = tm_hostMap m"
  "tm_port (start_missing h port hl m) = tm_port m"
  by (simp_all add: start_missing_def tunnel_simps)

lemma start_missing_clients:
  "set (tm_clients (start_missing h port hl m)) = set (tm_clients m) \<union>
     (if fst hl \<notin> fst ` set (tm_clients m) \<and> ho_starts h (client_of port hl)
      then {(fst hl, started (client_of port hl))} else {})"
  "distinct (map fst (tm_clients (start_missing h port hl m))) = distinct (map fst (tm_clients m))"
  by (auto simp: start_missing_def startClientLocked_def Let_def set_update_new distinct_update_iff)

definition new_clients :: "host \<Rightarrow> int \<Rightarrow> (string \<times> int) list \<Rightarrow> manager \<Rightarrow> (string \<times> process) set" where
  "new_clients h port hls m = (\<lambda>hl. (fst hl, started (client_of port hl))) `
     {hl \<in> set hls. fst hl \<notin> fst ` set (tm_clients m) \<and> ho_starts h (client_of port hl)}"

lemma Collect_Cons: "{y \<in> set (x # xs). P y} = (if P x then {x} else {}) \<union> {y \<in> set xs. P y}"
  by auto

lemma start_missing_fold:
  assumes "distinct (map fst hls)"
  shows "set (tm_clients (fold (start_missing h port) hls m)) = set (tm_clients m) \<union> new_clients h port hls m"
    and "distinct (map fst (tm_clients (fold (start_missing h port) hls m))) = distinct (map fst (tm_clients m))"
    and "tm_server (fold (start_missing h port) hls m) = tm_server m"
    and "tm_hostMap (fold (start_missing h port) hls m) = tm_hostMap m"
    and "tm_port (fold (start_missing h port) hls m) = tm_port m"
  using assms
proof (induction hls arbitrary: m)
  case (Cons hl hls)
  { case 1
    let ?m = "start_missing h port hl m"
    have "set (tm_clients (fold (start_missing h port) hls ?m)) = set (tm_clients ?m) \<union> new_clients h port hls ?m"
      using Cons.IH(1) 1 by simp
    moreover have "fst hl' \<notin> fst ` set (tm_clients ?m) \<longleftrightarrow> fst hl' \<notin> fst ` set (tm_clients m)" if "hl' \<in> set hls" for hl'
    proof -
      have "fst hl' \<noteq> fst hl" using that 1 by (metis distinct.simps(2) image_eqI list.set_map list.simps(9))
      then show ?thesis by (simp add: start_missing_clients(1) image_Un)
    qed
    then have "new_clients h port hls ?m = new_clients h port hls m" unfolding new_clients_def by (metis (no_types, lifting))
    moreover have "new_clients h port (hl # hls) m = new_clients h port hls m \<union>
        (if fst hl \<notin> fst ` set (tm_clients m) \<and> ho_starts h (client_of port hl)
         then {(fst hl, started (client_of port hl))} else {})"
      unfolding new_clients_def Collect_Cons by (simp add: image_Un Un_commute)
    ultimately show ?case by (simp add: start_missing_clients(1) Un_ac)
  next case 2 then show ?case using Cons.IH(2) by (simp add: start_missing_clients(2))
  next case 3 then show ?case using Cons.IH(3) by (simp add: tunnel_simps)
  next case 4 then show ?case using Cons.IH(4) by (simp add: tunnel_simps)
  next case 5 then show ?case using Cons.IH(5) by (simp add: tunnel_simps)
  }
qed (simp_all add: new_clients_def)

section \<open>The operations on the running tunnels\<close>

definition asked_for :: "host \<Rightarrow> manager \<Rightarrow> tunnel set" where
  "asked_for h m = {t \<in> set (tunnels_of (tm_hostMap m) (tm_port m)). ho_starts h t}"

lemma set_tunnels_of: "set (tunnels_of hls port) = insert (Server port) (client_of port ` set hls)"
  by (simp add: tunnels_of_def case_prod_beta)

lemma missing_None: "pr_state p = None \<Longrightarrow> \<not> missing (Some p)" "missing None"
  by (simp_all add: missing_def)

lemma tunnels_inv_init [simp]: "tunnels_inv no_tunnels"
  by (simp add: tunnels_inv_def no_tunnels_def)

text \<open>Under the invariant, the loop of the watcher starts the clients without an entry.\<close>

lemma ensure_loop:
  assumes "\<forall>p\<in>snd ` set (tm_clients m). pr_state p = None"
  shows "fold (\<lambda>hl m'. if missing (map_of (tm_clients m') (fst hl)) then startClientLocked h port hl m' else m') hls m
    = fold (start_missing h port) hls m"
  using assms
proof (induction hls arbitrary: m)
  case (Cons hl hls)
  have one: "(if missing (map_of (tm_clients m) (fst hl)) then startClientLocked h port hl m else m) = start_missing h port hl m"
  proof (cases "map_of (tm_clients m) (fst hl)")
    case None
    then have "fst hl \<notin> fst ` set (tm_clients m)" by (simp add: map_of_eq_None_iff)
    then show ?thesis unfolding None by (simp add: start_missing_def missing_None)
  next
    case (Some p)
    then have "(fst hl, p) \<in> set (tm_clients m)" by (rule map_of_SomeD)
    then show ?thesis using Some Cons.prems by (force simp: start_missing_def missing_None)
  qed
  have "\<forall>p\<in>snd ` set (tm_clients (start_missing h port hl m)). pr_state p = None"
    using Cons.prems by (auto simp: start_missing_clients(1))
  from Cons.IH [OF this] show ?case by (simp add: one)
qed simp

text \<open>The loop of a start, which begins without clients, does the same.\<close>

lemma start_loop:
  assumes "distinct (map fst hls)" and "fst ` set hls \<inter> fst ` set (tm_clients m) = {}"
  shows "fold (startClientLocked h port) hls m = fold (start_missing h port) hls m"
  using assms
proof (induction hls arbitrary: m)
  case (Cons hl hls)
  have "startClientLocked h port hl m = start_missing h port hl m"
    using Cons.prems(2) by (auto simp: start_missing_def)
  moreover have "fst ` set hls \<inter> fst ` set (tm_clients (start_missing h port hl m)) = {}"
    using Cons.prems by (auto simp: start_missing_clients(1))
  ultimately show ?case using Cons.IH Cons.prems(1) by simp
qed simp

lemma new_clients_inv:
  "(k, p) \<in> new_clients h port hls m \<Longrightarrow>
   pr_state p = None \<and> pr_alive p \<and> (\<exists>lp. (k, lp) \<in> set hls \<and> pr_tunnel p = Client k lp port)"
  by (auto simp: new_clients_def)

lemma ensure_parts:
  assumes "tunnels_inv m" and "ho_wstunnel h" and "tm_port m \<noteq> 0"
  shows "tm_server (ensureAlive h m) = (if tm_server m = None \<and> ho_starts h (Server (tm_port m))
      then Some (started (Server (tm_port m))) else tm_server m)"
    and "set (tm_clients (ensureAlive h m)) = set (tm_clients m) \<union> new_clients h (tm_port m) (tm_hostMap m) m"
    and "distinct (map fst (tm_clients (ensureAlive h m)))"
    and "tm_hostMap (ensureAlive h m) = tm_hostMap m" and "tm_port (ensureAlive h m) = tm_port m"
proof -
  let ?m = "if missing (tm_server m) then startServerLocked h (tm_port m) m else m"
  have hosts: "distinct (map fst (tm_hostMap m))" and keys: "distinct (map fst (tm_clients m))"
    and state: "\<forall>p\<in>snd ` set (tm_clients m). pr_state p = None"
    and server: "\<forall>p. tm_server m = Some p \<longrightarrow> pr_state p = None"
    using assms(1) by (auto simp: tunnels_inv_def)
  have m: "tm_clients ?m = tm_clients m" "tm_hostMap ?m = tm_hostMap m" "tm_port ?m = tm_port m"
    by (simp_all add: tunnel_simps)
  have eq: "ensureAlive h m = fold (start_missing h (tm_port m)) (tm_hostMap m) ?m"
    using assms(2,3) ensure_loop [of ?m h "tm_port m" "tm_hostMap m"] state m(1) by (simp add: ensureAlive_def Let_def)
  note F = start_missing_fold [OF hosts, of h "tm_port m" ?m]
  have srv: "tm_server ?m = (if tm_server m = None \<and> ho_starts h (Server (tm_port m))
      then Some (started (Server (tm_port m))) else tm_server m)"
    using server by (cases "tm_server m") (auto simp: missing_None startServerLocked_def)
  show "tm_server (ensureAlive h m) = (if tm_server m = None \<and> ho_starts h (Server (tm_port m))
      then Some (started (Server (tm_port m))) else tm_server m)"
    unfolding eq F(3) by (rule srv)
  show "set (tm_clients (ensureAlive h m)) = set (tm_clients m) \<union> new_clients h (tm_port m) (tm_hostMap m) m"
    unfolding eq F(1) by (simp add: m(1) new_clients_def)
  show "distinct (map fst (tm_clients (ensureAlive h m)))" unfolding eq F(2) m(1) by (rule keys)
  show "tm_hostMap (ensureAlive h m) = tm_hostMap m" "tm_port (ensureAlive h m) = tm_port m"
    unfolding eq F(4,5) by (simp_all add: m)
qed

lemma ensure_inv:
  assumes "tunnels_inv m"
  shows "tunnels_inv (ensureAlive h m)"
proof (cases "ho_wstunnel h \<and> tm_port m \<noteq> 0")
  case True
  then have P: "ho_wstunnel h" "tm_port m \<noteq> 0" by simp_all
  note E = ensure_parts [OF assms P]
  have "pr_state p = None \<and> (\<exists>lp. (k, lp) \<in> set (tm_hostMap m) \<and> pr_tunnel p = Client k lp (tm_port m))"
    if "(k, p) \<in> set (tm_clients (ensureAlive h m))" for k p
    using that assms new_clients_inv unfolding E(2) tunnels_inv_def by blast
  moreover have "pr_tunnel p = Server (tm_port m) \<and> pr_state p = None" if "tm_server (ensureAlive h m) = Some p" for p
    using that assms unfolding E(1) tunnels_inv_def by (auto split: if_splits)
  ultimately show ?thesis using E(3-5) assms unfolding tunnels_inv_def by auto
qed (use assms in \<open>auto simp: ensureAlive_def\<close>)

lemma start_parts:
  assumes "ho_wstunnel h" and "distinct (map fst hls)"
  shows "tm_server (start_tunnels h hls port m) = (if ho_starts h (Server port) then Some (started (Server port)) else None)"
    and "set (tm_clients (start_tunnels h hls port m)) =
      (\<lambda>hl. (fst hl, started (client_of port hl))) ` {hl \<in> set hls. ho_starts h (client_of port hl)}"
    and "distinct (map fst (tm_clients (start_tunnels h hls port m)))"
    and "tm_hostMap (start_tunnels h hls port m) = hls" and "tm_port (start_tunnels h hls port m) = port"
proof -
  let ?m = "startServerLocked h port ((stopAllLocked m)\<lparr>tm_hostMap := hls, tm_port := port\<rparr>)"
  have m: "tm_clients ?m = []" "tm_hostMap ?m = hls" "tm_port ?m = port"
    by (simp_all add: tunnel_simps)
  have eq: "start_tunnels h hls port m = startWatcherLocked (fold (start_missing h port) hls ?m)"
    using assms(1) start_loop [OF assms(2), of ?m h port] m(1) by (simp add: start_tunnels_def Let_def)
  note F = start_missing_fold [OF assms(2), of h port ?m]
  show "tm_server (start_tunnels h hls port m) = (if ho_starts h (Server port) then Some (started (Server port)) else None)"
    unfolding eq watcher_frame F(3) by (simp add: startServerLocked_def tunnel_simps)
  show "set (tm_clients (start_tunnels h hls port m)) =
      (\<lambda>hl. (fst hl, started (client_of port hl))) ` {hl \<in> set hls. ho_starts h (client_of port hl)}"
    unfolding eq watcher_frame F(1) by (simp add: m(1) new_clients_def)
  show "distinct (map fst (tm_clients (start_tunnels h hls port m)))" unfolding eq watcher_frame F(2) by (simp add: m(1))
  show "tm_hostMap (start_tunnels h hls port m) = hls" "tm_port (start_tunnels h hls port m) = port"
    unfolding eq watcher_frame F(4,5) by (simp_all add: m)
qed

lemma start_inv:
  assumes "tunnels_inv m" and "distinct (map fst hls)"
  shows "tunnels_inv (start_tunnels h hls port m)"
proof (cases "ho_wstunnel h")
  case True
  note S = start_parts [OF True assms(2), of port m]
  show ?thesis unfolding tunnels_inv_def S(4,5) using S(1-3) assms(2) by auto
qed (use assms(1) in \<open>simp add: start_tunnels_def\<close>)

lemma exit_process_simps [simp]: "pr_tunnel (exit_process t p) = pr_tunnel p" "pr_state (exit_process t p) = pr_state p"
  by (simp_all add: exit_process_def)

lemma exit_inv: "tunnels_inv m \<Longrightarrow> tunnels_inv (tunnel_step m (Exits t))"
  by (auto simp: tunnels_inv_def comp_def)

fun good_event :: "tunnel_event \<Rightarrow> bool" where
  "good_event (Start_tunnels h hls port) = distinct (map fst hls)"
| "good_event _ = True"

lemma tunnel_step_inv: "tunnels_inv m \<Longrightarrow> good_event ev \<Longrightarrow> tunnels_inv (tunnel_step m ev)"
proof (cases ev)
  case Shuts_down
  then show "tunnels_inv m \<Longrightarrow> ?thesis" by (simp add: tunnels_inv_def Shutdown_def tunnel_simps)
qed (use start_inv ensure_inv exit_inv in auto)

lemma tunnel_run_inv: "tunnels_inv m \<Longrightarrow> list_all good_event evs \<Longrightarrow> tunnels_inv (foldl tunnel_step m evs)"
  by (induction evs arbitrary: m) (simp_all add: tunnel_step_inv)

text \<open>The tunnels of a start are those of \<open>Go_Agent.startAll\<close>.\<close>

lemma running_start:
  assumes "ho_wstunnel h" and "distinct (map fst hls)"
  shows "running (start_tunnels h hls port m) = set (as_tunnels (startAll h hls port a))"
proof -
  note S = start_parts [OF assms, of port m]
  have "set_option (tm_server (start_tunnels h hls port m)) = started ` {t. t = Server port \<and> ho_starts h t}"
    unfolding S(1) by auto
  then have "processes (start_tunnels h hls port m) = started ` {t \<in> set (tunnels_of hls port). ho_starts h t}"
    unfolding processes_def S(2) set_tunnels_of by (auto simp: image_image)
  then show ?thesis using assms(1) by (force simp: running_def startAll_def)
qed

lemma registered:
  assumes "tunnels_inv m" and "t \<in> set (tunnels_of (tm_hostMap m) (tm_port m))"
  shows "t \<in> pr_tunnel ` processes m \<longleftrightarrow>
    (case t of Server _ \<Rightarrow> tm_server m \<noteq> None | Client k _ _ \<Rightarrow> k \<in> fst ` set (tm_clients m))"
proof -
  have own: "\<exists>lp'. (k', lp') \<in> set (tm_hostMap m) \<and> pr_tunnel p = Client k' lp' (tm_port m)"
    if "(k', p) \<in> set (tm_clients m)" for k' p
    using that assms(1) unfolding tunnels_inv_def by blast
  have srv: "pr_tunnel p = Server (tm_port m)" if "tm_server m = Some p" for p
    using that assms(1) unfolding tunnels_inv_def by blast
  have split: "x \<in> processes m \<longleftrightarrow> tm_server m = Some x \<or> (\<exists>k. (k, x) \<in> set (tm_clients m))" for x
    unfolding processes_def by (cases "tm_server m") force+
  show ?thesis
  proof (cases t)
    case (Server p)
    have "t \<in> pr_tunnel ` processes m \<longleftrightarrow> tm_server m \<noteq> None"
    proof
      assume "t \<in> pr_tunnel ` processes m"
      then obtain x where "x \<in> processes m" "pr_tunnel x = Server p" using Server by auto
      then show "tm_server m \<noteq> None" unfolding split using own by fastforce
    next
      assume "tm_server m \<noteq> None"
      then obtain x where x: "tm_server m = Some x" by blast
      moreover have "p = tm_port m" using assms(2) Server by (auto simp: set_tunnels_of)
      ultimately have "pr_tunnel x = t" "x \<in> processes m" using srv Server by (auto simp: split)
      then show "t \<in> pr_tunnel ` processes m" by blast
    qed
    then show ?thesis using Server by simp
  next
    case (Client k lp port)
    have hl: "(k, lp) \<in> set (tm_hostMap m)" "port = tm_port m"
      using assms(2) Client by (auto simp: set_tunnels_of)
    have uniq: "lp' = lp" if "(k, lp') \<in> set (tm_hostMap m)" for lp'
      using that hl(1) assms(1) unfolding tunnels_inv_def by (metis map_of_is_SomeI option.inject)
    have "t \<in> pr_tunnel ` processes m \<longleftrightarrow> k \<in> fst ` set (tm_clients m)"
    proof
      assume "t \<in> pr_tunnel ` processes m"
      then obtain x where x: "x \<in> processes m" "pr_tunnel x = Client k lp port" using Client by auto
      then obtain k' where k': "(k', x) \<in> set (tm_clients m)" unfolding split using srv by fastforce
      from own [OF this] have "k' = k" using x(2) by auto
      then show "k \<in> fst ` set (tm_clients m)" using k' by force
    next
      assume "k \<in> fst ` set (tm_clients m)"
      then obtain x where x: "(k, x) \<in> set (tm_clients m)" by auto
      obtain lp' where "(k, lp') \<in> set (tm_hostMap m)" "pr_tunnel x = Client k lp' (tm_port m)" using own [OF x] by blast
      then have "pr_tunnel x = t" using uniq hl(2) Client by blast
      then show "t \<in> pr_tunnel ` processes m" using x split by blast
    qed
    then show ?thesis using Client by simp
  qed
qed

section \<open>What a tick does\<close>

definition unstarted :: "host \<Rightarrow> manager \<Rightarrow> tunnel set" where
  "unstarted h m = {t \<in> asked_for h m. t \<notin> pr_tunnel ` processes m}"

lemma Collect_insert_image: "{y \<in> insert b (f ` H). P y} = {y. y = b \<and> P y} \<union> f ` {x \<in> H. P (f x)}"
  by auto

lemma unstarted_parts:
  assumes "tunnels_inv m"
  shows "unstarted h m = {t. t = Server (tm_port m) \<and> tm_server m = None \<and> ho_starts h t} \<union>
    client_of (tm_port m) ` {hl \<in> set (tm_hostMap m). fst hl \<notin> fst ` set (tm_clients m) \<and> ho_starts h (client_of (tm_port m) hl)}"
proof -
  have "t \<in> unstarted h m \<longleftrightarrow> t \<in> set (tunnels_of (tm_hostMap m) (tm_port m)) \<and> ho_starts h t
      \<and> (case t of Server _ \<Rightarrow> tm_server m = None | Client k _ _ \<Rightarrow> k \<notin> fst ` set (tm_clients m))" for t
  proof (cases "t \<in> set (tunnels_of (tm_hostMap m) (tm_port m))")
    case True
    show ?thesis
      by (cases t rule: tunnel.exhaust) (use registered [OF assms True] True in \<open>simp_all add: unstarted_def asked_for_def\<close>)
  qed (simp add: unstarted_def asked_for_def)
  then have "unstarted h m = {t \<in> insert (Server (tm_port m)) (client_of (tm_port m) ` set (tm_hostMap m)). ho_starts h t
      \<and> (case t of Server _ \<Rightarrow> tm_server m = None | Client k _ _ \<Rightarrow> k \<notin> fst ` set (tm_clients m))}"
    unfolding set_tunnels_of by (intro set_eqI) (simp only: mem_Collect_eq)
  also have "\<dots> = {t. t = Server (tm_port m) \<and> ho_starts h t \<and> tm_server m = None} \<union>
      client_of (tm_port m) ` {hl \<in> set (tm_hostMap m). ho_starts h (client_of (tm_port m) hl) \<and> fst hl \<notin> fst ` set (tm_clients m)}"
    unfolding Collect_insert_image by (rule arg_cong2 [where f = "(\<union>)"]) auto
  finally show ?thesis by (simp only: conj_commute conj_left_commute)
qed

lemma server_option:
  "set_option (if s = None \<and> ho_starts h v then Some (started v) else s) =
     set_option s \<union> started ` {t. t = v \<and> s = None \<and> ho_starts h t}"
  by (cases s) auto

lemma processes_tick:
  assumes "tunnels_inv m" and "ho_wstunnel h" and "tm_port m \<noteq> 0"
  shows "processes (ensureAlive h m) = processes m \<union> started ` unstarted h m"
proof -
  note E = ensure_parts [OF assms]
  have "set_option (tm_server (ensureAlive h m)) = set_option (tm_server m) \<union>
      started ` {t. t = Server (tm_port m) \<and> tm_server m = None \<and> ho_starts h t}"
    unfolding E(1) by (rule server_option)
  moreover have "snd ` set (tm_clients (ensureAlive h m)) = snd ` set (tm_clients m) \<union>
      started ` client_of (tm_port m) ` {hl \<in> set (tm_hostMap m). fst hl \<notin> fst ` set (tm_clients m) \<and> ho_starts h (client_of (tm_port m) hl)}"
    unfolding E(2) new_clients_def by (simp add: image_Un image_image)
  ultimately show ?thesis unfolding processes_def unstarted_parts [OF assms(1)] image_Un by (simp only: Un_ac)
qed

lemma running_tick:
  assumes "tunnels_inv m" and "ho_wstunnel h" and "tm_port m \<noteq> 0"
  shows "running (ensureAlive h m) = running m \<union> unstarted h m"
proof -
  have "{p \<in> processes m \<union> started ` U. pr_alive p} = {p \<in> processes m. pr_alive p} \<union> started ` U" for U
    by auto
  then show ?thesis unfolding running_def processes_tick [OF assms] by (simp add: image_Un image_image)
qed

fun quiet :: "tunnel_event \<Rightarrow> bool" where
  "quiet (Tick h) = True"
| "quiet (Exits t) = True"
| "quiet _ = False"

lemma quiet_step:
  assumes "tunnels_inv m" and "quiet ev"
  shows "tunnels_inv (tunnel_step m ev)" and "pr_tunnel ` processes m \<subseteq> pr_tunnel ` processes (tunnel_step m ev)"
    and "running (tunnel_step m ev) \<subseteq> running m \<union> - pr_tunnel ` processes m"
proof -
  show "tunnels_inv (tunnel_step m ev)" using assms by (cases ev) (use ensure_inv exit_inv in auto)
  have tick: "processes (ensureAlive h m) = processes m \<or> processes (ensureAlive h m) = processes m \<union> started ` unstarted h m" for h
    using processes_tick [OF assms(1)] by (cases "ho_wstunnel h \<and> tm_port m \<noteq> 0") (auto simp: ensureAlive_def)
  have tick_run: "running (ensureAlive h m) \<subseteq> running m \<union> - pr_tunnel ` processes m" for h
    using running_tick [OF assms(1)] by (cases "ho_wstunnel h \<and> tm_port m \<noteq> 0") (auto simp: ensureAlive_def unstarted_def)
  have exits: "processes (tunnel_step m (Exits t)) = exit_process t ` processes m" for t
    unfolding processes_def by (cases "tm_server m") (force simp: image_Un image_image)+
  show "pr_tunnel ` processes m \<subseteq> pr_tunnel ` processes (tunnel_step m ev)"
  proof (cases ev)
    case (Tick h)
    then show ?thesis using tick [of h] by auto
  next
    case (Exits t)
    then show ?thesis unfolding Exits exits by (simp add: image_image)
  qed (use assms(2) in simp_all)
  show "running (tunnel_step m ev) \<subseteq> running m \<union> - pr_tunnel ` processes m"
  proof (cases ev)
    case (Tick h)
    then show ?thesis using tick_run [of h] by simp
  next
    case (Exits t)
    have "running (tunnel_step m (Exits t)) \<subseteq> running m"
      unfolding running_def exits by (auto simp: exit_process_def split: if_splits)
    then show ?thesis using Exits by blast
  qed (use assms(2) in simp_all)
qed

lemma quiet_run:
  assumes "tunnels_inv m" and "t \<in> pr_tunnel ` processes m" and "t \<notin> running m" and "list_all quiet evs"
  shows "t \<notin> running (foldl tunnel_step m evs)"
  using assms
proof (induction evs arbitrary: m)
  case (Cons ev evs)
  note Q = quiet_step [OF Cons.prems(1), of ev]
  show ?case using Cons.IH [of "tunnel_step m ev"] Q Cons.prems by auto
qed simp

text \<open>C13. The watcher starts what never ran and nothing else: in every state the tunnels can be in, a
  tick leaves the running tunnels alone and adds those that were asked for, have no process yet
  and can be started.  A tunnel whose process has ended is not among them, and no number of ticks
  brings it back; only the next plan does, because nothing ever waits for a process and so
  its \<open>ProcessState\<close> stays empty.\<close>

theorem watcher_spec:
  assumes "m = foldl tunnel_step no_tunnels evs" and "list_all good_event evs"
    and "ho_wstunnel h" and "tm_port m \<noteq> 0"
  shows "running (ensureAlive h m) =
      running m \<union> {t \<in> set (tunnels_of (tm_hostMap m) (tm_port m)). ho_starts h t \<and> t \<notin> pr_tunnel ` processes m}
    \<and> (list_all quiet later \<and> t \<in> pr_tunnel ` processes m \<and> t \<notin> running m
        \<longrightarrow> t \<notin> running (foldl tunnel_step m later))"
proof -
  have inv: "tunnels_inv m" unfolding assms(1) by (rule tunnel_run_inv [OF tunnels_inv_init assms(2)])
  show ?thesis
    using running_tick [OF inv assms(3,4)] quiet_run [OF inv, of t later] by (auto simp: unstarted_def asked_for_def)
qed

text \<open>Two hosts, the tunnel to one of which ends.\<close>

theorem watcher_spec_witness:
  "let m = foldl tunnel_step no_tunnels [Start_tunnels ex_host [(''a'', 30000), (''b'', 30001)] 8082, Exits (Client ''a'' 30000 8082)]
   in Client ''b'' 30001 8082 \<in> running (ensureAlive ex_host m)
      \<and> Client ''a'' 30000 8082 \<notin> running (foldl tunnel_step m [Tick ex_host, Tick ex_host])"
proof -
  let ?evs = "[Start_tunnels ex_host [(''a'', 30000), (''b'', 30001)] 8082, Exits (Client ''a'' 30000 8082)]"
  let ?m = "foldl tunnel_step no_tunnels ?evs"
  have h: "ho_wstunnel ex_host" "\<And>t. ho_starts ex_host t" by (simp_all add: ex_host_def)
  have m: "tm_server ?m = Some (started (Server 8082))" "tm_port ?m = 8082"
    "tm_clients ?m = [(''a'', (started (Client ''a'' 30000 8082))\<lparr>pr_alive := False\<rparr>), (''b'', started (Client ''b'' 30001 8082))]"
    by (simp_all add: start_tunnels_def startServerLocked_def startClientLocked_def h Let_def startWatcherLocked_def
        stopAllLocked_def exit_process_def no_tunnels_def)
  have "started (Client ''b'' 30001 8082) \<in> {p \<in> processes ?m. pr_alive p}" unfolding processes_def m by simp
  then have "Client ''b'' 30001 8082 \<in> running ?m" unfolding running_def by (rule rev_image_eqI) simp
  moreover have "Client ''a'' 30000 8082 \<notin> running ?m"
    "Client ''a'' 30000 8082 \<in> pr_tunnel ` processes ?m"
    unfolding running_def processes_def m by auto
  ultimately show ?thesis
    using watcher_spec [of ?m ?evs ex_host "[Tick ex_host, Tick ex_host]" "Client ''a'' 30000 8082"] h m(2)
    unfolding Let_def by simp
qed

end
