(* ===== verification/Go_Consul.thy ===== *)
theory Go_Consul
  imports Agent_Wire
begin

text \<open>
  The second store of the controller, \<open>pkg/consul/store_consul.go\<close>: every record is the JSON
  text under a key of Consul's key-value store.  The client of Consul is a library, so its
  operations are parameters; a stored text is the JSON value it stands for.  The error of an
  operation is the left side of a sum.
\<close>

section \<open>The client\<close>

text \<open>
  Whether there is a client; \<open>Get\<close> (an error or the value, if any), \<open>Put\<close>, \<open>CAS\<close> with the
  index the pair is expected at (whether it was written), \<open>List\<close> of the pairs whose key has a
  prefix, and \<open>Delete\<close>, on the state of the service.
\<close>

record 's consul =
  kv_ready :: bool
  kv_get :: "string \<Rightarrow> 's \<Rightarrow> string + jsval option"
  kv_put :: "string \<Rightarrow> jsval \<Rightarrow> 's \<Rightarrow> string option \<times> 's"
  kv_cas :: "string \<Rightarrow> jsval \<Rightarrow> int \<Rightarrow> 's \<Rightarrow> (string + bool) \<times> 's"
  kv_list :: "string \<Rightarrow> 's \<Rightarrow> string + (string \<times> jsval) list"
  kv_delete :: "string \<Rightarrow> 's \<Rightarrow> 's"

definition not_configured :: string where
  "not_configured = ''consul client not configured''"

text \<open>An error of \<open>json.Unmarshal\<close>.\<close>

definition bad_json :: string where
  "bad_json = ''json''"

definition nodePrefix :: string where "nodePrefix = ''peer-wan/nodes/''"
definition healthPrefix :: string where "healthPrefix = ''peer-wan/health/''"
definition healthHistPrefix :: string where "healthHistPrefix = ''peer-wan/health-history/''"
definition policyStatusPref :: string where "policyStatusPref = ''peer-wan/policy-status/''"
definition policyDiagPref :: string where "policyDiagPref = ''peer-wan/policy-diag/''"
definition taskPref :: string where "taskPref = ''peer-wan/tasks/''"
definition auditPrefix :: string where "auditPrefix = ''peer-wan/audit/''"
definition planPrefix :: string where "planPrefix = ''peer-wan/plan/''"
definition versionKey :: string where "versionKey = ''peer-wan/plan/version''"
definition settingsKey :: string where "settingsKey = ''peer-wan/settings''"

definition unix_nano :: "int \<Rightarrow> string" where
  "unix_nano t = show_int (t - unix_epoch)"

text \<open>\<open>Put\<close> under a key, the value of a key decoded, and the list of what decodes.\<close>

definition put_value :: "'s consul \<Rightarrow> string \<Rightarrow> jsval \<Rightarrow> 's \<Rightarrow> string option \<times> 's" where
  "put_value k key v s = (if \<not> kv_ready k then (Some not_configured, s) else kv_put k key v s)"

definition get_value :: "'s consul \<Rightarrow> (jsval \<Rightarrow> 'a option) \<Rightarrow> string \<Rightarrow> 's \<Rightarrow> string + 'a option" where
  "get_value k f key s =
     (if \<not> kv_ready k then Inl not_configured
      else (case kv_get k key s of
          Inl err \<Rightarrow> Inl err
        | Inr None \<Rightarrow> Inr None
        | Inr (Some v) \<Rightarrow> (case f v of None \<Rightarrow> Inl bad_json | Some x \<Rightarrow> Inr (Some x))))"

definition list_values :: "'s consul \<Rightarrow> (jsval \<Rightarrow> 'a option) \<Rightarrow> string \<Rightarrow> 's \<Rightarrow> string + 'a list" where
  "list_values k f pfx s =
     (if \<not> kv_ready k then Inl not_configured
      else map_sum (\<lambda>err. err) (\<lambda>ps. List.map_filter (\<lambda>(_, v). f v) ps) (kv_list k pfx s))"

text \<open>The last entries of a list, all for a limit of 0 or less.\<close>

definition last_items :: "int \<Rightarrow> 'a list \<Rightarrow> 'a list" where
  "last_items limit out =
     (if 0 < limit \<and> limit < int (length out) then drop (length out - nat limit) out else out)"

section \<open>Nodes\<close>

text \<open>A node is stored with its private key and its provision token.\<close>

definition json_node_record :: "node \<Rightarrow> jsval" where
  "json_node_record n =
     (case json_node n of
        Obj ps \<Rightarrow> Obj (ps @ omit_str ''privateKey'' (n_PrivateKey n) @ omit_str ''provisionToken'' (n_ProvisionToken n))
      | v \<Rightarrow> v)"

definition go_node_record :: "jsval \<Rightarrow> node option" where
  "go_node_record v = do {
     ps \<leftarrow> go_obj v;
     nid \<leftarrow> go_str (js_lookup ''id'' ps);
     pub \<leftarrow> go_str (js_lookup ''publicKey'' ps);
     eps \<leftarrow> go_list go_str (js_lookup ''endpoints'' ps);
     cidrs \<leftarrow> go_list go_str (js_lookup ''cidrs'' ps);
     cv \<leftarrow> go_str (js_lookup ''configVersion'' ps);
     ver \<leftarrow> go_str (js_lookup ''version'' ps);
     port \<leftarrow> go_int (js_lookup ''listenPort'' ps);
     overlay \<leftarrow> go_str (js_lookup ''overlayIp'' ps);
     asn \<leftarrow> go_int (js_lookup ''asn'' ps);
     rid \<leftarrow> go_str (js_lookup ''routerId'' ps);
     egress \<leftarrow> go_str (js_lookup ''egressPeerId'' ps);
     rules \<leftarrow> go_list go_rule (js_lookup ''policyRules'' ps);
     dflt \<leftarrow> go_bool (js_lookup ''defaultRoute'' ps);
     bypass \<leftarrow> go_list go_str (js_lookup ''bypassCidrs'' ps);
     nh \<leftarrow> go_str (js_lookup ''defaultRouteNextHop'' ps);
     overrides \<leftarrow> go_str_map (js_lookup ''peerEndpoints'' ps);
     priv \<leftarrow> go_str (js_lookup ''privateKey'' ps);
     token \<leftarrow> go_str (js_lookup ''provisionToken'' ps);
     Some \<lparr>n_ID = nid, n_PublicKey = pub, n_Endpoints = eps, n_CIDRs = cidrs, n_ConfigVersion = cv,
           n_Version = ver, n_ListenPort = port, n_OverlayIP = overlay, n_ASN = asn, n_RouterID = rid,
           n_EgressPeerID = egress, n_PolicyRules = rules, n_DefaultRoute = dflt, n_BypassCIDRs = bypass,
           n_DefaultRouteNextHop = nh, n_PrivateKey = priv, n_ProvisionToken = token,
           n_PeerEndpoints = overrides\<rparr>
   }"

text \<open>Older entries hold a number as version; it becomes the text the code uses now.\<close>

definition legacy_version :: "rat \<Rightarrow> string" where
  "legacy_version t = ''v0.0.'' @ show_int (if t < 0 then - \<lfloor>- t\<rfloor> else \<lfloor>t\<rfloor>)"

definition legacy_record :: "(string \<times> jsval) list \<Rightarrow> (string \<times> jsval) list" where
  "legacy_record raw =
     (let raw1 = (case js_lookup ''version'' raw of
                    Number t \<Rightarrow> set_prop ''version'' (Str (legacy_version t)) raw
                  | _ \<Rightarrow> raw);
          v = js_lookup ''version'' raw1
      in if ''configVersion'' \<notin> fst ` set raw1 \<and> v \<noteq> Undef \<and> v \<noteq> Null
         then set_prop ''configVersion'' v raw1 else raw1)"

definition decodeNodeRecord :: "jsval \<Rightarrow> node option" where
  "decodeNodeRecord v =
     (case go_node_record v of
        Some n \<Rightarrow> Some (if n_ConfigVersion n = [] \<and> n_Version n \<noteq> [] then n\<lparr>n_ConfigVersion := n_Version n\<rparr> else n)
      | None \<Rightarrow> (case v of Obj raw \<Rightarrow> go_node_record (Obj (legacy_record raw)) | _ \<Rightarrow> None))"

definition UpsertNode_kv :: "'s consul \<Rightarrow> node \<Rightarrow> 's \<Rightarrow> (string + node) \<times> 's" where
  "UpsertNode_kv k n s =
     (case put_value k (nodePrefix @ n_ID n) (json_node_record n) s of
        (Some err, s') \<Rightarrow> (Inl err, s')
      | (None, s') \<Rightarrow> (Inr n, s'))"

definition ListNodes_kv :: "'s consul \<Rightarrow> 's \<Rightarrow> string + node list" where
  "ListNodes_kv k s = list_values k decodeNodeRecord nodePrefix s"

definition GetNode_kv :: "'s consul \<Rightarrow> string \<Rightarrow> 's \<Rightarrow> string + node option" where
  "GetNode_kv k nid s = get_value k decodeNodeRecord (nodePrefix @ nid) s"

definition UpdatePolicy_kv ::
  "'s consul \<Rightarrow> string \<Rightarrow> string \<Rightarrow> policy_rule list \<Rightarrow> bool \<Rightarrow> string list \<Rightarrow> string \<Rightarrow> 's \<Rightarrow> string option \<times> 's" where
  "UpdatePolicy_kv k nodeID egressPeer rules defaultRoute bypass nextHop s =
     (case get_value k decodeNodeRecord (nodePrefix @ nodeID) s of
        Inl err \<Rightarrow> (Some err, s)
      | Inr None \<Rightarrow> (Some ''node not found'', s)
      | Inr (Some n) \<Rightarrow>
          put_value k (nodePrefix @ nodeID)
            (json_node_record (n\<lparr>n_EgressPeerID := egressPeer, n_PolicyRules := rules,
               n_DefaultRoute := defaultRoute, n_BypassCIDRs := bypass, n_DefaultRouteNextHop := nextHop\<rparr>)) s)"

section \<open>Health\<close>

definition SaveHealth_kv :: "env \<Rightarrow> 's consul \<Rightarrow> health_report \<Rightarrow> 's \<Rightarrow> string option \<times> 's" where
  "SaveHealth_kv e k h s =
     (case put_value k (healthPrefix @ h_NodeID h) (json_health e h) s of
        (Some err, s1) \<Rightarrow> (Some err, s1)
      | (None, s1) \<Rightarrow>
          (None, snd (kv_put k (healthHistPrefix @ h_NodeID h @ ''/'' @ unix_nano (h_Timestamp h)) (json_health e h) s1)))"

definition ListHealth_kv :: "env \<Rightarrow> 's consul \<Rightarrow> 's \<Rightarrow> string + health_report list" where
  "ListHealth_kv e k s = list_values k (go_health e) healthPrefix s"

definition ListHealthHistory_kv :: "env \<Rightarrow> 's consul \<Rightarrow> string \<Rightarrow> int \<Rightarrow> 's \<Rightarrow> string + health_report list" where
  "ListHealthHistory_kv e k nodeID since s =
     map_sum (\<lambda>err. err) (filter (\<lambda>h. since < h_Timestamp h \<or> h_Timestamp h = since))
       (list_values k (go_health e) (healthHistPrefix @ nodeID @ ''/'') s)"

text \<open>The time in the last part of a key decides.\<close>

definition expired :: "int \<Rightarrow> string \<Rightarrow> bool" where
  "expired cutoff key =
     (case Atoi (last (split_on (CHR ''/'') key)) of None \<Rightarrow> False | Some ts \<Rightarrow> unix_epoch + ts < cutoff)"

definition prune_prefix :: "'s consul \<Rightarrow> string \<Rightarrow> int \<Rightarrow> 's \<Rightarrow> string option \<times> 's" where
  "prune_prefix k pfx cutoff s =
     (if \<not> kv_ready k then (Some not_configured, s)
      else (case kv_list k pfx s of
          Inl err \<Rightarrow> (Some err, s)
        | Inr ps \<Rightarrow> (None, fold (\<lambda>(key, _) s. if expired cutoff key then kv_delete k key s else s) ps s)))"

text \<open>What \<open>SaveHealth\<close> starts in a goroutine of its own, and what the controller runs every hour.\<close>

definition pruneHealthHistory :: "'s consul \<Rightarrow> string \<Rightarrow> int \<Rightarrow> 's \<Rightarrow> 's" where
  "pruneHealthHistory k nodeID cutoff s = snd (prune_prefix k (healthHistPrefix @ nodeID @ ''/'') cutoff s)"

definition PruneHealthBefore_kv :: "'s consul \<Rightarrow> int \<Rightarrow> 's \<Rightarrow> string option \<times> 's" where
  "PruneHealthBefore_kv k cutoff s = prune_prefix k healthHistPrefix cutoff s"

section \<open>Install log, diagnoses, tasks, audit\<close>

definition SavePolicyStatus_kv :: "env \<Rightarrow> 's consul \<Rightarrow> policy_log \<Rightarrow> 's \<Rightarrow> string option \<times> 's" where
  "SavePolicyStatus_kv e k l0 s =
     (let l = stamp_log (e_now e) l0
      in put_value k (policyStatusPref @ l_NodeID l @ ''/'' @ unix_nano (l_Timestamp l)) (json_log (e_rfc3339 e) l) s)"

text \<open>\<open>sort.Slice\<close>; entries with the same time may come in any order.\<close>

definition ListPolicyStatus_kv :: "env \<Rightarrow> 's consul \<Rightarrow> string \<Rightarrow> int \<Rightarrow> 's \<Rightarrow> string + policy_log list" where
  "ListPolicyStatus_kv e k nodeID limit s =
     map_sum (\<lambda>err. err) (\<lambda>out. last_items limit (sort_key l_Timestamp out))
       (list_values k (go_log e) (policyStatusPref @ nodeID @ ''/'') s)"

definition SavePolicyDiag_kv :: "env \<Rightarrow> 's consul \<Rightarrow> diag_report \<Rightarrow> 's \<Rightarrow> string option \<times> 's" where
  "SavePolicyDiag_kv e k d0 s =
     (let d = stamp_diag (e_now e) d0
      in put_value k (policyDiagPref @ d_NodeID d @ ''/'' @ unix_nano (d_Timestamp d)) (json_diag (e_rfc3339 e) d) s)"

definition ListPolicyDiag_kv :: "env \<Rightarrow> 's consul \<Rightarrow> string \<Rightarrow> int \<Rightarrow> 's \<Rightarrow> string + diag_report list" where
  "ListPolicyDiag_kv e k nodeID limit s =
     map_sum (\<lambda>err. err) (\<lambda>out. last_items limit (sort_key d_Timestamp out))
       (list_values k (go_diag e) (policyDiagPref @ nodeID @ ''/'') s)"

definition go_step :: "env \<Rightarrow> jsval \<Rightarrow> task_step option" where
  "go_step e v = do {
     ps \<leftarrow> go_obj v;
     name \<leftarrow> go_str (js_lookup ''name'' ps);
     status \<leftarrow> go_str (js_lookup ''status'' ps);
     message \<leftarrow> go_str (js_lookup ''message'' ps);
     nid \<leftarrow> go_str (js_lookup ''nodeId'' ps);
     ts \<leftarrow> go_time e (js_lookup ''timestamp'' ps);
     Some \<lparr>ts_Name = name, ts_Status = status, ts_Message = message, ts_NodeID = nid, ts_Timestamp = ts\<rparr>
   }"

definition go_task :: "env \<Rightarrow> jsval \<Rightarrow> task option" where
  "go_task e v = do {
     ps \<leftarrow> go_obj v;
     tid \<leftarrow> go_str (js_lookup ''id'' ps);
     nid \<leftarrow> go_str (js_lookup ''nodeId'' ps);
     targets \<leftarrow> go_list go_str (js_lookup ''targets'' ps);
     ty \<leftarrow> go_str (js_lookup ''type'' ps);
     status \<leftarrow> go_str (js_lookup ''status'' ps);
     overall \<leftarrow> go_str (js_lookup ''overallStatus'' ps);
     steps \<leftarrow> go_list (go_step e) (js_lookup ''steps'' ps);
     created \<leftarrow> go_time e (js_lookup ''createdAt'' ps);
     updated \<leftarrow> go_time e (js_lookup ''updatedAt'' ps);
     Some \<lparr>t_ID = tid, t_NodeID = nid, t_Targets = targets, t_Type = ty, t_Status = status,
           t_OverallStatus = overall, t_Steps = steps, t_CreatedAt = created, t_UpdatedAt = updated\<rparr>
   }"

definition SaveTask_kv :: "env \<Rightarrow> 's consul \<Rightarrow> task \<Rightarrow> 's \<Rightarrow> string option \<times> 's" where
  "SaveTask_kv e k t0 s =
     (let t1 = (if t_CreatedAt t0 = 0 then t0\<lparr>t_CreatedAt := e_now e\<rparr> else t0);
          t = t1\<lparr>t_UpdatedAt := e_now e\<rparr>
      in put_value k (taskPref @ t_ID t) (json_task (e_rfc3339 e) t) s)"

definition GetTask_kv :: "env \<Rightarrow> 's consul \<Rightarrow> string \<Rightarrow> 's \<Rightarrow> string + task option" where
  "GetTask_kv e k tid s = get_value k (go_task e) (taskPref @ tid) s"

definition ListTasks_kv :: "env \<Rightarrow> 's consul \<Rightarrow> string \<Rightarrow> int \<Rightarrow> 's \<Rightarrow> string + task list" where
  "ListTasks_kv e k nodeID limit s =
     map_sum (\<lambda>err. err)
       (\<lambda>ts. last_items limit (sort_key t_CreatedAt (filter (\<lambda>t. nodeID = [] \<or> t_NodeID t = nodeID) ts)))
       (list_values k (go_task e) taskPref s)"

definition go_audit :: "env \<Rightarrow> jsval \<Rightarrow> audit_entry option" where
  "go_audit e v = do {
     ps \<leftarrow> go_obj v;
     actor \<leftarrow> go_str (js_lookup ''actor'' ps);
     action \<leftarrow> go_str (js_lookup ''action'' ps);
     target \<leftarrow> go_str (js_lookup ''target'' ps);
     detail \<leftarrow> go_str (js_lookup ''detail'' ps);
     ts \<leftarrow> go_time e (js_lookup ''timestamp'' ps);
     Some \<lparr>a_Actor = actor, a_Action = action, a_Target = target, a_Detail = detail, a_Timestamp = ts\<rparr>
   }"

definition AppendAudit_kv :: "env \<Rightarrow> 's consul \<Rightarrow> audit_entry \<Rightarrow> 's \<Rightarrow> string option \<times> 's" where
  "AppendAudit_kv e k a0 s =
     (let a = (if a_Timestamp a0 = 0 then a0\<lparr>a_Timestamp := e_now e\<rparr> else a0)
      in put_value k (auditPrefix @ unix_nano (a_Timestamp a) @ ''-'' @ a_Target a) (json_audit e a) s)"

definition ListAudit_kv :: "env \<Rightarrow> 's consul \<Rightarrow> int \<Rightarrow> 's \<Rightarrow> string + audit_entry list" where
  "ListAudit_kv e k limit s =
     map_sum (\<lambda>err. err) (last_items limit) (list_values k (go_audit e) auditPrefix s)"

section \<open>Plans\<close>

definition go_plan :: "env \<Rightarrow> jsval \<Rightarrow> plan option" where
  "go_plan e v = do {
     ps \<leftarrow> go_obj v;
     nid \<leftarrow> go_str (js_lookup ''nodeId'' ps);
     ver \<leftarrow> go_int (js_lookup ''version'' ps);
     cv \<leftarrow> go_str (js_lookup ''configVersion'' ps);
     peers \<leftarrow> go_list go_peer (js_lookup ''peers'' ps);
     routes \<leftarrow> go_list go_str (js_lookup ''routes'' ps);
     created \<leftarrow> go_time e (js_lookup ''createdAt'' ps);
     sig \<leftarrow> go_str (js_lookup ''signature'' ps);
     egress \<leftarrow> go_str (js_lookup ''egressPeerId'' ps);
     rules \<leftarrow> go_list go_rule (js_lookup ''policyRules'' ps);
     overrides \<leftarrow> go_str_map (js_lookup ''peerEndpoints'' ps);
     dflt \<leftarrow> go_bool (js_lookup ''defaultRoute'' ps);
     bypass \<leftarrow> go_list go_str (js_lookup ''bypassCidrs'' ps);
     nh \<leftarrow> go_str (js_lookup ''defaultRouteNextHop'' ps);
     Some \<lparr>pl_NodeID = nid, pl_Version = ver, pl_ConfigVersion = cv, pl_Peers = peers, pl_Routes = routes,
           pl_CreatedAt = created, pl_Signature = sig, pl_EgressPeerID = egress, pl_PolicyRules = rules,
           pl_PeerEndpoints = overrides, pl_DefaultRoute = dflt, pl_BypassCIDRs = bypass,
           pl_DefaultRouteNextHop = nh\<rparr>
   }"

definition history_key :: "string \<Rightarrow> int \<Rightarrow> string" where
  "history_key nodeID ver = planPrefix @ nodeID @ ''/'' @ show_int ver"

text \<open>The version of the plan serves as the index the key is expected at.\<close>

definition SavePlan_kv :: "env \<Rightarrow> 's consul \<Rightarrow> plan \<Rightarrow> 's \<Rightarrow> string option \<times> 's" where
  "SavePlan_kv e k p0 s =
     (if \<not> kv_ready k then (Some not_configured, s)
      else
        (let p = (if pl_CreatedAt p0 = 0 then p0\<lparr>pl_CreatedAt := e_now e\<rparr> else p0);
             index = (if 0 < pl_Version p then pl_Version p else 0)
         in (case kv_cas k (planPrefix @ pl_NodeID p) (json_plan e p) index s of
               (Inl err, s1) \<Rightarrow> (Some err, s1)
             | (Inr False, s1) \<Rightarrow> (Some ''plan CAS failed'', s1)
             | (Inr True, s1) \<Rightarrow> kv_put k (history_key (pl_NodeID p) (pl_Version p)) (json_plan e p) s1)))"

definition GetPlan_kv :: "env \<Rightarrow> 's consul \<Rightarrow> string \<Rightarrow> 's \<Rightarrow> string + plan option" where
  "GetPlan_kv e k nodeID s = get_value k (go_plan e) (planPrefix @ nodeID) s"

definition ListPlanHistory_kv :: "env \<Rightarrow> 's consul \<Rightarrow> string \<Rightarrow> int \<Rightarrow> 's \<Rightarrow> string + plan list" where
  "ListPlanHistory_kv e k nodeID limit s =
     map_sum (\<lambda>err. err) (last_items limit) (list_values k (go_plan e) (planPrefix @ nodeID @ ''/'') s)"

definition RollbackPlan_kv :: "env \<Rightarrow> 's consul \<Rightarrow> string \<Rightarrow> int \<Rightarrow> 's \<Rightarrow> (string + plan) \<times> 's" where
  "RollbackPlan_kv e k nodeID ver s =
     (if \<not> kv_ready k then (Inl not_configured, s)
      else (case kv_get k (history_key nodeID ver) s of
          Inl err \<Rightarrow> (Inl ''plan version not found'', s)
        | Inr None \<Rightarrow> (Inl ''plan version not found'', s)
        | Inr (Some v) \<Rightarrow>
            (case go_plan e v of
               None \<Rightarrow> (Inl bad_json, s)
             | Some p0 \<Rightarrow>
                 (let p = p0\<lparr>pl_Version := ver\<rparr>
                  in (case SavePlan_kv e k p s of
                        (Some err, s1) \<Rightarrow> (Inl err, s1)
                      | (None, s1) \<Rightarrow> (Inr p, s1))))))"

text \<open>\<open>Sscanf\<close> reads 0 from what is no number, such as the plan of a node named \<open>version\<close>.\<close>

definition SetGlobalPlanVersion_kv :: "'s consul \<Rightarrow> int \<Rightarrow> 's \<Rightarrow> string option \<times> 's" where
  "SetGlobalPlanVersion_kv k v s = put_value k versionKey (Number (of_int v)) s"

definition GetGlobalPlanVersion_kv :: "'s consul \<Rightarrow> 's \<Rightarrow> string + int" where
  "GetGlobalPlanVersion_kv k s =
     map_sum (\<lambda>err. err) (\<lambda>r. case r of Some v \<Rightarrow> v | None \<Rightarrow> 0)
       (get_value k (\<lambda>v. case go_int v of Some n \<Rightarrow> Some n | None \<Rightarrow> Some 0) versionKey s)"

section \<open>Settings\<close>

definition json_settings :: "settings \<Rightarrow> jsval" where
  "json_settings c = Obj [(''geoip'', json_geoip (s_GeoIP c)), (''diag'', json_diag_config c)]"

definition go_settings :: "jsval \<Rightarrow> settings option" where
  "go_settings v = do {
     ps \<leftarrow> go_obj v;
     g \<leftarrow> go_geoip (case js_lookup ''geoip'' ps of Undef \<Rightarrow> Null | w \<Rightarrow> w);
     p \<leftarrow> go_diag_config (case js_lookup ''diag'' ps of Undef \<Rightarrow> Null | w \<Rightarrow> w);
     Some \<lparr>s_GeoIP = g, s_PingInterval = p\<rparr>
   }"

text \<open>Without settings the zero value is returned, for which the callers put the defaults.\<close>

definition GetSettings_kv :: "'s consul \<Rightarrow> 's \<Rightarrow> string + settings option" where
  "GetSettings_kv k s = get_value k go_settings settingsKey s"

definition UpdateSettings_kv :: "'s consul \<Rightarrow> settings \<Rightarrow> 's \<Rightarrow> string option \<times> 's" where
  "UpdateSettings_kv k c s = put_value k settingsKey (json_settings c) s"

end
