(* ===== verification/Consul_Flow.thy ===== *)
theory Consul_Flow
  imports Go_Consul Example
begin

text \<open>
  The Consul store beside the memory store.  \<open>consul_spec\<close> states what Consul documents of its
  key-value store; under it a policy update does to both stores the same, and the plans of the
  controller, which the memory store keeps, are never stored.
\<close>

section \<open>What Consul promises\<close>

text \<open>
  Every pair has the index of its last write, which is positive.  \<open>CAS\<close> with index 0 writes
  only a new key, with another index only a pair whose index it is.
\<close>

definition cas_writes :: "(jsval \<times> int) option \<Rightarrow> int \<Rightarrow> bool" where
  "cas_writes old i = (case old of None \<Rightarrow> i = 0 | Some (_, j) \<Rightarrow> i = j)"

definition consul_spec :: "'s consul \<Rightarrow> ('s \<Rightarrow> string \<Rightarrow> (jsval \<times> int) option) \<Rightarrow> bool" where
  "consul_spec k look \<longleftrightarrow> kv_ready k
     \<and> (\<forall>key s. kv_get k key s = Inr (map_option fst (look s key)))
     \<and> (\<forall>key v s. \<exists>s' i. kv_put k key v s = (None, s') \<and> 0 < i \<and> look s' = (look s)(key \<mapsto> (v, i)))
     \<and> (\<forall>key v i s. if cas_writes (look s key) i
          then \<exists>s' j. kv_cas k key v i s = (Inr True, s') \<and> 0 < j \<and> look s' = (look s)(key \<mapsto> (v, j))
          else kv_cas k key v i s = (Inr False, s))
     \<and> (\<forall>pfx s. \<exists>ps. kv_list k pfx s = Inr ps
          \<and> set ps = {(key, v). prefix pfx key \<and> map_option fst (look s key) = Some v})
     \<and> (\<forall>key s. look (kv_delete k key s) = (look s)(key := None))"

lemma spec_ready: "consul_spec k look \<Longrightarrow> kv_ready k"
  by (simp add: consul_spec_def)

lemma spec_get: "consul_spec k look \<Longrightarrow> kv_get k key s = Inr (map_option fst (look s key))"
  by (simp add: consul_spec_def)

lemma spec_put:
  assumes "consul_spec k look"
  obtains s' i where "kv_put k key v s = (None, s')" "0 < i" "look s' = (look s)(key \<mapsto> (v, i))"
  using assms unfolding consul_spec_def by metis

lemma spec_cas:
  assumes "consul_spec k look"
  obtains (written) s' j where "cas_writes (look s key) i" "kv_cas k key v i s = (Inr True, s')" "0 < j"
      "look s' = (look s)(key \<mapsto> (v, j))"
    | (refused) "\<not> cas_writes (look s key) i" "kv_cas k key v i s = (Inr False, s)"
  using assms unfolding consul_spec_def by metis

lemma spec_list:
  assumes "consul_spec k look"
  obtains ps where "kv_list k pfx s = Inr ps"
    "set ps = {(key, v). prefix pfx key \<and> map_option fst (look s key) = Some v}"
  using assms unfolding consul_spec_def by metis

lemma spec_delete: "consul_spec k look \<Longrightarrow> look (kv_delete k key s) = (look s)(key := None)"
  by (simp add: consul_spec_def)

section \<open>Keys\<close>

lemmas key_prefixes = nodePrefix_def healthPrefix_def healthHistPrefix_def policyStatusPref_def
  policyDiagPref_def taskPref_def auditPrefix_def planPrefix_def versionKey_def settingsKey_def

text \<open>The keys under the prefix of the plans that are not those of a node called \<open>version\<close>.\<close>

definition plan_key :: "string \<Rightarrow> bool" where
  "plan_key key \<longleftrightarrow> prefix planPrefix key \<and> key \<noteq> versionKey \<and> \<not> prefix (versionKey @ ''/'') key"

lemma no_plan_keys [simp]:
  "\<not> plan_key (nodePrefix @ x)" "\<not> plan_key (healthPrefix @ x)" "\<not> plan_key (healthHistPrefix @ x)"
  "\<not> plan_key (policyStatusPref @ x)" "\<not> plan_key (policyDiagPref @ x)" "\<not> plan_key (taskPref @ x)"
  "\<not> plan_key (auditPrefix @ x)" "\<not> plan_key settingsKey" "\<not> plan_key versionKey"
  by (simp_all add: plan_key_def key_prefixes)

lemma plan_key_node: "plan_key (planPrefix @ nid) \<longleftrightarrow> nid \<noteq> ''version'' \<and> \<not> prefix ''version/'' nid"
  by (simp add: plan_key_def planPrefix_def versionKey_def)

lemma history_key_version: "\<not> plan_key (planPrefix @ nid) \<Longrightarrow> \<not> plan_key (history_key nid ver)"
  unfolding history_key_def plan_key_node by (auto simp: prefix_append)

section \<open>Runs of the store\<close>

text \<open>
  The operations of the memory store, and the goroutine that \<open>SaveHealth\<close> starts, which runs at
  some later time.
\<close>

datatype kv_event = Kv_op env store_op | Kv_prune string int

fun kv_apply :: "'s consul \<Rightarrow> env \<Rightarrow> store_op \<Rightarrow> 's \<Rightarrow> 's" where
  "kv_apply k e (Op_UpsertNode n) s = snd (UpsertNode_kv k n s)"
| "kv_apply k e (Op_UpdatePolicy i g r d b x) s = snd (UpdatePolicy_kv k i g r d b x s)"
| "kv_apply k e (Op_SaveHealth now h) s = snd (SaveHealth_kv e k h s)"
| "kv_apply k e (Op_PruneHealth cutoff) s = snd (PruneHealthBefore_kv k cutoff s)"
| "kv_apply k e (Op_AppendAudit a) s = snd (AppendAudit_kv e k a s)"
| "kv_apply k e (Op_SavePolicyStatus now l) s = snd (SavePolicyStatus_kv (e\<lparr>e_now := now\<rparr>) k l s)"
| "kv_apply k e (Op_SavePolicyDiag now d) s = snd (SavePolicyDiag_kv (e\<lparr>e_now := now\<rparr>) k d s)"
| "kv_apply k e (Op_SaveTask now t) s = snd (SaveTask_kv (e\<lparr>e_now := now\<rparr>) k t s)"
| "kv_apply k e (Op_SavePlan p) s = snd (SavePlan_kv e k p s)"
| "kv_apply k e (Op_RollbackPlan i v) s = snd (RollbackPlan_kv e k i v s)"
| "kv_apply k e (Op_SetGlobalPlanVersion v) s = snd (SetGlobalPlanVersion_kv k v s)"
| "kv_apply k e (Op_UpdateSettings c) s = snd (UpdateSettings_kv k c s)"

fun kv_step :: "'s consul \<Rightarrow> kv_event \<Rightarrow> 's \<Rightarrow> 's" where
  "kv_step k (Kv_op e op) s = kv_apply k e op s"
| "kv_step k (Kv_prune nid cutoff) s = pruneHealthHistory k nid cutoff s"

section \<open>What an operation leaves as it is\<close>

definition agrees :: "(string \<Rightarrow> bool) \<Rightarrow> (string \<Rightarrow> 'v option) \<Rightarrow> (string \<Rightarrow> 'v option) \<Rightarrow> bool" where
  "agrees P f g \<longleftrightarrow> (\<forall>key. P key \<longrightarrow> g key = f key)"

lemma agrees_refl [simp]: "agrees P f f"
  by (simp add: agrees_def)

lemma agrees_trans: "agrees P f g \<Longrightarrow> agrees P g h \<Longrightarrow> agrees P f h"
  by (simp add: agrees_def)

lemma agrees_update: "\<not> P key \<Longrightarrow> agrees P f (f(key := x))"
  by (simp add: agrees_def)

lemma put_keeps:
  assumes "consul_spec k look" "\<not> P key"
  shows "agrees P (look s) (look (snd (kv_put k key v s)))"
    "agrees P (look s) (look (snd (put_value k key v s)))"
proof -
  obtain s' i where "kv_put k key v s = (None, s')" "look s' = (look s)(key \<mapsto> (v, i))"
    using spec_put [OF assms(1)] by metis
  then show "agrees P (look s) (look (snd (kv_put k key v s)))" using assms(2) by (simp add: agrees_update)
  then show "agrees P (look s) (look (snd (put_value k key v s)))" by (simp add: put_value_def)
qed

lemma delete_keeps:
  assumes "consul_spec k look" "\<forall>(key, v)\<in>set ps. \<not> P key"
  shows "agrees P (look s) (look (fold (\<lambda>(key, _) s. if b key then kv_delete k key s else s) ps s))"
  using assms(2)
proof (induction ps arbitrary: s)
  case (Cons kv ps)
  obtain key v where kv: "kv = (key, v)" by fastforce
  have "agrees P (look s) (look (if b key then kv_delete k key s else s))"
    using Cons.prems by (simp add: kv spec_delete [OF assms(1)] agrees_update)
  with Cons.IH [of "if b key then kv_delete k key s else s"] Cons.prems show ?case
    by (auto simp: kv intro: agrees_trans)
qed simp

lemma prune_keeps:
  assumes "consul_spec k look" "\<forall>x. \<not> P (pfx @ x)"
  shows "agrees P (look s) (look (snd (prune_prefix k pfx cutoff s)))"
proof -
  obtain ps where ps: "kv_list k pfx s = Inr ps"
    "set ps = {(key, v). prefix pfx key \<and> map_option fst (look s key) = Some v}"
    by (rule spec_list [OF assms(1), of pfx s])
  have "\<forall>(key, v)\<in>set ps. \<not> P key" using assms(2) by (auto simp: ps(2) prefix_def)
  from delete_keeps [OF assms(1) this, of s "expired cutoff"] show ?thesis
    by (simp add: prune_prefix_def ps(1))
qed

lemma SavePlan_keeps:
  assumes "consul_spec k look" "\<not> P (planPrefix @ pl_NodeID p)" "\<not> P (history_key (pl_NodeID p) (pl_Version p))"
  shows "agrees P (look s) (look (snd (SavePlan_kv e k p s)))"
proof -
  define q where "q = (if pl_CreatedAt p = 0 then p\<lparr>pl_CreatedAt := e_now e\<rparr> else p)"
  define index where "index = (if 0 < pl_Version p then pl_Version p else 0)"
  have q: "pl_NodeID q = pl_NodeID p" "pl_Version q = pl_Version p" by (simp_all add: q_def)
  have saved: "SavePlan_kv e k p s =
      (case kv_cas k (planPrefix @ pl_NodeID p) (json_plan e q) index s of
         (Inl err, s1) \<Rightarrow> (Some err, s1)
       | (Inr False, s1) \<Rightarrow> (Some ''plan CAS failed'', s1)
       | (Inr True, s1) \<Rightarrow> kv_put k (history_key (pl_NodeID p) (pl_Version p)) (json_plan e q) s1)"
    unfolding SavePlan_kv_def Let_def q_def [symmetric] q index_def [symmetric]
    using spec_ready [OF assms(1)] by simp
  show ?thesis
  proof (rule spec_cas [OF assms(1), of s "planPrefix @ pl_NodeID p" index "json_plan e q"])
    fix s1 j
    assume s1: "kv_cas k (planPrefix @ pl_NodeID p) (json_plan e q) index s = (Inr True, s1)"
      "look s1 = (look s)(planPrefix @ pl_NodeID p \<mapsto> (json_plan e q, j))"
    have "agrees P (look s) (look s1)" unfolding s1(2) using assms(2) by (simp add: agrees_update)
    from agrees_trans [OF this put_keeps(1) [where P = P, OF assms(1,3)]]
    show ?thesis by (simp add: saved s1(1))
  qed (simp add: saved)
qed

text \<open>The operations on neither nodes nor plans, and keys that are none of theirs.\<close>

fun other_event :: "kv_event \<Rightarrow> bool" where
  "other_event (Kv_op e (Op_UpsertNode n)) \<longleftrightarrow> False"
| "other_event (Kv_op e (Op_UpdatePolicy i g r d b x)) \<longleftrightarrow> False"
| "other_event (Kv_op e (Op_SavePlan p)) \<longleftrightarrow> False"
| "other_event (Kv_op e (Op_RollbackPlan i v)) \<longleftrightarrow> False"
| "other_event _ \<longleftrightarrow> True"

definition foreign :: "(string \<Rightarrow> bool) \<Rightarrow> bool" where
  "foreign P \<longleftrightarrow> \<not> P versionKey \<and> \<not> P settingsKey
     \<and> (\<forall>x. \<forall>pfx\<in>{healthPrefix, healthHistPrefix, policyStatusPref, policyDiagPref, taskPref, auditPrefix}. \<not> P (pfx @ x))"

lemma foreignD:
  assumes "foreign P"
  shows "\<not> P versionKey" "\<not> P settingsKey" "\<not> P (healthPrefix @ x)" "\<not> P (healthHistPrefix @ x)"
    "\<not> P (policyStatusPref @ x)" "\<not> P (policyDiagPref @ x)" "\<not> P (taskPref @ x)" "\<not> P (auditPrefix @ x)"
  using assms by (simp_all add: foreign_def)

lemma SaveHealth_keeps:
  assumes "consul_spec k look" "foreign P"
  shows "agrees P (look s) (look (snd (SaveHealth_kv e k h s)))"
proof -
  let ?r = "put_value k (healthPrefix @ h_NodeID h) (json_health e h) s"
  have r: "agrees P (look s) (look (snd ?r))"
    by (rule put_keeps(2) [OF assms(1)]) (rule foreignD(3) [OF assms(2)])
  have kept: "agrees P (look (snd ?r)) (look (snd (kv_put k (healthHistPrefix @ x) v (snd ?r))))" for x v
    by (rule put_keeps(1) [OF assms(1)]) (rule foreignD(4) [OF assms(2)])
  show ?thesis using r agrees_trans [OF r kept]
    by (cases ?r; cases "fst ?r") (simp_all add: SaveHealth_kv_def)
qed

lemma put_foreign:
  assumes "consul_spec k look" "foreign P"
  shows "agrees P (look s) (look (snd (put_value k versionKey v s)))"
    "agrees P (look s) (look (snd (put_value k settingsKey v s)))"
    "agrees P (look s) (look (snd (put_value k (policyStatusPref @ x) v s)))"
    "agrees P (look s) (look (snd (put_value k (policyDiagPref @ x) v s)))"
    "agrees P (look s) (look (snd (put_value k (taskPref @ x) v s)))"
    "agrees P (look s) (look (snd (put_value k (auditPrefix @ x) v s)))"
  using put_keeps(2) [where P = P, OF assms(1)] foreignD [OF assms(2)] by simp_all

lemma kv_step_keeps:
  assumes "consul_spec k look" "foreign P" "other_event ev"
  shows "agrees P (look s) (look (kv_step k ev s))"
proof (cases ev)
  case (Kv_prune nid cutoff)
  have "agrees P (look s) (look (snd (prune_prefix k (healthHistPrefix @ nid @ ''/'') cutoff s)))"
    by (rule prune_keeps [OF assms(1)]) (simp add: foreignD [OF assms(2)])
  then show ?thesis by (simp add: Kv_prune pruneHealthHistory_def)
next
  case (Kv_op e op)
  have prune: "agrees P (look s) (look (snd (prune_prefix k healthHistPrefix cutoff s)))" for cutoff
    by (rule prune_keeps [OF assms(1)]) (simp add: foreignD [OF assms(2)])
  show ?thesis
    using assms(3) unfolding Kv_op
    by (cases op)
      (simp_all only: kv_step.simps kv_apply.simps other_event.simps SaveHealth_keeps [OF assms(1,2)]
        PruneHealthBefore_kv_def prune AppendAudit_kv_def SavePolicyStatus_kv_def SavePolicyDiag_kv_def
        SaveTask_kv_def SetGlobalPlanVersion_kv_def UpdateSettings_kv_def Let_def put_foreign [OF assms(1,2)])
qed

section \<open>The plans of the Consul store\<close>

text \<open>The versions of plans are counted up from 1.\<close>

fun counted_version :: "kv_event \<Rightarrow> bool" where
  "counted_version (Kv_op e (Op_SavePlan p)) \<longleftrightarrow> 0 < pl_Version p"
| "counted_version (Kv_op e (Op_RollbackPlan i v)) \<longleftrightarrow> 0 < v"
| "counted_version _ \<longleftrightarrow> True"

definition no_plans :: "(string \<Rightarrow> (jsval \<times> int) option) \<Rightarrow> bool" where
  "no_plans f \<longleftrightarrow> (\<forall>key. plan_key key \<longrightarrow> f key = None)"

lemma no_plans_keeps: "no_plans f \<Longrightarrow> agrees plan_key f g \<Longrightarrow> no_plans g"
  by (simp add: no_plans_def agrees_def)

lemma foreign_plan_key: "foreign plan_key"
  by (simp add: foreign_def)

text \<open>A plan is refused, or it is the plan of a node called \<open>version\<close>.\<close>

lemma SavePlan_refused:
  assumes "consul_spec k look" "no_plans (look s)" "0 < pl_Version p" "plan_key (planPrefix @ pl_NodeID p)"
  shows "SavePlan_kv e k p s = (Some ''plan CAS failed'', s)"
proof -
  have "look s (planPrefix @ pl_NodeID p) = None" using assms(2,4) by (simp add: no_plans_def)
  then have "\<not> cas_writes (look s (planPrefix @ pl_NodeID p)) (pl_Version p)"
    using assms(3) by (simp add: cas_writes_def)
  then have cas: "kv_cas k (planPrefix @ pl_NodeID p) v (pl_Version p) s = (Inr False, s)" for v
    using spec_cas [OF assms(1)] by metis
  show ?thesis
    using assms(3) spec_ready [OF assms(1)] by (simp add: SavePlan_kv_def Let_def cas)
qed

lemma SavePlan_no_plans:
  assumes "consul_spec k look" "no_plans (look s)" "0 < pl_Version p"
  shows "no_plans (look (snd (SavePlan_kv e k p s)))"
proof (cases "plan_key (planPrefix @ pl_NodeID p)")
  case True
  then show ?thesis using SavePlan_refused [OF assms] assms(2) by simp
next
  case False
  from SavePlan_keeps [where P = plan_key, OF assms(1) this history_key_version [OF this]]
  show ?thesis by (rule no_plans_keeps [OF assms(2)])
qed

lemma RollbackPlan_no_plans:
  assumes "consul_spec k look" "no_plans (look s)" "0 < ver"
  shows "no_plans (look (snd (RollbackPlan_kv e k nid ver s)))"
proof -
  have "no_plans (look (snd (SavePlan_kv e k (p\<lparr>pl_Version := ver\<rparr>) s)))" for p
    using assms by (simp add: SavePlan_no_plans)
  then show ?thesis using assms(2)
    by (simp add: RollbackPlan_kv_def Let_def case_prod_unfold split: sum.split option.split)
qed

lemma kv_step_no_plans:
  assumes "consul_spec k look" "no_plans (look s)" "counted_version ev"
  shows "no_plans (look (kv_step k ev s))"
proof (cases "other_event ev")
  case True
  then show ?thesis
    using no_plans_keeps [OF assms(2)] kv_step_keeps [OF assms(1) foreign_plan_key] by blast
next
  case False
  then obtain e op where ev: "ev = Kv_op e op" by (cases ev) simp_all
  have put: "no_plans (look (snd (put_value k (nodePrefix @ x) v s)))" for x v
    using no_plans_keeps [OF assms(2) put_keeps(2) [OF assms(1)]] by simp
  show ?thesis
    using False assms put unfolding ev
    by (cases op) (simp_all add: UpsertNode_kv_def UpdatePolicy_kv_def case_prod_unfold
        SavePlan_no_plans RollbackPlan_no_plans split: option.split sum.split)
qed

lemma kv_run_no_plans:
  assumes "consul_spec k look" "no_plans (look s)" "\<forall>ev\<in>set evs. counted_version ev"
  shows "no_plans (look (fold (kv_step k) evs s))"
  using assms(2,3) by (induction evs arbitrary: s) (simp_all add: kv_step_no_plans [OF assms(1)])

text \<open>C7. With Consul as the store no plan is ever stored (except for a node called \<open>version\<close>):
  whatever the controller writes, starting without plans, \<open>GetPlan\<close> of the node finds none and
  \<open>SavePlan\<close> of a plan with a counted version fails with \<open>plan CAS failed\<close> and writes
  nothing.  The plan is written with its version as the index that its key must have, which a key
  that does not exist cannot have; the callers drop the error.\<close>

theorem consul_never_stores_a_plan:
  assumes "consul_spec k look" "\<forall>key. prefix planPrefix key \<longrightarrow> look s key = None"
    and "\<forall>ev\<in>set evs. counted_version ev" and "nid \<noteq> ''version''" "\<not> prefix ''version/'' nid"
    and "pl_NodeID p = nid" "0 < pl_Version p"
  shows "GetPlan_kv e k nid (fold (kv_step k) evs s) = Inr None
    \<and> SavePlan_kv e k p (fold (kv_step k) evs s) = (Some ''plan CAS failed'', fold (kv_step k) evs s)"
proof -
  have key: "plan_key (planPrefix @ nid)" using assms(4,5) by (simp add: plan_key_node)
  have "no_plans (look s)" using assms(2) by (simp add: no_plans_def plan_key_def)
  from kv_run_no_plans [OF assms(1) this assms(3)]
  have no: "no_plans (look (fold (kv_step k) evs s))" .
  then have "look (fold (kv_step k) evs s) (planPrefix @ nid) = None" using key by (simp add: no_plans_def)
  then have "GetPlan_kv e k nid (fold (kv_step k) evs s) = Inr None"
    by (simp add: GetPlan_kv_def get_value_def spec_ready [OF assms(1)] spec_get [OF assms(1)])
  then show ?thesis using SavePlan_refused [OF assms(1) no assms(7)] key assms(6) by simp
qed

section \<open>The nodes of both stores\<close>

lemma those_json_rules: "those (map (go_rule \<circ> json_rule) rs) = Some rs"
  by (induction rs) simp_all

lemma those_strings: "those (map (go_str \<circ> Str) xs) = Some xs"
  by (induction xs) simp_all

lemma go_node_record_json:
  assumes "int64 (n_ListenPort n)" "int64 (n_ASN n)"
  shows "go_node_record (json_node_record n) = Some n"
  using assms
  by (simp add: go_node_record_def json_node_record_def json_node_def wire_simps those_json_rules those_strings
      split del: if_split cong: if_cong)

text \<open>
  The memory store counts the version of a node up, the Consul store stores the one it is given:
  the stores are compared up to the two version fields.
\<close>

definition unversioned :: "node \<Rightarrow> node" where
  "unversioned n = n\<lparr>n_Version := [], n_ConfigVersion := []\<rparr>"

definition same_node :: "jsval \<times> int \<Rightarrow> node \<Rightarrow> bool" where
  "same_node vi n \<longleftrightarrow> map_option unversioned (decodeNodeRecord (fst vi)) = Some (unversioned n)
     \<and> int64 (n_ListenPort n) \<and> int64 (n_ASN n)"

definition same_nodes :: "(string \<Rightarrow> (jsval \<times> int) option) \<Rightarrow> mem_store \<Rightarrow> bool" where
  "same_nodes f m \<longleftrightarrow> (\<forall>nid. rel_option same_node (f (nodePrefix @ nid)) (GetNode nid m))"

lemma same_nodesD: "same_nodes f m \<Longrightarrow> rel_option same_node (f (nodePrefix @ nid)) (GetNode nid m)"
  by (simp add: same_nodes_def)

lemma same_node_stored:
  assumes "unversioned n = unversioned n'" "int64 (n_ListenPort n')" "int64 (n_ASN n')"
  shows "same_node (json_node_record n, i) n'"
proof -
  have "n_ListenPort n = n_ListenPort n'" "n_ASN n = n_ASN n'"
    using assms(1) by (cases n; cases n'; simp add: unversioned_def)+
  then have "go_node_record (json_node_record n) = Some n" using assms(2,3) by (simp add: go_node_record_json)
  then show ?thesis using assms by (simp add: same_node_def decodeNodeRecord_def unversioned_def)
qed

lemma same_nodes_put:
  assumes "same_nodes f m" "same_node (v, i) n" "nodes m' = AList.update nid n (nodes m)"
  shows "same_nodes (f(nodePrefix @ nid \<mapsto> (v, i))) m'"
  using assms(1,2) by (simp add: same_nodes_def GetNode_def assms(3) update_conv')

lemma foreign_node_key: "foreign (prefix nodePrefix)"
  by (simp add: foreign_def key_prefixes)

lemma same_nodes_keeps:
  assumes "same_nodes f m" "agrees (prefix nodePrefix) f g" "nodes m' = nodes m"
  shows "same_nodes g m'"
proof -
  have "g (nodePrefix @ nid) = f (nodePrefix @ nid)" for nid using assms(2) by (simp add: agrees_def)
  then show ?thesis using assms(1) by (simp add: same_nodes_def GetNode_def assms(3))
qed

text \<open>The operations of the memory store with the same effect, and the ports a store may hold.\<close>

fun mem_step :: "kv_event \<Rightarrow> mem_store \<Rightarrow> mem_store" where
  "mem_step (Kv_op e op) m = store_apply op m"
| "mem_step (Kv_prune nid cutoff) m = m"

fun valid_event :: "kv_event \<Rightarrow> bool" where
  "valid_event (Kv_op e (Op_UpsertNode n)) \<longleftrightarrow> int64 (n_ListenPort n) \<and> int64 (n_ASN n)"
| "valid_event _ \<longleftrightarrow> True"

lemma Upsert_same_nodes:
  assumes "consul_spec k look" "same_nodes (look s) m" "int64 (n_ListenPort n)" "int64 (n_ASN n)"
  shows "same_nodes (look (snd (UpsertNode_kv k n s))) (snd (UpsertNode n m))"
proof -
  obtain s' i where put: "kv_put k (nodePrefix @ n_ID n) (json_node_record n) s = (None, s')"
    "look s' = (look s)(nodePrefix @ n_ID n \<mapsto> (json_node_record n, i))"
    by (rule spec_put [OF assms(1), of "nodePrefix @ n_ID n" "json_node_record n" s])
  have same: "same_node (json_node_record n, i) (fst (UpsertNode n m))"
    using assms(3,4) by (intro same_node_stored) (simp_all add: UpsertNode_def Let_def unversioned_def)
  have "nodes (snd (UpsertNode n m)) = AList.update (n_ID n) (fst (UpsertNode n m)) (nodes m)"
    by (simp add: UpsertNode_def Let_def)
  from same_nodes_put [OF assms(2) same this] show ?thesis
    by (simp add: UpsertNode_kv_def put_value_def spec_ready [OF assms(1)] put)
qed

lemma UpdatePolicy_same_nodes:
  assumes "consul_spec k look" "same_nodes (look s) m"
  shows "case UpdatePolicy nid g r d b x m of
      None \<Rightarrow> UpdatePolicy_kv k nid g r d b x s = (Some ''node not found'', s)
    | Some m' \<Rightarrow> fst (UpdatePolicy_kv k nid g r d b x s) = None
        \<and> same_nodes (look (snd (UpdatePolicy_kv k nid g r d b x s))) m'"
proof (cases "GetNode nid m")
  case None
  then have "look s (nodePrefix @ nid) = None" using same_nodesD [OF assms(2), of nid] by simp
  then show ?thesis using None
    by (simp add: UpdatePolicy_def GetNode_def UpdatePolicy_kv_def get_value_def
        spec_ready [OF assms(1)] spec_get [OF assms(1)])
next
  case (Some n')
  let ?upd = "\<lambda>n. n\<lparr>n_EgressPeerID := g, n_PolicyRules := r, n_DefaultRoute := d, n_BypassCIDRs := b,
    n_DefaultRouteNextHop := x\<rparr>"
  obtain v i n where v: "look s (nodePrefix @ nid) = Some (v, i)" "decodeNodeRecord v = Some n"
    and eq: "unversioned n = unversioned n'" and ints: "int64 (n_ListenPort n')" "int64 (n_ASN n')"
    using same_nodesD [OF assms(2), of nid] unfolding Some
    by (auto simp: option_rel_Some2 same_node_def)
  obtain s' j where put: "kv_put k (nodePrefix @ nid) (json_node_record (?upd n)) s = (None, s')"
    "look s' = (look s)(nodePrefix @ nid \<mapsto> (json_node_record (?upd n), j))"
    by (rule spec_put [OF assms(1), of "nodePrefix @ nid" "json_node_record (?upd n)" s])
  have "unversioned (?upd n) = unversioned (?upd n')"
    using eq by (cases n; cases n') (simp add: unversioned_def)
  then have same: "same_node (json_node_record (?upd n), j) (?upd n')"
    using ints by (intro same_node_stored) simp_all
  have upd: "UpdatePolicy nid g r d b x m = Some (m\<lparr>nodes := AList.update nid (?upd n') (nodes m)\<rparr>)"
    using Some by (simp add: UpdatePolicy_def GetNode_def)
  show ?thesis
    using same_nodes_put [OF assms(2) same, of "m\<lparr>nodes := AList.update nid (?upd n') (nodes m)\<rparr>" nid]
    by (simp add: upd UpdatePolicy_kv_def get_value_def put_value_def spec_ready [OF assms(1)]
        spec_get [OF assms(1)] v put)
qed

lemma SavePlan_keeps_nodes:
  assumes "consul_spec k look"
  shows "agrees (prefix nodePrefix) (look s) (look (snd (SavePlan_kv e k p s)))"
  by (rule SavePlan_keeps [OF assms]) (simp_all add: key_prefixes history_key_def)

lemma RollbackPlan_keeps_nodes:
  assumes "consul_spec k look"
  shows "agrees (prefix nodePrefix) (look s) (look (snd (RollbackPlan_kv e k nid ver s)))"
  using SavePlan_keeps_nodes [OF assms]
  by (simp add: RollbackPlan_kv_def Let_def case_prod_unfold split: sum.split option.split)

lemma mem_other: "other_event ev \<Longrightarrow> nodes (mem_step ev m) = nodes m"
proof (cases ev)
  case (Kv_op e op)
  then show "other_event ev \<Longrightarrow> nodes (mem_step ev m) = nodes m"
    by (cases op) (simp_all add: SaveHealth_def PruneHealthBefore_def AppendAudit_def SavePolicyStatus_def
        SavePolicyDiag_def SaveTask_def SetGlobalPlanVersion_def UpdateSettings_def Let_def)
qed simp

lemma step_same_nodes:
  assumes "consul_spec k look" "same_nodes (look s) m" "valid_event ev"
  shows "same_nodes (look (kv_step k ev s)) (mem_step ev m)"
proof (cases "other_event ev")
  case True
  from same_nodes_keeps [OF assms(2) kv_step_keeps [OF assms(1) foreign_node_key True] mem_other [OF True]]
  show ?thesis .
next
  case False
  then obtain e op where ev: "ev = Kv_op e op" by (cases ev) simp_all
  note keep = same_nodes_keeps [OF assms(2)]
  show ?thesis
  proof (cases op)
    case (Op_UpsertNode n)
    then show ?thesis using Upsert_same_nodes [OF assms(1,2), of n] assms(3) ev by simp
  next
    case (Op_UpdatePolicy i g r d b x)
    then show ?thesis using UpdatePolicy_same_nodes [OF assms(1,2), of i g r d b x] assms(2) ev
      by (simp split: option.splits)
  next
    case (Op_SavePlan p)
    then show ?thesis using keep [OF SavePlan_keeps_nodes [OF assms(1)]] ev
      by (simp add: SavePlan_def Let_def)
  next
    case (Op_RollbackPlan i v)
    then show ?thesis using keep [OF RollbackPlan_keeps_nodes [OF assms(1)]] ev
      by (simp add: RollbackPlan_def Let_def split: option.split)
  qed (use False ev in simp_all)
qed

lemma run_same_nodes:
  assumes "consul_spec k look" "same_nodes (look s) m" "\<forall>ev\<in>set evs. valid_event ev"
  shows "same_nodes (look (fold (kv_step k) evs s)) (fold mem_step evs m)"
  using assms(2,3) by (induction evs arbitrary: s m) (simp_all add: step_same_nodes [OF assms(1)])

lemma same_nodes_get:
  assumes "consul_spec k look" "same_nodes (look s) m"
  shows "map_sum (\<lambda>err. err) (map_option unversioned) (GetNode_kv k nid s)
    = Inr (map_option unversioned (GetNode nid m))"
  using same_nodesD [OF assms(2), of nid] spec_ready [OF assms(1)] spec_get [OF assms(1)]
  by (cases "GetNode nid m")
    (auto simp: GetNode_kv_def get_value_def same_node_def option_rel_Some2)

text \<open>C6. The nodes of the Consul store refine those of the memory store: after the same run of
  operations from empty stores, whatever the nodes, policies, reports, tasks and plans, \<open>GetNode\<close>
  of both finds the same node, up to the two version fields, which only the memory store counts
  up, and a policy update is refused by both or by neither.
\<close>

theorem consul_nodes_refine_memory:
  assumes "consul_spec k look" "\<forall>key. look s key = None" "\<forall>ev\<in>set evs. valid_event ev"
  shows "let s' = fold (kv_step k) evs s; m' = fold mem_step evs NewMemoryStore
    in map_sum (\<lambda>err. err) (map_option unversioned) (GetNode_kv k nid s')
         = Inr (map_option unversioned (GetNode nid m'))
     \<and> (fst (UpdatePolicy_kv k nid g r d b x s') = None \<longleftrightarrow> UpdatePolicy nid g r d b x m' \<noteq> None)"
proof -
  have "same_nodes (look s) NewMemoryStore"
    using assms(2) by (simp add: same_nodes_def NewMemoryStore_def GetNode_def)
  note same = run_same_nodes [OF assms(1) this assms(3)]
  have "fst (UpdatePolicy_kv k nid g r d b x (fold (kv_step k) evs s)) = None
      \<longleftrightarrow> UpdatePolicy nid g r d b x (fold mem_step evs NewMemoryStore) \<noteq> None"
    using UpdatePolicy_same_nodes [OF assms(1) same, of nid g r d b x] by (auto split: option.splits)
  then show ?thesis unfolding Let_def using same_nodes_get [OF assms(1) same] by blast
qed

section \<open>A key-value store\<close>

text \<open>A key-value store as an association list with the index of the last write.\<close>

definition kv_write :: "string \<Rightarrow> jsval \<Rightarrow> (string \<times> jsval \<times> int) list \<times> nat \<Rightarrow> (string \<times> jsval \<times> int) list \<times> nat" where
  "kv_write key v s = (AList.update key (v, int (Suc (snd s))) (fst s), Suc (snd s))"

definition list_consul :: "((string \<times> jsval \<times> int) list \<times> nat) consul" where
  "list_consul = \<lparr>kv_ready = True,
     kv_get = (\<lambda>key s. Inr (map_option fst (map_of (fst s) key))),
     kv_put = (\<lambda>key v s. (None, kv_write key v s)),
     kv_cas = (\<lambda>key v i s. if cas_writes (map_of (fst s) key) i then (Inr True, kv_write key v s) else (Inr False, s)),
     kv_list = (\<lambda>pfx s. Inr (map (\<lambda>(key, v, _). (key, v)) (filter (\<lambda>(key, _). prefix pfx key) (AList.clearjunk (fst s))))),
     kv_delete = (\<lambda>key s. (AList.delete key (fst s), snd s))\<rparr>"

lemma map_of_kv_write: "map_of (fst (kv_write key v s)) = (map_of (fst s))(key \<mapsto> (v, int (Suc (snd s))))"
  by (simp add: kv_write_def update_conv')

lemma list_consul_lists:
  "set (map (\<lambda>(key, v, _). (key, v)) (filter (\<lambda>(key, _). prefix pfx key) (AList.clearjunk xs)))
    = {(key, v). prefix pfx key \<and> map_option fst (map_of xs key) = Some v}"
proof -
  have "(key, v, i) \<in> set (AList.clearjunk xs) \<longleftrightarrow> map_of xs key = Some (v, i)" for key v i
    using map_of_eq_Some_iff [OF distinct_clearjunk, of xs key "(v, i)"]
    by (simp add: map_of_clearjunk)
  then show ?thesis by force
qed

lemma list_consul_spec: "consul_spec list_consul (\<lambda>s. map_of (fst s))"
proof -
  have put: "\<exists>s' i. kv_put list_consul key v s = (None, s') \<and> 0 < i
      \<and> map_of (fst s') = (map_of (fst s))(key \<mapsto> (v, i))" for key v s
    by (rule exI [of _ "kv_write key v s"], rule exI [of _ "int (Suc (snd s))"])
      (simp add: list_consul_def map_of_kv_write)
  have cas: "if cas_writes (map_of (fst s) key) i
      then \<exists>s' j. kv_cas list_consul key v i s = (Inr True, s') \<and> 0 < j
        \<and> map_of (fst s') = (map_of (fst s))(key \<mapsto> (v, j))
      else kv_cas list_consul key v i s = (Inr False, s)" for key v i s
    by (cases "cas_writes (map_of (fst s) key) i")
      (auto simp: list_consul_def map_of_kv_write intro!: exI [of _ "int (Suc (snd s))"])
  have lst: "\<exists>ps. kv_list list_consul pfx s = Inr ps
      \<and> set ps = {(key, v). prefix pfx key \<and> map_option fst (map_of (fst s) key) = Some v}" for pfx s
    using list_consul_lists [of pfx "fst s"] by (simp add: list_consul_def)
  have del: "map_of (fst (kv_delete list_consul key s)) = (map_of (fst s))(key := None)" for key s
    by (simp add: list_consul_def delete_conv')
  show ?thesis unfolding consul_spec_def
    using put lst del by (intro conjI allI cas) (simp_all add: list_consul_def)
qed

text \<open>A node registers and its first plan, version 1, is saved.\<close>

theorem consul_never_stores_a_plan_witness:
  "let s = fold (kv_step list_consul) [Kv_op ex_env (Op_UpsertNode (node_zero\<lparr>n_ID := ''a''\<rparr>)),
        Kv_op ex_env (Op_SavePlan (new_plan ex_env (node_zero\<lparr>n_ID := ''a''\<rparr>) [] [] 1)),
        Kv_op ex_env (Op_SetGlobalPlanVersion 1)] ([], 0);
       p = new_plan ex_env (node_zero\<lparr>n_ID := ''a''\<rparr>) [] [] 2
   in GetPlan_kv ex_env list_consul ''a'' s = Inr None
    \<and> SavePlan_kv ex_env list_consul p s = (Some ''plan CAS failed'', s)"
  unfolding Let_def
  by (rule consul_never_stores_a_plan [OF list_consul_spec]) (simp_all add: node_zero_def)

text \<open>A node registers, gets a policy and registers again.\<close>

theorem consul_nodes_refine_memory_witness:
  "let n = node_zero\<lparr>n_ID := ''a'', n_ListenPort := 8082\<rparr>;
       evs = [Kv_op ex_env (Op_UpsertNode n), Kv_op ex_env (Op_UpdatePolicy ''a'' ''b'' [] True [] []),
              Kv_op ex_env (Op_UpsertNode n)];
       s' = fold (kv_step list_consul) evs ([], 0); m' = fold mem_step evs NewMemoryStore
   in map_sum (\<lambda>err. err) (map_option unversioned) (GetNode_kv list_consul ''a'' s')
        = Inr (map_option unversioned (GetNode ''a'' m'))
    \<and> (fst (UpdatePolicy_kv list_consul ''a'' ''b'' [] True [] [] s') = None
        \<longleftrightarrow> UpdatePolicy ''a'' ''b'' [] True [] [] m' \<noteq> None)"
  unfolding Let_def
  by (rule consul_nodes_refine_memory [OF list_consul_spec, unfolded Let_def])
    (simp_all add: node_zero_def int64_def)

end
