(* ===== verification/Go_Ping.thy ===== *)
theory Go_Ping
  imports Agent_Report Js_Nodes
begin

text \<open>
  The probe of a peer, \<open>ping\<close> of \<open>pkg/agent/health.go\<close>: reading the summary that the
  tool prints, and the connection that is tried instead when the tool fails.
\<close>

section \<open>The regular expressions\<close>

definition num_char :: "char \<Rightarrow> bool" where
  "num_char c \<longleftrightarrow> digit_val c \<noteq> None \<or> c = CHR ''.''"

text \<open>
  The leftmost match of \<open>([0-9.]+)\<close> before a text that starts with no such character: a
  match in the middle of a run of digits and dots starts at the beginning of the run, too.
\<close>

function run_before :: "string \<Rightarrow> string \<Rightarrow> string option" where
  "run_before suf [] = None"
| "run_before suf (c # s) =
     (if num_char c
      then (if prefix suf (dropWhile num_char s) then Some (c # takeWhile num_char s)
            else run_before suf (dropWhile num_char s))
      else run_before suf s)"
  by pat_completeness auto

termination
  by (relation "measure (length \<circ> snd)") (auto simp: le_imp_less_Suc length_dropWhile_le)

text \<open>The leftmost match of \<open>= ([0-9.]+)/\<close>.\<close>

definition run_at :: "string \<Rightarrow> string option" where
  "run_at s =
     (let run = takeWhile num_char (drop 2 s)
      in if prefix ''= '' s \<and> run \<noteq> [] \<and> prefix ''/'' (dropWhile num_char (drop 2 s)) then Some run else None)"

fun run_after :: "string \<Rightarrow> string option" where
  "run_after [] = None"
| "run_after (c # s) = (case run_at (c # s) of Some run \<Rightarrow> Some run | None \<Rightarrow> run_after s)"

text \<open>
  \<open>ParseFloat\<close> on digits and dots: the nearest \<open>float64\<close>.  A number that would be rounded
  to a power of two too large for the format is an error.
\<close>

definition parse_float :: "string \<Rightarrow> rat option" where
  "parse_float s =
     (case decimal_value s of
        Some v \<Rightarrow> (if v < 2 ^ 1024 - 2 ^ 970 then Some (round_float v) else None)
      | None \<Rightarrow> None)"

definition parsed_or_zero :: "string option \<Rightarrow> rat" where
  "parsed_or_zero m = (case m of None \<Rightarrow> 0 | Some s \<Rightarrow> (case parse_float s of None \<Rightarrow> 0 | Some v \<Rightarrow> v))"

definition parsePingLoss :: "string \<Rightarrow> rat" where
  "parsePingLoss s = parsed_or_zero (run_before ''% packet loss'' s)"

definition parsePingLatency :: "string \<Rightarrow> rat" where
  "parsePingLatency s = parsed_or_zero (run_after s)"

section \<open>The probe\<close>

text \<open>
  \<open>tool\<close> is what \<open>ping\<close> prints for an address when it succeeds; \<open>dial\<close> is the error of
  the connection to port 80, or the milliseconds it took, few enough to be a \<open>float64\<close>: it is given
  up after a second.  The answer is latency, loss and error.
\<close>

definition ping_peer :: "(string \<Rightarrow> string option) \<Rightarrow> (string \<Rightarrow> string + int) \<Rightarrow> prober" where
  "ping_peer tool dial target =
     (case tool target of
        Some out \<Rightarrow> (parsePingLatency out, parsePingLoss out, None)
      | None \<Rightarrow>
          (case dial target of
             Inl err \<Rightarrow> (0, 100, Some err)
           | Inr ms \<Rightarrow> (of_int ms, 0, None)))"

section \<open>Reading a summary\<close>

lemma run_before_skip:
  assumes "hd suf \<notin> set pre" "suf \<noteq> []" "pre = [] \<or> \<not> num_char (last pre)" "\<not> num_char (hd suf)"
    and "l \<noteq> []" "list_all num_char l"
  shows "run_before suf (pre @ l @ suf @ z) = Some l"
  using assms(1,3)
proof (induction "length pre" arbitrary: pre rule: less_induct)
  case less
  have ends: "takeWhile num_char (l @ suf @ z) = l" "dropWhile num_char (l @ suf @ z) = suf @ z"
    using assms(2,4,6) by (cases suf; simp add: list_all_iff)+
  show ?case
  proof (cases pre)
    case Nil
    obtain c t where l: "l = c # t" using assms(5) by (cases l) auto
    then have "num_char c" using assms(6) by simp
    then show ?thesis using ends unfolding l by (simp add: Nil l)
  next
    case (Cons c t)
    show ?thesis
    proof (cases "num_char c")
      case True
      then have "\<exists>x\<in>set t. \<not> num_char x" using less.prems(2) Cons by (cases t rule: rev_cases) auto
      then obtain x where x: "x \<in> set t" "\<not> num_char x" by blast
      let ?r = "dropWhile num_char t"
      have drop: "dropWhile num_char (t @ l @ suf @ z) = ?r @ l @ suf @ z"
        using dropWhile_append1 [of x t num_char "l @ suf @ z"] x by simp
      have ne: "?r \<noteq> []" using x by auto
      have "set ?r \<subseteq> set pre" unfolding Cons by (auto dest: set_dropWhileD)
      then have in_pre: "hd ?r \<in> set pre" "hd suf \<notin> set ?r"
        using hd_in_set [OF ne] less.prems(1) by (auto simp del: dropWhile_eq_Nil_conv)
      then have hd: "hd ?r \<noteq> hd suf" using less.prems(1) by metis
      have no: "\<not> prefix suf (?r @ l @ suf @ z)"
        using hd ne assms(2) by (cases suf; cases ?r; simp del: dropWhile_eq_Nil_conv)
      have t: "t = takeWhile num_char t @ ?r" by simp
      have "last t = last ?r" using arg_cong [OF t, of last] by (simp only: last_append ne if_False)
      then have "\<not> num_char (last ?r)" using less.prems(2) ne Cons by (cases "t = []") simp_all
      moreover have "length ?r < length pre" using length_dropWhile_le [of num_char t] Cons by simp
      ultimately have "run_before suf (?r @ l @ suf @ z) = Some l" using less.hyps [of ?r] in_pre(2) by blast
      then show ?thesis using True no by (simp add: Cons drop)
    next
      case False
      have "t = [] \<or> \<not> num_char (last t)" using less.prems(2) Cons by auto
      then show ?thesis using False less.hyps [of t] less.prems(1) by (simp add: Cons)
    qed
  qed
qed

lemma run_after_skip:
  assumes "\<not> sublist ''= '' (pre @ ''='')" "m \<noteq> []" "list_all num_char m"
  shows "run_after (pre @ ''= '' @ m @ ''/'' @ z) = Some m"
  using assms(1)
proof (induction pre)
  case Nil
  have slash: "\<not> num_char (CHR ''/'')" by code_simp
  have "takeWhile num_char (m @ ''/'' @ z) = m" "dropWhile num_char (m @ ''/'' @ z) = ''/'' @ z"
    using assms(3) slash by (simp_all add: list_all_iff)
  then show ?case using assms(2) by (simp add: run_at_def Let_def)
next
  case (Cons c pre)
  have "\<not> prefix ''= '' ((c # pre) @ ''= '' @ m @ ''/'' @ z)"
  proof
    assume "prefix ''= '' ((c # pre) @ ''= '' @ m @ ''/'' @ z)"
    then have "c = CHR ''=''" "prefix '' '' (pre @ ''='')" by (cases pre; simp)+
    then have "prefix ''= '' ((c # pre) @ ''='')" by simp
    with Cons.prems show False using prefix_imp_sublist by blast
  qed
  then have "run_at ((c # pre) @ ''= '' @ m @ ''/'' @ z) = None" by (simp only: run_at_def Let_def if_False simp_thms)
  moreover have "\<not> sublist ''= '' (pre @ ''='')"
    using Cons.prems by (simp add: sublist_Cons_right)
  ultimately show ?case using Cons.IH by simp
qed

section \<open>What the controller learns\<close>

text \<open>What \<open>ping\<close> prints: the summary with the loss, and the line with the times.\<close>

definition ping_text :: "string \<Rightarrow> string \<Rightarrow> string \<Rightarrow> string \<Rightarrow> string \<Rightarrow> string" where
  "ping_text pre l mid m z = pre @ l @ ''% packet loss'' @ mid @ ''= '' @ m @ ''/'' @ z"

definition readable :: "string \<Rightarrow> string \<Rightarrow> string \<Rightarrow> string \<Rightarrow> bool" where
  "readable pre l mid m \<longleftrightarrow> CHR ''%'' \<notin> set pre \<and> (pre = [] \<or> \<not> num_char (last pre))
     \<and> l \<noteq> [] \<and> list_all num_char l \<and> m \<noteq> [] \<and> list_all num_char m
     \<and> \<not> sublist ''= '' (pre @ l @ ''% packet loss'' @ mid @ ''='')"

lemma parse_ping_text:
  assumes "readable pre l mid m"
  shows "parsePingLoss (ping_text pre l mid m z) = parsed_or_zero (Some l)"
    and "parsePingLatency (ping_text pre l mid m z) = parsed_or_zero (Some m)"
proof -
  have pct: "\<not> num_char (hd ''% packet loss'')" by code_simp
  have "run_before ''% packet loss'' (pre @ l @ ''% packet loss'' @ (mid @ ''= '' @ m @ ''/'' @ z)) = Some l"
    using assms pct by (intro run_before_skip) (simp_all add: readable_def)
  then show "parsePingLoss (ping_text pre l mid m z) = parsed_or_zero (Some l)"
    by (simp only: parsePingLoss_def ping_text_def)
  have "run_after ((pre @ l @ ''% packet loss'' @ mid) @ ''= '' @ m @ ''/'' @ z) = Some m"
    using assms by (intro run_after_skip) (simp_all add: readable_def)
  then show "parsePingLatency (ping_text pre l mid m z) = parsed_or_zero (Some m)"
    by (simp only: parsePingLatency_def ping_text_def append_assoc)
qed

lemma parse_float_nonneg: "parse_float s = Some v \<Longrightarrow> 0 \<le> v"
proof -
  assume v: "parse_float s = Some v"
  then obtain w where w: "decimal_value s = Some w" "v = round_float w"
    by (auto simp: parse_float_def split: option.splits if_splits)
  have "0 \<le> w" using w(1) by (auto simp: decimal_value_def case_prod_beta simp del: list_all_append split: if_splits)
  then have "0 \<le> w / 2 powi float_unit w" by simp
  then have "0 \<le> round_even (w / 2 powi float_unit w)" by (simp add: round_even_def Let_def)
  then show "0 \<le> v" by (simp add: w(2) round_float_def)
qed

text \<open>What the agent writes of a report is what the controller reads, but for the time.\<close>

lemma go_map_omit:
  assumes "\<And>x y. (x, y) \<in> set m \<Longrightarrow> g (f y) = Some y"
  shows "go_map g (Obj (map (map_prod (\<lambda>x. x) f) m)) = Some m"
proof -
  have "map (\<lambda>(k, v). map_option (Pair k) (g v)) (map (map_prod (\<lambda>x. x) f) m) = map Some m"
    using assms by (auto simp: map_prod_def)
  then show ?thesis using those_map_Some [of "\<lambda>x. x" m] by (simp del: map_map map_eq_conv)
qed

lemma go_map_health:
  assumes "\<And>x y. (x, y) \<in> set m \<Longrightarrow> g (f y) = Some y" and "js_lookup k ps = Undef"
  shows "go_map g (js_lookup k (omit_obj k f m @ ps)) = Some m"
  using assms by (simp add: omit_obj_def go_map_omit del: go_map.simps(3))

lemma js_lookup_omit_obj [simp]: "k \<noteq> k' \<Longrightarrow> js_lookup k (omit_obj k' f m @ ps) = js_lookup k ps"
  by (simp add: omit_obj_def)

lemma go_health_json:
  assumes "list_all (\<lambda>(ip, n). int64 n) (h_LatencyMs r)"
    and "e_parse_time e (e_rfc3339 e (h_Timestamp r)) = Some t"
  shows "go_health e (json_health e r) = Some (r\<lparr>h_Timestamp := t\<rparr>)"
proof -
  have ints: "go_int (Number (of_int y)) = Some y" if "(x, y) \<in> set (h_LatencyMs r)" for x y
    using assms(1) that by (auto simp: list_all_iff int64_def)
  show ?thesis
    by (simp add: go_health_def json_health_def go_map_health ints assms(2) del: go_int.simps)
qed

lemma int64_float [simp]: "int64 (float_to_int v)"
  using float_to_int_range by (simp only: int64_def simp_thms)

lemma latencies_fit:
  "list_all (\<lambda>(ip, n). int64 n) (h_LatencyMs (health_of h ping nid ps))"
proof -
  have upd: "list_all (\<lambda>(ip, n). int64 n) (AList.update ip (float_to_int v) xs)"
    if "list_all (\<lambda>(ip, n). int64 n) xs" for ip v and xs :: "(string \<times> int) list"
    using that by (induction xs) auto
  have "list_all (\<lambda>(ip, n). int64 n) (fst (fold (probe_peer h ping) ps acc))"
    if "list_all (\<lambda>(ip, n). int64 n) (fst acc)" for acc
    using that by (induction ps arbitrary: acc) (simp_all add: probe_peer_def Let_def case_prod_beta upd)
  then show ?thesis by (simp add: health_of_def case_prod_beta)
qed

text \<open>Of the stored reports the last one under an id counts.\<close>

lemma map_of_health_by_node:
  assumes "list_all (\<lambda>(nid, h). h_NodeID h = nid) hs" and "distinct (map fst hs)"
  shows "map_of (health_by_node (map snd hs)) = map_of hs"
proof -
  have "map (\<lambda>h. (h_NodeID h, h)) (map snd hs) = hs"
    using assms(1) by (auto simp: list_all_iff intro!: map_idI)
  moreover have "map_of (rev hs) = map_of hs" using assms(2) by (simp add: map_of_inject_set rev_map [symmetric])
  ultimately show ?thesis by (simp add: health_by_node_def del: map_map)
qed

text \<open>An accepted report is stored, and the nodes stay as they are.\<close>

lemma health_post_stores:
  assumes "body (go_health e) rq = Some r" and "h_NodeID r \<noteq> []"
    and "authFuncJWT e rq \<or> agentAuthorized (store c) (h_NodeID r) (header ''X-Provision-Token'' rq)"
    and "store_inv (store c)"
  obtains c' where "health_post e rq c = (status_ok, c')" and "ListNodes (store c') = ListNodes (store c)"
    and "map_of (health_by_node (ListHealth (store c'))) (h_NodeID r) = Some (r\<lparr>h_Timestamp := e_now e\<rparr>)"
proof -
  let ?r = "r\<lparr>h_Timestamp := e_now e\<rparr>"
  let ?m = "SaveHealth (e_now e) ?r (store c)" and ?c' = "snd (health_post e rq c)"
  have 1: "health_post e rq c = (status_ok, ?c')" using assms(1-3) by (auto simp: health_post_def Let_def)
  have 2: "nodes (store ?c') = nodes (store c)" "health (store ?c') = health ?m"
    using assms(1-3) by (auto simp: health_post_def Let_def AppendAudit_def)
  have "keys_inv ?m"
    using assms(4) store_apply_keys_inv [of "store c" "Op_SaveHealth (e_now e) ?r"] by (simp add: store_inv_def)
  then have "map_of (health_by_node (ListHealth ?m)) = map_of (health ?m)"
    unfolding ListHealth_def by (intro map_of_health_by_node) (simp_all add: keys_inv_def)
  moreover have "map_of (health ?m) (h_NodeID r) = Some ?r"
    by (simp add: SaveHealth_def Let_def update_conv')
  ultimately have "map_of (health_by_node (ListHealth (store ?c'))) (h_NodeID r) = Some ?r"
    by (simp add: ListHealth_def 2)
  then show ?thesis using that [OF 1] 2(1) by (simp add: ListNodes_def)
qed

text \<open>C19. A report carries a summary of \<open>ping\<close> into the controller's mesh status: when the agent
  of \<open>a\<close> can read what \<open>ping\<close> prints for its peer \<open>b\<close>, its report is accepted and the record the
  controller then builds for the link of \<open>a\<close> and \<open>b\<close> has the loss of the summary and the whole
  milliseconds of the first time in the line of times, which is the smallest; the link counts as up
  when the loss is below 100.  The node \<open>a\<close> comes before \<open>b\<close> in the controller's list, so its
  report is asked first.  The page prints these numbers only of a link that is not up.\<close>

theorem ping_summary_reported:
  assumes "n_Endpoints a \<noteq> []" and "n_Endpoints b \<noteq> []" and "peer_of b \<in> set ps"
    and "CHR ''/'' \<in> set (n_OverlayIP b)" and "takeWhile (\<lambda>c. c \<noteq> CHR ''/'') (n_OverlayIP b) \<noteq> []"
    and "tool (ipWithoutMask (n_OverlayIP b)) = Some (ping_text pre l mid m z)" and "readable pre l mid m"
    and "parse_float l = Some lv" and "parse_float m = Some mv" and "\<lfloor>mv\<rfloor> < 2 ^ 63"
    and "n_ID a \<noteq> []" and "rq_body rq = Some (json_health e (health_of h (ping_peer tool dial) (n_ID a) ps))"
    and "authFuncJWT e rq \<or> agentAuthorized (store c) (n_ID a) (header ''X-Provision-Token'' rq)"
    and "e_parse_time e (e_rfc3339 e (ho_now h)) \<noteq> None"
    and "store_inv (store c)" and "(a, b) \<in> set (mesh_pairs (ListNodes (store c)))"
  shows "\<exists>c' k. health_post e rq c = (status_ok, c')
    \<and> k = link_status_of (health_by_node (ListHealth (store c'))) a b
    \<and> k \<in> set (buildLinkStatuses (ListNodes (store c')) (ListHealth (store c')))
    \<and> (lk_OK k \<longleftrightarrow> lv < 100) \<and> lk_LatencyMs k = \<lfloor>mv\<rfloor> \<and> lk_PacketLoss k = lv"
proof -
  let ?ip = "ipWithoutMask (n_OverlayIP b)" and ?r = "health_of h (ping_peer tool dial) (n_ID a) ps"
  have ip: "?ip \<noteq> []" using assms(4,5) by (simp add: ipWithoutMask_def Let_def)
  have r: "h_NodeID ?r = n_ID a" "h_Timestamp ?r = ho_now h" by (simp_all add: health_of_def case_prod_beta)
  obtain t where t: "e_parse_time e (e_rfc3339 e (h_Timestamp ?r)) = Some t" using assms(14) unfolding r by blast
  have b: "body (go_health e) rq = Some (?r\<lparr>h_Timestamp := t\<rparr>)"
    by (simp add: body_def assms(12) go_health_json [OF latencies_fit t])
  obtain c' where c': "health_post e rq c = (status_ok, c')" "ListNodes (store c') = ListNodes (store c)"
    "map_of (health_by_node (ListHealth (store c'))) (n_ID a) = Some (?r\<lparr>h_Timestamp := t, h_Timestamp := e_now e\<rparr>)"
    using health_post_stores [OF b _ _ assms(15)] assms(11,13) r by auto
  have "ping_peer tool dial ?ip = (mv, lv, None)"
    by (simp add: ping_peer_def assms(6,8,9) parse_ping_text [OF assms(7)] parsed_or_zero_def)
  from health_of_probe [where ping = "ping_peer tool dial", OF assms(3) peerOverlayIP_node [OF assms(4,5)] ip this]
  have "probe (health_by_node (ListHealth (store c'))) (n_ID a) ?ip = Some (\<lfloor>mv\<rfloor>, lv, ?ip)"
    using float_to_int_floor [OF parse_float_nonneg [OF assms(9)] assms(10)] by (simp add: probe_def c'(3))
  then have "let k = link_status_of (health_by_node (ListHealth (store c'))) a b
      in (lk_OK k \<longleftrightarrow> lv < 100) \<and> lk_LatencyMs k = \<lfloor>mv\<rfloor> \<and> lk_PacketLoss k = lv"
    using assms(1,2) by (simp add: link_status_of_def Let_def)
  moreover have "link_status_of (health_by_node (ListHealth (store c'))) a b
      \<in> set (buildLinkStatuses (ListNodes (store c')) (ListHealth (store c')))"
    using assms(16) by (force simp: buildLinkStatuses_def c'(2))
  ultimately show ?thesis using c'(1) unfolding Let_def by blast
qed

text \<open>An address that does not answer is in no report.\<close>

lemma probes_skip:
  assumes "snd (snd (ping ip)) \<noteq> None" "map_of (fst acc) ip = None"
  shows "map_of (fst (fold (probe_peer h ping) ps acc)) ip = None"
  using assms(2)
proof (induction ps arbitrary: acc)
  case (Cons p ps)
  have "map_of (fst (probe_peer h ping p acc)) ip = None"
    using Cons.prems assms(1)
    by (auto simp: probe_peer_def Let_def case_prod_beta update_conv')
  then show ?case using Cons.IH by simp
qed simp

lemma health_of_silent:
  "snd (snd (ping ip)) \<noteq> None \<Longrightarrow> map_of (h_LatencyMs (health_of h ping nid ps)) ip = None"
  using probes_skip [of ping ip "([], [])" h ps] by (simp add: health_of_def case_prod_beta)

text \<open>C29. A peer that answers nothing is not reported as lost: when neither \<open>ping\<close> nor the
  connection to port 80 reaches it, from either side, the mesh status has the link with the reason \<open>no
  telemetry\<close> and a loss of 0, as if nobody had looked; the loss of 100 that the code returns with
  the error is dropped.\<close>

theorem silent_peer_is_unknown:
  assumes "n_Endpoints a \<noteq> []" and "n_Endpoints b \<noteq> []"
    and "tool (ipWithoutMask (n_OverlayIP b)) = None" and "dial (ipWithoutMask (n_OverlayIP b)) = Inl err"
    and "tool' (ipWithoutMask (n_OverlayIP a)) = None" and "dial' (ipWithoutMask (n_OverlayIP a)) = Inl err'"
    and "map_of reports (n_ID a) = Some (health_of h (ping_peer tool dial) (n_ID a) ps)"
    and "map_of reports (n_ID b) = Some (health_of h' (ping_peer tool' dial') (n_ID b) ps')"
  shows "let k = link_status_of reports a b
    in \<not> lk_OK k \<and> lk_Reason k = ''no telemetry'' \<and> lk_PacketLoss k = 0"
proof -
  have "probe reports (n_ID a) (ipWithoutMask (n_OverlayIP b)) = None"
    "probe reports (n_ID b) (ipWithoutMask (n_OverlayIP a)) = None"
    by (simp_all add: probe_def assms(7,8) health_of_silent ping_peer_def assms(3-6))
  then show ?thesis using assms(1,2) by (simp add: link_status_of_def Let_def)
qed

section \<open>Examples\<close>

definition ex_ping_text :: string where
  "ex_ping_text = ping_text ''4 packets transmitted, 3 received, '' ''25'' '', time 3004ms, rtt min/avg/max/mdev ''
     ''12.5'' ''12.7/13.0/0.1 ms''"

definition ex_masked :: "string \<Rightarrow> string \<Rightarrow> node" where
  "ex_masked nid ip = (ex_node nid)\<lparr>n_OverlayIP := ip @ ''/32''\<rparr>"

text \<open>Numbers of few bits are read exactly.\<close>

lemma ex_floats: "parse_float ''25'' = Some 25" "parse_float ''12.5'' = Some (25 / 2)"
proof -
  have v: "decimal_value ''25'' = Some 25" "decimal_value ''12.5'' = Some (25 / 2)"
    by (simp_all add: decimal_value_def digits_val_def digit_val_def)
  have "round_float 25 = 25" "round_float (25 / 2) = 25 / 2"
    by (rule round_float_exact [where m = 25 and k = 0]; simp)
       (rule round_float_exact [where m = 25 and k = "-1"]; simp)
  then show "parse_float ''25'' = Some 25" "parse_float ''12.5'' = Some (25 / 2)" using v by (simp_all add: parse_float_def)
qed

definition ex_stored :: "string \<Rightarrow> string \<Rightarrow> node" where
  "ex_stored nid ip = (ex_masked nid ip)\<lparr>n_Version := versionString 1, n_ConfigVersion := versionString 1\<rparr>"

definition ex_ping_store :: mem_store where
  "ex_ping_store = fold store_apply
     [Op_UpsertNode (ex_masked ''n1'' ''10.10.1.1''), Op_UpsertNode (ex_masked ''n2'' ''10.10.2.1'')] NewMemoryStore"

theorem ping_summary_reported_witness:
  "let b = ex_stored ''n2'' ''10.10.2.1''; c = set_store ex_ping_store ex_ctl;
       rq = \<lparr>rq_url = [], rq_method = ''POST'', rq_headers = ex_headers, rq_body = Some (json_health ex_env
         (health_of ex_host (ping_peer (\<lambda>_. Some ex_ping_text) (\<lambda>_. Inl ''refused'')) ''n1'' [peer_of b]))\<rparr>
   in \<exists>c' k. health_post ex_env rq c = (status_ok, c') \<and> lk_OK k \<and> lk_LatencyMs k = 12 \<and> lk_PacketLoss k = 25
        \<and> k \<in> set (buildLinkStatuses (ListNodes (store c')) (ListHealth (store c')))"
proof -
  let ?a = "ex_stored ''n1'' ''10.10.1.1''" and ?b = "ex_stored ''n2'' ''10.10.2.1''"
  let ?c = "set_store ex_ping_store ex_ctl" and ?ping = "ping_peer (\<lambda>_. Some ex_ping_text) (\<lambda>_. Inl ''refused'')"
  let ?rq = "\<lparr>rq_url = [], rq_method = ''POST'', rq_headers = ex_headers,
    rq_body = Some (json_health ex_env (health_of ex_host ?ping ''n1'' [peer_of ?b]))\<rparr>"
  have nodes: "n_Endpoints ?a \<noteq> []" "n_Endpoints ?b \<noteq> []" "n_OverlayIP ?b = ''10.10.2.1/32''" "n_ID ?a = ''n1''"
    by (simp_all add: ex_stored_def ex_masked_def ex_node_def)
  have ip: "CHR ''/'' \<in> set ''10.10.2.1/32''" "takeWhile (\<lambda>c. c \<noteq> CHR ''/'') ''10.10.2.1/32'' \<noteq> []"
    by simp_all
  have read: "readable ''4 packets transmitted, 3 received, '' ''25'' '', time 3004ms, rtt min/avg/max/mdev '' ''12.5''"
    by code_simp
  have floor: "\<lfloor>25 / 2 :: rat\<rfloor> = 12" by (rule floor_unique) simp_all
  have inv: "store_inv (store ?c)"
    by (simp add: ex_ping_store_def store_run_inv store_inv_init del: fold.simps)
  have "ListNodes (store ?c) = [?a, ?b]"
    by (simp add: ex_ping_store_def ListNodes_def UpsertNode_def NewMemoryStore_def ex_stored_def ex_masked_def
        ex_node_def node_zero_def Let_def)
  then have pair: "(?a, ?b) \<in> set (mesh_pairs (ListNodes (store ?c)))" by simp
  have time: "e_parse_time ex_env (e_rfc3339 ex_env (ho_now ex_host)) \<noteq> None"
    by (simp add: ex_env_def ex_host_def show_int_def all_digits_show_nat)
  obtain c' k where "health_post ex_env ?rq ?c = (status_ok, c')"
    "k \<in> set (buildLinkStatuses (ListNodes (store c')) (ListHealth (store c')))"
    "(lk_OK k \<longleftrightarrow> (25::rat) < 100) \<and> lk_LatencyMs k = \<lfloor>25 / 2 :: rat\<rfloor> \<and> lk_PacketLoss k = 25"
    using ping_summary_reported [OF nodes(1,2) list.set_intros(1) ip [folded nodes(3)] _ read ex_floats _ _ _ _ time inv pair,
        of "\<lambda>_. Some ex_ping_text" "''12.7/13.0/0.1 ms''" ?rq "\<lambda>_. Inl ''refused''" "[]"]
      ex_jwt floor by (auto simp: ex_ping_text_def nodes)
  then show ?thesis unfolding Let_def floor by auto
qed

theorem silent_peer_is_unknown_witness:
  "let a = ex_masked ''n1'' ''10.10.1.1''; b = ex_masked ''n2'' ''10.10.2.1'';
       dead = ping_peer (\<lambda>_. None) (\<lambda>_. Inl ''refused'');
       k = link_status_of [(''n1'', health_of ex_host dead ''n1'' [peer_of b]),
         (''n2'', health_of ex_host dead ''n2'' [peer_of a])] a b
   in lk_Reason k = ''no telemetry'' \<and> lk_PacketLoss k = 0"
proof -
  let ?a = "ex_masked ''n1'' ''10.10.1.1''" and ?b = "ex_masked ''n2'' ''10.10.2.1''"
  let ?dead = "ping_peer (\<lambda>_. None) (\<lambda>_. Inl ''refused'')"
  show ?thesis
    using silent_peer_is_unknown [of ?a ?b "\<lambda>_. None" "\<lambda>_. Inl ''refused''" "''refused''" "\<lambda>_. None"
        "\<lambda>_. Inl ''refused''" "''refused''" "[(''n1'', health_of ex_host ?dead ''n1'' [peer_of ?b]),
           (''n2'', health_of ex_host ?dead ''n2'' [peer_of ?a])]" ex_host "[peer_of ?b]" ex_host "[peer_of ?a]"]
    by (simp add: Let_def ex_masked_def ex_node_def)
qed

end
