(* ===== verification/Spec2Isabelle.thy ===== *)
theory Spec2Isabelle
  imports Path_Flow Page_Flow Go_Properties Admin_Flow Session_Flow Hub_Flow Js_Poll
    Agent_Report Host_Flow Mesh_Flow Go_Wait Go_Tunnels Consul_Flow Go_Ping
begin

text \<open>
  A verification development for \<open>peer-wan\<close>: a controller (Go) keeps the nodes of a
  WireGuard overlay and their policies, a web page (React, \<open>src/frontend\<close>) edits them, and
  an agent (Go) on every node turns them into WireGuard, routes and firewall rules.  The page is
  modelled in full, handlers and markup, the controller route by route, and the agent down to
  the commands it runs, so that theorems can follow a click on the page into the store and back,
  and from there into the routing tables of a node.

  PARTS AND THEORIES.

  Shared.  \<open>Prelude\<close>: lists, association lists, splitting, trimming, decimal numbers, 64-bit wrap-around
  and floating point.
  \<open>Ui_Text\<close>, \<open>Ui_Labels\<close>, \<open>Go_Text\<close>, \<open>Agent_Text\<close>: the texts of the page, of the
  diagnosis and of the agent as UTF-8 bytes.  \<open>Js_Value\<close>: JavaScript values and the expressions the page uses
  (optional chaining, \<open>||\<close>, template strings, JSON), with a thrown exception as the left side
  of a sum.  \<open>Url\<close>: \<open>encodeURIComponent\<close> and the query parser of the server.

  The page's handlers, under \<open>src/frontend/src\<close>.  \<open>Js_Api\<close>: \<open>api.js\<close>
  (\<open>storage\<close>, \<open>api\<close>, \<open>useAsync\<close>).  \<open>Js_Session\<close>: \<open>App.jsx\<close>,
  \<open>pages/Login.jsx\<close>, \<open>pages/Register.jsx\<close>, and what \<open>pages/Admin.jsx\<close> writes into
  \<open>storage\<close>.  \<open>Js_WS\<close>: \<open>hooks/useWS.js\<close>.  \<open>Js_Mesh\<close>:
  \<open>components/MeshStatus.jsx\<close> and the path selection of \<open>PolicyDrawer.jsx\<close>.
  \<open>Js_Policy\<close>: the handlers of \<open>components/PolicyDrawer.jsx\<close>; \<open>Js_Drawer\<close>: the
  drawer with its calls in flight as a step relation; \<open>Js_Poll\<close>: its polling.
  \<open>Js_Nodes\<close>: \<open>NodeFormModal.jsx\<close>, \<open>EndpointDrawer.jsx\<close>, \<open>NodesTable.jsx\<close> and
  the install dialog of \<open>Admin.jsx\<close>.  \<open>Js_Cards\<close>: the history and diagnosis dialogs and
  the settings and status cards.  \<open>Js_Admin\<close>: the whole page of \<open>Admin.jsx\<close>, its state
  with that of every component, as a step relation over clicks, answers and effects.
  A component's \<open>useState\<close> values are the fields of a record; a handler is a function of
  that record.  A handler that awaits is cut at the \<open>await\<close> into a start and a done
  function, and composed with \<open>fetch\<close>, which is an argument: a function of the request and
  of the world that gives an answer or a rejection and the next world.

  What the page shows.  \<open>Js_View\<close>: elements with their properties, handlers and children;
  rendering gives markup or the exception it throws.  \<open>View_Mesh\<close>, \<open>View_Policy\<close>,
  \<open>View_Nodes\<close>, \<open>View_Cards\<close>, \<open>View_Session\<close>: the JSX of every component, with the
  action of every button, and the shape of the data (\<open>..._shape\<close>) for which it renders.

  The controller, under \<open>src/pkg\<close>.  \<open>Go_Model\<close>: \<open>model/*.go\<close>.  \<open>Go_Store\<close>:
  \<open>store/memory.go\<close>.  \<open>Go_Topology\<close>: \<open>topology/plan.go\<close>.  \<open>Go_Rules\<close>:
  \<open>expandPolicyRules\<close> of \<open>api/controller.go\<close>, and forwarding by its rules.
  \<open>Go_Wire\<close>: decoding and encoding of JSON.  \<open>Go_Http\<close>: the state of the controller and
  what all handlers share.  \<open>Go_Policy_Api\<close>: \<open>api/policy.go\<close>, \<open>api/tasks.go\<close> and
  \<open>handleTaskStep\<close> of \<open>api/ws.go\<close>.  \<open>Go_Controller\<close>: settings, plans and
  \<open>api/prepare.go\<close>.  \<open>Go_Node_Api\<close>: the remaining routes of \<open>api/controller.go\<close>.
  \<open>Go_Status\<close>: \<open>api/status.go\<close>.  \<open>Go_Diagnose\<close>: \<open>api/diagnose.go\<close>.
  \<open>Go_Auth\<close>: \<open>api/auth.go\<close>.  \<open>Go_Hub\<close>: \<open>api/ws.go\<close> with its connections, as events in
  any order.  \<open>Go_Wait\<close>: \<open>waitForVersion\<close> and the plan route that waits for a version,
  while other requests change the state.  \<open>Go_Consul\<close>: \<open>consul/store_consul.go\<close>, the
  second store; the key-value store of Consul is the record \<open>consul\<close> of its operations.  \<open>Go_Server\<close>: the mux, and \<open>controller_fetch\<close>, which answers the page's
  requests with these handlers.
  A handler maps the environment of a request (clock, UUID, key pair, token check, hashes,
  locations, time format), the query, the request and the state to the answer and the next
  state; every \<open>http.Error\<close> is a branch, and a panic is an answer of its own.

  The agent, under \<open>src/pkg\<close>.  \<open>Go_Expand\<close>: \<open>policy/geoip.go\<close>, the networks of a
  rule.  \<open>Go_Render\<close>: the files of \<open>wireguard/render.go\<close> and \<open>frr/bgp.go\<close>, the
  tunnels of \<open>agent/wstunnel.go\<close> and what \<open>agent/render.go\<close> adds to the peers.
  \<open>Go_Host\<close>: the routes of \<open>agent/render.go\<close> and the firewall of \<open>agent/nat.go\<close>; a
  command (\<open>ip\<close>, \<open>iptables\<close>) is a value that acts on the tables of the kernel, which are
  the state.  \<open>Go_Routes\<close>: what stays and what changes in these tables.  \<open>Go_Agent\<close>:
  the state of the agent, merging, writing and applying a plan (\<open>agent/plan.go\<close>,
  \<open>render.go\<close>, \<open>apply.go\<close>, \<open>ws_client.go\<close>).  \<open>Go_Agent_Tasks\<close>: diagnosis, plans,
  commands, tasks, verification and health reports (\<open>plan.go\<close>, \<open>verify.go\<close>,
  \<open>health.go\<close>).  \<open>Go_Agent_Main\<close>: \<open>cmd/agent/main.go\<close>, with addresses as lists of
  8-bit words.  \<open>Go_Tunnels\<close>: the processes of \<open>agent/wstunnel.go\<close> and the watcher over
  them, as events.  \<open>Go_Ping\<close>: reading the output of \<open>ping\<close>, and what the mesh status of the
  controller makes of it.  Each operation is a function of the agent's state; what the tools of the host
  answer, and which of their calls fail, are fields of the record \<open>host\<close>.

  Together.  \<open>Example\<close>: one concrete browser and controller.  \<open>Policy_Flow\<close>,
  \<open>Drawer_Flow\<close>: the policy drawer.  \<open>Path_Flow\<close>: a clicked path as a rule of the store.
  \<open>Page_Flow\<close>: the other dialogs.  \<open>Page_System\<close>, \<open>Admin_Flow\<close>: the whole page.
  \<open>Status_Flow\<close>: the status page and the diagnosis.  \<open>Session_Flow\<close>: registration and
  sign-in.  \<open>Hub_Flow\<close>: the hub with the routes and with the live log.
  \<open>Go_Properties\<close>: single requests.  \<open>Agent_Wire\<close>: the configuration as the controller
  encodes and the agent decodes it.  \<open>Agent_Laws\<close>: what the operations of the agent leave
  alone.  \<open>Agent_Flow\<close>: from the distributed rules to the routes of a node.
  \<open>Agent_Policy\<close>: a submitted or cleared policy at the agent.  \<open>Agent_Report\<close>: tasks and
  health reports at the controller.  \<open>Host_Flow\<close>: the tables and files of a host.
  \<open>Mesh_Flow\<close>: the plans pushed to all agents and the way traffic takes through their routing
  tables.  \<open>Consul_Flow\<close>: the laws of Consul's key-value store (\<open>consul_spec\<close>), and the
  Consul store beside the memory store.  The present theory: editing a policy and the routing
  that follows from it.

  INTERFACES.  \<open>policy_backend\<close>: what a policy drawer needs of a server to show again what
  was submitted.  \<open>drawer_backend\<close> and \<open>page_backend\<close>: answers of such a shape that
  rendering does not throw, whatever was asked.  \<open>store_keeper\<close>: a property of the store
  that every write of every route keeps.  Each is interpreted on the model of the controller
  (\<open>ctl\<close>, \<open>desk\<close>, \<open>home\<close>, and \<open>sound\<close> and \<open>routing\<close> for two store
  properties), and the theorems rest on these interpretations.

  WHAT THE LEMMAS SHOW.  \<open>store_inv\<close> (versions, capped logs and histories, current plan
  is the last of the history, unique keys, reports under the ids of their nodes) holds after
  every store operation, and so after every request, whose routes write through these operations only.  The drawer and the settings card show what was saved.  The hop-by-hop rules
  route along the clicked path, and forwarding ends exactly when the last node is visited
  once.  Over HTTP nothing changes without an accepted token, or
  the provision token of the very node, but for the first registration.  The page throws in no state it
  reaches with the controller while the API base stays and the lines of every log frame are an array.  The status page lists the broken pairs,
  and a diagnosis concludes what its report says.  The hub refines the abstract links the
  routes use, and log lines reach exactly the pages that watch their node.  The hook holds at
  most one socket, the drawer polls for the node it shows, and \<open>useAsync\<close> shows its spinner
  only for a call in flight.  Everything drawn on the map lies in its canvas and is coloured
  as the list beside it says.  An agent that applies its plan forwards as the controller
  planned, and the tables of all agents carry traffic through the nodes the distributed rules
  name, where no agent without a rule for it has one left from before.  Every task an agent is given
  ends at the controller, what it measures of a link reaches the mesh status, its firewall rules follow
  the settings, and the endpoint of a peer is the tunnel to its host, unless it is overridden.  A request that waits for a plan is answered after at most forty sleeps.  The nodes
  of the Consul store refine those of the memory store.  Some theorems record behaviour that
  surprises: a late answer puts one node's policy on another, a wrong API base or a malformed log
  message takes the page down, a reconnecting agent is cut off, a refused password locks
  everybody out, the endpoint dialog deletes the policy, a submitted policy is not sent and a
  cleared one never taken back, a health report switches the default route off, an early task removes all peers, overlay routes are pruned as
  soon as they are made, a tunnel that ended is not restarted, a link that is down
  is reported as one without telemetry, and Consul never stores a plan.

  BOUNDS.  \<open>follow\<close> takes the number of hops to walk; the theorems use the length of the
  path, and state that the last node has no further hop, so no larger number changes the walk.
  \<open>forward\<close> walks until there is no hop and is \<open>None\<close> when it never ends.
  All other recursions are structural or come with a termination proof.  Go integers are
  \<open>int\<close>: the decoder refuses numbers outside the range of their type, and the counters
  only count requests; durations, which wrap around, do so (\<open>wrap64\<close>).  Numbers that Go parses or
  computes as \<open>float64\<close> are rounded to the nearest one (\<open>round_float\<close>), and a conversion to
  \<open>int\<close> gives what it gives on amd64.  Map iteration is in insertion order, which Go leaves open.

  NOT MODELLED.  Styling (\<open>style\<close>, \<open>size\<close>, \<open>width\<close>); React's scheduling beyond the
  order of renders, effects and answers; antd, which validates fields and draws elements; the
  texts \<open>JSON.stringify\<close> and \<open>Date\<close> print; static files and certificates (an argument
  \<open>others\<close> of the server); bcrypt, JWT, the location service and SQL, whose answers are in
  the environment; the routes with the Consul store in place of the memory store; the flags and
  the periodic jobs of the controller program; the watch of the agent on Consul; two messages
  handled by the agent at the same time, and its sqlite log of operations; the order in which Go walks a map, which is the order of the list here;
  the generated bundle, which is a build of the modelled sources.
\<close>

section \<open>Editing the policy of a node\<close>

text \<open>C5. Submitting the policy drawer and opening it again shows what was submitted: the
  rules with their prefixes trimmed and \<open>viaNode\<close> filled in, the egress node, the default
  route, the bypass networks that remain of the comma-separated field, and the next hop;
  the submit reports success.\<close>

theorem submit_then_load:
  assumes known: "ctl_known b envs origin nid w"
    and rules: "go_list go_rule (stringify (pd_rules s)) = Some rs"
    and form: "js_lookup ''egressPeerId'' (pd_form s) = Str e"
      "js_lookup ''defaultRoute'' (pd_form s) = Boolean d"
      "js_lookup ''bypassCidrs'' (pd_form s) = Str bp"
      "js_lookup ''defaultRouteNextHop'' (pd_form s) = Str h"
    and valid: "rs = [] \<or> (\<exists>r\<in>set rs. Validate (prepare_rule r))"
    and submit: "drawer_submit b (controller_fetch others envs origin) nid s w = (s1, w1)"
    and load: "drawer_load b (controller_fetch others envs origin) nid s0 w1 = (s2, w2)"
  shows "pd_toasts s1 = pd_toasts s @ [Success msg_policy_submitted] \<and>
    pd_rules s2 = Arr (map (json_rule \<circ> prepare_rule) rs) \<and>
    js_lookup ''egressPeerId'' (pd_form s2) = Str e \<and>
    js_lookup ''defaultRoute'' (pd_form s2) = Boolean d \<and>
    js_lookup ''bypassCidrs'' (pd_form s2) = Str (join '','' (split_trim bp)) \<and>
    js_lookup ''defaultRouteNextHop'' (pd_form s2) = (if h = [] then Undef else Str h)"
proof -
  let ?q = "\<lparr>q_NodeID = nid, q_EgressPeer = e, q_PolicyRules = rs, q_DefaultRoute = d,
    q_BypassCIDRs = split_trim bp, q_DefaultRouteNextHop = h\<rparr>"
  have sends: "sends nid s = Some ?q"
    using sends_form [OF rules form] .
  have acc: "acceptable ?q" using valid by (auto simp: acceptable_def list_ex_iff)
  show ?thesis
    using ctl.submit [OF known sends acc submit] ctl.submit_load [OF known sends acc submit load]
    by (auto simp: shows_policy_def accepted_def)
qed

theorem submit_then_load_witness:
  "let s = drawer_init\<lparr>pd_rules := Arr [Obj [(''prefix'', Str '' 10.9.0.0/16 ''), (''viaNode'', Undef),
        (''path'', Arr [Str ''n2'', Str ''n3''])]],
      pd_form := [(''egressPeerId'', Str ''n2''), (''defaultRoute'', Boolean True),
        (''bypassCidrs'', Str '' 10.0.0.0/8, ,192.168.0.0/16''), (''defaultRouteNextHop'', Str [])]\<rparr>;
      r1 = drawer_submit ex_browser ex_fetch ''n1'' s ex_world;
      s2 = fst (drawer_load ex_browser ex_fetch ''n1'' drawer_init (snd r1))
   in pd_rules s2 = Arr [Obj [(''prefix'', Str ''10.9.0.0/16''), (''viaNode'', Str ''n3''),
        (''path'', Arr [Str ''n2'', Str ''n3''])]]
      \<and> js_lookup ''bypassCidrs'' (pd_form s2) = Str ''10.0.0.0/8,192.168.0.0/16''"
proof -
  let ?s = "drawer_init\<lparr>pd_rules := Arr [Obj [(''prefix'', Str '' 10.9.0.0/16 ''), (''viaNode'', Undef),
        (''path'', Arr [Str ''n2'', Str ''n3''])]],
      pd_form := [(''egressPeerId'', Str ''n2''), (''defaultRoute'', Boolean True),
        (''bypassCidrs'', Str '' 10.0.0.0/8, ,192.168.0.0/16''), (''defaultRouteNextHop'', Str [])]\<rparr>"
  let ?rs = "[\<lparr>pr_prefix = '' 10.9.0.0/16 '', pr_viaNode = [], pr_path = [''n2'', ''n3''], pr_domains = []\<rparr>]"
  have trim: "go_trim_space '' 10.9.0.0/16 '' = ''10.9.0.0/16''"
    "join '','' (split_trim '' 10.0.0.0/8, ,192.168.0.0/16'') = ''10.0.0.0/8,192.168.0.0/16''"
    by code_simp+
  have rules: "go_list go_rule (stringify (pd_rules ?s)) = Some ?rs"
    by (simp add: go_rule_def drawer_init_def)
  have valid: "?rs = [] \<or> (\<exists>r\<in>set ?rs. Validate (prepare_rule r))"
    by (simp add: prepare_rule_def Validate_def trim)
  have known: "ctl_known ex_browser (\<lambda>_. ex_env) ''http://c'' ''n1'' ex_world"
    by (simp add: ex_known)
  show ?thesis
    using submit_then_load [OF known rules _ _ _ _ valid prod.collapse [symmetric] prod.collapse [symmetric],
        where e = "''n2''" and d = True and bp = "'' 10.0.0.0/8, ,192.168.0.0/16''" and h = "[]"
          and others = "\<lambda>_. None" and ?s0.0 = drawer_init]
    by (simp add: Let_def json_rule_def prepare_rule_def trim omit_list_def)
qed

text \<open>C15. Opening the drawer and submitting it without an edit changes no policy of any node,
  when the stored policy is as the controller stores it and its bypass networks are as the
  field's splitting makes them.\<close>

theorem load_then_submit_changes_nothing:
  assumes "ctl_known b envs origin nid w" and "clean_items (q_BypassCIDRs (ctl_policy nid w))"
    and "accepted (ctl_policy nid w) = ctl_policy nid w" and "acceptable (ctl_policy nid w)"
    and "drawer_load b (controller_fetch others envs origin) nid s w = (s1, w1)"
    and "drawer_submit b (controller_fetch others envs origin) nid s1 w1 = (s2, w2)"
  shows "policy_of k (store (fst w2)) = policy_of k (store (fst w))"
  using ctl.load_submit [OF assms, of k] by (simp add: ctl_policy_def)

theorem load_then_submit_changes_nothing_witness:
  "policy_of ''n1'' (store (fst (snd (drawer_submit ex_browser ex_fetch ''n1''
       (fst (drawer_load ex_browser ex_fetch ''n1'' drawer_init ex_world))
       (snd (drawer_load ex_browser ex_fetch ''n1'' drawer_init ex_world))))))
     = policy_of ''n1'' (store (fst ex_world))"
proof (rule load_then_submit_changes_nothing [OF ex_known _ _ _ prod.collapse [symmetric] prod.collapse [symmetric]])
  have p: "ctl_policy ''n1'' ex_world = \<lparr>q_NodeID = ''n1'', q_EgressPeer = [], q_PolicyRules = [],
      q_DefaultRoute = False, q_BypassCIDRs = [], q_DefaultRouteNextHop = []\<rparr>"
    by (simp add: ctl_policy_def policy_of_def ex_world_def ex_nodes ex_node_def node_zero_def)
  show "clean_items (q_BypassCIDRs (ctl_policy ''n1'' ex_world))"
    "accepted (ctl_policy ''n1'' ex_world) = ctl_policy ''n1'' ex_world"
    "acceptable (ctl_policy ''n1'' ex_world)"
    by (simp_all add: p clean_items_def accepted_def acceptable_def)
qed simp

text \<open>C11. Submitting touches the policy of the edited node only, and a policy with rules none of which
  is valid is refused: an error is shown and no policy changes at all.  A policy without any rule is
  accepted.\<close>

theorem submit_touches_one_node:
  assumes "ctl_known b envs origin nid w" and "sends nid s = Some q"
    and "drawer_submit b (controller_fetch others envs origin) nid s w = (s', w')"
  shows "(k \<noteq> nid \<longrightarrow> policy_of k (store (fst w')) = policy_of k (store (fst w)))
    \<and> (if acceptable q then pd_toasts s' = pd_toasts s @ [Success msg_policy_submitted]
       else (\<exists>msg. pd_toasts s' = pd_toasts s @ [Failure msg])
         \<and> policy_of nid (store (fst w')) = policy_of nid (store (fst w)))"
proof (cases "acceptable q")
  case True
  then show ?thesis using ctl.submit [OF assms(1,2) _ assms(3), of k] by (simp add: ctl_policy_def)
next
  case False
  then show ?thesis
    using ctl.submit_rejected [OF assms(1,2) _ assms(3), of k]
      ctl.submit_rejected [OF assms(1,2) _ assms(3), of nid]
    by (auto simp: ctl_policy_def)
qed

theorem submit_touches_one_node_witness:
  "let s = drawer_init\<lparr>pd_rules := Arr [Obj [(''prefix'', Str '' '')]],
      pd_form := [(''egressPeerId'', Str []), (''defaultRoute'', Boolean False), (''bypassCidrs'', Str []),
        (''defaultRouteNextHop'', Str [])]\<rparr>;
      r = drawer_submit ex_browser ex_fetch ''n1'' s ex_world
   in (\<exists>msg. pd_toasts (fst r) = [Failure msg])
      \<and> policy_of ''n1'' (store (fst (snd r))) = policy_of ''n1'' (store (fst ex_world))"
proof -
  let ?s = "drawer_init\<lparr>pd_rules := Arr [Obj [(''prefix'', Str '' '')]],
      pd_form := [(''egressPeerId'', Str []), (''defaultRoute'', Boolean False), (''bypassCidrs'', Str []),
        (''defaultRouteNextHop'', Str [])]\<rparr>"
  let ?r = "\<lparr>pr_prefix = '' '', pr_viaNode = [], pr_path = [], pr_domains = []\<rparr>"
  have "split_trim [] = []" "go_trim_space '' '' = []" by code_simp+
  then have sends: "sends ''n1'' ?s = Some \<lparr>q_NodeID = ''n1'', q_EgressPeer = [], q_PolicyRules = [?r],
      q_DefaultRoute = False, q_BypassCIDRs = [], q_DefaultRouteNextHop = []\<rparr>"
    and "\<not> acceptable \<lparr>q_NodeID = ''n1'', q_EgressPeer = [], q_PolicyRules = [?r],
      q_DefaultRoute = False, q_BypassCIDRs = [], q_DefaultRouteNextHop = []\<rparr>"
    using sends_form [of ?s "[?r]" "[]" False "[]" "[]" "''n1''"]
    by (simp_all add: go_rule_def drawer_init_def acceptable_def prepare_rule_def Validate_def)
  then show ?thesis
    using submit_touches_one_node [OF ex_known sends prod.collapse [symmetric], where others = "\<lambda>_. None" and k = "''n1''"]
    by (simp add: Let_def drawer_init_def)
qed

text \<open>C2. Traffic follows the clicked path: when the user clicks a path that visits no node twice,
  adds a rule for a prefix no other rule has, and submits, then with the hop-by-hop rules
  the controller distributes from its store, traffic for the prefix goes from the node
  through the clicked nodes in order, and the last of them is the egress, which forwards no
  further.\<close>

theorem clicked_path_is_followed:
  assumes known: "ctl_known b envs origin nid w" and inv: "store_inv (store (fst w))"
    and others: "\<forall>p h. others p = Some h \<longrightarrow> keeps store_inv h"
    and path: "pd_currentPath s = select_path nid clicks" "select_path nid clicks \<noteq> []"
      "distinct (select_path nid clicks)"
    and vals: "distinct (map fst values)" "js_lookup ''prefix'' values = Str p"
      "js_lookup ''domains'' values = Str ds" "go_trim_space p \<noteq> []"
    and rules: "pd_rules s = Arr vs" "go_list go_rule (stringify (Arr vs)) = Some rs"
    and form: "js_lookup ''egressPeerId'' (pd_form s) = Str e"
      "js_lookup ''defaultRoute'' (pd_form s) = Boolean d"
      "js_lookup ''bypassCidrs'' (pd_form s) = Str bp"
      "js_lookup ''defaultRouteNextHop'' (pd_form s) = Str h"
    and own: "\<forall>x\<in>set rs. go_trim_space (pr_prefix x) \<noteq> go_trim_space p"
    and other: "\<forall>n\<in>set (ListNodes (store (fst w))). n_ID n \<noteq> nid \<longrightarrow>
      (\<forall>x\<in>set (n_PolicyRules n). pr_prefix x \<noteq> go_trim_space p)"
    and add: "addRule values s = Inr s1"
    and submit: "drawer_submit b (controller_fetch others envs origin) nid s1 w = (s2, w2)"
  shows "follow (expandPolicyRules (ListNodes (store (fst w2)))) (go_trim_space p)
      (length (select_path nid clicks)) nid = nid # select_path nid clicks
    \<and> next_hop (expandPolicyRules (ListNodes (store (fst w2)))) (go_trim_space p)
      (last (select_path nid clicks)) = None"
proof -
  let ?path = "select_path nid clicks"
  let ?r = "\<lparr>pr_prefix = p, pr_viaNode = last ?path, pr_path = ?path, pr_domains = split_trim ds\<rparr>"
  let ?q = "\<lparr>q_NodeID = nid, q_EgressPeer = e, q_PolicyRules = rs @ [?r], q_DefaultRoute = d,
    q_BypassCIDRs = split_trim bp, q_DefaultRouteNextHop = h\<rparr>"
  have s1: "go_list go_rule (stringify (pd_rules s1)) = Some (rs @ [?r])" "pd_form s1 = pd_form s"
    using addRule_rule [OF vals(1-3) _ rules add] path by simp_all
  have sends: "sends nid s1 = Some ?q" using sends_form [OF s1(1)] form s1(2) by simp
  have pre: "pr_prefix (prepare_rule x) = go_trim_space (pr_prefix x)"
    "pr_path (prepare_rule x) = pr_path x" for x by (simp_all add: prepare_rule_def Let_def)
  have "Validate (prepare_rule ?r)" using vals(4) path(2) by (simp add: Validate_def pre)
  then have acc: "acceptable ?q" by (simp add: acceptable_def)
  note S = ctl.submit [OF known sends acc submit]
  have "sole_rule (ListNodes (store (fst w2))) nid (prepare_rule ?r)"
  proof (rule submitted_rule_is_sole [where q = ?q and m = "store (fst w)"])
    show "store_inv (store (fst w2))" by (rule drawer_submit_inv [OF others inv submit])
    show "policy_of k (store (fst w2)) = (if k = nid then accepted ?q else policy_of k (store (fst w)))" for k
      using S [of k] by (simp add: ctl_policy_def)
    show "GetNode nid (store (fst w2)) \<noteq> None" using S [of nid] known by (simp add: ctl_known_def)
    show "(GetNode k (store (fst w2)) = None) = (GetNode k (store (fst w)) = None)" for k
      by (rule known_nodes [OF known sends acc submit])
  qed (use inv own other pre in auto)
  moreover have "distinct (nid # ?path)" using path(3) by (simp add: select_path_filter)
  ultimately show ?thesis
    using follow_path [where xs = "[]" and k = nid and ys = ?path and pr = "prepare_rule ?r"] path(2)
    by (simp add: pre)
qed

theorem clicked_path_is_followed_witness:
  "\<exists>s1. addRule [(''prefix'', Str ''10.9.0.0/16''), (''domains'', Str [])]
      (drawer_init\<lparr>pd_currentPath := select_path ''n1'' [''n2'', ''n1'', ''n3''],
        pd_form := [(''egressPeerId'', Str []), (''defaultRoute'', Boolean False), (''bypassCidrs'', Str []),
          (''defaultRouteNextHop'', Str [])]\<rparr>) = Inr s1
    \<and> follow (expandPolicyRules (ListNodes (store (fst (snd (drawer_submit ex_browser ex_fetch ''n1'' s1 ex_world))))))
        ''10.9.0.0/16'' 2 ''n1'' = [''n1'', ''n2'', ''n3'']"
proof -
  let ?v = "[(''prefix'', Str ''10.9.0.0/16''), (''domains'', Str [])]"
  let ?s = "drawer_init\<lparr>pd_currentPath := select_path ''n1'' [''n2'', ''n1'', ''n3''],
        pd_form := [(''egressPeerId'', Str []), (''defaultRoute'', Boolean False), (''bypassCidrs'', Str []),
          (''defaultRouteNextHop'', Str [])]\<rparr>"
  have path: "select_path ''n1'' [''n2'', ''n1'', ''n3''] = [''n2'', ''n3'']"
    by (simp add: select_path_filter)
  have trim: "go_trim_space ''10.9.0.0/16'' = ''10.9.0.0/16''" by code_simp
  obtain s1 where add: "addRule ?v ?s = Inr s1"
    by (simp add: addRule_def rule_domains_def drawer_init_def Let_def)
  have "\<forall>n\<in>set (ListNodes (store (fst ex_world))). n_PolicyRules n = []"
  proof
    fix n assume "n \<in> set (ListNodes (store (fst ex_world)))"
    then have "GetNode (n_ID n) ex_store = Some n"
      using ListNodes_GetNode(2) [OF ex_inv] by (simp add: ex_world_def)
    then show "n_PolicyRules n = []"
      by (auto simp: ex_nodes ex_node_def node_zero_def split: if_splits)
  qed
  then have "follow (expandPolicyRules (ListNodes (store (fst (snd (drawer_submit ex_browser ex_fetch ''n1'' s1 ex_world))))))
        ''10.9.0.0/16'' 2 ''n1'' = [''n1'', ''n2'', ''n3'']"
    using clicked_path_is_followed [OF ex_known ex_inv _ _ _ _ _ _ _ _ _ _ _ _ _ _ _ _ add prod.collapse [symmetric],
        where nid = "''n1''" and clicks = "[''n2'', ''n1'', ''n3'']" and others = "\<lambda>_. None" and p = "''10.9.0.0/16''" and ds = "[]"
          and vs = "[]" and rs = "[]" and e = "[]" and d = False and bp = "[]" and h = "[]"]
    by (simp add: path trim drawer_init_def numeral_2_eq_2 del: follow.simps)
  then show ?thesis using add by blast
qed

text \<open>C38. The node id reaches the server unchanged: in every URL the page builds for a node, and
  whatever characters the id has, the query the server parses yields that id, the part before
  the question mark is the route, and the limits asked for are read as 40 and 1.\<close>

theorem node_id_reaches_server:
  "\<forall>(path, route)\<in>set [(policy_path nid, ''/api/v1/policy''), (logs_path nid, ''/api/v1/policy/status''),
       (tasks_path nid, ''/api/v1/tasks''), (diag_path nid, ''/api/v1/policy/diag''),
       (history_path nid, ''/api/v1/health/history''), (diagnose_path nid, ''/api/v1/diagnose''),
       (the (logs_ws_path (Some nid)), ''/api/v1/ws/logs'')].
     fst (cut (CHR ''?'') path) = route \<and> query_get (snd (cut (CHR ''?'') path)) ''nodeId'' = nid
   \<and> query_limit (snd (cut (CHR ''?'') (logs_path nid))) ''limit'' 20 = 40
   \<and> query_limit (snd (cut (CHR ''?'') (diag_path nid))) ''limit'' 10 = 1"
proof -
  have c: "cut (CHR ''?'') (r @ CHR ''?'' # q) = (r, q)" if "CHR ''?'' \<notin> set r" for r q
    using that by (rule cut_append)
  have plain: "plain_key ''hours''" by code_simp
  have enc: "encodeURIComponent ''40'' = ''40''" "encodeURIComponent ''1'' = ''1''"
    "encodeURIComponent ''24'' = ''24''" by code_simp+
  have atoi: "Atoi ''40'' = Some 40" "Atoi ''1'' = Some 1" by code_simp+
  have two: "query_get (setting ''nodeId'' nid @ ''&limit='' @ v) ''nodeId'' = nid"
    "query_get (setting ''nodeId'' nid @ ''&limit='' @ v) ''limit'' = v"
    if "encodeURIComponent v = v" for v
    using query_get_settings [of "[(''nodeId'', nid), (''limit'', v)]" "''nodeId''" nid]
      query_get_settings [of "[(''nodeId'', nid), (''limit'', v)]" "''limit''" v] that
    by (simp_all add: setting_def)
  have hours: "query_get (setting ''nodeId'' nid @ ''&hours=24'') ''nodeId'' = nid"
    using query_get_settings [of "[(''nodeId'', nid), (''hours'', ''24'')]" "''nodeId''" nid] plain
      enc by (simp add: setting_def)
  show ?thesis
    using c two [of "''40''"] two [of "''1''"] hours enc atoi
    by (simp add: policy_path_def logs_path_def tasks_path_def diag_path_def history_path_def
        diagnose_path_def logs_ws_path_def query_get_setting query_limit_def)
qed

theorem node_id_reaches_server_witness:
  "query_get (snd (cut (CHR ''?'') (policy_path ''a&b=c?d''))) ''nodeId'' = ''a&b=c?d''"
  using node_id_reaches_server [of "''a&b=c?d''"] by simp

end
